(* ===== verification/Prelude.thy ===== *)
theory Prelude
  imports Main
begin

text \<open>
  Shared vocabulary of the development: times, the result-and-state computations in which the
  effectful Rust functions are written, their weakest preconditions, the frame contract for
  relations between the world before and after a computation, and the pieces of Rust's standard
  library (number parsing and printing, string trimming and splitting) the components use.
\<close>

named_theorems wp_rules \<open>weakest preconditions of the primitive computations\<close>
named_theorems decides \<open>definitions of the pure decision functions\<close>

section \<open>Time\<close>

text \<open>
  \<open>std::time::Instant\<close> and \<open>std::time::Duration\<close> are counts of nanoseconds, instants from an
  arbitrary origin. Durations in the code are at most a day plus a few minutes, so the panicking
  overflow of \<open>Instant + Duration\<close> (beyond \<open>2 ^ 63\<close> seconds) is not reached; the one place
  where the code asks for it, \<open>Instant::checked_add\<close>, keeps the bound.
\<close>

type_synonym instant = nat
type_synonym duration = nat

definition from_millis :: "nat \<Rightarrow> duration" where
  "from_millis n = n * 1000000"

definition from_secs :: "nat \<Rightarrow> duration" where
  "from_secs n = n * 1000000000"

definition as_secs :: "duration \<Rightarrow> nat" where
  "as_secs d = d div 1000000000"

definition INSTANT_MAX :: instant where
  "INSTANT_MAX = (2 ^ 63 - 1) * 1000000000 + 999999999"

definition instant_checked_add :: "instant \<Rightarrow> duration \<Rightarrow> instant option" where
  "instant_checked_add t d = (if t + d \<le> INSTANT_MAX then Some (t + d) else None)"

definition saturating_duration_since :: "instant \<Rightarrow> instant \<Rightarrow> duration" where
  "saturating_duration_since later earlier = later - earlier"

lemma as_secs_from_secs [simp]: "as_secs (from_secs n) = n"
  by (simp add: as_secs_def from_secs_def)

lemma from_secs_mono [simp]: "from_secs m \<le> from_secs n \<longleftrightarrow> m \<le> n"
  by (simp add: from_secs_def)

section \<open>Options\<close>

text \<open>\<open>Option::is_some_and\<close> and \<open>Option::is_none_or\<close>.\<close>

fun is_some_and :: "'a option \<Rightarrow> ('a \<Rightarrow> bool) \<Rightarrow> bool" where
  "is_some_and None P = False"
| "is_some_and (Some x) P = P x"

fun is_none_or :: "'a option \<Rightarrow> ('a \<Rightarrow> bool) \<Rightarrow> bool" where
  "is_none_or None P = True"
| "is_none_or (Some x) P = P x"

fun unwrap_or :: "'a option \<Rightarrow> 'a \<Rightarrow> 'a" where
  "unwrap_or None d = d"
| "unwrap_or (Some x) d = x"

lemma is_some_and_iff: "is_some_and ox P \<longleftrightarrow> (\<exists>x. ox = Some x \<and> P x)"
  by (cases ox) auto

lemma is_none_or_iff: "is_none_or ox P \<longleftrightarrow> (\<forall>x. ox = Some x \<longrightarrow> P x)"
  by (cases ox) auto

fun is_ok :: "'e + 'a \<Rightarrow> bool" where
  "is_ok (Inl e) = False"
| "is_ok (Inr a) = True"

lemma is_ok_iff: "is_ok r \<longleftrightarrow> (\<exists>a. r = Inr a)"
  by (cases r) auto

section \<open>Computations with errors and state\<close>

text \<open>
  A Rust function that performs effects and returns \<open>Result\<close> is a function from the world to a
  result and the world it leaves; an error keeps the effects performed before it. \<open>bindE\<close> is
  the \<open>?\<close> operator followed by the rest of the body, \<open>tryE\<close> is a \<open>match\<close> on a \<open>Result\<close>,
  \<open>finallyE\<close> runs a destructor on every way out.
\<close>

type_synonym ('w, 'e, 'a) eff = "'w \<Rightarrow> ('e + 'a) \<times> 'w"

definition returnE :: "'a \<Rightarrow> ('w, 'e, 'a) eff" where
  "returnE a = (\<lambda>w. (Inr a, w))"

definition raiseE :: "'e \<Rightarrow> ('w, 'e, 'a) eff" where
  "raiseE e = (\<lambda>w. (Inl e, w))"

definition bindE :: "('w, 'e, 'a) eff \<Rightarrow> ('a \<Rightarrow> ('w, 'e, 'b) eff) \<Rightarrow> ('w, 'e, 'b) eff" where
  "bindE m f = (\<lambda>w. case m w of (Inl e, w') \<Rightarrow> (Inl e, w') | (Inr a, w') \<Rightarrow> f a w')"

definition thenE :: "('w, 'e, 'a) eff \<Rightarrow> ('w, 'e, 'b) eff \<Rightarrow> ('w, 'e, 'b) eff" where
  "thenE m n = bindE m (\<lambda>_. n)"

definition getsE :: "('w \<Rightarrow> 'a) \<Rightarrow> ('w, 'e, 'a) eff" where
  "getsE f = (\<lambda>w. (Inr (f w), w))"

definition modifyE :: "('w \<Rightarrow> 'w) \<Rightarrow> ('w, 'e, unit) eff" where
  "modifyE f = (\<lambda>w. (Inr (), f w))"

definition tryE :: "('w, 'e, 'a) eff \<Rightarrow> ('w, 'f, 'e + 'a) eff" where
  "tryE m = (\<lambda>w. (Inr (fst (m w)), snd (m w)))"

definition liftR :: "'e + 'a \<Rightarrow> ('w, 'e, 'a) eff" where
  "liftR r = (\<lambda>w. (r, w))"

definition finallyE :: "('w, 'e, 'a) eff \<Rightarrow> ('w \<Rightarrow> 'w) \<Rightarrow> ('w, 'e, 'a) eff" where
  "finallyE m f = (\<lambda>w. (fst (m w), f (snd (m w))))"

text \<open>\<open>map_err\<close>: the conversion \<open>?\<close> applies to the error.\<close>

definition mapErrE :: "('e \<Rightarrow> 'f) \<Rightarrow> ('w, 'e, 'a) eff \<Rightarrow> ('w, 'f, 'a) eff" where
  "mapErrE g m = (\<lambda>w. (case fst (m w) of Inl e \<Rightarrow> Inl (g e) | Inr a \<Rightarrow> Inr a, snd (m w)))"

text \<open>A \<open>for\<close> loop over a list whose body may fail.\<close>

fun eachE :: "('b \<Rightarrow> ('w, 'e, unit) eff) \<Rightarrow> 'b list \<Rightarrow> ('w, 'e, unit) eff" where
  "eachE f [] = returnE ()"
| "eachE f (x # xs) = thenE (f x) (eachE f xs)"

subsection \<open>Weakest preconditions\<close>

text \<open>
  \<open>wp m Q E w\<close>: run from \<open>w\<close>, \<open>m\<close> either returns with \<open>Q\<close> or fails with \<open>E\<close>. All
  computations terminate, so this is total correctness.
\<close>

definition wp :: "('w, 'e, 'a) eff \<Rightarrow> ('a \<Rightarrow> 'w \<Rightarrow> bool) \<Rightarrow> ('e \<Rightarrow> 'w \<Rightarrow> bool) \<Rightarrow> 'w \<Rightarrow> bool" where
  "wp m Q E w = (case m w of (Inl e, w') \<Rightarrow> E e w' | (Inr a, w') \<Rightarrow> Q a w')"

lemma wp_returnE [wp_rules]: "wp (returnE a) Q E w = Q a w"
  by (simp add: wp_def returnE_def)

lemma wp_raiseE [wp_rules]: "wp (raiseE e) Q E w = E e w"
  by (simp add: wp_def raiseE_def)

lemma wp_bindE [wp_rules]: "wp (bindE m f) Q E w = wp m (\<lambda>a. wp (f a) Q E) E w"
  by (simp add: wp_def bindE_def split: prod.splits sum.splits)

lemma wp_thenE [wp_rules]: "wp (thenE m n) Q E w = wp m (\<lambda>_. wp n Q E) E w"
  by (simp add: thenE_def wp_bindE)

lemma wp_getsE [wp_rules]: "wp (getsE f) Q E w = Q (f w) w"
  by (simp add: wp_def getsE_def)

lemma wp_modifyE [wp_rules]: "wp (modifyE f) Q E w = Q () (f w)"
  by (simp add: wp_def modifyE_def)

lemma wp_tryE [wp_rules]:
  "wp (tryE m) Q E w = wp m (\<lambda>a. Q (Inr a)) (\<lambda>e. Q (Inl e)) w"
  by (simp add: wp_def tryE_def split: prod.splits sum.splits)

lemma wp_liftR [wp_rules]: "wp (liftR r) Q E w = (case r of Inl e \<Rightarrow> E e w | Inr a \<Rightarrow> Q a w)"
  by (simp add: wp_def liftR_def split: sum.splits)

lemma wp_finallyE [wp_rules]:
  "wp (finallyE m f) Q E w = wp m (\<lambda>a w'. Q a (f w')) (\<lambda>e w'. E e (f w')) w"
  by (simp add: wp_def finallyE_def split: prod.splits sum.splits)

lemma wp_mapErrE [wp_rules]: "wp (mapErrE g m) Q E w = wp m Q (\<lambda>e. E (g e)) w"
  by (simp add: wp_def mapErrE_def split: prod.splits sum.splits)

lemma wp_mono:
  assumes "wp m Q E w" and "\<And>a w'. Q a w' \<Longrightarrow> Q' a w'" and "\<And>e w'. E e w' \<Longrightarrow> E' e w'"
  shows "wp m Q' E' w"
  using assms by (auto simp: wp_def split: prod.splits sum.splits)

lemma wp_bindI:
  assumes "wp m Q' E' w" and "\<And>a w'. Q' a w' \<Longrightarrow> wp (f a) Q E w'" and "\<And>e w'. E' e w' \<Longrightarrow> E e w'"
  shows "wp (bindE m f) Q E w"
  unfolding wp_bindE by (rule wp_mono [OF assms])

lemma wp_thenI:
  assumes "wp m Q' E' w" and "\<And>a w'. Q' a w' \<Longrightarrow> wp n Q E w'" and "\<And>e w'. E' e w' \<Longrightarrow> E e w'"
  shows "wp (thenE m n) Q E w"
  unfolding wp_thenE by (rule wp_mono [OF assms])

lemma wp_conj:
  "wp m Q E w \<Longrightarrow> wp m Q' E' w \<Longrightarrow> wp m (\<lambda>a w. Q a w \<and> Q' a w) (\<lambda>e w. E e w \<and> E' e w) w"
  by (auto simp: wp_def split: prod.splits sum.splits)

lemma wp_result:
  "wp m Q E w \<Longrightarrow> m w = (r, w') \<Longrightarrow> case r of Inl e \<Rightarrow> E e w' | Inr a \<Rightarrow> Q a w'"
  by (simp add: wp_def split: sum.splits)

lemma wp_eqI: "wp m (\<lambda>a w'. r = (Inr a, w')) (\<lambda>e w'. r = (Inl e, w')) w \<Longrightarrow> m w = r"
  by (auto simp: wp_def split: prod.splits sum.splits)

subsection \<open>Frames\<close>

text \<open>\<open>stays R m\<close>: whatever \<open>m\<close> returns, the world it leaves is related to its start.\<close>

definition stays :: "('w \<Rightarrow> 'w \<Rightarrow> bool) \<Rightarrow> ('w, 'e, 'a) eff \<Rightarrow> bool" where
  "stays R m \<longleftrightarrow> (\<forall>w. R w (snd (m w)))"

lemma staysD: "stays R m \<Longrightarrow> m w = (r, w') \<Longrightarrow> R w w'"
  by (metis snd_conv stays_def)

lemma stays_wp: "stays R m \<Longrightarrow> wp m (\<lambda>_. R w) (\<lambda>_. R w) w"
  by (auto simp: stays_def wp_def split: prod.splits sum.splits dest: spec [of _ w])

lemma stays_mono: "stays R m \<Longrightarrow> (\<And>w w'. R w w' \<Longrightarrow> R' w w') \<Longrightarrow> stays R' m"
  by (auto simp: stays_def)

lemma wp_stays: "(\<And>w. wp m (\<lambda>_. R w) (\<lambda>_. R w) w) \<Longrightarrow> stays R m"
proof -
  assume a: "\<And>w. wp m (\<lambda>_. R w) (\<lambda>_. R w) w"
  have "R w (snd (m w))" for w
    using a [of w] by (cases "m w"; cases "fst (m w)") (auto simp: wp_def)
  then show ?thesis by (simp add: stays_def)
qed

text \<open>
  The contract: a relation that is reflexive and transitive is kept by a sequence when each of
  its parts keeps it. Every "this operation never touches \<dots>" and "this is only done after \<dots>"
  of the development is an interpretation.
\<close>

locale world_preorder =
  fixes R :: "'w \<Rightarrow> 'w \<Rightarrow> bool"
  assumes R_refl: "R w w"
    and R_trans: "R u v \<Longrightarrow> R v w \<Longrightarrow> R u w"
begin

lemma stays_returnE: "stays R (returnE a)"
  by (simp add: stays_def returnE_def R_refl)

lemma stays_raiseE: "stays R (raiseE e)"
  by (simp add: stays_def raiseE_def R_refl)

lemma stays_getsE: "stays R (getsE f)"
  by (simp add: stays_def getsE_def R_refl)

lemma stays_liftR: "stays R (liftR r)"
  by (simp add: stays_def liftR_def R_refl)

lemma stays_bindE:
  assumes m: "stays R m" and f: "\<And>a. stays R (f a)"
  shows "stays R (bindE m f)"
  unfolding stays_def
proof
  fix w
  obtain r w' where r: "m w = (r, w')" by fastforce
  then have "R w w'" using m by (metis snd_conv stays_def)
  moreover have "r = Inr a \<Longrightarrow> R w' (snd (f a w'))" for a
    using f by (simp add: stays_def)
  ultimately show "R w (snd (bindE m f w))"
    by (cases r) (auto simp: bindE_def r intro: R_trans)
qed

lemma stays_thenE: "stays R m \<Longrightarrow> stays R n \<Longrightarrow> stays R (thenE m n)"
  by (simp add: thenE_def stays_bindE)

lemma stays_tryE: "stays R m \<Longrightarrow> stays R (tryE m)"
  by (simp add: stays_def tryE_def)

lemma stays_finallyE: "stays R m \<Longrightarrow> (\<And>w. R w (f w)) \<Longrightarrow> stays R (finallyE m f)"
  unfolding stays_def finallyE_def by (auto intro: R_trans)

lemma stays_modifyE: "(\<And>w. R w (f w)) \<Longrightarrow> stays R (modifyE f)"
  by (simp add: stays_def modifyE_def)

lemma stays_mapErrE: "stays R m \<Longrightarrow> stays R (mapErrE g m)"
  by (simp add: stays_def mapErrE_def)

lemma stays_eachE: "(\<And>x. x \<in> set xs \<Longrightarrow> stays R (f x)) \<Longrightarrow> stays R (eachE f xs)"
  by (induction xs) (auto intro: stays_returnE stays_thenE)

text \<open>An effect and what is done at once with its result, as one step.\<close>

lemma stays_fuse:
  assumes "stays R (bindE m (\<lambda>r. thenE (A r) (returnE r)))" and "\<And>r. stays R (B r)"
  shows "stays R (bindE m (\<lambda>r. thenE (A r) (B r)))"
proof -
  have "bindE m (\<lambda>r. thenE (A r) (B r)) = bindE (bindE m (\<lambda>r. thenE (A r) (returnE r))) B"
    by (auto simp: fun_eq_iff bindE_def thenE_def returnE_def split: prod.splits sum.splits)
  then show ?thesis using assms by (simp add: stays_bindE)
qed

lemma stays_fuse_ok:
  assumes "stays R (bindE m (\<lambda>r. thenE (case r of Inl e \<Rightarrow> returnE () | Inr c \<Rightarrow> A c) (returnE r)))"
    and "\<And>c. stays R (B c)" and "\<And>e. stays R (C e)"
  shows "stays R (bindE m (\<lambda>r. case r of Inl e \<Rightarrow> C e | Inr c \<Rightarrow> thenE (A c) (B c)))"
proof -
  have "bindE m (\<lambda>r. case r of Inl e \<Rightarrow> C e | Inr c \<Rightarrow> thenE (A c) (B c)) =
      bindE m (\<lambda>r. thenE (case r of Inl e \<Rightarrow> returnE () | Inr c \<Rightarrow> A c)
        (case r of Inl e \<Rightarrow> C e | Inr c \<Rightarrow> B c))"
    by (auto simp: fun_eq_iff bindE_def thenE_def returnE_def split: prod.splits sum.splits)
  then show ?thesis using assms(2,3) by (simp only:) (rule stays_fuse [OF assms(1)], simp split: sum.splits)
qed

lemma wp_then_stays:
  "wp m (\<lambda>_. R u) (\<lambda>_. R u) w \<Longrightarrow> stays R n \<Longrightarrow> wp (thenE m n) (\<lambda>_. R u) (\<lambda>_. R u) w"
  by (erule wp_thenI) (auto intro: wp_mono [OF stays_wp] R_trans)

lemmas stays_rules = stays_returnE stays_raiseE stays_getsE stays_liftR stays_bindE
  stays_thenE stays_tryE stays_mapErrE stays_eachE

end

lemma stays_if: "(b \<Longrightarrow> stays R m) \<Longrightarrow> (\<not> b \<Longrightarrow> stays R n) \<Longrightarrow> stays R (if b then m else n)"
  by simp

end
