(* ===== verification/Rust_Std.thy ===== *)
theory Rust_Std
  imports Prelude
begin

text \<open>
  The part of Rust's \<open>str\<close> and integer API the components call, on byte strings: digits and
  \<open>from_str_radix\<close>, decimal and \<open>{:02x}\<close> printing, \<open>lines\<close>, \<open>split\<close>, \<open>split_once\<close> and
  \<open>trim\<close> (ASCII white space; the code's inputs are ASCII). The round-trip facts about digits
  are the ones the MAC address, brightness and duration parsers rest on.
\<close>

section \<open>Digits\<close>

definition digit_value :: "nat \<Rightarrow> char \<Rightarrow> nat option" where
  "digit_value radix c =
     (let n = of_char c :: nat;
          v = (if 48 \<le> n \<and> n \<le> 57 then n - 48
               else if 97 \<le> n \<and> n \<le> 122 then n - 87
               else if 65 \<le> n \<and> n \<le> 90 then n - 55
               else radix)
      in if v < radix then Some v else None)"

definition digit_char :: "nat \<Rightarrow> char" where
  "digit_char n = ''0123456789abcdef'' ! n"

fun parse_digits :: "nat \<Rightarrow> nat \<Rightarrow> string \<Rightarrow> nat option" where
  "parse_digits radix acc [] = Some acc"
| "parse_digits radix acc (c # cs) =
     (case digit_value radix c of
        None \<Rightarrow> None
      | Some d \<Rightarrow> parse_digits radix (acc * radix + d) cs)"

text \<open>
  \<open>uN::from_str_radix\<close> and \<open>str::parse::<uN>\<close>: an optional plus sign, at least one digit,
  below the bound of the type.
\<close>

definition parse_unsigned :: "nat \<Rightarrow> nat \<Rightarrow> string \<Rightarrow> nat option" where
  "parse_unsigned radix bound s =
     (let ds = (case s of c # cs \<Rightarrow> if c = CHR ''+'' then cs else s | [] \<Rightarrow> [])
      in if ds = [] then None
         else case parse_digits radix 0 ds of
                None \<Rightarrow> None
              | Some n \<Rightarrow> if n < bound then Some n else None)"

text \<open>\<open>str::parse::<i64>\<close>.\<close>

definition parse_i64 :: "string \<Rightarrow> int option" where
  "parse_i64 s =
     (case s of
        CHR ''-'' # cs \<Rightarrow>
          if cs = [] then None
          else (case parse_digits 10 0 cs of
                  None \<Rightarrow> None
                | Some n \<Rightarrow> if n \<le> 2 ^ 63 then Some (- int n) else None)
      | _ \<Rightarrow> map_option int (parse_unsigned 10 (2 ^ 63) s))"

fun show_nat :: "nat \<Rightarrow> string" where
  "show_nat n = (if n < 10 then [digit_char n] else show_nat (n div 10) @ [digit_char (n mod 10)])"

declare show_nat.simps [simp del]

text \<open>\<open>format!("{:02x}")\<close> of a byte.\<close>

definition show_hex2 :: "nat \<Rightarrow> string" where
  "show_hex2 n = [digit_char (n div 16 mod 16), digit_char (n mod 16)]"

section \<open>Splitting and trimming\<close>

definition is_whitespace :: "char \<Rightarrow> bool" where
  "is_whitespace c = (let n = of_char c :: nat in n = 32 \<or> (9 \<le> n \<and> n \<le> 13))"

definition trim :: "string \<Rightarrow> string" where
  "trim s = rev (dropWhile is_whitespace (rev (dropWhile is_whitespace s)))"

fun split_on :: "char \<Rightarrow> string \<Rightarrow> string list" where
  "split_on sep [] = [[]]"
| "split_on sep (c # cs) =
     (if c = sep then [] # split_on sep cs
      else (c # hd (split_on sep cs)) # tl (split_on sep cs))"

fun split_once :: "char \<Rightarrow> string \<Rightarrow> (string \<times> string) option" where
  "split_once sep [] = None"
| "split_once sep (c # cs) =
     (if c = sep then Some ([], cs)
      else map_option (\<lambda>(k, v). (c # k, v)) (split_once sep cs))"

definition strip_cr :: "string \<Rightarrow> string" where
  "strip_cr s = (if s \<noteq> [] \<and> last s = CHR 13 then butlast s else s)"

text \<open>\<open>str::lines\<close>: a final line without a newline is kept as it is, an empty one dropped.\<close>

definition lines :: "string \<Rightarrow> string list" where
  "lines s = (let ps = split_on (CHR 10) s
              in map strip_cr (butlast ps) @ (if last ps = [] then [] else [last ps]))"

fun strip_prefix :: "string \<Rightarrow> string \<Rightarrow> string option" where
  "strip_prefix [] s = Some s"
| "strip_prefix (p # ps) [] = None"
| "strip_prefix (p # ps) (c # cs) = (if p = c then strip_prefix ps cs else None)"

section \<open>Facts\<close>

lemma split_on_nonempty [simp]: "split_on sep s \<noteq> []"
  by (cases s) auto

lemma split_on_no_sep: "sep \<notin> set s \<Longrightarrow> split_on sep s = [s]"
  by (induction s) auto

lemma split_on_append_sep:
  "sep \<notin> set s \<Longrightarrow> split_on sep (s @ sep # t) = s # split_on sep t"
  by (induction s) auto

lemma split_once_append_sep:
  "sep \<notin> set s \<Longrightarrow> split_once sep (s @ sep # t) = Some (s, t)"
  by (induction s) auto

lemma split_once_SomeD:
  "split_once sep s = Some (k, v) \<Longrightarrow> s = k @ sep # v \<and> sep \<notin> set k"
  by (induction s arbitrary: k) (auto split: if_splits)

lemma trim_no_whitespace: "\<forall>c \<in> set s. \<not> is_whitespace c \<Longrightarrow> trim s = s"
proof -
  have id: "\<forall>c \<in> set t. \<not> is_whitespace c \<Longrightarrow> dropWhile is_whitespace t = t" for t
    by (cases t) auto
  assume "\<forall>c \<in> set s. \<not> is_whitespace c"
  then show ?thesis by (simp add: trim_def id)
qed

lemma digit_value_digit_char16: "n < 16 \<Longrightarrow> digit_value 16 (digit_char n) = Some n"
proof -
  have "\<forall>n \<in> set [0..<16]. digit_value 16 (digit_char n) = Some n"
    by code_simp
  then show "n < 16 \<Longrightarrow> ?thesis" by simp
qed

lemma digit_value_digit_char10: "n < 10 \<Longrightarrow> digit_value 10 (digit_char n) = Some n"
proof -
  have "\<forall>n \<in> set [0..<10]. digit_value 10 (digit_char n) = Some n"
    by code_simp
  then show "n < 10 \<Longrightarrow> ?thesis" by simp
qed

lemma digit_char_plain:
  "n < 16 \<Longrightarrow> digit_char n \<noteq> CHR ''+'' \<and> digit_char n \<noteq> CHR '':'' \<and> digit_char n \<noteq> CHR ''-''
     \<and> digit_char n \<noteq> CHR ''.'' \<and> \<not> is_whitespace (digit_char n)"
proof -
  have "\<forall>n \<in> set [0..<16]. digit_char n \<noteq> CHR ''+'' \<and> digit_char n \<noteq> CHR '':''
      \<and> digit_char n \<noteq> CHR ''-'' \<and> digit_char n \<noteq> CHR ''.'' \<and> \<not> is_whitespace (digit_char n)"
    by code_simp
  then show "n < 16 \<Longrightarrow> ?thesis" by simp
qed

lemma parse_digits_append:
  "parse_digits r a (xs @ ys) =
     (case parse_digits r a xs of None \<Rightarrow> None | Some b \<Rightarrow> parse_digits r b ys)"
  by (induction xs arbitrary: a) (auto split: option.splits)

lemma show_nat_nonempty [simp]: "show_nat n \<noteq> []"
  by (subst show_nat.simps) simp

lemma show_nat_digits: "c \<in> set (show_nat n) \<Longrightarrow> \<exists>d < 10. c = digit_char d"
proof (induction n rule: show_nat.induct)
  case (1 n)
  show ?case
  proof (cases "n < 10")
    case True
    with "1.prems" show ?thesis by (subst (asm) show_nat.simps) auto
  next
    case False
    with "1.prems" have "c \<in> set (show_nat (n div 10)) \<or> c = digit_char (n mod 10)"
      by (subst (asm) show_nat.simps) auto
    moreover have "n mod 10 < 10" by simp
    ultimately show ?thesis using False "1.IH" by blast
  qed
qed

lemma parse_digits_show_nat: "parse_digits 10 0 (show_nat n) = Some n"
proof (induction n rule: show_nat.induct)
  case (1 n)
  show ?case
  proof (cases "n < 10")
    case True
    then show ?thesis by (subst show_nat.simps) (simp add: digit_value_digit_char10)
  next
    case False
    with "1.IH" have "parse_digits 10 0 (show_nat (n div 10)) = Some (n div 10)" by simp
    with False show ?thesis
      by (subst show_nat.simps) (simp add: parse_digits_append digit_value_digit_char10)
  qed
qed

lemma parse_unsigned_show_nat: "n < bound \<Longrightarrow> parse_unsigned 10 bound (show_nat n) = Some n"
proof -
  assume b: "n < bound"
  obtain c cs where c: "show_nat n = c # cs" by (cases "show_nat n") auto
  then obtain d where "d < 10" "c = digit_char d"
    using show_nat_digits [of c n] by auto
  then have "c \<noteq> CHR ''+''" using digit_char_plain [of d] by simp
  with b c parse_digits_show_nat [of n] show ?thesis
    by (simp add: parse_unsigned_def)
qed

lemma parse_unsigned_bound: "parse_unsigned radix bound s = Some n \<Longrightarrow> n < bound"
  by (auto simp: parse_unsigned_def Let_def split: if_splits option.splits)

lemma parse_unsigned_hex2:
  assumes "n < 256"
  shows "parse_unsigned 16 256 (show_hex2 n) = Some n"
proof -
  have d: "n div 16 < 16" "n mod 16 < 16" using assms by auto
  have "digit_char (n div 16) \<noteq> CHR ''+''" using digit_char_plain [OF d(1)] by simp
  with d assms show ?thesis
    by (simp add: parse_unsigned_def show_hex2_def digit_value_digit_char16)
qed

lemma length_show_hex2 [simp]: "length (show_hex2 n) = 2"
  by (simp add: show_hex2_def)

lemma colon_notin_show_hex2: "CHR '':'' \<notin> set (show_hex2 n)"
proof -
  have "n div 16 mod 16 < 16" "n mod 16 < 16" by auto
  then show ?thesis
    using digit_char_plain [of "n div 16 mod 16"] digit_char_plain [of "n mod 16"]
    by (metis empty_iff insert_iff list.set(1) list.set(2) show_hex2_def)
qed

lemma strip_prefix_append [simp]: "strip_prefix p (p @ s) = Some s"
  by (induction p) auto

lemma lines_single: "CHR 10 \<notin> set s \<Longrightarrow> lines (s @ [CHR 10]) = [strip_cr s]"
  using split_on_append_sep [of "CHR 10" s "[]"] by (simp add: lines_def)

section \<open>I/O errors, debug printing, paths\<close>

text \<open>
  \<open>std::io::Error\<close> keeps its kind and its text. Only the kinds the code inspects or creates are
  told apart.
\<close>

datatype ErrorKind =
  NotFound | AlreadyExists | InvalidData | InvalidInput | TimedOut | AddrNotAvailable | OtherKind

datatype io_error = IoError (io_kind: ErrorKind) (io_message: string)

text \<open>\<open>{:?}\<close> of a string, and of a duration of whole seconds.\<close>

fun show_hex :: "nat \<Rightarrow> string" where
  "show_hex n = (if n < 16 then [digit_char n] else show_hex (n div 16) @ [digit_char (n mod 16)])"

declare show_hex.simps [simp del]

definition escape_debug_char :: "char \<Rightarrow> string" where
  "escape_debug_char c =
     (if c = CHR 0x00 then [CHR 92, CHR ''0'']
      else if c = CHR 9 then [CHR 92, CHR ''t'']
      else if c = CHR 10 then [CHR 92, CHR ''n'']
      else if c = CHR 13 then [CHR 92, CHR ''r'']
      else if c = CHR 34 \<or> c = CHR 92 then [CHR 92, c]
      else if of_char c < (32 :: nat) \<or> of_char c = (127 :: nat)
        then CHR 92 # ''u{'' @ show_hex (of_char c) @ ''}''
      else [c])"

definition debug_str :: "string \<Rightarrow> string" where
  "debug_str s = CHR 34 # concat (map escape_debug_char s) @ [CHR 34]"

definition duration_debug_secs :: "duration \<Rightarrow> string" where
  "duration_debug_secs d = (if d = 0 then ''0ns'' else show_nat (as_secs d) @ ''s'')"

text \<open>\<open>Path::file_name\<close> (of a path that ends in a plain component) and \<open>with_file_name\<close>.\<close>

definition file_name :: "string \<Rightarrow> string" where
  "file_name p = rev (takeWhile (\<lambda>c. c \<noteq> CHR ''/'') (rev p))"

definition with_file_name :: "string \<Rightarrow> string \<Rightarrow> string" where
  "with_file_name p n = rev (dropWhile (\<lambda>c. c \<noteq> CHR ''/'') (rev p)) @ n"

lemma file_name_with_file_name:
  "CHR ''/'' \<notin> set n \<Longrightarrow> file_name (with_file_name p n) = n"
proof -
  assume n: "CHR ''/'' \<notin> set n"
  let ?d = "dropWhile (\<lambda>c. c \<noteq> CHR ''/'') (rev p)"
  have "takeWhile (\<lambda>c. c \<noteq> CHR ''/'') (rev n @ ?d) = rev n @ takeWhile (\<lambda>c. c \<noteq> CHR ''/'') ?d"
    using n by (intro takeWhile_append2) auto
  moreover have "takeWhile (\<lambda>c. c \<noteq> CHR ''/'') ?d = []"
    by (metis (mono_tags, lifting) hd_dropWhile takeWhile_eq_Nil_iff)
  ultimately show ?thesis by (simp add: file_name_def with_file_name_def)
qed

section \<open>UTF-8\<close>

text \<open>Well-formed UTF-8: no overlong form, no surrogate, nothing above U+10FFFF.\<close>

definition continuation :: "nat \<Rightarrow> bool" where
  "continuation b \<longleftrightarrow> 128 \<le> b \<and> b < 192"

fun utf8_bytes :: "nat list \<Rightarrow> bool" where
  "utf8_bytes [] = True"
| "utf8_bytes (a # rest) =
     (if a < 128 then utf8_bytes rest
      else if a < 194 \<or> a > 244 then False
      else case rest of
        [] \<Rightarrow> False
      | b # rest \<Rightarrow>
          if a < 224 then continuation b \<and> utf8_bytes rest
          else if \<not> (if a = 224 then 160 \<le> b \<and> b < 192
                     else if a = 237 then 128 \<le> b \<and> b < 160
                     else if a = 240 then 144 \<le> b \<and> b < 192
                     else if a = 244 then 128 \<le> b \<and> b < 144
                     else continuation b) then False
          else case rest of
            [] \<Rightarrow> False
          | c # rest \<Rightarrow>
              if a < 240 then continuation c \<and> utf8_bytes rest
              else case rest of
                [] \<Rightarrow> False
              | d # rest \<Rightarrow> continuation c \<and> continuation d \<and> utf8_bytes rest)"

definition valid_utf8 :: "string \<Rightarrow> bool" where
  "valid_utf8 s = utf8_bytes (map of_char s)"

end
