(* ===== verification/LG_Config.thy ===== *)
theory LG_Config
  imports Rust_Std "HOL-Library.Word"
begin

text \<open>
  The configuration of \<open>config.rs\<close>: the typed values (backend, policies, TV platform, HDMI
  input, MAC address), the \<open>config.env\<close> parser with its defaults and errors, detection of stale
  1.x entries before defaults apply, the search order for the config path and the passwd lookup
  behind \<open>sudo\<close>. \<open>Ipv4Addr\<close> and its parser are the standard library's. Entries are the map the
  code builds (later assignments win).
\<close>

type_synonym u8 = "8 word"

section \<open>IPv4 addresses\<close>

datatype Ipv4Addr = Ipv4Addr u8 u8 u8 u8

fun ipv4_octets :: "Ipv4Addr \<Rightarrow> u8 list" where
  "ipv4_octets (Ipv4Addr a b c d) = [a, b, c, d]"

fun show_ipv4 :: "Ipv4Addr \<Rightarrow> string" where
  "show_ipv4 (Ipv4Addr a b c d) =
     show_nat (unat a) @ ''.'' @ show_nat (unat b) @ ''.'' @ show_nat (unat c) @ ''.'' @ show_nat (unat d)"

text \<open>One octet: one to three digits, no leading zero, at most 255.\<close>

definition parse_ipv4_octet :: "string \<Rightarrow> u8 option" where
  "parse_ipv4_octet s =
     (if s = [] \<or> 3 < length s \<or> (1 < length s \<and> hd s = CHR ''0'') then None
      else case parse_digits 10 0 s of
             None \<Rightarrow> None
           | Some n \<Rightarrow> if n < 256 then Some (of_nat n) else None)"

definition parse_ipv4 :: "string \<Rightarrow> Ipv4Addr option" where
  "parse_ipv4 s =
     (case map parse_ipv4_octet (split_on (CHR ''.'') s) of
        [Some a, Some b, Some c, Some d] \<Rightarrow> Some (Ipv4Addr a b c d)
      | _ \<Rightarrow> None)"

section \<open>Typed values\<close>

definition DEFAULT_IDLE_TIMEOUT :: nat where "DEFAULT_IDLE_TIMEOUT = 300"
definition MAX_IDLE_TIMEOUT :: nat where "MAX_IDLE_TIMEOUT = 86400"

definition normalize_idle_timeout_secs :: "nat \<Rightarrow> nat" where
  "normalize_idle_timeout_secs idle_timeout_secs =
     (if idle_timeout_secs = 0 then DEFAULT_IDLE_TIMEOUT
      else if MAX_IDLE_TIMEOUT < idle_timeout_secs then MAX_IDLE_TIMEOUT
      else idle_timeout_secs)"

definition parse_idle_timeout_secs :: "string \<Rightarrow> nat option" where
  "parse_idle_timeout_secs value =
     map_option normalize_idle_timeout_secs (parse_unsigned 10 (2 ^ 128) value)"

datatype ScreenBackend = BackendAuto | BackendGnome | BackendWayland

fun backend_as_str :: "ScreenBackend \<Rightarrow> string" where
  "backend_as_str BackendAuto = ''auto''"
| "backend_as_str BackendGnome = ''gnome''"
| "backend_as_str BackendWayland = ''wayland''"

definition backend_from_str :: "string \<Rightarrow> ScreenBackend option" where
  "backend_from_str value =
     (if value = ''auto'' then Some BackendAuto
      else if value = ''gnome'' then Some BackendGnome
      else if value = ''wayland'' then Some BackendWayland
      else None)"

datatype ScreenRestorePolicy = MarkerOnly | Aggressive

fun restore_policy_as_str :: "ScreenRestorePolicy \<Rightarrow> string" where
  "restore_policy_as_str MarkerOnly = ''marker_only''"
| "restore_policy_as_str Aggressive = ''aggressive''"

definition restore_policy_from_str :: "string \<Rightarrow> ScreenRestorePolicy option" where
  "restore_policy_from_str value =
     (if value = ''marker_only'' \<or> value = ''conservative'' then Some MarkerOnly
      else if value = ''aggressive'' then Some Aggressive
      else None)"

text \<open>
  \<open>ScreenIdleBlankPolicy\<close>, \<open>ScreenHonorIdleInhibitorsPolicy\<close> and \<open>SystemSleepWakePolicy\<close>
  are three copies of one switch in the source; the model has the switch once and uses it for
  the three fields.
\<close>

datatype PolicySwitch = Enabled | Disabled

fun switch_as_str :: "PolicySwitch \<Rightarrow> string" where
  "switch_as_str Enabled = ''enabled''"
| "switch_as_str Disabled = ''disabled''"

definition switch_from_str :: "string \<Rightarrow> PolicySwitch option" where
  "switch_from_str value =
     (if value = ''enabled'' then Some Enabled
      else if value = ''disabled'' then Some Disabled
      else None)"

definition is_enabled :: "PolicySwitch \<Rightarrow> bool" where
  "is_enabled p \<longleftrightarrow> p = Enabled"

datatype TvPlatform = Bscpylgtv | LgWebOs

definition platform_DEFAULT :: TvPlatform where "platform_DEFAULT = Bscpylgtv"

fun platform_as_str :: "TvPlatform \<Rightarrow> string" where
  "platform_as_str Bscpylgtv = ''bscpylgtv''"
| "platform_as_str LgWebOs = ''lg_webos''"

definition platform_from_str :: "string \<Rightarrow> TvPlatform option" where
  "platform_from_str value =
     (if value = ''bscpylgtv'' then Some Bscpylgtv
      else if value = ''lg_webos'' then Some LgWebOs
      else None)"

datatype HdmiInput = Hdmi1 | Hdmi2 | Hdmi3 | Hdmi4

fun hdmi_as_str :: "HdmiInput \<Rightarrow> string" where
  "hdmi_as_str Hdmi1 = ''HDMI_1''"
| "hdmi_as_str Hdmi2 = ''HDMI_2''"
| "hdmi_as_str Hdmi3 = ''HDMI_3''"
| "hdmi_as_str Hdmi4 = ''HDMI_4''"

fun expected_app_id :: "HdmiInput \<Rightarrow> string" where
  "expected_app_id Hdmi1 = ''com.webos.app.hdmi1''"
| "expected_app_id Hdmi2 = ''com.webos.app.hdmi2''"
| "expected_app_id Hdmi3 = ''com.webos.app.hdmi3''"
| "expected_app_id Hdmi4 = ''com.webos.app.hdmi4''"

definition hdmi_from_app_id :: "string \<Rightarrow> HdmiInput option" where
  "hdmi_from_app_id value =
     (if value = ''com.webos.app.hdmi1'' then Some Hdmi1
      else if value = ''com.webos.app.hdmi2'' then Some Hdmi2
      else if value = ''com.webos.app.hdmi3'' then Some Hdmi3
      else if value = ''com.webos.app.hdmi4'' then Some Hdmi4
      else None)"

definition hdmi_from_str :: "string \<Rightarrow> HdmiInput option" where
  "hdmi_from_str value =
     (if value = ''HDMI_1'' then Some Hdmi1
      else if value = ''HDMI_2'' then Some Hdmi2
      else if value = ''HDMI_3'' then Some Hdmi3
      else if value = ''HDMI_4'' then Some Hdmi4
      else None)"

datatype MacAddress = MacAddress u8 u8 u8 u8 u8 u8

fun mac_octets :: "MacAddress \<Rightarrow> u8 list" where
  "mac_octets (MacAddress a b c d e g) = [a, b, c, d, e, g]"

fun mac_display :: "MacAddress \<Rightarrow> string" where
  "mac_display (MacAddress a b c d e g) =
     show_hex2 (unat a) @ CHR '':'' # show_hex2 (unat b) @ CHR '':'' # show_hex2 (unat c) @ CHR '':'' #
     show_hex2 (unat d) @ CHR '':'' # show_hex2 (unat e) @ CHR '':'' # show_hex2 (unat g)"

definition parse_mac_part :: "string \<Rightarrow> u8 option" where
  "parse_mac_part part =
     (if length part \<noteq> 2 then None else map_option of_nat (parse_unsigned 16 256 part))"

definition mac_from_str :: "string \<Rightarrow> MacAddress option" where
  "mac_from_str value =
     (let parts = split_on (CHR '':'') value
      in if length parts \<noteq> 6 then None
         else case map parse_mac_part parts of
                [Some a, Some b, Some c, Some d, Some e, Some g] \<Rightarrow> Some (MacAddress a b c d e g)
              | _ \<Rightarrow> None)"

section \<open>The configuration record\<close>

record Config =
  tv_ip :: Ipv4Addr
  tv_mac :: MacAddress
  input :: HdmiInput
  tv_platform :: TvPlatform
  screen_backend :: ScreenBackend
  screen_idle_timeout :: nat
  screen_restore_policy :: ScreenRestorePolicy
  screen_idle_blank :: PolicySwitch
  screen_honor_idle_inhibitors :: PolicySwitch
  system_sleep_wake_policy :: PolicySwitch

datatype ConfigError =
    ConfigIo io_error
  | MissingRequiredKey string
  | InvalidValue string string string

fun config_error_display :: "ConfigError \<Rightarrow> string" where
  "config_error_display (ConfigIo err) = io_message err"
| "config_error_display (MissingRequiredKey key) = ''missing required config key `'' @ key @ ''`''"
| "config_error_display (InvalidValue key value expected) =
     ''invalid value for `'' @ key @ ''`: `'' @ value @ ''`; expected '' @ expected"

datatype StaleConfigReason = MissingTvPlatform | BscpylgtvPlatform | SwayidleBackend

fun stale_reason_message :: "StaleConfigReason \<Rightarrow> string" where
  "stale_reason_message MissingTvPlatform =
     ''tvs_primary_platform is not set (loads as the legacy `bscpylgtv` default)''"
| "stale_reason_message BscpylgtvPlatform =
     ''tvs_primary_platform=bscpylgtv is retired; user screen daemon startup converts it to lg_webos''"
| "stale_reason_message SwayidleBackend =
     ''screen_backend=swayidle is a retired backend; user screen daemon startup converts it to auto''"

datatype ConfigLoadError =
    MissingConfig
  | Unreadable io_error
  | Stale "StaleConfigReason list"
  | Parse ConfigError

fun config_load_error_display :: "ConfigLoadError \<Rightarrow> string" where
  "config_load_error_display MissingConfig = ''no LG Buddy configuration found''"
| "config_load_error_display (Unreadable err) =
     ''cannot read LG Buddy configuration: '' @ io_message err"
| "config_load_error_display (Stale reasons) =
     ''v2 migration required'' @ concat (map (\<lambda>reason. CHR 10 # ''  - '' @ stale_reason_message reason) reasons)"
| "config_load_error_display (Parse err) = config_error_display err"

section \<open>Parsing\<close>

definition sanitize_config_value :: "string \<Rightarrow> string" where
  "sanitize_config_value value = trim (hd (split_on (CHR ''#'') value))"

definition parse_config_line ::
    "(string \<rightharpoonup> string) \<Rightarrow> string \<Rightarrow> (string \<rightharpoonup> string)" where
  "parse_config_line entries line =
     (let trimmed = trim line
      in if trimmed = [] \<or> hd trimmed = CHR ''#'' then entries
         else case split_once (CHR ''='') trimmed of
                None \<Rightarrow> entries
              | Some (key, value) \<Rightarrow> entries(trim key \<mapsto> sanitize_config_value value))"

definition parse_config_entries :: "string \<Rightarrow> (string \<rightharpoonup> string)" where
  "parse_config_entries contents = foldl parse_config_line Map.empty (lines contents)"

fun find_map :: "('a \<Rightarrow> 'b option) \<Rightarrow> 'a list \<Rightarrow> 'b option" where
  "find_map f [] = None"
| "find_map f (x # xs) = (case f x of Some y \<Rightarrow> Some y | None \<Rightarrow> find_map f xs)"

definition required_config_value ::
    "(string \<rightharpoonup> string) \<Rightarrow> string \<Rightarrow> string list \<Rightarrow> string option" where
  "required_config_value entries primary_key fallback_keys =
     (case entries primary_key of
        Some value \<Rightarrow> Some value
      | None \<Rightarrow> find_map entries fallback_keys)"

definition required_parsed ::
    "(string \<rightharpoonup> string) \<Rightarrow> string \<Rightarrow> string list \<Rightarrow> (string \<Rightarrow> 'a option) \<Rightarrow> string \<Rightarrow> ConfigError + 'a" where
  "required_parsed entries key fallbacks parse expected =
     (case required_config_value entries key fallbacks of
        None \<Rightarrow> Inl (MissingRequiredKey key)
      | Some value \<Rightarrow> (case parse value of
                         None \<Rightarrow> Inl (InvalidValue key value expected)
                       | Some x \<Rightarrow> Inr x))"

definition optional_parsed ::
    "(string \<rightharpoonup> string) \<Rightarrow> string \<Rightarrow> (string \<Rightarrow> 'a option) \<Rightarrow> 'a \<Rightarrow> 'a" where
  "optional_parsed entries key parse fallback =
     unwrap_or (Option.bind (entries key) parse) fallback"

definition parse_platform_entry :: "(string \<rightharpoonup> string) \<Rightarrow> ConfigError + TvPlatform" where
  "parse_platform_entry entries =
     (case entries ''tvs_primary_platform'' of
        None \<Rightarrow> Inr platform_DEFAULT
      | Some value \<Rightarrow>
          (case platform_from_str value of
             None \<Rightarrow> Inl (InvalidValue ''tvs_primary_platform'' value ''one of bscpylgtv, lg_webos'')
           | Some platform \<Rightarrow> Inr platform))"

definition parse_config :: "string \<Rightarrow> ConfigError + Config" where
  "parse_config contents =
     (let entries = parse_config_entries contents
      in case required_parsed entries ''tvs_primary_ip'' [''tv_ip''] parse_ipv4 ''an IPv4 address'' of
           Inl err \<Rightarrow> Inl err
         | Inr ip \<Rightarrow>
      (case required_parsed entries ''tvs_primary_mac'' [''tv_mac''] mac_from_str
              ''a MAC address like aa:bb:cc:dd:ee:ff'' of
           Inl err \<Rightarrow> Inl err
         | Inr mac \<Rightarrow>
      (case required_parsed entries ''tvs_primary_input'' [''input''] hdmi_from_str
              ''one of HDMI_1, HDMI_2, HDMI_3, HDMI_4'' of
           Inl err \<Rightarrow> Inl err
         | Inr input' \<Rightarrow>
      (case parse_platform_entry entries of
           Inl err \<Rightarrow> Inl err
         | Inr platform \<Rightarrow>
             Inr \<lparr>tv_ip = ip, tv_mac = mac, input = input', tv_platform = platform,
                  screen_backend =
                    optional_parsed entries ''screen_backend'' backend_from_str BackendAuto,
                  screen_idle_timeout =
                    optional_parsed entries ''screen_idle_timeout'' parse_idle_timeout_secs
                      DEFAULT_IDLE_TIMEOUT,
                  screen_restore_policy =
                    optional_parsed entries ''screen_restore_policy'' restore_policy_from_str MarkerOnly,
                  screen_idle_blank =
                    optional_parsed entries ''screen_idle_blank'' switch_from_str Enabled,
                  screen_honor_idle_inhibitors =
                    optional_parsed entries ''screen_honor_idle_inhibitors'' switch_from_str Disabled,
                  system_sleep_wake_policy =
                    optional_parsed entries ''system_sleep_wake_policy'' switch_from_str Enabled\<rparr>))))"

definition stale_config_reasons :: "string \<Rightarrow> StaleConfigReason list" where
  "stale_config_reasons contents =
     (let entries = parse_config_entries contents
      in (case entries ''tvs_primary_platform'' of
            Some value \<Rightarrow>
              if platform_from_str value = Some Bscpylgtv then [BscpylgtvPlatform] else []
          | None \<Rightarrow> [MissingTvPlatform]) @
         (if entries ''screen_backend'' = Some ''swayidle'' then [SwayidleBackend] else []))"

definition parse_current_config :: "string \<Rightarrow> ConfigLoadError + Config" where
  "parse_current_config contents =
     (let reasons = stale_config_reasons contents
      in if reasons \<noteq> [] then Inl (Stale reasons)
         else case parse_config contents of
                Inl err \<Rightarrow> Inl (Parse err)
              | Inr config \<Rightarrow> Inr config)"

section \<open>Where the configuration is\<close>

definition path_join :: "string \<Rightarrow> string \<Rightarrow> string" where
  "path_join base component =
     (if component \<noteq> [] \<and> hd component = CHR ''/'' then component
      else if base = [] \<or> last base = CHR ''/'' then base @ component
      else base @ CHR ''/'' # component)"

record ConfigPathSources =
  explicit_config :: "string option"
  user_selected_config :: "string option"
  sudo_user_home :: "string option"
  xdg_config_home :: "string option"
  home :: "string option"

datatype ConfigPathError = NotConfigured | InvalidBinding string

fun config_path_error_display :: "ConfigPathError \<Rightarrow> string" where
  "config_path_error_display (InvalidBinding message) = ''invalid config binding: '' @ message"
| "config_path_error_display NotConfigured =
     ''could not resolve a config path from override, XDG, or HOME''"

definition resolve_config_path :: "ConfigPathSources \<Rightarrow> ConfigPathError + string" where
  "resolve_config_path sources =
     (case explicit_config sources of Some path \<Rightarrow> Inr path | None \<Rightarrow>
     (case user_selected_config sources of Some path \<Rightarrow> Inr path | None \<Rightarrow>
     (case sudo_user_home sources of
        Some path \<Rightarrow> Inr (path_join (path_join (path_join path ''.config'') ''lg-buddy'') ''config.env'')
      | None \<Rightarrow>
     (case xdg_config_home sources of
        Some path \<Rightarrow> Inr (path_join (path_join path ''lg-buddy'') ''config.env'')
      | None \<Rightarrow>
     (case home sources of
        Some path \<Rightarrow> Inr (path_join (path_join (path_join path ''.config'') ''lg-buddy'') ''config.env'')
      | None \<Rightarrow> Inl NotConfigured)))))"

text \<open>A passwd line of the user with too few fields ends the search, as \<open>?\<close> does.\<close>

fun parse_home_from_passwd_lines :: "string list \<Rightarrow> string \<Rightarrow> string option" where
  "parse_home_from_passwd_lines [] user = None"
| "parse_home_from_passwd_lines (line # rest) user =
     (let fields = split_on (CHR '':'') line
      in if hd fields \<noteq> user then parse_home_from_passwd_lines rest user
         else if length fields \<le> 5 then None
         else if fields ! 5 = [] then None
         else Some (fields ! 5))"

definition parse_home_from_passwd_entries :: "string \<Rightarrow> string \<Rightarrow> string option" where
  "parse_home_from_passwd_entries contents user = parse_home_from_passwd_lines (lines contents) user"


section \<open>Facts\<close>

lemma unat_u8_bound: "unat (x :: u8) < 256"
  using unsigned_less [where ?'a = nat, of x] by simp

lemma parse_mac_part_show: "parse_mac_part (show_hex2 (unat (x :: u8))) = Some x"
  by (simp add: parse_mac_part_def parse_unsigned_hex2 [OF unat_u8_bound])

lemma parse_ipv4_octet_show: "parse_ipv4_octet (show_nat (unat (x :: u8))) = Some x"
proof -
  let ?n = "unat x"
  have n: "?n < 256" by (rule unat_u8_bound)
  have "\<forall>n \<in> set [0..<256]. length (show_nat n) \<le> 3 \<and> (1 < length (show_nat n) \<longrightarrow> hd (show_nat n) \<noteq> CHR ''0'')"
    by code_simp
  with n have "length (show_nat ?n) \<le> 3" "1 < length (show_nat ?n) \<longrightarrow> hd (show_nat ?n) \<noteq> CHR ''0''"
    by auto
  with n show ?thesis by (auto simp: parse_ipv4_octet_def parse_digits_show_nat)
qed

lemma dot_notin_show_nat: "CHR ''.'' \<notin> set (show_nat n)"
proof
  assume "CHR ''.'' \<in> set (show_nat n)"
  then obtain d where "d < 10" "digit_char d = CHR ''.''" using show_nat_digits by metis
  then show False using digit_char_plain [of d] by simp
qed

lemma split_on_append: "split_on sep (a @ sep # b) = split_on sep a @ split_on sep b"
  by (induction a) auto

definition ends_line :: "string \<Rightarrow> bool" where
  "ends_line contents \<longleftrightarrow> contents = [] \<or> last contents = CHR 10"

lemma lines_append_line:
  assumes "ends_line contents" and "CHR 10 \<notin> set l"
  shows "lines (contents @ l @ [CHR 10]) = lines contents @ [strip_cr l]"
proof (cases contents rule: rev_cases)
  case Nil
  then show ?thesis using assms(2) by (simp add: lines_single) (simp add: lines_def)
next
  case (snoc c x)
  with assms(1) have x: "x = CHR 10" by (simp add: ends_line_def)
  have l: "split_on (CHR 10) (l @ [CHR 10]) = [l, []]"
    using split_on_append_sep [OF assms(2), of "[]"] by simp
  have 1: "split_on (CHR 10) contents = split_on (CHR 10) c @ [[]]"
    using split_on_append [of "CHR 10" c "[]"] snoc x by simp
  have 2: "split_on (CHR 10) (contents @ l @ [CHR 10]) = split_on (CHR 10) c @ [l, []]"
    using split_on_append [of "CHR 10" c "l @ [CHR 10]"] snoc x l by simp
  show ?thesis by (simp add: lines_def 1 2 butlast_append)
qed

definition plain_key :: "string \<Rightarrow> bool" where
  "plain_key key \<longleftrightarrow> key \<noteq> [] \<and> (\<forall>c \<in> set key. \<not> is_whitespace c \<and> c \<noteq> CHR ''='' \<and> c \<noteq> CHR ''#'')"

definition plain_value :: "string \<Rightarrow> bool" where
  "plain_value value \<longleftrightarrow> (\<forall>c \<in> set value. \<not> is_whitespace c \<and> c \<noteq> CHR ''#'')"

lemma not_whitespace_not_newline: "\<not> is_whitespace c \<Longrightarrow> c \<noteq> CHR 10 \<and> c \<noteq> CHR 13"
  by (auto simp: is_whitespace_def)

lemma parse_config_line_assignment:
  assumes "plain_key key" and "plain_value value"
  shows "parse_config_line entries (key @ CHR ''='' # value) = entries(key \<mapsto> value)"
proof -
  let ?l = "key @ CHR ''='' # value"
  have "\<forall>c \<in> set ?l. \<not> is_whitespace c"
    using assms by (auto simp: plain_key_def plain_value_def is_whitespace_def)
  then have l: "trim ?l = ?l" by (rule trim_no_whitespace)
  have k: "trim key = key" using assms(1) by (intro trim_no_whitespace) (simp add: plain_key_def)
  have v: "sanitize_config_value value = value"
  proof -
    have "split_on (CHR ''#'') value = [value]"
      using assms(2) by (intro split_on_no_sep) (auto simp: plain_value_def)
    moreover have "trim value = value"
      using assms(2) by (intro trim_no_whitespace) (simp add: plain_value_def)
    ultimately show ?thesis by (simp add: sanitize_config_value_def)
  qed
  have "split_once (CHR ''='') ?l = Some (key, value)"
    using assms(1) by (intro split_once_append_sep) (auto simp: plain_key_def)
  moreover have "hd ?l \<noteq> CHR ''#''" "?l \<noteq> []"
    using assms(1) by (auto simp: plain_key_def)
  ultimately show ?thesis by (simp add: parse_config_line_def Let_def l k v)
qed

lemma parse_config_entries_append:
  assumes "ends_line contents" and "plain_key key" and "plain_value value"
  shows "parse_config_entries (contents @ (key @ CHR ''='' # value) @ [CHR 10]) =
         (parse_config_entries contents)(key \<mapsto> value)"
proof -
  let ?l = "key @ CHR ''='' # value"
  have nl: "CHR 10 \<notin> set ?l" and cr: "CHR 13 \<notin> set ?l"
    using assms(2,3) not_whitespace_not_newline
    by (fastforce simp: plain_key_def plain_value_def)+
  then have "strip_cr ?l = ?l"
    by (metis append_is_Nil_conv last_in_set list.discI strip_cr_def)
  then show ?thesis
    using lines_append_line [OF assms(1) nl] assms(2,3)
    by (simp add: parse_config_entries_def parse_config_line_assignment)
qed

definition write_config_line :: "string \<Rightarrow> string \<times> string \<Rightarrow> string" where
  "write_config_line contents kv = contents @ (fst kv @ CHR ''='' # snd kv) @ [CHR 10]"

lemma parse_written_config:
  "ends_line contents \<Longrightarrow> list_all (\<lambda>kv. plain_key (fst kv) \<and> plain_value (snd kv)) kvs \<Longrightarrow>
   parse_config_entries (foldl write_config_line contents kvs) =
     foldl (\<lambda>m kv. m(fst kv \<mapsto> snd kv)) (parse_config_entries contents) kvs"
proof (induction kvs arbitrary: contents)
  case (Cons kv kvs)
  have "ends_line (write_config_line contents kv)"
    by (simp add: ends_line_def write_config_line_def)
  moreover have "parse_config_entries (write_config_line contents kv) =
      (parse_config_entries contents)(fst kv \<mapsto> snd kv)"
    unfolding write_config_line_def using Cons.prems by (intro parse_config_entries_append) auto
  ultimately show ?case using Cons by (simp add: fun_upd_def)
qed simp

lemma mac_parse_show: "mac_from_str (mac_display m) = Some m"
proof (cases m)
  case (MacAddress a b c d e g)
  have s: "split_on (CHR '':'') (show_hex2 n @ CHR '':'' # t) = show_hex2 n # split_on (CHR '':'') t" for n t
    by (rule split_on_append_sep) (rule colon_notin_show_hex2)
  have "split_on (CHR '':'') (show_hex2 n) = [show_hex2 n]" for n
    by (rule split_on_no_sep) (rule colon_notin_show_hex2)
  then have "split_on (CHR '':'') (mac_display m) =
      [show_hex2 (unat a), show_hex2 (unat b), show_hex2 (unat c), show_hex2 (unat d),
       show_hex2 (unat e), show_hex2 (unat g)]"
    by (simp add: MacAddress s)
  then show ?thesis
    by (simp add: mac_from_str_def parse_mac_part_show MacAddress)
qed

text \<open>
  A MAC address survives being written to the config and read back: parsing what
  \<open>Display\<close> prints gives the same six octets, for every address.
\<close>

theorem mac_roundtrip: "mac_from_str (mac_display m) = Some m"
  by (rule mac_parse_show)

text \<open>
  C40. The MAC parser accepts more than pairs of hexadecimal digits: an octet may be a plus sign
  and one digit, because \<open>u8::from_str_radix\<close> allows a sign and the parser only checks that
  the part has two bytes.
\<close>

theorem mac_accepts_signed_octet:
  "n < 16 \<Longrightarrow>
   mac_from_str (CHR ''+'' # digit_char n # '':00:00:00:00:00'') = Some (MacAddress (of_nat n) 0 0 0 0 0)"
proof -
  assume n: "n < 16"
  have "split_on (CHR '':'') ([CHR ''+'', digit_char n] @ CHR '':'' # ''00:00:00:00:00'') =
      [CHR ''+'', digit_char n] # split_on (CHR '':'') ''00:00:00:00:00''"
    using digit_char_plain [OF n] by (intro split_on_append_sep) auto
  moreover have "map parse_mac_part (split_on (CHR '':'') ''00:00:00:00:00'') =
      [Some 0, Some 0, Some 0, Some 0, Some 0]"
    by code_simp
  moreover have "length (split_on (CHR '':'') ''00:00:00:00:00'') = 5" by code_simp
  moreover have "parse_mac_part [CHR ''+'', digit_char n] = Some (of_nat n)"
    using n by (simp add: parse_mac_part_def parse_unsigned_def digit_value_digit_char16)
  ultimately show ?thesis by (simp add: mac_from_str_def)
qed

theorem mac_accepts_signed_octet_witness:
  "mac_from_str (CHR ''+'' # digit_char 10 # '':00:00:00:00:00'') = Some (MacAddress (of_nat 10) 0 0 0 0 0)"
  by (rule mac_accepts_signed_octet) simp

text \<open>
  IPv4 addresses round-trip through their printed form, for the standard library's parser as
  the config loader uses it.
\<close>

lemma ipv4_parse_show: "parse_ipv4 (show_ipv4 ip) = Some ip"
proof (cases ip)
  case (Ipv4Addr a b c d)
  have s: "split_on (CHR ''.'') (show_nat n @ CHR ''.'' # t) = show_nat n # split_on (CHR ''.'') t" for n t
    by (rule split_on_append_sep) (rule dot_notin_show_nat)
  have "split_on (CHR ''.'') (show_nat n) = [show_nat n]" for n
    by (rule split_on_no_sep) (rule dot_notin_show_nat)
  then have "split_on (CHR ''.'') (show_ipv4 ip) =
      [show_nat (unat a), show_nat (unat b), show_nat (unat c), show_nat (unat d)]"
    by (simp add: Ipv4Addr s)
  then show ?thesis by (simp add: parse_ipv4_def parse_ipv4_octet_show Ipv4Addr)
qed

lemma normalize_idle_timeout_bounds:
  "1 \<le> normalize_idle_timeout_secs n \<and> normalize_idle_timeout_secs n \<le> MAX_IDLE_TIMEOUT"
  by (auto simp: normalize_idle_timeout_secs_def DEFAULT_IDLE_TIMEOUT_def MAX_IDLE_TIMEOUT_def)

lemma optional_idle_timeout_bounds:
  "1 \<le> optional_parsed entries key parse_idle_timeout_secs DEFAULT_IDLE_TIMEOUT \<and>
   optional_parsed entries key parse_idle_timeout_secs DEFAULT_IDLE_TIMEOUT \<le> MAX_IDLE_TIMEOUT"
proof (cases "Option.bind (entries key) parse_idle_timeout_secs")
  case None
  then show ?thesis
    by (simp add: optional_parsed_def DEFAULT_IDLE_TIMEOUT_def MAX_IDLE_TIMEOUT_def)
next
  case (Some n)
  then obtain m where "n = normalize_idle_timeout_secs m"
    by (auto simp: parse_idle_timeout_secs_def Option.bind_eq_Some_conv)
  then show ?thesis using Some normalize_idle_timeout_bounds by (simp add: optional_parsed_def)
qed

lemma parse_config_fields:
  assumes "parse_config contents = Inr config"
  shows "parse_platform_entry (parse_config_entries contents) = Inr (tv_platform config)"
    and "screen_idle_timeout config =
      optional_parsed (parse_config_entries contents) ''screen_idle_timeout'' parse_idle_timeout_secs
        DEFAULT_IDLE_TIMEOUT"
  using assms by (auto simp: parse_config_def Let_def split: sum.splits)

lemma current_config_webos: "parse_current_config contents = Inr config \<Longrightarrow> tv_platform config = LgWebOs"
proof -
  assume a: "parse_current_config contents = Inr config"
  then have fresh: "stale_config_reasons contents = []" and ok: "parse_config contents = Inr config"
    by (auto simp: parse_current_config_def Let_def split: if_splits sum.splits)
  from fresh obtain v where "parse_config_entries contents ''tvs_primary_platform'' = Some v"
    and "platform_from_str v \<noteq> Some Bscpylgtv"
    by (auto simp: stale_config_reasons_def Let_def split: option.splits if_splits)
  then show "tv_platform config = LgWebOs"
    using parse_config_fields(1) [OF ok]
    by (auto simp: parse_platform_entry_def split: option.splits) (cases "tv_platform config"; simp)
qed

text \<open>
  C39. A configuration the runtime accepts is current and bounded: the retired \<open>bscpylgtv\<close>
  platform never gets through (neither written out nor as the silent default of a missing key),
  and the idle timeout is between one second and a day.
\<close>

theorem current_config_is_webos_and_bounded:
  assumes "parse_current_config contents = Inr config"
  shows "tv_platform config = LgWebOs \<and>
    1 \<le> screen_idle_timeout config \<and> screen_idle_timeout config \<le> MAX_IDLE_TIMEOUT"
proof -
  from assms have ok: "parse_config contents = Inr config"
    by (auto simp: parse_current_config_def Let_def split: if_splits sum.splits)
  show ?thesis
    using current_config_webos [OF assms] parse_config_fields(2) [OF ok] optional_idle_timeout_bounds by simp
qed

definition example_assignments :: "(string \<times> string) list" where
  "example_assignments =
     [(''tvs_primary_ip'', ''192.0.2.1''), (''tvs_primary_mac'', ''02:00:00:00:00:01''),
      (''tvs_primary_input'', ''HDMI_1''), (''tvs_primary_platform'', ''lg_webos''),
      (''screen_idle_timeout'', ''600'')]"

definition example_contents :: string where
  "example_contents = foldl write_config_line [] example_assignments"

lemma example_entries:
  "parse_config_entries example_contents =
     [''tvs_primary_ip'' \<mapsto> ''192.0.2.1'', ''tvs_primary_mac'' \<mapsto> ''02:00:00:00:00:01'',
      ''tvs_primary_input'' \<mapsto> ''HDMI_1'', ''tvs_primary_platform'' \<mapsto> ''lg_webos'',
      ''screen_idle_timeout'' \<mapsto> ''600'']"
proof -
  have "list_all (\<lambda>kv. plain_key (fst kv) \<and> plain_value (snd kv)) example_assignments"
    by code_simp
  then have "parse_config_entries example_contents =
      foldl (\<lambda>m kv. m(fst kv \<mapsto> snd kv)) (parse_config_entries []) example_assignments"
    unfolding example_contents_def by (intro parse_written_config) (simp_all add: ends_line_def)
  moreover have "parse_config_entries [] = Map.empty"
    by (simp add: parse_config_entries_def lines_def)
  ultimately show ?thesis by (simp add: example_assignments_def)
qed

lemma example_loads: "\<exists>config. parse_current_config example_contents = Inr config"
proof -
  have "stale_config_reasons example_contents = []"
    by (simp add: stale_config_reasons_def example_entries platform_from_str_def)
  moreover have "is_ok (required_parsed (parse_config_entries example_contents)
      ''tvs_primary_ip'' [''tv_ip''] parse_ipv4 ''an IPv4 address'')"
  proof -
    have "parse_ipv4 ''192.0.2.1'' = Some (Ipv4Addr 192 0 2 1)" by code_simp
    then show ?thesis by (simp add: required_parsed_def required_config_value_def example_entries)
  qed
  moreover have "is_ok (required_parsed (parse_config_entries example_contents)
      ''tvs_primary_mac'' [''tv_mac''] mac_from_str ''a MAC address like aa:bb:cc:dd:ee:ff'')"
  proof -
    have "mac_from_str ''02:00:00:00:00:01'' = Some (MacAddress 2 0 0 0 0 1)" by code_simp
    then show ?thesis by (simp add: required_parsed_def required_config_value_def example_entries)
  qed
  moreover have "is_ok (required_parsed (parse_config_entries example_contents)
      ''tvs_primary_input'' [''input''] hdmi_from_str ''one of HDMI_1, HDMI_2, HDMI_3, HDMI_4'')"
    by (simp add: required_parsed_def required_config_value_def example_entries hdmi_from_str_def)
  moreover have "is_ok (parse_platform_entry (parse_config_entries example_contents))"
    by (simp add: parse_platform_entry_def example_entries platform_from_str_def)
  ultimately show ?thesis
    unfolding parse_current_config_def parse_config_def Let_def by (auto simp: is_ok_iff)
qed

theorem current_config_is_webos_and_bounded_witness:
  "\<exists>config. parse_current_config example_contents = Inr config \<and> tv_platform config = LgWebOs \<and>
     1 \<le> screen_idle_timeout config \<and> screen_idle_timeout config \<le> MAX_IDLE_TIMEOUT"
  using example_loads current_config_is_webos_and_bounded by blast

text \<open>
  Insert and look up: writing one more \<open>key=value\<close> line to the end of a config file changes
  exactly that key; the later assignment wins and every other entry is read as before.
\<close>

theorem appended_assignment_wins:
  assumes "ends_line contents" and "plain_key key" and "plain_value value"
  shows "parse_config_entries (contents @ (key @ CHR ''='' # value) @ [CHR 10]) =
         (parse_config_entries contents)(key \<mapsto> value)"
  using assms by (rule parse_config_entries_append)

theorem appended_assignment_wins_witness:
  "parse_config_entries (example_contents @ (''screen_backend'' @ CHR ''='' # ''gnome'') @ [CHR 10]) =
   (parse_config_entries example_contents)(''screen_backend'' \<mapsto> ''gnome'')"
proof -
  have 1: "ends_line example_contents" by code_simp
  have 2: "plain_key ''screen_backend''" by code_simp
  have 3: "plain_value ''gnome''" by code_simp
  show ?thesis by (rule appended_assignment_wins [OF 1 2 3])
qed

text \<open>A configuration for the concrete runs of the other theories.\<close>

definition example_config :: Config where
  "example_config =
     \<lparr>tv_ip = Ipv4Addr 192 0 2 1, tv_mac = MacAddress 2 0 0 0 0 1, input = Hdmi1,
      tv_platform = LgWebOs, screen_backend = BackendAuto, screen_idle_timeout = 300,
      screen_restore_policy = MarkerOnly, screen_idle_blank = Enabled,
      screen_honor_idle_inhibitors = Enabled, system_sleep_wake_policy = Enabled\<rparr>"

lemma example_config_fields [simp]:
  "input example_config = Hdmi1" "screen_restore_policy example_config = MarkerOnly"
  "screen_idle_blank example_config = Enabled" "system_sleep_wake_policy example_config = Enabled"
  "screen_honor_idle_inhibitors example_config = Enabled"
  by (simp_all add: example_config_def)

end
