(* ===== verification/Tv.thy ===== *)
theory Tv
  imports LG_Config
begin

text \<open>
  The adapter-neutral TV vocabulary of \<open>tv.rs\<close>: operations and typed errors, brightness and
  volume levels with their parsers, audio status and the current input, and the audio write
  operations of \<open>audio.rs\<close>. The client itself (the webOS session) is a parameter of the
  components that drive it; here an audio client is two functions on a client state.
\<close>

section \<open>Operations and errors\<close>

datatype TvOperation =
    ReadModelName | ReadInputOp | SetInputOp | ReadOledBrightness | SetOledBrightness
  | ReadAudioStatus | SetVolumeOp | VolumeUp | VolumeDown | SetMutedOp | PowerOffOp
  | BlankScreenOp | UnblankScreenOp

fun tv_operation_as_str :: "TvOperation \<Rightarrow> string" where
  "tv_operation_as_str ReadModelName = ''read model name''"
| "tv_operation_as_str ReadInputOp = ''read input''"
| "tv_operation_as_str SetInputOp = ''set input''"
| "tv_operation_as_str ReadOledBrightness = ''read OLED brightness''"
| "tv_operation_as_str SetOledBrightness = ''set OLED brightness''"
| "tv_operation_as_str ReadAudioStatus = ''read audio status''"
| "tv_operation_as_str SetVolumeOp = ''set volume''"
| "tv_operation_as_str VolumeUp = ''increase volume''"
| "tv_operation_as_str VolumeDown = ''decrease volume''"
| "tv_operation_as_str SetMutedOp = ''set mute''"
| "tv_operation_as_str PowerOffOp = ''power off''"
| "tv_operation_as_str BlankScreenOp = ''blank screen''"
| "tv_operation_as_str UnblankScreenOp = ''unblank screen''"

datatype TvErrorKind =
  Transport | Authentication | Rejected | InvalidResponse | ScreenNotVisible | Internal

fun tv_error_kind_as_str :: "TvErrorKind \<Rightarrow> string" where
  "tv_error_kind_as_str Transport = ''transport''"
| "tv_error_kind_as_str Authentication = ''authentication''"
| "tv_error_kind_as_str Rejected = ''rejected''"
| "tv_error_kind_as_str InvalidResponse = ''invalid_response''"
| "tv_error_kind_as_str ScreenNotVisible = ''screen_not_visible''"
| "tv_error_kind_as_str Internal = ''internal''"

datatype TvError =
  TvError (tv_error_operation: TvOperation) (tv_error_kind: TvErrorKind) (tv_error_detail: string)

definition tv_error_display :: "TvError \<Rightarrow> string" where
  "tv_error_display err =
     ''could not '' @ tv_operation_as_str (tv_error_operation err) @ '': '' @ tv_error_detail err"

definition indicates_screen_not_visible :: "TvError \<Rightarrow> bool" where
  "indicates_screen_not_visible err \<longleftrightarrow> tv_error_kind err = ScreenNotVisible"

section \<open>Levels\<close>

definition OLED_BRIGHTNESS_MAX :: u8 where "OLED_BRIGHTNESS_MAX = 100"
definition VOLUME_MAX :: u8 where "VOLUME_MAX = 100"

datatype OledBrightness = OledBrightness (oled_as_percent: u8)
datatype VolumeLevel = VolumeLevel (volume_as_percent: u8)

text \<open>The error of both parsers carries the rejected text.\<close>

definition oled_new :: "u8 \<Rightarrow> string + OledBrightness" where
  "oled_new value =
     (if value \<le> OLED_BRIGHTNESS_MAX then Inr (OledBrightness value) else Inl (show_nat (unat value)))"

definition oled_parse :: "string \<Rightarrow> string + OledBrightness" where
  "oled_parse value =
     (case parse_i64 value of
        Some parsed \<Rightarrow>
          if 0 \<le> parsed \<and> parsed \<le> uint OLED_BRIGHTNESS_MAX
          then Inr (OledBrightness (word_of_int parsed)) else Inl value
      | None \<Rightarrow> Inl value)"

definition volume_new :: "u8 \<Rightarrow> string + VolumeLevel" where
  "volume_new value =
     (if value \<le> VOLUME_MAX then Inr (VolumeLevel value) else Inl (show_nat (unat value)))"

definition volume_parse :: "string \<Rightarrow> string + VolumeLevel" where
  "volume_parse value =
     (case parse_i64 value of
        Some parsed \<Rightarrow>
          if 0 \<le> parsed \<and> parsed \<le> uint VOLUME_MAX
          then Inr (VolumeLevel (word_of_int parsed)) else Inl value
      | None \<Rightarrow> Inl value)"

definition oled_display :: "OledBrightness \<Rightarrow> string" where
  "oled_display b = show_nat (unat (oled_as_percent b))"

definition volume_display :: "VolumeLevel \<Rightarrow> string" where
  "volume_display v = show_nat (unat (volume_as_percent v))"

datatype CurrentVolume = Level VolumeLevel | UnknownVolume

record AudioStatus =
  audio_volume :: CurrentVolume
  audio_muted :: bool

section \<open>Current input\<close>

datatype CurrentInput = Hdmi HdmiInput | Other string

definition current_input_from_raw :: "string \<Rightarrow> CurrentInput" where
  "current_input_from_raw value =
     (case hdmi_from_app_id value of Some inp \<Rightarrow> Hdmi inp | None \<Rightarrow> Other value)"

fun is_hdmi :: "CurrentInput \<Rightarrow> HdmiInput \<Rightarrow> bool" where
  "is_hdmi (Hdmi current) inp \<longleftrightarrow> current = inp"
| "is_hdmi (Other value) inp \<longleftrightarrow> False"

fun current_input_display :: "CurrentInput \<Rightarrow> string" where
  "current_input_display (Hdmi inp) = hdmi_as_str inp"
| "current_input_display (Other value) = value"

section \<open>Audio operations\<close>

datatype AudioOperation = SetVolumeAndUnmute VolumeLevel | SetMuted bool

datatype AudioWriteFailure =
    CredentialsUnavailable | SetVolumeFailed | UnmuteAfterVolume | SetMutedFailed

record AudioWriteError =
  audio_failure :: AudioWriteFailure
  audio_diagnostic :: string
  volume_applied :: "VolumeLevel option"

record AudioWriteOutcome =
  applied_volume :: "VolumeLevel option"
  applied_muted :: "bool option"

text \<open>A \<open>TvClient\<close> for audio: what its two write calls answer and the client they leave.\<close>

record 'c audio_client =
  client_set_volume :: "VolumeLevel \<Rightarrow> 'c \<Rightarrow> (TvError + unit) \<times> 'c"
  client_set_muted :: "bool \<Rightarrow> 'c \<Rightarrow> (TvError + unit) \<times> 'c"

definition apply_audio_operation_with ::
    "'c audio_client \<Rightarrow> AudioOperation \<Rightarrow> ('c, AudioWriteError, AudioWriteOutcome) eff" where
  "apply_audio_operation_with client operation =
     (case operation of
        SetVolumeAndUnmute volume \<Rightarrow>
          bindE (tryE (client_set_volume client volume)) (\<lambda>r. case r of
            Inl err \<Rightarrow> raiseE
              \<lparr>audio_failure = (if tv_error_kind err = Authentication then CredentialsUnavailable
                                else SetVolumeFailed),
               audio_diagnostic = ''failed to set volume: '' @ tv_error_display err,
               volume_applied = None\<rparr>
          | Inr _ \<Rightarrow>
              bindE (tryE (client_set_muted client False)) (\<lambda>r. case r of
                Inl err \<Rightarrow> raiseE
                  \<lparr>audio_failure = UnmuteAfterVolume,
                   audio_diagnostic =
                     ''volume was changed, but unmuting failed: '' @ tv_error_display err,
                   volume_applied = Some volume\<rparr>
              | Inr _ \<Rightarrow> returnE \<lparr>applied_volume = Some volume, applied_muted = Some False\<rparr>))
      | SetMuted muted \<Rightarrow>
          bindE (tryE (client_set_muted client muted)) (\<lambda>r. case r of
            Inl err \<Rightarrow> raiseE
              \<lparr>audio_failure = (if tv_error_kind err = Authentication then CredentialsUnavailable
                                else SetMutedFailed),
               audio_diagnostic = ''failed to set mute: '' @ tv_error_display err,
               volume_applied = None\<rparr>
          | Inr _ \<Rightarrow> returnE \<lparr>applied_volume = None, applied_muted = Some muted\<rparr>))"

section \<open>Building a client\<close>

text \<open>
  \<open>build_tv_client\<close>. A client is its endpoint, timeouts, credential store and pairing policy;
  its session is the transport's. The owner of the configuration and the place of its credentials
  are looked up outside (\<open>owner_of\<close>, \<open>store_for\<close>).
\<close>

datatype WebOsPairingPolicy = PairIfNeeded | StoredTokenOnly

record TvClientBuildOptions =
  command_timeout :: "duration option"
  webos_pairing_policy :: WebOsPairingPolicy

definition production :: TvClientBuildOptions where
  "production = \<lparr>command_timeout = None, webos_pairing_policy = PairIfNeeded\<rparr>"

definition with_command_timeout :: "duration \<Rightarrow> TvClientBuildOptions \<Rightarrow> TvClientBuildOptions" where
  "with_command_timeout timeout options = options\<lparr>command_timeout := Some timeout\<rparr>"

definition stored_token_only :: "TvClientBuildOptions \<Rightarrow> TvClientBuildOptions" where
  "stored_token_only options = options\<lparr>webos_pairing_policy := StoredTokenOnly\<rparr>"

datatype TvClientBuildError = AuthContext string | TokenStore string | StalePlatform

fun tv_client_build_error_display :: "TvClientBuildError \<Rightarrow> string" where
  "tv_client_build_error_display (AuthContext err) = err"
| "tv_client_build_error_display (TokenStore err) = err"
| "tv_client_build_error_display StalePlatform =
     ''tvs_primary_platform=bscpylgtv is retired; restart LG Buddy to convert the saved profile''"

definition DEFAULT_WEBOS_CONNECT_TIMEOUT :: duration where
  "DEFAULT_WEBOS_CONNECT_TIMEOUT = from_secs 3"
definition DEFAULT_WEBOS_RESPONSE_TIMEOUT :: duration where
  "DEFAULT_WEBOS_RESPONSE_TIMEOUT = from_secs 60"
definition DEFAULT_WEBOS_UNATTENDED_RESPONSE_TIMEOUT :: duration where
  "DEFAULT_WEBOS_UNATTENDED_RESPONSE_TIMEOUT = from_secs 3"

record WebOsTvClient =
  endpoint_ip :: Ipv4Addr
  connect_timeout :: duration
  response_timeout :: duration
  token_store :: string
  pairing_policy :: WebOsPairingPolicy

definition build_tv_client ::
    "(string \<Rightarrow> string + nat) \<Rightarrow> (string \<Rightarrow> nat \<Rightarrow> string + string) \<Rightarrow>
     string \<Rightarrow> Ipv4Addr \<Rightarrow> TvPlatform \<Rightarrow> TvClientBuildOptions \<Rightarrow> TvClientBuildError + WebOsTvClient" where
  "build_tv_client owner_of store_for config_path ip platform options =
     (case platform of
        Bscpylgtv \<Rightarrow> Inl StalePlatform
      | LgWebOs \<Rightarrow>
          (case owner_of config_path of
             Inl e \<Rightarrow> Inl (AuthContext e)
           | Inr owner \<Rightarrow>
          (case store_for config_path owner of
             Inl e \<Rightarrow> Inl (TokenStore e)
           | Inr store \<Rightarrow>
               Inr \<lparr>endpoint_ip = ip, connect_timeout = DEFAULT_WEBOS_CONNECT_TIMEOUT,
                    response_timeout =
                      unwrap_or (command_timeout options)
                        (case webos_pairing_policy options of
                           PairIfNeeded \<Rightarrow> DEFAULT_WEBOS_RESPONSE_TIMEOUT
                         | StoredTokenOnly \<Rightarrow> DEFAULT_WEBOS_UNATTENDED_RESPONSE_TIMEOUT),
                    token_store = store,
                    pairing_policy = webos_pairing_policy options\<rparr>)))"

lemma build_tv_client_ok:
  assumes "build_tv_client owner_of store_for path ip platform options = Inr c"
  shows "platform = LgWebOs" and "endpoint_ip c = ip" and "pairing_policy c = webos_pairing_policy options"
    and "command_timeout options = Some d \<Longrightarrow> response_timeout c = d"
  using assms by (auto simp: build_tv_client_def split: TvPlatform.splits sum.splits)

section \<open>Facts\<close>

lemma parse_i64_show_nat: "n < 2 ^ 63 \<Longrightarrow> parse_i64 (show_nat n) = Some (int n)"
proof -
  assume n: "n < 2 ^ 63"
  obtain c cs where c: "show_nat n = c # cs" by (cases "show_nat n") auto
  then obtain d where "d < 10" "c = digit_char d"
    using show_nat_digits [of c n] by auto
  then have "c \<noteq> CHR ''-''" using digit_char_plain [of d] by simp
  then have "parse_i64 (show_nat n) = map_option int (parse_unsigned 10 (2 ^ 63) (show_nat n))"
    unfolding c parse_i64_def by (auto split: list.splits char.splits bool.splits)
  then show ?thesis using parse_unsigned_show_nat [OF n] by simp
qed

text \<open>
  Brightness levels are never truncated or out of range: whatever text the brightness parser
  accepts denotes an integer between 0 and 100 and the stored byte is that integer (the \<open>as u8\<close>
  cast loses nothing); and every level prints to text that parses back to it.
\<close>

theorem oled_parse_exact:
  "(oled_parse value = Inr b \<longrightarrow>
      (\<exists>n. parse_i64 value = Some n \<and> 0 \<le> n \<and> n \<le> 100 \<and> uint (oled_as_percent b) = n)) \<and>
   (oled_new v = Inr b' \<longrightarrow> oled_as_percent b' = v \<and> unat v \<le> 100 \<and> oled_parse (oled_display b') = Inr b')"
proof (intro conjI impI)
  assume "oled_parse value = Inr b"
  then obtain n where n: "parse_i64 value = Some n" "0 \<le> n" "n \<le> 100" "b = OledBrightness (word_of_int n)"
    by (auto simp: oled_parse_def OLED_BRIGHTNESS_MAX_def split: option.splits if_splits)
  then have "uint (oled_as_percent b) = n" by (simp add: uint_word_of_int_eq take_bit_int_eq_self_iff)
  with n show "\<exists>n. parse_i64 value = Some n \<and> 0 \<le> n \<and> n \<le> 100 \<and> uint (oled_as_percent b) = n"
    by blast
next
  assume "oled_new v = Inr b'"
  then have v: "v \<le> 100" and b: "b' = OledBrightness v"
    by (auto simp: oled_new_def OLED_BRIGHTNESS_MAX_def split: if_splits)
  from v have u: "unat v \<le> 100" by (simp add: word_le_nat_alt)
  then show "unat v \<le> 100" "oled_as_percent b' = v" using b by simp_all
  have "parse_i64 (oled_display b') = Some (int (unat v))"
    using u b by (simp add: oled_display_def parse_i64_show_nat)
  moreover have "uint v \<le> 100" using v by (simp add: word_le_def)
  ultimately show "oled_parse (oled_display b') = Inr b'"
    using b by (simp add: oled_parse_def OLED_BRIGHTNESS_MAX_def)
qed

theorem oled_parse_exact_witness:
  "oled_new 42 = Inr (OledBrightness 42) \<and>
   oled_parse (oled_display (OledBrightness 42)) = Inr (OledBrightness 42)"
proof -
  have "oled_new 42 = Inr (OledBrightness 42)"
    by (simp add: oled_new_def OLED_BRIGHTNESS_MAX_def)
  then show ?thesis using oled_parse_exact by blast
qed

text \<open>
  Setting the volume never leaves an unreported change: an error of the combined
  set-and-unmute operation says that the volume was applied exactly when the TV accepted the
  volume write and only the unmute failed, and success means both writes were accepted, the
  volume first.
\<close>

theorem set_volume_reports_partial_write:
  assumes "client_set_volume client v c = (r1, c1)" and "client_set_muted client False c1 = (r2, c2)"
  shows "case apply_audio_operation_with client (SetVolumeAndUnmute v) c of
      (Inl err, c') \<Rightarrow> (volume_applied err = Some v \<and> is_ok r1 \<and> \<not> is_ok r2 \<and> c' = c2) \<or>
                     (volume_applied err = None \<and> \<not> is_ok r1 \<and> c' = c1)
    | (Inr out, c') \<Rightarrow> is_ok r1 \<and> is_ok r2 \<and> c' = c2 \<and>
                     out = \<lparr>applied_volume = Some v, applied_muted = Some False\<rparr>"
  using assms
  by (cases r1; cases r2)
     (auto simp: apply_audio_operation_with_def bindE_def tryE_def raiseE_def returnE_def)

theorem set_volume_reports_partial_write_witness:
  "(let client = \<lparr>client_set_volume = \<lambda>v c. (Inr (), Suc c),
                  client_set_muted = \<lambda>m c. (Inl (TvError SetMutedOp Transport []), Suc c)\<rparr>
    in case apply_audio_operation_with client (SetVolumeAndUnmute (VolumeLevel 30)) (0 :: nat) of
         (Inl err, c') \<Rightarrow> volume_applied err = Some (VolumeLevel 30) \<and> c' = 2
       | (Inr out, c') \<Rightarrow> False)"
proof -
  let ?client = "\<lparr>client_set_volume = \<lambda>v c. (Inr (), Suc c),
                  client_set_muted = \<lambda>m c. (Inl (TvError SetMutedOp Transport []), Suc c)\<rparr>"
  have 1: "client_set_volume ?client (VolumeLevel 30) (0 :: nat) = (Inr (), 1)" by simp
  have 2: "client_set_muted ?client False (1 :: nat) = (Inl (TvError SetMutedOp Transport []), 2)"
    by simp
  show ?thesis
    using set_volume_reports_partial_write [OF 1 2] by (auto split: prod.splits sum.splits)
qed

end
