(* ===== verification/Events.thy ===== *)
theory Events
  imports Tv
begin

text \<open>
  The runtime event vocabulary: session events and observations (\<open>session.rs\<close>), event sources
  and canonical runtime events (\<open>events.rs\<close>), and the command enum of \<open>lib.rs\<close> with its mapping
  into runtime events. The payloads of commands that never become runtime events (setup,
  settings, updates, diagnostics) are a type parameter.
\<close>

datatype SessionEvent =
    Idle | ActiveEvent | WakeRequestedEvent | BeforeSleep | AfterResume | Lock | Unlock
  | UserActivity

fun session_event_as_str :: "SessionEvent \<Rightarrow> string" where
  "session_event_as_str Idle = ''idle''"
| "session_event_as_str ActiveEvent = ''active''"
| "session_event_as_str WakeRequestedEvent = ''wake-requested''"
| "session_event_as_str BeforeSleep = ''before-sleep''"
| "session_event_as_str AfterResume = ''after-resume''"
| "session_event_as_str Lock = ''lock''"
| "session_event_as_str Unlock = ''unlock''"
| "session_event_as_str UserActivity = ''user-activity''"

datatype StartupMode = StartupAuto | StartupBoot | StartupWake

datatype EventSource =
    CliApi | LinuxLogind | LinuxNetworkManager | LinuxSystemd | LinuxDpms | DesktopSession
  | AuxiliaryInput | FuturePlatform

fun event_source_label :: "EventSource \<Rightarrow> string" where
  "event_source_label CliApi = ''cli-api''"
| "event_source_label LinuxLogind = ''linux-logind''"
| "event_source_label LinuxNetworkManager = ''linux-network-manager''"
| "event_source_label LinuxSystemd = ''linux-systemd''"
| "event_source_label LinuxDpms = ''linux-dpms''"
| "event_source_label DesktopSession = ''desktop-session''"
| "event_source_label AuxiliaryInput = ''auxiliary-input''"
| "event_source_label FuturePlatform = ''future-platform''"

datatype RuntimeEventKind =
    MachineStartup StartupMode
  | MachineShutdownRequested
  | MachinePreparingForSleep
  | MachineResumed
  | NetworkTeardownImminent "bool option"
  | SessionIdle
  | SessionTimedPowerOff
  | SessionActive
  | SessionLocked
  | SessionUnlocked
  | ScreenWakeRequested
  | UserActivityEvent
  | ScreenBlankRequested
  | ScreenRestoreRequested
  | BrightnessRequested
  | VolumeRequested

record RuntimeEvent =
  source :: EventSource
  kind :: RuntimeEventKind

definition runtime_event :: "EventSource \<Rightarrow> RuntimeEventKind \<Rightarrow> RuntimeEvent" where
  "runtime_event s k = \<lparr>source = s, kind = k\<rparr>"

fun kind_from_session_event :: "SessionEvent \<Rightarrow> RuntimeEventKind" where
  "kind_from_session_event Idle = SessionIdle"
| "kind_from_session_event ActiveEvent = SessionActive"
| "kind_from_session_event WakeRequestedEvent = ScreenWakeRequested"
| "kind_from_session_event BeforeSleep = MachinePreparingForSleep"
| "kind_from_session_event AfterResume = MachineResumed"
| "kind_from_session_event Lock = SessionLocked"
| "kind_from_session_event Unlock = SessionUnlocked"
| "kind_from_session_event UserActivity = UserActivityEvent"

definition from_session_event :: "EventSource \<Rightarrow> SessionEvent \<Rightarrow> RuntimeEvent" where
  "from_session_event s event = runtime_event s (kind_from_session_event event)"

definition from_logind_prepare_for_sleep :: "bool \<Rightarrow> RuntimeEvent" where
  "from_logind_prepare_for_sleep preparing =
     runtime_event LinuxLogind (if preparing then MachinePreparingForSleep else MachineResumed)"

definition network_teardown_imminent :: "bool option \<Rightarrow> RuntimeEvent" where
  "network_teardown_imminent machine_sleep_pending =
     runtime_event LinuxNetworkManager (NetworkTeardownImminent machine_sleep_pending)"

datatype PowerCommand = PowerOn | PowerOff
datatype ScreenCommand = ScreenCmdOff | ScreenCmdOn
datatype BrightnessCommand = BrightnessPrompt | BrightnessGet | BrightnessSet OledBrightness
datatype MuteCommand = MuteToggle | MuteOn | MuteOff
datatype VolumeCommand =
  VolumeGet | VolumeSet VolumeLevel | VolumeCmdUp | VolumeCmdDown | VolumeMute MuteCommand

datatype 'p Command =
    Overview
  | Startup StartupMode
  | Shutdown
  | Power PowerCommand
  | SleepPre
  | Sleep
  | NetworkManagerPreDown
  | Brightness BrightnessCommand
  | Volume VolumeCommand
  | Screen ScreenCommand
  | ScreenOff
  | ScreenOn
  | Monitor
  | Lifecycle
  | DetectBackend
  | Setup 'p
  | KWinBridge 'p
  | Dev 'p
  | Settings 'p
  | Updates 'p
  | UpgradePreflight 'p
  | GnomeReadinessProbe 'p

fun kind_from_command :: "'p Command \<Rightarrow> RuntimeEventKind option" where
  "kind_from_command (Startup mode) = Some (MachineStartup mode)"
| "kind_from_command Shutdown = Some MachineShutdownRequested"
| "kind_from_command (Power PowerOn) = Some (MachineStartup StartupBoot)"
| "kind_from_command (Power PowerOff) = Some MachineShutdownRequested"
| "kind_from_command SleepPre = Some MachinePreparingForSleep"
| "kind_from_command Sleep = Some (NetworkTeardownImminent None)"
| "kind_from_command NetworkManagerPreDown = Some (NetworkTeardownImminent None)"
| "kind_from_command (Brightness c) = Some BrightnessRequested"
| "kind_from_command (Volume c) = Some VolumeRequested"
| "kind_from_command (Screen ScreenCmdOff) = Some ScreenBlankRequested"
| "kind_from_command (Screen ScreenCmdOn) = Some ScreenRestoreRequested"
| "kind_from_command ScreenOff = Some ScreenBlankRequested"
| "kind_from_command ScreenOn = Some ScreenRestoreRequested"
| "kind_from_command Overview = None"
| "kind_from_command Monitor = None"
| "kind_from_command Lifecycle = None"
| "kind_from_command (Setup p) = None"
| "kind_from_command DetectBackend = None"
| "kind_from_command (Dev p) = None"
| "kind_from_command (Settings p) = None"
| "kind_from_command (Updates p) = None"
| "kind_from_command (UpgradePreflight p) = None"
| "kind_from_command (GnomeReadinessProbe p) = None"
| "kind_from_command (KWinBridge p) = None"

definition event_from_command :: "'p Command \<Rightarrow> RuntimeEvent option" where
  "event_from_command command = map_option (runtime_event CliApi) (kind_from_command command)"

lemma kind_from_session_event_inj: "kind_from_session_event a = kind_from_session_event b \<longleftrightarrow> a = b"
  by (cases a; cases b) auto

end
