(* ===== verification/Policy.thy ===== *)
theory Policy
  imports Events
begin

text \<open>
  The policy outcome of \<open>policy.rs\<close>: the trail of decided actions, refused actions, marker
  transitions and diagnostics every handler returns. Vectors are lists in push order.
\<close>

datatype ActionKind =
    TvScreenBlank | TvScreenRestore | TvPowerOffFallback | TvTimedIdlePowerOff | TvInputRestore
  | WakeOnLan | TvSystemSleepPowerOff | TvSystemResumeRestore | TvStartupRestore
  | TvShutdownPowerOff | BrightnessUi

datatype DecisionReasonCode =
    RuntimeEventReason | ManualRequest | ConfigDisabled | InputMismatch | MarkerMissing
  | RestorePolicyDenied | DuplicateSystemSleepAttempt | RuntimePhaseIneligible
  | RuntimePhaseUnknown | TransportFailure | NotApplicable | OtherReason

record DecisionReason =
  reason_code :: DecisionReasonCode
  reason_detail :: "string option"

definition decision_reason :: "DecisionReasonCode \<Rightarrow> DecisionReason" where
  "decision_reason c = \<lparr>reason_code = c, reason_detail = None\<rparr>"

definition decision_reason_with_detail :: "DecisionReasonCode \<Rightarrow> string \<Rightarrow> DecisionReason" where
  "decision_reason_with_detail c d = \<lparr>reason_code = c, reason_detail = Some d\<rparr>"

record ActionDecision =
  action_kind :: ActionKind
  action_reason :: DecisionReason

record NoActionDecision =
  no_action_reason :: DecisionReason

datatype StateMarker = SessionScreenOwnership | SystemScreenOwnership | SystemSleepAttempt

datatype TransitionReasonCode =
    ActionSelected | RestoreCompleted | TrConfigDisabled | TrInputMismatch | TrMarkerMissing
  | TrDuplicateSystemSleepAttempt | TrRuntimePhaseIneligible | TrTransportFailure
  | StartupBootReason | TrOther

record TransitionReason =
  transition_code :: TransitionReasonCode
  transition_detail :: "string option"

definition transition_reason :: "TransitionReasonCode \<Rightarrow> TransitionReason" where
  "transition_reason c = \<lparr>transition_code = c, transition_detail = None\<rparr>"

definition transition_reason_with_detail :: "TransitionReasonCode \<Rightarrow> string \<Rightarrow> TransitionReason" where
  "transition_reason_with_detail c d = \<lparr>transition_code = c, transition_detail = Some d\<rparr>"

datatype StateTransition =
    CreateMarker StateMarker TransitionReason
  | ClearMarker StateMarker TransitionReason
  | PreserveMarker StateMarker TransitionReason

datatype DiagnosticLevel = Info | Warning | Error

record Diagnostic =
  diagnostic_level :: DiagnosticLevel
  diagnostic_message :: string

definition diagnostic_info :: "string \<Rightarrow> Diagnostic" where
  "diagnostic_info m = \<lparr>diagnostic_level = Info, diagnostic_message = m\<rparr>"

definition diagnostic_warning :: "string \<Rightarrow> Diagnostic" where
  "diagnostic_warning m = \<lparr>diagnostic_level = Warning, diagnostic_message = m\<rparr>"

record PolicyOutcome =
  actions :: "ActionDecision list"
  no_actions :: "NoActionDecision list"
  state_transitions :: "StateTransition list"
  diagnostics :: "Diagnostic list"

definition outcome_new :: PolicyOutcome where
  "outcome_new = \<lparr>actions = [], no_actions = [], state_transitions = [], diagnostics = []\<rparr>"

definition with_action :: "ActionKind \<Rightarrow> DecisionReason \<Rightarrow> PolicyOutcome \<Rightarrow> PolicyOutcome" where
  "with_action k r out = out\<lparr>actions := actions out @ [\<lparr>action_kind = k, action_reason = r\<rparr>]\<rparr>"

definition with_no_action :: "DecisionReason \<Rightarrow> PolicyOutcome \<Rightarrow> PolicyOutcome" where
  "with_no_action r out = out\<lparr>no_actions := no_actions out @ [\<lparr>no_action_reason = r\<rparr>]\<rparr>"

definition with_state_transition :: "StateTransition \<Rightarrow> PolicyOutcome \<Rightarrow> PolicyOutcome" where
  "with_state_transition t out = out\<lparr>state_transitions := state_transitions out @ [t]\<rparr>"

definition with_diagnostic :: "Diagnostic \<Rightarrow> PolicyOutcome \<Rightarrow> PolicyOutcome" where
  "with_diagnostic d out = out\<lparr>diagnostics := diagnostics out @ [d]\<rparr>"

definition merge :: "PolicyOutcome \<Rightarrow> PolicyOutcome \<Rightarrow> PolicyOutcome" where
  "merge out other =
     out\<lparr>actions := actions out @ actions other,
         no_actions := no_actions out @ no_actions other,
         state_transitions := state_transitions out @ state_transitions other,
         diagnostics := diagnostics out @ diagnostics other\<rparr>"

text \<open>The trail as the handlers use it: field by field, so that proofs never open the records.\<close>

lemma outcome_new_fields [simp]:
  "actions outcome_new = []" "no_actions outcome_new = []"
  "state_transitions outcome_new = []" "diagnostics outcome_new = []"
  by (simp_all add: outcome_new_def)

lemma with_action_fields [simp]:
  "actions (with_action k r out) = actions out @ [\<lparr>action_kind = k, action_reason = r\<rparr>]"
  "no_actions (with_action k r out) = no_actions out"
  "state_transitions (with_action k r out) = state_transitions out"
  "diagnostics (with_action k r out) = diagnostics out"
  by (simp_all add: with_action_def)

lemma with_no_action_fields [simp]:
  "actions (with_no_action r out) = actions out"
  "no_actions (with_no_action r out) = no_actions out @ [\<lparr>no_action_reason = r\<rparr>]"
  "state_transitions (with_no_action r out) = state_transitions out"
  "diagnostics (with_no_action r out) = diagnostics out"
  by (simp_all add: with_no_action_def)

lemma with_state_transition_fields [simp]:
  "actions (with_state_transition t out) = actions out"
  "no_actions (with_state_transition t out) = no_actions out"
  "state_transitions (with_state_transition t out) = state_transitions out @ [t]"
  "diagnostics (with_state_transition t out) = diagnostics out"
  by (simp_all add: with_state_transition_def)

lemma with_diagnostic_fields [simp]:
  "actions (with_diagnostic d out) = actions out"
  "no_actions (with_diagnostic d out) = no_actions out"
  "state_transitions (with_diagnostic d out) = state_transitions out"
  "diagnostics (with_diagnostic d out) = diagnostics out @ [d]"
  by (simp_all add: with_diagnostic_def)

lemma merge_fields [simp]:
  "actions (merge out other) = actions out @ actions other"
  "no_actions (merge out other) = no_actions out @ no_actions other"
  "state_transitions (merge out other) = state_transitions out @ state_transitions other"
  "diagnostics (merge out other) = diagnostics out @ diagnostics other"
  by (simp_all add: merge_def)

lemma merge_assoc: "merge (merge a b) c = merge a (merge b c)"
  by (simp add: merge_def)

lemma merge_new [simp]: "merge outcome_new a = a" "merge a outcome_new = a"
  by (simp_all add: merge_def outcome_new_def)

definition selects :: "ActionKind \<Rightarrow> PolicyOutcome \<Rightarrow> bool" where
  "selects k out \<longleftrightarrow> list_ex (\<lambda>a. action_kind a = k) (actions out)"

lemma selects_simps [simp]:
  "\<not> selects k outcome_new"
  "selects k (with_action k' r out) \<longleftrightarrow> selects k out \<or> k' = k"
  "selects k (with_no_action dr out) = selects k out"
  "selects k (with_state_transition t out) = selects k out"
  "selects k (with_diagnostic d out) = selects k out"
  "selects k (merge out other) \<longleftrightarrow> selects k out \<or> selects k other"
  by (simp_all add: selects_def)

end
