(* ===== verification/Wol.thy ===== *)
theory Wol
  imports LG_Config
begin

text \<open>
  Wake-on-LAN (\<open>wol.rs\<close>): the magic packet, the addresses it is sent to, and the sender over a
  UDP socket. Socket calls and the interface list are the operating system's answers, a record
  \<open>udp\<close> of functions; \<open>u32\<close> addresses are 32-bit words.
\<close>

unbundle bit_operations_syntax

type_synonym u16 = "16 word"
type_synonym u32 = "32 word"

definition MAGIC_PACKET_LEN :: nat where "MAGIC_PACKET_LEN = 102"
definition DEFAULT_WOL_PORT :: u16 where "DEFAULT_WOL_PORT = 9"

datatype WakeOnLanError = WolIo (wol_action: string) (wol_source: io_error)

definition wol_error_display :: "WakeOnLanError \<Rightarrow> string" where
  "wol_error_display e = ''failed to '' @ wol_action e @ '': '' @ io_message (wol_source e)"

datatype SocketAddrV4 = SocketAddrV4 (socket_ip: Ipv4Addr) (socket_port: u16)

definition UNSPECIFIED :: Ipv4Addr where "UNSPECIFIED = Ipv4Addr 0 0 0 0"
definition BROADCAST :: Ipv4Addr where "BROADCAST = Ipv4Addr 255 255 255 255"

record UdpWakeOnLanSender =
  bind_addr :: SocketAddrV4
  target_addr :: SocketAddrV4

definition sender_broadcast :: "u16 \<Rightarrow> UdpWakeOnLanSender" where
  "sender_broadcast port =
     \<lparr>bind_addr = SocketAddrV4 UNSPECIFIED 0, target_addr = SocketAddrV4 BROADCAST port\<rparr>"

definition sender_default :: UdpWakeOnLanSender where
  "sender_default = sender_broadcast DEFAULT_WOL_PORT"

text \<open>An interface of \<open>getifaddrs\<close>: IPv4 address, netmask, \<open>IFF_BROADCAST\<close>, broadcast address.\<close>

record ifaddr =
  ifa_addr :: "Ipv4Addr option"
  ifa_netmask :: "Ipv4Addr option"
  ifa_broadcast_flag :: bool
  ifa_broadcast :: "Ipv4Addr option"

record udp =
  udp_bind :: "SocketAddrV4 \<Rightarrow> io_error + unit"
  udp_set_broadcast :: "io_error + unit"
  udp_send_to :: "u8 list \<Rightarrow> SocketAddrV4 \<Rightarrow> io_error + unit"
  udp_connect :: "SocketAddrV4 \<Rightarrow> io_error + unit"
  udp_local_addr :: "SocketAddrV4 \<Rightarrow> io_error + Ipv4Addr option"
  os_getifaddrs :: "io_error + ifaddr list"

section \<open>The packet\<close>

fun fill_chunks :: "nat \<Rightarrow> u8 list \<Rightarrow> u8 list" where
  "fill_chunks 0 mac = []"
| "fill_chunks (Suc n) mac = mac @ fill_chunks n mac"

definition build_magic_packet :: "MacAddress \<Rightarrow> u8 list" where
  "build_magic_packet mac =
     replicate 6 0xFF @
     fill_chunks ((MAGIC_PACKET_LEN - 6) div length (mac_octets mac)) (mac_octets mac)"

section \<open>Targets\<close>

definition push_unique_target :: "SocketAddrV4 list \<Rightarrow> SocketAddrV4 \<Rightarrow> SocketAddrV4 list" where
  "push_unique_target targets target =
     (if target \<notin> set targets then targets @ [target] else targets)"

fun u32_from_be_bytes :: "Ipv4Addr \<Rightarrow> u32" where
  "u32_from_be_bytes (Ipv4Addr a b c d) =
     push_bit 24 (ucast a) OR push_bit 16 (ucast b) OR push_bit 8 (ucast c) OR ucast d"

definition u32_to_be_bytes :: "u32 \<Rightarrow> Ipv4Addr" where
  "u32_to_be_bytes x =
     Ipv4Addr (ucast (drop_bit 24 x)) (ucast (drop_bit 16 x)) (ucast (drop_bit 8 x)) (ucast x)"

definition subnet_broadcast :: "Ipv4Addr \<Rightarrow> Ipv4Addr \<Rightarrow> Ipv4Addr option" where
  "subnet_broadcast addr netmask =
     (let a = u32_from_be_bytes addr; m = u32_from_be_bytes netmask in
      if m = - 1 then None else Some (u32_to_be_bytes (a OR NOT m)))"

fun interface_broadcast_scan :: "Ipv4Addr \<Rightarrow> ifaddr list \<Rightarrow> Ipv4Addr option" where
  "interface_broadcast_scan src [] = None"
| "interface_broadcast_scan src (iface # rest) =
     (if ifa_addr iface = Some src then
        (case ifa_netmask iface of
           Some netmask \<Rightarrow> subnet_broadcast src netmask
         | None \<Rightarrow>
             if ifa_broadcast_flag iface then ifa_broadcast iface
             else interface_broadcast_scan src rest)
      else interface_broadcast_scan src rest)"

definition interface_broadcast_for_source :: "udp \<Rightarrow> Ipv4Addr \<Rightarrow> io_error + Ipv4Addr option" where
  "interface_broadcast_for_source os src =
     (case os_getifaddrs os of Inl e \<Rightarrow> Inl e | Inr ifs \<Rightarrow> Inr (interface_broadcast_scan src ifs))"

definition routed_source_addr ::
    "udp \<Rightarrow> Ipv4Addr \<Rightarrow> SocketAddrV4 \<Rightarrow> u16 \<Rightarrow> io_error + Ipv4Addr" where
  "routed_source_addr os target_ip bind port =
     (case udp_bind os bind of Inl e \<Rightarrow> Inl e | Inr _ \<Rightarrow>
     (case udp_connect os (SocketAddrV4 target_ip port) of Inl e \<Rightarrow> Inl e | Inr _ \<Rightarrow>
     (case udp_local_addr os (SocketAddrV4 target_ip port) of
        Inl e \<Rightarrow> Inl e
      | Inr (Some ip) \<Rightarrow> Inr ip
      | Inr None \<Rightarrow>
          Inl (IoError AddrNotAvailable ''route to IPv4 target used an IPv6 source address''))))"

definition routed_subnet_broadcast ::
    "udp \<Rightarrow> Ipv4Addr \<Rightarrow> SocketAddrV4 \<Rightarrow> u16 \<Rightarrow> io_error + Ipv4Addr option" where
  "routed_subnet_broadcast os target_ip bind port =
     (case routed_source_addr os target_ip bind port of
        Inl e \<Rightarrow> Inl e
      | Inr src \<Rightarrow> interface_broadcast_for_source os src)"

definition target_addresses_for ::
    "udp \<Rightarrow> UdpWakeOnLanSender \<Rightarrow> Ipv4Addr \<Rightarrow> SocketAddrV4 list" where
  "target_addresses_for os self target_ip =
     (let port = socket_port (target_addr self);
          routed = (case routed_subnet_broadcast os target_ip (bind_addr self) port of
                      Inr (Some broadcast) \<Rightarrow> push_unique_target [] (SocketAddrV4 broadcast port)
                    | _ \<Rightarrow> [])
      in push_unique_target (push_unique_target routed (SocketAddrV4 target_ip port))
           (target_addr self))"

section \<open>Sending\<close>

fun send_loop ::
    "udp \<Rightarrow> u8 list \<Rightarrow> SocketAddrV4 list \<Rightarrow> bool \<Rightarrow> WakeOnLanError option \<Rightarrow>
     bool \<times> WakeOnLanError option" where
  "send_loop os packet [] sent last_error = (sent, last_error)"
| "send_loop os packet (target # targets) sent last_error =
     (case udp_send_to os packet target of
        Inr _ \<Rightarrow> send_loop os packet targets True last_error
      | Inl e \<Rightarrow> send_loop os packet targets sent (Some (WolIo ''send Wake-on-LAN packet'' e)))"

definition send_magic_packet_to_targets ::
    "udp \<Rightarrow> UdpWakeOnLanSender \<Rightarrow> MacAddress \<Rightarrow> SocketAddrV4 list \<Rightarrow> WakeOnLanError + unit" where
  "send_magic_packet_to_targets os self mac targets =
     (case udp_bind os (bind_addr self) of
        Inl e \<Rightarrow> Inl (WolIo ''bind UDP socket'' e)
      | Inr _ \<Rightarrow>
     (case udp_set_broadcast os of
        Inl e \<Rightarrow> Inl (WolIo ''enable UDP broadcast'' e)
      | Inr _ \<Rightarrow>
     (case send_loop os (build_magic_packet mac) targets False None of
        (True, _) \<Rightarrow> Inr ()
      | (False, Some e) \<Rightarrow> Inl e
      | (False, None) \<Rightarrow>
          Inl (WolIo ''send Wake-on-LAN packet'' (IoError InvalidInput ''no Wake-on-LAN targets'')))))"

definition send_magic_packet ::
    "udp \<Rightarrow> UdpWakeOnLanSender \<Rightarrow> MacAddress \<Rightarrow> WakeOnLanError + unit" where
  "send_magic_packet os self mac = send_magic_packet_to_targets os self mac [target_addr self]"

definition send_magic_packet_to ::
    "udp \<Rightarrow> UdpWakeOnLanSender \<Rightarrow> MacAddress \<Rightarrow> Ipv4Addr \<Rightarrow> WakeOnLanError + unit" where
  "send_magic_packet_to os self mac target_ip =
     send_magic_packet_to_targets os self mac (target_addresses_for os self target_ip)"

section \<open>Properties\<close>

lemma length_mac_octets [simp]: "length (mac_octets m) = 6"
  by (cases m) simp

text \<open>
  The magic packet has the wire format Wake-on-LAN asks for: exactly 102 bytes, six bytes
  \<open>0xFF\<close>, and then byte \<open>6 + i\<close> is byte \<open>i mod 6\<close> of the MAC address, sixteen times over.
\<close>

theorem magic_packet_format:
  "length (build_magic_packet mac) = 102 \<and>
   take 6 (build_magic_packet mac) = replicate 6 0xFF \<and>
   drop 6 (build_magic_packet mac) = concat (replicate 16 (mac_octets mac))"
proof -
  have "fill_chunks n xs = concat (replicate n xs)" for n and xs :: "u8 list"
    by (induction n) auto
  then show ?thesis by (simp add: build_magic_packet_def MAGIC_PACKET_LEN_def length_concat sum_list_replicate)
qed

lemma be_bytes_roundtrip: "u32_from_be_bytes (u32_to_be_bytes x) = x"
proof (rule bit_word_eqI)
  fix n :: nat
  assume n: "n < LENGTH(32)"
  consider "n < 8" | "8 \<le> n" "n < 16" | "16 \<le> n" "n < 24" | "24 \<le> n" by linarith
  then show "bit (u32_from_be_bytes (u32_to_be_bytes x)) n = bit x n"
    using n by cases (auto simp: u32_to_be_bytes_def bit_or_iff bit_push_bit_iff bit_ucast_iff bit_drop_bit_eq)
qed

text \<open>
  A subnet broadcast address keeps the network part of the interface's address and sets every
  host bit; a host route (mask \<open>255.255.255.255\<close>) has none.
\<close>

theorem subnet_broadcast_bits:
  "(subnet_broadcast addr netmask = None \<longleftrightarrow> u32_from_be_bytes netmask = - 1) \<and>
   (subnet_broadcast addr netmask = Some b \<longrightarrow>
      u32_from_be_bytes b AND u32_from_be_bytes netmask = u32_from_be_bytes addr AND u32_from_be_bytes netmask \<and>
      u32_from_be_bytes b OR u32_from_be_bytes netmask = - 1)"
proof (intro conjI impI)
  assume "subnet_broadcast addr netmask = Some b"
  then have b: "u32_from_be_bytes b = u32_from_be_bytes addr OR NOT (u32_from_be_bytes netmask)"
    by (auto simp: subnet_broadcast_def Let_def be_bytes_roundtrip split: if_splits)
  show "u32_from_be_bytes b AND u32_from_be_bytes netmask = u32_from_be_bytes addr AND u32_from_be_bytes netmask"
    unfolding b by (rule bit_word_eqI) (auto simp: bit_and_iff bit_or_iff bit_not_iff)
  show "u32_from_be_bytes b OR u32_from_be_bytes netmask = - 1"
    unfolding b by (rule bit_word_eqI) (auto simp: bit_or_iff bit_not_iff)
qed (simp add: subnet_broadcast_def Let_def)

theorem subnet_broadcast_bits_witness:
  "subnet_broadcast (Ipv4Addr 192 168 1 17) (Ipv4Addr 255 255 255 0) = Some (Ipv4Addr 192 168 1 255) \<and>
   u32_from_be_bytes (Ipv4Addr 192 168 1 255) OR u32_from_be_bytes (Ipv4Addr 255 255 255 0) = - 1"
proof -
  have "subnet_broadcast (Ipv4Addr 192 168 1 17) (Ipv4Addr 255 255 255 0) = Some (Ipv4Addr 192 168 1 255)"
    by code_simp
  then show ?thesis using subnet_broadcast_bits by blast
qed

lemma send_loop_sent:
  "fst (send_loop os p ts sent le) \<longleftrightarrow> sent \<or> (\<exists>t \<in> set ts. is_ok (udp_send_to os p t))"
  by (induction os p ts sent le rule: send_loop.induct) (auto split: sum.splits simp: is_ok_iff)

lemma target_addresses_for_members:
  "SocketAddrV4 ip (socket_port (target_addr s)) \<in> set (target_addresses_for os s ip)"
  "target_addr s \<in> set (target_addresses_for os s ip)"
  "distinct (target_addresses_for os s ip)"
  by (auto simp: target_addresses_for_def push_unique_target_def Let_def split: sum.splits option.splits)

text \<open>
  A directed wake reports success exactly when the socket could be opened and at least one
  target accepted the packet; the TV's own address and the configured broadcast address are
  always among the targets, and no address is sent to twice.
\<close>

theorem wake_succeeds_iff_some_target:
  "(send_magic_packet_to os s mac ip = Inr () \<longleftrightarrow>
      is_ok (udp_bind os (bind_addr s)) \<and> is_ok (udp_set_broadcast os) \<and>
      (\<exists>t. t \<in> set (target_addresses_for os s ip) \<and> is_ok (udp_send_to os (build_magic_packet mac) t))) \<and>
   SocketAddrV4 ip (socket_port (target_addr s)) \<in> set (target_addresses_for os s ip) \<and>
   target_addr s \<in> set (target_addresses_for os s ip) \<and>
   distinct (target_addresses_for os s ip)"
proof -
  let ?ts = "target_addresses_for os s ip"
  obtain sent le where l: "send_loop os (build_magic_packet mac) ?ts False None = (sent, le)" by force
  then have "sent \<longleftrightarrow> (\<exists>t. t \<in> set ?ts \<and> is_ok (udp_send_to os (build_magic_packet mac) t))"
    using send_loop_sent [of os "build_magic_packet mac" ?ts False None] by auto
  then show ?thesis using l target_addresses_for_members
    by (auto simp: send_magic_packet_to_def send_magic_packet_to_targets_def is_ok_iff
        split: sum.splits bool.splits option.splits prod.splits)
qed

end
