(* ===== verification/World.thy ===== *)
theory World
  imports Policy Wol
begin

text \<open>
  What the handlers act on. The world is the files under the runtime directories, the \<open>flock\<close>s
  on them and the history of effects performed, newest first. Everything outside the program,
  the TV client, the Wake-on-LAN sender, the log writer, file-system faults, logind, the clock,
  environment variables and the other processes, is an \<open>environment\<close>: functions of the history,
  so that two identical calls may be answered differently. A file-system fault is an error of a
  kind the code does not look at; the kinds it does look at (\<open>NotFound\<close>, \<open>AlreadyExists\<close>) follow
  from the files. Other processes act while this one sleeps; they never release a lock it holds.
\<close>

type_synonym path = string

datatype RuntimePhaseRead = Pending | NotPending | UnknownPhase string

datatype file_op = CreateDirAll | OpenFile | WriteAll | FlushFile | SyncAll | RenameFile | RemoveFile
  | ReadFile | Flock

text \<open>What a finished child process leaves (\<open>std::process::Output\<close>); no code means a signal ended it.\<close>

record command_output =
  out_code :: "int option"
  out_stdout :: string
  out_stderr :: string

datatype effect =
    CurrentInputRead "TvError + CurrentInput"
  | InputSet HdmiInput "TvError + unit"
  | PoweredOff "TvError + unit"
  | Blanked "TvError + unit"
  | Unblanked "TvError + unit"
  | WakePacket MacAddress Ipv4Addr "WakeOnLanError + unit"
  | Slept duration
  | Wrote string
  | WriterFlushed
  | MarkerCreated path
  | FileRemoved path
  | FileWritten path string
  | PhaseRead RuntimePhaseRead
  | SleepRequestRead "io_error + bool"
  | RebootRead "io_error + bool"
  | NetworkWaited "io_error + unit"
  | RouteWaited Ipv4Addr "io_error + unit"
  | StatusQueried "string list" "io_error + bool"
  | CommandRan "string list" "io_error + command_output"
  | PathQueried string "string + path"
  | Progressed string

text \<open>Effects that reach the TV and may change what it shows.\<close>

fun tv_action :: "effect \<Rightarrow> bool" where
  "tv_action (InputSet i r) = True"
| "tv_action (PoweredOff r) = True"
| "tv_action (Blanked r) = True"
| "tv_action (Unblanked r) = True"
| "tv_action (WakePacket m ip r) = True"
| "tv_action _ = False"

datatype lock_holder = Ours | Others

record world =
  trace :: "effect list"
  files :: "path \<rightharpoonup> string"
  locks :: "path \<rightharpoonup> lock_holder"

record environment =
  tv_current_input :: "effect list \<Rightarrow> TvError + CurrentInput"
  tv_set_input :: "HdmiInput \<Rightarrow> effect list \<Rightarrow> TvError + unit"
  tv_power_off :: "effect list \<Rightarrow> TvError + unit"
  tv_blank_screen :: "effect list \<Rightarrow> TvError + unit"
  tv_unblank_screen :: "effect list \<Rightarrow> TvError + unit"
  wol_send_to :: "MacAddress \<Rightarrow> Ipv4Addr \<Rightarrow> effect list \<Rightarrow> WakeOnLanError + unit"
  writer_fault :: "effect list \<Rightarrow> string option"
  flush_fault :: "effect list \<Rightarrow> string option"
  file_fault :: "file_op \<Rightarrow> path \<Rightarrow> effect list \<Rightarrow> string option"
  phase_provider :: "effect list \<Rightarrow> RuntimePhaseRead"
  sleep_detector :: "effect list \<Rightarrow> io_error + bool"
  reboot_detector :: "effect list \<Rightarrow> io_error + bool"
  network_waiter :: "effect list \<Rightarrow> io_error + unit"
  route_waiter :: "Ipv4Addr \<Rightarrow> effect list \<Rightarrow> io_error + unit"
  now :: "effect list \<Rightarrow> instant"
  env_var :: "string \<Rightarrow> string option"
  process_id :: nat
  others_files :: "duration \<Rightarrow> effect list \<Rightarrow> (path \<rightharpoonup> string) \<Rightarrow> (path \<rightharpoonup> string)"
  others_locks :: "duration \<Rightarrow> effect list \<Rightarrow> path \<Rightarrow> bool"

definition emit :: "effect \<Rightarrow> world \<Rightarrow> world" where
  "emit e w = w\<lparr>trace := e # trace w\<rparr>"

lemma emit_fields [simp]:
  "trace (emit e w) = e # trace w" "files (emit e w) = files w" "locks (emit e w) = locks w"
  by (simp_all add: emit_def)

section \<open>Calls to the outside\<close>

text \<open>A call whose result the environment decides and the history records.\<close>

definition askE :: "(effect list \<Rightarrow> 'e + 'a) \<Rightarrow> ('e + 'a \<Rightarrow> effect) \<Rightarrow> (world, 'e, 'a) eff" where
  "askE answer record = (\<lambda>w. let r = answer (trace w) in (r, emit (record r) w))"

definition input_current :: "environment \<Rightarrow> (world, TvError, CurrentInput) eff" where
  "input_current env = askE (tv_current_input env) CurrentInputRead"

definition input_set :: "environment \<Rightarrow> HdmiInput \<Rightarrow> (world, TvError, unit) eff" where
  "input_set env i = askE (tv_set_input env i) (InputSet i)"

definition power_off :: "environment \<Rightarrow> (world, TvError, unit) eff" where
  "power_off env = askE (tv_power_off env) PoweredOff"

definition screen_blank :: "environment \<Rightarrow> (world, TvError, unit) eff" where
  "screen_blank env = askE (tv_blank_screen env) Blanked"

definition screen_unblank :: "environment \<Rightarrow> (world, TvError, unit) eff" where
  "screen_unblank env = askE (tv_unblank_screen env) Unblanked"

definition power_wake ::
    "environment \<Rightarrow> Ipv4Addr \<Rightarrow> MacAddress \<Rightarrow> (world, WakeOnLanError, unit) eff" where
  "power_wake env ip mac = askE (wol_send_to env mac ip) (WakePacket mac ip)"

definition machine_sleep_pending :: "environment \<Rightarrow> (world, 'e, RuntimePhaseRead) eff" where
  "machine_sleep_pending env =
     (\<lambda>w. let r = phase_provider env (trace w) in (Inr r, emit (PhaseRead r) w))"

definition is_sleep_requested :: "environment \<Rightarrow> (world, io_error, bool) eff" where
  "is_sleep_requested env = askE (sleep_detector env) SleepRequestRead"

definition is_reboot_pending :: "environment \<Rightarrow> (world, io_error, bool) eff" where
  "is_reboot_pending env = askE (reboot_detector env) RebootRead"

definition wait_for_network :: "environment \<Rightarrow> (world, io_error, unit) eff" where
  "wait_for_network env = askE (network_waiter env) NetworkWaited"

definition wait_for_route_to :: "environment \<Rightarrow> Ipv4Addr \<Rightarrow> (world, io_error, unit) eff" where
  "wait_for_route_to env ip = askE (route_waiter env ip) (RouteWaited ip)"

text \<open>\<open>writeln!\<close> and \<open>flush\<close> on the log writer; \<open>sleep\<close>, during which other processes act.\<close>

definition writelnE :: "environment \<Rightarrow> string \<Rightarrow> (world, io_error, unit) eff" where
  "writelnE env msg =
     (\<lambda>w. case writer_fault env (trace w) of
            Some e \<Rightarrow> (Inl (IoError OtherKind e), w)
          | None \<Rightarrow> (Inr (), emit (Wrote msg) w))"

definition flushE :: "environment \<Rightarrow> (world, io_error, unit) eff" where
  "flushE env =
     (\<lambda>w. case flush_fault env (trace w) of
            Some e \<Rightarrow> (Inl (IoError OtherKind e), w)
          | None \<Rightarrow> (Inr (), emit WriterFlushed w))"

definition sleep_world :: "environment \<Rightarrow> duration \<Rightarrow> world \<Rightarrow> world" where
  "sleep_world env d w =
     emit (Slept d)
       (w\<lparr>files := others_files env d (trace w) (files w),
          locks := (\<lambda>p. if locks w p = Some Ours then Some Ours
                        else if others_locks env d (trace w) p then Some Others else None)\<rparr>)"

definition sleepE :: "environment \<Rightarrow> duration \<Rightarrow> (world, 'e, unit) eff" where
  "sleepE env d = modifyE (sleep_world env d)"

text \<open>\<open>RunError\<close>: the variants the modelled code raises.\<close>

datatype StateDirError = SessionRuntimeUnavailable

datatype RunError =
    Run_Io io_error
  | Run_Policy string
  | Run_MigrationRequired string
  | Run_TvClientBuild TvClientBuildError
  | Run_ConfigPath ConfigPathError
  | Run_ConfigLoad ConfigLoadError
  | Run_StateDir StateDirError

fun state_dir_error_display :: "StateDirError \<Rightarrow> string" where
  "state_dir_error_display SessionRuntimeUnavailable =
     ''could not resolve a session runtime directory from override, XDG_RUNTIME_DIR, or uid''"

fun run_error_display :: "RunError \<Rightarrow> string" where
  "run_error_display (Run_Io err) = io_message err"
| "run_error_display (Run_Policy err) = err"
| "run_error_display (Run_MigrationRequired err) = err"
| "run_error_display (Run_TvClientBuild err) = tv_client_build_error_display err"
| "run_error_display (Run_ConfigPath err) = config_path_error_display err"
| "run_error_display (Run_ConfigLoad err) = config_load_error_display err"
| "run_error_display (Run_StateDir err) = state_dir_error_display err"

text \<open>\<open>From<ConfigLoadError>\<close>: a stale configuration is its own error.\<close>

fun run_error_from_load :: "ConfigLoadError \<Rightarrow> RunError" where
  "run_error_from_load (Stale reasons) = Run_MigrationRequired (config_load_error_display (Stale reasons))"
| "run_error_from_load err = Run_ConfigLoad err"

text \<open>The conversion of \<open>io::Error\<close> by \<open>?\<close> in functions returning \<open>RunError\<close>.\<close>

definition ioE :: "(world, io_error, 'a) eff \<Rightarrow> (world, RunError, 'a) eff" where
  "ioE m = mapErrE Run_Io m"

definition say :: "environment \<Rightarrow> string \<Rightarrow> (world, RunError, unit) eff" where
  "say env msg = ioE (writelnE env msg)"

definition flush :: "environment \<Rightarrow> (world, RunError, unit) eff" where
  "flush env = ioE (flushE env)"

text \<open>
  Declared alike by \<open>screen.rs\<close> and \<open>lifecycle.rs\<close>: what a TV effect returned, reduced to its
  text, and delays that an environment variable overrides in whole seconds.
\<close>

datatype TvEffectObservation = Succeeded | Failed string

fun tv_effect_observation :: "TvError + unit \<Rightarrow> TvEffectObservation" where
  "tv_effect_observation (Inr _) = Succeeded"
| "tv_effect_observation (Inl err) = Failed (tv_error_display err)"

definition msg_input_mismatch :: "CurrentInput \<Rightarrow> HdmiInput \<Rightarrow> string" where
  "msg_input_mismatch current configured =
     ''TV is on '' @ current_input_display current @ '', not '' @ hdmi_as_str configured"

definition duration_override_secs :: "environment \<Rightarrow> string \<Rightarrow> duration \<Rightarrow> duration" where
  "duration_override_secs env env_key dflt =
     (case env_var env env_key of
        None \<Rightarrow> dflt
      | Some value \<Rightarrow>
          (case parse_unsigned 10 (2 ^ 64) value of None \<Rightarrow> dflt | Some n \<Rightarrow> from_secs n))"

section \<open>Weakest preconditions of the calls\<close>

lemma wp_askE [wp_rules]:
  "wp (askE answer rec) Q E w =
     (case answer (trace w) of
        Inl e \<Rightarrow> E e (emit (rec (Inl e)) w) | Inr a \<Rightarrow> Q a (emit (rec (Inr a)) w))"
  by (simp add: wp_def askE_def Let_def split: sum.splits)

lemma wp_machine_sleep_pending [wp_rules]:
  "wp (machine_sleep_pending env) Q E w =
     Q (phase_provider env (trace w)) (emit (PhaseRead (phase_provider env (trace w))) w)"
  by (simp add: wp_def machine_sleep_pending_def Let_def)

lemma wp_writelnE [wp_rules]:
  "wp (writelnE env msg) Q E w =
     (case writer_fault env (trace w) of
        Some e \<Rightarrow> E (IoError OtherKind e) w | None \<Rightarrow> Q () (emit (Wrote msg) w))"
  by (simp add: wp_def writelnE_def split: option.splits)

lemma wp_flushE [wp_rules]:
  "wp (flushE env) Q E w =
     (case flush_fault env (trace w) of
        Some e \<Rightarrow> E (IoError OtherKind e) w | None \<Rightarrow> Q () (emit WriterFlushed w))"
  by (simp add: wp_def flushE_def split: option.splits)

lemma wp_sleepE [wp_rules]: "wp (sleepE env d) Q E w = Q () (sleep_world env d w)"
  by (simp add: sleepE_def wp_modifyE)

lemmas tv_calls = input_current_def input_set_def power_off_def screen_blank_def
  screen_unblank_def power_wake_def

lemmas os_calls = is_sleep_requested_def is_reboot_pending_def wait_for_network_def
  wait_for_route_to_def

lemmas say_defs = say_def flush_def ioE_def

lemma trace_sleep_world [simp]: "trace (sleep_world env d w) = Slept d # trace w"
  by (simp add: sleep_world_def)

lemma files_sleep_world: "files (sleep_world env d w) = others_files env d (trace w) (files w)"
  by (simp add: sleep_world_def)

lemma own_locks_sleep_world [simp]:
  "locks (sleep_world env d w) p = Some Ours \<longleftrightarrow> locks w p = Some Ours"
  by (simp add: sleep_world_def)

section \<open>Frame relations\<close>

text \<open>
  \<open>extends P\<close>: the history grew and every new effect satisfies \<open>P\<close>. It is the relation behind
  every "this operation never does \<dots>" of the development.
\<close>

definition extends :: "(effect \<Rightarrow> bool) \<Rightarrow> world \<Rightarrow> world \<Rightarrow> bool" where
  "extends P w w' \<longleftrightarrow> (\<exists>new. trace w' = new @ trace w \<and> list_all P new)"

interpretation ext: world_preorder "extends P"
proof
  show "extends P w w" for w by (simp add: extends_def)
  show "extends P u v \<Longrightarrow> extends P v w \<Longrightarrow> extends P u w" for u v w
    by (fastforce simp: extends_def)
qed

lemma extends_emit: "P e \<Longrightarrow> extends P w (emit e w)"
  by (simp add: extends_def)

lemma extends_mono: "extends P w w' \<Longrightarrow> (\<And>e. P e \<Longrightarrow> Q e) \<Longrightarrow> extends Q w w'"
  by (auto simp: extends_def list_all_iff)

lemma stays_askE: "(\<And>r. P (rec r)) \<Longrightarrow> stays (extends P) (askE answer rec)"
  by (auto simp: stays_def askE_def Let_def intro: extends_emit)

lemma stays_writelnE: "(\<And>m. P (Wrote m)) \<Longrightarrow> stays (extends P) (writelnE env msg)"
  by (auto simp: stays_def writelnE_def ext.R_refl intro: extends_emit split: option.splits)

lemma stays_flushE: "P WriterFlushed \<Longrightarrow> stays (extends P) (flushE env)"
  by (auto simp: stays_def flushE_def ext.R_refl intro: extends_emit split: option.splits)

lemma stays_sleepE: "(\<And>d. P (Slept d)) \<Longrightarrow> stays (extends P) (sleepE env d)"
  by (simp add: stays_def sleepE_def modifyE_def extends_def)

lemma stays_machine_sleep_pending:
  "(\<And>r. P (PhaseRead r)) \<Longrightarrow> stays (extends P) (machine_sleep_pending env)"
  by (auto simp: stays_def machine_sleep_pending_def Let_def intro: extends_emit)

lemma stays_say: "(\<And>m. P (Wrote m)) \<Longrightarrow> stays (extends P) (say env msg)"
  by (simp add: say_def ioE_def ext.stays_mapErrE stays_writelnE)

lemma stays_flush: "P WriterFlushed \<Longrightarrow> stays (extends P) (flush env)"
  by (simp add: flush_def ioE_def ext.stays_mapErrE stays_flushE)

lemma stays_ioE: "stays (extends P) m \<Longrightarrow> stays (extends P) (ioE m)"
  by (simp add: ioE_def ext.stays_mapErrE)

lemmas extends_rules = ext.stays_rules stays_askE stays_writelnE stays_flushE stays_sleepE
  stays_machine_sleep_pending stays_say stays_flush stays_ioE

text \<open>A \<open>quiet\<close> stretch: log lines and phase reads, and no file or lock touched.\<close>

fun quiet_effect :: "effect \<Rightarrow> bool" where
  "quiet_effect (Wrote m) = True"
| "quiet_effect (PhaseRead r) = True"
| "quiet_effect _ = False"

definition quiet :: "world \<Rightarrow> world \<Rightarrow> bool" where
  "quiet w w' \<longleftrightarrow> files w' = files w \<and> locks w' = locks w \<and> extends quiet_effect w w'"

interpretation qt: world_preorder quiet
  by unfold_locales (auto simp: quiet_def ext.R_refl intro: ext.R_trans)

lemma quiet_emit: "quiet_effect e \<Longrightarrow> quiet w (emit e w)"
  by (simp add: quiet_def extends_emit)

lemma wp_say: "wp (say env msg) (\<lambda>_ w'. w' = emit (Wrote msg) w) (\<lambda>_ w'. w' = w) w"
  by (simp add: say_defs wp_rules split: option.splits)

lemma quiet_say: "stays quiet (say env msg)"
  unfolding stays_def say_def ioE_def mapErrE_def writelnE_def
  by (auto simp: qt.R_refl quiet_emit split: option.splits)

text \<open>\<open>since w w'\<close>: the effects between two worlds, newest first.\<close>

definition since :: "world \<Rightarrow> world \<Rightarrow> effect list" where
  "since w w' = take (length (trace w') - length (trace w)) (trace w')"

lemma since_eq: "trace w' = new @ trace w \<Longrightarrow> since w w' = new"
  by (simp add: since_def)

text \<open>No other process touches the marker while this one sleeps.\<close>

definition undisturbed :: "environment \<Rightarrow> path \<Rightarrow> bool" where
  "undisturbed env p \<longleftrightarrow> (\<forall>d h fs. others_files env d h fs p = fs p)"

lemma undisturbed_sleep: "undisturbed env p \<Longrightarrow> files (sleep_world env d w) p = files w p"
  by (simp add: undisturbed_def files_sleep_world)

lemma is_hdmi_eq: "is_hdmi c i \<longleftrightarrow> c = Hdmi i"
  by (cases c) auto

section \<open>Effort\<close>

text \<open>
  \<open>spends g k m\<close>: the effects of \<open>m\<close>, each weighed by \<open>g\<close>, weigh at most \<open>k\<close> together, from any
  world and whatever \<open>m\<close> returns.
\<close>

definition weight :: "(effect \<Rightarrow> nat) \<Rightarrow> effect list \<Rightarrow> nat" where
  "weight g es = sum_list (map g es)"

definition spends :: "(effect \<Rightarrow> nat) \<Rightarrow> nat \<Rightarrow> (world, 'e, 'a) eff \<Rightarrow> bool" where
  "spends g k m \<longleftrightarrow> (\<forall>w. \<exists>new. trace (snd (m w)) = new @ trace w \<and> weight g new \<le> k)"

lemma spends_since: "spends g k m \<Longrightarrow> m w = (r, w') \<Longrightarrow> weight g (since w w') \<le> k"
  by (metis since_eq snd_conv spends_def)

lemma spends_none:
  "spends g 0 (returnE a)" "spends g 0 (raiseE e)" "spends g 0 (getsE f)" "spends g 0 (liftR r)"
  by (auto simp: spends_def returnE_def raiseE_def getsE_def liftR_def weight_def)

lemma spends_mono: "spends g j m \<Longrightarrow> j \<le> k \<Longrightarrow> spends g k m"
  unfolding spends_def by (meson le_trans)

lemma spends_bindE:
  assumes m: "spends g j m" and f: "\<And>a. spends g k (f a)"
  shows "spends g (j + k) (bindE m f)"
  unfolding spends_def
proof
  fix w
  obtain new where new: "trace (snd (m w)) = new @ trace w" "weight g new \<le> j"
    using m by (auto simp: spends_def)
  obtain r w' where r: "m w = (r, w')" by fastforce
  show "\<exists>new. trace (snd (bindE m f w)) = new @ trace w \<and> weight g new \<le> j + k"
  proof (cases r)
    case (Inl e)
    with new r show ?thesis by (intro exI [of _ new]) (auto simp: bindE_def)
  next
    case (Inr a)
    obtain more where more: "trace (snd (f a w')) = more @ trace w'" "weight g more \<le> k"
      using f [of a] by (auto simp: spends_def)
    with new r Inr show ?thesis
      by (intro exI [of _ "more @ new"]) (auto simp: bindE_def weight_def)
  qed
qed

lemma spends_thenE: "spends g j m \<Longrightarrow> spends g k n \<Longrightarrow> spends g (j + k) (thenE m n)"
  by (simp add: thenE_def spends_bindE)

lemma spends_bind_last: "spends g k m \<Longrightarrow> (\<And>a. spends g 0 (f a)) \<Longrightarrow> spends g k (bindE m f)"
  using spends_bindE [of g k m 0 f] by simp

lemma spends_bind_first: "spends g 0 m \<Longrightarrow> (\<And>a. spends g k (f a)) \<Longrightarrow> spends g k (bindE m f)"
  using spends_bindE [of g 0 m k f] by simp

lemma spends_then_first: "spends g 0 m \<Longrightarrow> spends g k n \<Longrightarrow> spends g k (thenE m n)"
  using spends_thenE [of g 0 m k n] by simp

lemma spends_nothing: "spends g k (returnE a)" "spends g k (raiseE e)"
  by (auto intro: spends_mono [OF spends_none(1)] spends_mono [OF spends_none(2)])

lemma spends_tryE: "spends g k m \<Longrightarrow> spends g k (tryE m)"
  by (simp add: spends_def tryE_def)

lemma spends_mapErrE: "spends g k m \<Longrightarrow> spends g k (mapErrE h m)"
  by (simp add: spends_def mapErrE_def)

lemma spends_askE: "(\<And>r. g (rec r) \<le> k) \<Longrightarrow> spends g k (askE answer rec)"
  by (auto simp: spends_def askE_def Let_def weight_def intro: exI [of _ "[rec r]" for r])

lemma spends_sleepE: "g (Slept d) \<le> k \<Longrightarrow> spends g k (sleepE env d)"
  by (auto simp: spends_def sleepE_def modifyE_def weight_def)

lemma spends_extends: "stays (extends P) m \<Longrightarrow> (\<And>e. P e \<Longrightarrow> g e = 0) \<Longrightarrow> spends g 0 m"
proof -
  assume st: "stays (extends P) m" and z: "\<And>e. P e \<Longrightarrow> g e = 0"
  have "weight g es = 0" if "list_all P es" for es
    using that by (induction es) (auto simp: weight_def z)
  then show ?thesis using st unfolding spends_def stays_def extends_def by (metis le_refl)
qed

text \<open>Weights under which only TV actions and sleeps cost anything.\<close>

fun costly :: "effect \<Rightarrow> bool" where
  "costly (Slept d) = True"
| "costly e = tv_action e"

locale tv_effort =
  fixes g :: "effect \<Rightarrow> nat" and set_cost unblank_cost wake_cost :: nat and sleep_cost :: "duration \<Rightarrow> nat"
  assumes free: "\<not> costly e \<Longrightarrow> g e = 0"
    and set_cost: "g (InputSet i (r :: TvError + unit)) \<le> set_cost"
    and unblank_cost: "g (Unblanked (r :: TvError + unit)) \<le> unblank_cost"
    and wake_cost: "g (WakePacket mac ip (q :: WakeOnLanError + unit)) \<le> wake_cost"
    and sleep_cost: "g (Slept d) \<le> sleep_cost d"
begin

lemma spends_free: "stays (extends (\<lambda>e. \<not> costly e)) m \<Longrightarrow> spends g 0 m"
  by (erule spends_extends) (rule free)

lemma spends_say: "spends g 0 (say env msg)"
  by (rule spends_free) (simp add: stays_say)

lemma spends_flush: "spends g 0 (flush env)"
  by (rule spends_free) (simp add: stays_flush)

lemma spends_input_set: "spends g set_cost (input_set env i)"
  unfolding input_set_def by (rule spends_askE) (rule set_cost)

lemma spends_unblank: "spends g unblank_cost (screen_unblank env)"
  unfolding screen_unblank_def by (rule spends_askE) (rule unblank_cost)

lemma spends_wake: "spends g wake_cost (power_wake env ip mac)"
  unfolding power_wake_def by (rule spends_askE) (rule wake_cost)

lemma spends_sleep: "spends g (sleep_cost d) (sleepE env d)"
  by (rule spends_sleepE) (rule sleep_cost)

end

text \<open>The four measures used: input writes, wake packets, unblanks, time slept.\<close>

fun input_sets :: "effect \<Rightarrow> nat" where
  "input_sets (InputSet i r) = 1" | "input_sets _ = 0"
fun wake_packets :: "effect \<Rightarrow> nat" where
  "wake_packets (WakePacket mac ip r) = 1" | "wake_packets _ = 0"
fun unblanks :: "effect \<Rightarrow> nat" where
  "unblanks (Unblanked r) = 1" | "unblanks _ = 0"
fun slept :: "effect \<Rightarrow> nat" where
  "slept (Slept d) = d" | "slept _ = 0"

lemma free_measures:
  "\<not> costly e \<Longrightarrow> input_sets e = 0 \<and> wake_packets e = 0 \<and> unblanks e = 0 \<and> slept e = 0"
  by (cases e) auto

interpretation sets: tv_effort input_sets 1 0 0 "\<lambda>_. 0"
  by unfold_locales (auto simp: free_measures)
interpretation wakes: tv_effort wake_packets 0 0 1 "\<lambda>_. 0"
  by unfold_locales (auto simp: free_measures)
interpretation unbl: tv_effort unblanks 0 1 0 "\<lambda>_. 0"
  by unfold_locales (auto simp: free_measures)
interpretation slp: tv_effort slept 0 0 0 "\<lambda>d. d"
  by unfold_locales (auto simp: free_measures)

section \<open>A concrete environment\<close>

text \<open>
  An environment in which nothing fails: the TV answers and is on the first input, no other
  process interferes. The witnesses of the development run in it, or in it with one answer
  changed.
\<close>

definition calm :: environment where
  "calm =
     \<lparr>tv_current_input = \<lambda>_. Inr (Hdmi Hdmi1), tv_set_input = \<lambda>_ _. Inr (), tv_power_off = \<lambda>_. Inr (),
      tv_blank_screen = \<lambda>_. Inr (), tv_unblank_screen = \<lambda>_. Inr (), wol_send_to = \<lambda>_ _ _. Inr (),
      writer_fault = \<lambda>_. None, flush_fault = \<lambda>_. None, file_fault = \<lambda>_ _ _. None,
      phase_provider = \<lambda>_. NotPending, sleep_detector = \<lambda>_. Inr True, reboot_detector = \<lambda>_. Inr False,
      network_waiter = \<lambda>_. Inr (), route_waiter = \<lambda>_ _. Inr (), now = \<lambda>h. from_millis (length h),
      env_var = \<lambda>_. None, process_id = 7, others_files = \<lambda>_ _ fs. fs, others_locks = \<lambda>_ _ _. False\<rparr>"

lemma calm_fields [simp]:
  "tv_current_input calm h = Inr (Hdmi Hdmi1)" "tv_set_input calm i h = Inr ()"
  "tv_power_off calm h = Inr ()" "tv_blank_screen calm h = Inr ()" "tv_unblank_screen calm h = Inr ()"
  "wol_send_to calm m ip h = Inr ()" "writer_fault calm h = None" "flush_fault calm h = None"
  "file_fault calm op p h = None" "phase_provider calm h = NotPending" "sleep_detector calm h = Inr True"
  "reboot_detector calm h = Inr False" "network_waiter calm h = Inr ()" "route_waiter calm ip h = Inr ()"
  "env_var calm v = None" "process_id calm = 7" "others_files calm d h fs = fs"
  "others_locks calm d h p = False"
  by (simp_all add: calm_def)

definition fresh_world :: world where
  "fresh_world = \<lparr>trace = [], files = \<lambda>_. None, locks = \<lambda>_. None\<rparr>"

lemma fresh_world_fields [simp]:
  "trace fresh_world = []" "files fresh_world p = None" "locks fresh_world p = None"
  by (simp_all add: fresh_world_def)

end
