(* ===== verification/State.thy ===== *)
theory State
  imports World
begin

text \<open>
  The runtime state files of \<open>state.rs\<close>: where they live, the screen-ownership marker, and the
  suspend cycle's attempt marker, outcome file and lock. Markers are files whose existence is
  the state; the cycle outcome is written through a temporary file and a rename.
\<close>

section \<open>Directories\<close>

definition STATE_DIR_NAME :: string where "STATE_DIR_NAME = ''lg_buddy''"
definition SCREEN_OFF_BY_US_MARKER :: string where "SCREEN_OFF_BY_US_MARKER = ''screen_off_by_us''"
definition SYSTEM_SLEEP_ATTEMPTED_MARKER :: string where
  "SYSTEM_SLEEP_ATTEMPTED_MARKER = ''system_sleep_attempted''"
definition SYSTEM_SLEEP_ATTEMPT_LOCK :: string where
  "SYSTEM_SLEEP_ATTEMPT_LOCK = ''system_sleep_attempt.lock''"
definition SYSTEM_SLEEP_CYCLE_STATE :: string where "SYSTEM_SLEEP_CYCLE_STATE = ''system_sleep_cycle''"

datatype StateScope = System | Session

record RuntimeDirSources =
  system_override :: "path option"
  session_override :: "path option"
  xdg_runtime_dir :: "path option"
  uid :: "nat option"

definition resolve_state_dir :: "StateScope \<Rightarrow> RuntimeDirSources \<Rightarrow> StateDirError + path" where
  "resolve_state_dir scope sources =
     (case scope of
        System \<Rightarrow> Inr (unwrap_or (system_override sources) (path_join ''/run'' STATE_DIR_NAME))
      | Session \<Rightarrow>
          (case session_override sources of
             Some path \<Rightarrow> Inr path
           | None \<Rightarrow>
          (case xdg_runtime_dir sources of
             Some path \<Rightarrow> Inr (path_join path STATE_DIR_NAME)
           | None \<Rightarrow>
          (case uid sources of
             Some u \<Rightarrow> Inr (path_join (path_join ''/run/user'' (show_nat u)) STATE_DIR_NAME)
           | None \<Rightarrow> Inl SessionRuntimeUnavailable))))"

definition resolve_state_dir_from_env ::
    "environment \<Rightarrow> nat option \<Rightarrow> StateScope \<Rightarrow> StateDirError + path" where
  "resolve_state_dir_from_env env current_uid scope =
     resolve_state_dir scope
       \<lparr>system_override = env_var env ''LG_BUDDY_SYSTEM_RUNTIME_DIR'',
        session_override = env_var env ''LG_BUDDY_SESSION_RUNTIME_DIR'',
        xdg_runtime_dir = env_var env ''XDG_RUNTIME_DIR'',
        uid = current_uid\<rparr>"

section \<open>Files\<close>

definition io_fault :: "string \<Rightarrow> io_error" where
  "io_fault e = IoError OtherKind e"

definition faultE :: "environment \<Rightarrow> file_op \<Rightarrow> path \<Rightarrow> (world, io_error, unit) eff" where
  "faultE env op p =
     (\<lambda>w. (case file_fault env op p (trace w) of Some e \<Rightarrow> Inl (io_fault e) | None \<Rightarrow> Inr (), w))"

definition remove_file :: "environment \<Rightarrow> path \<Rightarrow> (world, io_error, unit) eff" where
  "remove_file env p =
     thenE (faultE env RemoveFile p)
       (\<lambda>w. if files w p = None then (Inl (IoError NotFound ''No such file or directory''), w)
             else (Inr (), emit (FileRemoved p) (w\<lparr>files := (files w)(p := None)\<rparr>)))"

definition create_marker_file :: "environment \<Rightarrow> path \<Rightarrow> (world, io_error, unit) eff" where
  "create_marker_file env p =
     thenE (faultE env OpenFile p)
       (modifyE (\<lambda>w. emit (MarkerCreated p) (w\<lparr>files := (files w)(p \<mapsto> [])\<rparr>)))"

definition read_to_string :: "environment \<Rightarrow> path \<Rightarrow> (world, io_error, string) eff" where
  "read_to_string env p =
     thenE (faultE env ReadFile p)
       (\<lambda>w. (case files w p of
                None \<Rightarrow> Inl (IoError NotFound ''No such file or directory'')
              | Some content \<Rightarrow> Inr content, w))"

definition state_temp_path :: "environment \<Rightarrow> path \<Rightarrow> nat \<Rightarrow> path" where
  "state_temp_path env p attempt =
     with_file_name p
       (''.'' @ file_name p @ ''.'' @ show_nat (process_id env) @ ''.'' @ show_nat attempt @ ''.tmp'')"

text \<open>\<open>create_new\<close>, and what the closure of \<open>write_state_file\<close> does with the open file.\<close>

definition open_create_new :: "environment \<Rightarrow> path \<Rightarrow> (world, io_error, unit) eff" where
  "open_create_new env p =
     thenE (faultE env OpenFile p)
       (\<lambda>w. if files w p \<noteq> None then (Inl (IoError AlreadyExists ''File exists''), w)
             else (Inr (), w\<lparr>files := (files w)(p \<mapsto> [])\<rparr>))"

definition write_and_rename ::
    "environment \<Rightarrow> path \<Rightarrow> path \<Rightarrow> string \<Rightarrow> (world, io_error, unit) eff" where
  "write_and_rename env temp p content =
     thenE (thenE (faultE env WriteAll temp) (modifyE (\<lambda>w. w\<lparr>files := (files w)(temp \<mapsto> content)\<rparr>)))
    (thenE (faultE env FlushFile temp)
    (thenE (faultE env SyncAll temp)
    (thenE (faultE env RenameFile temp)
       (modifyE (\<lambda>w. emit (FileWritten p content)
          (w\<lparr>files := (files w)(temp := None, p := files w temp)\<rparr>))))))"

fun write_state_file_attempts ::
    "environment \<Rightarrow> path \<Rightarrow> string \<Rightarrow> io_error option \<Rightarrow> nat list \<Rightarrow> (world, io_error, unit) eff" where
  "write_state_file_attempts env p content last_error [] =
     raiseE (unwrap_or last_error
       (IoError AlreadyExists ''could not create unique state temporary file''))"
| "write_state_file_attempts env p content last_error (attempt # rest) =
     (let temp_path = state_temp_path env p attempt in
      bindE (tryE (open_create_new env temp_path)) (\<lambda>opened. case opened of
        Inl err \<Rightarrow>
          if io_kind err = AlreadyExists
          then write_state_file_attempts env p content (Some err) rest
          else raiseE err
      | Inr _ \<Rightarrow>
          bindE (tryE (write_and_rename env temp_path p content)) (\<lambda>result. case result of
            Inl err \<Rightarrow> bindE (tryE (remove_file env temp_path)) (\<lambda>_. raiseE err)
          | Inr _ \<Rightarrow> returnE ())))"

definition write_state_file :: "environment \<Rightarrow> path \<Rightarrow> string \<Rightarrow> (world, io_error, unit) eff" where
  "write_state_file env p content = write_state_file_attempts env p content None [0..<100]"

section \<open>The screen-ownership marker\<close>

datatype ScreenOwnershipMarker = ScreenOwnershipMarker (marker_path: path)

definition marker_new :: "path \<Rightarrow> ScreenOwnershipMarker" where
  "marker_new state_dir = ScreenOwnershipMarker (path_join state_dir SCREEN_OFF_BY_US_MARKER)"

definition marker_create :: "environment \<Rightarrow> ScreenOwnershipMarker \<Rightarrow> (world, io_error, unit) eff" where
  "marker_create env m =
     thenE (faultE env CreateDirAll (marker_path m)) (create_marker_file env (marker_path m))"

definition clear_file :: "environment \<Rightarrow> path \<Rightarrow> (world, io_error, unit) eff" where
  "clear_file env p =
     bindE (tryE (remove_file env p)) (\<lambda>r. case r of
       Inr _ \<Rightarrow> returnE ()
     | Inl err \<Rightarrow> if io_kind err = NotFound then returnE () else raiseE err)"

definition marker_clear :: "environment \<Rightarrow> ScreenOwnershipMarker \<Rightarrow> (world, io_error, unit) eff" where
  "marker_clear env m = clear_file env (marker_path m)"

definition marker_exists :: "ScreenOwnershipMarker \<Rightarrow> world \<Rightarrow> bool" where
  "marker_exists m w \<longleftrightarrow> files w (marker_path m) \<noteq> None"

text \<open>
  \<open>is_stale\<close> on the answers of \<open>fs::metadata\<close> and \<open>modified\<close>; times are nanoseconds since the
  epoch, and a modification time after \<open>now\<close> is not stale.
\<close>

definition is_stale :: "io_error + (io_error + nat) \<Rightarrow> duration \<Rightarrow> nat \<Rightarrow> io_error + bool" where
  "is_stale metadata max_age time =
     (case metadata of
        Inl err \<Rightarrow> if io_kind err = NotFound then Inr False else Inl err
      | Inr (Inl err) \<Rightarrow> Inl err
      | Inr (Inr modified) \<Rightarrow> Inr (modified \<le> time \<and> max_age < time - modified))"

section \<open>The suspend cycle\<close>

datatype SystemSleepCycleOutcome = InProgress | Completed | RetryableTransportFailure

fun outcome_as_str :: "SystemSleepCycleOutcome \<Rightarrow> string" where
  "outcome_as_str InProgress = ''in_progress''"
| "outcome_as_str Completed = ''completed''"
| "outcome_as_str RetryableTransportFailure = ''retryable_transport_failure''"

definition outcome_from_str :: "string \<Rightarrow> SystemSleepCycleOutcome option" where
  "outcome_from_str value =
     (if value = ''in_progress'' then Some InProgress
      else if value = ''completed'' then Some Completed
      else if value = ''retryable_transport_failure'' then Some RetryableTransportFailure
      else None)"

record SystemSleepCycleState =
  attempt_path :: path
  lock_path :: path
  cycle_path :: path

definition cycle_state_new :: "path \<Rightarrow> SystemSleepCycleState" where
  "cycle_state_new state_dir =
     \<lparr>attempt_path = path_join state_dir SYSTEM_SLEEP_ATTEMPTED_MARKER,
      lock_path = path_join state_dir SYSTEM_SLEEP_ATTEMPT_LOCK,
      cycle_path = path_join state_dir SYSTEM_SLEEP_CYCLE_STATE\<rparr>"

definition mark_attempted :: "environment \<Rightarrow> SystemSleepCycleState \<Rightarrow> (world, io_error, unit) eff" where
  "mark_attempted env s =
     thenE (faultE env CreateDirAll (attempt_path s)) (create_marker_file env (attempt_path s))"

definition attempt_clear :: "environment \<Rightarrow> SystemSleepCycleState \<Rightarrow> (world, io_error, unit) eff" where
  "attempt_clear env s = clear_file env (attempt_path s)"

definition attempt_exists :: "SystemSleepCycleState \<Rightarrow> world \<Rightarrow> bool" where
  "attempt_exists s w \<longleftrightarrow> files w (attempt_path s) \<noteq> None"

definition parse_outcome :: "string \<Rightarrow> io_error + SystemSleepCycleOutcome" where
  "parse_outcome content =
     (let value = unwrap_or (find_map (\<lambda>line. strip_prefix ''outcome='' line) (lines content)) (trim content) in
      case outcome_from_str value of
        Some outcome \<Rightarrow> Inr outcome
      | None \<Rightarrow> Inl (IoError InvalidData (''unknown system sleep cycle outcome `'' @ value @ ''`'')))"

definition read_outcome ::
    "environment \<Rightarrow> SystemSleepCycleState \<Rightarrow> (world, io_error, SystemSleepCycleOutcome option) eff" where
  "read_outcome env s =
     bindE (tryE (read_to_string env (cycle_path s))) (\<lambda>r. case r of
       Inr content \<Rightarrow> bindE (liftR (parse_outcome content)) (\<lambda>outcome. returnE (Some outcome))
     | Inl err \<Rightarrow> if io_kind err = NotFound then returnE None else raiseE err)"

definition outcome_line :: "SystemSleepCycleOutcome \<Rightarrow> string" where
  "outcome_line outcome = ''outcome='' @ outcome_as_str outcome @ [CHR 10]"

definition write_outcome ::
    "environment \<Rightarrow> SystemSleepCycleState \<Rightarrow> SystemSleepCycleOutcome \<Rightarrow> (world, io_error, unit) eff" where
  "write_outcome env s outcome =
     thenE (faultE env CreateDirAll (cycle_path s))
       (write_state_file env (cycle_path s) (outcome_line outcome))"

definition clear_outcome :: "environment \<Rightarrow> SystemSleepCycleState \<Rightarrow> (world, io_error, unit) eff" where
  "clear_outcome env s = clear_file env (cycle_path s)"

text \<open>
  \<open>flock\<close> with \<open>LOCK_EX | LOCK_NB\<close> on a freshly opened file: it fails softly while anyone, this
  process included, holds the lock. \<open>unlock\<close> is the guard's destructor.
\<close>

definition try_lock :: "environment \<Rightarrow> SystemSleepCycleState \<Rightarrow> (world, io_error, bool) eff" where
  "try_lock env s =
     thenE (faultE env CreateDirAll (lock_path s))
    (thenE (thenE (faultE env OpenFile (lock_path s))
              (modifyE (\<lambda>w. w\<lparr>files := (files w)(lock_path s \<mapsto> unwrap_or (files w (lock_path s)) [])\<rparr>)))
       (\<lambda>w. if locks w (lock_path s) \<noteq> None then (Inr False, w)
             else case file_fault env Flock (lock_path s) (trace w) of
                    Some e \<Rightarrow> (Inl (io_fault e), w)
                  | None \<Rightarrow> (Inr True, w\<lparr>locks := (locks w)(lock_path s \<mapsto> Ours)\<rparr>)))"

definition unlock :: "SystemSleepCycleState \<Rightarrow> world \<Rightarrow> world" where
  "unlock s w = w\<lparr>locks := (locks w)(lock_path s := None)\<rparr>"

section \<open>Weakest preconditions\<close>

lemma wp_faultE [wp_rules]:
  "wp (faultE env op p) Q E w =
     (case file_fault env op p (trace w) of Some e \<Rightarrow> E (io_fault e) w | None \<Rightarrow> Q () w)"
  by (simp add: wp_def faultE_def split: option.splits)

lemma wp_remove_file [wp_rules]:
  "wp (remove_file env p) Q E w =
     (case file_fault env RemoveFile p (trace w) of
        Some e \<Rightarrow> E (io_fault e) w
      | None \<Rightarrow>
          if files w p = None then E (IoError NotFound ''No such file or directory'') w
          else Q () (emit (FileRemoved p) (w\<lparr>files := (files w)(p := None)\<rparr>)))"
  by (simp add: remove_file_def wp_thenE wp_faultE) (simp add: wp_def split: option.splits)

lemma wp_open_create_new [wp_rules]:
  "wp (open_create_new env p) Q E w =
     (case file_fault env OpenFile p (trace w) of
        Some e \<Rightarrow> E (io_fault e) w
      | None \<Rightarrow>
          if files w p \<noteq> None then E (IoError AlreadyExists ''File exists'') w
          else Q () (w\<lparr>files := (files w)(p \<mapsto> [])\<rparr>))"
  by (simp add: open_create_new_def wp_thenE wp_faultE) (simp add: wp_def split: option.splits)

lemma wp_read_to_string [wp_rules]:
  "wp (read_to_string env p) Q E w =
     (case file_fault env ReadFile p (trace w) of
        Some e \<Rightarrow> E (io_fault e) w
      | None \<Rightarrow>
          (case files w p of
             None \<Rightarrow> E (IoError NotFound ''No such file or directory'') w
           | Some content \<Rightarrow> Q content w))"
  by (simp add: read_to_string_def wp_thenE wp_faultE) (simp add: wp_def split: option.splits)

lemma io_kind_fault [simp]: "io_kind (io_fault e) = OtherKind"
  by (simp add: io_fault_def)

lemma wp_clear_file [wp_rules]:
  "wp (clear_file env p) Q E w =
     (case file_fault env RemoveFile p (trace w) of
        Some e \<Rightarrow> E (io_fault e) w
      | None \<Rightarrow>
          if files w p = None then Q () w
          else Q () (emit (FileRemoved p) (w\<lparr>files := (files w)(p := None)\<rparr>)))"
  by (auto simp: clear_file_def wp_rules split: option.splits)

lemma wp_create_marker [wp_rules]:
  "wp (thenE (faultE env CreateDirAll p) (create_marker_file env p)) Q E w =
     (case file_fault env CreateDirAll p (trace w) of
        Some e \<Rightarrow> E (io_fault e) w
      | None \<Rightarrow>
     (case file_fault env OpenFile p (trace w) of
        Some e \<Rightarrow> E (io_fault e) w
      | None \<Rightarrow> Q () (emit (MarkerCreated p) (w\<lparr>files := (files w)(p \<mapsto> [])\<rparr>))))"
  by (simp add: create_marker_file_def wp_rules split: option.splits)

lemma wp_read_outcome [wp_rules]:
  "wp (read_outcome env s) Q E w =
     (case file_fault env ReadFile (cycle_path s) (trace w) of
        Some e \<Rightarrow> E (io_fault e) w
      | None \<Rightarrow>
          (case files w (cycle_path s) of
             None \<Rightarrow> Q None w
           | Some content \<Rightarrow>
               (case parse_outcome content of Inl e \<Rightarrow> E e w | Inr oc \<Rightarrow> Q (Some oc) w)))"
  by (simp add: read_outcome_def wp_rules split: option.splits sum.splits)

definition touch :: "path \<Rightarrow> world \<Rightarrow> world" where
  "touch p w = w\<lparr>files := (files w)(p \<mapsto> unwrap_or (files w p) [])\<rparr>"

definition lock_world :: "SystemSleepCycleState \<Rightarrow> world \<Rightarrow> world" where
  "lock_world s w = (touch (lock_path s) w)\<lparr>locks := (locks w)(lock_path s \<mapsto> Ours)\<rparr>"

lemma wp_try_lock [wp_rules]:
  "wp (try_lock env s) Q E w =
     (case file_fault env CreateDirAll (lock_path s) (trace w) of
        Some e \<Rightarrow> E (io_fault e) w
      | None \<Rightarrow>
     (case file_fault env OpenFile (lock_path s) (trace w) of
        Some e \<Rightarrow> E (io_fault e) w
      | None \<Rightarrow>
          if locks w (lock_path s) \<noteq> None then Q False (touch (lock_path s) w)
          else case file_fault env Flock (lock_path s) (trace w) of
                 Some e \<Rightarrow> E (io_fault e) (touch (lock_path s) w)
               | None \<Rightarrow> Q True (lock_world s w)))"
  by (simp add: try_lock_def wp_rules split: option.splits)
     (auto simp: wp_def touch_def lock_world_def split: option.splits)

lemma touch_fields [simp]:
  "trace (touch p w) = trace w" "locks (touch p w) = locks w"
  "files (touch p w) q = (if q = p then Some (unwrap_or (files w p) []) else files w q)"
  by (simp_all add: touch_def)

lemma lock_world_fields [simp]:
  "trace (lock_world s w) = trace w"
  "locks (lock_world s w) q = (if q = lock_path s then Some Ours else locks w q)"
  "files (lock_world s w) q =
     (if q = lock_path s then Some (unwrap_or (files w (lock_path s)) []) else files w q)"
  by (simp_all add: lock_world_def)

lemma unlock_fields [simp]:
  "trace (unlock s w) = trace w" "files (unlock s w) = files w"
  "locks (unlock s w) q = (if q = lock_path s then None else locks w q)"
  by (simp_all add: unlock_def)

section \<open>The marker contract\<close>

text \<open>
  One step of the policies' transition appliers, for a marker of kind \<open>target\<close>; a transition
  for a marker of another kind is the error \<open>err\<close>.
\<close>

definition apply_transition ::
    "StateMarker \<Rightarrow> RunError \<Rightarrow> (world, io_error, unit) eff \<Rightarrow> (world, io_error, unit) eff \<Rightarrow>
     StateTransition \<Rightarrow> (world, RunError, unit) eff" where
  "apply_transition target err create clear t =
     (case t of
        CreateMarker k _ \<Rightarrow> if k = target then ioE create else raiseE err
      | ClearMarker k _ \<Rightarrow> if k = target then ioE clear else raiseE err
      | PreserveMarker k _ \<Rightarrow> if k = target then returnE () else raiseE err)"

text \<open>What a list of transitions says about a marker of kind \<open>target\<close>.\<close>

fun marker_after :: "StateMarker \<Rightarrow> bool \<Rightarrow> StateTransition list \<Rightarrow> bool" where
  "marker_after target b [] = b"
| "marker_after target b (CreateMarker k r # ts) = marker_after target (if k = target then True else b) ts"
| "marker_after target b (ClearMarker k r # ts) = marker_after target (if k = target then False else b) ts"
| "marker_after target b (PreserveMarker k r # ts) = marker_after target b ts"

lemma marker_after_append:
  "marker_after target b (ts @ us) = marker_after target (marker_after target b ts) us"
  by (induction target b ts rule: marker_after.induct) auto

text \<open>
  What the policies rely on: creating and clearing a marker decide its existence, a failed
  operation changes nothing, and no operation touches another file or a lock. The contract is
  shared by the screen-ownership marker and the suspend-attempt marker.
\<close>

locale marker_store =
  fixes create clear :: "'m \<Rightarrow> (world, io_error, unit) eff"
    and present :: "'m \<Rightarrow> world \<Rightarrow> bool"
    and location :: "'m \<Rightarrow> path"
  assumes create_ok: "create m w = (Inr r, w') \<Longrightarrow>
      present m w' \<and> locks w' = locks w \<and> (\<forall>q. q \<noteq> location m \<longrightarrow> files w' q = files w q)"
    and clear_ok: "clear m w = (Inr r, w') \<Longrightarrow>
      \<not> present m w' \<and> locks w' = locks w \<and> (\<forall>q. q \<noteq> location m \<longrightarrow> files w' q = files w q)"
    and create_error: "create m w = (Inl e, w') \<Longrightarrow> w' = w"
    and clear_error: "clear m w = (Inl e, w') \<Longrightarrow> w' = w"
begin

lemma ioE_okD: "ioE c w = (Inr u, w') \<Longrightarrow> c w = (Inr u, w')"
  by (cases "c w") (auto simp: ioE_def mapErrE_def split: sum.splits)

lemma apply_transition_cases:
  assumes "apply_transition target err (create m) (clear m) t w = (Inr u, w')"
  shows "(present m w' = marker_after target (present m w) [t]) \<and> locks w' = locks w \<and>
         (\<forall>q. q \<noteq> location m \<longrightarrow> files w' q = files w q)"
  using assms
  by (cases t)
     (auto simp: apply_transition_def returnE_def raiseE_def split: if_splits
       dest!: ioE_okD dest: create_ok clear_ok)

text \<open>A successful application leaves the marker exactly as the transitions say.\<close>

lemma apply_transitions_sound:
  assumes "eachE (apply_transition target err (create m) (clear m)) ts w = (Inr u, w')"
  shows "present m w' = marker_after target (present m w) ts \<and> locks w' = locks w \<and>
         (\<forall>q. q \<noteq> location m \<longrightarrow> files w' q = files w q)"
  using assms
proof (induction ts arbitrary: w)
  case (Cons t ts)
  then obtain v where v: "apply_transition target err (create m) (clear m) t w = (Inr (), v)"
      "eachE (apply_transition target err (create m) (clear m)) ts v = (Inr u, w')"
    by (auto simp: thenE_def bindE_def split: prod.splits sum.splits)
  from Cons.IH [OF v(2)] apply_transition_cases [OF v(1)]
  show ?case using marker_after_append [of target "present m w" "[t]" ts] by simp
qed (simp add: returnE_def)

end

lemma wp_marker_create [wp_rules]:
  "wp (marker_create env m) Q E w =
     (case file_fault env CreateDirAll (marker_path m) (trace w) of
        Some e \<Rightarrow> E (io_fault e) w
      | None \<Rightarrow>
     (case file_fault env OpenFile (marker_path m) (trace w) of
        Some e \<Rightarrow> E (io_fault e) w
      | None \<Rightarrow> Q () (emit (MarkerCreated (marker_path m)) (w\<lparr>files := (files w)(marker_path m \<mapsto> [])\<rparr>))))"
  by (simp only: marker_create_def wp_create_marker)

lemma wp_mark_attempted [wp_rules]:
  "wp (mark_attempted env s) Q E w =
     (case file_fault env CreateDirAll (attempt_path s) (trace w) of
        Some e \<Rightarrow> E (io_fault e) w
      | None \<Rightarrow>
     (case file_fault env OpenFile (attempt_path s) (trace w) of
        Some e \<Rightarrow> E (io_fault e) w
      | None \<Rightarrow> Q () (emit (MarkerCreated (attempt_path s)) (w\<lparr>files := (files w)(attempt_path s \<mapsto> [])\<rparr>))))"
  by (simp only: mark_attempted_def wp_create_marker)

text \<open>The laws hold of any file used as a marker.\<close>

lemma create_marker_law:
  assumes "thenE (faultE env CreateDirAll p) (create_marker_file env p) w = (r, w')"
  shows "case r of
      Inr u \<Rightarrow> files w' p \<noteq> None \<and> locks w' = locks w \<and> (\<forall>q. q \<noteq> p \<longrightarrow> files w' q = files w q)
    | Inl e \<Rightarrow> w' = w"
  by (rule wp_result [where m = "thenE (faultE env CreateDirAll p) (create_marker_file env p)" and w = w, OF _ assms])
     (auto simp: wp_create_marker split: option.splits)

lemma clear_file_law:
  assumes "clear_file env p w = (r, w')"
  shows "case r of
      Inr u \<Rightarrow> files w' p = None \<and> locks w' = locks w \<and> (\<forall>q. q \<noteq> p \<longrightarrow> files w' q = files w q)
    | Inl e \<Rightarrow> w' = w"
  by (rule wp_result [where m = "clear_file env p" and w = w, OF _ assms])
     (auto simp: wp_clear_file split: option.splits)

interpretation own: marker_store "marker_create env" "marker_clear env" marker_exists marker_path
  by unfold_locales
     (auto simp: marker_create_def marker_clear_def marker_exists_def
       dest!: create_marker_law clear_file_law)

interpretation att: marker_store "mark_attempted env" "attempt_clear env" attempt_exists attempt_path
  by unfold_locales
     (auto simp: mark_attempted_def attempt_clear_def attempt_exists_def
       dest!: create_marker_law clear_file_law)

lemma stays_marker_ops:
  assumes "\<And>p. P (MarkerCreated p)" "\<And>p. P (FileRemoved p)"
  shows "stays (extends P) (marker_create env m)" "stays (extends P) (marker_clear env m)"
  by (rule wp_stays, auto simp: wp_rules marker_clear_def ext.R_refl extends_def assms split: option.splits)+

section \<open>The cycle outcome file\<close>

lemma file_name_state_temp_path:
  "file_name (state_temp_path env p n) =
     ''.'' @ file_name p @ ''.'' @ show_nat (process_id env) @ ''.'' @ show_nat n @ ''.tmp''"
proof -
  have "\<forall>d \<in> set [0..<10]. digit_char d \<noteq> CHR ''/''" by code_simp
  then have "CHR ''/'' \<notin> set (show_nat k)" for k
    using show_nat_digits [of "CHR ''/''" k] by (metis atLeastLessThan_iff bot_nat_0.extremum set_upt)
  moreover have "CHR ''/'' \<notin> set (file_name p)"
    by (auto simp: file_name_def dest: set_takeWhileD)
  ultimately show ?thesis
    unfolding state_temp_path_def by (intro file_name_with_file_name) simp
qed

lemma state_temp_path_neq: "state_temp_path env p n \<noteq> p"
proof
  assume "state_temp_path env p n = p"
  then have "length (file_name (state_temp_path env p n)) = length (file_name p)" by simp
  then show False by (simp add: file_name_state_temp_path)
qed

text \<open>
  \<open>writes_at env p w w'\<close>: only \<open>p\<close> and its temporary files may differ, locks are kept, and the
  history records nothing but file operations.
\<close>

definition file_effect :: "effect \<Rightarrow> bool" where
  "file_effect e \<longleftrightarrow> (\<exists>p c. e = FileWritten p c \<or> e = FileRemoved p)"

definition writes_at :: "environment \<Rightarrow> path \<Rightarrow> world \<Rightarrow> world \<Rightarrow> bool" where
  "writes_at env p w w' \<longleftrightarrow> locks w' = locks w \<and> extends file_effect w w' \<and>
     (\<forall>q. q \<noteq> p \<and> q \<notin> range (state_temp_path env p) \<longrightarrow> files w' q = files w q)"

lemma writes_at_refl: "writes_at env p w w"
  by (simp add: writes_at_def ext.R_refl)

lemma wp_write_state_file_attempts:
  "wp (write_state_file_attempts env p content le ns)
     (\<lambda>_ w'. files w' p = Some content \<and> writes_at env p w w')
     (\<lambda>_ w'. files w' p = files w p \<and> writes_at env p w w') w"
proof (induction ns arbitrary: le)
  case Nil
  then show ?case by (simp add: wp_rules writes_at_refl)
next
  case (Cons n ns)
  have "state_temp_path env p n \<noteq> p" by (rule state_temp_path_neq)
  with Cons.IH show ?case
    by (auto simp: Let_def wp_rules write_and_rename_def writes_at_def extends_def file_effect_def
        split: option.splits)
qed

lemma wp_write_outcome:
  "wp (write_outcome env s oc)
     (\<lambda>_ w'. files w' (cycle_path s) = Some (outcome_line oc) \<and> writes_at env (cycle_path s) w w')
     (\<lambda>_ w'. files w' (cycle_path s) = files w (cycle_path s) \<and> writes_at env (cycle_path s) w w') w"
  using wp_write_state_file_attempts
  by (auto simp: write_outcome_def write_state_file_def wp_rules writes_at_refl split: option.splits)

lemma parse_outcome_line: "parse_outcome (outcome_line oc) = Inr oc"
proof -
  let ?line = "''outcome='' @ outcome_as_str oc"
  have "CHR 10 \<notin> set ?line" "strip_cr ?line = ?line"
    by (cases oc; simp add: strip_cr_def)+
  then have "lines (outcome_line oc) = [?line]"
    using lines_single [of ?line] by (simp add: outcome_line_def)
  moreover have "outcome_from_str (outcome_as_str oc) = Some oc"
    by (cases oc) (simp_all add: outcome_from_str_def)
  moreover have "strip_prefix ''outcome='' ?line = Some (outcome_as_str oc)"
    by (rule strip_prefix_append)
  ultimately show ?thesis by (simp add: parse_outcome_def Let_def del: strip_prefix.simps)
qed

text \<open>
  Writing the suspend-cycle outcome is atomic and readable: if the write returns \<open>Ok\<close>, a
  later read that meets no fault returns exactly the outcome written; if it returns an error, the
  file is as it was before; and either way no lock and no other file changes, except temporary
  files that carry the cycle file's name.
\<close>

theorem write_outcome_atomic:
  assumes "write_outcome env s oc w = (r, w')"
  shows "(case r of
            Inr u \<Rightarrow> file_fault env ReadFile (cycle_path s) (trace w') = None \<longrightarrow>
                      read_outcome env s w' = (Inr (Some oc), w')
          | Inl e \<Rightarrow> files w' (cycle_path s) = files w (cycle_path s)) \<and>
         locks w' = locks w \<and>
         (\<forall>q. q \<noteq> cycle_path s \<and> q \<notin> range (state_temp_path env (cycle_path s)) \<longrightarrow>
              files w' q = files w q)"
proof -
  have "file_fault env ReadFile (cycle_path s) (trace w') = None \<Longrightarrow>
      files w' (cycle_path s) = Some (outcome_line oc) \<Longrightarrow>
      read_outcome env s w' = (Inr (Some oc), w')"
    by (rule wp_eqI) (simp add: wp_read_outcome parse_outcome_line)
  then show ?thesis
    using wp_result [OF wp_write_outcome assms] by (auto simp: writes_at_def split: sum.splits)
qed

lemma write_outcome_calm:
  "\<exists>w'. write_outcome calm s oc fresh_world = (Inr (), w')"
proof -
  have "wp (write_outcome calm s oc) (\<lambda>_ _. True) (\<lambda>_ _. False) fresh_world"
    by (simp add: write_outcome_def write_state_file_def write_and_rename_def upt_conv_Cons wp_rules Let_def)
  then show ?thesis by (auto simp: wp_def split: prod.splits sum.splits)
qed

theorem write_outcome_atomic_witness:
  "\<exists>w'. write_outcome calm (cycle_state_new ''/run/lg_buddy'') Completed fresh_world = (Inr (), w') \<and>
        read_outcome calm (cycle_state_new ''/run/lg_buddy'') w' = (Inr (Some Completed), w')"
proof -
  obtain w' where w': "write_outcome calm (cycle_state_new ''/run/lg_buddy'') Completed fresh_world = (Inr (), w')"
    using write_outcome_calm by blast
  then show ?thesis using write_outcome_atomic [OF w'] by auto
qed

end
