(* ===== verification/Screen.thy ===== *)
theory Screen
  imports State
begin

text \<open>
  The session screen policy of \<open>screen.rs\<close>: the pure decisions, and the handlers that blank the
  screen, power it off after a timed idle, and restore it. A handler takes the session marker
  and the system marker whose presence tells it that the lifecycle service owns the TV.
\<close>

section \<open>Decisions\<close>

definition SCREEN_ON_INITIAL_WAKE_DELAY :: duration where
  "SCREEN_ON_INITIAL_WAKE_DELAY = from_secs 6"
definition SCREEN_ON_WAKE_ATTEMPTS :: nat where "SCREEN_ON_WAKE_ATTEMPTS = 6"
definition MACHINE_SLEEP_PENDING_DETAIL :: string where
  "MACHINE_SLEEP_PENDING_DETAIL = ''machine sleep is pending''"
definition SYSTEM_RESTORE_PENDING_DETAIL :: string where
  "SYSTEM_RESTORE_PENDING_DETAIL = ''system resume restore is pending''"

record 'n ScreenPolicyDecision =
  "next" :: 'n
  outcome :: PolicyOutcome

definition screen_decision :: "'n \<Rightarrow> PolicyOutcome \<Rightarrow> 'n ScreenPolicyDecision" where
  "screen_decision n out = \<lparr>next = n, outcome = out\<rparr>"

lemma screen_decision_fields [simp]:
  "next (screen_decision n out) = n" "outcome (screen_decision n out) = out"
  by (simp_all add: screen_decision_def)

datatype ScreenActionBlockReason = MachineSleepPending | SystemRestorePending
datatype ScreenEligibilityNext = Continue | StopAction ScreenActionBlockReason

record ScreenActionEligibilityInput =
  eligibility_source :: EventSource
  lifecycle_policy_enabled :: bool
  runtime_phase :: RuntimePhaseRead
  system_restore_pending :: bool

datatype ScreenOffInputObservation = Current CurrentInput | QueryFailed string
datatype ScreenOffNext = Blank | PowerOffFallback | OffStop
datatype ScreenOffFallbackContext = InputQueryFailed | BlankFailed
datatype ScreenOnNext = Unblank | FullWake | OnStop
datatype ScreenOnUnblankObservation = UnblankSucceeded | UnblankFailed string

definition is_session_screen_source :: "EventSource \<Rightarrow> bool" where
  "is_session_screen_source s \<longleftrightarrow> s \<in> {DesktopSession, AuxiliaryInput, LinuxLogind, LinuxDpms}"

definition create_session_marker :: "TransitionReasonCode \<Rightarrow> StateTransition" where
  "create_session_marker reason = CreateMarker SessionScreenOwnership (transition_reason reason)"

definition clear_session_marker :: "TransitionReasonCode \<Rightarrow> StateTransition" where
  "clear_session_marker reason = ClearMarker SessionScreenOwnership (transition_reason reason)"

definition msg_phase_failing_closed :: "string \<Rightarrow> string" where
  "msg_phase_failing_closed detail =
     ''runtime phase read failed; system resume restore is pending, failing closed: '' @ detail"

definition msg_phase_failing_open :: "string \<Rightarrow> string" where
  "msg_phase_failing_open detail = ''runtime phase read failed; failing open: '' @ detail"

definition msg_diag_input_query :: "string \<Rightarrow> string" where "msg_diag_input_query e = ''input query failed: '' @ e"
definition msg_diag_blank :: "string \<Rightarrow> string" where "msg_diag_blank e = ''screen blank failed: '' @ e"
definition msg_diag_fallback :: "string \<Rightarrow> string" where "msg_diag_fallback e = ''fallback power_off failed: '' @ e"
definition msg_diag_visibility :: "string \<Rightarrow> string" where "msg_diag_visibility e = ''screen visibility could not be verified: '' @ e"
definition msg_diag_timed_query :: "string \<Rightarrow> string" where "msg_diag_timed_query e = ''timed power-off input query failed: '' @ e"
definition msg_diag_timed_off :: "string \<Rightarrow> string" where "msg_diag_timed_off e = ''timed TV power-off failed: '' @ e"
definition msg_diag_wol :: "string \<Rightarrow> string" where "msg_diag_wol e = ''Wake-on-LAN send failed: '' @ e"

definition decide_screen_action_eligibility ::
    "ScreenActionEligibilityInput \<Rightarrow> ScreenEligibilityNext ScreenPolicyDecision" where
  "decide_screen_action_eligibility inp =
     (if \<not> is_session_screen_source (eligibility_source inp) \<or> \<not> lifecycle_policy_enabled inp
      then screen_decision Continue outcome_new
      else case runtime_phase inp of
        Pending \<Rightarrow>
          screen_decision (StopAction MachineSleepPending)
            (with_no_action (decision_reason_with_detail RuntimePhaseIneligible MACHINE_SLEEP_PENDING_DETAIL)
               outcome_new)
      | NotPending \<Rightarrow>
          if system_restore_pending inp
          then screen_decision (StopAction SystemRestorePending)
                 (with_no_action (decision_reason_with_detail RuntimePhaseIneligible SYSTEM_RESTORE_PENDING_DETAIL)
                    outcome_new)
          else screen_decision Continue outcome_new
      | UnknownPhase detail \<Rightarrow>
          if system_restore_pending inp
          then screen_decision (StopAction SystemRestorePending)
                 (with_no_action (decision_reason_with_detail RuntimePhaseIneligible SYSTEM_RESTORE_PENDING_DETAIL)
                    (with_diagnostic (diagnostic_warning (msg_phase_failing_closed detail)) outcome_new))
          else screen_decision Continue
                 (with_diagnostic (diagnostic_warning (msg_phase_failing_open detail)) outcome_new))"

definition decide_screen_off_after_input ::
    "HdmiInput \<Rightarrow> ScreenOffInputObservation \<Rightarrow> ScreenOffNext ScreenPolicyDecision" where
  "decide_screen_off_after_input configured_input observation =
     (case observation of
        Current current_input \<Rightarrow>
          if is_hdmi current_input configured_input
          then screen_decision Blank
                 (with_action TvScreenBlank (decision_reason RuntimeEventReason) outcome_new)
          else screen_decision OffStop
                 (with_state_transition (clear_session_marker TrInputMismatch)
                   (with_no_action (decision_reason_with_detail InputMismatch
                        (msg_input_mismatch current_input configured_input)) outcome_new))
      | QueryFailed detail \<Rightarrow>
          screen_decision PowerOffFallback
            (with_action TvPowerOffFallback (decision_reason TransportFailure)
              (with_diagnostic (diagnostic_warning (msg_diag_input_query detail)) outcome_new)))"

definition decide_screen_off_after_blank_result ::
    "TvEffectObservation \<Rightarrow> ScreenOffNext ScreenPolicyDecision" where
  "decide_screen_off_after_blank_result observation =
     (case observation of
        Succeeded \<Rightarrow>
          screen_decision OffStop (with_state_transition (create_session_marker ActionSelected) outcome_new)
      | Failed detail \<Rightarrow>
          screen_decision PowerOffFallback
            (with_action TvPowerOffFallback (decision_reason TransportFailure)
              (with_diagnostic (diagnostic_warning (msg_diag_blank detail)) outcome_new)))"

definition decide_screen_off_after_power_off_result ::
    "TvEffectObservation \<Rightarrow> ScreenOffNext ScreenPolicyDecision" where
  "decide_screen_off_after_power_off_result observation =
     (case observation of
        Succeeded \<Rightarrow>
          screen_decision OffStop (with_state_transition (create_session_marker ActionSelected) outcome_new)
      | Failed detail \<Rightarrow>
          screen_decision OffStop
            (with_diagnostic (diagnostic_warning (msg_diag_fallback detail)) outcome_new))"

definition decide_screen_on_start ::
    "ScreenRestorePolicy \<Rightarrow> bool \<Rightarrow> ScreenOnNext ScreenPolicyDecision" where
  "decide_screen_on_start policy marker_present =
     (if \<not> marker_present \<and> policy \<noteq> Aggressive
      then screen_decision OnStop (with_no_action (decision_reason MarkerMissing) outcome_new)
      else
        (let out = with_action TvScreenRestore (decision_reason RuntimeEventReason) outcome_new in
         screen_decision Unblank
           (if \<not> marker_present
            then with_diagnostic (diagnostic_info ''aggressive markerless restore requested'') out
            else out)))"

definition decide_screen_on_after_unblank ::
    "ScreenOnUnblankObservation \<Rightarrow> ScreenOnNext ScreenPolicyDecision" where
  "decide_screen_on_after_unblank observation =
     (case observation of
        UnblankSucceeded \<Rightarrow>
          screen_decision OnStop (with_state_transition (clear_session_marker RestoreCompleted) outcome_new)
      | UnblankFailed detail \<Rightarrow>
          screen_decision FullWake
            (with_diagnostic
               (diagnostic_warning (msg_diag_visibility detail)) outcome_new))"

definition select_screen_on_wake_packet :: PolicyOutcome where
  "select_screen_on_wake_packet = with_action WakeOnLan (decision_reason RuntimeEventReason) outcome_new"

definition select_screen_on_input_restore_attempt :: PolicyOutcome where
  "select_screen_on_input_restore_attempt =
     with_action TvInputRestore (decision_reason RuntimeEventReason) outcome_new"

definition decide_screen_on_wake_attempt_succeeded :: PolicyOutcome where
  "decide_screen_on_wake_attempt_succeeded =
     with_state_transition (clear_session_marker RestoreCompleted) outcome_new"

definition decide_screen_on_wake_exhausted :: "bool \<Rightarrow> PolicyOutcome" where
  "decide_screen_on_wake_exhausted marker_present =
     (if marker_present
      then with_state_transition (PreserveMarker SessionScreenOwnership (transition_reason TrOther)) outcome_new
      else outcome_new)"

lemmas [decides] = decide_screen_action_eligibility_def decide_screen_off_after_input_def
  decide_screen_off_after_blank_result_def decide_screen_off_after_power_off_result_def
  decide_screen_on_start_def decide_screen_on_after_unblank_def select_screen_on_wake_packet_def
  select_screen_on_input_restore_attempt_def decide_screen_on_wake_attempt_succeeded_def
  decide_screen_on_wake_exhausted_def create_session_marker_def clear_session_marker_def

text \<open>What each decision says to do next and to the marker.\<close>

lemma decide_off_input_simps [simp]:
  "is_hdmi c i \<Longrightarrow> next (decide_screen_off_after_input i (Current c)) = Blank"
  "\<not> is_hdmi c i \<Longrightarrow> next (decide_screen_off_after_input i (Current c)) = OffStop"
  "next (decide_screen_off_after_input i (QueryFailed d)) = PowerOffFallback"
  "is_hdmi c i \<Longrightarrow> state_transitions (outcome (decide_screen_off_after_input i (Current c))) = []"
  "\<not> is_hdmi c i \<Longrightarrow> state_transitions (outcome (decide_screen_off_after_input i (Current c))) =
     [clear_session_marker TrInputMismatch]"
  "state_transitions (outcome (decide_screen_off_after_input i (QueryFailed d))) = []"
  by (simp_all add: decide_screen_off_after_input_def)

lemma decide_off_result_simps [simp]:
  "next (decide_screen_off_after_blank_result Succeeded) = OffStop"
  "next (decide_screen_off_after_blank_result (Failed d)) = PowerOffFallback"
  "state_transitions (outcome (decide_screen_off_after_blank_result Succeeded)) =
     [create_session_marker ActionSelected]"
  "state_transitions (outcome (decide_screen_off_after_blank_result (Failed d))) = []"
  "state_transitions (outcome (decide_screen_off_after_power_off_result Succeeded)) =
     [create_session_marker ActionSelected]"
  "state_transitions (outcome (decide_screen_off_after_power_off_result (Failed d))) = []"
  by (simp_all add: decide_screen_off_after_blank_result_def decide_screen_off_after_power_off_result_def)

lemma decide_on_simps [simp]:
  "next (decide_screen_on_start policy b) = (if \<not> b \<and> policy \<noteq> Aggressive then OnStop else Unblank)"
  "state_transitions (outcome (decide_screen_on_start policy b)) = []"
  "selects TvScreenRestore (outcome (decide_screen_on_start policy b)) \<longleftrightarrow> b \<or> policy = Aggressive"
  "next (decide_screen_on_after_unblank UnblankSucceeded) = OnStop"
  "next (decide_screen_on_after_unblank (UnblankFailed d)) = FullWake"
  "state_transitions (outcome (decide_screen_on_after_unblank UnblankSucceeded)) =
     [clear_session_marker RestoreCompleted]"
  "state_transitions (outcome (decide_screen_on_after_unblank (UnblankFailed d))) = []"
  "state_transitions select_screen_on_wake_packet = []"
  "state_transitions select_screen_on_input_restore_attempt = []"
  "state_transitions decide_screen_on_wake_attempt_succeeded = [clear_session_marker RestoreCompleted]"
  by (auto simp: decides Let_def)

section \<open>Effects of the handlers\<close>

definition msg_non_session_transition :: string where
  "msg_non_session_transition = ''screen policy emitted a non-session marker transition''"

definition apply_screen_state_transitions ::
    "environment \<Rightarrow> ScreenOwnershipMarker \<Rightarrow> PolicyOutcome \<Rightarrow> (world, RunError, unit) eff" where
  "apply_screen_state_transitions env marker out =
     eachE (apply_transition SessionScreenOwnership (Run_Policy msg_non_session_transition)
              (marker_create env marker) (marker_clear env marker))
       (state_transitions out)"

text \<open>Log lines.\<close>

definition PREFIX_OFF :: string where "PREFIX_OFF = ''LG Buddy Screen Off''"
definition PREFIX_ON :: string where "PREFIX_ON = ''LG Buddy Screen On''"
definition PREFIX_TIMED :: string where "PREFIX_TIMED = ''LG Buddy Timed Power Off''"

definition msg_restore_pending :: "string \<Rightarrow> string" where
  "msg_restore_pending prefix = prefix @
     '': System resume restore is pending; lifecycle owns TV actions. Skipping session screen action.''"
definition msg_sleep_pending :: "string \<Rightarrow> string" where
  "msg_sleep_pending prefix = prefix @
     '': Machine sleep is pending; lifecycle owns TV actions. Skipping session screen action.''"
definition msg_off_blanking :: "HdmiInput \<Rightarrow> string" where
  "msg_off_blanking i = PREFIX_OFF @ '': TV is on '' @ hdmi_as_str i @
     ''. Attempting screen blank for idle...''"
definition msg_off_skipping :: "CurrentInput \<Rightarrow> HdmiInput \<Rightarrow> string" where
  "msg_off_skipping c i = PREFIX_OFF @ '': TV is on '' @ current_input_display c @ '' (not '' @
     hdmi_as_str i @ ''). Skipping idle action.''"
definition msg_off_query_failed :: "string \<Rightarrow> string" where
  "msg_off_query_failed e = PREFIX_OFF @ '': Could not query TV input. Falling back to power_off. '' @ e"
definition msg_off_blank_ok :: string where
  "msg_off_blank_ok = PREFIX_OFF @ '': Screen blank command succeeded.''"
definition msg_off_blank_failed :: "string \<Rightarrow> string" where
  "msg_off_blank_failed e = PREFIX_OFF @ '': Screen blank failed. Falling back to power_off. '' @ e"
definition msg_off_fallback_ok :: string where
  "msg_off_fallback_ok = PREFIX_OFF @ '': Fallback power_off succeeded.''"
definition msg_off_unreachable :: "string \<Rightarrow> string" where
  "msg_off_unreachable e = PREFIX_OFF @
     '': Could not power off the TV (may already be off or unreachable). '' @ e"
definition msg_off_fallback_failed :: "string \<Rightarrow> string" where
  "msg_off_fallback_failed e = PREFIX_OFF @ '': Fallback power_off failed. '' @ e"

definition apply_screen_action_eligibility ::
    "environment \<Rightarrow> string \<Rightarrow> Config \<Rightarrow> RuntimeEvent \<Rightarrow> ScreenOwnershipMarker \<Rightarrow> PolicyOutcome \<Rightarrow>
     (world, RunError, bool \<times> PolicyOutcome) eff" where
  "apply_screen_action_eligibility env prefix config event system_marker out =
     (let enabled = is_enabled (system_sleep_wake_policy config);
          session_lifecycle_action = is_session_screen_source (source event) \<and> enabled in
      bindE (if session_lifecycle_action then machine_sleep_pending env else returnE NotPending) (\<lambda>phase.
      bindE (getsE (\<lambda>w. session_lifecycle_action \<and> marker_exists system_marker w)) (\<lambda>restore_pending.
        let decision = decide_screen_action_eligibility
              \<lparr>eligibility_source = source event, lifecycle_policy_enabled = enabled,
               runtime_phase = phase, system_restore_pending = restore_pending\<rparr> in
        thenE (case next decision of
                 StopAction SystemRestorePending \<Rightarrow> say env (msg_restore_pending prefix)
               | StopAction MachineSleepPending \<Rightarrow> say env (msg_sleep_pending prefix)
               | Continue \<Rightarrow> returnE ())
          (returnE (next decision = Continue, merge out (outcome decision))))))"

definition render_screen_off_input_decision ::
    "environment \<Rightarrow> HdmiInput \<Rightarrow> CurrentInput \<Rightarrow> ScreenOffNext ScreenPolicyDecision \<Rightarrow>
     (world, RunError, unit) eff" where
  "render_screen_off_input_decision env configured_input current_input decision =
     (case next decision of
        Blank \<Rightarrow> say env (msg_off_blanking configured_input)
      | OffStop \<Rightarrow> say env (msg_off_skipping current_input configured_input)
      | PowerOffFallback \<Rightarrow> returnE ())"

definition execute_screen_off_power_off_fallback ::
    "environment \<Rightarrow> ScreenOwnershipMarker \<Rightarrow> ScreenOffFallbackContext \<Rightarrow> PolicyOutcome \<Rightarrow>
     (world, RunError, PolicyOutcome) eff" where
  "execute_screen_off_power_off_fallback env marker ctxt out =
     bindE (tryE (power_off env)) (\<lambda>r.
       let observation = tv_effect_observation r;
           decision = decide_screen_off_after_power_off_result observation in
       thenE (apply_screen_state_transitions env marker (outcome decision))
      (thenE (case observation of
                Succeeded \<Rightarrow> say env msg_off_fallback_ok
              | Failed detail \<Rightarrow>
                  (case ctxt of
                     InputQueryFailed \<Rightarrow> say env (msg_off_unreachable detail)
                   | BlankFailed \<Rightarrow> say env (msg_off_fallback_failed detail)))
         (returnE (merge out (outcome decision)))))"

definition execute_screen_blank ::
    "environment \<Rightarrow> ScreenOwnershipMarker \<Rightarrow> PolicyOutcome \<Rightarrow>
     (world, RunError, bool \<times> PolicyOutcome) eff" where
  "execute_screen_blank env marker out =
     bindE (tryE (screen_blank env)) (\<lambda>r.
       let observation = tv_effect_observation r;
           blank_succeeded = (observation = Succeeded);
           decision = decide_screen_off_after_blank_result observation in
       thenE (apply_screen_state_transitions env marker (outcome decision))
      (thenE (case observation of
                Succeeded \<Rightarrow> say env msg_off_blank_ok
              | Failed detail \<Rightarrow> say env (msg_off_blank_failed detail))
      (bindE (if next decision = PowerOffFallback
              then execute_screen_off_power_off_fallback env marker BlankFailed (merge out (outcome decision))
              else returnE (merge out (outcome decision)))
         (\<lambda>out'. returnE (blank_succeeded, out')))))"

section \<open>Screen off\<close>

record ScreenOffExecutionResult =
  off_outcome :: PolicyOutcome
  blank_succeeded :: bool

definition off_result :: "PolicyOutcome \<Rightarrow> bool \<Rightarrow> ScreenOffExecutionResult" where
  "off_result out b = \<lparr>off_outcome = out, blank_succeeded = b\<rparr>"

lemma off_result_fields [simp]:
  "off_outcome (off_result out b) = out" "blank_succeeded (off_result out b) = b"
  by (simp_all add: off_result_def)

definition run_screen_off_with_result_for_event ::
    "environment \<Rightarrow> Config \<Rightarrow> ScreenOwnershipMarker \<Rightarrow> ScreenOwnershipMarker \<Rightarrow> RuntimeEvent \<Rightarrow>
     (world, RunError, ScreenOffExecutionResult) eff" where
  "run_screen_off_with_result_for_event env config marker system_marker event =
     bindE (apply_screen_action_eligibility env PREFIX_OFF config event system_marker outcome_new)
       (\<lambda>(eligible, out).
       if \<not> eligible then returnE (off_result out False)
       else
         bindE (tryE (input_current env)) (\<lambda>r. case r of
           Inr current_input \<Rightarrow>
             (let decision = decide_screen_off_after_input (input config) (Current current_input) in
              thenE (apply_screen_state_transitions env marker (outcome decision))
             (thenE (render_screen_off_input_decision env (input config) current_input decision)
                (if next decision = Blank
                 then bindE (execute_screen_blank env marker (merge out (outcome decision)))
                        (\<lambda>(ok, out'). returnE (off_result out' ok))
                 else returnE (off_result (merge out (outcome decision)) False))))
         | Inl err \<Rightarrow>
             (let decision = decide_screen_off_after_input (input config) (QueryFailed (tv_error_display err)) in
              thenE (say env (msg_off_query_failed (tv_error_display err)))
                (bindE (if next decision = PowerOffFallback
                        then execute_screen_off_power_off_fallback env marker InputQueryFailed
                               (merge out (outcome decision))
                        else returnE (merge out (outcome decision)))
                   (\<lambda>out'. returnE (off_result out' False))))))"

section \<open>Timed power-off\<close>

definition msg_timed_disabled :: string where
  "msg_timed_disabled = PREFIX_TIMED @ '': Screen idle blanking is disabled; skipping power-off.''"
definition msg_timed_no_marker :: string where
  "msg_timed_no_marker = PREFIX_TIMED @ '': Screen ownership marker is absent; skipping power-off.''"
definition msg_timed_query_failed :: "string \<Rightarrow> string" where
  "msg_timed_query_failed e = PREFIX_TIMED @
     '': Could not query TV input; skipping power-off without a blind fallback. '' @ e"
definition msg_timed_ownership_lost :: "CurrentInput \<Rightarrow> HdmiInput \<Rightarrow> string" where
  "msg_timed_ownership_lost c i = PREFIX_TIMED @ '': TV is on '' @ current_input_display c @ '' (not '' @
     hdmi_as_str i @ ''); ownership was lost, so power-off was skipped and the marker cleared.''"
definition msg_timed_powering_off :: string where
  "msg_timed_powering_off = PREFIX_TIMED @
     '': Ownership, input, and lifecycle checks passed; powering off TV.''"
definition msg_timed_ok :: string where
  "msg_timed_ok = PREFIX_TIMED @
     '': TV power-off succeeded; preserving the ownership marker for activity restore.''"
definition msg_timed_failed :: "string \<Rightarrow> string" where
  "msg_timed_failed e = PREFIX_TIMED @ '': TV power-off failed; preserving the ownership marker. '' @ e"

definition timed_mismatch :: "CurrentInput \<Rightarrow> HdmiInput \<Rightarrow> PolicyOutcome" where
  "timed_mismatch current_input configured =
     with_state_transition (clear_session_marker TrInputMismatch)
       (with_no_action (decision_reason_with_detail InputMismatch
            (msg_input_mismatch current_input configured)) outcome_new)"

definition timed_selected :: PolicyOutcome where
  "timed_selected =
     with_state_transition (PreserveMarker SessionScreenOwnership (transition_reason ActionSelected))
       (with_action TvTimedIdlePowerOff (decision_reason RuntimeEventReason) outcome_new)"

definition run_timed_power_off_with_event ::
    "environment \<Rightarrow> Config \<Rightarrow> ScreenOwnershipMarker \<Rightarrow> ScreenOwnershipMarker \<Rightarrow> RuntimeEvent \<Rightarrow>
     (world, RunError, PolicyOutcome) eff" where
  "run_timed_power_off_with_event env config marker system_marker event =
     (if \<not> is_enabled (screen_idle_blank config)
      then thenE (say env msg_timed_disabled)
             (returnE (with_no_action (decision_reason ConfigDisabled) outcome_new))
      else
        bindE (apply_screen_action_eligibility env PREFIX_TIMED config event system_marker outcome_new)
          (\<lambda>(eligible, out).
          if \<not> eligible then returnE out
          else
            bindE (getsE (marker_exists marker)) (\<lambda>owned.
            if \<not> owned
            then thenE (say env msg_timed_no_marker)
                   (returnE (merge out (with_no_action (decision_reason MarkerMissing) outcome_new)))
            else
              bindE (tryE (input_current env)) (\<lambda>r. case r of
                Inl err \<Rightarrow>
                  thenE (say env (msg_timed_query_failed (tv_error_display err)))
                    (returnE (merge out
                      (with_diagnostic (diagnostic_warning
                           (msg_diag_timed_query (tv_error_display err)))
                        (with_no_action (decision_reason_with_detail TransportFailure (tv_error_display err))
                           outcome_new))))
              | Inr current_input \<Rightarrow>
                  if \<not> is_hdmi current_input (input config)
                  then
                    thenE (apply_screen_state_transitions env marker (timed_mismatch current_input (input config)))
                   (thenE (say env (msg_timed_ownership_lost current_input (input config)))
                      (returnE (merge out (timed_mismatch current_input (input config)))))
                  else
                    thenE (say env msg_timed_powering_off)
                   (bindE (tryE (power_off env)) (\<lambda>off. case off of
                      Inr _ \<Rightarrow> thenE (say env msg_timed_ok) (returnE (merge out timed_selected))
                    | Inl err \<Rightarrow>
                        thenE (say env (msg_timed_failed (tv_error_display err)))
                          (returnE (merge (merge out timed_selected)
                             (with_diagnostic (diagnostic_warning
                                (msg_diag_timed_off (tv_error_display err))) outcome_new)))))))))"

section \<open>Screen on\<close>

record ScreenRestoreTrace =
  started_at :: instant
  entries :: "string list"
  failed :: bool

definition as_millis :: "duration \<Rightarrow> nat" where
  "as_millis d = d div 1000000"

definition restore_trace_new :: "environment \<Rightarrow> (world, 'e, ScreenRestoreTrace) eff" where
  "restore_trace_new env =
     getsE (\<lambda>w. \<lparr>started_at = now env (trace w), entries = [], failed = False\<rparr>)"

definition compact_failure_detail :: "string \<Rightarrow> string" where
  "compact_failure_detail detail =
     (case find (\<lambda>line. trim line \<noteq> []) (rev (lines detail)) of
        Some line \<Rightarrow> trim line
      | None \<Rightarrow> ''no detail'')"

definition trace_entry :: "string \<Rightarrow> TvError + unit \<Rightarrow> nat \<Rightarrow> string" where
  "trace_entry operation result elapsed_ms =
     (case result of
        Inr _ \<Rightarrow> operation @ ''=succeeded elapsed_ms='' @ show_nat elapsed_ms
      | Inl error \<Rightarrow> operation @ ''=failed kind='' @ tv_error_kind_as_str (tv_error_kind error) @
          '' elapsed_ms='' @ show_nat elapsed_ms @ '' detail='' @
          debug_str (compact_failure_detail (tv_error_detail error)))"

definition trace_record ::
    "environment \<Rightarrow> ScreenRestoreTrace \<Rightarrow> string \<Rightarrow> TvError + unit \<Rightarrow> (world, 'e, ScreenRestoreTrace) eff" where
  "trace_record env tr operation result =
     getsE (\<lambda>w. let elapsed_ms = as_millis (saturating_duration_since (now env (trace w)) (started_at tr)) in
       \<lparr>started_at = started_at tr,
        entries = entries tr @ [trace_entry operation result elapsed_ms],
        failed = (failed tr \<or> \<not> is_ok result)\<rparr>)"

fun marker_state :: "bool \<Rightarrow> string" where
  "marker_state True = ''present''"
| "marker_state False = ''absent''"

fun join :: "string \<Rightarrow> string list \<Rightarrow> string" where
  "join sep [] = []"
| "join sep [x] = x"
| "join sep (x # y # ys) = x @ sep @ join sep (y # ys)"

definition msg_context_header :: string where
  "msg_context_header = ''LG Buddy Screen Restore Failure Context:''"
definition msg_context :: "RuntimeEvent \<Rightarrow> Config \<Rightarrow> bool \<Rightarrow> string" where
  "msg_context event config marker_before =
     ''  context: source='' @ event_source_label (source event) @ '' platform='' @
     platform_as_str (tv_platform config) @ '' configured_input='' @ hdmi_as_str (input config) @
     '' marker_before='' @ marker_state marker_before"
definition msg_operations :: "ScreenRestoreTrace \<Rightarrow> string" where
  "msg_operations tr = ''  operations: '' @ join '' | '' (entries tr)"
definition msg_context_end :: "bool \<Rightarrow> nat \<Rightarrow> string" where
  "msg_context_end marker_after_restore total_ms =
     ''  marker_after='' @ marker_state marker_after_restore @ '' total_elapsed_ms='' @ show_nat total_ms"

definition render_if_failed ::
    "environment \<Rightarrow> ScreenRestoreTrace \<Rightarrow> RuntimeEvent \<Rightarrow> Config \<Rightarrow> bool \<Rightarrow> bool \<Rightarrow>
     (world, RunError, unit) eff" where
  "render_if_failed env tr event config marker_before marker_after_restore =
     (if \<not> failed tr then returnE ()
      else
        thenE (say env msg_context_header)
       (thenE (say env (msg_context event config marker_before))
       (thenE (say env (msg_operations tr))
       (bindE (getsE (\<lambda>w. as_millis (saturating_duration_since (now env (trace w)) (started_at tr))))
          (\<lambda>total_ms. say env (msg_context_end marker_after_restore total_ms))))))"

definition msg_markerless_notice :: "string \<Rightarrow> string" where
  "msg_markerless_notice prefix = prefix @
     '': State file not found. Aggressive restore policy is enabled, so LG Buddy will attempt wake anyway.''"
definition msg_on_no_marker :: string where
  "msg_on_no_marker = PREFIX_ON @
     '': State file not found. TV was not turned off by LG Buddy. Skipping wake.''"
definition msg_on_turning :: "HdmiInput \<Rightarrow> string" where
  "msg_on_turning i = PREFIX_ON @ '': Turning TV on (screen wake) using input '' @ hdmi_as_str i @ ''...''"
definition msg_on_unblanking :: string where
  "msg_on_unblanking = PREFIX_ON @ '': Attempting screen unblank...''"
definition msg_on_unblank_ok :: string where
  "msg_on_unblank_ok = PREFIX_ON @ '': Screen unblank succeeded. Clearing wake state.''"
definition msg_on_full_wake :: string where
  "msg_on_full_wake = PREFIX_ON @
     '': Screen visibility could not be verified. Falling back to full wake.''"
definition msg_on_initial_wol :: string where
  "msg_on_initial_wol = PREFIX_ON @ '': Sending initial Wake-on-LAN packet...''"
definition msg_on_attempt :: "nat \<Rightarrow> HdmiInput \<Rightarrow> string" where
  "msg_on_attempt n i = PREFIX_ON @ '': Wake attempt '' @ show_nat n @ '': setting input to '' @
     hdmi_as_str i @ ''...''"
definition msg_on_attempt_ok :: "nat \<Rightarrow> string" where
  "msg_on_attempt_ok n = PREFIX_ON @ '': Wake attempt '' @ show_nat n @ '' succeeded. Clearing wake state.''"
definition msg_on_attempt_failed :: "nat \<Rightarrow> duration \<Rightarrow> string" where
  "msg_on_attempt_failed n d = PREFIX_ON @ '': Wake attempt '' @ show_nat n @
     '' failed. Resending WoL and retrying in '' @ show_nat (as_secs d) @ ''s...''"
definition msg_on_exhausted :: string where
  "msg_on_exhausted = PREFIX_ON @ '': Wake failed after '' @ show_nat SCREEN_ON_WAKE_ATTEMPTS @
     '' attempts. LG Buddy will retry on the next restore event.''"
definition msg_on_wake_error :: string where
  "msg_on_wake_error = ''screen-on wake sequence failed after '' @ show_nat SCREEN_ON_WAKE_ATTEMPTS @ '' attempts''"
definition msg_wol_failed :: "string \<Rightarrow> WakeOnLanError \<Rightarrow> string" where
  "msg_wol_failed prefix err =
     prefix @ '': Wake-on-LAN send failed. Continuing anyway. '' @ wol_error_display err"

definition render_screen_on_start_decision ::
    "environment \<Rightarrow> Config \<Rightarrow> bool \<Rightarrow> ScreenOnNext ScreenPolicyDecision \<Rightarrow> (world, RunError, unit) eff" where
  "render_screen_on_start_decision env config marker_present decision =
     (if next decision = OnStop then say env msg_on_no_marker
      else
        thenE (if \<not> marker_present then say env (msg_markerless_notice PREFIX_ON) else returnE ())
       (thenE (say env (msg_on_turning (input config)))
          (say env msg_on_unblanking)))"

definition send_wake_packet ::
    "environment \<Rightarrow> string \<Rightarrow> Ipv4Addr \<Rightarrow> MacAddress \<Rightarrow> PolicyOutcome \<Rightarrow> (world, RunError, PolicyOutcome) eff" where
  "send_wake_packet env prefix ip mac out =
     bindE (tryE (power_wake env ip mac)) (\<lambda>r. case r of
       Inl err \<Rightarrow>
         thenE (say env (msg_wol_failed prefix err))
           (returnE (with_diagnostic
              (diagnostic_warning (msg_diag_wol (wol_error_display err))) out))
     | Inr _ \<Rightarrow> returnE out)"

definition screen_on_initial_wake_delay :: "environment \<Rightarrow> duration" where
  "screen_on_initial_wake_delay env =
     duration_override_secs env ''LG_BUDDY_SCREEN_ON_INITIAL_WAKE_DELAY_SECS'' SCREEN_ON_INITIAL_WAKE_DELAY"

definition screen_on_retry_delay :: "environment \<Rightarrow> nat \<Rightarrow> duration" where
  "screen_on_retry_delay env attempt =
     duration_override_secs env ''LG_BUDDY_SCREEN_ON_RETRY_DELAY_SECS'' (from_secs (min (attempt * 2) 30))"

definition execute_screen_on_unblank ::
    "environment \<Rightarrow> ScreenOwnershipMarker \<Rightarrow> PolicyOutcome \<Rightarrow> ScreenRestoreTrace \<Rightarrow>
     (world, RunError, bool \<times> PolicyOutcome \<times> ScreenRestoreTrace) eff" where
  "execute_screen_on_unblank env marker out tr =
     bindE (tryE (screen_unblank env)) (\<lambda>result.
     bindE (trace_record env tr ''direct_unblank'' result) (\<lambda>tr'.
       let observation = (case result of
             Inr _ \<Rightarrow> UnblankSucceeded | Inl error \<Rightarrow> UnblankFailed (tv_error_display error));
           decision = decide_screen_on_after_unblank observation in
       thenE (apply_screen_state_transitions env marker (outcome decision))
      (thenE (case observation of
                UnblankSucceeded \<Rightarrow> say env msg_on_unblank_ok
              | UnblankFailed _ \<Rightarrow> returnE ())
         (returnE (next decision = OnStop, merge out (outcome decision), tr')))))"

text \<open>\<open>Err\<close> of this function is a value the caller tests with \<open>is_ok\<close>.\<close>

definition attempt_input_restore ::
    "environment \<Rightarrow> HdmiInput \<Rightarrow> nat \<Rightarrow> ScreenRestoreTrace \<Rightarrow>
     (world, 'e, (TvError + unit) \<times> ScreenRestoreTrace) eff" where
  "attempt_input_restore env i attempt tr =
     bindE (tryE (input_set env i)) (\<lambda>result.
     bindE (trace_record env tr (''input_attempt_'' @ show_nat attempt) result) (\<lambda>tr1.
     case result of
       Inr _ \<Rightarrow> returnE (Inr (), tr1)
     | Inl error \<Rightarrow>
         if \<not> indicates_screen_not_visible error then returnE (Inl error, tr1)
         else
           bindE (tryE (screen_unblank env)) (\<lambda>unblank_result.
           bindE (trace_record env tr1 (''recovery_unblank_'' @ show_nat attempt) unblank_result) (\<lambda>tr2.
           case unblank_result of
             Inl error' \<Rightarrow> returnE (Inl error', tr2)
           | Inr _ \<Rightarrow>
               bindE (tryE (input_set env i)) (\<lambda>retry_result.
               bindE (trace_record env tr2 (''input_retry_'' @ show_nat attempt) retry_result) (\<lambda>tr3.
                 returnE (retry_result, tr3)))))))"

text \<open>
  The full wake. The restore trace outlives an early return, so errors carry it. The attempt loop
  returns \<open>True\<close> when an attempt succeeded.
\<close>

definition withTrace :: "ScreenRestoreTrace \<Rightarrow> (world, RunError, 'a) eff \<Rightarrow> (world, RunError \<times> ScreenRestoreTrace, 'a) eff" where
  "withTrace tr m = mapErrE (\<lambda>e. (e, tr)) m"

fun screen_on_wake_attempts ::
    "environment \<Rightarrow> Config \<Rightarrow> ScreenOwnershipMarker \<Rightarrow> nat list \<Rightarrow> PolicyOutcome \<Rightarrow> ScreenRestoreTrace \<Rightarrow>
     (world, RunError \<times> ScreenRestoreTrace, bool \<times> PolicyOutcome \<times> ScreenRestoreTrace) eff" where
  "screen_on_wake_attempts env config marker [] out tr = returnE (False, out, tr)"
| "screen_on_wake_attempts env config marker (attempt # rest) out tr =
     thenE (withTrace tr (say env (msg_on_attempt attempt (input config))))
    (bindE (attempt_input_restore env (input config) attempt tr) (\<lambda>(restored, tr').
       let out1 = merge out select_screen_on_input_restore_attempt in
       if is_ok restored then
         thenE (withTrace tr' (apply_screen_state_transitions env marker decide_screen_on_wake_attempt_succeeded))
        (thenE (withTrace tr' (say env (msg_on_attempt_ok attempt)))
           (returnE (True, merge out1 decide_screen_on_wake_attempt_succeeded, tr')))
       else
         (let retry_delay = screen_on_retry_delay env attempt in
          thenE (withTrace tr' (say env (msg_on_attempt_failed attempt retry_delay)))
         (bindE (withTrace tr' (send_wake_packet env PREFIX_ON (tv_ip config) (tv_mac config)
                    (merge out1 select_screen_on_wake_packet))) (\<lambda>out2.
          thenE (sleepE env retry_delay)
            (screen_on_wake_attempts env config marker rest out2 tr'))))))"

definition execute_screen_on_full_wake ::
    "environment \<Rightarrow> Config \<Rightarrow> ScreenOwnershipMarker \<Rightarrow> bool \<Rightarrow> PolicyOutcome \<Rightarrow> ScreenRestoreTrace \<Rightarrow>
     (world, RunError \<times> ScreenRestoreTrace, PolicyOutcome \<times> ScreenRestoreTrace) eff" where
  "execute_screen_on_full_wake env config marker marker_present out tr =
     thenE (withTrace tr (say env msg_on_full_wake))
    (thenE (withTrace tr (say env msg_on_initial_wol))
    (bindE (withTrace tr (send_wake_packet env PREFIX_ON (tv_ip config) (tv_mac config)
              (merge out select_screen_on_wake_packet))) (\<lambda>out1.
     thenE (sleepE env (screen_on_initial_wake_delay env))
    (bindE (screen_on_wake_attempts env config marker [1..<Suc SCREEN_ON_WAKE_ATTEMPTS] out1 tr)
       (\<lambda>(restored, out2, tr').
       if restored then returnE (out2, tr')
       else
         thenE (withTrace tr' (say env msg_on_exhausted))
        (thenE (withTrace tr' (apply_screen_state_transitions env marker
                  (decide_screen_on_wake_exhausted marker_present)))
           (raiseE (Run_Policy msg_on_wake_error, tr'))))))))"

definition run_screen_on_with_outcome_for_event ::
    "environment \<Rightarrow> Config \<Rightarrow> ScreenOwnershipMarker \<Rightarrow> ScreenOwnershipMarker \<Rightarrow> RuntimeEvent \<Rightarrow>
     (world, RunError, PolicyOutcome) eff" where
  "run_screen_on_with_outcome_for_event env config marker system_marker event =
     bindE (apply_screen_action_eligibility env PREFIX_ON config event system_marker outcome_new)
       (\<lambda>(eligible, out).
       if \<not> eligible then returnE out
       else
         bindE (getsE (marker_exists marker)) (\<lambda>marker_present.
           let start_decision = decide_screen_on_start (screen_restore_policy config) marker_present;
               out1 = merge out (outcome start_decision) in
           thenE (render_screen_on_start_decision env config marker_present start_decision)
             (if next start_decision = OnStop then returnE out1
              else
                bindE (restore_trace_new env) (\<lambda>tr.
                bindE (if next start_decision = Unblank
                       then execute_screen_on_unblank env marker out1 tr
                       else returnE (False, out1, tr)) (\<lambda>(unblanked, out2, tr1).
                if unblanked then
                  bindE (getsE (marker_exists marker)) (\<lambda>marker_after_restore.
                  thenE (render_if_failed env tr1 event config marker_present marker_after_restore)
                    (returnE out2))
                else
                  bindE (tryE (execute_screen_on_full_wake env config marker marker_present out2 tr1))
                    (\<lambda>fallback_result.
                  let tr2 = (case fallback_result of Inl (_, t) \<Rightarrow> t | Inr (_, t) \<Rightarrow> t) in
                  bindE (getsE (marker_exists marker)) (\<lambda>marker_after_restore.
                  thenE (render_if_failed env tr2 event config marker_present marker_after_restore)
                    (case fallback_result of
                       Inl (e, _) \<Rightarrow> raiseE e
                     | Inr (out3, _) \<Rightarrow> returnE out3))))))))"

definition run_screen_on_with_event ::
    "environment \<Rightarrow> Config \<Rightarrow> ScreenOwnershipMarker \<Rightarrow> ScreenOwnershipMarker \<Rightarrow> RuntimeEvent \<Rightarrow>
     (world, RunError, unit) eff" where
  "run_screen_on_with_event env config marker system_marker event =
     thenE (run_screen_on_with_outcome_for_event env config marker system_marker event) (returnE ())"

end
