(* ===== verification/Screen_Proofs.thy ===== *)
theory Screen_Proofs
  imports Screen
begin

text \<open>
  The proofs about the session screen policy: which effects may justify a marker transition, the
  frame of every handler, what the handlers' trails say about the marker, and how much effort a
  restore may spend.
\<close>
definition lifecycle_owns ::
    "environment \<Rightarrow> Config \<Rightarrow> RuntimeEvent \<Rightarrow> ScreenOwnershipMarker \<Rightarrow> world \<Rightarrow> bool" where
  "lifecycle_owns env config event system_marker w \<longleftrightarrow>
     is_session_screen_source (source event) \<and> is_enabled (system_sleep_wake_policy config) \<and>
     (phase_provider env (trace w) = Pending \<or> marker_exists system_marker w)"

lemma eligibility_spec:
  "wp (apply_screen_action_eligibility env prefix config event sm out)
     (\<lambda>(eligible, out') w'. quiet w w' \<and> (eligible \<longleftrightarrow> \<not> lifecycle_owns env config event sm w) \<and>
        actions out' = actions out \<and> state_transitions out' = state_transitions out)
     (\<lambda>_ w'. quiet w w') w"
proof -
  let ?act = "is_session_screen_source (source event) \<and> is_enabled (system_sleep_wake_policy config)"
  show ?thesis
  proof (cases ?act)
    case False
    then show ?thesis
      by (auto simp: apply_screen_action_eligibility_def Let_def wp_rules decides qt.R_refl lifecycle_owns_def
          say_defs)
  next
    case True
    then show ?thesis
      by (cases "phase_provider env (trace w)"; cases "marker_exists sm w")
         (auto simp: apply_screen_action_eligibility_def Let_def wp_rules decides lifecycle_owns_def say_defs
           quiet_def extends_def marker_exists_def split: option.splits)
  qed
qed



fun dark_now :: "effect list \<Rightarrow> bool" where
  "dark_now (Blanked (Inr _) # es) = True"
| "dark_now (PoweredOff (Inr _) # es) = True"
| "dark_now _ = False"

fun lit_or_lost_now :: "HdmiInput \<Rightarrow> effect list \<Rightarrow> bool" where
  "lit_or_lost_now i (Unblanked (Inr _) # es) = True"
| "lit_or_lost_now i (InputSet j (Inr _) # es) = (j = i)"
| "lit_or_lost_now i (CurrentInputRead (Inr c) # es) = (\<not> is_hdmi c i)"
| "lit_or_lost_now i _ = False"

fun session_justified :: "HdmiInput \<Rightarrow> path \<Rightarrow> effect list \<Rightarrow> bool" where
  "session_justified i p [] = True"
| "session_justified i p (MarkerCreated q # es) = (q = p \<and> dark_now es \<and> session_justified i p es)"
| "session_justified i p (FileRemoved q # es) = (q = p \<and> lit_or_lost_now i es \<and> session_justified i p es)"
| "session_justified i p (FileWritten q c # es) = False"
| "session_justified i p (_ # es) = session_justified i p es"

lemma dark_now_append: "dark_now es \<Longrightarrow> dark_now (es @ fs)"
  by (induction es rule: dark_now.induct) auto

lemma lit_or_lost_now_append: "lit_or_lost_now i es \<Longrightarrow> lit_or_lost_now i (es @ fs)"
  by (induction i es rule: lit_or_lost_now.induct) auto

lemma session_justified_append:
  "session_justified i p es \<Longrightarrow> session_justified i p fs \<Longrightarrow> session_justified i p (es @ fs)"
  by (induction i p es rule: session_justified.induct) (auto intro: dark_now_append lit_or_lost_now_append)

definition session_step :: "HdmiInput \<Rightarrow> path \<Rightarrow> world \<Rightarrow> world \<Rightarrow> bool" where
  "session_step i p w w' \<longleftrightarrow>
     (\<forall>q. locks w' q = Some Ours \<longleftrightarrow> locks w q = Some Ours) \<and>
     (\<exists>new. trace w' = new @ trace w \<and> session_justified i p new)"

interpretation ses: world_preorder "session_step i p"
proof
  show "session_step i p w w" for w by (simp add: session_step_def)
  fix u v w assume "session_step i p u v" "session_step i p v w"
  then show "session_step i p u w"
    unfolding session_step_def by (metis append.assoc session_justified_append)
qed

lemma quiet_session_justified: "list_all quiet_effect es \<Longrightarrow> session_justified i p es"
proof (induction es)
  case (Cons e es) then show ?case by (cases e) auto
qed simp

lemma quiet_session: "quiet w w' \<Longrightarrow> session_step i p w w'"
  by (auto simp: quiet_def session_step_def extends_def intro: quiet_session_justified)

lemma session_say: "stays (session_step i p) (say env msg)"
  using quiet_say quiet_session by (rule stays_mono)

lemma session_ask: "(\<And>r. session_justified i p [rec r]) \<Longrightarrow> stays (session_step i p) (askE answer rec)"
  by (auto simp: stays_def askE_def Let_def session_step_def)

lemma session_sleep: "stays (session_step i p) (sleepE env d)"
  by (simp add: stays_def sleepE_def modifyE_def session_step_def)

lemma session_eligibility: "stays (session_step i p) (apply_screen_action_eligibility env prefix config event sm out)"
  by (rule wp_stays, rule wp_mono [OF eligibility_spec]) (auto intro: quiet_session)

lemmas apply_simps = apply_screen_state_transitions_def apply_transition_def marker_clear_def wp_rules ioE_def

lemmas session_rules = ses.stays_rules session_say session_sleep session_eligibility stays_if
lemmas session_asks = session_ask [where rec = "CurrentInputRead"] session_ask [where rec = "InputSet j" for j]
  session_ask [where rec = PoweredOff] session_ask [where rec = Blanked] session_ask [where rec = Unblanked]
  session_ask [where rec = "WakePacket mac ip" for mac ip]

text \<open>A TV effect and the marker transitions chosen from its result, as one step.\<close>

lemma session_power_off:
  "stays (session_step i (marker_path m))
     (bindE (tryE (power_off env)) (\<lambda>r.
        thenE (apply_screen_state_transitions env m
          (outcome (decide_screen_off_after_power_off_result (tv_effect_observation r)))) (returnE r)))"
  by (rule wp_stays)
     (auto simp: apply_simps tv_calls decides session_step_def split: option.splits sum.splits)


lemma session_blank:
  "stays (session_step i (marker_path m))
     (bindE (tryE (screen_blank env)) (\<lambda>r.
        thenE (apply_screen_state_transitions env m
          (outcome (decide_screen_off_after_blank_result (tv_effect_observation r)))) (returnE r)))"
  by (rule wp_stays)
     (auto simp: apply_simps tv_calls decides session_step_def split: option.splits sum.splits)

lemma session_fallback:
  "stays (session_step i (marker_path m)) (execute_screen_off_power_off_fallback env m ctxt out)"
  unfolding execute_screen_off_power_off_fallback_def Let_def
  by (rule ses.stays_fuse [OF session_power_off])
     (auto intro!: session_rules split: TvEffectObservation.splits ScreenOffFallbackContext.splits)

lemma session_execute_blank:
  "stays (session_step i (marker_path m)) (execute_screen_blank env m out)"
  unfolding execute_screen_blank_def Let_def
  by (rule ses.stays_fuse [OF session_blank])
     (auto intro!: session_rules session_fallback split: TvEffectObservation.splits)

lemma session_input:
  "stays (session_step i (marker_path m))
     (bindE (tryE (input_current env)) (\<lambda>r.
        thenE (case r of Inl e \<Rightarrow> returnE ()
               | Inr c \<Rightarrow> apply_screen_state_transitions env m (outcome (decide_screen_off_after_input i (Current c))))
        (returnE r)))"
  by (rule wp_stays)
     (auto simp: apply_simps tv_calls decides session_step_def split: option.splits sum.splits)

lemma session_screen_off:
  "stays (session_step (input config) (marker_path m))
     (run_screen_off_with_result_for_event env config m sm event)"
  unfolding run_screen_off_with_result_for_event_def Let_def render_screen_off_input_decision_def
  by (auto intro!: session_rules session_execute_blank session_fallback ses.stays_fuse_ok [OF session_input]
      split: ScreenOffNext.splits)

lemma session_timed_input:
  "stays (session_step i (marker_path m))
     (bindE (tryE (input_current env)) (\<lambda>r.
        thenE (case r of Inl e \<Rightarrow> returnE ()
               | Inr c \<Rightarrow> if \<not> is_hdmi c i then apply_screen_state_transitions env m (timed_mismatch c i) else returnE ())
        (returnE r)))"
  by (rule wp_stays)
     (auto simp: apply_simps tv_calls decides timed_mismatch_def session_step_def split: option.splits sum.splits)

lemma if_thenE: "(if b then thenE m n else k) = thenE (if b then m else returnE ()) (if b then n else k)"
  by (auto simp: thenE_def bindE_def returnE_def)

lemma session_timed:
  "stays (session_step (input config) (marker_path m))
     (run_timed_power_off_with_event env config m sm event)"
  unfolding run_timed_power_off_with_event_def
  by (subst (3) if_thenE) (auto intro!: session_rules session_asks ses.stays_fuse_ok [OF session_timed_input]
      simp: power_off_def
      split: sum.splits)



lemma session_execute_unblank:
  "stays (session_step i (marker_path m)) (execute_screen_on_unblank env m out tr)"
  by (rule wp_stays)
     (auto simp: execute_screen_on_unblank_def Let_def apply_simps say_def tv_calls decides trace_record_def
       session_step_def split: option.splits sum.splits)

text \<open>The history of an attempt ends in the input write that decided it.\<close>

lemma attempt_input_restore_spec:
  "wp (attempt_input_restore env i n tr)
     (\<lambda>(r, tr') w'. files w' = files w \<and> locks w' = locks w \<and>
        (\<exists>new. trace w' = new @ trace w \<and> session_justified i p new \<and>
           list_all (\<lambda>e. tv_action e) new \<and>
           (is_ok r \<longrightarrow> lit_or_lost_now i new)))
     (\<lambda>_ _. False) w"
  by (auto simp: attempt_input_restore_def trace_record_def wp_rules tv_calls Let_def
      split: option.splits sum.splits)

lemma session_clear:
  assumes "\<exists>new. trace w' = new @ trace w \<and> session_justified i (marker_path m) new \<and> lit_or_lost_now i new"
    and "locks w' = locks w"
  shows "wp (apply_screen_state_transitions env m decide_screen_on_wake_attempt_succeeded)
     (\<lambda>_. session_step i (marker_path m) w) (\<lambda>_. session_step i (marker_path m) w) w'"
  using assms by (auto simp: apply_simps decides session_step_def split: option.splits)

lemma session_send_wake: "stays (session_step i p) (send_wake_packet env prefix ip mac out)"
  unfolding send_wake_packet_def power_wake_def
  by (auto intro!: session_rules session_asks split: sum.splits)

lemma session_wake_attempts:
  "stays (session_step (input config) (marker_path m)) (screen_on_wake_attempts env config m ns out tr)"
proof (induction ns arbitrary: out tr)
  case Nil
  then show ?case by (simp add: ses.stays_returnE)
next
  case (Cons n ns)
  let ?R = "session_step (input config) (marker_path m)"
  have rest: "stays ?R (thenE (withTrace t (say env msg))
      (bindE (withTrace t (send_wake_packet env PREFIX_ON (tv_ip config) (tv_mac config) out1))
        (\<lambda>out2. thenE (sleepE env d) (screen_on_wake_attempts env config m ns out2 t))))" for t msg out1 d
    unfolding withTrace_def by (auto intro!: session_rules session_send_wake Cons.IH)
  show ?case
    unfolding screen_on_wake_attempts.simps
  proof (rule ses.stays_thenE, goal_cases)
    case 1
    show ?case by (simp add: withTrace_def session_say ses.stays_mapErrE)
  next
    case 2
    show ?case
    proof (rule wp_stays, rule wp_bindI [OF attempt_input_restore_spec [where p = "marker_path m"]], goal_cases)
    case (1 w a w')
    obtain r t where a: "a = (r, t)" by force
    show ?case
    proof (cases "is_ok r")
      case True
      then have "wp (apply_screen_state_transitions env m decide_screen_on_wake_attempt_succeeded)
          (\<lambda>_. ?R w) (\<lambda>_. ?R w) w'"
        using 1 a by (intro session_clear) auto
      then have "wp (withTrace t (apply_screen_state_transitions env m decide_screen_on_wake_attempt_succeeded))
          (\<lambda>_. ?R w) (\<lambda>_. ?R w) w'"
        by (simp add: withTrace_def wp_mapErrE)
      then show ?thesis using True a
        by (auto simp: Let_def withTrace_def intro!: ses.wp_then_stays session_rules)
    next
      case False
      have "?R w w'" using 1 a by (auto simp: session_step_def)
      with False a show ?thesis
        by (auto simp: Let_def intro: wp_mono [OF stays_wp [OF rest]] ses.R_trans)
    qed
    qed auto
  qed
qed

lemma session_full_wake:
  "stays (session_step (input config) (marker_path m)) (execute_screen_on_full_wake env config m b out tr)"
proof -
  have "stays (session_step i p) (apply_screen_state_transitions env m (decide_screen_on_wake_exhausted b))" for i p
    by (auto simp: apply_screen_state_transitions_def apply_transition_def decides intro!: session_rules)
  then show ?thesis
    unfolding execute_screen_on_full_wake_def withTrace_def
    by (auto intro!: session_rules session_send_wake session_wake_attempts)
qed

lemma session_render: "stays (session_step i p) (render_if_failed env tr event config b c)"
  unfolding render_if_failed_def by (auto intro!: session_rules)

lemma session_screen_on:
  "stays (session_step (input config) (marker_path m))
     (run_screen_on_with_outcome_for_event env config m sm event)"
  unfolding run_screen_on_with_outcome_for_event_def Let_def restore_trace_new_def render_screen_on_start_decision_def
  by (auto intro!: session_rules session_execute_unblank session_full_wake session_render split: sum.splits)


section \<open>The trail and the marker\<close>

definition only_marker :: "ScreenOwnershipMarker \<Rightarrow> world \<Rightarrow> world \<Rightarrow> bool" where
  "only_marker m w w' \<longleftrightarrow> locks w' = locks w \<and> (\<forall>q. q \<noteq> marker_path m \<longrightarrow> files w' q = files w q)"

definition tracks :: "ScreenOwnershipMarker \<Rightarrow> world \<Rightarrow> PolicyOutcome \<Rightarrow> world \<Rightarrow> bool" where
  "tracks m w out w' \<longleftrightarrow>
     marker_exists m w' = marker_after SessionScreenOwnership (marker_exists m w) (state_transitions out)"

lemmas marker_reasons = create_session_marker_def clear_session_marker_def

lemmas step_simps = apply_simps say_def tv_calls Let_def marker_exists_def tracks_def only_marker_def
  marker_after_append marker_reasons

definition off_good :: "ScreenOwnershipMarker \<Rightarrow> world \<Rightarrow> bool \<Rightarrow> PolicyOutcome \<Rightarrow> world \<Rightarrow> bool" where
  "off_good m w b out w' \<longleftrightarrow> tracks m w out w' \<and> only_marker m w w' \<and>
     (\<exists>new. trace w' = new @ trace w \<and> (b \<longleftrightarrow> Blanked (Inr ()) \<in> set new))"

lemma fallback_good:
  assumes "off_good m w False out v"
  shows "wp (execute_screen_off_power_off_fallback env m c out)
    (\<lambda>out'. off_good m w False out') (\<lambda>_. only_marker m w) v"
  using assms
  by (auto simp: off_good_def execute_screen_off_power_off_fallback_def step_simps
     split: option.splits sum.splits ScreenOffFallbackContext.splits)

lemma blank_good:
  assumes "off_good m w False out v"
  shows "wp (execute_screen_blank env m out)
    (\<lambda>(b, out') w'. off_good m w b out' w' \<and> (b \<longrightarrow> marker_exists m w')) (\<lambda>_. only_marker m w) v"
proof (cases "tv_blank_screen env (trace v)")
  case (Inr u)
  then show ?thesis using assms
    by (auto simp: off_good_def execute_screen_blank_def step_simps split: option.splits)
next
  case (Inl e)
  have "off_good m w False (merge out (outcome (decide_screen_off_after_blank_result (Failed (tv_error_display e)))))
     (emit (Wrote (msg_off_blank_failed (tv_error_display e))) (emit (Blanked (Inl e)) v))"
    using assms by (auto simp: off_good_def step_simps)
  note rest = wp_mono [OF fallback_good [OF this]]
  have "only_marker m w v" using assms by (simp add: off_good_def)
  then show ?thesis using Inl
    by (auto simp: execute_screen_blank_def apply_simps tv_calls Let_def say_def only_marker_def
      split: option.splits intro!: rest)
qed

lemma quiet_off_good: "quiet w v \<Longrightarrow> state_transitions out = [] \<Longrightarrow> off_good m w False out v"
proof -
  assume q: "quiet w v" "state_transitions out = []"
  then obtain new where "trace v = new @ trace w" "list_all quiet_effect new"
    by (auto simp: quiet_def extends_def)
  moreover from this have "Blanked (Inr ()) \<notin> set new" by (auto simp: list_all_iff)
  ultimately show ?thesis
    using q by (auto simp: off_good_def quiet_def only_marker_def tracks_def marker_exists_def)
qed

lemma screen_off_good:
  "wp (run_screen_off_with_result_for_event env config m sm event)
     (\<lambda>res w'. off_good m w (blank_succeeded res) (off_outcome res) w' \<and>
        (blank_succeeded res \<longrightarrow> marker_exists m w'))
     (\<lambda>_. only_marker m w) w"
  unfolding run_screen_off_with_result_for_event_def
proof (rule wp_bindI [OF eligibility_spec], goal_cases)
  case (1 a v)
  then obtain eligible out where a: "a = (eligible, out)" "quiet w v" "state_transitions out = []"
    by (cases a) auto
  then have good: "off_good m w False out v" by (simp add: quiet_off_good)
  then have om: "only_marker m w v" by (simp add: off_good_def)
  show ?case
  proof (cases "tv_current_input env (trace v)")
    case (Inl e)
    let ?v = "emit (Wrote (msg_off_query_failed (tv_error_display e))) (emit (CurrentInputRead (Inl e)) v)"
    let ?out = "merge out (outcome (decide_screen_off_after_input (input config) (QueryFailed (tv_error_display e))))"
    have "off_good m w False ?out ?v" using good by (auto simp: off_good_def step_simps)
    note rest = wp_mono [OF fallback_good [OF this]]
    show ?thesis using Inl a good om
      by (auto simp: wp_rules tv_calls Let_def say_defs only_marker_def split: option.splits intro!: rest)
  next
    case (Inr c)
    show ?thesis
    proof (cases "is_hdmi c (input config)")
      case True
      let ?v = "emit (Wrote (msg_off_blanking (input config))) (emit (CurrentInputRead (Inr c)) v)"
      let ?out = "merge out (outcome (decide_screen_off_after_input (input config) (Current c)))"
      have "off_good m w False ?out ?v" using good True by (auto simp: off_good_def step_simps)
      note rest = wp_mono [OF blank_good [OF this]]
      show ?thesis using Inr a good om True
        by (auto simp: tv_calls Let_def say_def only_marker_def apply_simps
           render_screen_off_input_decision_def split: option.splits intro!: rest)
    next
      case False
      with Inr a good show ?thesis
        by (auto simp: off_good_def step_simps render_screen_off_input_decision_def split: option.splits)
    qed
  qed
qed (auto simp: quiet_def only_marker_def)

definition timed_safe :: "environment \<Rightarrow> Config \<Rightarrow> RuntimeEvent \<Rightarrow> ScreenOwnershipMarker \<Rightarrow>
    ScreenOwnershipMarker \<Rightarrow> world \<Rightarrow> world \<Rightarrow> bool" where
  "timed_safe env config event m sm w w' \<longleftrightarrow> only_marker m w w' \<and>
     (\<exists>new. trace w' = new @ trace w \<and>
        ((\<exists>r. PoweredOff r \<in> set new) \<longrightarrow>
           \<not> lifecycle_owns env config event sm w \<and> is_enabled (screen_idle_blank config) \<and>
           marker_exists m w \<and> marker_exists m w' \<and>
           CurrentInputRead (Inr (Hdmi (input config))) \<in> set new))"

lemma timed_power_off_good:
  "wp (run_timed_power_off_with_event env config m sm event)
     (\<lambda>out w'. tracks m w out w' \<and> timed_safe env config event m sm w w')
     (\<lambda>_. timed_safe env config event m sm w) w"
proof (cases "is_enabled (screen_idle_blank config)")
  case False
  then show ?thesis
    by (auto simp: run_timed_power_off_with_event_def timed_safe_def step_simps split: option.splits)
next
  case True
  then have nn: "\<not> \<not> is_enabled (screen_idle_blank config)" by simp
  have quiet_safe: "quiet w v \<Longrightarrow> timed_safe env config event m sm w v" for v
    by (fastforce simp: timed_safe_def quiet_def extends_def only_marker_def list_all_iff)
  show ?thesis
    unfolding run_timed_power_off_with_event_def if_not_P [OF nn]
  proof (rule wp_bindI [OF eligibility_spec], goal_cases)
    case (1 a v)
    then obtain eligible out where a: "a = (eligible, out)" "quiet w v" "state_transitions out = []"
        "eligible \<longleftrightarrow> \<not> lifecycle_owns env config event sm w"
      by (cases a) auto
    obtain new where new: "trace v = new @ trace w" "\<And>r. PoweredOff r \<notin> set new"
      using a(2) by (fastforce simp: quiet_def extends_def list_all_iff)
    have "files v = files w" "locks v = locks w" using a by (auto simp: quiet_def)
    with a new True show ?case
      by (auto simp: step_simps timed_safe_def is_hdmi_eq timed_mismatch_def timed_selected_def
          split: option.splits sum.splits)
  qed (auto intro: quiet_safe)
qed

section \<open>Restoring\<close>

lemma attempt_input_restore_result:
  "wp (attempt_input_restore env i n tr)
     (\<lambda>(r, tr') w'. files w' = files w \<and>
        (\<exists>new. trace w' = new @ trace w \<and> (is_ok r \<longleftrightarrow> InputSet i (Inr ()) \<in> set new)))
     (\<lambda>_ _. False) w"
  by (auto simp: attempt_input_restore_def trace_record_def wp_rules tv_calls Let_def
      split: option.splits sum.splits)

definition attempts_done :: "HdmiInput \<Rightarrow> ScreenOwnershipMarker \<Rightarrow> world \<Rightarrow> PolicyOutcome \<Rightarrow>
    bool \<Rightarrow> PolicyOutcome \<Rightarrow> world \<Rightarrow> bool" where
  "attempts_done i m w out ok out' w' \<longleftrightarrow>
     selects TvScreenRestore out' = selects TvScreenRestore out \<and>
     state_transitions out' = state_transitions out @ (if ok then [clear_session_marker RestoreCompleted] else []) \<and>
     marker_exists m w' = (if ok then False else marker_exists m w) \<and>
     (\<exists>new. trace w' = new @ trace w \<and> (ok \<longleftrightarrow> InputSet i (Inr ()) \<in> set new))"

lemma wake_attempts_spec:
  assumes u: "undisturbed env (marker_path m)"
  shows "wp (screen_on_wake_attempts env config m ns out tr)
     (\<lambda>(ok, out', _). attempts_done (input config) m w out ok out')
     (\<lambda>(e, _) _. \<exists>io. e = Run_Io io) w"
proof (induction ns arbitrary: out tr w)
  case Nil
  then show ?case by (simp add: wp_rules attempts_done_def)
next
  case (Cons n ns)
  have start: "wp (withTrace tr (say env msg)) (\<lambda>_ v. v = emit (Wrote msg) w) (\<lambda>(e, _) _. \<exists>io. e = Run_Io io) w" for msg
    by (simp add: withTrace_def say_defs wp_rules split: option.splits)
  show ?case
    unfolding screen_on_wake_attempts.simps
  proof (rule wp_thenI [OF start], goal_cases)
    case (1 _ v)
    show ?case
    proof (rule wp_bindI [OF attempt_input_restore_result], goal_cases)
      case (1 a x)
      obtain r t where a: "a = (r, t)" by force
      obtain new where x: "files x = files w" "trace x = new @ Wrote (msg_on_attempt n (input config)) # trace w"
          "is_ok r \<longleftrightarrow> InputSet (input config) (Inr ()) \<in> set new"
        using 1 a \<open>v = _\<close> by auto
      show ?case
      proof (cases "is_ok r")
        case True
        with x a show ?thesis
          by (auto simp: step_simps withTrace_def attempts_done_def decides split: option.splits)
      next
        case False
        have next_round: "attempts_done (input config) m y out1 ok out' w' \<Longrightarrow>
            trace y = more @ trace x \<Longrightarrow> InputSet (input config) (Inr ()) \<notin> set more \<Longrightarrow>
            files y (marker_path m) = files x (marker_path m) \<Longrightarrow>
            state_transitions out1 = state_transitions out \<Longrightarrow>
            selects TvScreenRestore out1 = selects TvScreenRestore out \<Longrightarrow>
            attempts_done (input config) m w out ok out' w'" for y out1 ok out' w' more
          using x False by (auto simp: attempts_done_def marker_exists_def)
        show ?thesis using False a x u
          by (auto simp: Let_def withTrace_def wp_rules say_defs send_wake_packet_def tv_calls decides
              undisturbed_sleep split: option.splits sum.splits
              intro!: wp_mono [OF Cons.IH] elim!: next_round)
      qed
    qed simp
  qed auto
qed

definition gave_up :: "HdmiInput \<Rightarrow> ScreenOwnershipMarker \<Rightarrow> world \<Rightarrow> RunError \<Rightarrow> world \<Rightarrow> bool" where
  "gave_up i m w e w' \<longleftrightarrow> (\<forall>msg. e = Run_Policy msg \<longrightarrow>
     marker_exists m w' = marker_exists m w \<and>
     (\<exists>new. trace w' = new @ trace w \<and> InputSet i (Inr ()) \<notin> set new))"

lemma gave_up_io: "gave_up i m w (Run_Io e) w'"
  by (simp add: gave_up_def)

lemma full_wake_spec:
  assumes u: "undisturbed env (marker_path m)"
  shows "wp (execute_screen_on_full_wake env config m b out tr)
     (\<lambda>(out', _). attempts_done (input config) m w out True out')
     (\<lambda>(e, _). gave_up (input config) m w e) w"
proof -
  have wake: "wp (withTrace tr (send_wake_packet env PREFIX_ON ip mac out0))
      (\<lambda>out1 v. state_transitions out1 = state_transitions out0 \<and>
         selects TvScreenRestore out1 = selects TvScreenRestore out0 \<and> files v = files w0 \<and>
         (\<exists>new. trace v = new @ trace w0 \<and> InputSet (input config) (Inr ()) \<notin> set new))
      (\<lambda>(e, _) _. \<exists>io. e = Run_Io io) w0" for ip mac out0 w0
    by (auto simp: withTrace_def send_wake_packet_def say_defs tv_calls wp_rules split: option.splits sum.splits)
  have said: "wp (withTrace tr' (say env msg)) (\<lambda>_ v. v = emit (Wrote msg) w0)
      (\<lambda>(e, _). gave_up (input config) m w e) w0" for tr' msg w0
    by (auto simp: withTrace_def say_defs wp_rules gave_up_io split: option.splits)
  show ?thesis
    unfolding execute_screen_on_full_wake_def
  proof (rule wp_thenI [OF said], rule wp_thenI [OF said], rule wp_bindI [OF wake], goal_cases)
    case (1 _ v1 _ v2 out1 v3)
    then obtain new where v3: "trace v3 = new @ trace w" "InputSet (input config) (Inr ()) \<notin> set new"
        "files v3 = files w" "state_transitions out1 = state_transitions out"
        "selects TvScreenRestore out1 = selects TvScreenRestore out"
      by (auto simp: decides)
    let ?v4 = "sleep_world env (screen_on_initial_wake_delay env) v3"
    have v4: "marker_exists m ?v4 = marker_exists m w"
      using v3 u by (simp add: marker_exists_def undisturbed_sleep)
    show ?case
      unfolding wp_thenE wp_sleepE
    proof (rule wp_bindI [OF wake_attempts_spec [OF u]], goal_cases)
      case (1 a v5)
      obtain ok out2 tr' where a: "a = (ok, out2, tr')" by (cases a) auto
      have "attempts_done (input config) m w out ok out2 v5"
        using 1 a v3 v4 by (auto simp: attempts_done_def)
      then show ?case using a
        by (auto simp: wp_rules withTrace_def say_defs apply_screen_state_transitions_def apply_transition_def
            decides attempts_done_def gave_up_def marker_exists_def split: option.splits)
    qed (auto simp: gave_up_io)
  qed (auto simp: gave_up_io)
qed

definition on_good :: "HdmiInput \<Rightarrow> ScreenOwnershipMarker \<Rightarrow> world \<Rightarrow> PolicyOutcome \<Rightarrow> world \<Rightarrow> bool" where
  "on_good i m w out w' \<longleftrightarrow> tracks m w out w' \<and>
     (\<exists>new. trace w' = new @ trace w \<and>
        (if selects TvScreenRestore out
         then \<not> marker_exists m w' \<and> (Unblanked (Inr ()) \<in> set new \<or> InputSet i (Inr ()) \<in> set new)
         else list_all quiet_effect new))"

lemma render_if_failed_spec:
  "wp (render_if_failed env tr event config b c) (\<lambda>_. quiet w) (\<lambda>e w'. quiet w w' \<and> (\<exists>io. e = Run_Io io)) w"
  by (auto simp: render_if_failed_def say_defs wp_rules quiet_def ext.R_refl extends_def split: option.splits)

lemma on_good_quiet: "on_good i m w out v \<Longrightarrow> quiet v v' \<Longrightarrow> on_good i m w out v'"
  by (auto simp: on_good_def quiet_def extends_def tracks_def marker_exists_def)

lemma gave_up_quiet: "gave_up i m w e v \<Longrightarrow> quiet v v' \<Longrightarrow> gave_up i m w e v'"
  by (fastforce simp: gave_up_def quiet_def extends_def marker_exists_def list_all_iff)

lemma execute_unblank_spec:
  "wp (execute_screen_on_unblank env m out tr)
     (\<lambda>(ok, out', tr') w'. selects TvScreenRestore out' = selects TvScreenRestore out \<and>
        state_transitions out' = state_transitions out @ (if ok then [clear_session_marker RestoreCompleted] else []) \<and>
        marker_exists m w' = (if ok then False else marker_exists m w) \<and>
        (\<exists>new. trace w' = new @ trace w \<and> (ok \<longleftrightarrow> Unblanked (Inr ()) \<in> set new) \<and>
           InputSet i (Inr ()) \<notin> set new))
     (\<lambda>e _. \<exists>io. e = Run_Io io) w"
proof (cases "tv_unblank_screen env (trace w)")
  case (Inl e)
  then show ?thesis
    by (auto simp: execute_screen_on_unblank_def step_simps trace_record_def
        decide_screen_on_after_unblank_def)
next
  case (Inr u)
  then show ?thesis
    by (auto simp: execute_screen_on_unblank_def step_simps trace_record_def
        decide_screen_on_after_unblank_def split: option.splits)
qed

lemma render_start_spec:
  "wp (render_screen_on_start_decision env config b d) (\<lambda>_. quiet w) (\<lambda>e w'. \<exists>io. e = Run_Io io) w"
  by (auto simp: render_screen_on_start_decision_def say_defs wp_rules quiet_def extends_def split: option.splits)

text \<open>The part of the handler after a failed direct unblank.\<close>

lemma on_fallback_good:
  assumes u: "undisturbed env (marker_path m)"
    and v: "marker_exists m v = marker_exists m w" "trace v = new @ trace w"
      "InputSet (input config) (Inr ()) \<notin> set new"
    and out: "state_transitions out = []" "selects TvScreenRestore out"
  shows "wp (bindE (tryE (execute_screen_on_full_wake env config m b out tr)) (\<lambda>fallback_result.
       let tr2 = (case fallback_result of Inl (_, t) \<Rightarrow> t | Inr (_, t) \<Rightarrow> t) in
       bindE (getsE (marker_exists m)) (\<lambda>marker_after_restore.
       thenE (render_if_failed env tr2 event config c marker_after_restore)
         (case fallback_result of Inl (e, _) \<Rightarrow> raiseE e | Inr (out3, _) \<Rightarrow> returnE out3))))
     (\<lambda>out. on_good (input config) m w out) (\<lambda>e. gave_up (input config) m w e) v"
proof -
  have ok: "attempts_done (input config) m v out True out' x \<Longrightarrow> on_good (input config) m w out' x" for out' x
    using v out by (auto simp: attempts_done_def on_good_def tracks_def marker_reasons)
  have bad: "gave_up (input config) m v e x \<Longrightarrow> gave_up (input config) m w e x" for e x
    using v by (auto simp: gave_up_def)
  show ?thesis
    unfolding wp_bindE wp_tryE
  proof (rule wp_mono [OF full_wake_spec [OF u]], goal_cases)
    case (1 a x)
    obtain out3 t where a: "a = (out3, t)" by force
    show ?case using 1 a
      by (auto simp: Let_def wp_rules intro!: wp_mono [OF render_if_failed_spec] dest!: ok
          intro: on_good_quiet gave_up_io)
  next
    case (2 a x)
    obtain e t where a: "a = (e, t)" by force
    show ?case using 2 a
      by (auto simp: Let_def wp_rules intro!: wp_mono [OF render_if_failed_spec] dest!: bad
          intro: gave_up_quiet gave_up_io)
  qed
qed

lemma screen_on_good:
  assumes u: "undisturbed env (marker_path m)"
  shows "wp (run_screen_on_with_outcome_for_event env config m sm event)
     (\<lambda>out. on_good (input config) m w out) (\<lambda>e. gave_up (input config) m w e) w"
  unfolding run_screen_on_with_outcome_for_event_def
proof (rule wp_bindI [OF eligibility_spec], goal_cases)
  case (1 a v)
  then obtain eligible out where a: "a = (eligible, out)" "quiet w v" "state_transitions out = []" "actions out = []"
    by (cases a) auto
  have q: "quiet w v' \<Longrightarrow> state_transitions out' = [] \<Longrightarrow> \<not> selects TvScreenRestore out' \<Longrightarrow>
      on_good (input config) m w out' v'" for out' v'
    by (auto simp: on_good_def tracks_def quiet_def extends_def marker_exists_def)
  show ?case
  proof (cases "eligible")
    case False
    with a q show ?thesis by (auto simp: wp_rules selects_def)
  next
    case True
    show ?thesis
      apply (simp only: a(1) prod.case True not_True_eq_False if_False wp_bindE wp_getsE Let_def)
    proof (rule wp_thenI [OF render_start_spec], goal_cases)
      case (1 _ x)
      let ?b = "marker_exists m v"
      have x: "quiet w x" using 1 a(2) by (blast intro: qt.R_trans)
      show ?case
      proof (cases "\<not> ?b \<and> screen_restore_policy config \<noteq> Aggressive")
        case True
        then show ?thesis using x a q by (auto simp: wp_rules selects_def decides)
      next
        case False
        then have d: "next (decide_screen_on_start (screen_restore_policy config) ?b) = Unblank" by auto
        let ?out1 = "merge out (outcome (decide_screen_on_start (screen_restore_policy config) ?b))"
        have out1: "selects TvScreenRestore ?out1" "state_transitions ?out1 = []" using False a by auto
        obtain pre where pre: "trace x = pre @ trace w" "InputSet (input config) (Inr ()) \<notin> set pre"
          using x by (fastforce simp: quiet_def extends_def list_all_iff)
        have mx: "marker_exists m x = marker_exists m w" using x by (simp add: quiet_def marker_exists_def)
        show ?thesis
          apply (simp only: d ScreenOnNext.distinct simp_thms if_False if_True restore_trace_new_def wp_bindE wp_getsE)
        proof (rule wp_mono [OF execute_unblank_spec [where i = "input config"]], goal_cases)
          case (1 r y)
          obtain ok out2 tr1 where r: "r = (ok, out2, tr1)" by (cases r) auto
          show ?case
          proof (cases ok)
            case True
            have "on_good (input config) m w out2 y"
              using 1 r True out1 pre by (auto simp: on_good_def tracks_def marker_reasons)
            with r True show ?thesis
              by (auto simp: wp_rules intro!: wp_mono [OF render_if_failed_spec] intro: on_good_quiet gave_up_io)
          next
            case False
            obtain new where "trace y = (new @ pre) @ trace w" "InputSet (input config) (Inr ()) \<notin> set (new @ pre)"
              using 1 r pre by auto
            with False 1 r out1 mx show ?thesis
              using on_fallback_good [OF u, where v = y and w = w and out = out2 and new = "new @ pre",
                  unfolded Let_def]
              by simp
          qed
        qed (auto simp: gave_up_io)
      qed
    qed (auto simp: gave_up_io)
  qed
qed (fastforce simp: gave_up_def quiet_def extends_def list_all_iff marker_exists_def)

section \<open>Effort\<close>

lemma stays_apply_screen:
  assumes "\<And>p. P (MarkerCreated p)" "\<And>p. P (FileRemoved p)"
  shows "stays (extends P) (apply_screen_state_transitions env m out)"
  unfolding apply_screen_state_transitions_def apply_transition_def
  by (auto intro!: extends_rules stays_marker_ops assms split: StateTransition.splits)

context tv_effort
begin

lemma spends_apply_screen: "spends g 0 (apply_screen_state_transitions env m out)"
  by (rule spends_free) (simp add: stays_apply_screen)

lemma spends_eligibility: "spends g 0 (apply_screen_action_eligibility env prefix config event sm out)"
  unfolding apply_screen_action_eligibility_def
  by (rule spends_free)
     (auto intro!: extends_rules stays_if simp: Let_def
       split: ScreenEligibilityNext.splits ScreenActionBlockReason.splits)

lemma spends_render: "spends g 0 (render_if_failed env tr event config b c)"
  unfolding render_if_failed_def by (rule spends_free) (auto intro!: extends_rules)

lemma spends_render_start: "spends g 0 (render_screen_on_start_decision env config b d)"
  unfolding render_screen_on_start_decision_def by (rule spends_free) (auto intro!: extends_rules)

lemma spends_record: "spends g 0 (trace_record env tr op r)"
  by (simp add: trace_record_def spends_none)

lemma spends_unblank_step: "spends g unblank_cost (execute_screen_on_unblank env m out tr)"
  unfolding execute_screen_on_unblank_def Let_def
  by (intro spends_bind_last [OF spends_tryE [OF spends_unblank]] spends_bind_first [OF spends_record]
        spends_then_first [OF spends_apply_screen] spends_then_first)
     (auto intro: spends_say spends_none split: ScreenOnUnblankObservation.splits)

lemma spends_attempt:
  "spends g (set_cost + (unblank_cost + set_cost)) (attempt_input_restore env i n tr)"
proof -
  have inner: "spends g (unblank_cost + set_cost)
      (bindE (tryE (screen_unblank env)) (\<lambda>u. bindE (trace_record env t op u) (\<lambda>t'.
        case u of Inl e \<Rightarrow> returnE (Inl e, t')
        | Inr _ \<Rightarrow> bindE (tryE (input_set env i)) (\<lambda>r. bindE (trace_record env t' op' r) (\<lambda>t''. returnE (r, t''))))))"
    for t op op'
    by (intro spends_bindE spends_tryE spends_unblank spends_bind_first [OF spends_record])
       (auto split: sum.splits intro!: spends_nothing spends_bind_last [OF spends_tryE [OF spends_input_set]]
         spends_bind_first [OF spends_record])
  show ?thesis
    unfolding attempt_input_restore_def
    by (rule spends_bindE [OF spends_tryE [OF spends_input_set]], rule spends_bind_first [OF spends_record])
       (auto split: sum.splits intro: inner spends_nothing)
qed

lemma spends_send_wake: "spends g wake_cost (send_wake_packet env prefix ip mac out)"
  unfolding send_wake_packet_def
  by (rule spends_bind_last [OF spends_tryE [OF spends_wake]])
     (auto split: sum.splits intro!: spends_nothing spends_then_first [OF spends_say])

definition round_cost :: "environment \<Rightarrow> nat \<Rightarrow> nat" where
  "round_cost env n = set_cost + (unblank_cost + set_cost) + (wake_cost + sleep_cost (screen_on_retry_delay env n))"

lemma spends_attempts:
  "spends g (\<Sum>n\<leftarrow>ns. round_cost env n) (screen_on_wake_attempts env config m ns out tr)"
proof (induction ns arbitrary: out tr)
  case (Cons n ns)
  have fail: "spends g (wake_cost + (sleep_cost (screen_on_retry_delay env n) + (\<Sum>n\<leftarrow>ns. round_cost env n)))
      (thenE (withTrace t (say env msg))
         (bindE (withTrace t (send_wake_packet env PREFIX_ON ip mac out1))
           (\<lambda>out2. thenE (sleepE env (screen_on_retry_delay env n)) (screen_on_wake_attempts env config m ns out2 t))))"
    for t msg ip mac out1
    unfolding withTrace_def
    by (intro spends_then_first [OF spends_mapErrE [OF spends_say]] spends_bindE spends_thenE
          spends_mapErrE spends_send_wake spends_sleep Cons.IH)
  have ok: "spends g 0 (thenE (withTrace t (apply_screen_state_transitions env m out1))
      (thenE (withTrace t (say env msg)) (returnE x)))" for t out1 msg and x :: "bool \<times> PolicyOutcome \<times> ScreenRestoreTrace"
    unfolding withTrace_def
    by (intro spends_then_first spends_mapErrE spends_apply_screen spends_say spends_none)
  have "spends g (0 + ((set_cost + (unblank_cost + set_cost)) +
      (wake_cost + (sleep_cost (screen_on_retry_delay env n) + (\<Sum>n\<leftarrow>ns. round_cost env n)))))
      (screen_on_wake_attempts env config m (n # ns) out tr)"
    unfolding screen_on_wake_attempts.simps
    by (intro spends_thenE spends_bindE spends_attempt)
       (auto simp: withTrace_def spends_mapErrE spends_say Let_def intro: fail [unfolded withTrace_def]
         spends_mono [OF ok [unfolded withTrace_def]])
  then show ?case by (simp add: round_cost_def add_ac)
qed (simp add: spends_none)

lemma spends_screen_on_from_wake:
  assumes wake: "\<And>b out tr. spends g k (execute_screen_on_full_wake env config m b out tr)"
  shows "spends g (unblank_cost + k) (run_screen_on_with_outcome_for_event env config m sm event)"
  unfolding run_screen_on_with_outcome_for_event_def Let_def restore_trace_new_def
  by (intro spends_bind_first [OF spends_eligibility])
     (auto split: prod.splits sum.splits
       intro!: spends_nothing spends_bind_first [OF spends_none(3)] spends_then_first [OF spends_render_start]
         spends_then_first [OF spends_render] spends_bindE spends_bind_last [OF spends_tryE [OF wake]]
         spends_unblank_step spends_none)

lemma spends_screen_on:
  "spends g (unblank_cost + (wake_cost + (sleep_cost (screen_on_initial_wake_delay env) +
       ((\<Sum>n\<leftarrow>[1..<Suc SCREEN_ON_WAKE_ATTEMPTS]. round_cost env n) + 0))))
     (run_screen_on_with_outcome_for_event env config m sm event)"
proof (rule spends_screen_on_from_wake)
  fix b out tr
  show "spends g (wake_cost + (sleep_cost (screen_on_initial_wake_delay env) +
      ((\<Sum>n\<leftarrow>[1..<Suc SCREEN_ON_WAKE_ATTEMPTS]. round_cost env n) + 0)))
      (execute_screen_on_full_wake env config m b out tr)"
    unfolding execute_screen_on_full_wake_def withTrace_def
    by (intro spends_then_first [OF spends_mapErrE [OF spends_say]] spends_bindE spends_thenE spends_mapErrE
          spends_send_wake spends_sleep spends_attempts)
       (auto intro!: spends_nothing
          spends_then_first [OF spends_mapErrE [OF spends_say]]
          spends_then_first [OF spends_mapErrE [OF spends_apply_screen]] split: prod.splits)
qed

end

section \<open>Properties\<close>

lemma blocked_quiet:
  assumes "lifecycle_owns env config event sm w"
  shows "wp (bindE (apply_screen_action_eligibility env prefix config event sm out)
           (\<lambda>(eligible, out'). if \<not> eligible then returnE (f out') else n out'))
         (\<lambda>_. quiet w) (\<lambda>_. quiet w) w"
  by (rule wp_bindI [OF eligibility_spec]) (use assms in \<open>auto simp: wp_rules\<close>)

lemma wp_quietD: "wp m (\<lambda>_. quiet w) (\<lambda>_. quiet w) w \<Longrightarrow> quiet w (snd (m w))"
  by (cases "m w"; cases "fst (m w)") (auto simp: wp_def)

text \<open>
  C1. The session marker always has a reason. Whatever the TV, the file system and the log writer
  do, and on every way out, each marker creation of the three session handlers comes directly
  after a blank or power-off the TV accepted, each removal directly after an unblank or input
  write the TV accepted or after reading that the TV is on another input, both are of the
  session's own marker, no other file is written, and no lock is gained or lost.
\<close>

theorem session_marker_justified:
  "session_step (input config) (marker_path m) w
     (snd (run_screen_off_with_result_for_event env config m sm event w)) \<and>
   session_step (input config) (marker_path m) w
     (snd (run_timed_power_off_with_event env config m sm event w)) \<and>
   session_step (input config) (marker_path m) w
     (snd (run_screen_on_with_outcome_for_event env config m sm event w))"
  using session_screen_off session_timed session_screen_on by (metis stays_def)

lemma session_silenced:
  assumes "lifecycle_owns env config event sm w"
  shows off_silenced: "quiet w (snd (run_screen_off_with_result_for_event env config m sm event w))"
    and on_silenced: "quiet w (snd (run_screen_on_with_outcome_for_event env config m sm event w))"
    and timed_silenced: "quiet w (snd (run_timed_power_off_with_event env config m sm event w))"
proof -
  show "quiet w (snd (run_screen_off_with_result_for_event env config m sm event w))"
    unfolding run_screen_off_with_result_for_event_def
    using blocked_quiet [OF assms, where f = "\<lambda>out. off_result out False"] by (rule wp_quietD)
  show "quiet w (snd (run_screen_on_with_outcome_for_event env config m sm event w))"
    unfolding run_screen_on_with_outcome_for_event_def
    using blocked_quiet [OF assms, where f = "\<lambda>out. out"] by (rule wp_quietD)
  show "quiet w (snd (run_timed_power_off_with_event env config m sm event w))"
  proof (cases "is_enabled (screen_idle_blank config)")
    case True
    then have nn: "\<not> \<not> is_enabled (screen_idle_blank config)" by simp
    show ?thesis
      unfolding run_timed_power_off_with_event_def if_not_P [OF nn]
      using blocked_quiet [OF assms, where f = "\<lambda>out. out"] by (rule wp_quietD)
  next
    case False
    then have "wp (run_timed_power_off_with_event env config m sm event) (\<lambda>_. quiet w) (\<lambda>_. quiet w) w"
      by (auto simp: run_timed_power_off_with_event_def wp_rules qt.R_refl quiet_emit intro!: wp_mono [OF wp_say])
    then show ?thesis by (rule wp_quietD)
  qed
qed

text \<open>
  C29. While the lifecycle service owns the TV (sleep handling enabled, the event from the session,
  and logind preparing for sleep or the system marker present), the session handlers are silent:
  no TV command, no input query, no wake packet, no file or lock change, only the phase read and
  a log line.
\<close>

theorem lifecycle_ownership_silences_session:
  assumes "lifecycle_owns env config event sm w"
  shows "quiet w (snd (run_screen_off_with_result_for_event env config m sm event w)) \<and>
         quiet w (snd (run_screen_on_with_outcome_for_event env config m sm event w)) \<and>
         quiet w (snd (run_timed_power_off_with_event env config m sm event w))"
  using session_silenced [OF assms] by blast


definition example_marker :: ScreenOwnershipMarker where
  "example_marker = ScreenOwnershipMarker ''/run/user/1000/lg_buddy/screen_off_by_us''"

definition example_system_marker :: ScreenOwnershipMarker where
  "example_system_marker = ScreenOwnershipMarker ''/run/lg_buddy/screen_off_by_us''"

lemma example_markers [simp]:
  "(marker_path example_marker = marker_path example_system_marker) = False"
  "(marker_path example_system_marker = marker_path example_marker) = False"
  by (simp_all add: example_marker_def example_system_marker_def)

theorem lifecycle_ownership_silences_session_witness:
  "quiet fresh_world
     (snd (run_screen_off_with_result_for_event (calm\<lparr>phase_provider := \<lambda>_. Pending\<rparr>) example_config
        example_marker example_system_marker (runtime_event DesktopSession SessionIdle) fresh_world))"
proof -
  have "lifecycle_owns (calm\<lparr>phase_provider := \<lambda>_. Pending\<rparr>) example_config
      (runtime_event DesktopSession SessionIdle) example_system_marker fresh_world"
    by (simp add: lifecycle_owns_def is_session_screen_source_def runtime_event_def is_enabled_def)
  then show ?thesis using lifecycle_ownership_silences_session by blast
qed

text \<open>
  Blanking tells the truth. When the screen-off handler returns, the marker is present exactly
  if the transitions in its trail say so, it reports a successful blank exactly when the TV
  accepted a blank command during the call, and then the marker is set; an error leaves every
  other file and every lock alone.
\<close>

theorem screen_off_truthful:
  assumes "run_screen_off_with_result_for_event env config m sm event w = (r, w')"
  shows "only_marker m w w' \<and>
    (case r of
       Inl e \<Rightarrow> True
     | Inr res \<Rightarrow>
         marker_exists m w' =
           marker_after SessionScreenOwnership (marker_exists m w) (state_transitions (off_outcome res)) \<and>
         (blank_succeeded res \<longleftrightarrow> Blanked (Inr ()) \<in> set (since w w')) \<and>
         (blank_succeeded res \<longrightarrow> marker_exists m w'))"
  using wp_result [OF screen_off_good assms]
  by (auto simp: off_good_def tracks_def since_eq split: sum.splits)

theorem screen_off_truthful_witness:
  "\<exists>res w'. run_screen_off_with_result_for_event calm example_config example_marker example_system_marker
       (runtime_event DesktopSession SessionIdle) fresh_world = (Inr res, w') \<and>
     blank_succeeded res \<and> marker_exists example_marker w'"
proof -
  let ?run = "run_screen_off_with_result_for_event calm example_config example_marker example_system_marker
       (runtime_event DesktopSession SessionIdle)"
  have "wp ?run (\<lambda>res _. blank_succeeded res) (\<lambda>_ _. False) fresh_world"
    by (simp add: run_screen_off_with_result_for_event_def apply_screen_action_eligibility_def
        runtime_event_def is_session_screen_source_def is_enabled_def decides execute_screen_blank_def
        render_screen_off_input_decision_def apply_simps say_def tv_calls Let_def marker_exists_def)
  then obtain res w' where r: "?run fresh_world = (Inr res, w')" "blank_succeeded res"
    by (auto simp: wp_def split: prod.splits sum.splits)
  then show ?thesis using screen_off_truthful [OF r(1)] by auto
qed

text \<open>
  C9. Timed power-off is never blind: a power-off command is sent only if timed blanking is
  enabled, the lifecycle service does not own the TV, the session marker is present, and the TV
  answered during this very call that it is on the configured input; and the marker is still
  there afterwards, whatever the TV answered to the command.
\<close>

theorem timed_power_off_never_blind:
  assumes "run_timed_power_off_with_event env config m sm event w = (res, w')"
    and "PoweredOff r \<in> set (since w w')"
  shows "is_enabled (screen_idle_blank config) \<and> \<not> lifecycle_owns env config event sm w \<and>
         marker_exists m w \<and> marker_exists m w' \<and>
         CurrentInputRead (Inr (Hdmi (input config))) \<in> set (since w w')"
proof -
  have "timed_safe env config event m sm w w'"
    using wp_result [OF timed_power_off_good assms(1)] by (auto split: sum.splits)
  with assms(2) show ?thesis by (auto simp: timed_safe_def since_eq)
qed

definition blanked_world :: world where
  "blanked_world = fresh_world\<lparr>files := (\<lambda>_. None)(marker_path example_marker \<mapsto> [])\<rparr>"

lemma blanked_world_fields [simp]:
  "trace blanked_world = []" "locks blanked_world q = None"
  "files blanked_world q = (if q = marker_path example_marker then Some [] else None)"
  by (simp_all add: blanked_world_def)

theorem timed_power_off_never_blind_witness:
  "\<exists>res w'. run_timed_power_off_with_event calm example_config example_marker example_system_marker
       (runtime_event DesktopSession SessionTimedPowerOff) blanked_world = (res, w') \<and>
     PoweredOff (Inr ()) \<in> set (since blanked_world w') \<and> marker_exists example_marker w'"
proof -
  let ?run = "run_timed_power_off_with_event calm example_config example_marker example_system_marker
       (runtime_event DesktopSession SessionTimedPowerOff)"
  have "wp ?run (\<lambda>_ w'. PoweredOff (Inr ()) \<in> set (trace w')) (\<lambda>_ _. False) blanked_world"
    by (simp add: run_timed_power_off_with_event_def apply_screen_action_eligibility_def
        runtime_event_def is_session_screen_source_def is_enabled_def decides
        apply_simps say_def tv_calls Let_def marker_exists_def)
  then obtain res w' where r: "?run blanked_world = (res, w')" "PoweredOff (Inr ()) \<in> set (trace w')"
    by (auto simp: wp_def split: prod.splits sum.splits)
  from r(2) have "PoweredOff (Inr ()) \<in> set (since blanked_world w')"
    by (simp add: since_def)
  then show ?thesis using timed_power_off_never_blind [OF r(1)] r(1) by blast
qed

text \<open>
  C28. Restoring either ends visible or keeps the claim. If no other process touches the marker
  while the handler sleeps: when it returns normally its trail is true of the marker, and if a
  restore was selected the marker is gone and the TV accepted an unblank or the configured input
  during the call, while if none was selected nothing was sent to the TV; when it gives up with
  a policy error the marker is as before and no input write was accepted.
\<close>

theorem screen_on_visible_or_marker_kept:
  assumes "undisturbed env (marker_path m)"
    and "run_screen_on_with_outcome_for_event env config m sm event w = (r, w')"
  shows "case r of
      Inr out \<Rightarrow>
        marker_exists m w' = marker_after SessionScreenOwnership (marker_exists m w) (state_transitions out) \<and>
        (if selects TvScreenRestore out
         then \<not> marker_exists m w' \<and>
              (Unblanked (Inr ()) \<in> set (since w w') \<or> InputSet (input config) (Inr ()) \<in> set (since w w'))
         else list_all quiet_effect (since w w'))
    | Inl (Run_Policy msg) \<Rightarrow>
        marker_exists m w' = marker_exists m w \<and> InputSet (input config) (Inr ()) \<notin> set (since w w')
    | Inl e \<Rightarrow> True"
  using wp_result [OF screen_on_good [OF assms(1)] assms(2)]
  by (auto simp: on_good_def gave_up_def tracks_def since_eq split: sum.splits RunError.splits if_splits)

theorem screen_on_visible_or_marker_kept_witness:
  "\<exists>out w'. run_screen_on_with_outcome_for_event calm example_config example_marker example_system_marker
       (runtime_event DesktopSession SessionActive) blanked_world = (Inr out, w') \<and>
     selects TvScreenRestore out \<and> \<not> marker_exists example_marker w'"
proof -
  let ?run = "run_screen_on_with_outcome_for_event calm example_config example_marker example_system_marker
       (runtime_event DesktopSession SessionActive)"
  have "wp ?run (\<lambda>out _. selects TvScreenRestore out) (\<lambda>_ _. False) blanked_world"
    by (simp add: run_screen_on_with_outcome_for_event_def apply_screen_action_eligibility_def
        runtime_event_def is_session_screen_source_def is_enabled_def decides execute_screen_on_unblank_def
        render_screen_on_start_decision_def restore_trace_new_def trace_record_def render_if_failed_def
        apply_simps say_def tv_calls Let_def marker_exists_def)
  then obtain out w' where r: "?run blanked_world = (Inr out, w')" "selects TvScreenRestore out"
    by (auto simp: wp_def split: prod.splits sum.splits)
  have "undisturbed calm (marker_path example_marker)" by (simp add: undisturbed_def)
  from screen_on_visible_or_marker_kept [OF this r(1)] r show ?thesis by auto
qed

lemma wake_rounds: "[1..<Suc SCREEN_ON_WAKE_ATTEMPTS] = [1, 2, 3, 4, 5, 6]"
  by (simp add: SCREEN_ON_WAKE_ATTEMPTS_def upt_rec)

lemmas round_costs = sets.round_cost_def wakes.round_cost_def unbl.round_cost_def slp.round_cost_def wake_rounds

text \<open>
  C36. A restore has bounded effort and always returns: at most 12 input writes (two per attempt),
  7 wake packets and 7 unblanks, and it sleeps at most the initial delay plus the six retry
  delays, which without the override variables is 48 seconds.
\<close>

theorem screen_on_bounded_effort:
  assumes "run_screen_on_with_outcome_for_event env config m sm event w = (r, w')"
  shows "weight input_sets (since w w') \<le> 12 \<and> weight wake_packets (since w w') \<le> 7 \<and>
         weight unblanks (since w w') \<le> 7 \<and>
         weight slept (since w w') \<le> screen_on_initial_wake_delay env +
           (\<Sum>n\<leftarrow>[1, 2, 3, 4, 5, 6]. screen_on_retry_delay env n) \<and>
         (env_var env = (\<lambda>_. None) \<longrightarrow> weight slept (since w w') \<le> from_secs 48)"
proof -
  have d: "env_var env = (\<lambda>_. None) \<Longrightarrow> screen_on_initial_wake_delay env +
      (\<Sum>n\<leftarrow>[1, 2, 3, 4, 5, 6]. screen_on_retry_delay env n) = from_secs 48"
    by (simp add: screen_on_initial_wake_delay_def screen_on_retry_delay_def duration_override_secs_def
        SCREEN_ON_INITIAL_WAKE_DELAY_def from_secs_def)
  show ?thesis
    using d spends_since [OF sets.spends_screen_on assms, unfolded round_costs]
      spends_since [OF wakes.spends_screen_on assms, unfolded round_costs]
      spends_since [OF unbl.spends_screen_on assms, unfolded round_costs]
      spends_since [OF slp.spends_screen_on assms, unfolded round_costs]
    by (cases "env_var env = (\<lambda>_. None)") simp_all
qed

theorem screen_on_bounded_effort_witness:
  "weight slept (since blanked_world
     (snd (run_screen_on_with_outcome_for_event calm example_config example_marker example_system_marker
       (runtime_event DesktopSession SessionActive) blanked_world))) \<le> from_secs 48"
  using screen_on_bounded_effort [OF surjective_pairing] by (simp add: fun_eq_iff)

end
