(* ===== verification/Lifecycle_Policy.thy ===== *)
theory Lifecycle_Policy
  imports State
begin

text \<open>
  The pure half of \<open>lifecycle.rs\<close>: the lifecycle events and the decisions about startup, resume,
  shutdown, system sleep and network teardown, with the log lines and delays the handlers use.
\<close>

section \<open>Constants and events\<close>

definition STARTUP_INITIAL_WAKE_DELAY :: duration where "STARTUP_INITIAL_WAKE_DELAY = from_secs 6"
definition STARTUP_WAKE_ATTEMPTS :: nat where "STARTUP_WAKE_ATTEMPTS = 6"
definition TV_ROUTE_WAIT_ATTEMPTS :: nat where "TV_ROUTE_WAIT_ATTEMPTS = 60"
definition TV_ROUTE_WAIT_DELAY :: duration where "TV_ROUTE_WAIT_DELAY = from_millis 500"
definition SYSTEM_PRE_SLEEP_GET_INPUT_RETRIES :: nat where "SYSTEM_PRE_SLEEP_GET_INPUT_RETRIES = 0"
definition SYSTEM_PRE_SLEEP_POWER_OFF_ATTEMPTS :: nat where "SYSTEM_PRE_SLEEP_POWER_OFF_ATTEMPTS = 1"
definition SYSTEM_SLEEP_GET_INPUT_RETRIES :: nat where "SYSTEM_SLEEP_GET_INPUT_RETRIES = 3"
definition SYSTEM_SLEEP_POWER_OFF_RETRIES :: nat where "SYSTEM_SLEEP_POWER_OFF_RETRIES = 4"
definition SYSTEM_SLEEP_RAIL_DEADLINE :: duration where "SYSTEM_SLEEP_RAIL_DEADLINE = from_secs 4"
definition SYSTEM_SLEEP_RAIL_WAIT_POLL :: duration where "SYSTEM_SLEEP_RAIL_WAIT_POLL = from_millis 50"

record 'n LifecyclePolicyDecision =
  step :: 'n
  policy :: PolicyOutcome

definition lifecycle_decision :: "'n \<Rightarrow> PolicyOutcome \<Rightarrow> 'n LifecyclePolicyDecision" where
  "lifecycle_decision n out = \<lparr>step = n, policy = out\<rparr>"

lemma lifecycle_decision_fields [simp]:
  "step (lifecycle_decision n out) = n" "policy (lifecycle_decision n out) = out"
  by (simp_all add: lifecycle_decision_def)

datatype StartupRoute = ColdBoot | SystemResume
datatype RestoreNext = Restore | RestoreStop
datatype ShutdownNext = QueryInput | ShutdownPowerOff | ShutdownStop
datatype RebootObservation = RebootPending | RebootNotPending | RebootUnknown string
datatype TvInputObservation = InputCurrent CurrentInput | InputUnknown string
datatype SystemSleepNext = SleepPowerOff | SleepStop
datatype SystemSleepPowerOffContext = KnownInput | FallbackAfterInputQueryFailure bool
datatype SystemSleepAttemptNext = AttemptContinue | AttemptStop
datatype SuspendRailDisposition = OwnerCompleted | JoinedInProgress | DuplicateCompleted | RetryableFailure
datatype SystemSleepCycleObservation = CycleCompleted | CycleRetryable | CycleInProgress
datatype NetworkTeardownNext = AttemptPreSleep | ClearAttempt | TeardownStop

record NetworkTeardownPolicyInput =
  policy_enabled :: bool
  sleep_pending :: "bool option"
  phase_read_error :: "string option"

datatype LifecycleEvent =
    LifecycleStartup StartupMode
  | ShutdownRequested
  | LifecycleNetworkTeardown "bool option"
  | LifecyclePreparingForSleep
  | LifecycleResumed

fun lifecycle_event_of_kind :: "RuntimeEventKind \<Rightarrow> LifecycleEvent option" where
  "lifecycle_event_of_kind (MachineStartup mode) = Some (LifecycleStartup mode)"
| "lifecycle_event_of_kind MachineShutdownRequested = Some ShutdownRequested"
| "lifecycle_event_of_kind (NetworkTeardownImminent pending) = Some (LifecycleNetworkTeardown pending)"
| "lifecycle_event_of_kind MachinePreparingForSleep = Some LifecyclePreparingForSleep"
| "lifecycle_event_of_kind MachineResumed = Some LifecycleResumed"
| "lifecycle_event_of_kind _ = None"

definition from_runtime_event :: "RuntimeEvent \<Rightarrow> LifecycleEvent option" where
  "from_runtime_event event = lifecycle_event_of_kind (kind event)"

section \<open>Marker transitions\<close>

definition create_system_marker :: "TransitionReasonCode \<Rightarrow> StateTransition" where
  "create_system_marker reason = CreateMarker SystemScreenOwnership (transition_reason reason)"

definition clear_system_marker :: "TransitionReasonCode \<Rightarrow> StateTransition" where
  "clear_system_marker reason = ClearMarker SystemScreenOwnership (transition_reason reason)"

definition clear_system_sleep_attempt_marker :: "TransitionReasonCode \<Rightarrow> StateTransition" where
  "clear_system_sleep_attempt_marker reason = ClearMarker SystemSleepAttempt (transition_reason reason)"

section \<open>Decisions\<close>

definition decide_startup_route :: "StartupMode \<Rightarrow> bool \<Rightarrow> StartupRoute" where
  "decide_startup_route mode marker_present =
     (if mode = StartupWake \<or> mode = StartupAuto \<and> marker_present then SystemResume else ColdBoot)"

definition decide_startup_cold_boot :: PolicyOutcome where
  "decide_startup_cold_boot =
     with_action WakeOnLan (decision_reason ManualRequest)
       (with_action TvStartupRestore (decision_reason ManualRequest)
         (with_state_transition (clear_system_marker StartupBootReason) outcome_new))"

definition select_lifecycle_wake_packet :: "DecisionReasonCode \<Rightarrow> PolicyOutcome" where
  "select_lifecycle_wake_packet reason = with_action WakeOnLan (decision_reason reason) outcome_new"

definition select_lifecycle_input_restore :: "DecisionReasonCode \<Rightarrow> PolicyOutcome" where
  "select_lifecycle_input_restore reason = with_action TvInputRestore (decision_reason reason) outcome_new"

definition restore_is_allowed :: "ScreenRestorePolicy \<Rightarrow> bool \<Rightarrow> bool" where
  "restore_is_allowed p marker_present \<longleftrightarrow> marker_present \<or> p = Aggressive"

definition msg_diag_markerless :: string where
  "msg_diag_markerless = ''aggressive markerless system resume restore''"
definition msg_diag_reboot :: "string \<Rightarrow> string" where
  "msg_diag_reboot e = ''could not determine reboot state: '' @ e"
definition msg_diag_shutdown_query :: string where
  "msg_diag_shutdown_query = ''shutdown input query failed''"
definition msg_diag_shutdown_off :: "string \<Rightarrow> string" where
  "msg_diag_shutdown_off e = ''shutdown power_off failed: '' @ e"
definition msg_diag_sleep_query :: string where
  "msg_diag_sleep_query = ''input query failed before system sleep''"
definition msg_diag_sleep_known :: string where
  "msg_diag_sleep_known = ''power_off failed on known input; state not set''"
definition msg_diag_sleep_preserving :: string where
  "msg_diag_sleep_preserving = ''fallback power_off failed; preserving existing system marker''"
definition msg_diag_sleep_unset :: string where
  "msg_diag_sleep_unset = ''fallback power_off failed after retries; state left unset''"
definition msg_stale_attempt :: string where
  "msg_stale_attempt = ''clear stale legacy sleep-attempt marker before pre-sleep handling''"
definition msg_phase_unknown :: string where
  "msg_phase_unknown = ''sleep phase is unknown''"
definition msg_diag_teardown_open :: "string \<Rightarrow> string" where
  "msg_diag_teardown_open e = ''could not read logind PreparingForSleep; failing open: '' @ e"

definition decide_restore_after_system_sleep_start ::
    "ScreenRestorePolicy \<Rightarrow> bool \<Rightarrow> RestoreNext LifecyclePolicyDecision" where
  "decide_restore_after_system_sleep_start p marker_present =
     (if \<not> restore_is_allowed p marker_present
      then lifecycle_decision RestoreStop (with_no_action (decision_reason MarkerMissing) outcome_new)
      else
        (let out = with_action WakeOnLan (decision_reason RuntimeEventReason)
               (with_action TvSystemResumeRestore (decision_reason RuntimeEventReason) outcome_new) in
         lifecycle_decision Restore
           (if \<not> marker_present then with_diagnostic (diagnostic_info msg_diag_markerless) out else out)))"

definition decide_restore_input_succeeded :: PolicyOutcome where
  "decide_restore_input_succeeded = outcome_new"

definition decide_restore_input_exhausted :: "string \<Rightarrow> PolicyOutcome" where
  "decide_restore_input_exhausted message = with_diagnostic (diagnostic_warning message) outcome_new"

definition decide_system_resume_input_succeeded :: PolicyOutcome where
  "decide_system_resume_input_succeeded =
     with_state_transition (clear_system_marker RestoreCompleted) outcome_new"

definition decide_system_resume_input_exhausted :: "string \<Rightarrow> PolicyOutcome" where
  "decide_system_resume_input_exhausted message =
     with_state_transition (clear_system_marker TrTransportFailure)
       (with_diagnostic (diagnostic_warning message) outcome_new)"

definition decide_shutdown_after_reboot ::
    "RebootObservation \<Rightarrow> ShutdownNext LifecyclePolicyDecision" where
  "decide_shutdown_after_reboot observation =
     (case observation of
        RebootPending \<Rightarrow>
          lifecycle_decision ShutdownStop (with_no_action (decision_reason NotApplicable) outcome_new)
      | RebootNotPending \<Rightarrow> lifecycle_decision QueryInput outcome_new
      | RebootUnknown detail \<Rightarrow>
          lifecycle_decision QueryInput
            (with_diagnostic (diagnostic_warning (msg_diag_reboot detail)) outcome_new))"

definition decide_shutdown_after_input ::
    "HdmiInput \<Rightarrow> TvInputObservation \<Rightarrow> ShutdownNext LifecyclePolicyDecision" where
  "decide_shutdown_after_input configured_input observation =
     (case observation of
        InputCurrent current_input \<Rightarrow>
          if is_hdmi current_input configured_input
          then lifecycle_decision ShutdownPowerOff
                 (with_action TvShutdownPowerOff (decision_reason RuntimeEventReason) outcome_new)
          else lifecycle_decision ShutdownStop
                 (with_no_action (decision_reason_with_detail InputMismatch
                    (msg_input_mismatch current_input configured_input)) outcome_new)
      | InputUnknown _ \<Rightarrow>
          lifecycle_decision ShutdownPowerOff
            (with_action TvShutdownPowerOff (decision_reason TransportFailure)
              (with_diagnostic (diagnostic_warning msg_diag_shutdown_query) outcome_new)))"

definition decide_shutdown_power_off_result :: "TvEffectObservation \<Rightarrow> PolicyOutcome" where
  "decide_shutdown_power_off_result observation =
     (case observation of
        Succeeded \<Rightarrow> outcome_new
      | Failed detail \<Rightarrow> with_diagnostic (diagnostic_warning (msg_diag_shutdown_off detail)) outcome_new)"

definition decide_system_sleep_after_input ::
    "HdmiInput \<Rightarrow> TvInputObservation \<Rightarrow> SystemSleepNext LifecyclePolicyDecision" where
  "decide_system_sleep_after_input configured_input observation =
     (case observation of
        InputCurrent current_input \<Rightarrow>
          if is_hdmi current_input configured_input
          then lifecycle_decision SleepPowerOff
                 (with_action TvSystemSleepPowerOff (decision_reason RuntimeEventReason) outcome_new)
          else lifecycle_decision SleepStop
                 (with_state_transition (clear_system_marker TrInputMismatch)
                   (with_no_action (decision_reason_with_detail InputMismatch
                      (msg_input_mismatch current_input configured_input)) outcome_new))
      | InputUnknown _ \<Rightarrow>
          lifecycle_decision SleepPowerOff
            (with_action TvSystemSleepPowerOff (decision_reason TransportFailure)
              (with_diagnostic (diagnostic_warning msg_diag_sleep_query) outcome_new)))"

fun decide_system_sleep_power_off_result ::
    "TvEffectObservation \<Rightarrow> SystemSleepPowerOffContext \<Rightarrow> PolicyOutcome" where
  "decide_system_sleep_power_off_result Succeeded _ =
     with_state_transition (create_system_marker ActionSelected) outcome_new"
| "decide_system_sleep_power_off_result (Failed _) KnownInput =
     with_diagnostic (diagnostic_warning msg_diag_sleep_known) outcome_new"
| "decide_system_sleep_power_off_result (Failed _) (FallbackAfterInputQueryFailure True) =
     with_diagnostic (diagnostic_warning msg_diag_sleep_preserving)
       (with_state_transition (PreserveMarker SystemScreenOwnership (transition_reason TrOther)) outcome_new)"
| "decide_system_sleep_power_off_result (Failed _) (FallbackAfterInputQueryFailure False) =
     with_diagnostic (diagnostic_warning msg_diag_sleep_unset)
       (with_state_transition (clear_system_marker TrTransportFailure) outcome_new)"

definition decide_system_sleep_attempt_start ::
    "bool \<Rightarrow> SystemSleepAttemptNext LifecyclePolicyDecision" where
  "decide_system_sleep_attempt_start lock_acquired =
     (if \<not> lock_acquired
      then lifecycle_decision AttemptStop
             (with_state_transition
                (PreserveMarker SystemSleepAttempt (transition_reason TrDuplicateSystemSleepAttempt))
                (with_no_action (decision_reason DuplicateSystemSleepAttempt) outcome_new))
      else lifecycle_decision AttemptContinue
             (with_state_transition
                (ClearMarker SystemSleepAttempt (transition_reason_with_detail TrOther msg_stale_attempt))
                outcome_new))"

definition decide_network_teardown ::
    "NetworkTeardownPolicyInput \<Rightarrow> NetworkTeardownNext LifecyclePolicyDecision" where
  "decide_network_teardown inp =
     (if \<not> policy_enabled inp
      then lifecycle_decision TeardownStop (with_no_action (decision_reason ConfigDisabled) outcome_new)
      else case sleep_pending inp of
        Some True \<Rightarrow> lifecycle_decision AttemptPreSleep outcome_new
      | Some False \<Rightarrow>
          lifecycle_decision ClearAttempt
            (with_no_action (decision_reason RuntimePhaseIneligible)
              (with_state_transition (clear_system_sleep_attempt_marker TrRuntimePhaseIneligible) outcome_new))
      | None \<Rightarrow>
          (let detail = unwrap_or (phase_read_error inp) msg_phase_unknown in
           lifecycle_decision TeardownStop
             (with_diagnostic (diagnostic_warning (msg_diag_teardown_open detail))
               (with_no_action (decision_reason_with_detail RuntimePhaseUnknown detail) outcome_new))))"

definition duplicate_system_suspend_outcome :: "string \<Rightarrow> PolicyOutcome" where
  "duplicate_system_suspend_outcome detail =
     with_no_action (decision_reason_with_detail DuplicateSystemSleepAttempt detail) outcome_new"

definition decide_system_sleep_cycle_outcome :: "PolicyOutcome \<Rightarrow> bool \<Rightarrow> SystemSleepCycleOutcome" where
  "decide_system_sleep_cycle_outcome out marker_present =
     (if selects TvSystemSleepPowerOff out \<and> \<not> marker_present then RetryableTransportFailure else Completed)"

text \<open>What the decisions say to do next and to the markers.\<close>

lemma decide_shutdown_simps [simp]:
  "step (decide_shutdown_after_input i (InputCurrent c)) = (if is_hdmi c i then ShutdownPowerOff else ShutdownStop)"
  "state_transitions (policy (decide_shutdown_after_input i ob)) = []"
  "state_transitions (policy (decide_shutdown_after_reboot ro)) = []"
  "state_transitions (decide_shutdown_power_off_result te) = []"
  by (auto simp: decide_shutdown_after_input_def decide_shutdown_after_reboot_def
      decide_shutdown_power_off_result_def split: TvInputObservation.splits RebootObservation.splits
      TvEffectObservation.splits)

lemma decide_sleep_simps [simp]:
  "step (decide_system_sleep_after_input i (InputCurrent c)) = (if is_hdmi c i then SleepPowerOff else SleepStop)"
  "state_transitions (policy (decide_system_sleep_after_input i (InputCurrent c))) =
     (if is_hdmi c i then [] else [clear_system_marker TrInputMismatch])"
  "state_transitions (policy (decide_system_sleep_after_input i (InputUnknown d))) = []"
  "selects TvSystemSleepPowerOff (policy (decide_system_sleep_after_input i (InputCurrent c))) \<longleftrightarrow> is_hdmi c i"
  "selects TvSystemSleepPowerOff (policy (decide_system_sleep_after_input i (InputUnknown d)))"
  by (auto simp: decide_system_sleep_after_input_def)

lemma decide_sleep_result_simps [simp]:
  "state_transitions (decide_system_sleep_power_off_result ob ctxt) =
     (case ob of
        Succeeded \<Rightarrow> [create_system_marker ActionSelected]
      | Failed _ \<Rightarrow>
          (case ctxt of
             KnownInput \<Rightarrow> []
           | FallbackAfterInputQueryFailure b \<Rightarrow>
               if b then [PreserveMarker SystemScreenOwnership (transition_reason TrOther)]
               else [clear_system_marker TrTransportFailure]))"
  "actions (decide_system_sleep_power_off_result ob ctxt) = []"
  by (cases "(ob, ctxt)" rule: decide_system_sleep_power_off_result.cases; simp)+

lemma decide_restore_simps [simp]:
  "step (decide_restore_after_system_sleep_start p b) = (if restore_is_allowed p b then Restore else RestoreStop)"
  "state_transitions (policy (decide_restore_after_system_sleep_start p b)) = []"
  "state_transitions decide_startup_cold_boot = [clear_system_marker StartupBootReason]"
  "state_transitions (select_lifecycle_wake_packet rc) = []"
  "state_transitions (select_lifecycle_input_restore rc) = []"
  "state_transitions decide_restore_input_succeeded = []"
  "state_transitions (decide_restore_input_exhausted msg) = []"
  "state_transitions decide_system_resume_input_succeeded = [clear_system_marker RestoreCompleted]"
  "state_transitions (decide_system_resume_input_exhausted msg) = [clear_system_marker TrTransportFailure]"
  by (auto simp: decide_restore_after_system_sleep_start_def decide_startup_cold_boot_def
      select_lifecycle_wake_packet_def select_lifecycle_input_restore_def decide_restore_input_succeeded_def
      decide_restore_input_exhausted_def decide_system_resume_input_succeeded_def
      decide_system_resume_input_exhausted_def Let_def)

section \<open>Delays\<close>

definition startup_initial_wake_delay :: "environment \<Rightarrow> duration" where
  "startup_initial_wake_delay env =
     duration_override_secs env ''LG_BUDDY_STARTUP_INITIAL_WAKE_DELAY_SECS'' STARTUP_INITIAL_WAKE_DELAY"

definition startup_retry_delay :: "environment \<Rightarrow> nat \<Rightarrow> duration" where
  "startup_retry_delay env attempt =
     duration_override_secs env ''LG_BUDDY_STARTUP_RETRY_DELAY_SECS'' (from_secs (min (attempt * 2) 30))"

definition system_sleep_rail_deadline :: "environment \<Rightarrow> duration" where
  "system_sleep_rail_deadline env =
     duration_override_secs env ''LG_BUDDY_SYSTEM_SLEEP_RAIL_DEADLINE_SECS'' SYSTEM_SLEEP_RAIL_DEADLINE"

definition system_sleep_retry_delay :: "environment \<Rightarrow> duration" where
  "system_sleep_retry_delay env =
     duration_override_secs env ''LG_BUDDY_SLEEP_RETRY_DELAY_SECS'' (from_secs 1)"

definition tv_route_wait_attempts :: "environment \<Rightarrow> nat" where
  "tv_route_wait_attempts env =
     (case env_var env ''LG_BUDDY_TV_ROUTE_WAIT_ATTEMPTS'' of
        None \<Rightarrow> TV_ROUTE_WAIT_ATTEMPTS
      | Some value \<Rightarrow>
          (case parse_unsigned 10 (2 ^ 32) value of
             Some n \<Rightarrow> if n > 0 then n else TV_ROUTE_WAIT_ATTEMPTS
           | None \<Rightarrow> TV_ROUTE_WAIT_ATTEMPTS))"

definition tv_route_wait_delay :: "environment \<Rightarrow> duration" where
  "tv_route_wait_delay env =
     (case env_var env ''LG_BUDDY_TV_ROUTE_WAIT_DELAY_MS'' of
        None \<Rightarrow> TV_ROUTE_WAIT_DELAY
      | Some value \<Rightarrow>
          (case parse_unsigned 10 (2 ^ 64) value of
             Some n \<Rightarrow> from_millis n
           | None \<Rightarrow> TV_ROUTE_WAIT_DELAY))"

end
