(* ===== verification/Lifecycle.thy ===== *)
theory Lifecycle
  imports Lifecycle_Policy
begin

text \<open>
  The lifecycle handlers of \<open>lifecycle.rs\<close>: startup, resume, shutdown, the suspend rail with its
  lock and outcome file, network teardown, and the legacy NetworkManager hook. Every handler
  takes the environment it acts in; the lock guard's destructor is \<open>finallyE\<close>.
\<close>

section \<open>Detectors and waiters\<close>

fun contains :: "string \<Rightarrow> string \<Rightarrow> bool" where
  "contains needle [] = (needle = [])"
| "contains needle (c # cs) = (strip_prefix needle (c # cs) \<noteq> None \<or> contains needle cs)"

definition SLEEP_REQUESTED_LINE :: string where
  "SLEEP_REQUESTED_LINE = ''manager: sleep: sleep requested''"

text \<open>The journal command's answer: a spawn error, or its success and standard output.\<close>

definition journalctl_is_sleep_requested :: "io_error + bool \<times> string \<Rightarrow> io_error + bool" where
  "journalctl_is_sleep_requested output =
     (case output of
        Inl e \<Rightarrow> Inl e
      | Inr (success, stdout) \<Rightarrow> Inr (success \<and> contains SLEEP_REQUESTED_LINE stdout))"

definition nm_online_status_result :: "bool \<Rightarrow> string \<Rightarrow> io_error + unit" where
  "nm_online_status_result success status =
     (if success then Inr () else Inl (IoError TimedOut (''nm-online exited with '' @ status)))"

definition msg_no_route_check :: "Ipv4Addr \<Rightarrow> string" where
  "msg_no_route_check target = ''no route check was attempted for '' @ show_ipv4 target"

definition msg_route_unavailable :: "Ipv4Addr \<Rightarrow> nat \<Rightarrow> io_error \<Rightarrow> string" where
  "msg_route_unavailable target attempts err = ''route to '' @ show_ipv4 target @ '' unavailable after '' @
     show_nat attempts @ '' attempt(s): '' @ io_message err"

fun route_attempts ::
    "Ipv4Addr \<Rightarrow> nat \<Rightarrow> duration \<Rightarrow> (Ipv4Addr \<Rightarrow> ('s, io_error, unit) eff) \<Rightarrow> (duration \<Rightarrow> 's \<Rightarrow> 's) \<Rightarrow>
     nat list \<Rightarrow> io_error option \<Rightarrow> ('s, io_error, unit) eff" where
  "route_attempts target attempts retry_delay probe slp [] last_error =
     (let err = unwrap_or last_error (IoError NotFound (msg_no_route_check target)) in
      raiseE (IoError (io_kind err) (msg_route_unavailable target attempts err)))"
| "route_attempts target attempts retry_delay probe slp (attempt # rest) last_error =
     bindE (tryE (probe target)) (\<lambda>r. case r of
       Inr _ \<Rightarrow> returnE ()
     | Inl err \<Rightarrow>
         thenE (if attempt < attempts then modifyE (slp retry_delay) else returnE ())
           (route_attempts target attempts retry_delay probe slp rest (Some err)))"

definition wait_for_route_to_target_with ::
    "Ipv4Addr \<Rightarrow> nat \<Rightarrow> duration \<Rightarrow> (Ipv4Addr \<Rightarrow> ('s, io_error, unit) eff) \<Rightarrow> (duration \<Rightarrow> 's \<Rightarrow> 's) \<Rightarrow>
     ('s, io_error, unit) eff" where
  "wait_for_route_to_target_with target attempts retry_delay probe slp =
     route_attempts target attempts retry_delay probe slp [1..<Suc attempts] None"

definition PREFIX_STARTUP :: string where "PREFIX_STARTUP = ''LG Buddy Startup''"

definition msg_waiting_network :: string where
  "msg_waiting_network = PREFIX_STARTUP @ '': Waiting for NetworkManager connectivity...''"
definition msg_network_failed :: "io_error \<Rightarrow> string" where
  "msg_network_failed e = PREFIX_STARTUP @ '': Network wait failed. Continuing anyway. '' @ io_message e"
definition msg_network_ready :: string where
  "msg_network_ready = PREFIX_STARTUP @ '': NetworkManager connectivity is available.''"
definition msg_waiting_route :: "Ipv4Addr \<Rightarrow> string" where
  "msg_waiting_route ip = PREFIX_STARTUP @ '': Waiting for route to TV at '' @ show_ipv4 ip @ ''...''"
definition msg_route_failed :: "io_error \<Rightarrow> string" where
  "msg_route_failed e = PREFIX_STARTUP @ '': TV route wait failed. Continuing anyway. '' @ io_message e"
definition msg_route_ready :: string where
  "msg_route_ready = PREFIX_STARTUP @ '': Route to TV is available.''"
definition msg_diag_network :: "io_error \<Rightarrow> string" where
  "msg_diag_network e = ''network wait failed: '' @ io_message e"
definition msg_diag_route :: "io_error \<Rightarrow> string" where
  "msg_diag_route e = ''TV route wait failed: '' @ io_message e"

definition say_flush :: "environment \<Rightarrow> string \<Rightarrow> (world, RunError, unit) eff" where
  "say_flush env msg = thenE (say env msg) (flush env)"

definition wait_for_tv_network ::
    "environment \<Rightarrow> Ipv4Addr \<Rightarrow> PolicyOutcome \<Rightarrow> (world, RunError, PolicyOutcome) eff" where
  "wait_for_tv_network env ip out =
     thenE (say_flush env msg_waiting_network)
    (bindE (tryE (wait_for_network env)) (\<lambda>r. case r of
       Inl err \<Rightarrow>
         thenE (say_flush env (msg_network_failed err))
           (returnE (with_diagnostic (diagnostic_warning (msg_diag_network err)) out))
     | Inr _ \<Rightarrow>
         thenE (say env msg_network_ready)
        (thenE (say_flush env (msg_waiting_route ip))
        (bindE (tryE (wait_for_route_to env ip)) (\<lambda>r'. case r' of
           Inl err \<Rightarrow>
             thenE (say_flush env (msg_route_failed err))
               (returnE (with_diagnostic (diagnostic_warning (msg_diag_route err)) out))
         | Inr _ \<Rightarrow> thenE (say_flush env msg_route_ready) (returnE out))))))"

section \<open>Shared steps\<close>

definition msg_non_system_transition :: string where
  "msg_non_system_transition = ''lifecycle screen marker applier received a non-system-screen transition''"

definition apply_system_screen_marker_transitions ::
    "environment \<Rightarrow> ScreenOwnershipMarker \<Rightarrow> PolicyOutcome \<Rightarrow> (world, RunError, unit) eff" where
  "apply_system_screen_marker_transitions env marker out =
     eachE (apply_transition SystemScreenOwnership (Run_Policy msg_non_system_transition)
              (marker_create env marker) (marker_clear env marker))
       (state_transitions out)"

definition msg_non_attempt_transition :: string where
  "msg_non_attempt_transition = ''lifecycle sleep-attempt applier received a non-attempt transition''"
definition msg_stale_attempt_kept :: "io_error \<Rightarrow> string" where
  "msg_stale_attempt_kept e = ''LG Buddy Sleep Pre: could not clear stale system sleep attempt marker before pre-sleep handling. '' @
     io_message e"

text \<open>A stale attempt marker that cannot be cleared is only logged.\<close>

definition clear_attempt_or_log :: "environment \<Rightarrow> SystemSleepCycleState \<Rightarrow> (world, io_error, unit) eff" where
  "clear_attempt_or_log env s =
     bindE (tryE (attempt_clear env s)) (\<lambda>r. case r of
       Inl err \<Rightarrow> writelnE env (msg_stale_attempt_kept err)
     | Inr _ \<Rightarrow> returnE ())"

definition apply_system_sleep_attempt_transitions ::
    "environment \<Rightarrow> SystemSleepCycleState \<Rightarrow> PolicyOutcome \<Rightarrow> (world, RunError, unit) eff" where
  "apply_system_sleep_attempt_transitions env s out =
     eachE (apply_transition SystemSleepAttempt (Run_Policy msg_non_attempt_transition)
              (mark_attempted env s) (clear_attempt_or_log env s))
       (state_transitions out)"

definition msg_lifecycle_wol_failed :: "string \<Rightarrow> WakeOnLanError \<Rightarrow> string" where
  "msg_lifecycle_wol_failed prefix err =
     prefix @ '': Wake-on-LAN send failed. Continuing anyway. '' @ wol_error_display err"

definition lifecycle_send_wake_packet ::
    "environment \<Rightarrow> string \<Rightarrow> Ipv4Addr \<Rightarrow> MacAddress \<Rightarrow> (world, RunError, unit) eff" where
  "lifecycle_send_wake_packet env prefix ip mac =
     bindE (tryE (power_wake env ip mac)) (\<lambda>r. case r of
       Inl err \<Rightarrow> say env (msg_lifecycle_wol_failed prefix err)
     | Inr _ \<Rightarrow> returnE ())"

fun query_current_input_with_retries :: "environment \<Rightarrow> nat \<Rightarrow> (world, TvError, CurrentInput) eff" where
  "query_current_input_with_retries env 0 = input_current env"
| "query_current_input_with_retries env (Suc retries) =
     bindE (tryE (input_current env)) (\<lambda>r. case r of
       Inr current_input \<Rightarrow> returnE current_input
     | Inl err \<Rightarrow>
         if tv_error_kind err = Authentication then raiseE err
         else thenE (sleepE env (system_sleep_retry_delay env)) (query_current_input_with_retries env retries))"

fun retry_power_off :: "environment \<Rightarrow> nat \<Rightarrow> (world, 'e, bool) eff" where
  "retry_power_off env 0 = returnE False"
| "retry_power_off env (Suc attempts) =
     bindE (tryE (power_off env)) (\<lambda>r. case r of
       Inr _ \<Rightarrow> returnE True
     | Inl err \<Rightarrow>
         if tv_error_kind err = Authentication then returnE False
         else thenE (if attempts > 0 then sleepE env (system_sleep_retry_delay env) else returnE ())
                (retry_power_off env attempts))"

section \<open>Startup and resume\<close>

definition msg_cold_boot :: "HdmiInput \<Rightarrow> string" where
  "msg_cold_boot i = PREFIX_STARTUP @ '': Cold boot: Turning TV on and switching to '' @ hdmi_as_str i @ ''.''"
definition msg_startup_ok :: "HdmiInput \<Rightarrow> string" where
  "msg_startup_ok i = PREFIX_STARTUP @ '': TV turned on and set to '' @ hdmi_as_str i @ ''.''"
definition msg_startup_auth :: string where
  "msg_startup_auth = PREFIX_STARTUP @
     '': Stored TV authentication is unavailable; skipping unattended TV control.''"
definition msg_startup_retry :: "nat \<Rightarrow> duration \<Rightarrow> string" where
  "msg_startup_retry n d = PREFIX_STARTUP @ '': Attempt '' @ show_nat n @ '' failed, retrying in '' @
     show_nat (as_secs d) @ ''s...''"
definition msg_startup_exhausted :: string where
  "msg_startup_exhausted = PREFIX_STARTUP @ '': set_input failed after '' @ show_nat STARTUP_WAKE_ATTEMPTS @ '' attempts''"
definition msg_diag_startup_exhausted :: string where
  "msg_diag_startup_exhausted = ''startup input restore exhausted retries''"
definition msg_sending_wol :: string where
  "msg_sending_wol = PREFIX_STARTUP @ '': Sending Wake-on-LAN packet...''"
definition msg_resume_not_ours :: string where
  "msg_resume_not_ours = PREFIX_STARTUP @ '': Wake from sleep: TV was not on our input. Skipping.''"
definition msg_resume_ours :: string where
  "msg_resume_ours = PREFIX_STARTUP @ '': Wake from sleep: LG Buddy turned TV off. Restoring.''"
definition msg_lifecycle_markerless :: "string \<Rightarrow> string" where
  "msg_lifecycle_markerless prefix = prefix @
     '': State file not found. Aggressive restore policy is enabled, so LG Buddy will attempt wake anyway.''"
definition msg_resume_display :: string where
  "msg_resume_display = PREFIX_STARTUP @ '': Wake from sleep: Restoring display state.''"
definition msg_diag_resume_auth :: string where
  "msg_diag_resume_auth = ''system resume skipped because stored TV authentication is unavailable''"
definition msg_diag_resume_exhausted :: string where
  "msg_diag_resume_exhausted = ''system resume input restore exhausted retries''"

definition render_restore_after_system_sleep_start ::
    "environment \<Rightarrow> bool \<Rightarrow> RestoreNext LifecyclePolicyDecision \<Rightarrow> (world, RunError, unit) eff" where
  "render_restore_after_system_sleep_start env marker_present decision =
     (if step decision = RestoreStop then say env msg_resume_not_ours
      else if marker_present then say env msg_resume_ours
      else thenE (say env (msg_lifecycle_markerless PREFIX_STARTUP)) (say env msg_resume_display))"

fun resume_attempts ::
    "environment \<Rightarrow> Config \<Rightarrow> ScreenOwnershipMarker \<Rightarrow> nat list \<Rightarrow> PolicyOutcome \<Rightarrow>
     (world, RunError, PolicyOutcome) eff" where
  "resume_attempts env config marker [] out =
     thenE (say_flush env msg_startup_exhausted)
    (thenE (apply_system_screen_marker_transitions env marker
              (decide_system_resume_input_exhausted msg_diag_resume_exhausted))
       (returnE (merge out (decide_system_resume_input_exhausted msg_diag_resume_exhausted))))"
| "resume_attempts env config marker (attempt # rest) out =
     (let out1 = merge out (select_lifecycle_input_restore RuntimeEventReason) in
      bindE (tryE (input_set env (input config))) (\<lambda>r. case r of
        Inr _ \<Rightarrow>
          thenE (apply_system_screen_marker_transitions env marker decide_system_resume_input_succeeded)
         (thenE (say_flush env (msg_startup_ok (input config)))
            (returnE (merge out1 decide_system_resume_input_succeeded)))
      | Inl err \<Rightarrow>
          if tv_error_kind err = Authentication then
            thenE (say_flush env msg_startup_auth)
           (thenE (apply_system_screen_marker_transitions env marker
                     (decide_system_resume_input_exhausted msg_diag_resume_auth))
              (returnE (merge out1 (decide_system_resume_input_exhausted msg_diag_resume_auth))))
          else
            (let retry_delay = startup_retry_delay env attempt in
             thenE (say_flush env (msg_startup_retry attempt retry_delay))
            (thenE (say_flush env msg_sending_wol)
            (thenE (lifecycle_send_wake_packet env PREFIX_STARTUP (tv_ip config) (tv_mac config))
            (thenE (flush env)
            (thenE (sleepE env retry_delay)
               (resume_attempts env config marker rest
                  (merge out1 (select_lifecycle_wake_packet RuntimeEventReason))))))))))"

definition restore_after_system_sleep_with_outcome ::
    "environment \<Rightarrow> Config \<Rightarrow> ScreenOwnershipMarker \<Rightarrow> (world, RunError, PolicyOutcome) eff" where
  "restore_after_system_sleep_with_outcome env config marker =
     bindE (getsE (marker_exists marker)) (\<lambda>marker_present.
       let start_decision =
             decide_restore_after_system_sleep_start (screen_restore_policy config) marker_present in
       thenE (render_restore_after_system_sleep_start env marker_present start_decision)
         (if step start_decision = RestoreStop then returnE (merge outcome_new (policy start_decision))
          else
            bindE (wait_for_tv_network env (tv_ip config) outcome_new) (\<lambda>out.
            thenE (apply_system_screen_marker_transitions env marker (policy start_decision))
           (thenE (say_flush env msg_sending_wol)
           (thenE (lifecycle_send_wake_packet env PREFIX_STARTUP (tv_ip config) (tv_mac config))
           (thenE (flush env)
           (thenE (sleepE env (startup_initial_wake_delay env))
              (resume_attempts env config marker [1..<Suc STARTUP_WAKE_ATTEMPTS]
                 (merge out (policy start_decision))))))))))"

fun startup_attempts ::
    "environment \<Rightarrow> Config \<Rightarrow> nat list \<Rightarrow> PolicyOutcome \<Rightarrow> (world, RunError, PolicyOutcome) eff" where
  "startup_attempts env config [] out =
     thenE (say_flush env msg_startup_exhausted)
       (returnE (merge out (decide_restore_input_exhausted msg_diag_startup_exhausted)))"
| "startup_attempts env config (attempt # rest) out =
     (let out1 = merge out (select_lifecycle_input_restore ManualRequest) in
      bindE (tryE (input_set env (input config))) (\<lambda>r. case r of
        Inr _ \<Rightarrow>
          thenE (say_flush env (msg_startup_ok (input config)))
            (returnE (merge out1 decide_restore_input_succeeded))
      | Inl err \<Rightarrow>
          if tv_error_kind err = Authentication then
            thenE (say_flush env msg_startup_auth) (returnE out1)
          else
            (let retry_delay = startup_retry_delay env attempt in
             thenE (say env (msg_startup_retry attempt retry_delay))
            (thenE (lifecycle_send_wake_packet env PREFIX_STARTUP (tv_ip config) (tv_mac config))
            (thenE (sleepE env retry_delay)
               (startup_attempts env config rest
                  (merge out1 (select_lifecycle_wake_packet ManualRequest))))))))"

definition run_startup_with_outcome ::
    "environment \<Rightarrow> Config \<Rightarrow> ScreenOwnershipMarker \<Rightarrow> StartupMode \<Rightarrow> (world, RunError, PolicyOutcome) eff" where
  "run_startup_with_outcome env config marker mode =
     bindE (getsE (marker_exists marker)) (\<lambda>marker_present.
       case decide_startup_route mode marker_present of
         SystemResume \<Rightarrow> restore_after_system_sleep_with_outcome env config marker
       | ColdBoot \<Rightarrow>
           bindE (wait_for_tv_network env (tv_ip config) outcome_new) (\<lambda>out.
           thenE (say env (msg_cold_boot (input config)))
          (thenE (apply_system_screen_marker_transitions env marker decide_startup_cold_boot)
          (thenE (lifecycle_send_wake_packet env PREFIX_STARTUP (tv_ip config) (tv_mac config))
          (thenE (sleepE env (startup_initial_wake_delay env))
             (startup_attempts env config [1..<Suc STARTUP_WAKE_ATTEMPTS]
                (merge out decide_startup_cold_boot)))))))"

section \<open>Shutdown\<close>

definition msg_shutdown_reboot :: string where
  "msg_shutdown_reboot = ''LG Buddy Shutdown: Reboot; ignoring''"
definition msg_shutdown_unknown :: "string \<Rightarrow> string" where
  "msg_shutdown_unknown e = ''LG Buddy Shutdown: Could not determine reboot state. Continuing shutdown. '' @ e"
definition msg_shutdown_turning_off :: "HdmiInput \<Rightarrow> string" where
  "msg_shutdown_turning_off i = ''LG Buddy Shutdown: TV is on '' @ hdmi_as_str i @ ''. Turning off for shutdown.''"
definition msg_shutdown_skipping :: "CurrentInput \<Rightarrow> HdmiInput \<Rightarrow> string" where
  "msg_shutdown_skipping c i = ''LG Buddy Shutdown: TV is on '' @ current_input_display c @ '' (not '' @
     hdmi_as_str i @ ''). Skipping.''"
definition msg_shutdown_auth :: string where
  "msg_shutdown_auth =
     ''LG Buddy Shutdown: Stored TV authentication is unavailable; skipping power_off fallback.''"
definition msg_shutdown_query_failed :: string where
  "msg_shutdown_query_failed = ''LG Buddy Shutdown: Could not query TV input. Proceeding with power_off.''"
definition msg_shutdown_off_failed :: "string \<Rightarrow> string" where
  "msg_shutdown_off_failed e = ''LG Buddy Shutdown: power_off failed, continuing shutdown. '' @ e"

definition log_shutdown_power_off_result ::
    "environment \<Rightarrow> TvEffectObservation \<Rightarrow> (world, RunError, unit) eff" where
  "log_shutdown_power_off_result env observation =
     (case observation of
        Failed detail \<Rightarrow> say env (msg_shutdown_off_failed detail)
      | Succeeded \<Rightarrow> returnE ())"

text \<open>The power-off that ends both ways of shutting down.\<close>

definition shutdown_power_off ::
    "environment \<Rightarrow> PolicyOutcome \<Rightarrow> (world, RunError, PolicyOutcome) eff" where
  "shutdown_power_off env out =
     bindE (tryE (power_off env)) (\<lambda>r.
       let observation = tv_effect_observation r in
       thenE (log_shutdown_power_off_result env observation)
         (returnE (merge out (decide_shutdown_power_off_result observation))))"

definition shutdown_query_input ::
    "environment \<Rightarrow> Config \<Rightarrow> PolicyOutcome \<Rightarrow> (world, RunError, PolicyOutcome) eff" where
  "shutdown_query_input env config out =
     bindE (tryE (input_current env)) (\<lambda>r. case r of
       Inr current_input \<Rightarrow>
         (let decision = decide_shutdown_after_input (input config) (InputCurrent current_input) in
          if step decision = ShutdownPowerOff
          then thenE (say env (msg_shutdown_turning_off (input config)))
                 (shutdown_power_off env (merge out (policy decision)))
          else thenE (say env (msg_shutdown_skipping current_input (input config)))
                 (returnE (merge out (policy decision))))
     | Inl err \<Rightarrow>
         if tv_error_kind err = Authentication then
           thenE (say env msg_shutdown_auth)
             (returnE (merge out (with_no_action
                (decision_reason_with_detail NotApplicable (tv_error_display err)) outcome_new)))
         else
           thenE (say env msg_shutdown_query_failed)
             (shutdown_power_off env
                (merge out (policy (decide_shutdown_after_input (input config)
                   (InputUnknown (tv_error_display err)))))))"

definition run_shutdown_with_outcome ::
    "environment \<Rightarrow> Config \<Rightarrow> (world, RunError, PolicyOutcome) eff" where
  "run_shutdown_with_outcome env config =
     bindE (tryE (is_reboot_pending env)) (\<lambda>r.
       let observation = (case r of
             Inr True \<Rightarrow> RebootPending
           | Inr False \<Rightarrow> RebootNotPending
           | Inl err \<Rightarrow> RebootUnknown (io_message err));
           out = merge outcome_new (policy (decide_shutdown_after_reboot observation)) in
       case observation of
         RebootPending \<Rightarrow> thenE (say env msg_shutdown_reboot) (returnE out)
       | RebootNotPending \<Rightarrow> shutdown_query_input env config out
       | RebootUnknown err \<Rightarrow>
           thenE (say env (msg_shutdown_unknown err)) (shutdown_query_input env config out))"

section \<open>System sleep\<close>

definition msg_sleep_turning_off :: "HdmiInput \<Rightarrow> string" where
  "msg_sleep_turning_off i = ''LG Buddy Sleep Pre: TV is on '' @ hdmi_as_str i @ ''. Turning off for sleep.''"
definition msg_sleep_skipping :: "CurrentInput \<Rightarrow> HdmiInput \<Rightarrow> string" where
  "msg_sleep_skipping c i = ''LG Buddy Sleep Pre: TV is on '' @ current_input_display c @ '' (not '' @
     hdmi_as_str i @ ''). Skipping.''"
definition msg_sleep_auth :: string where
  "msg_sleep_auth =
     ''LG Buddy Sleep Pre: Stored TV authentication is unavailable; skipping power_off fallback.''"
definition msg_sleep_query_failed :: string where
  "msg_sleep_query_failed = ''LG Buddy Sleep Pre: Could not query TV input. Attempting power_off fallback.''"
definition msg_sleep_known_failed :: string where
  "msg_sleep_known_failed = ''LG Buddy Sleep Pre: power_off failed on known input. State not set.''"
definition msg_sleep_fallback_kept :: string where
  "msg_sleep_fallback_kept =
     ''LG Buddy Sleep Pre: Fallback power_off failed, but state already set by another hook. Keeping state.''"
definition msg_sleep_fallback_unset :: string where
  "msg_sleep_fallback_unset =
     ''LG Buddy Sleep Pre: Fallback power_off failed after retries. Leaving state unset.''"

definition render_system_sleep_power_off_result ::
    "environment \<Rightarrow> TvEffectObservation \<Rightarrow> SystemSleepPowerOffContext \<Rightarrow> (world, RunError, unit) eff" where
  "render_system_sleep_power_off_result env observation ctxt =
     (case observation of
        Succeeded \<Rightarrow> returnE ()
      | Failed _ \<Rightarrow>
          (case ctxt of
             KnownInput \<Rightarrow> say env msg_sleep_known_failed
           | FallbackAfterInputQueryFailure marker_was_set \<Rightarrow>
               say env (if marker_was_set then msg_sleep_fallback_kept else msg_sleep_fallback_unset)))"

definition msg_power_off_failed :: string where
  "msg_power_off_failed = ''power_off failed''"

text \<open>What follows the power-off command: marker transitions, log line, trail.\<close>

definition finish_system_sleep_power_off ::
    "environment \<Rightarrow> ScreenOwnershipMarker \<Rightarrow> TvEffectObservation \<Rightarrow> SystemSleepPowerOffContext \<Rightarrow>
     PolicyOutcome \<Rightarrow> (world, RunError, PolicyOutcome) eff" where
  "finish_system_sleep_power_off env marker observation ctxt out =
     (let result = decide_system_sleep_power_off_result observation ctxt in
      thenE (apply_system_screen_marker_transitions env marker result)
     (thenE (render_system_sleep_power_off_result env observation ctxt)
        (returnE (merge out result))))"

definition attempt_system_sleep_power_off_with_outcome ::
    "environment \<Rightarrow> Config \<Rightarrow> ScreenOwnershipMarker \<Rightarrow> (world, RunError, PolicyOutcome) eff" where
  "attempt_system_sleep_power_off_with_outcome env config marker =
     bindE (getsE (marker_exists marker)) (\<lambda>state_was_set.
     bindE (tryE (query_current_input_with_retries env SYSTEM_PRE_SLEEP_GET_INPUT_RETRIES)) (\<lambda>r. case r of
       Inr current_input \<Rightarrow>
         (let decision = decide_system_sleep_after_input (input config) (InputCurrent current_input) in
          thenE (apply_system_screen_marker_transitions env marker (policy decision))
            (case step decision of
               SleepPowerOff \<Rightarrow>
                 thenE (say env (msg_sleep_turning_off (input config)))
                (bindE (tryE (power_off env)) (\<lambda>off.
                   finish_system_sleep_power_off env marker (tv_effect_observation off) KnownInput
                     (merge outcome_new (policy decision))))
             | SleepStop \<Rightarrow>
                 thenE (say env (msg_sleep_skipping current_input (input config)))
                   (returnE (merge outcome_new (policy decision)))))
     | Inl err \<Rightarrow>
         if tv_error_kind err = Authentication then
           thenE (say env msg_sleep_auth)
             (returnE (merge outcome_new (with_no_action
                (decision_reason_with_detail NotApplicable (tv_error_display err)) outcome_new)))
         else
           (let decision = decide_system_sleep_after_input (input config) (InputUnknown (tv_error_display err)) in
            thenE (say env msg_sleep_query_failed)
           (bindE (retry_power_off env SYSTEM_PRE_SLEEP_POWER_OFF_ATTEMPTS) (\<lambda>ok.
              finish_system_sleep_power_off env marker
                (if ok then Succeeded else Failed msg_power_off_failed)
                (FallbackAfterInputQueryFailure state_was_set)
                (merge outcome_new (policy decision)))))))"

section \<open>The suspend rail\<close>

definition msg_not_suspend :: string where
  "msg_not_suspend = ''system suspend rail received a non-suspend lifecycle event''"
definition msg_rail_duplicate :: "duration \<Rightarrow> string" where
  "msg_rail_duplicate d = ''another system suspend rail owner is already running within the '' @
     duration_debug_secs d @ '' rail deadline''"
definition msg_cycle_completed :: string where
  "msg_cycle_completed = ''system suspend cycle is already completed''"

definition suspend_owner_body ::
    "environment \<Rightarrow> Config \<Rightarrow> ScreenOwnershipMarker \<Rightarrow> SystemSleepCycleState \<Rightarrow>
     (world, RunError, PolicyOutcome \<times> SuspendRailDisposition) eff" where
  "suspend_owner_body env config marker cycle_state =
     bindE (ioE (read_outcome env cycle_state)) (\<lambda>previous.
       if previous = Some Completed then
         returnE (duplicate_system_suspend_outcome msg_cycle_completed, DuplicateCompleted)
       else
         thenE (ioE (write_outcome env cycle_state InProgress))
        (let start = policy (decide_system_sleep_attempt_start True) in
         thenE (apply_system_sleep_attempt_transitions env cycle_state start)
        (bindE (attempt_system_sleep_power_off_with_outcome env config marker) (\<lambda>attempted.
           let out = merge (merge outcome_new start) attempted in
           bindE (getsE (\<lambda>w. decide_system_sleep_cycle_outcome out (marker_exists marker w))) (\<lambda>cycle_outcome.
           thenE (ioE (write_outcome env cycle_state cycle_outcome))
             (returnE (out, if cycle_outcome = RetryableTransportFailure then RetryableFailure
                            else OwnerCompleted)))))))"

text \<open>The guard is dropped when the owner returns, on every way out.\<close>

definition handle_system_suspend_owner_with_outcome ::
    "environment \<Rightarrow> Config \<Rightarrow> ScreenOwnershipMarker \<Rightarrow> SystemSleepCycleState \<Rightarrow>
     (world, RunError, PolicyOutcome \<times> SuspendRailDisposition) eff" where
  "handle_system_suspend_owner_with_outcome env config marker cycle_state =
     finallyE (suspend_owner_body env config marker cycle_state) (unlock cycle_state)"

fun is_suspend_event :: "LifecycleEvent option \<Rightarrow> bool" where
  "is_suspend_event (Some LifecyclePreparingForSleep) = True"
| "is_suspend_event (Some (LifecycleNetworkTeardown _)) = True"
| "is_suspend_event _ = False"

definition handle_system_suspend_with_outcome ::
    "environment \<Rightarrow> Config \<Rightarrow> ScreenOwnershipMarker \<Rightarrow> SystemSleepCycleState \<Rightarrow> RuntimeEvent \<Rightarrow>
     (world, RunError, PolicyOutcome \<times> SuspendRailDisposition) eff" where
  "handle_system_suspend_with_outcome env config marker cycle_state event =
     (if \<not> is_suspend_event (from_runtime_event event) then raiseE (Run_Policy msg_not_suspend)
     else
       bindE (ioE (try_lock env cycle_state)) (\<lambda>acquired.
         if \<not> acquired then
           bindE (ioE (read_outcome env cycle_state)) (\<lambda>oc.
             returnE (duplicate_system_suspend_outcome (msg_rail_duplicate (system_sleep_rail_deadline env)),
               if oc = Some Completed then DuplicateCompleted else JoinedInProgress))
         else handle_system_suspend_owner_with_outcome env config marker cycle_state))"

section \<open>Waiting for the rail\<close>

text \<open>
  The wait of the NetworkManager hook. It polls every 50 ms until the deadline; the time left
  decreases in every round, so it ends. A retryable failure is taken over only with the lock.
\<close>

function wait_for_cycle ::
    "environment \<Rightarrow> SystemSleepCycleState \<Rightarrow> duration \<Rightarrow> duration \<Rightarrow>
     (world, RunError, SystemSleepCycleObservation) eff" where
  "wait_for_cycle env cycle_state deadline waited =
     bindE (ioE (read_outcome env cycle_state)) (\<lambda>oc.
     bindE (case oc of
              Some Completed \<Rightarrow> returnE (Some CycleCompleted)
            | Some RetryableTransportFailure \<Rightarrow>
                bindE (ioE (try_lock env cycle_state)) (\<lambda>acquired.
                  returnE (if acquired then Some CycleRetryable else None))
            | _ \<Rightarrow> returnE None) (\<lambda>observed.
     case observed of
       Some observation \<Rightarrow> returnE observation
     | None \<Rightarrow>
         if waited \<ge> deadline then returnE CycleInProgress
         else
           (let sleep_for = min SYSTEM_SLEEP_RAIL_WAIT_POLL (deadline - waited) in
            thenE (sleepE env sleep_for)
              (wait_for_cycle env cycle_state deadline (waited + sleep_for)))))"
  by pat_completeness auto

termination
  by (relation "measure (\<lambda>(env, s, deadline, waited). deadline - waited)")
     (auto simp: SYSTEM_SLEEP_RAIL_WAIT_POLL_def from_millis_def)

declare wait_for_cycle.simps [simp del]

definition wait_for_system_sleep_cycle_observation ::
    "environment \<Rightarrow> SystemSleepCycleState \<Rightarrow> duration \<Rightarrow>
     (world, RunError, SystemSleepCycleObservation) eff" where
  "wait_for_system_sleep_cycle_observation env cycle_state deadline =
     wait_for_cycle env cycle_state deadline 0"

section \<open>Network teardown\<close>

definition msg_not_network :: string where
  "msg_not_network = ''network teardown handler received a non-network lifecycle event''"
definition msg_nm_preparing :: string where
  "msg_nm_preparing = ''LG Buddy NetworkManager: logind is preparing for sleep; running pre-sleep TV handling before network teardown.''"
definition msg_nm_attempt_kept :: "io_error \<Rightarrow> string" where
  "msg_nm_attempt_kept e =
     ''LG Buddy NetworkManager: could not clear stale system sleep attempt marker while not sleeping. '' @ io_message e"
definition msg_diag_attempt_kept :: "io_error \<Rightarrow> string" where
  "msg_diag_attempt_kept e =
     ''could not clear stale system sleep attempt marker while not sleeping: '' @ io_message e"
definition msg_nm_leaving :: string where
  "msg_nm_leaving = ''LG Buddy NetworkManager: logind is not preparing for sleep; leaving network disconnect alone.''"
definition msg_nm_disabled :: string where
  "msg_nm_disabled = ''LG Buddy NetworkManager: system sleep/wake handling is disabled by config; skipping pre-down handling.''"
definition msg_nm_failing_open :: "string \<Rightarrow> string" where
  "msg_nm_failing_open d = ''LG Buddy NetworkManager: could not read logind PreparingForSleep; failing open. '' @ d"
definition msg_rail_completed :: string where
  "msg_rail_completed = ''LG Buddy NetworkManager: suspend rail completed; releasing network teardown.''"
definition msg_rail_retrying :: string where
  "msg_rail_retrying = ''LG Buddy NetworkManager: suspend rail reported retryable transport failure; retrying before network teardown.''"
definition msg_rail_deadline :: string where
  "msg_rail_deadline = ''LG Buddy NetworkManager: suspend rail did not finish before deadline; releasing network teardown.''"
definition msg_diag_rail_deadline :: string where
  "msg_diag_rail_deadline = ''suspend rail did not finish before NetworkManager teardown deadline''"

definition render_network_teardown_stop :: "environment \<Rightarrow> PolicyOutcome \<Rightarrow> (world, RunError, unit) eff" where
  "render_network_teardown_stop env out =
     (if list_ex (\<lambda>d. reason_code (no_action_reason d) = ConfigDisabled) (no_actions out)
      then say env msg_nm_disabled
      else case find (\<lambda>d. reason_code (no_action_reason d) = RuntimePhaseUnknown) (no_actions out) of
        Some d \<Rightarrow>
          say env (msg_nm_failing_open (unwrap_or (reason_detail (no_action_reason d)) msg_phase_unknown))
      | None \<Rightarrow> returnE ())"

definition handle_network_teardown_rail_disposition ::
    "environment \<Rightarrow> Config \<Rightarrow> ScreenOwnershipMarker \<Rightarrow> SystemSleepCycleState \<Rightarrow> SuspendRailDisposition \<Rightarrow>
     PolicyOutcome \<Rightarrow> (world, RunError, PolicyOutcome) eff" where
  "handle_network_teardown_rail_disposition env config marker attempt_state disposition out =
     (if disposition \<noteq> JoinedInProgress \<and> disposition \<noteq> RetryableFailure then returnE out
      else
        bindE (wait_for_system_sleep_cycle_observation env attempt_state (system_sleep_rail_deadline env))
          (\<lambda>observation. case observation of
            CycleCompleted \<Rightarrow> thenE (say env msg_rail_completed) (returnE out)
          | CycleRetryable \<Rightarrow>
              finallyE
                (thenE (say env msg_rail_retrying)
                   (bindE (handle_system_suspend_owner_with_outcome env config marker attempt_state)
                      (\<lambda>(retry_outcome, _). returnE (merge out retry_outcome))))
                (unlock attempt_state)
          | CycleInProgress \<Rightarrow>
              thenE (say env msg_rail_deadline)
                (returnE (with_diagnostic (diagnostic_warning msg_diag_rail_deadline) out))))"

definition handle_network_teardown_with_outcome ::
    "environment \<Rightarrow> Config \<Rightarrow> ScreenOwnershipMarker \<Rightarrow> SystemSleepCycleState \<Rightarrow> RuntimeEvent \<Rightarrow>
     string option \<Rightarrow> (world, RunError, PolicyOutcome) eff" where
  "handle_network_teardown_with_outcome env config marker attempt_state event read_error =
     (case from_runtime_event event of
        Some (LifecycleNetworkTeardown pending) \<Rightarrow>
          (let decision = decide_network_teardown
                 \<lparr>policy_enabled = is_enabled (system_sleep_wake_policy config),
                  sleep_pending = pending, phase_read_error = read_error\<rparr> in
           case step decision of
             AttemptPreSleep \<Rightarrow>
               thenE (say env msg_nm_preparing)
              (bindE (handle_system_suspend_with_outcome env config marker attempt_state event)
                 (\<lambda>(rail_outcome, disposition).
                   handle_network_teardown_rail_disposition env config marker attempt_state disposition
                     (merge (merge outcome_new (policy decision)) rail_outcome)))
           | ClearAttempt \<Rightarrow>
               bindE (tryE (attempt_clear env attempt_state)) (\<lambda>cleared.
               bindE (case cleared of
                        Inl err \<Rightarrow>
                          thenE (say env (msg_nm_attempt_kept err))
                            (returnE (with_diagnostic (diagnostic_warning (msg_diag_attempt_kept err))
                               (merge outcome_new (policy decision))))
                      | Inr _ \<Rightarrow> returnE (merge outcome_new (policy decision))) (\<lambda>out.
               thenE (say env msg_nm_leaving) (returnE out)))
           | TeardownStop \<Rightarrow>
               thenE (render_network_teardown_stop env (policy decision))
                 (returnE (merge outcome_new (policy decision))))
      | _ \<Rightarrow> raiseE (Run_Policy msg_not_network))"

section \<open>The legacy NetworkManager hook\<close>

definition msg_legacy_unknown :: "io_error \<Rightarrow> string" where
  "msg_legacy_unknown e =
     ''LG Buddy Sleep: Could not determine NetworkManager sleep state. Skipping. '' @ io_message e"
definition msg_legacy_auth :: string where
  "msg_legacy_auth =
     ''LG Buddy Sleep: Stored TV authentication is unavailable; skipping power_off fallback.''"

definition legacy_power_off ::
    "environment \<Rightarrow> ScreenOwnershipMarker \<Rightarrow> (world, RunError, unit) eff" where
  "legacy_power_off env marker =
     bindE (getsE (marker_exists marker)) (\<lambda>state_was_set.
     bindE (retry_power_off env SYSTEM_SLEEP_POWER_OFF_RETRIES) (\<lambda>ok.
       if ok then ioE (marker_create env marker)
       else if \<not> state_was_set then ioE (marker_clear env marker)
       else returnE ()))"

definition attempt_legacy_network_manager_sleep_with ::
    "environment \<Rightarrow> Config \<Rightarrow> ScreenOwnershipMarker \<Rightarrow> (world, RunError, unit) eff" where
  "attempt_legacy_network_manager_sleep_with env config marker =
     bindE (tryE (is_sleep_requested env)) (\<lambda>requested. case requested of
       Inr False \<Rightarrow> returnE ()
     | Inl err \<Rightarrow> say env (msg_legacy_unknown err)
     | Inr True \<Rightarrow>
         bindE (tryE (query_current_input_with_retries env SYSTEM_SLEEP_GET_INPUT_RETRIES)) (\<lambda>r. case r of
           Inr current_input \<Rightarrow>
             if \<not> is_hdmi current_input (input config) then ioE (marker_clear env marker)
             else legacy_power_off env marker
         | Inl err \<Rightarrow>
             if tv_error_kind err = Authentication then say env msg_legacy_auth
             else legacy_power_off env marker))"

end
