(* ===== verification/Lifecycle_Proofs.thy ===== *)
theory Lifecycle_Proofs
  imports Lifecycle
begin

text \<open>
  The proofs about the lifecycle handlers: locks are released on every way out, a marker is
  created only after an accepted power-off, the suspend rail's outcome file tells the truth and
  suppresses duplicates, waits are bounded, and a resume hands the TV back to the session.
\<close>

section \<open>Justified markers\<close>

fun powered_off_now :: "effect list \<Rightarrow> bool" where
  "powered_off_now (PoweredOff (Inr _) # es) = True"
| "powered_off_now _ = False"

fun system_justified :: "path \<Rightarrow> effect list \<Rightarrow> bool" where
  "system_justified p [] = True"
| "system_justified p (MarkerCreated q # es) = (q = p \<and> powered_off_now es \<and> system_justified p es)"
| "system_justified p (_ # es) = system_justified p es"

lemma powered_off_now_append: "powered_off_now es \<Longrightarrow> powered_off_now (es @ fs)"
  by (induction es rule: powered_off_now.induct) auto

lemma system_justified_append:
  "system_justified p es \<Longrightarrow> system_justified p fs \<Longrightarrow> system_justified p (es @ fs)"
  by (induction p es rule: system_justified.induct) (auto intro: powered_off_now_append)

definition system_step :: "path \<Rightarrow> world \<Rightarrow> world \<Rightarrow> bool" where
  "system_step p w w' \<longleftrightarrow> (\<exists>new. trace w' = new @ trace w \<and> system_justified p new)"

interpretation sys: world_preorder "system_step p"
proof
  show "system_step p w w" for w by (simp add: system_step_def)
  fix u v w assume "system_step p u v" "system_step p v w"
  then show "system_step p u w"
    unfolding system_step_def by (metis append.assoc system_justified_append)
qed

definition no_creation :: "effect \<Rightarrow> bool" where
  "no_creation e \<longleftrightarrow> (\<forall>q. e \<noteq> MarkerCreated q)"

lemma system_justified_no_creation: "list_all no_creation es \<Longrightarrow> system_justified p es"
proof (induction es)
  case (Cons e es) then show ?case by (cases e) (auto simp: no_creation_def)
qed simp

lemma system_extends: "stays (extends no_creation) m \<Longrightarrow> stays (system_step p) m"
  by (erule stays_mono) (auto simp: extends_def system_step_def intro: system_justified_no_creation)

lemma stays_clear_file: "(\<And>q. P (FileRemoved q)) \<Longrightarrow> stays (extends P) (clear_file env p)"
  by (rule wp_stays) (auto simp: wp_rules ext.R_refl extends_def split: option.splits)

lemma stays_write_outcome: "(\<And>e. file_effect e \<Longrightarrow> P e) \<Longrightarrow> stays (extends P) (write_outcome env s oc)"
  by (rule wp_stays, rule wp_mono [OF wp_write_outcome]) (auto simp: writes_at_def intro: extends_mono)

lemma stays_read_outcome: "stays (extends P) (read_outcome env s)"
  by (rule wp_stays) (auto simp: wp_rules ext.R_refl split: option.splits sum.splits)

lemma stays_try_lock: "stays (extends P) (try_lock env s)"
  by (rule wp_stays) (auto simp: wp_rules ext.R_refl extends_def split: option.splits)

lemma stays_say_flush: "(\<And>m. P (Wrote m)) \<Longrightarrow> P WriterFlushed \<Longrightarrow> stays (extends P) (say_flush env msg)"
  unfolding say_flush_def by (auto intro!: extends_rules)

lemma stays_clear_attempt: "(\<And>q. P (FileRemoved q)) \<Longrightarrow> (\<And>m. P (Wrote m)) \<Longrightarrow>
    stays (extends P) (clear_attempt_or_log env s)"
  unfolding clear_attempt_or_log_def attempt_clear_def
  by (auto intro!: extends_rules stays_clear_file split: sum.splits)

lemma stays_wait_for_cycle:
  assumes "\<And>d. P (Slept d)"
  shows "stays (extends P) (wait_for_cycle env s deadline waited)"
proof (induction env s deadline waited rule: wait_for_cycle.induct)
  case (1 env s deadline waited)
  then show ?case
    by (subst wait_for_cycle.simps)
       (auto simp: Let_def assms intro!: extends_rules stays_read_outcome stays_try_lock
         split: option.splits SystemSleepCycleOutcome.splits)
qed

lemma stays_wait_for_tv_network:
  assumes "\<And>m. P (Wrote m)" "P WriterFlushed" "\<And>r. P (NetworkWaited r)" "\<And>ip r. P (RouteWaited ip r)"
  shows "stays (extends P) (wait_for_tv_network env ip out)"
  unfolding wait_for_tv_network_def os_calls
  by (auto intro!: extends_rules stays_say_flush assms split: sum.splits)

lemma stays_send_wake:
  assumes "\<And>m. P (Wrote m)" "\<And>mac ip r. P (WakePacket mac ip r)"
  shows "stays (extends P) (lifecycle_send_wake_packet env prefix ip mac)"
  unfolding lifecycle_send_wake_packet_def power_wake_def
  by (auto intro!: extends_rules assms split: sum.splits)

lemmas lifecycle_rules = extends_rules stays_if stays_clear_file stays_write_outcome stays_read_outcome
  stays_try_lock stays_say_flush stays_clear_attempt stays_wait_for_cycle stays_wait_for_tv_network
  stays_send_wake

lemmas apply_system_simps = apply_system_screen_marker_transitions_def apply_transition_def
  marker_clear_def wp_rules ioE_def

lemma no_creation_simps [simp]:
  "no_creation (CurrentInputRead ir)" "no_creation (InputSet i sr)" "no_creation (PoweredOff sr)"
  "no_creation (WakePacket mac ip wr)" "no_creation (Slept d)" "no_creation (Wrote m)"
  "no_creation WriterFlushed" "no_creation (FileRemoved q)" "no_creation (FileWritten q c)"
  "no_creation (SleepRequestRead br)" "no_creation (RebootRead br)" "no_creation (NetworkWaited nr)"
  "no_creation (RouteWaited ip nr)" "no_creation (PhaseRead ph)"
  by (simp_all add: no_creation_def)

lemma file_effect_no_creation: "file_effect e \<Longrightarrow> no_creation e"
  by (auto simp: file_effect_def)

text \<open>Only creations need a reason; every other transition list leaves none in the history.\<close>

lemma stays_apply_system:
  assumes "\<And>q. P (FileRemoved q)" "list_all (\<lambda>t. \<forall>k r. t \<noteq> CreateMarker k r) (state_transitions out)"
  shows "stays (extends P) (apply_system_screen_marker_transitions env m out)"
  unfolding apply_system_screen_marker_transitions_def
  by (rule ext.stays_eachE)
     (use assms in \<open>auto simp: apply_transition_def marker_clear_def list_all_iff split: StateTransition.splits
       intro!: extends_rules stays_clear_file\<close>)

definition justified_since :: "path \<Rightarrow> bool \<Rightarrow> world \<Rightarrow> world \<Rightarrow> bool" where
  "justified_since p ok w v \<longleftrightarrow>
     (\<exists>new. trace v = new @ trace w \<and> system_justified p new \<and> (ok \<longrightarrow> powered_off_now new))"

lemma justified_since_step: "justified_since p ok w v \<Longrightarrow> system_step p w v"
  by (auto simp: justified_since_def system_step_def)

lemma system_finish:
  assumes "justified_since (marker_path m) (ob = Succeeded) w v"
  shows "wp (finish_system_sleep_power_off env m ob ctxt out)
     (\<lambda>_. system_step (marker_path m) w) (\<lambda>_. system_step (marker_path m) w) v"
proof -
  have "wp (apply_system_screen_marker_transitions env m (decide_system_sleep_power_off_result ob ctxt))
      (\<lambda>_. system_step (marker_path m) w) (\<lambda>_. system_step (marker_path m) w) v"
    using assms
    by (auto simp: apply_system_simps system_step_def justified_since_def create_system_marker_def
        clear_system_marker_def split: option.splits TvEffectObservation.splits SystemSleepPowerOffContext.splits)
  then show ?thesis
    unfolding finish_system_sleep_power_off_def Let_def
    by (rule sys.wp_then_stays)
       (auto simp: render_system_sleep_power_off_result_def intro!: sys.stays_thenE sys.stays_returnE
         system_extends extends_rules split: TvEffectObservation.splits SystemSleepPowerOffContext.splits)
qed

lemma power_off_justified:
  "wp (tryE (power_off env)) (\<lambda>off. justified_since p (tv_effect_observation off = Succeeded) w) (\<lambda>_ _. False) w"
  by (auto simp: wp_rules tv_calls justified_since_def split: sum.splits)

lemma retry_power_off_justified:
  "wp (retry_power_off env n) (\<lambda>ok. justified_since p ok w) (\<lambda>_ _. False) w"
proof (induction n arbitrary: w)
  case 0
  then show ?case by (simp add: wp_rules justified_since_def)
next
  case (Suc n)
  have later: "justified_since p ok v x \<Longrightarrow> trace v = new @ trace w \<Longrightarrow> system_justified p new \<Longrightarrow>
      justified_since p ok w x" for ok v x new
    unfolding justified_since_def
    by (metis append.assoc powered_off_now_append system_justified_append)
  show ?case
    by (auto simp: wp_rules tv_calls justified_since_def split: sum.splits)
       (auto intro!: wp_mono [OF Suc.IH] elim: later simp: justified_since_def [symmetric])
qed

lemma system_query: "stays (system_step p) (query_current_input_with_retries env n)"
proof (rule system_extends, induction n)
  case (Suc n)
  then show ?case
    by (auto simp: input_current_def intro!: extends_rules split: sum.splits)
qed (auto simp: input_current_def intro!: extends_rules)

lemma system_sleep_attempt:
  "stays (system_step (marker_path m)) (attempt_system_sleep_power_off_with_outcome env config m)"
proof -
  let ?R = "system_step (marker_path m)"
  have known: "stays ?R (bindE (tryE (power_off env))
      (\<lambda>off. finish_system_sleep_power_off env m (tv_effect_observation off) ctxt out))" for ctxt out
    by (rule wp_stays, rule wp_bindI [OF power_off_justified]) (auto intro: system_finish)
  have blind: "stays ?R (bindE (retry_power_off env n) (\<lambda>ok. finish_system_sleep_power_off env m
      (if ok then Succeeded else Failed msg) ctxt out))" for n msg ctxt out
    by (rule wp_stays, rule wp_bindI [OF retry_power_off_justified]) (auto intro!: system_finish)
  have clear: "stays ?R (apply_system_screen_marker_transitions env m
      (policy (decide_system_sleep_after_input i (InputCurrent c))))" for i c
    by (rule system_extends, rule stays_apply_system) (auto simp: clear_system_marker_def)
  show ?thesis
    unfolding attempt_system_sleep_power_off_with_outcome_def Let_def
    by (auto intro!: sys.stays_rules known blind clear system_query system_extends [OF stays_say]
        split: sum.splits SystemSleepNext.splits)
qed

lemma system_attempt_start:
  "stays (system_step p) (apply_system_sleep_attempt_transitions env s (policy (decide_system_sleep_attempt_start True)))"
  unfolding apply_system_sleep_attempt_transitions_def
  by (auto simp: decide_system_sleep_attempt_start_def apply_transition_def
      intro!: system_extends lifecycle_rules)

lemma system_owner:
  "stays (system_step (marker_path m)) (handle_system_suspend_owner_with_outcome env config m s)"
  unfolding handle_system_suspend_owner_with_outcome_def suspend_owner_body_def Let_def
  by (rule sys.stays_finallyE)
     (auto simp: system_step_def ioE_def intro!: sys.stays_rules system_sleep_attempt system_attempt_start
       system_extends [OF stays_read_outcome] system_extends [OF stays_write_outcome] file_effect_no_creation
       exI [of _ "[]"])

lemma system_suspend:
  "stays (system_step (marker_path m)) (handle_system_suspend_with_outcome env config m s event)"
  unfolding handle_system_suspend_with_outcome_def
  by (auto simp: ioE_def intro!: sys.stays_rules system_owner system_extends [OF stays_read_outcome]
      system_extends [OF stays_try_lock])

lemma system_teardown:
  "stays (system_step (marker_path m)) (handle_network_teardown_with_outcome env config m s event err)"
proof -
  have rail: "stays (system_step (marker_path m)) (handle_network_teardown_rail_disposition env config m s d out)" for d out
    unfolding handle_network_teardown_rail_disposition_def wait_for_system_sleep_cycle_observation_def
    by (auto split: SystemSleepCycleObservation.splits prod.splits
        intro!: sys.stays_rules sys.stays_finallyE system_owner system_extends [OF stays_say]
          system_extends [OF stays_wait_for_cycle])
       (simp_all add: system_step_def)
  show ?thesis
    unfolding handle_network_teardown_with_outcome_def Let_def render_network_teardown_stop_def attempt_clear_def
    by (auto split: option.splits LifecycleEvent.splits NetworkTeardownNext.splits sum.splits prod.splits
        intro!: sys.stays_rules rail system_suspend system_extends [OF stays_say] system_extends [OF stays_clear_file])
qed

lemma system_legacy:
  "stays (system_step (marker_path m)) (attempt_legacy_network_manager_sleep_with env config m)"
proof -
  let ?R = "system_step (marker_path m)"
  have last: "wp (if ok then ioE (marker_create env m) else if \<not> b then ioE (marker_clear env m) else returnE ())
      (\<lambda>_. ?R w) (\<lambda>_. ?R w) v" if "justified_since (marker_path m) ok w v" for ok b w v
    using that by (auto simp: apply_system_simps system_step_def justified_since_def split: option.splits)
  have off: "stays ?R (legacy_power_off env m)"
    unfolding legacy_power_off_def
  proof (rule sys.stays_bindE [OF sys.stays_getsE], rule wp_stays)
    fix b w
    show "wp (bindE (retry_power_off env SYSTEM_SLEEP_POWER_OFF_RETRIES) (\<lambda>ok.
        if ok then ioE (marker_create env m) else if \<not> b then ioE (marker_clear env m) else returnE ()))
        (\<lambda>_. ?R w) (\<lambda>_. ?R w) w"
      by (rule wp_bindI [OF retry_power_off_justified], erule last) simp
  qed
  show ?thesis
    unfolding attempt_legacy_network_manager_sleep_with_def os_calls marker_clear_def ioE_def
    by (auto split: sum.splits bool.splits
        intro!: sys.stays_rules off system_query system_extends [OF stays_say] system_extends [OF stays_askE]
          system_extends [OF stays_clear_file])
qed

lemma no_creation_resume: "stays (extends no_creation) (restore_after_system_sleep_with_outcome env config m)"
proof -
  have "stays (extends no_creation) (resume_attempts env config m ns out)" for ns out
    by (induction ns arbitrary: out)
       (auto simp: Let_def input_set_def clear_system_marker_def
         intro!: lifecycle_rules stays_apply_system split: sum.splits)
  then show ?thesis
    unfolding restore_after_system_sleep_with_outcome_def Let_def render_restore_after_system_sleep_start_def
    by (auto intro!: lifecycle_rules stays_apply_system)
qed

lemma no_creation_startup: "stays (extends no_creation) (run_startup_with_outcome env config m mode)"
proof -
  have "stays (extends no_creation) (startup_attempts env config ns out)" for ns out
    by (induction ns arbitrary: out)
       (auto simp: Let_def input_set_def intro!: lifecycle_rules split: sum.splits)
  then show ?thesis
    unfolding run_startup_with_outcome_def
    by (auto intro!: lifecycle_rules stays_apply_system no_creation_resume split: StartupRoute.splits
        simp: clear_system_marker_def)
qed

text \<open>
  C27. The system marker always has a reason: on every way out of the suspend rail, the network
  teardown hook, the legacy hook, and startup or resume, each marker creation is of the system
  marker and comes directly after a power-off command the TV accepted; startup and resume create
  no marker at all.
\<close>

theorem system_marker_justified:
  "system_step (marker_path m) w (snd (handle_system_suspend_with_outcome env config m s event w)) \<and>
   system_step (marker_path m) w (snd (handle_network_teardown_with_outcome env config m s event err w)) \<and>
   system_step (marker_path m) w (snd (attempt_legacy_network_manager_sleep_with env config m w)) \<and>
   extends no_creation w (snd (run_startup_with_outcome env config m mode w))"
  using system_suspend system_teardown system_legacy no_creation_startup by (metis stays_def)

section \<open>Locks\<close>

text \<open>\<open>own_same w w'\<close>: this process holds the same locks in both worlds.\<close>

definition own_same :: "world \<Rightarrow> world \<Rightarrow> bool" where
  "own_same w w' \<longleftrightarrow> (\<forall>q. locks w' q = Some Ours \<longleftrightarrow> locks w q = Some Ours)"

interpretation own_locks: world_preorder own_same
  by unfold_locales (auto simp: own_same_def)

lemma own_ask: "stays own_same (askE answer rec)"
  by (simp add: stays_def askE_def Let_def own_same_def)

lemma own_say: "stays own_same (say env msg)" "stays own_same (flush env)" "stays own_same (writelnE env msg)"
  by (rule wp_stays, auto simp: say_defs wp_rules own_same_def split: option.splits)+

lemma own_sleep: "stays own_same (sleepE env d)"
  by (simp add: stays_def sleepE_def modifyE_def own_same_def)

lemma own_files: "stays own_same (clear_file env p)" "stays own_same (marker_create env m)"
    "stays own_same (read_outcome env s)" "stays own_same (mark_attempted env s)"
  by (rule wp_stays, auto simp: wp_rules own_same_def split: option.splits sum.splits)+

lemma own_write_outcome: "stays own_same (write_outcome env s oc)"
  by (rule wp_stays, rule wp_mono [OF wp_write_outcome]) (auto simp: writes_at_def own_same_def)

lemma own_apply_system: "stays own_same (apply_system_screen_marker_transitions env m out)"
  unfolding apply_system_screen_marker_transitions_def apply_transition_def marker_clear_def ioE_def
  by (auto intro!: own_locks.stays_rules own_files split: StateTransition.splits)

lemma own_apply_attempt: "stays own_same (apply_system_sleep_attempt_transitions env s out)"
  unfolding apply_system_sleep_attempt_transitions_def apply_transition_def clear_attempt_or_log_def
    attempt_clear_def ioE_def
  by (auto intro!: own_locks.stays_rules own_files own_say split: StateTransition.splits sum.splits)

lemma own_query: "stays own_same (query_current_input_with_retries env n)"
  by (induction n) (auto simp: input_current_def intro!: own_locks.stays_rules own_ask own_sleep split: sum.splits)

lemma own_retry: "stays own_same (retry_power_off env n)"
  by (induction n) (auto simp: power_off_def intro!: own_locks.stays_rules own_ask own_sleep split: sum.splits)

lemma own_sleep_attempt: "stays own_same (attempt_system_sleep_power_off_with_outcome env config m)"
  unfolding attempt_system_sleep_power_off_with_outcome_def finish_system_sleep_power_off_def Let_def
    render_system_sleep_power_off_result_def power_off_def
  by (auto intro!: own_locks.stays_rules own_query own_retry own_apply_system own_say own_ask
      split: sum.splits SystemSleepNext.splits TvEffectObservation.splits SystemSleepPowerOffContext.splits)

lemma own_owner_body: "stays own_same (suspend_owner_body env config m s)"
  unfolding suspend_owner_body_def Let_def ioE_def
  by (auto intro!: own_locks.stays_rules own_files own_write_outcome own_apply_attempt own_sleep_attempt)

text \<open>Once the lock is ours the owner gives it back, and touches no other lock.\<close>

lemma owner_releases:
  assumes "own_same w (unlock s v)" and "locks w (lock_path s) \<noteq> Some Ours"
  shows "wp (handle_system_suspend_owner_with_outcome env config m s) (\<lambda>_. own_same w) (\<lambda>_. own_same w) v"
  unfolding handle_system_suspend_owner_with_outcome_def wp_finallyE
  by (rule wp_mono [OF stays_wp [OF own_owner_body]])
     (use assms in \<open>auto simp: own_same_def split: if_splits\<close>)

definition beside_lock :: "SystemSleepCycleState \<Rightarrow> world \<Rightarrow> world \<Rightarrow> bool" where
  "beside_lock s w v \<longleftrightarrow> trace v = trace w \<and> (\<forall>q. q \<noteq> lock_path s \<longrightarrow> files v q = files w q)"

lemma try_lock_spec:
  "wp (ioE (try_lock env s))
     (\<lambda>acquired v. beside_lock s w v \<and>
        (if acquired then locks w (lock_path s) = None \<and> locks v = (locks w)(lock_path s \<mapsto> Ours)
         else locks w (lock_path s) \<noteq> None \<and> locks v = locks w))
     (\<lambda>_ v. beside_lock s w v \<and> locks v = locks w) w"
  by (auto simp: ioE_def wp_rules beside_lock_def fun_eq_iff split: option.splits)

lemma own_same_locked:
  "own_same w v \<Longrightarrow> locks x = (locks v)(lock_path s \<mapsto> Ours) \<Longrightarrow> locks v (lock_path s) = None \<Longrightarrow>
     own_same w (unlock s x) \<and> locks w (lock_path s) \<noteq> Some Ours"
  unfolding own_same_def by (metis fun_upd_apply option.distinct(1) unlock_fields(3))

lemma suspend_own_same:
  "wp (handle_system_suspend_with_outcome env config m s event) (\<lambda>_. own_same w) (\<lambda>_. own_same w) w"
proof (cases "is_suspend_event (from_runtime_event event)")
  case True
  then have nn: "\<not> \<not> is_suspend_event (from_runtime_event event)" by simp
  show ?thesis
    unfolding handle_system_suspend_with_outcome_def if_not_P [OF nn]
  proof (rule wp_bindI [OF try_lock_spec], goal_cases)
    case (1 acquired v)
    show ?case
    proof (cases acquired)
      case True
      then show ?thesis
        using 1 own_same_locked [OF own_locks.R_refl, of v w s] by (auto intro!: owner_releases)
    next
      case False
      then have "own_same w v" using 1 by (simp add: own_same_def)
      then show ?thesis using False
        by (auto simp: ioE_def wp_rules own_same_def split: option.splits sum.splits)
    qed
  qed (simp add: own_same_def)
qed (simp add: handle_system_suspend_with_outcome_def wp_raiseE own_locks.R_refl)

lemma wait_own_same:
  "wp (wait_for_cycle env s deadline waited)
     (\<lambda>observation v. if observation = CycleRetryable
        then own_same w (unlock s v) \<and> locks w (lock_path s) \<noteq> Some Ours else own_same w v)
     (\<lambda>_. own_same w) w"
proof (induction env s deadline waited arbitrary: w rule: wait_for_cycle.induct)
  case (1 env s deadline waited)
  have read: "wp (ioE (read_outcome env s)) (\<lambda>_ v. v = w) (\<lambda>_ v. v = w) w"
    by (auto simp: ioE_def wp_rules split: option.splits sum.splits)
  have look: "wp (case oc of
              Some Completed \<Rightarrow> returnE (Some CycleCompleted)
            | Some RetryableTransportFailure \<Rightarrow>
                bindE (ioE (try_lock env s)) (\<lambda>acquired.
                  returnE (if acquired then Some CycleRetryable else None))
            | _ \<Rightarrow> returnE None)
      (\<lambda>ob v. ob \<noteq> Some CycleInProgress \<and>
         (if ob = Some CycleRetryable then own_same w (unlock s v) \<and> locks w (lock_path s) \<noteq> Some Ours
          else own_same w v))
      (\<lambda>_. own_same w) w" for oc
  proof (cases "oc = Some RetryableTransportFailure")
    case True
    show ?thesis unfolding True option.case SystemSleepCycleOutcome.case
      by (rule wp_bindI [OF try_lock_spec])
         (auto simp: wp_rules own_same_def split: if_splits)
  qed (auto simp: wp_rules own_locks.R_refl split: option.splits SystemSleepCycleOutcome.splits)
  show ?case
    unfolding wait_for_cycle.simps [of env s deadline waited]
  proof (rule wp_bindI [OF read], goal_cases)
    case (1 oc v)
    show ?case unfolding \<open>v = w\<close>
    proof (rule wp_bindI [OF look], goal_cases)
      case (1 ob x)
      show ?case
      proof (cases ob)
        case (Some a)
        with 1 show ?thesis by (auto simp: wp_rules split: if_splits)
      next
        case None
        then have x: "own_same w x" using 1 by simp
        have ih: "\<not> deadline \<le> waited \<Longrightarrow> wp (wait_for_cycle env s deadline
              (waited + min SYSTEM_SLEEP_RAIL_WAIT_POLL (deadline - waited)))
            (\<lambda>observation v. if observation = CycleRetryable
              then own_same y (unlock s v) \<and> locks y (lock_path s) \<noteq> Some Ours else own_same y v)
            (\<lambda>_. own_same y) y" for y
          using "1.IH" None by blast
        have y: "own_same w (sleep_world env d x)" for d using x by (simp add: own_same_def)
        show ?thesis using None x
          by (auto simp: wp_rules Let_def intro!: wp_mono [OF ih] dest: y [THEN own_locks.R_trans])
             (use y in \<open>auto simp: own_same_def\<close>)
      qed
    qed auto
  qed (auto simp: own_locks.R_refl)
qed

lemma teardown_own_same:
  "stays own_same (handle_network_teardown_with_outcome env config m s event err)"
proof -
  have rail: "stays own_same (handle_network_teardown_rail_disposition env config m s d out)" for d out
  proof (cases "d \<noteq> JoinedInProgress \<and> d \<noteq> RetryableFailure")
    case True
    then show ?thesis
      by (simp add: handle_network_teardown_rail_disposition_def own_locks.stays_returnE)
  next
    case False
    show ?thesis
      unfolding handle_network_teardown_rail_disposition_def if_not_P [OF False]
        wait_for_system_sleep_cycle_observation_def
    proof (rule wp_stays, rule wp_bindI [OF wait_own_same], goal_cases)
      case (1 w observation v)
      show ?case
      proof (cases observation)
        case CycleRetryable
        then have v: "own_same w (unlock s v)" "locks w (lock_path s) \<noteq> Some Ours" using 1 by auto
        have unlocked: "own_same w x \<Longrightarrow> own_same w (unlock s x)" for x
          using v(2) by (auto simp: own_same_def)
        have said: "wp (say env msg_rail_retrying) (\<lambda>_ x. own_same w (unlock s x)) (\<lambda>_ x. own_same w (unlock s x)) v"
          using v by (auto simp: say_defs wp_rules own_same_def split: option.splits if_splits)
        show ?thesis
          unfolding CycleRetryable SystemSleepCycleObservation.case wp_finallyE
          by (rule wp_thenI [OF said], rule wp_bindI [OF owner_releases])
             (auto simp: v wp_rules intro: unlocked)
      qed (use 1 in \<open>auto simp: say_defs wp_rules own_same_def split: option.splits\<close>)
    qed auto
  qed
  show ?thesis
    unfolding handle_network_teardown_with_outcome_def Let_def render_network_teardown_stop_def attempt_clear_def
    by (auto split: option.splits LifecycleEvent.splits NetworkTeardownNext.splits sum.splits prod.splits
        intro!: own_locks.stays_rules rail wp_stays [OF suspend_own_same] own_say own_files)
qed

text \<open>
  The suspend rail never leaks its lock: whatever fails inside, on every way out of the rail
  and of the network teardown hook (which may take the lock over from a failed owner) this
  process holds exactly the locks it held before.
\<close>

theorem rail_lock_released:
  "own_same w (snd (handle_system_suspend_with_outcome env config m s event w)) \<and>
   own_same w (snd (handle_network_teardown_with_outcome env config m s event err w))"
  using wp_stays [OF suspend_own_same] teardown_own_same by (metis stays_def)

section \<open>Waiting\<close>

lemma wait_spends:
  "spends slept (deadline - waited) (wait_for_cycle env s deadline waited)"
proof (induction env s deadline waited rule: wait_for_cycle.induct)
  case (1 env s deadline waited)
  let ?d = "min SYSTEM_SLEEP_RAIL_WAIT_POLL (deadline - waited)"
  have look: "spends slept 0 (case oc of
              Some Completed \<Rightarrow> returnE (Some CycleCompleted)
            | Some RetryableTransportFailure \<Rightarrow>
                bindE (ioE (try_lock env s)) (\<lambda>acquired.
                  returnE (if acquired then Some CycleRetryable else None))
            | _ \<Rightarrow> returnE None)" for oc
    by (rule slp.spends_free)
       (auto intro!: lifecycle_rules split: option.splits SystemSleepCycleOutcome.splits)
  have round: "\<not> deadline \<le> waited \<Longrightarrow> spends slept (deadline - waited)
      (thenE (sleepE env ?d) (wait_for_cycle env s deadline (waited + ?d)))"
    by (rule spends_mono [OF spends_thenE [OF slp.spends_sleep "1.IH"]]) auto
  show ?case
    unfolding wait_for_cycle.simps [of env s deadline waited]
    by (rule spends_bind_first [OF slp.spends_free], simp add: ioE_def ext.stays_mapErrE stays_read_outcome,
        rule spends_bind_first [OF look])
       (auto simp: Let_def intro!: spends_nothing round split: option.splits)
qed

text \<open>No sleep happens inside the rail itself: one input query and at most one power-off.\<close>

definition awake :: "effect \<Rightarrow> bool" where
  "awake e \<longleftrightarrow> (\<forall>d. e \<noteq> Slept d)"

lemma awake_simps [simp]:
  "awake (CurrentInputRead ir)" "awake (PoweredOff sr)" "awake (Wrote m)" "awake (FileRemoved q)"
  "awake (FileWritten q c)" "awake (MarkerCreated q)"
  by (simp_all add: awake_def)

lemma awake_file_effect: "file_effect e \<Longrightarrow> awake e"
  by (auto simp: file_effect_def)

lemma spends_awake: "stays (extends awake) m \<Longrightarrow> spends slept 0 m"
proof (erule spends_extends)
  show "awake e \<Longrightarrow> slept e = 0" for e by (cases e) (auto simp: awake_def)
qed

lemma stays_apply_system_any:
  assumes "\<And>q. P (FileRemoved q)" "\<And>q. P (MarkerCreated q)"
  shows "stays (extends P) (apply_system_screen_marker_transitions env m out)"
  unfolding apply_system_screen_marker_transitions_def apply_transition_def
  by (auto intro!: extends_rules stays_marker_ops assms split: StateTransition.splits)

lemma awake_sleep_attempt: "stays (extends awake) (attempt_system_sleep_power_off_with_outcome env config m)"
proof -
  have "stays (extends awake) (retry_power_off env SYSTEM_PRE_SLEEP_POWER_OFF_ATTEMPTS)"
    "stays (extends awake) (query_current_input_with_retries env SYSTEM_PRE_SLEEP_GET_INPUT_RETRIES)"
    by (auto simp: SYSTEM_PRE_SLEEP_POWER_OFF_ATTEMPTS_def SYSTEM_PRE_SLEEP_GET_INPUT_RETRIES_def
        power_off_def input_current_def intro!: extends_rules split: sum.splits)
  then show ?thesis
    unfolding attempt_system_sleep_power_off_with_outcome_def finish_system_sleep_power_off_def Let_def
      render_system_sleep_power_off_result_def power_off_def
    by (auto intro!: extends_rules stays_apply_system_any
        split: sum.splits SystemSleepNext.splits TvEffectObservation.splits SystemSleepPowerOffContext.splits)
qed

lemma awake_owner: "stays (extends awake) (handle_system_suspend_owner_with_outcome env config m s)"
proof -
  have "stays (extends awake) (apply_system_sleep_attempt_transitions env s (policy (decide_system_sleep_attempt_start True)))"
    unfolding apply_system_sleep_attempt_transitions_def
    by (auto simp: decide_system_sleep_attempt_start_def apply_transition_def intro!: lifecycle_rules)
  then show ?thesis
    unfolding handle_system_suspend_owner_with_outcome_def suspend_owner_body_def Let_def
    by (intro ext.stays_finallyE) (auto intro!: lifecycle_rules awake_sleep_attempt awake_file_effect simp: extends_def)
qed

lemma awake_suspend: "stays (extends awake) (handle_system_suspend_with_outcome env config m s event)"
  unfolding handle_system_suspend_with_outcome_def by (auto intro!: lifecycle_rules awake_owner)

lemma spends_finallyE:
  "spends g k m \<Longrightarrow> (\<And>w. trace (f w) = trace w) \<Longrightarrow> spends g k (finallyE m f)"
  by (simp add: spends_def finallyE_def)

text \<open>
  C35. Network teardown is held up for a bounded time: the hook always returns, and all the
  sleeping it does, in the rail and while waiting for another owner's outcome, is at most the
  rail deadline, four seconds unless overridden.
\<close>

theorem teardown_wait_bounded:
  assumes "handle_network_teardown_with_outcome env config m s event err w = (r, w')"
  shows "weight slept (since w w') \<le> system_sleep_rail_deadline env \<and>
         (env_var env ''LG_BUDDY_SYSTEM_SLEEP_RAIL_DEADLINE_SECS'' = None \<longrightarrow>
            weight slept (since w w') \<le> from_secs 4)"
proof -
  have say0: "spends slept 0 (say env msg)" for msg by (rule slp.spends_say)
  have clear0: "spends slept 0 (clear_file env p)" for p
    by (rule spends_awake) (simp add: stays_clear_file)
  have wait: "spends slept (system_sleep_rail_deadline env)
      (wait_for_cycle env s (system_sleep_rail_deadline env) 0)"
    using wait_spends [of "system_sleep_rail_deadline env" 0 env s] by simp
  have rail: "spends slept (system_sleep_rail_deadline env)
      (handle_network_teardown_rail_disposition env config m s d out)" for d out
    unfolding handle_network_teardown_rail_disposition_def wait_for_system_sleep_cycle_observation_def
    by (auto intro!: spends_nothing spends_bind_last [OF wait]
        spends_then_first say0 spends_finallyE spends_bind_first [OF spends_awake [OF awake_owner]]
        split: SystemSleepCycleObservation.splits)
  have "spends slept (system_sleep_rail_deadline env)
      (handle_network_teardown_with_outcome env config m s event err)"
    unfolding handle_network_teardown_with_outcome_def Let_def render_network_teardown_stop_def
    by (auto intro!: spends_nothing spends_bind_first spends_then_first say0 rail spends_none spends_tryE
        spends_awake [OF awake_suspend] clear0 simp: attempt_clear_def
        split: option.splits LifecycleEvent.splits NetworkTeardownNext.splits sum.splits)
  from spends_since [OF this assms] show ?thesis
    by (auto simp: system_sleep_rail_deadline_def duration_override_secs_def SYSTEM_SLEEP_RAIL_DEADLINE_def)
qed

theorem teardown_wait_bounded_witness:
  "weight slept (since fresh_world (snd (handle_network_teardown_with_outcome calm example_config
     (marker_new ''/run/lg_buddy'') (cycle_state_new ''/run/lg_buddy'') (network_teardown_imminent (Some True))
     None fresh_world))) \<le> from_secs 4"
  using teardown_wait_bounded [OF surjective_pairing] by simp

section \<open>What the rail did\<close>

lemmas system_reasons = create_system_marker_def clear_system_marker_def

text \<open>
  What a pre-sleep attempt may have done: only the marker file differs, a power-off was sent only
  to a TV on the configured input or one that could not be asked (for a reason other than missing
  authentication), and a marker that was not there before means the TV accepted a power-off.
\<close>

definition sleep_effects :: "HdmiInput \<Rightarrow> ScreenOwnershipMarker \<Rightarrow> world \<Rightarrow> effect list \<Rightarrow> world \<Rightarrow> bool" where
  "sleep_effects i m w new v \<longleftrightarrow>
     locks v = locks w \<and> (\<forall>q. q \<noteq> marker_path m \<longrightarrow> files v q = files w q) \<and> trace v = new @ trace w \<and>
     (marker_exists m v \<longrightarrow> marker_exists m w \<or> PoweredOff (Inr ()) \<in> set new) \<and>
     ((\<exists>r. PoweredOff r \<in> set new) \<longrightarrow>
        CurrentInputRead (Inr (Hdmi i)) \<in> set new \<or>
        (\<exists>e. CurrentInputRead (Inl e) \<in> set new \<and> tv_error_kind e \<noteq> Authentication))"

definition sleep_safe :: "HdmiInput \<Rightarrow> ScreenOwnershipMarker \<Rightarrow> world \<Rightarrow> world \<Rightarrow> bool" where
  "sleep_safe i m w v \<longleftrightarrow> (\<exists>new. sleep_effects i m w new v)"

definition sleep_done :: "HdmiInput \<Rightarrow> ScreenOwnershipMarker \<Rightarrow> world \<Rightarrow> PolicyOutcome \<Rightarrow> world \<Rightarrow> bool" where
  "sleep_done i m w out v \<longleftrightarrow>
     (\<exists>new. sleep_effects i m w new v \<and>
        marker_exists m v = marker_after SystemScreenOwnership (marker_exists m w) (state_transitions out) \<and>
        (selects TvSystemSleepPowerOff out \<longleftrightarrow> (\<exists>r. PoweredOff r \<in> set new)))"

lemma sleep_effects_wrote:
  "sleep_effects i m w new v \<Longrightarrow> sleep_effects i m w (Wrote msg # new) (emit (Wrote msg) v)"
  by (auto simp: sleep_effects_def marker_exists_def)

lemma render_sleep_spec:
  "sleep_done i m w out v \<Longrightarrow> wp (render_system_sleep_power_off_result env ob ctxt)
     (\<lambda>_. sleep_done i m w out) (\<lambda>_. sleep_safe i m w) v"
proof -
  assume d: "sleep_done i m w out v"
  have "wp (say env msg) (\<lambda>_. sleep_done i m w out) (\<lambda>_. sleep_safe i m w) v" for msg
  proof (rule wp_mono [OF wp_say])
    show "v' = emit (Wrote msg) v \<Longrightarrow> sleep_done i m w out v'" for v'
      using d sleep_effects_wrote unfolding sleep_done_def
      by (fastforce simp: marker_exists_def)
    show "v' = v \<Longrightarrow> sleep_safe i m w v'" for v'
      using d by (auto simp: sleep_done_def sleep_safe_def)
  qed
  with d show ?thesis
    by (auto simp: render_system_sleep_power_off_result_def wp_returnE
        split: TvEffectObservation.splits SystemSleepPowerOffContext.splits)
qed

lemma finish_spec:
  assumes e: "sleep_effects i m w new v" "marker_exists m v = marker_exists m w"
    and ok: "ob = Succeeded \<Longrightarrow> PoweredOff (Inr ()) \<in> set new" "PoweredOff r \<in> set new"
    and out: "selects TvSystemSleepPowerOff out" "state_transitions out = []"
    and ctxt: "ctxt = FallbackAfterInputQueryFailure (marker_exists m w) \<or> ctxt = KnownInput"
  shows "wp (finish_system_sleep_power_off env m ob ctxt out)
     (\<lambda>out'. sleep_done i m w out') (\<lambda>_. sleep_safe i m w) v"
proof -
  let ?res = "decide_system_sleep_power_off_result ob ctxt"
  have sel: "selects TvSystemSleepPowerOff (merge out ?res)" using out by simp
  have "wp (apply_system_screen_marker_transitions env m ?res)
      (\<lambda>_. sleep_done i m w (merge out ?res)) (\<lambda>_. sleep_safe i m w) v"
  proof (cases ob)
    case Succeeded
    with e ok out sel show ?thesis
      by (auto simp: apply_system_simps sleep_done_def sleep_safe_def sleep_effects_def system_reasons
          marker_exists_def split: option.splits)
  next
    case (Failed d)
    with e ok out sel ctxt show ?thesis
      by (auto simp: apply_system_simps sleep_done_def sleep_safe_def sleep_effects_def system_reasons
          marker_exists_def split: option.splits SystemSleepPowerOffContext.splits)
  qed
  then show ?thesis
    unfolding finish_system_sleep_power_off_def Let_def
    by (rule wp_thenI) (auto simp: wp_rules intro!: wp_mono [OF render_sleep_spec])
qed

lemma sleep_effects_start: "sleep_effects i m w [] w"
  by (simp add: sleep_effects_def)

lemma sleep_attempt_spec:
  "wp (attempt_system_sleep_power_off_with_outcome env config m)
     (\<lambda>out. sleep_done (input config) m w out) (\<lambda>_. sleep_safe (input config) m w) w"
proof -
  let ?i = "input config"
  have said: "wp (say env msg) (\<lambda>_ v'. v' = emit (Wrote msg) v) (\<lambda>_. sleep_safe ?i m w) v"
    if "sleep_effects ?i m w new v" for msg new v
    using that by (auto simp: say_defs wp_rules sleep_safe_def split: option.splits)
  show ?thesis
  proof (cases "tv_current_input env (trace w)")
    case (Inr c)
    let ?v = "emit (CurrentInputRead (Inr c)) w"
    have v: "sleep_effects ?i m w [CurrentInputRead (Inr c)] ?v"
      by (simp add: sleep_effects_def marker_exists_def)
    show ?thesis
    proof (cases "is_hdmi c ?i")
      case True
      let ?out = "policy (decide_system_sleep_after_input ?i (InputCurrent c))"
      have off: "wp (finish_system_sleep_power_off env m (tv_effect_observation r) KnownInput ?out)
          (\<lambda>out. sleep_done ?i m w out) (\<lambda>_. sleep_safe ?i m w)
          (emit (PoweredOff r) (emit (Wrote (msg_sleep_turning_off ?i)) ?v))" for r
        by (rule finish_spec [where r = r and
              new = "[PoweredOff r, Wrote (msg_sleep_turning_off ?i), CurrentInputRead (Inr c)]"])
           (use True in \<open>auto simp: is_hdmi_eq sleep_effects_def marker_exists_def
              elim: tv_effect_observation.elims\<close>)
      from Inr True show ?thesis
        by (auto simp: attempt_system_sleep_power_off_with_outcome_def SYSTEM_PRE_SLEEP_GET_INPUT_RETRIES_def
            wp_rules tv_calls Let_def apply_system_screen_marker_transitions_def
            intro!: wp_mono [OF said [OF v]] off [of "Inl e" for e, simplified] off [of "Inr ()", simplified]
            split: sum.splits)
    next
      case False
      with Inr show ?thesis
        by (auto simp: attempt_system_sleep_power_off_with_outcome_def SYSTEM_PRE_SLEEP_GET_INPUT_RETRIES_def
            tv_calls Let_def apply_system_simps say_def sleep_done_def sleep_safe_def sleep_effects_def
            system_reasons marker_exists_def is_hdmi_eq selects_def [of _ outcome_new] split: option.splits)
    qed
  next
    case (Inl e)
    let ?v = "emit (CurrentInputRead (Inl e)) w"
    have v: "sleep_effects ?i m w [CurrentInputRead (Inl e)] ?v"
      by (simp add: sleep_effects_def marker_exists_def)
    show ?thesis
    proof (cases "tv_error_kind e = Authentication")
      case True
      with Inl v show ?thesis
        by (auto simp: attempt_system_sleep_power_off_with_outcome_def SYSTEM_PRE_SLEEP_GET_INPUT_RETRIES_def
            wp_rules tv_calls say_defs sleep_done_def sleep_safe_def sleep_effects_def marker_exists_def
            split: option.splits)
    next
      case False
      let ?out = "policy (decide_system_sleep_after_input ?i (InputUnknown (tv_error_display e)))"
      have off: "wp (finish_system_sleep_power_off env m (if is_ok r then Succeeded else Failed msg_power_off_failed)
            (FallbackAfterInputQueryFailure (marker_exists m w)) ?out)
          (\<lambda>out. sleep_done ?i m w out) (\<lambda>_. sleep_safe ?i m w)
          (emit (PoweredOff r) (emit (Wrote msg_sleep_query_failed) ?v))" for r
        by (rule finish_spec [where r = r and
              new = "[PoweredOff r, Wrote msg_sleep_query_failed, CurrentInputRead (Inl e)]"])
           (use False in \<open>auto simp: sleep_effects_def marker_exists_def is_ok_iff split: if_splits\<close>)
      from Inl False show ?thesis
        by (auto simp: attempt_system_sleep_power_off_with_outcome_def SYSTEM_PRE_SLEEP_GET_INPUT_RETRIES_def
            SYSTEM_PRE_SLEEP_POWER_OFF_ATTEMPTS_def wp_rules tv_calls Let_def
            intro!: wp_mono [OF said [OF v]] off [of "Inl e" for e, simplified] off [of "Inr ()", simplified]
            split: sum.splits)
    qed
  qed
qed

text \<open>The marker, the cycle file, its temporary files, the attempt marker and the lock are apart.\<close>

definition apart :: "environment \<Rightarrow> ScreenOwnershipMarker \<Rightarrow> SystemSleepCycleState \<Rightarrow> bool" where
  "apart env m s \<longleftrightarrow> marker_path m \<notin> {cycle_path s, attempt_path s, lock_path s} \<union>
       range (state_temp_path env (cycle_path s)) \<and> cycle_path s \<notin> {attempt_path s, lock_path s}"

lemma path_join_name:
  assumes "CHR ''/'' \<notin> set n" "n \<noteq> []"
  shows "file_name (path_join d n) = n"
proof -
  have stop: "file_name (x @ CHR ''/'' # n) = n" for x
  proof -
    have "takeWhile (\<lambda>c. c \<noteq> CHR ''/'') (rev n @ CHR ''/'' # rev x) = rev n @ []"
      using assms(1) by (subst takeWhile_append2) auto
    then show ?thesis by (simp add: file_name_def)
  qed
  have whole: "file_name n = n"
  proof -
    have "\<forall>c \<in> set (rev n). c \<noteq> CHR ''/''" using assms(1) by auto
    from takeWhile_eq_all_conv [THEN iffD2, OF this] show ?thesis
      unfolding file_name_def by (simp only: rev_rev_ident)
  qed
  have "hd n \<noteq> CHR ''/''" using assms by (metis list.set_sel(1))
  then consider "d = []" "path_join d n = n"
    | x where "path_join d n = x @ CHR ''/'' # n"
    unfolding path_join_def by (metis append.assoc append_Cons append_Nil append_butlast_last_id)
  then show ?thesis using stop whole by cases auto
qed

lemma apart_same_dir: "apart env (marker_new d) (cycle_state_new d')"
proof -
  have names: "file_name (path_join a SCREEN_OFF_BY_US_MARKER) = SCREEN_OFF_BY_US_MARKER"
    "file_name (path_join a SYSTEM_SLEEP_CYCLE_STATE) = SYSTEM_SLEEP_CYCLE_STATE"
    "file_name (path_join a SYSTEM_SLEEP_ATTEMPTED_MARKER) = SYSTEM_SLEEP_ATTEMPTED_MARKER"
    "file_name (path_join a SYSTEM_SLEEP_ATTEMPT_LOCK) = SYSTEM_SLEEP_ATTEMPT_LOCK" for a
    by (rule path_join_name; simp add: SCREEN_OFF_BY_US_MARKER_def SYSTEM_SLEEP_CYCLE_STATE_def
        SYSTEM_SLEEP_ATTEMPTED_MARKER_def SYSTEM_SLEEP_ATTEMPT_LOCK_def)+
  have temp: "hd (file_name (state_temp_path env p n)) = CHR ''.''" for p n
    using file_name_state_temp_path [of env p n] by simp
  have "state_temp_path env p n \<noteq> path_join d SCREEN_OFF_BY_US_MARKER" for p n
  proof
    assume "state_temp_path env p n = path_join d SCREEN_OFF_BY_US_MARKER"
    then show False using temp [of p n] names(1) [of d] by (simp add: SCREEN_OFF_BY_US_MARKER_def)
  qed
  then have 1: "path_join d SCREEN_OFF_BY_US_MARKER \<notin> range (state_temp_path env p)" for p
    by (metis rangeE)
  have 2: "SCREEN_OFF_BY_US_MARKER \<noteq> SYSTEM_SLEEP_CYCLE_STATE"
    "SCREEN_OFF_BY_US_MARKER \<noteq> SYSTEM_SLEEP_ATTEMPTED_MARKER" "SCREEN_OFF_BY_US_MARKER \<noteq> SYSTEM_SLEEP_ATTEMPT_LOCK"
    "SYSTEM_SLEEP_CYCLE_STATE \<noteq> SYSTEM_SLEEP_ATTEMPTED_MARKER" "SYSTEM_SLEEP_CYCLE_STATE \<noteq> SYSTEM_SLEEP_ATTEMPT_LOCK"
    by (simp_all add: SCREEN_OFF_BY_US_MARKER_def SYSTEM_SLEEP_CYCLE_STATE_def
        SYSTEM_SLEEP_ATTEMPTED_MARKER_def SYSTEM_SLEEP_ATTEMPT_LOCK_def)
  show ?thesis
    unfolding apart_def marker_new_def cycle_state_new_def
    using 1 2 names by (auto simp del: UN_iff) (metis names)+
qed

text \<open>What the owner of the rail returns and leaves behind.\<close>

definition rail_done :: "HdmiInput \<Rightarrow> ScreenOwnershipMarker \<Rightarrow> SystemSleepCycleState \<Rightarrow> world \<Rightarrow>
    PolicyOutcome \<times> SuspendRailDisposition \<Rightarrow> world \<Rightarrow> bool" where
  "rail_done i m s w res v \<longleftrightarrow> (case res of (out, d) \<Rightarrow>
     (case d of
        OwnerCompleted \<Rightarrow>
          files v (cycle_path s) = Some (outcome_line Completed) \<and>
          (selects TvSystemSleepPowerOff out \<longrightarrow> marker_exists m v \<and>
             (marker_exists m w \<or> (\<exists>new. trace v = new @ trace w \<and> PoweredOff (Inr ()) \<in> set new)))
      | RetryableFailure \<Rightarrow>
          files v (cycle_path s) = Some (outcome_line RetryableTransportFailure) \<and>
          selects TvSystemSleepPowerOff out \<and> \<not> marker_exists m v
      | DuplicateCompleted \<Rightarrow>
          \<not> selects TvSystemSleepPowerOff out \<and> trace v = trace w \<and>
          is_some_and (files w (cycle_path s)) (\<lambda>content. parse_outcome content = Inr Completed)
      | JoinedInProgress \<Rightarrow> False))"

lemma attempt_start_spec:
  "wp (apply_system_sleep_attempt_transitions env s (policy (decide_system_sleep_attempt_start True)))
     (\<lambda>_ v. (\<exists>new. trace v = new @ trace w) \<and> (\<forall>q. q \<noteq> attempt_path s \<longrightarrow> files v q = files w q))
     (\<lambda>_ _. True) w"
  by (auto simp: apply_system_sleep_attempt_transitions_def decide_system_sleep_attempt_start_def apply_transition_def
      clear_attempt_or_log_def attempt_clear_def ioE_def wp_rules split: option.splits)

lemma owner_body_spec:
  assumes a: "apart env m s"
  shows "wp (suspend_owner_body env config m s) (\<lambda>res. rail_done (input config) m s w res) (\<lambda>_ _. True) w"
proof -
  let ?start = "policy (decide_system_sleep_attempt_start True)"
  have start: "\<not> selects TvSystemSleepPowerOff ?start" by (simp add: decide_system_sleep_attempt_start_def)
  have read: "wp (ioE (read_outcome env s)) (\<lambda>oc v. v = w \<and>
      (oc = Some Completed \<longrightarrow> is_some_and (files w (cycle_path s)) (\<lambda>content. parse_outcome content = Inr Completed)))
      (\<lambda>_ _. True) w"
    by (auto simp: ioE_def wp_rules split: option.splits sum.splits)
  have wrote: "wp (ioE (write_outcome env s oc)) (\<lambda>_ v. files v (cycle_path s) = Some (outcome_line oc) \<and>
      files v (marker_path m) = files u (marker_path m) \<and> extends file_effect u v) (\<lambda>_ _. True) u" for oc u
    unfolding ioE_def wp_mapErrE
    by (rule wp_mono [OF wp_write_outcome]) (use a in \<open>auto simp: writes_at_def apart_def\<close>)
  show ?thesis
    unfolding suspend_owner_body_def Let_def
  proof (rule wp_bindI [OF read], goal_cases)
    case (1 oc v)
    show ?case
    proof (cases "oc = Some Completed")
      case True
      with 1 show ?thesis by (auto simp: wp_rules rail_done_def duplicate_system_suspend_outcome_def)
    next
      case False
      show ?thesis unfolding if_not_P [OF False]
      proof (rule wp_thenI [OF wrote], rule wp_thenI [OF attempt_start_spec],
          rule wp_bindI [OF sleep_attempt_spec], goal_cases)
        case (1 _ v1 _ v2 attempted v3)
        obtain n1 where n1: "trace v2 = n1 @ trace w" "marker_exists m v2 = marker_exists m w"
          using 1 \<open>v = w \<and> _\<close> a by (auto simp: extends_def marker_exists_def apart_def)
        obtain n2 where n2: "trace v3 = n2 @ trace v2"
            "marker_exists m v3 \<longrightarrow> marker_exists m v2 \<or> PoweredOff (Inr ()) \<in> set n2"
          using 1 by (auto simp: sleep_done_def sleep_effects_def)
        let ?out = "merge (merge outcome_new ?start) attempted"
        have fin: "rail_done (input config) m s w (?out, if oc' = RetryableTransportFailure then RetryableFailure
            else OwnerCompleted) v4"
          if t: "oc' = decide_system_sleep_cycle_outcome ?out (marker_exists m v3)"
            "files v4 (cycle_path s) = Some (outcome_line oc')"
            "files v4 (marker_path m) = files v3 (marker_path m)" "extends file_effect v3 v4" for oc' v4
        proof -
          obtain n3 where "trace v4 = n3 @ n2 @ n1 @ trace w"
            using t(4) n1(1) n2(1) by (auto simp: extends_def)
          moreover have "marker_exists m v4 = marker_exists m v3" using t(3) by (simp add: marker_exists_def)
          ultimately show ?thesis using t(1,2) n1(2) n2(2) start
            by (auto simp: rail_done_def decide_system_sleep_cycle_outcome_def intro!: exI [of _ "n3 @ n2 @ n1"])
        qed
        show ?case
          unfolding wp_bindE wp_getsE
          by (rule wp_thenI [OF wrote]) (auto simp only: wp_returnE simp_thms intro!: fin [OF refl])
      qed auto
    qed
  qed auto
qed

section \<open>Properties of the rail\<close>

lemma rail_done_beside:
  assumes "rail_done i m s v res x" "beside_lock s w v" "apart env m s"
  shows "rail_done i m s w res x"
  using assms
  by (auto simp: rail_done_def beside_lock_def apart_def marker_exists_def
      split: prod.splits SuspendRailDisposition.splits)

lemma suspend_spec:
  assumes a: "apart env m s"
  shows "wp (handle_system_suspend_with_outcome env config m s event)
     (\<lambda>res x. if snd res = JoinedInProgress then locks w (lock_path s) \<noteq> None \<and> trace x = trace w
        else rail_done (input config) m s w res x) (\<lambda>_ _. True) w"
proof (cases "is_suspend_event (from_runtime_event event)")
  case True
  then have nn: "\<not> \<not> is_suspend_event (from_runtime_event event)" by simp
  show ?thesis
    unfolding handle_system_suspend_with_outcome_def if_not_P [OF nn]
  proof (rule wp_bindI [OF try_lock_spec], goal_cases)
    case (1 acquired v)
    then have v: "beside_lock s w v" by simp
    show ?case
    proof (cases acquired)
      case True
      have ok: "rail_done (input config) m s v res x \<Longrightarrow>
          rail_done (input config) m s w res (unlock s x) \<and> snd res \<noteq> JoinedInProgress" for res x
        using rail_done_beside [OF _ v a, of "input config" res x]
        by (auto simp: rail_done_def marker_exists_def split: prod.splits SuspendRailDisposition.splits)
      show ?thesis using True
        by (auto simp: handle_system_suspend_owner_with_outcome_def wp_finallyE
            intro!: wp_mono [OF owner_body_spec [OF a]] dest!: ok)
    next
      case False
      with 1 a show ?thesis
        by (auto simp: ioE_def wp_rules rail_done_def duplicate_system_suspend_outcome_def beside_lock_def apart_def
            split: option.splits sum.splits)
    qed
  qed auto
qed (simp add: handle_system_suspend_with_outcome_def wp_raiseE)

text \<open>
  C2. The suspend rail reports what happened. When the rail returns, with the marker and the cycle
  files at their real paths in any two directories:
  \<^item> \<open>OwnerCompleted\<close>: the cycle file says completed, and if a power-off was selected the system
    marker is set and, unless it was set before, the TV accepted a power-off in this call;
  \<^item> \<open>RetryableFailure\<close>: the file says so, a power-off was selected and the marker is not set;
  \<^item> \<open>DuplicateCompleted\<close>: the cycle file already said completed and nothing was done;
  \<^item> \<open>JoinedInProgress\<close>: someone held the lock at the start, and nothing was done.
\<close>

theorem suspend_rail_truthful:
  assumes "handle_system_suspend_with_outcome env config (marker_new d) (cycle_state_new d') event w =
    (Inr (out, disposition), w')"
  shows "case disposition of
      OwnerCompleted \<Rightarrow>
        files w' (cycle_path (cycle_state_new d')) = Some (outcome_line Completed) \<and>
        (selects TvSystemSleepPowerOff out \<longrightarrow> marker_exists (marker_new d) w' \<and>
           (marker_exists (marker_new d) w \<or> PoweredOff (Inr ()) \<in> set (since w w')))
    | RetryableFailure \<Rightarrow>
        files w' (cycle_path (cycle_state_new d')) = Some (outcome_line RetryableTransportFailure) \<and>
        selects TvSystemSleepPowerOff out \<and> \<not> marker_exists (marker_new d) w'
    | DuplicateCompleted \<Rightarrow>
        is_some_and (files w (cycle_path (cycle_state_new d'))) (\<lambda>content. parse_outcome content = Inr Completed) \<and>
        trace w' = trace w
    | JoinedInProgress \<Rightarrow> locks w (lock_path (cycle_state_new d')) \<noteq> None \<and> trace w' = trace w"
  using wp_result [OF suspend_spec [OF apart_same_dir] assms]
  by (auto simp: rail_done_def since_eq split: SuspendRailDisposition.splits if_splits)

definition preparing_event :: RuntimeEvent where
  "preparing_event = from_logind_prepare_for_sleep True"

lemma preparing_event_is_suspend [simp]: "is_suspend_event (from_runtime_event preparing_event)"
  by (simp add: preparing_event_def from_logind_prepare_for_sleep_def from_runtime_event_def runtime_event_def)

theorem suspend_rail_truthful_witness:
  "\<exists>out w'. handle_system_suspend_with_outcome calm example_config (marker_new ''/run/lg_buddy'')
       (cycle_state_new ''/run/lg_buddy'') preparing_event
       (fresh_world\<lparr>locks := \<lambda>_. Some Others\<rparr>) = (Inr (out, JoinedInProgress), w') \<and> trace w' = []"
proof -
  let ?w = "fresh_world\<lparr>locks := \<lambda>_. Some Others\<rparr>"
  let ?run = "handle_system_suspend_with_outcome calm example_config (marker_new ''/run/lg_buddy'')
       (cycle_state_new ''/run/lg_buddy'') preparing_event"
  have ne: "cycle_path (cycle_state_new ''/run/lg_buddy'') \<noteq> lock_path (cycle_state_new ''/run/lg_buddy'')"
    using apart_same_dir [of calm "''/run/lg_buddy''" "''/run/lg_buddy''"] by (simp add: apart_def)
  have "wp ?run (\<lambda>res _. snd res = JoinedInProgress) (\<lambda>_ _. False) ?w"
    using ne by (simp add: handle_system_suspend_with_outcome_def ioE_def wp_rules)
  then obtain out w' where r: "?run ?w = (Inr (out, JoinedInProgress), w')"
    by (auto simp: wp_def split: prod.splits sum.splits)
  then show ?thesis using suspend_rail_truthful [OF r] by simp
qed

text \<open>
  Duplicate suspend handling is passive: if someone else owns the rail, or the cycle is
  already recorded as completed, the handler does not talk to the TV, writes no state, and leaves
  every file but the lock file as it was, on every way out.
\<close>

theorem duplicate_suspend_is_passive:
  assumes "locks w (lock_path s) \<noteq> None \<or>
      is_some_and (files w (cycle_path s)) (\<lambda>content. parse_outcome content = Inr Completed)"
    and "cycle_path s \<noteq> lock_path s"
    and "handle_system_suspend_with_outcome env config m s event w = (r, w')"
  shows "trace w' = trace w \<and> (\<forall>q. q \<noteq> lock_path s \<longrightarrow> files w' q = files w q)"
proof -
  have body: "wp (suspend_owner_body env config m s) (\<lambda>_. beside_lock s w) (\<lambda>_. beside_lock s w) v"
    if "beside_lock s w v" "is_some_and (files w (cycle_path s)) (\<lambda>content. parse_outcome content = Inr Completed)" for v
    using that assms(2)
    by (auto simp: suspend_owner_body_def ioE_def wp_bindE [of "mapErrE Run_Io (read_outcome env s)"] wp_mapErrE
        wp_read_outcome wp_returnE beside_lock_def is_some_and_iff split: option.splits)
  have "wp (handle_system_suspend_with_outcome env config m s event) (\<lambda>_. beside_lock s w) (\<lambda>_. beside_lock s w) w"
  proof (cases "is_suspend_event (from_runtime_event event)")
    case True
    then have nn: "\<not> \<not> is_suspend_event (from_runtime_event event)" by simp
    show ?thesis
      unfolding handle_system_suspend_with_outcome_def if_not_P [OF nn]
    proof (rule wp_bindI [OF try_lock_spec], goal_cases)
      case (1 acquired v)
      show ?case
      proof (cases acquired)
        case True
        with 1 assms(1) have "beside_lock s w v"
          "is_some_and (files w (cycle_path s)) (\<lambda>content. parse_outcome content = Inr Completed)" by auto
        from body [OF this] True show ?thesis
          by (auto simp: handle_system_suspend_owner_with_outcome_def wp_finallyE beside_lock_def elim!: wp_mono)
      next
        case False
        with 1 show ?thesis by (auto simp: ioE_def wp_rules split: option.splits sum.splits)
      qed
    qed auto
  qed (simp add: handle_system_suspend_with_outcome_def wp_raiseE beside_lock_def)
  from wp_result [OF this assms(3)] show ?thesis by (auto simp: beside_lock_def split: sum.splits)
qed

theorem duplicate_suspend_is_passive_witness:
  "trace (snd (handle_system_suspend_with_outcome calm example_config (marker_new ''/run/lg_buddy'')
       (cycle_state_new ''/run/lg_buddy'') preparing_event
       (fresh_world\<lparr>locks := \<lambda>_. Some Others\<rparr>))) = []"
proof -
  have "cycle_path (cycle_state_new ''/run/lg_buddy'') \<noteq> lock_path (cycle_state_new ''/run/lg_buddy'')"
    using apart_same_dir [of calm "''/run/lg_buddy''" "''/run/lg_buddy''"] by (simp add: apart_def)
  then show ?thesis
    using duplicate_suspend_is_passive [of "fresh_world\<lparr>locks := \<lambda>_. Some Others\<rparr>"
        "cycle_state_new ''/run/lg_buddy''" calm example_config "marker_new ''/run/lg_buddy''" preparing_event,
        OF _ _ surjective_pairing]
    by simp
qed

text \<open>
  C33. Going to sleep spares a TV that shows something else: a pre-sleep power-off is sent only if
  the TV said in this call that it is on the configured input, or could not be asked for a reason
  other than missing authentication; only the system marker's file may change; and a marker that
  was not there before means the TV accepted a power-off.
\<close>

theorem sleep_spares_other_inputs:
  assumes "attempt_system_sleep_power_off_with_outcome env config m w = (r, w')"
  shows "((\<exists>x. PoweredOff x \<in> set (since w w')) \<longrightarrow>
            CurrentInputRead (Inr (Hdmi (input config))) \<in> set (since w w') \<or>
            (\<exists>e. CurrentInputRead (Inl e) \<in> set (since w w') \<and> tv_error_kind e \<noteq> Authentication)) \<and>
         (marker_exists m w' \<longrightarrow> marker_exists m w \<or> PoweredOff (Inr ()) \<in> set (since w w')) \<and>
         locks w' = locks w \<and> (\<forall>q. q \<noteq> marker_path m \<longrightarrow> files w' q = files w q)"
proof -
  have "sleep_safe (input config) m w w'"
    using wp_result [OF sleep_attempt_spec assms] by (auto simp: sleep_done_def sleep_safe_def split: sum.splits)
  then obtain new where "sleep_effects (input config) m w new w'" by (auto simp: sleep_safe_def)
  then show ?thesis by (auto simp: sleep_effects_def since_eq)
qed

theorem sleep_spares_other_inputs_witness:
  "\<exists>r w'. attempt_system_sleep_power_off_with_outcome calm example_config (marker_new ''/run/lg_buddy'')
       fresh_world = (r, w') \<and> PoweredOff (Inr ()) \<in> set (since fresh_world w') \<and>
     CurrentInputRead (Inr (Hdmi Hdmi1)) \<in> set (since fresh_world w')"
proof -
  let ?run = "attempt_system_sleep_power_off_with_outcome calm example_config (marker_new ''/run/lg_buddy'')"
  have "wp ?run (\<lambda>_ w'. PoweredOff (Inr ()) \<in> set (trace w') \<and> (\<forall>e. CurrentInputRead (Inl e) \<notin> set (trace w')))
      (\<lambda>_ _. False) fresh_world"
    by (simp add: attempt_system_sleep_power_off_with_outcome_def finish_system_sleep_power_off_def
        render_system_sleep_power_off_result_def apply_system_simps say_def tv_calls Let_def system_reasons
        SYSTEM_PRE_SLEEP_GET_INPUT_RETRIES_def)
  then obtain r w' where r: "?run fresh_world = (r, w')" "PoweredOff (Inr ()) \<in> set (trace w')"
      "\<forall>e. CurrentInputRead (Inl e) \<notin> set (trace w')"
    by (auto simp: wp_def split: prod.splits sum.splits)
  moreover have "since fresh_world w' = trace w'" by (simp add: since_def)
  ultimately show ?thesis using sleep_spares_other_inputs [OF r(1)] by auto
qed

text \<open>
  C38. A system marker left over from an earlier cycle hides a failed power-off: if the TV is on the
  configured input, rejects the power-off, and the marker was already there, the cycle is still
  classified as completed, not as a retryable failure, although the trail warns that the
  power-off failed.
\<close>

theorem stale_marker_hides_failed_power_off:
  assumes "tv_current_input env (trace w) = Inr (Hdmi (input config))"
    and "tv_power_off env = (\<lambda>_. Inl e)" and "marker_exists m w"
    and "attempt_system_sleep_power_off_with_outcome env config m w = (Inr out, w')"
  shows "PoweredOff (Inl e) \<in> set (since w w') \<and> PoweredOff (Inr ()) \<notin> set (since w w') \<and>
         diagnostic_warning msg_diag_sleep_known \<in> set (diagnostics out) \<and>
         decide_system_sleep_cycle_outcome out (marker_exists m w') = Completed"
proof -
  have "wp (attempt_system_sleep_power_off_with_outcome env config m)
      (\<lambda>out v. marker_exists m v \<and> diagnostic_warning msg_diag_sleep_known \<in> set (diagnostics out) \<and>
         (\<exists>new. trace v = new @ trace w \<and> PoweredOff (Inl e) \<in> set new \<and> PoweredOff (Inr ()) \<notin> set new))
      (\<lambda>_ _. True) w"
    using assms(1-3)
    by (auto simp: attempt_system_sleep_power_off_with_outcome_def finish_system_sleep_power_off_def
        render_system_sleep_power_off_result_def apply_system_simps say_def tv_calls Let_def
        SYSTEM_PRE_SLEEP_GET_INPUT_RETRIES_def marker_exists_def split: option.splits)
  from wp_result [OF this assms(4)] show ?thesis
    by (auto simp: since_eq decide_system_sleep_cycle_outcome_def)
qed

definition left_over_world :: world where
  "left_over_world = fresh_world\<lparr>files := (\<lambda>_. None)(marker_path (marker_new ''/run/lg_buddy'') \<mapsto> [])\<rparr>"

theorem stale_marker_hides_failed_power_off_witness:
  "\<exists>out w'. attempt_system_sleep_power_off_with_outcome
       (calm\<lparr>tv_power_off := \<lambda>_. Inl (TvError PowerOffOp Transport ''timed out'')\<rparr>) example_config
       (marker_new ''/run/lg_buddy'') left_over_world = (Inr out, w') \<and>
     decide_system_sleep_cycle_outcome out (marker_exists (marker_new ''/run/lg_buddy'') w') = Completed"
proof -
  let ?env = "calm\<lparr>tv_power_off := \<lambda>_. Inl (TvError PowerOffOp Transport ''timed out'')\<rparr>"
  let ?run = "attempt_system_sleep_power_off_with_outcome ?env example_config (marker_new ''/run/lg_buddy'')"
  have env: "tv_current_input ?env h = Inr (Hdmi (input example_config))" "writer_fault ?env h = None" for h
    by simp_all
  have m: "marker_exists (marker_new ''/run/lg_buddy'') left_over_world"
    by (simp add: marker_exists_def left_over_world_def)
  have "wp ?run (\<lambda>_ _. True) (\<lambda>_ _. False) left_over_world"
    by (simp add: attempt_system_sleep_power_off_with_outcome_def finish_system_sleep_power_off_def
        render_system_sleep_power_off_result_def apply_system_simps say_def tv_calls Let_def
        SYSTEM_PRE_SLEEP_GET_INPUT_RETRIES_def)
  then obtain out w' where r: "?run left_over_world = (Inr out, w')"
    by (auto simp: wp_def split: prod.splits sum.splits)
  then show ?thesis
    using stale_marker_hides_failed_power_off [OF _ _ m r] by auto
qed

section \<open>Resume, startup, shutdown\<close>

lemma system_clear_spec:
  assumes "state_transitions out = [clear_system_marker reason]"
  shows "wp (apply_system_screen_marker_transitions env m out)
     (\<lambda>_ v. \<not> marker_exists m v \<and> locks v = locks w) (\<lambda>_ _. True) w"
  using assms by (auto simp: apply_system_simps system_reasons marker_exists_def split: option.splits)

lemma say_flush_keeps:
  "wp (say_flush env msg) (\<lambda>_ v. files v = files w) (\<lambda>_ _. True) w"
  by (auto simp: say_flush_def say_defs wp_rules split: option.splits)

lemma wp_drop: "(\<And>v. wp n Q (\<lambda>_ _. True) v) \<Longrightarrow> wp (thenE m n) Q (\<lambda>_ _. True) w"
  unfolding wp_thenE by (auto simp: wp_def split: prod.splits sum.splits)

lemma resume_attempts_clear:
  "wp (resume_attempts env config m ns out) (\<lambda>_ v. \<not> marker_exists m v) (\<lambda>_ _. True) w"
proof (induction ns arbitrary: out w)
  case Nil
  show ?case
    unfolding resume_attempts.simps
    by (rule wp_drop, rule wp_thenI [OF system_clear_spec]) (auto simp: wp_returnE)
next
  case (Cons n ns)
  have ok: "wp (thenE (apply_system_screen_marker_transitions env m decide_system_resume_input_succeeded)
      (thenE (say_flush env msg) (returnE x))) (\<lambda>_ v. \<not> marker_exists m v) (\<lambda>_ _. True) v" for msg x v
    by (rule wp_thenI [OF system_clear_spec], simp, rule wp_thenI [OF say_flush_keeps])
       (auto simp: wp_returnE marker_exists_def)
  have auth: "wp (thenE (say_flush env msg) (thenE (apply_system_screen_marker_transitions env m
      (decide_system_resume_input_exhausted d)) (returnE x))) (\<lambda>_ v. \<not> marker_exists m v) (\<lambda>_ _. True) v"
    for msg d x v
    by (rule wp_drop, rule wp_thenI [OF system_clear_spec]) (auto simp: wp_returnE)
  show ?case
    unfolding resume_attempts.simps Let_def wp_bindE wp_tryE input_set_def wp_askE
    by (auto split: sum.splits intro!: ok auth) (intro wp_drop Cons.IH)
qed

lemma resume_clears:
  "wp (restore_after_system_sleep_with_outcome env config m) (\<lambda>_ v. \<not> marker_exists m v) (\<lambda>_ _. True) w"
proof -
  have drop: "(\<And>a v. wp (f a) Q (\<lambda>_ _. True) v) \<Longrightarrow> wp (bindE k f) Q (\<lambda>_ _. True) u"
    for f Q u and k :: "(world, RunError, PolicyOutcome) eff"
    unfolding wp_bindE by (auto simp: wp_def split: prod.splits sum.splits)
  have stop: "wp (render_restore_after_system_sleep_start env b d) (\<lambda>_ v. files v = files w) (\<lambda>_ _. True) w" for b d
    by (auto simp: render_restore_after_system_sleep_start_def say_defs wp_rules split: option.splits)
  show ?thesis
    unfolding restore_after_system_sleep_with_outcome_def Let_def wp_bindE [of "getsE (marker_exists m)"] wp_getsE
    by (rule wp_thenI [OF stop])
       (auto simp: wp_returnE restore_is_allowed_def marker_exists_def
         intro!: drop wp_drop resume_attempts_clear [unfolded marker_exists_def not_not]
         simp del: upt_Suc)
qed

text \<open>
  A resume hands the TV back to the session: whenever the resume handler returns normally,
  whether it restored the TV, gave up, or found nothing to do, the system marker that blocks
  session screen actions is gone.
\<close>

theorem resume_hands_tv_back:
  assumes "restore_after_system_sleep_with_outcome env config m w = (Inr out, w')"
  shows "\<not> marker_exists m w'"
  using wp_result [OF resume_clears assms] by simp

theorem resume_hands_tv_back_witness:
  "marker_exists (marker_new ''/run/lg_buddy'') left_over_world \<and>
   (\<exists>out w'. restore_after_system_sleep_with_outcome calm example_config (marker_new ''/run/lg_buddy'')
       left_over_world = (Inr out, w') \<and> \<not> marker_exists (marker_new ''/run/lg_buddy'') w')"
proof -
  let ?run = "restore_after_system_sleep_with_outcome calm example_config (marker_new ''/run/lg_buddy'')"
  have m: "marker_exists (marker_new ''/run/lg_buddy'') left_over_world"
    by (simp add: marker_exists_def left_over_world_def)
  have "wp ?run (\<lambda>_ _. True) (\<lambda>_ _. False) left_over_world"
    using m
    by (simp add: restore_after_system_sleep_with_outcome_def render_restore_after_system_sleep_start_def
        wait_for_tv_network_def say_flush_def restore_is_allowed_def lifecycle_send_wake_packet_def os_calls
        STARTUP_WAKE_ATTEMPTS_def upt_conv_Cons apply_system_simps say_defs tv_calls Let_def system_reasons)
  then obtain out w' where "?run left_over_world = (Inr out, w')"
    by (auto simp: wp_def split: prod.splits sum.splits)
  then show ?thesis using m resume_hands_tv_back by blast
qed

definition shutdown_safe :: "HdmiInput \<Rightarrow> world \<Rightarrow> world \<Rightarrow> bool" where
  "shutdown_safe i w v \<longleftrightarrow> files v = files w \<and> locks v = locks w \<and>
     (\<exists>new. trace v = new @ trace w \<and>
        ((\<exists>r. PoweredOff r \<in> set new) \<longrightarrow> RebootRead (Inr True) \<notin> set new \<and>
           (CurrentInputRead (Inr (Hdmi i)) \<in> set new \<or>
            (\<exists>e. CurrentInputRead (Inl e) \<in> set new \<and> tv_error_kind e \<noteq> Authentication))))"

lemma shutdown_query_safe:
  assumes "files v = files w" "locks v = locks w" "trace v = new @ trace w"
    "RebootRead (Inr True) \<notin> set new" "\<And>r. PoweredOff r \<notin> set new"
  shows "wp (shutdown_query_input env config out) (\<lambda>_. shutdown_safe (input config) w)
     (\<lambda>_. shutdown_safe (input config) w) v"
  using assms
  by (auto simp: shutdown_query_input_def shutdown_power_off_def log_shutdown_power_off_result_def
      wp_rules tv_calls say_defs Let_def shutdown_safe_def is_hdmi_eq split: option.splits sum.splits)

text \<open>
  Shutdown respects reboots and other inputs: a power-off is sent only when the machine was
  not reported to be rebooting and the TV said it is on the configured input, or could not be
  asked for a reason other than missing authentication; no file and no lock is touched.
\<close>

theorem shutdown_respects_reboot_and_input:
  "shutdown_safe (input config) w (snd (run_shutdown_with_outcome env config w))"
proof -
  have "wp (run_shutdown_with_outcome env config) (\<lambda>_. shutdown_safe (input config) w)
      (\<lambda>_. shutdown_safe (input config) w) w"
  proof (cases "reboot_detector env (trace w)")
    case (Inl e)
    let ?v = "emit (Wrote (msg_shutdown_unknown (io_message e))) (emit (RebootRead (Inl e)) w)"
    have "wp (shutdown_query_input env config out) (\<lambda>_. shutdown_safe (input config) w)
        (\<lambda>_. shutdown_safe (input config) w) ?v" for out
      by (rule shutdown_query_safe
          [where new = "[Wrote (msg_shutdown_unknown (io_message e)), RebootRead (Inl e)]"]) auto
    with Inl show ?thesis
      by (auto simp: run_shutdown_with_outcome_def wp_rules os_calls say_defs Let_def shutdown_safe_def
          split: option.splits)
  next
    case (Inr b)
    have "wp (shutdown_query_input env config out) (\<lambda>_. shutdown_safe (input config) w)
        (\<lambda>_. shutdown_safe (input config) w) (emit (RebootRead (Inr False)) w)" for out
      by (rule shutdown_query_safe [where new = "[RebootRead (Inr False)]"]) auto
    with Inr show ?thesis
      by (cases b) (auto simp: run_shutdown_with_outcome_def wp_rules os_calls say_defs Let_def shutdown_safe_def
          split: option.splits)
  qed
  then show ?thesis by (cases "run_shutdown_with_outcome env config w"; cases "fst (run_shutdown_with_outcome env config w)")
      (auto simp: wp_def)
qed

end
