(* ===== verification/Inactivity.thy ===== *)
theory Inactivity
  imports Prelude
begin

text \<open>
  The inactivity engine of \<open>session/inactivity.rs\<close>: the clock-driven state machine that decides
  when the TV is blanked, powered off after a blank, and restored. The engine is a record with
  the source's fields, each method a function returning the decision and the new engine; the
  caller's gate closure is passed with the state it captures, so that it is visible when the
  method consults it. \<open>engine_step\<close> and \<open>engine_exec\<close> run the methods in the order the
  session runner calls them. The invariant, the refinement of the abstract display protocol and
  the history theorems hold for every sequence of calls, with observation times in any order.
\<close>

section \<open>Observations, decisions, phases\<close>

datatype InactivityObservation =
  DesktopActivityObserved | ProviderActive | WakeRequested | UserActivityObserved

datatype InactivityDecision = BlankNow | TimedPowerOffNow | RestoreNow | NoOp

definition POST_LOCK_ACTIVITY_GRACE :: duration where
  "POST_LOCK_ACTIVITY_GRACE = from_secs 1"

datatype InactivityPhase =
  Unknown | Active | BlankRequested | Blanked | InactiveWithoutEscalation | TimedPowerOffAttempted

record InactivityEngine =
  blank_after :: duration
  blank_at :: "instant option"
  power_off_after :: duration
  power_off_at :: "instant option"
  phase :: InactivityPhase
  restore_pending :: bool
  session_locked_since :: "instant option"
  lock_activity_floor :: "instant option"
  post_lock_activity_grace_until :: "instant option"
  latest_independent_activity_at :: "instant option"
  activity_floor :: "instant option"

section \<open>Construction\<close>

definition DEFAULT_POWER_OFF_AFTER :: duration where
  "DEFAULT_POWER_OFF_AFTER = from_secs (5 * 60)"

definition new_with_power_off_after :: "duration \<Rightarrow> duration \<Rightarrow> instant \<Rightarrow> InactivityEngine" where
  "new_with_power_off_after blank_after' power_off_after' started_at =
     \<lparr>blank_after = blank_after',
      blank_at = Some (started_at + blank_after'),
      power_off_after = power_off_after',
      power_off_at = None,
      phase = Unknown,
      restore_pending = False,
      session_locked_since = None,
      lock_activity_floor = None,
      post_lock_activity_grace_until = None,
      latest_independent_activity_at = None,
      activity_floor = None\<rparr>"

definition engine_new :: "duration \<Rightarrow> instant \<Rightarrow> InactivityEngine" where
  "engine_new blank_after' started_at =
     new_with_power_off_after blank_after' DEFAULT_POWER_OFF_AFTER started_at"

definition new_with_restore_pending_and_power_off_after ::
    "duration \<Rightarrow> duration \<Rightarrow> instant \<Rightarrow> InactivityEngine" where
  "new_with_restore_pending_and_power_off_after blank_after' power_off_after' started_at =
     \<lparr>blank_after = blank_after',
      blank_at = Some (started_at + blank_after'),
      power_off_after = power_off_after',
      power_off_at = Some (started_at + power_off_after'),
      phase = Blanked,
      restore_pending = True,
      session_locked_since = None,
      lock_activity_floor = None,
      post_lock_activity_grace_until = None,
      latest_independent_activity_at = None,
      activity_floor = None\<rparr>"

definition new_with_restore_pending :: "duration \<Rightarrow> instant \<Rightarrow> InactivityEngine" where
  "new_with_restore_pending blank_after' started_at =
     new_with_restore_pending_and_power_off_after blank_after' DEFAULT_POWER_OFF_AFTER started_at"

section \<open>Methods\<close>

definition time_until_action :: "InactivityEngine \<Rightarrow> instant \<Rightarrow> duration option" where
  "time_until_action e now =
     (case phase e of
        Unknown \<Rightarrow> map_option (\<lambda>deadline. saturating_duration_since deadline now) (blank_at e)
      | Active \<Rightarrow> map_option (\<lambda>deadline. saturating_duration_since deadline now) (blank_at e)
      | Blanked \<Rightarrow> map_option (\<lambda>deadline. saturating_duration_since deadline now) (power_off_at e)
      | BlankRequested \<Rightarrow> None
      | InactiveWithoutEscalation \<Rightarrow> None
      | TimedPowerOffAttempted \<Rightarrow> None)"

definition timed_power_off_pending :: "InactivityEngine \<Rightarrow> bool" where
  "timed_power_off_pending e \<longleftrightarrow> phase e = Blanked \<and> power_off_at e \<noteq> None"

definition observe_provider_idle ::
    "InactivityEngine \<Rightarrow> instant \<Rightarrow> InactivityDecision \<times> InactivityEngine" where
  "observe_provider_idle e observed_at =
     (if is_some_and (activity_floor e) (\<lambda>floor. observed_at < floor) then (NoOp, e)
      else
        let e = e\<lparr>activity_floor := (case activity_floor e of
                      None \<Rightarrow> Some observed_at
                    | Some floor \<Rightarrow> Some (max floor observed_at))\<rparr>
        in if phase e \<notin> {Unknown, Active} then (NoOp, e)
           else (BlankNow, e\<lparr>phase := BlankRequested, blank_at := None\<rparr>))"

definition complete_blank :: "InactivityEngine \<Rightarrow> bool \<Rightarrow> instant \<Rightarrow> InactivityEngine" where
  "complete_blank e succeeded completed_at =
     (if phase e \<noteq> BlankRequested then e
      else if succeeded then
        e\<lparr>phase := Blanked, restore_pending := True,
          power_off_at := Some (completed_at + power_off_after e)\<rparr>
      else e\<lparr>phase := InactiveWithoutEscalation, power_off_at := None\<rparr>)"

definition independent_activity :: "InactivityObservation \<Rightarrow> bool" where
  "independent_activity observation \<longleftrightarrow>
     observation \<in> {DesktopActivityObserved, UserActivityObserved}"

definition inactive :: "InactivityEngine \<Rightarrow> bool" where
  "inactive e \<longleftrightarrow>
     phase e \<in> {BlankRequested, Blanked, InactiveWithoutEscalation, TimedPowerOffAttempted}"

definition observe_activity ::
    "InactivityEngine \<Rightarrow> InactivityObservation \<Rightarrow> instant \<Rightarrow> InactivityDecision \<times> InactivityEngine" where
  "observe_activity e observation observed_at =
     (if is_some_and (activity_floor e) (\<lambda>floor. observed_at < floor) then (NoOp, e)
      else
        let e = (if independent_activity observation then
                   e\<lparr>latest_independent_activity_at :=
                       Some (case latest_independent_activity_at e of
                               None \<Rightarrow> observed_at
                             | Some latest \<Rightarrow> max latest observed_at)\<rparr>
                 else e)
        in if session_locked_since e \<noteq> None \<and> observation \<in> {ProviderActive, WakeRequested}
           then (NoOp, e)
           else if inactive e \<and> independent_activity observation \<and>
               is_some_and (post_lock_activity_grace_until e) (\<lambda>grace_until. observed_at < grace_until)
           then (NoOp, e)
           else if inactive e \<and>
               is_some_and (lock_activity_floor e)
                 (\<lambda>locked_at. \<not> independent_activity observation \<or> observed_at \<le> locked_at)
           then (NoOp, e)
           else
             let e = e\<lparr>activity_floor := Some observed_at,
                       blank_at := Some (max (unwrap_or (blank_at e) observed_at)
                                             (observed_at + blank_after e))\<rparr>
             in case phase e of
                  BlankRequested \<Rightarrow> (RestoreNow, e\<lparr>phase := Active, restore_pending := False,
                                       power_off_at := None, lock_activity_floor := None\<rparr>)
                | Blanked \<Rightarrow> (RestoreNow, e\<lparr>phase := Active, restore_pending := False,
                                       power_off_at := None, lock_activity_floor := None\<rparr>)
                | InactiveWithoutEscalation \<Rightarrow>
                    (RestoreNow, e\<lparr>phase := Active, restore_pending := False,
                                       power_off_at := None, lock_activity_floor := None\<rparr>)
                | TimedPowerOffAttempted \<Rightarrow>
                    (RestoreNow, e\<lparr>phase := Active, restore_pending := False,
                                       power_off_at := None, lock_activity_floor := None\<rparr>)
                | Unknown \<Rightarrow>
                    (if restore_pending e \<or> observation \<noteq> DesktopActivityObserved
                     then (RestoreNow, e\<lparr>phase := Active, restore_pending := False\<rparr>)
                     else (NoOp, e\<lparr>phase := Active\<rparr>))
                | Active \<Rightarrow> (NoOp, e))"

text \<open>
  The gate is a closure the method may call: it takes the state it captures and returns its
  answer with the state it leaves.
\<close>

definition observe_time ::
    "InactivityEngine \<Rightarrow> instant \<Rightarrow> ('g \<Rightarrow> bool \<times> 'g) \<Rightarrow> 'g \<Rightarrow>
     InactivityDecision \<times> InactivityEngine \<times> 'g" where
  "observe_time e observed_at can_blank g =
     (if phase e \<in> {Unknown, Active} \<and>
         is_some_and (blank_at e) (\<lambda>deadline. deadline \<le> observed_at)
      then
        let (allowed, g) = can_blank g
        in if \<not> allowed then (NoOp, e, g)
           else (BlankNow, e\<lparr>phase := BlankRequested,
                             lock_activity_floor := session_locked_since e,
                             activity_floor := Some observed_at\<rparr>, g)
      else if phase e = Blanked \<and>
         is_some_and (power_off_at e) (\<lambda>deadline. deadline \<le> observed_at)
      then (TimedPowerOffNow, e\<lparr>phase := TimedPowerOffAttempted, power_off_at := None\<rparr>, g)
      else (NoOp, e, g))"

definition observe_lock ::
    "InactivityEngine \<Rightarrow> instant \<Rightarrow> InactivityDecision \<times> InactivityEngine" where
  "observe_lock e observed_at =
     (if session_locked_since e \<noteq> None then (NoOp, e)
      else
        let e = e\<lparr>session_locked_since := Some observed_at\<rparr>;
            grace_until = observed_at + POST_LOCK_ACTIVITY_GRACE
        in if is_some_and (latest_independent_activity_at e) (\<lambda>activity_at. grace_until \<le> activity_at)
           then (NoOp, e\<lparr>lock_activity_floor := None, post_lock_activity_grace_until := None\<rparr>)
           else
             let e = e\<lparr>lock_activity_floor := Some observed_at,
                       post_lock_activity_grace_until := Some grace_until\<rparr>
             in if inactive e then (NoOp, e)
                else (BlankNow, e\<lparr>phase := BlankRequested, blank_at := None\<rparr>))"

definition observe_unlock :: "InactivityEngine \<Rightarrow> InactivityEngine" where
  "observe_unlock e = e\<lparr>session_locked_since := None\<rparr>"

section \<open>Sequences of calls\<close>

datatype engine_event =
    ActivitySeen InactivityObservation instant
  | ProviderIdleSeen instant
  | TimeSeen instant bool
  | BlankCompleted bool instant
  | LockSeen instant
  | UnlockSeen

fun engine_step :: "InactivityEngine \<Rightarrow> engine_event \<Rightarrow> InactivityDecision \<times> InactivityEngine" where
  "engine_step e (ActivitySeen observation t) = observe_activity e observation t"
| "engine_step e (ProviderIdleSeen t) = observe_provider_idle e t"
| "engine_step e (TimeSeen t allowed) =
     (case observe_time e t (\<lambda>g. (allowed, g)) () of (d, e', _) \<Rightarrow> (d, e'))"
| "engine_step e (BlankCompleted succeeded t) = (NoOp, complete_blank e succeeded t)"
| "engine_step e (LockSeen t) = observe_lock e t"
| "engine_step e UnlockSeen = (NoOp, observe_unlock e)"

fun engine_exec ::
    "InactivityEngine \<Rightarrow> engine_event list \<Rightarrow> (engine_event \<times> InactivityDecision) list \<times> InactivityEngine" where
  "engine_exec e [] = ([], e)"
| "engine_exec e (ev # evs) =
     (let (d, e') = engine_step e ev; (log, e'') = engine_exec e' evs in ((ev, d) # log, e''))"

abbreviation engine_after :: "InactivityEngine \<Rightarrow> engine_event list \<Rightarrow> InactivityEngine" where
  "engine_after e evs \<equiv> snd (engine_exec e evs)"

abbreviation engine_log ::
    "InactivityEngine \<Rightarrow> engine_event list \<Rightarrow> (engine_event \<times> InactivityDecision) list" where
  "engine_log e evs \<equiv> fst (engine_exec e evs)"

lemmas engine_method_defs =
  observe_provider_idle_def complete_blank_def observe_activity_def observe_time_def
  observe_lock_def observe_unlock_def inactive_def independent_activity_def

lemma engine_exec_append:
  "engine_log e (xs @ ys) = engine_log e xs @ engine_log (engine_after e xs) ys"
  "engine_after e (xs @ ys) = engine_after (engine_after e xs) ys"
  by (induction xs arbitrary: e) (auto split: prod.splits simp: Let_def split_beta)

lemma engine_exec_step:
  "engine_log e (xs @ [ev]) = engine_log e xs @ [(ev, fst (engine_step (engine_after e xs) ev))]"
  "engine_after e (xs @ [ev]) = snd (engine_step (engine_after e xs) ev)"
  by (simp_all add: engine_exec_append split_beta Let_def)

section \<open>Invariant\<close>

abbreviation lit :: "InactivityEngine \<Rightarrow> bool" where
  "lit e \<equiv> \<not> inactive e"

lemma lit_iff: "lit e \<longleftrightarrow> phase e = Unknown \<or> phase e = Active"
  by (cases "phase e") (auto simp: inactive_def)

text \<open>
  While the display is on there is a deadline, at least \<open>blank_after\<close> past the activity floor,
  and no lock floor; the power-off deadline is armed exactly in the blanked phase; a restore is
  pending exactly after a confirmed blank.
\<close>

definition engine_inv :: "InactivityEngine \<Rightarrow> bool" where
  "engine_inv e \<longleftrightarrow>
     (lit e \<longrightarrow> (\<exists>deadline. blank_at e = Some deadline \<and>
         (\<forall>floor. activity_floor e = Some floor \<longrightarrow> floor + blank_after e \<le> deadline))) \<and>
     (lit e \<longrightarrow> lock_activity_floor e = None) \<and>
     (power_off_at e \<noteq> None \<longleftrightarrow> phase e = Blanked) \<and>
     (restore_pending e \<longleftrightarrow> phase e \<in> {Blanked, TimedPowerOffAttempted})"

lemma engine_inv_new:
  "engine_inv (new_with_power_off_after b p s)"
  "engine_inv (new_with_restore_pending_and_power_off_after b p s)"
  by (auto simp: engine_inv_def new_with_power_off_after_def inactive_def
      new_with_restore_pending_and_power_off_after_def)

lemma observe_activity_inv:
  "engine_inv e \<Longrightarrow> engine_inv (snd (observe_activity e observation t))"
  unfolding engine_inv_def observe_activity_def Let_def
  by (cases "phase e"; cases "blank_at e")
     (auto simp: inactive_def max_def split: option.splits)

lemma observe_provider_idle_inv:
  "engine_inv e \<Longrightarrow> engine_inv (snd (observe_provider_idle e t))"
  unfolding engine_inv_def observe_provider_idle_def Let_def
  by (cases "phase e") (auto simp: inactive_def split: option.splits)

lemma observe_time_inv:
  "engine_inv e \<Longrightarrow> engine_inv (fst (snd (observe_time e t gate g)))"
  unfolding engine_inv_def observe_time_def Let_def
  by (cases "phase e") (auto simp: inactive_def split: prod.splits)

lemma complete_blank_inv: "engine_inv e \<Longrightarrow> engine_inv (complete_blank e ok t)"
  unfolding engine_inv_def complete_blank_def by (auto simp: inactive_def)

lemma observe_lock_inv: "engine_inv e \<Longrightarrow> engine_inv (snd (observe_lock e t))"
  unfolding engine_inv_def observe_lock_def Let_def
  by (cases "phase e") (auto simp: inactive_def)

lemma observe_unlock_inv: "engine_inv e \<Longrightarrow> engine_inv (observe_unlock e)"
  unfolding engine_inv_def observe_unlock_def by (auto simp: inactive_def)

lemmas engine_method_inv = observe_activity_inv observe_provider_idle_inv observe_time_inv
  complete_blank_inv observe_lock_inv observe_unlock_inv

lemma engine_step_inv: "engine_inv e \<Longrightarrow> engine_inv (snd (engine_step e ev))"
  by (cases ev) (auto simp: engine_method_inv split_beta)

lemma engine_after_inv: "engine_inv e \<Longrightarrow> engine_inv (engine_after e evs)"
  by (induction evs arbitrary: e) (auto simp: split_beta Let_def engine_step_inv)


section \<open>The activity floor\<close>

definition floor_le :: "instant option \<Rightarrow> instant option \<Rightarrow> bool" where
  "floor_le a b \<longleftrightarrow> (\<forall>x. a = Some x \<longrightarrow> (\<exists>y. b = Some y \<and> x \<le> y))"

lemma floor_le_refl: "floor_le a a"
  by (simp add: floor_le_def)

lemma floor_le_trans: "floor_le a b \<Longrightarrow> floor_le b c \<Longrightarrow> floor_le a c"
  unfolding floor_le_def by fastforce

lemma observe_activity_floor:
  "floor_le (activity_floor e) (activity_floor (snd (observe_activity e observation t)))"
  by (cases "phase e"; cases "activity_floor e")
     (simp_all add: observe_activity_def inactive_def Let_def floor_le_def)

lemma observe_time_floor:
  assumes "engine_inv e"
  shows "floor_le (activity_floor e) (activity_floor (fst (snd (observe_time e t gate g))))"
proof (cases "lit e \<and> is_some_and (blank_at e) (\<lambda>d. d \<le> t)")
  case True
  then obtain d where d: "blank_at e = Some d" "d \<le> t" by (auto simp: is_some_and_iff)
  with True assms have "activity_floor e = Some f \<Longrightarrow> f \<le> t" for f
    by (force simp: engine_inv_def)
  with True show ?thesis
    by (cases "gate g") (auto simp: observe_time_def lit_iff floor_le_def)
next
  case False
  then show ?thesis by (auto simp: observe_time_def lit_iff floor_le_def)
qed

lemma engine_step_floor:
  assumes "engine_inv e"
  shows "floor_le (activity_floor e) (activity_floor (snd (engine_step e ev)))"
proof (cases ev)
  case (ProviderIdleSeen t)
  then show ?thesis
    by (cases "activity_floor e") (auto simp: observe_provider_idle_def Let_def floor_le_def)
next
  case (LockSeen t)
  then show ?thesis by (auto simp: observe_lock_def Let_def floor_le_def)
qed (auto simp: observe_activity_floor observe_time_floor [OF assms] split_beta
    complete_blank_def observe_unlock_def floor_le_refl)

lemma engine_after_floor:
  "engine_inv e \<Longrightarrow> floor_le (activity_floor e) (activity_floor (engine_after e evs))"
proof (induction evs arbitrary: e)
  case (Cons ev evs)
  let ?e' = "snd (engine_step e ev)"
  have "floor_le (activity_floor e) (activity_floor ?e')"
    using Cons.prems by (rule engine_step_floor)
  moreover have "floor_le (activity_floor ?e') (activity_floor (engine_after ?e' evs))"
    using Cons.prems by (intro Cons.IH engine_step_inv)
  ultimately show ?case by (simp add: split_beta Let_def floor_le_trans)
qed (simp add: floor_le_refl)

lemma engine_step_blank_after [simp]:
  "blank_after (snd (engine_step e ev)) = blank_after e"
  "power_off_after (snd (engine_step e ev)) = power_off_after e"
  by (cases ev; cases "phase e"; simp add: engine_method_defs Let_def split_beta)+

lemma engine_after_blank_after [simp]:
  "blank_after (engine_after e evs) = blank_after e"
  "power_off_after (engine_after e evs) = power_off_after e"
  by (induction evs arbitrary: e) (auto simp: split_beta Let_def)

lemma independent_activity_raises_floor:
  assumes "engine_inv e" and "independent_activity observation"
    and "lit e \<or> fst (observe_activity e observation t) = RestoreNow"
  shows "floor_le (Some t) (activity_floor (snd (observe_activity e observation t)))"
  using assms
  by (cases "phase e")
     (auto simp: observe_activity_def independent_activity_def Let_def floor_le_def is_some_and_iff
      inactive_def split: if_splits)

text \<open>
  C34. The engine's invariant holds after any sequence of calls, whichever constructor built the
  engine and in whatever order the observation times arrive: while the display is on, a blanking
  deadline exists and lies at least \<open>blank_after\<close> past the activity floor; the power-off
  deadline is armed exactly while the engine is in the blanked phase; a restore is pending
  exactly after a confirmed blank.
\<close>

theorem engine_always_inv:
  "engine_inv (engine_after (new_with_power_off_after b p s) evs) \<and>
   engine_inv (engine_after (new_with_restore_pending_and_power_off_after b p s) evs)"
  by (simp add: engine_after_inv engine_inv_new)

text \<open>
  C32. Idle blanking is never early: if the engine handles an independent activity observed at
  time \<open>a\<close> while the display is on (or restores because of it), then no later idle tick at
  \<open>t\<close> decides to blank before \<open>a + blank_after\<close>, whatever calls come in between, and even if
  observations were delivered out of order.
\<close>

theorem idle_blank_never_early:
  assumes start: "engine_inv e"
    and obs: "independent_activity observation"
    and handled: "lit (engine_after e before) \<or>
      fst (engine_step (engine_after e before) (ActivitySeen observation a)) = RestoreNow"
    and blank: "fst (engine_step (engine_after e (before @ ActivitySeen observation a # between))
      (TimeSeen t allowed)) = BlankNow"
  shows "a + blank_after e \<le> t"
proof -
  let ?e0 = "engine_after e before"
  let ?e1 = "snd (engine_step ?e0 (ActivitySeen observation a))"
  let ?e2 = "engine_after ?e1 between"
  have e2: "engine_after e (before @ ActivitySeen observation a # between) = ?e2"
    by (simp add: engine_exec_append split_beta Let_def)
  have inv0: "engine_inv ?e0" using start by (rule engine_after_inv)
  have inv1: "engine_inv ?e1" using inv0 by (rule engine_step_inv)
  have "floor_le (Some a) (activity_floor ?e1)"
    using independent_activity_raises_floor [OF inv0 obs] handled by simp
  then have "floor_le (Some a) (activity_floor ?e2)"
    using engine_after_floor [OF inv1] by (rule floor_le_trans)
  then obtain f where f: "activity_floor ?e2 = Some f" "a \<le> f"
    by (auto simp: floor_le_def)
  have "engine_inv ?e2" using inv1 by (rule engine_after_inv)
  moreover have "lit ?e2" "is_some_and (blank_at ?e2) (\<lambda>d. d \<le> t)"
    using blank unfolding e2
    by (auto simp: observe_time_def lit_iff split: if_splits prod.splits)
  ultimately have "f + blank_after ?e2 \<le> t"
    using f by (auto simp: engine_inv_def is_some_and_iff)
  moreover have "blank_after ?e2 = blank_after e"
    by (simp only: engine_after_blank_after engine_step_blank_after)
  ultimately show ?thesis using f(2) by linarith
qed

theorem idle_blank_never_early_witness:
  "(let e = new_with_power_off_after 5 3 0;
        evs = [] @ ActivitySeen UserActivityObserved 4 # [TimeSeen 8 True]
    in fst (engine_step (engine_after e evs) (TimeSeen 9 True)) = BlankNow \<and> 4 + blank_after e \<le> 9)"
proof -
  let ?e = "new_with_power_off_after 5 3 0"
  have "4 + blank_after ?e \<le> 9"
  proof (rule idle_blank_never_early [of ?e UserActivityObserved "[]" 4 "[TimeSeen 8 True]" 9 True])
    show "engine_inv ?e" by (rule engine_inv_new)
    show "independent_activity UserActivityObserved" by (simp add: independent_activity_def)
    show "lit (engine_after ?e []) \<or>
      fst (engine_step (engine_after ?e []) (ActivitySeen UserActivityObserved 4)) = RestoreNow"
      by (simp add: new_with_power_off_after_def inactive_def)
    show "fst (engine_step (engine_after ?e ([] @ ActivitySeen UserActivityObserved 4 # [TimeSeen 8 True]))
      (TimeSeen 9 True)) = BlankNow"
      by (simp add: new_with_power_off_after_def engine_method_defs)
  qed
  then show ?thesis
    by (simp add: new_with_power_off_after_def engine_method_defs)
qed

text \<open>
  Stale observations are inert: an activity or a system blank observed before the activity
  floor leaves the whole engine as it was and decides nothing, and the floor itself never moves
  back along any sequence of calls.
\<close>

theorem stale_observations_ignored:
  assumes "engine_inv e" and "activity_floor e = Some floor" and "t < floor"
  shows "engine_step (engine_after e []) (ActivitySeen observation t) = (NoOp, e) \<and>
         engine_step e (ProviderIdleSeen t) = (NoOp, e) \<and>
         (\<exists>floor'. activity_floor (engine_after e evs) = Some floor' \<and> floor \<le> floor')"
  using assms engine_after_floor [OF assms(1), of evs]
  by (simp add: observe_activity_def observe_provider_idle_def floor_le_def)

theorem stale_observations_ignored_witness:
  "(let e = snd (observe_activity (engine_new (from_secs 60) 0) UserActivityObserved 5)
    in engine_step e (ProviderIdleSeen 3) = (NoOp, e))"
proof -
  let ?e = "snd (observe_activity (engine_new (from_secs 60) 0) UserActivityObserved 5)"
  have inv: "engine_inv ?e" by (simp add: engine_new_def engine_inv_new observe_activity_inv)
  have floor: "activity_floor ?e = Some 5"
    by (simp add: engine_new_def new_with_power_off_after_def engine_method_defs)
  show ?thesis
    using stale_observations_ignored [OF inv floor, of 3 UserActivityObserved "[]"] by simp
qed

section \<open>The display protocol\<close>

text \<open>
  What the engine promises, as an abstract protocol of five display states. Labels are the
  decisions the engine hands to its caller and the caller's report of a blank attempt.
\<close>

datatype display = Lit | Blanking | Dark | NotBlanked | PoweredOff

datatype display_label = Decide InactivityDecision | Report bool

inductive display_step :: "display \<Rightarrow> display_label \<Rightarrow> display \<Rightarrow> bool" where
  stutter: "display_step d (Decide NoOp) d"
| blank: "display_step Lit (Decide BlankNow) Blanking"
| blank_confirmed: "display_step Blanking (Report True) Dark"
| blank_failed: "display_step Blanking (Report False) NotBlanked"
| report_ignored: "d \<noteq> Blanking \<Longrightarrow> display_step d (Report ok) d"
| power_off: "display_step Dark (Decide TimedPowerOffNow) PoweredOff"
| restore: "display_step d (Decide RestoreNow) Lit"

inductive_cases display_blankE: "display_step d (Decide BlankNow) d'"
inductive_cases display_power_offE: "display_step d (Decide TimedPowerOffNow) d'"
inductive_cases display_restoreE: "display_step d (Decide RestoreNow) d'"
inductive_cases display_noopE: "display_step d (Decide NoOp) d'"
inductive_cases display_reportE: "display_step d (Report ok) d'"

inductive_simps display_step_simps: "display_step d l d'"

fun display_of :: "InactivityPhase \<Rightarrow> display" where
  "display_of Unknown = Lit"
| "display_of Active = Lit"
| "display_of BlankRequested = Blanking"
| "display_of Blanked = Dark"
| "display_of InactiveWithoutEscalation = NotBlanked"
| "display_of TimedPowerOffAttempted = PoweredOff"

fun label_of :: "engine_event \<Rightarrow> InactivityDecision \<Rightarrow> display_label" where
  "label_of (BlankCompleted ok t) d = Report ok"
| "label_of ev d = Decide d"

lemma engine_step_display:
  "display_step (display_of (phase e)) (label_of ev (fst (engine_step e ev)))
     (display_of (phase (snd (engine_step e ev))))"
proof (cases ev)
  case (ActivitySeen observation t)
  then show ?thesis
    by (cases "phase e") (auto simp: observe_activity_def inactive_def Let_def intro: display_step.intros)
next
  case (ProviderIdleSeen t)
  then show ?thesis
    by (cases "phase e") (auto simp: observe_provider_idle_def Let_def intro: display_step.intros)
next
  case (TimeSeen t allowed)
  then show ?thesis
    by (cases "phase e") (auto simp: observe_time_def intro: display_step.intros)
next
  case (BlankCompleted ok t)
  then show ?thesis
    by (cases "phase e"; cases ok) (auto simp: complete_blank_def intro: display_step.intros)
next
  case (LockSeen t)
  then show ?thesis
    by (cases "phase e") (auto simp: observe_lock_def inactive_def Let_def intro: display_step.intros)
next
  case UnlockSeen
  then show ?thesis by (auto simp: observe_unlock_def intro: display_step.intros)
qed

inductive display_run :: "display \<Rightarrow> display_label list \<Rightarrow> display \<Rightarrow> bool" where
  run_stop: "display_run d [] d"
| run_step: "display_step d l d' \<Longrightarrow> display_run d' ls d'' \<Longrightarrow> display_run d (l # ls) d''"

text \<open>
  C5. Refinement: every run of the engine is a run of the abstract display protocol, each call
  labelled with the decision it returned (or with the reported outcome of the blank). So a blank is
  requested only from a lit display, a timed power-off only from a confirmed dark one, and only a
  restore decision leaves the inactive states.
\<close>

theorem engine_refines_display:
  "display_run (display_of (phase e)) (map (\<lambda>(ev, d). label_of ev d) (engine_log e evs))
     (display_of (phase (engine_after e evs)))"
proof (induction evs arbitrary: e)
  case Nil
  show ?case by (simp add: run_stop)
next
  case (Cons ev evs)
  then show ?case
    by (simp add: split_beta Let_def run_step [OF engine_step_display])
qed


lemma engine_step_decision_phase:
  "fst (engine_step e ev) = TimedPowerOffNow \<Longrightarrow>
     phase e = Blanked \<and> (\<exists>t allowed d. ev = TimeSeen t allowed \<and> power_off_at e = Some d \<and> d \<le> t)"
  by (cases ev; cases "phase e")
     (auto simp: engine_method_defs Let_def is_some_and_iff split: if_splits prod.splits)

lemma engine_step_arms:
  assumes "engine_inv e" and "power_off_at (snd (engine_step e ev)) = Some d"
  shows "fst (engine_step e ev) \<noteq> RestoreNow \<and>
    (power_off_at e = Some d \<or>
     (\<exists>c. ev = BlankCompleted True c \<and> d = c + power_off_after e \<and> phase e = BlankRequested))"
  using assms
  by (cases ev; cases "phase e")
     (auto simp: engine_method_defs engine_inv_def Let_def is_some_and_iff split: if_splits prod.splits)

text \<open>
  The ghost argument behind the timed power-off: an armed deadline was armed by a confirmed
  blank, with no restore since.
\<close>

lemma armed_since:
  assumes "engine_inv e" and "power_off_at (engine_after e evs) = Some d"
  shows "(\<exists>pre post c. engine_log e evs = pre @ (BlankCompleted True c, NoOp) # post \<and>
           d = c + power_off_after e \<and> (\<forall>x \<in> set post. snd x \<noteq> RestoreNow)) \<or>
         power_off_at e = Some d \<and> (\<forall>x \<in> set (engine_log e evs). snd x \<noteq> RestoreNow)"
    (is "?armed evs \<or> ?from_start evs")
  using assms(2)
proof (induction evs arbitrary: d rule: rev_induct)
  case (snoc ev evs)
  let ?e = "engine_after e evs"
  have inv: "engine_inv ?e" using assms(1) by (rule engine_after_inv)
  have arm: "fst (engine_step ?e ev) \<noteq> RestoreNow"
    "power_off_at ?e = Some d \<or> (\<exists>c. ev = BlankCompleted True c \<and> d = c + power_off_after e)"
    using engine_step_arms [OF inv, of ev d] snoc.prems by (auto simp: engine_exec_step)
  show ?case
  proof (cases "power_off_at ?e = Some d")
    case True
    from snoc.IH [OF this] show ?thesis
    proof
      assume "\<exists>pre post c. engine_log e evs = pre @ (BlankCompleted True c, NoOp) # post \<and>
        d = c + power_off_after e \<and> (\<forall>x \<in> set post. snd x \<noteq> RestoreNow)"
      then obtain pre post c where "engine_log e evs = pre @ (BlankCompleted True c, NoOp) # post"
        "d = c + power_off_after e" "\<forall>x \<in> set post. snd x \<noteq> RestoreNow" by blast
      then show ?thesis using arm(1)
        by (intro disjI1 exI [of _ pre] exI [of _ "post @ [(ev, fst (engine_step ?e ev))]"] exI [of _ c])
           (auto simp: engine_exec_step)
    qed (use arm(1) in \<open>auto simp: engine_exec_step\<close>)
  next
    case False
    with arm(2) obtain c where "ev = BlankCompleted True c" "d = c + power_off_after e" by blast
    then show ?thesis
      by (intro disjI1 exI [of _ "engine_log e evs"] exI [of _ "[]"] exI [of _ c])
         (simp add: engine_exec_step)
  qed
qed simp

text \<open>
  The timed power-off is earned: from a freshly started engine, whenever an idle tick at
  \<open>t\<close> decides to power the TV off, the log contains a blank that the TV confirmed at some time
  \<open>c\<close> with \<open>c + power_off_after \<le> t\<close>, and no restore was decided after that confirmation.
\<close>

theorem timed_power_off_earned:
  assumes "fst (engine_step (engine_after (new_with_power_off_after b p s) evs) ev) = TimedPowerOffNow"
  shows "\<exists>t allowed pre post c. ev = TimeSeen t allowed \<and>
    engine_log (new_with_power_off_after b p s) evs = pre @ (BlankCompleted True c, NoOp) # post \<and>
    c + p \<le> t \<and> (\<forall>x \<in> set post. snd x \<noteq> RestoreNow)"
proof -
  let ?n = "new_with_power_off_after b p s"
  obtain t allowed d where t: "ev = TimeSeen t allowed"
    and d: "power_off_at (engine_after ?n evs) = Some d" "d \<le> t"
    using engine_step_decision_phase [OF assms] by blast
  have "power_off_at ?n = None" "power_off_after ?n = p"
    by (simp_all add: new_with_power_off_after_def)
  with armed_since [OF engine_inv_new(1) d(1)] t d(2) show ?thesis
    by auto
qed

theorem timed_power_off_earned_witness:
  "\<exists>t allowed pre post c. TimeSeen 20 False = TimeSeen t allowed \<and>
    engine_log (new_with_power_off_after 5 3 0) [ProviderIdleSeen 10, BlankCompleted True 11]
      = pre @ (BlankCompleted True c, NoOp) # post \<and>
    c + 3 \<le> t \<and> (\<forall>x \<in> set post. snd x \<noteq> RestoreNow)"
  by (rule timed_power_off_earned)
     (simp add: new_with_power_off_after_def engine_method_defs)

lemma no_blank_unless_lit:
  "display_of (phase e) \<noteq> Lit \<Longrightarrow> \<forall>x \<in> set (engine_log e evs). snd x \<noteq> RestoreNow \<Longrightarrow>
     \<forall>x \<in> set (engine_log e evs). snd x \<noteq> BlankNow"
proof (induction evs arbitrary: e)
  case (Cons ev' evs)
  let ?d = "fst (engine_step e ev')" and ?e' = "snd (engine_step e ev')"
  have d: "?d \<noteq> RestoreNow" using Cons.prems(2) by (simp add: split_beta Let_def)
  have "display_of (phase ?e') \<noteq> Lit \<and> ?d \<noteq> BlankNow"
    using engine_step_display [of e ev'] Cons.prems(1) d
    by (cases ev'; cases ?d) (auto simp: display_step_simps)
  with Cons.IH [of ?e'] Cons.prems(2) show ?case by (simp add: split_beta Let_def)
qed simp

lemma blank_leaves_lit:
  "fst (engine_step e ev) = BlankNow \<Longrightarrow> display_of (phase (snd (engine_step e ev))) \<noteq> Lit"
  using engine_step_display [of e ev] by (cases ev) (auto simp: display_step_simps)

text \<open>
  Blanking is edge-triggered: after a blank decision, no call decides to blank again until a
  restore has been decided, so the TV is never sent a second blank for the same idle period.
\<close>

theorem no_second_blank_without_restore:
  assumes "fst (engine_step e ev) = BlankNow"
    and "\<forall>x \<in> set (engine_log (snd (engine_step e ev)) evs). snd x \<noteq> RestoreNow"
  shows "\<forall>x \<in> set (engine_log (snd (engine_step e ev)) evs). snd x \<noteq> BlankNow"
  using no_blank_unless_lit [OF blank_leaves_lit [OF assms(1)] assms(2)] .

theorem no_second_blank_without_restore_witness:
  "BlankNow \<notin> snd ` set (engine_log (snd (engine_step (engine_new 5 0) (TimeSeen 5 True)))
      [BlankCompleted False 6, TimeSeen 100 True, ProviderIdleSeen 101, LockSeen 102])"
proof -
  have "\<forall>x \<in> set (engine_log (snd (engine_step (engine_new 5 0) (TimeSeen 5 True)))
      [BlankCompleted False 6, TimeSeen 100 True, ProviderIdleSeen 101, LockSeen 102]). snd x \<noteq> BlankNow"
    by (rule no_second_blank_without_restore)
       (simp_all add: engine_new_def new_with_power_off_after_def engine_method_defs)
  then show ?thesis by fastforce
qed

text \<open>
  The poll interval the runner asks for is exact: \<open>time_until_action\<close> is zero precisely
  when an idle tick at that instant, with an open gate, would decide something, and it is absent
  only when no tick ever would.
\<close>

theorem time_until_action_exact:
  "(time_until_action e now = Some 0 \<longleftrightarrow> fst (engine_step e (TimeSeen now True)) \<noteq> NoOp) \<and>
   (time_until_action e now = None \<longleftrightarrow> (\<forall>t. fst (engine_step e (TimeSeen t True)) = NoOp))"
  by (cases "phase e"; cases "blank_at e"; cases "power_off_at e")
     (auto simp: time_until_action_def observe_time_def saturating_duration_since_def)

text \<open>
  The inhibition gate is consulted only for a due blank deadline of a lit display, and a
  denial changes nothing in the engine: the deadline stays due, so a later tick with the gate
  open blanks at once.
\<close>

theorem gate_denial_keeps_deadline:
  assumes "lit e" and "blank_at e = Some deadline" and "deadline \<le> t" and "t \<le> t'"
    and "\<not> fst (gate g)" and "fst (gate' g')"
  shows "observe_time e t gate g = (NoOp, e, snd (gate g)) \<and>
         fst (observe_time e t' gate' g') = BlankNow"
  using assms by (auto simp: observe_time_def lit_iff split: prod.splits)

theorem gate_denial_keeps_deadline_witness:
  "observe_time (engine_new 5 0) 5 (\<lambda>g. (False, Suc g)) 7 = (NoOp, engine_new 5 0, 8) \<and>
   fst (observe_time (engine_new 5 0) 6 (\<lambda>g. (True, Suc g)) 8) = BlankNow"
  using gate_denial_keeps_deadline
    [of "engine_new 5 0" 5 5 6 "\<lambda>g. (False, Suc g)" 7 "\<lambda>g. (True, Suc g)" 8]
  by (simp add: engine_new_def new_with_power_off_after_def inactive_def)

section \<open>Locking\<close>

definition is_lock :: "engine_event \<Rightarrow> bool" where
  "is_lock ev \<longleftrightarrow> (\<exists>t. ev = LockSeen t)"

definition lock_guarded :: "instant \<Rightarrow> InactivityEngine \<Rightarrow> bool" where
  "lock_guarded l e \<longleftrightarrow> inactive e \<and> lock_activity_floor e = Some l \<and>
     post_lock_activity_grace_until e = Some (l + POST_LOCK_ACTIVITY_GRACE)"

lemma observe_lock_guards: "observe_lock e l = (BlankNow, e') \<Longrightarrow> lock_guarded l e'"
  by (auto simp: observe_lock_def lock_guarded_def inactive_def Let_def split: if_splits)

lemma lock_guarded_step:
  assumes "lock_guarded l e" and "\<not> is_lock ev"
  shows "if fst (engine_step e ev) = RestoreNow
    then \<exists>observation a. ev = ActivitySeen observation a \<and> independent_activity observation \<and>
      l + POST_LOCK_ACTIVITY_GRACE \<le> a
    else lock_guarded l (snd (engine_step e ev))"
  using assms
  by (cases ev; cases "phase e")
     (auto simp: lock_guarded_def is_lock_def engine_method_defs Let_def not_less)

text \<open>
  A lock blank is undone only by fresh independent input: after a lock observed at \<open>l\<close>
  requested a blank, the first restore decided by any later sequence of calls (with no further
  lock) answers a desktop or gamepad activity observed at or after \<open>l\<close> plus the one-second
  grace; the provider's active and wake signals, unlocking and the passage of time never
  restore.
\<close>

theorem lock_blank_needs_fresh_input:
  assumes "observe_lock e l = (BlankNow, e1)"
    and "\<not> list_ex is_lock (evs @ [ev])"
    and "\<forall>x \<in> set (engine_log e1 evs). snd x \<noteq> RestoreNow"
    and "fst (engine_step (engine_after e1 evs) ev) = RestoreNow"
  shows "\<exists>observation a. ev = ActivitySeen observation a \<and> independent_activity observation \<and>
    l + POST_LOCK_ACTIVITY_GRACE \<le> a"
proof -
  have "lock_guarded l e' \<Longrightarrow> \<not> list_ex is_lock evs \<Longrightarrow>
      \<forall>x \<in> set (engine_log e' evs). snd x \<noteq> RestoreNow \<Longrightarrow> lock_guarded l (engine_after e' evs)" for e'
  proof (induction evs arbitrary: e')
    case (Cons ev' evs)
    then have "lock_guarded l (snd (engine_step e' ev'))"
      using lock_guarded_step [of l e' ev'] by (simp add: split_beta Let_def)
    with Cons show ?case by (simp add: split_beta Let_def)
  qed simp
  then have "lock_guarded l (engine_after e1 evs)"
    using observe_lock_guards [OF assms(1)] assms(2,3) by simp
  then show ?thesis
    using lock_guarded_step [of l _ ev] assms(2,4) by simp
qed

theorem lock_blank_needs_fresh_input_witness:
  "\<exists>observation a. ActivitySeen UserActivityObserved (from_secs 2) = ActivitySeen observation a \<and>
     independent_activity observation \<and> from_secs 1 + POST_LOCK_ACTIVITY_GRACE \<le> a"
  by (rule lock_blank_needs_fresh_input
        [of "engine_new (from_secs 300) 0" "from_secs 1"
            "snd (observe_lock (engine_new (from_secs 300) 0) (from_secs 1))"
            "[BlankCompleted True (from_secs 1), ActivitySeen WakeRequested (from_secs 3), UnlockSeen]"])
     (simp_all add: engine_new_def new_with_power_off_after_def engine_method_defs is_lock_def
        POST_LOCK_ACTIVITY_GRACE_def from_secs_def)

end
