(* ===== verification/Activity.thy ===== *)
theory Activity
  imports Inactivity Events
begin

text \<open>
  Activity contributions (\<^verbatim>\<open>session/activity.rs\<close>): the mailbox between the activity adapters, which
  publish observations from their own threads, and the session loop, which drains it. Per source and
  class of observation it keeps the newest one only. The mutex makes each operation atomic, so a
  history of the mailbox is a sequence of operations.
\<close>

datatype ActivitySource = Gnome | Wayland

fun activity_source_name :: "ActivitySource \<Rightarrow> string" where
  "activity_source_name Gnome = ''gnome''"
| "activity_source_name Wayland = ''wayland''"

text \<open>The derived \<open>Ord\<close>, which is the iteration order of the \<open>BTreeMap\<close>.\<close>

instantiation ActivitySource :: linorder
begin
definition less_eq_ActivitySource :: "ActivitySource \<Rightarrow> ActivitySource \<Rightarrow> bool" where
  "less_eq_ActivitySource a b \<longleftrightarrow> a = Gnome \<or> b = Wayland"
definition less_ActivitySource :: "ActivitySource \<Rightarrow> ActivitySource \<Rightarrow> bool" where
  "less_ActivitySource a b \<longleftrightarrow> a = Gnome \<and> b = Wayland"
instance
proof
  fix x y z :: ActivitySource
  show "x < y \<longleftrightarrow> x \<le> y \<and> \<not> y \<le> x" "x \<le> x" "x \<le> y \<Longrightarrow> y \<le> z \<Longrightarrow> x \<le> z"
    "x \<le> y \<Longrightarrow> y \<le> x \<Longrightarrow> x = y" "x \<le> y \<or> y \<le> x"
    by (cases x; cases y; cases z; simp add: less_eq_ActivitySource_def less_ActivitySource_def)+
qed
end

definition activity_sources :: "ActivitySource list" where
  "activity_sources = [Gnome, Wayland]"

lemma activity_sources_complete: "sorted activity_sources \<and> distinct activity_sources \<and> set activity_sources = UNIV"
  using ActivitySource.exhaust by (auto simp: activity_sources_def less_eq_ActivitySource_def)

datatype SessionObservation =
    EventObserved SessionEvent EventSource instant
  | InactivityObserved InactivityObservation EventSource instant

record Contribution =
  latest :: "instant option list"
  pending_slots :: "(InactivityObservation \<times> instant) option list"

definition contribution_default :: Contribution where
  "contribution_default = \<lparr>latest = replicate 3 None, pending_slots = replicate 3 None\<rparr>"

definition or_default :: "Contribution option \<Rightarrow> Contribution" where
  "or_default entry = unwrap_or entry contribution_default"

type_synonym ActivityContributions = "ActivitySource \<rightharpoonup> Contribution"

text \<open>
  Which observation a publication carries: lock, lifecycle and native idle events are not activity.
\<close>

fun published_observation :: "SessionObservation \<Rightarrow> (InactivityObservation \<times> instant) option" where
  "published_observation (InactivityObserved observation _ observed_at) = Some (observation, observed_at)"
| "published_observation (EventObserved ActiveEvent _ observed_at) = Some (ProviderActive, observed_at)"
| "published_observation (EventObserved WakeRequestedEvent _ observed_at) = Some (WakeRequested, observed_at)"
| "published_observation (EventObserved _ _ _) = None"

fun class_index :: "InactivityObservation \<Rightarrow> nat" where
  "class_index DesktopActivityObserved = 0"
| "class_index UserActivityObserved = 0"
| "class_index ProviderActive = 1"
| "class_index WakeRequested = 2"

definition publish :: "ActivityContributions \<Rightarrow> ActivitySource \<Rightarrow> SessionObservation \<Rightarrow> ActivityContributions" where
  "publish sources src observation =
     (case published_observation observation of
        None \<Rightarrow> sources
      | Some (obs, at) \<Rightarrow>
          (let i = class_index obs; state = or_default (sources src) in
           if is_none_or (latest state ! i) (\<lambda>newest. newest < at)
           then sources(src \<mapsto> state\<lparr>latest := (latest state)[i := Some at],
                                     pending_slots := (pending_slots state)[i := Some (obs, at)]\<rparr>)
           else sources(src \<mapsto> state)))"

fun take_slots :: "ActivitySource \<Rightarrow> (InactivityObservation \<times> instant) option list \<Rightarrow>
    (ActivitySource \<times> InactivityObservation \<times> instant) list" where
  "take_slots src [] = []"
| "take_slots src (slot # slots) =
     (case slot of Some (observation, at) \<Rightarrow> [(src, observation, at)] | None \<Rightarrow> []) @ take_slots src slots"

definition drain :: "ActivityContributions \<Rightarrow>
    (ActivitySource \<times> InactivityObservation \<times> instant) list \<times> ActivityContributions" where
  "drain sources =
     (sort_key (\<lambda>(_, _, at). at)
        (concat (map (\<lambda>src. case sources src of Some state \<Rightarrow> take_slots src (pending_slots state) | None \<Rightarrow> [])
           activity_sources)),
      \<lambda>src. map_option (\<lambda>state. state\<lparr>pending_slots := replicate (length (pending_slots state)) None\<rparr>) (sources src))"

definition latest_activity :: "ActivityContributions \<Rightarrow> ActivitySource \<Rightarrow> instant option" where
  "latest_activity sources src =
     (case sources src of
        None \<Rightarrow> None
      | Some state \<Rightarrow>
          (case List.map_filter id (latest state) of [] \<Rightarrow> None | ts \<Rightarrow> Some (Max (set ts))))"

section \<open>Histories of the mailbox\<close>

datatype mailbox_op = Publish ActivitySource SessionObservation | Drain

text \<open>The batches handed to the session loop, oldest first, and the mailbox at the end.\<close>

fun mailbox_exec :: "ActivityContributions \<Rightarrow> mailbox_op list \<Rightarrow>
    (ActivitySource \<times> InactivityObservation \<times> instant) list list \<times> ActivityContributions" where
  "mailbox_exec m [] = ([], m)"
| "mailbox_exec m (Publish src observation # ops) = mailbox_exec (publish m src observation) ops"
| "mailbox_exec m (Drain # ops) =
     (let (batch, m') = drain m; (batches, m'') = mailbox_exec m' ops in (batch # batches, m''))"

text \<open>The times of one source's observations of one class, as published and as delivered.\<close>

fun op_times :: "ActivitySource \<Rightarrow> nat \<Rightarrow> mailbox_op \<Rightarrow> instant list" where
  "op_times src i (Publish src' observation) =
     (case published_observation observation of
        Some (obs, at) \<Rightarrow> if src' = src \<and> class_index obs = i then [at] else []
      | None \<Rightarrow> [])"
| "op_times src i Drain = []"

definition published_times :: "ActivitySource \<Rightarrow> nat \<Rightarrow> mailbox_op list \<Rightarrow> instant list" where
  "published_times src i ops = concat (map (op_times src i) ops)"

definition batch_times ::
    "ActivitySource \<Rightarrow> nat \<Rightarrow> (ActivitySource \<times> InactivityObservation \<times> instant) list \<Rightarrow> instant list" where
  "batch_times src i batch = map (\<lambda>(_, _, at). at) (filter (\<lambda>(s, obs, _). s = src \<and> class_index obs = i) batch)"

definition slot_of :: "ActivityContributions \<Rightarrow> ActivitySource \<Rightarrow> nat \<Rightarrow> (InactivityObservation \<times> instant) option" where
  "slot_of m src i = pending_slots (or_default (m src)) ! i"

definition newest_of :: "ActivityContributions \<Rightarrow> ActivitySource \<Rightarrow> nat \<Rightarrow> instant option" where
  "newest_of m src i = latest (or_default (m src)) ! i"

definition slots_inv :: "Contribution \<Rightarrow> bool" where
  "slots_inv state \<longleftrightarrow> length (latest state) = 3 \<and> length (pending_slots state) = 3 \<and>
     (\<forall>i < 3. \<forall>obs at. pending_slots state ! i = Some (obs, at) \<longrightarrow>
        class_index obs = i \<and> latest state ! i = Some at)"

definition mailbox_inv :: "ActivityContributions \<Rightarrow> bool" where
  "mailbox_inv m \<longleftrightarrow> (\<forall>src. slots_inv (or_default (m src)))"

lemma class_index_less [simp]: "class_index obs < 3"
  by (cases obs) simp_all

lemma or_default_Some [simp]: "or_default (Some state) = state"
  by (simp add: or_default_def)

lemma empty_mailbox:
  "mailbox_inv Map.empty" "i < 3 \<Longrightarrow> slot_of Map.empty src i = None" "i < 3 \<Longrightarrow> newest_of Map.empty src i = None"
  by (simp_all add: mailbox_inv_def slots_inv_def or_default_def contribution_default_def slot_of_def newest_of_def)

lemma publish_state:
  "or_default (publish m src observation src') =
     (case published_observation observation of
        Some (obs, at) \<Rightarrow>
          if src = src' \<and> is_none_or (newest_of m src (class_index obs)) (\<lambda>t. t < at)
          then (or_default (m src))\<lparr>latest := (latest (or_default (m src)))[class_index obs := Some at],
                 pending_slots := (pending_slots (or_default (m src)))[class_index obs := Some (obs, at)]\<rparr>
          else or_default (m src')
      | None \<Rightarrow> or_default (m src'))"
  by (simp add: publish_def newest_of_def Let_def split: option.splits prod.splits)

lemma publish_inv: "mailbox_inv m \<Longrightarrow> mailbox_inv (publish m src observation)"
  by (auto simp: mailbox_inv_def publish_state slots_inv_def nth_list_update split: option.splits prod.splits)

lemma publish_slots:
  assumes "mailbox_inv m" "i < 3"
  shows "slot_of (publish m src observation) src' i =
      (case published_observation observation of
         Some (obs, at) \<Rightarrow> if src = src' \<and> class_index obs = i \<and> is_none_or (newest_of m src i) (\<lambda>t. t < at)
           then Some (obs, at) else slot_of m src' i
       | None \<Rightarrow> slot_of m src' i)"
    and "newest_of (publish m src observation) src' i =
      (case published_observation observation of
         Some (obs, at) \<Rightarrow> if src = src' \<and> class_index obs = i \<and> is_none_or (newest_of m src i) (\<lambda>t. t < at)
           then Some at else newest_of m src' i
       | None \<Rightarrow> newest_of m src' i)"
proof -
  have "length (latest (or_default (m src))) = 3" "length (pending_slots (or_default (m src))) = 3"
    using assms(1) by (simp_all add: mailbox_inv_def slots_inv_def)
  with assms(2) show "slot_of (publish m src observation) src' i =
      (case published_observation observation of
         Some (obs, at) \<Rightarrow> if src = src' \<and> class_index obs = i \<and> is_none_or (newest_of m src i) (\<lambda>t. t < at)
           then Some (obs, at) else slot_of m src' i
       | None \<Rightarrow> slot_of m src' i)"
    "newest_of (publish m src observation) src' i =
      (case published_observation observation of
         Some (obs, at) \<Rightarrow> if src = src' \<and> class_index obs = i \<and> is_none_or (newest_of m src i) (\<lambda>t. t < at)
           then Some at else newest_of m src' i
       | None \<Rightarrow> newest_of m src' i)"
    unfolding slot_of_def newest_of_def [of "publish m src observation"] publish_state
    by (auto simp: newest_of_def nth_list_update split: option.splits prod.splits)
qed

lemma drain_state:
  "or_default (snd (drain m) src) =
     (or_default (m src))\<lparr>pending_slots := replicate (length (pending_slots (or_default (m src)))) None\<rparr>"
  by (cases "m src") (simp_all add: drain_def or_default_def contribution_default_def)

lemma drain_inv: "mailbox_inv m \<Longrightarrow> mailbox_inv (snd (drain m))"
  by (simp add: mailbox_inv_def drain_state slots_inv_def)

lemma drain_slots:
  assumes "mailbox_inv m" "i < 3"
  shows "slot_of (snd (drain m)) src i = None" "newest_of (snd (drain m)) src i = newest_of m src i"
  using assms by (simp_all add: slot_of_def newest_of_def drain_state mailbox_inv_def slots_inv_def)

lemma take_slots_times:
  assumes "length slots = 3" "\<forall>j < 3. \<forall>obs at. slots ! j = Some (obs, at) \<longrightarrow> class_index obs = j" "i < 3"
  shows "batch_times src i (take_slots src' slots) =
    (if src' = src then (case slots ! i of Some (_, at) \<Rightarrow> [at] | None \<Rightarrow> []) else [])"
proof -
  obtain a b c where s: "slots = [a, b, c]"
    using assms(1) by (auto simp: numeral_3_eq_3 length_Suc_conv)
  have "\<forall>obs at. a = Some (obs, at) \<longrightarrow> class_index obs = 0"
    "\<forall>obs at. b = Some (obs, at) \<longrightarrow> class_index obs = 1"
    "\<forall>obs at. c = Some (obs, at) \<longrightarrow> class_index obs = 2"
    using assms(2) s by (auto dest: spec [of _ 0] spec [of _ 1] spec [of _ 2])
  moreover have "i = 0 \<or> i = 1 \<or> i = 2" using assms(3) by auto
  ultimately show ?thesis
    by (auto simp: s batch_times_def split: option.splits)
qed

lemma batch_times_append [simp]: "batch_times src i (xs @ ys) = batch_times src i xs @ batch_times src i ys"
  by (simp add: batch_times_def)

lemma batch_times_sort:
  "length (batch_times src i xs) \<le> 1 \<Longrightarrow> batch_times src i (sort_key f xs) = batch_times src i xs"
proof -
  assume l: "length (batch_times src i xs) \<le> 1"
  let ?P = "\<lambda>(s, obs, _). s = src \<and> class_index obs = i"
  have "sort_key f (filter ?P xs) = filter ?P xs"
    using l by (cases "filter ?P xs") (auto simp: batch_times_def)
  then show ?thesis by (simp add: batch_times_def filter_sort)
qed

lemma drain_times:
  assumes "mailbox_inv m" "i < 3"
  shows "batch_times src i (fst (drain m)) = (case slot_of m src i of Some (_, at) \<Rightarrow> [at] | None \<Rightarrow> [])"
proof -
  have "batch_times src i (case m s of Some state \<Rightarrow> take_slots s (pending_slots state) | None \<Rightarrow> []) =
      (if s = src then (case slot_of m src i of Some (_, at) \<Rightarrow> [at] | None \<Rightarrow> []) else [])" for s
  proof (cases "m s")
    case None
    with assms(2) show ?thesis
      by (auto simp: slot_of_def or_default_def contribution_default_def batch_times_def)
  next
    case (Some state)
    then have "slots_inv state" using assms(1) by (metis mailbox_inv_def or_default_Some)
    then show ?thesis using Some assms(2) take_slots_times [of "pending_slots state" i src s]
      by (auto simp: slots_inv_def slot_of_def)
  qed
  then have "batch_times src i (concat (map (\<lambda>s. case m s of Some state \<Rightarrow> take_slots s (pending_slots state) | None \<Rightarrow> [])
      activity_sources)) = (case slot_of m src i of Some (_, at) \<Rightarrow> [at] | None \<Rightarrow> [])"
    by (cases src) (simp_all add: activity_sources_def batch_times_def [of _ _ "[]"])
  then show ?thesis
    by (simp add: drain_def batch_times_sort split: option.splits prod.splits)
qed

definition slot_times :: "ActivityContributions \<Rightarrow> ActivitySource \<Rightarrow> nat \<Rightarrow> instant list" where
  "slot_times m src i = (case slot_of m src i of Some (_, at) \<Rightarrow> [at] | None \<Rightarrow> [])"

definition delivered_times ::
    "ActivitySource \<Rightarrow> nat \<Rightarrow> (ActivitySource \<times> InactivityObservation \<times> instant) list list \<Rightarrow> instant list" where
  "delivered_times src i batches = concat (map (batch_times src i) batches)"

text \<open>
  What is known of a history, for one source and class: the delivered times followed by the waiting
  one are strictly increasing, were all published, and end in the newest published time.
\<close>

definition mailbox_history ::
    "instant list \<Rightarrow> instant list \<Rightarrow> instant option \<Rightarrow> bool" where
  "mailbox_history seen published newest \<longleftrightarrow>
     sorted_wrt (<) seen \<and> set seen \<subseteq> set published \<and>
     newest = (if published = [] then None else Some (Max (set published))) \<and>
     (if published = [] then seen = [] else seen \<noteq> [] \<and> last seen = Max (set published))"

lemma history_newer:
  assumes "mailbox_history (seen @ waiting) published newest" "is_none_or newest (\<lambda>t. t < at)" "length waiting \<le> 1"
  shows "mailbox_history (seen @ [at]) (published @ [at]) (Some at)"
proof -
  have below: "x < at" if "x \<in> set (seen @ waiting)" for x
  proof -
    have "published \<noteq> []" "x \<in> set published" using that assms(1) by (auto simp: mailbox_history_def split: if_splits)
    then have "x \<le> Max (set published)" "Max (set published) < at"
      using assms(1,2) by (auto simp: mailbox_history_def split: if_splits)
    then show ?thesis by simp
  qed
  have "\<forall>x \<in> set published. x < at"
    using assms(1,2) by (cases "published = []") (auto simp: mailbox_history_def)
  then have "Max (insert at (set published)) = at"
    by (intro Max_eqI) auto
  with below assms(1) show ?thesis
    by (auto simp: mailbox_history_def sorted_wrt_append split: if_splits)
qed

lemma history_older:
  assumes "mailbox_history seen published newest" "\<not> is_none_or newest (\<lambda>t. t < at)"
  shows "mailbox_history seen (published @ [at]) newest"
proof -
  have "published \<noteq> []" "at \<le> Max (set published)"
    using assms by (auto simp: mailbox_history_def simp del: Max_less_iff split: if_splits)
  then have "Max (insert at (set published)) = Max (set published)"
    by (simp add: max_def)
  with assms(1) \<open>published \<noteq> []\<close> show ?thesis
    by (auto simp: mailbox_history_def)
qed

lemma mailbox_exec_snoc:
  "mailbox_exec m (ops @ [Publish s observation]) =
     (let (batches, m') = mailbox_exec m ops in (batches, publish m' s observation))"
  "mailbox_exec m (ops @ [Drain]) =
     (let (batches, m') = mailbox_exec m ops; (batch, m'') = drain m' in (batches @ [batch], m''))"
  by (induction m ops rule: mailbox_exec.induct) (auto simp: Let_def split: prod.splits)

lemma mailbox_exec_history:
  assumes "i < 3" "mailbox_exec Map.empty ops = (batches, m)"
  shows "mailbox_inv m \<and>
    mailbox_history (delivered_times src i batches @ slot_times m src i) (published_times src i ops) (newest_of m src i)"
  using assms(2)
proof (induction ops arbitrary: batches m rule: rev_induct)
  case Nil
  with assms(1) show ?case
    by (auto simp: empty_mailbox mailbox_history_def delivered_times_def slot_times_def published_times_def)
next
  case (snoc op ops)
  obtain bs m' where e: "mailbox_exec Map.empty ops = (bs, m')" by (cases "mailbox_exec Map.empty ops")
  note IH = snoc.IH [OF e]
  show ?case
  proof (cases op)
    case (Publish s observation)
    then have r: "batches = bs" "m = publish m' s observation"
      using snoc.prems e by (simp_all add: mailbox_exec_snoc)
    show ?thesis
    proof (cases "op_times src i op")
      case Nil
      then show ?thesis
        using IH Publish assms(1) r
        by (auto simp: publish_inv slot_times_def publish_slots published_times_def split: option.splits prod.splits if_splits)
    next
      case (Cons at rest)
      then obtain obs where o: "published_observation observation = Some (obs, at)" "s = src" "class_index obs = i" "rest = []"
        using Publish by (auto split: option.splits prod.splits if_splits)
      have l: "length (slot_times m' src i) \<le> 1"
        by (auto simp: slot_times_def split: option.splits)
      show ?thesis
      proof (cases "is_none_or (newest_of m' src i) (\<lambda>t. t < at)")
        case True
        have "slot_times m src i = [at]" "newest_of m src i = Some at"
          using True IH assms(1) r(2) o by (simp_all add: slot_times_def publish_slots)
        then show ?thesis
          using history_newer [OF conjunct2 [OF IH] True l] IH Cons o r by (simp add: publish_inv published_times_def)
      next
        case False
        have "slot_times m src i = slot_times m' src i" "newest_of m src i = newest_of m' src i"
          using False IH assms(1) r(2) o by (simp_all add: slot_times_def publish_slots)
        then show ?thesis
          using history_older [OF conjunct2 [OF IH] False] IH Cons o r by (simp add: publish_inv published_times_def)
      qed
    qed
  next
    case Drain
    then have r: "batches = bs @ [fst (drain m')]" "m = snd (drain m')"
      using snoc.prems e by (simp_all add: mailbox_exec_snoc split: prod.splits)
    with Drain IH assms(1) show ?thesis
      by (simp add: drain_inv drain_slots slot_times_def delivered_times_def drain_times published_times_def)
  qed
qed

lemma batches_sorted:
  "list_all (\<lambda>batch. sorted (map (\<lambda>(_, _, at). at) batch)) (fst (mailbox_exec m ops))"
  by (induction m ops rule: mailbox_exec.induct) (auto simp: Let_def drain_def split: prod.splits)

text \<open>
  No activity is lost and none is delivered twice. For any history of publications and drains
  that ends with a drain: every batch is in order of time; for each source and class of observation
  the delivered times are strictly increasing over the whole history and were all published; and if
  anything was published, the newest of it has been delivered.
\<close>

theorem activity_delivered_once_in_order:
  assumes "i < 3" "mailbox_exec Map.empty (ops @ [Drain]) = (batches, m)"
  shows "list_all (\<lambda>batch. sorted (map (\<lambda>(_, _, at). at) batch)) batches \<and>
     sorted_wrt (<) (delivered_times src i batches) \<and>
     set (delivered_times src i batches) \<subseteq> set (published_times src i ops) \<and>
     (published_times src i ops \<noteq> [] \<longrightarrow>
        delivered_times src i batches \<noteq> [] \<and>
        last (delivered_times src i batches) = Max (set (published_times src i ops)))"
proof -
  have "mailbox_history (delivered_times src i batches @ slot_times m src i) (published_times src i (ops @ [Drain]))
      (newest_of m src i)"
    using mailbox_exec_history [OF assms] by blast
  moreover have "slot_times m src i = []"
  proof -
    obtain bs m' where e: "mailbox_exec Map.empty ops = (bs, m')" by (cases "mailbox_exec Map.empty ops")
    then have "m = snd (drain m')" using assms(2) by (simp add: mailbox_exec_snoc split: prod.splits)
    then show ?thesis
      using mailbox_exec_history [OF assms(1) e] assms(1) by (simp add: slot_times_def drain_slots)
  qed
  ultimately show ?thesis
    using batches_sorted [of Map.empty "ops @ [Drain]"] assms(2)
    by (auto simp: mailbox_history_def published_times_def split: if_splits)
qed

definition example_history :: "mailbox_op list" where
  "example_history =
     [Publish Wayland (InactivityObserved DesktopActivityObserved DesktopSession 7),
      Publish Gnome (InactivityObserved UserActivityObserved DesktopSession 5), Drain,
      Publish Wayland (InactivityObserved DesktopActivityObserved DesktopSession 6),
      Publish Wayland (InactivityObserved DesktopActivityObserved DesktopSession 9)]"

theorem activity_delivered_once_in_order_witness:
  "last (delivered_times Wayland 0 (fst (mailbox_exec Map.empty (example_history @ [Drain])))) = 9"
proof -
  have "published_times Wayland 0 example_history = [7, 6, 9]"
    by (simp add: published_times_def example_history_def)
  then show ?thesis
    using activity_delivered_once_in_order [of 0 example_history, OF _ surjective_pairing, of Wayland] by simp
qed

end
