(* ===== verification/Inhibition.thy ===== *)
theory Inhibition
  imports LG_Config
begin

text \<open>
  The inhibition gate (\<^verbatim>\<open>inhibition.rs\<close>): whether desktop applications allow the screen to be blanked
  now. Push sources keep their permission up to date themselves; pull sources are asked by a worker
  thread, one request at a time, over a bounded queue and a reply channel per request. The gate is
  polled from the session loop and never blocks. The threads are modelled as separate steps on the
  shared channel state, so that every interleaving of the gate, cancellations and the worker is a
  run of the step relation.
\<close>

section \<open>Evaluations\<close>

record InhibitionPreferenceEvaluation =
  bypass_inhibition :: bool
  honoring :: PolicySwitch

definition evaluate_inhibition_preference :: "Config \<Rightarrow> InhibitionPreferenceEvaluation" where
  "evaluate_inhibition_preference config =
     (let honoring = screen_honor_idle_inhibitors config in
      \<lparr>bypass_inhibition = \<not> is_enabled honoring, honoring = honoring\<rparr>)"

datatype InhibitionStatus = Absent | Unavailable string | Clear | Inhibited

record InhibitionDiagnostics =
  diag_source :: string
  status :: InhibitionStatus
  diag_observed_at :: "instant option"
  last_release_at :: "instant option"

record InhibitionEvaluation =
  allowed :: bool
  diagnostics_of :: InhibitionDiagnostics

record InhibitionSectionEvaluation =
  section_allowed :: bool
  contributions :: "InhibitionEvaluation list"

text \<open>The push section, on what each adapter's \<open>evaluate\<close> returns.\<close>

definition evaluate_push_inhibition :: "InhibitionEvaluation list \<Rightarrow> InhibitionSectionEvaluation" where
  "evaluate_push_inhibition evaluations =
     \<lparr>section_allowed = list_all allowed evaluations, contributions = evaluations\<rparr>"

text \<open>
  The pull section. For each adapter: whether the request was cancelled when its turn came, and what
  its query answered (\<open>None\<close> when it noticed the cancellation itself); at the end the flag is read
  once more.
\<close>

fun collect_pull :: "(bool \<times> InhibitionEvaluation option) list \<Rightarrow> InhibitionEvaluation list option" where
  "collect_pull [] = Some []"
| "collect_pull ((cancelled, answer) # rest) =
     (if cancelled then None
      else case answer of
        None \<Rightarrow> None
      | Some evaluation \<Rightarrow> map_option ((#) evaluation) (collect_pull rest))"

definition evaluate_pull_inhibition ::
    "(bool \<times> InhibitionEvaluation option) list \<Rightarrow> bool \<Rightarrow> InhibitionSectionEvaluation option" where
  "evaluate_pull_inhibition adapters cancelled_at_end =
     (case collect_pull adapters of
        None \<Rightarrow> None
      | Some evaluations \<Rightarrow>
          if cancelled_at_end then None
          else Some \<lparr>section_allowed = list_all allowed evaluations, contributions = evaluations\<rparr>)"

record BlankingEvaluation =
  evaluated_at :: instant
  can_blank_now :: bool
  preference_used :: InhibitionPreferenceEvaluation
  push_section :: "InhibitionSectionEvaluation option"
  pull_section :: "InhibitionSectionEvaluation option"
  still_checking :: bool
  release_not_before :: "instant option"

definition releases ::
    "InhibitionSectionEvaluation option \<Rightarrow> InhibitionSectionEvaluation option \<Rightarrow> instant list" where
  "releases push pull =
     List.map_filter (\<lambda>result. last_release_at (diagnostics_of result))
       (concat (map contributions
          ((case push of Some s \<Rightarrow> [s] | None \<Rightarrow> []) @ (case pull of Some s \<Rightarrow> [s] | None \<Rightarrow> []))))"

definition reconcile ::
    "InhibitionPreferenceEvaluation \<Rightarrow> InhibitionSectionEvaluation option \<Rightarrow>
     InhibitionSectionEvaluation option \<Rightarrow> duration \<Rightarrow> instant \<Rightarrow> bool \<Rightarrow> BlankingEvaluation" where
  "reconcile preference push pull release_delay now is_checking =
     (let not_before =
            (case releases push pull of
               [] \<Rightarrow> None
             | rs \<Rightarrow> instant_checked_add (Max (set rs)) release_delay)
      in \<lparr>evaluated_at = now,
          can_blank_now = bypass_inhibition preference \<or>
            (is_some_and push section_allowed \<and> is_some_and pull section_allowed \<and>
             is_none_or not_before (\<lambda>deadline. deadline \<le> now)),
          preference_used = preference, push_section = push, pull_section = pull,
          still_checking = is_checking, release_not_before = not_before\<rparr>)"

section \<open>The gate and its worker\<close>

text \<open>
  A request is known by a number. \<open>cancelled\<close> are the requests whose flag is set; \<open>replies\<close> what
  the worker sent and nobody has received yet; \<open>gone\<close> the requests whose sender was dropped without
  an answer. \<open>queue\<close> is the bounded channel of capacity one, \<open>serving\<close> the request the worker
  is busy with, and \<open>alive\<close> whether the worker's end of the queue still exists.
\<close>

record channels =
  queue :: "nat list"
  serving :: "nat option"
  cancelled :: "nat set"
  replies :: "nat \<rightharpoonup> InhibitionSectionEvaluation option"
  gone :: "nat set"
  next_request :: nat
  alive :: bool

record PendingCheck =
  pending_id :: nat
  pending_push :: InhibitionSectionEvaluation

record Inhibition =
  preference :: InhibitionPreferenceEvaluation
  release_delay :: duration
  pending :: "PendingCheck option"
  retry_at :: "instant option"
  diagnostics :: "BlankingEvaluation option"
  completed_diagnostics :: "BlankingEvaluation option"
  chans :: channels

definition RETRY_INTERVAL :: duration where "RETRY_INTERVAL = from_secs 1"

definition idle_channels :: channels where
  "idle_channels =
     \<lparr>queue = [], serving = None, cancelled = {}, replies = Map.empty, gone = {}, next_request = 0,
      alive = True\<rparr>"

definition inhibition_new :: "Config \<Rightarrow> duration \<Rightarrow> Inhibition" where
  "inhibition_new config delay =
     \<lparr>preference = evaluate_inhibition_preference config, release_delay = delay, pending = None,
      retry_at = None, diagnostics = None, completed_diagnostics = None, chans = idle_channels\<rparr>"

definition cancel :: "Inhibition \<Rightarrow> Inhibition" where
  "cancel inh =
     inh\<lparr>pending := None, retry_at := None, diagnostics := None, completed_diagnostics := None,
         chans := (case pending inh of
           Some p \<Rightarrow> (chans inh)\<lparr>cancelled := insert (pending_id p) (cancelled (chans inh))\<rparr>
         | None \<Rightarrow> chans inh)\<rparr>"

definition configure :: "Inhibition \<Rightarrow> Config \<Rightarrow> duration \<Rightarrow> Inhibition" where
  "configure inh config delay =
     (let new_preference = evaluate_inhibition_preference config in
      if preference inh \<noteq> new_preference \<or> release_delay inh \<noteq> delay
      then (cancel inh)\<lparr>preference := new_preference, release_delay := delay\<rparr>
      else inh)"

definition record_evaluation ::
    "Inhibition \<Rightarrow> InhibitionSectionEvaluation option \<Rightarrow> InhibitionSectionEvaluation option \<Rightarrow>
     instant \<Rightarrow> bool \<Rightarrow> bool \<times> Inhibition" where
  "record_evaluation inh push pull now is_checking =
     (let evaluation = reconcile (preference inh) push pull (release_delay inh) now is_checking;
          inh = (if pull_section evaluation \<noteq> None \<or> bypass_inhibition (preference_used evaluation)
                 then inh\<lparr>completed_diagnostics := Some evaluation\<rparr> else inh)
      in (can_blank_now evaluation, inh\<lparr>diagnostics := Some evaluation\<rparr>))"

definition source_changed :: "InhibitionEvaluation \<Rightarrow> InhibitionEvaluation \<Rightarrow> bool" where
  "source_changed old new \<longleftrightarrow>
     allowed old \<noteq> allowed new \<or>
     status (diagnostics_of old) \<noteq> status (diagnostics_of new) \<or>
     last_release_at (diagnostics_of old) \<noteq> last_release_at (diagnostics_of new)"

definition pending_outdated :: "Inhibition \<Rightarrow> InhibitionSectionEvaluation \<Rightarrow> bool" where
  "pending_outdated inh push \<longleftrightarrow>
     is_some_and (pending inh) (\<lambda>p.
       list_ex (\<lambda>(old, new). source_changed old new) (zip (contributions (pending_push p)) (contributions push)))"

text \<open>
  \<open>try_send\<close> on the bounded queue: it fails while a request is still queued, and when the worker
  is gone.
\<close>

definition try_send :: "channels \<Rightarrow> nat option \<times> channels" where
  "try_send ch =
     (if alive ch \<and> queue ch = []
      then (Some (next_request ch), ch\<lparr>queue := [next_request ch], next_request := Suc (next_request ch)\<rparr>)
      else (None, ch))"

definition start_check :: "Inhibition \<Rightarrow> InhibitionSectionEvaluation \<Rightarrow> instant \<Rightarrow> Inhibition" where
  "start_check inh push now =
     (if is_none_or (retry_at inh) (\<lambda>deadline. deadline \<le> now)
      then
        let (sent, ch) = try_send (chans inh);
            inh = inh\<lparr>chans := ch\<rparr>;
            inh = (case sent of
                     Some n \<Rightarrow> inh\<lparr>pending := Some \<lparr>pending_id = n, pending_push = push\<rparr>\<rparr>
                   | None \<Rightarrow> inh)
        in inh\<lparr>retry_at := Some (now + RETRY_INTERVAL)\<rparr>
      else inh)"

definition request_and_record :: "Inhibition \<Rightarrow> InhibitionSectionEvaluation \<Rightarrow> instant \<Rightarrow> bool \<times> Inhibition" where
  "request_and_record inh push now =
     (let inh = start_check inh push now
      in record_evaluation inh (Some push) None now (pending inh \<noteq> None))"

text \<open>\<open>can_blank\<close>, on what the push adapters answer when asked.\<close>

definition can_blank :: "Inhibition \<Rightarrow> InhibitionEvaluation list \<Rightarrow> instant \<Rightarrow> bool \<times> Inhibition" where
  "can_blank inh push_evaluations now =
     (if bypass_inhibition (preference inh)
      then record_evaluation (cancel inh) None None now False
      else
        let push = evaluate_push_inhibition push_evaluations;
            inh = (if pending_outdated inh push then cancel inh else inh)
        in case pending inh of
             None \<Rightarrow> request_and_record inh push now
           | Some p \<Rightarrow>
               (case replies (chans inh) (pending_id p) of
                  Some pull \<Rightarrow>
                    record_evaluation
                      (inh\<lparr>pending := None, retry_at := Some (now + RETRY_INTERVAL),
                           chans := (chans inh)\<lparr>replies := (replies (chans inh))(pending_id p := None)\<rparr>\<rparr>)
                      (Some push) pull now False
                | None \<Rightarrow>
                    if pending_id p \<in> gone (chans inh)
                    then request_and_record
                           ((cancel inh)\<lparr>retry_at := Some (now + RETRY_INTERVAL)\<rparr>) push now
                    else record_evaluation inh (Some push) None now True))"

text \<open>The worker: it takes a queued request, and answers it with what the adapters said.\<close>

definition worker_take :: "channels \<Rightarrow> channels option" where
  "worker_take ch =
     (case (serving ch, queue ch) of
        (None, n # rest) \<Rightarrow> Some (ch\<lparr>serving := Some n, queue := rest\<rparr>)
      | _ \<Rightarrow> None)"

definition worker_answer :: "channels \<Rightarrow> (bool \<times> InhibitionEvaluation option) list \<Rightarrow> channels option" where
  "worker_answer ch answers =
     (case serving ch of
        Some n \<Rightarrow>
          Some (ch\<lparr>serving := None,
                   replies := (replies ch)(n \<mapsto> evaluate_pull_inhibition answers (n \<in> cancelled ch))\<rparr>)
      | None \<Rightarrow> None)"

text \<open>If the worker stops for good, the requests it held are dropped unanswered.\<close>

definition worker_lost :: "channels \<Rightarrow> channels" where
  "worker_lost ch =
     ch\<lparr>serving := None, queue := [], alive := False,
        gone := gone ch \<union> set (queue ch) \<union> set_option (serving ch)\<rparr>"

section \<open>Evidence kept by an adapter\<close>

definition state_new :: "string \<Rightarrow> InhibitionDiagnostics" where
  "state_new src =
     \<lparr>diag_source = src, status = Unavailable ''monitoring has not started'', diag_observed_at = None,
      last_release_at = None\<rparr>"

definition state_unavailable :: "InhibitionDiagnostics \<Rightarrow> string \<Rightarrow> InhibitionDiagnostics" where
  "state_unavailable d reason = d\<lparr>status := Unavailable (take 512 reason)\<rparr>"

definition state_absent :: "InhibitionDiagnostics \<Rightarrow> InhibitionDiagnostics" where
  "state_absent d = d\<lparr>status := Absent\<rparr>"

definition state_observe :: "InhibitionDiagnostics \<Rightarrow> bool \<Rightarrow> instant \<Rightarrow> InhibitionDiagnostics" where
  "state_observe d inhibited at =
     (let d = (if \<not> inhibited \<and> status d = Inhibited then d\<lparr>last_release_at := Some at\<rparr> else d)
      in d\<lparr>diag_observed_at := Some at, status := (if inhibited then Inhibited else Clear)\<rparr>)"

definition state_evaluate :: "InhibitionDiagnostics \<Rightarrow> InhibitionEvaluation" where
  "state_evaluate d = \<lparr>allowed = (status d \<noteq> Inhibited), diagnostics_of = d\<rparr>"

section \<open>Interleavings\<close>

datatype gate_label =
    Poll "InhibitionEvaluation list" instant bool
  | Cancel
  | Configure Config duration
  | WorkerTake
  | WorkerAnswer "(bool \<times> InhibitionEvaluation option) list"
  | WorkerLost

inductive gate_step :: "Inhibition \<Rightarrow> gate_label \<Rightarrow> Inhibition \<Rightarrow> bool" where
  poll: "can_blank inh push now = (verdict, inh') \<Longrightarrow> gate_step inh (Poll push now verdict) inh'"
| cancelling: "gate_step inh Cancel (cancel inh)"
| configuring: "gate_step inh (Configure config delay) (configure inh config delay)"
| taking: "worker_take (chans inh) = Some ch \<Longrightarrow> gate_step inh WorkerTake (inh\<lparr>chans := ch\<rparr>)"
| answering: "worker_answer (chans inh) answers = Some ch \<Longrightarrow>
    gate_step inh (WorkerAnswer answers) (inh\<lparr>chans := ch\<rparr>)"
| losing: "gate_step inh WorkerLost (inh\<lparr>chans := worker_lost (chans inh)\<rparr>)"

inductive gate_run :: "Inhibition \<Rightarrow> gate_label list \<Rightarrow> Inhibition \<Rightarrow> bool" where
  gate_stop: "gate_run inh [] inh"
| gate_next: "gate_run inh ls inh' \<Longrightarrow> gate_step inh' l inh'' \<Longrightarrow> gate_run inh (ls @ [l]) inh''"

inductive_cases gate_stepE: "gate_step inh l inh'"

text \<open>
  Requests are numbered in the order they are sent, an open request is not cancelled, and an answer
  in the mailbox is the conjunction of its contributions.
\<close>

definition gate_inv :: "Inhibition \<Rightarrow> bool" where
  "gate_inv inh \<longleftrightarrow>
     (\<forall>p. pending inh = Some p \<longrightarrow>
        pending_id p < next_request (chans inh) \<and> pending_id p \<notin> cancelled (chans inh)) \<and>
     set (queue (chans inh)) \<union> set_option (serving (chans inh)) \<union> cancelled (chans inh)
       \<subseteq> {..<next_request (chans inh)} \<and>
     (\<forall>n reply. replies (chans inh) n = Some reply \<longrightarrow> n < next_request (chans inh)) \<and>
     (\<forall>n sec. replies (chans inh) n = Some (Some sec) \<longrightarrow>
        section_allowed sec = list_all allowed (contributions sec))"

lemma cancel_inv: "gate_inv inh \<Longrightarrow> gate_inv (cancel inh)"
  by (auto simp: gate_inv_def cancel_def split: option.splits)

lemma cancel_simps [simp]:
  "pending (cancel inh) = None" "retry_at (cancel inh) = None"
  "preference (cancel inh) = preference inh" "release_delay (cancel inh) = release_delay inh"
  "next_request (chans (cancel inh)) = next_request (chans inh)"
  by (simp_all add: cancel_def split: option.splits)

lemma record_simps [simp]:
  "pending (snd (record_evaluation inh push pull now c)) = pending inh"
  "chans (snd (record_evaluation inh push pull now c)) = chans inh"
  "preference (snd (record_evaluation inh push pull now c)) = preference inh"
  by (simp_all add: record_evaluation_def Let_def)

lemma fst_record [simp]:
  "fst (record_evaluation inh push pull now c) =
     can_blank_now (reconcile (preference inh) push pull (release_delay inh) now c)"
  by (simp add: record_evaluation_def Let_def)

lemma record_inv: "gate_inv inh \<Longrightarrow> gate_inv (snd (record_evaluation inh push pull now c))"
  by (simp add: gate_inv_def)

lemma start_check_inv: "gate_inv inh \<Longrightarrow> gate_inv (start_check inh push now)"
  by (auto simp: gate_inv_def start_check_def try_send_def Let_def less_Suc_eq split: option.splits prod.splits)

lemma request_inv: "gate_inv inh \<Longrightarrow> gate_inv (snd (request_and_record inh push now))"
  by (simp add: request_and_record_def Let_def record_inv start_check_inv)

lemma can_blank_inv:
  assumes "gate_inv inh"
  shows "gate_inv (snd (can_blank inh push now))"
proof -
  have drop: "gate_inv i \<Longrightarrow> gate_inv (i\<lparr>pending := None, retry_at := r,
      chans := (chans i)\<lparr>replies := (replies (chans i))(n := None)\<rparr>\<rparr>)" for i r n
    by (auto simp: gate_inv_def)
  have retry: "gate_inv i \<Longrightarrow> gate_inv (i\<lparr>retry_at := r\<rparr>)" for i r by (simp add: gate_inv_def)
  show ?thesis
    using assms
    by (auto simp: can_blank_def Let_def intro!: record_inv request_inv cancel_inv drop retry split: option.splits)
qed

lemma gate_step_inv:
  assumes "gate_step inh l inh'" "gate_inv inh"
  shows "gate_inv inh'"
  using assms
proof cases
  case (poll push now verdict)
  then show ?thesis using can_blank_inv [OF assms(2), of push now] by simp
next
  case cancelling
  then show ?thesis using assms(2) by (simp add: cancel_inv)
next
  case (configuring config delay)
  have "gate_inv i \<Longrightarrow> gate_inv (i\<lparr>preference := pr, release_delay := d\<rparr>)" for i pr d
    by (simp add: gate_inv_def)
  with configuring assms(2) show ?thesis by (simp add: configure_def Let_def cancel_inv)
next
  case (taking ch)
  with assms(2) show ?thesis
    by (auto simp: gate_inv_def worker_take_def split: option.splits list.splits)
next
  case (answering answers ch)
  with assms(2) show ?thesis
    by (auto simp: gate_inv_def worker_answer_def evaluate_pull_inhibition_def split: option.splits if_splits)
next
  case losing
  with assms(2) show ?thesis by (auto simp: gate_inv_def worker_lost_def)
qed

lemma gate_run_inv: "gate_run inh ls inh' \<Longrightarrow> gate_inv inh \<Longrightarrow> gate_inv inh'"
  by (induction rule: gate_run.induct) (auto dest: gate_step_inv)

lemma inhibition_new_inv: "gate_inv (inhibition_new config delay)"
  by (simp add: gate_inv_def inhibition_new_def idle_channels_def)

section \<open>What a verdict rests on\<close>

lemma verdict_needs_pull [simp]:
  "\<not> bypass_inhibition pr \<Longrightarrow> \<not> can_blank_now (reconcile pr push None d now c)"
  by (simp add: reconcile_def Let_def)

lemma start_check_simps [simp]:
  "preference (start_check inh push now) = preference inh"
  by (simp add: start_check_def Let_def split: prod.splits option.splits)

lemma can_blank_yes:
  assumes "can_blank inh push now = (True, inh')" "\<not> bypass_inhibition (preference inh)"
  obtains p sec where "pending inh = Some p" "replies (chans inh) (pending_id p) = Some (Some sec)"
    "\<not> pending_outdated inh (evaluate_push_inhibition push)"
    "can_blank_now (reconcile (preference inh) (Some (evaluate_push_inhibition push)) (Some sec)
       (release_delay inh) now False)"
    "pending inh' = None" "next_request (chans inh') = next_request (chans inh)"
proof -
  let ?push = "evaluate_push_inhibition push"
  have yes: "fst (can_blank inh push now)" "inh' = snd (can_blank inh push now)"
    using assms(1) by simp_all
  have no: "\<not> fst (request_and_record i ?push now)" if "preference i = preference inh" for i
    using that assms(2) by (simp add: request_and_record_def Let_def)
  have current: "\<not> pending_outdated inh ?push"
    using yes(1) assms(2) no [of "cancel inh"] by (auto simp: can_blank_def Let_def)
  from yes(1) obtain p where p: "pending inh = Some p"
    using assms(2) current no by (auto simp: can_blank_def Let_def split: option.splits)
  from yes(1) obtain pull where pull: "replies (chans inh) (pending_id p) = Some pull"
    using assms(2) current no p by (auto simp: can_blank_def Let_def split: option.splits if_splits)
  from yes(1) have "can_blank_now (reconcile (preference inh) (Some ?push) pull (release_delay inh) now False)"
    using assms(2) current p pull by (simp add: can_blank_def Let_def)
  moreover from this obtain sec where "pull = Some sec" using assms(2) by (cases pull) auto
  ultimately show ?thesis
    using that [OF p] pull current yes(2) assms(2) p by (simp add: can_blank_def Let_def)
qed

lemma set_map_filter: "set (List.map_filter f xs) = {y. \<exists>x \<in> set xs. f x = Some y}"
  by (induction xs) (auto simp: List.map_filter_simps split: option.splits)

lemma set_releases:
  "set (releases (Some push) (Some pull)) =
     {r. \<exists>c \<in> set (contributions push) \<union> set (contributions pull). last_release_at (diagnostics_of c) = Some r}"
  by (simp add: releases_def set_map_filter)

lemma reconcile_release:
  assumes "can_blank_now (reconcile pr push pull d now c)" "\<not> bypass_inhibition pr"
    and "r \<in> set (releases push pull)" "\<forall>r \<in> set (releases push pull). instant_checked_add r d \<noteq> None"
  shows "r + d \<le> now"
proof -
  let ?m = "Max (set (releases push pull))"
  have m: "?m \<in> set (releases push pull)" using assms(3) by (intro Max_in) auto
  obtain deadline where "instant_checked_add ?m d = Some deadline" using assms(4) m by blast
  moreover from this have "deadline = ?m + d"
    by (simp add: instant_checked_add_def split: if_splits)
  ultimately have "?m + d \<le> now"
    using assms(1,2,3) by (cases "releases push pull") (auto simp: reconcile_def Let_def)
  moreover have "r \<le> ?m" using assms(3) by simp
  ultimately show ?thesis by simp
qed

lemma yes_is_unanimous:
  assumes "gate_inv inh" "can_blank inh push now = (True, inh')" "\<not> bypass_inhibition (preference inh)"
  obtains p sec where "pending inh = Some p" "replies (chans inh) (pending_id p) = Some (Some sec)"
    "\<not> pending_outdated inh (evaluate_push_inhibition push)" "list_all allowed (push @ contributions sec)"
    "can_blank_now (reconcile (preference inh) (Some (evaluate_push_inhibition push)) (Some sec)
       (release_delay inh) now False)"
proof -
  from assms(2,3) obtain p sec where p: "pending inh = Some p"
      "replies (chans inh) (pending_id p) = Some (Some sec)"
      "\<not> pending_outdated inh (evaluate_push_inhibition push)"
    and yes: "can_blank_now (reconcile (preference inh) (Some (evaluate_push_inhibition push)) (Some sec)
       (release_delay inh) now False)"
    by (rule can_blank_yes)
  have "section_allowed sec = list_all allowed (contributions sec)"
    using assms(1) p(2) by (simp add: gate_inv_def)
  with yes assms(3) have "list_all allowed (push @ contributions sec)"
    by (simp add: reconcile_def Let_def evaluate_push_inhibition_def)
  with p yes that show ?thesis by blast
qed


definition example_push :: "InhibitionEvaluation list" where
  "example_push = [state_evaluate (state_observe (state_new ''gnome'') False 1)]"

definition example_answers :: "(bool \<times> InhibitionEvaluation option) list" where
  "example_answers = [(False, Some (state_evaluate (state_observe (state_new ''kwin'') False 2)))]"

definition example_idle :: Inhibition where
  "example_idle = inhibition_new example_config 5"

definition example_asked :: Inhibition where
  "example_asked = snd (can_blank example_idle example_push 10)"

definition example_answered :: Inhibition where
  "example_answered =
     example_asked\<lparr>chans := the (worker_answer (the (worker_take (chans example_asked))) example_answers)\<rparr>"

lemmas example_gate_defs = example_push_def example_answers_def example_idle_def example_asked_def
  example_answered_def inhibition_new_def evaluate_inhibition_preference_def idle_channels_def can_blank_def
  pending_outdated_def request_and_record_def start_check_def try_send_def record_evaluation_def reconcile_def
  evaluate_push_inhibition_def worker_take_def worker_answer_def evaluate_pull_inhibition_def releases_def
  state_evaluate_def state_observe_def state_new_def is_enabled_def Let_def

lemma example_verdict:
  "\<not> bypass_inhibition (preference example_idle)" "\<not> bypass_inhibition (preference example_answered)"
  "fst (can_blank example_answered example_push 20)"
  by (simp_all add: example_gate_defs List.map_filter_simps source_changed_def)

lemma example_gate_run:
  "gate_run example_idle [Poll example_push 10 (fst (can_blank example_idle example_push 10)), WorkerTake,
      WorkerAnswer example_answers] example_answered"
proof -
  have "gate_run example_idle ([] @ [Poll example_push 10 (fst (can_blank example_idle example_push 10))])
      example_asked"
    by (intro gate_next [OF gate_stop] poll) (simp add: example_asked_def)
  moreover have "gate_step example_asked WorkerTake
      (example_asked\<lparr>chans := the (worker_take (chans example_asked))\<rparr>)"
    by (rule taking) (simp add: example_gate_defs)
  moreover have "gate_step (example_asked\<lparr>chans := the (worker_take (chans example_asked))\<rparr>)
      (WorkerAnswer example_answers) example_answered"
    using answering [of "example_asked\<lparr>chans := the (worker_take (chans example_asked))\<rparr>" example_answers]
    by (simp add: example_gate_defs)
  ultimately show ?thesis by (metis append.assoc append_Cons append_Nil gate_next)
qed


definition new_since :: "nat \<Rightarrow> Inhibition \<Rightarrow> bool" where
  "new_since n inh \<longleftrightarrow>
     n \<le> next_request (chans inh) \<and> (\<forall>p. pending inh = Some p \<longrightarrow> n \<le> pending_id p)"

lemma new_since_ops [simp]:
  "new_since n (cancel inh) \<longleftrightarrow> n \<le> next_request (chans inh)"
  "new_since n (snd (record_evaluation inh push pull now c)) = new_since n inh"
  "new_since n (inh\<lparr>retry_at := r\<rparr>) = new_since n inh"
  "new_since n (inh\<lparr>preference := pr, release_delay := d\<rparr>) = new_since n inh"
  by (simp_all add: new_since_def)

lemma new_since_start: "new_since n inh \<Longrightarrow> new_since n (start_check inh push now)"
  by (auto simp: new_since_def start_check_def try_send_def Let_def split: option.splits prod.splits)

lemma new_since_poll:
  assumes "new_since n inh"
  shows "new_since n (snd (can_blank inh push now))"
proof -
  have n: "n \<le> next_request (chans inh)" using assms by (simp add: new_since_def)
  have "new_since n (inh\<lparr>pending := None, retry_at := r, chans := (chans inh)\<lparr>replies := m\<rparr>\<rparr>)" for r m
    using n by (simp add: new_since_def)
  with assms n show ?thesis
    by (auto simp: can_blank_def request_and_record_def Let_def new_since_start split: option.splits)
qed

lemma new_since_step:
  assumes "gate_step inh l inh'" "new_since n inh"
  shows "new_since n inh'"
  using assms
proof cases
  case (poll push now verdict)
  then show ?thesis using new_since_poll [OF assms(2), of push now] by simp
qed (auto simp: configure_def Let_def worker_take_def worker_answer_def worker_lost_def new_since_def
    split: option.splits list.splits)

lemma open_request_stays_new:
  assumes "gate_run quiet_point ls later" "pending quiet_point = None"
  shows "new_since (next_request (chans quiet_point)) later"
  using assms by (induction rule: gate_run.induct) (auto simp: new_since_def dest: new_since_step [unfolded new_since_def])

text \<open>
  C23. A yes is never stale and never used twice. From any point where no check is open, which is so
  after every cancellation and after every yes that was not a bypass, the next yes answers a request
  that did not exist at that point: it was sent later, and its answer was not yet in the mailbox. So
  neither an answer from before the user was active nor an answer that was already used can blank
  the screen.
\<close>

theorem gate_verdict_fresh:
  assumes "gate_run (inhibition_new config delay) ls inh"
    and "quiet_point = cancel inh \<or>
       (\<exists>push now. can_blank inh push now = (True, quiet_point) \<and> \<not> bypass_inhibition (preference inh))"
    and "gate_run quiet_point ls' later"
    and "can_blank later push' now' = (True, later')" "\<not> bypass_inhibition (preference later)"
  shows "\<exists>p. pending later = Some p \<and> next_request (chans quiet_point) \<le> pending_id p \<and>
     replies (chans quiet_point) (pending_id p) = None"
proof -
  have inv: "gate_inv inh" by (rule gate_run_inv [OF assms(1) inhibition_new_inv])
  have q: "gate_inv quiet_point" "pending quiet_point = None"
    using assms(2) inv can_blank_inv [OF inv] by (auto simp: cancel_inv elim: can_blank_yes) (metis snd_conv)
  from assms(4,5) obtain p where p: "pending later = Some p" by (rule can_blank_yes)
  then have "next_request (chans quiet_point) \<le> pending_id p"
    using open_request_stays_new [OF assms(3) q(2)] by (simp add: new_since_def)
  moreover from this have "replies (chans quiet_point) (pending_id p) = None"
    using q(1) by (fastforce simp: gate_inv_def)
  ultimately show ?thesis using p by blast
qed

theorem gate_verdict_fresh_witness:
  "\<exists>p. pending example_answered = Some p \<and>
     next_request (chans (cancel example_idle)) \<le> pending_id p \<and>
     replies (chans (cancel example_idle)) (pending_id p) = None"
proof -
  have same: "cancel example_idle = example_idle"
    by (simp add: cancel_def example_idle_def inhibition_new_def)
  have "can_blank example_answered example_push 20 = (True, snd (can_blank example_answered example_push 20))"
    using example_verdict(3) by (simp add: prod_eq_iff)
  moreover have "gate_run (cancel example_idle) [Poll example_push 10 (fst (can_blank example_idle example_push 10)),
      WorkerTake, WorkerAnswer example_answers] example_answered"
    using example_gate_run by (simp only: same)
  moreover have "gate_run (inhibition_new example_config 5) [] example_idle"
    unfolding example_idle_def by (rule gate_stop)
  ultimately show ?thesis using gate_verdict_fresh example_verdict(2) by blast
qed

lemma collect_pull_answers: "collect_pull (map (\<lambda>answer. (False, Some answer)) answers) = Some answers"
  by (induction answers) simp_all

lemma unchanged_sources: "\<not> list_ex (\<lambda>(old, new). source_changed old new) (zip xs xs)"
  by (induction xs) (auto simp: source_changed_def)

lemma reconcile_yes:
  assumes "section_allowed push" "section_allowed pull"
    and "\<forall>r \<in> set (releases (Some push) (Some pull)). r + d \<le> now"
  shows "can_blank_now (reconcile pr (Some push) (Some pull) d now c)"
proof (cases "releases (Some push) (Some pull)")
  case (Cons r rs)
  then have "Max (set (r # rs)) \<in> set (releases (Some push) (Some pull))" using Max_in by fastforce
  with assms(3) have "Max (set (r # rs)) + d \<le> now" by blast
  with Cons assms(1,2) show ?thesis by (simp add: reconcile_def Let_def instant_checked_add_def)
qed (use assms in \<open>simp add: reconcile_def Let_def\<close>)

text \<open>
  C37. The gate does open. From any reachable state in which no check is open, the worker is idle and
  the retry interval has passed: if every push source allows blanking and keeps doing so, the worker
  takes the request, every pull source answers it with permission, and the last release is long
  enough ago, then the next poll says yes.
\<close>

theorem gate_opens:
  assumes run: "gate_run (inhibition_new config delay) ls inh" "\<not> bypass_inhibition (preference inh)"
    and idle: "pending inh = None" "queue (chans inh) = []" "serving (chans inh) = None" "alive (chans inh)"
      "is_none_or (retry_at inh) (\<lambda>deadline. deadline \<le> asked)"
    and consent: "list_all allowed push" "list_all allowed answers"
    and released: "\<forall>c \<in> set (push @ answers). \<forall>r. last_release_at (diagnostics_of c) = Some r \<longrightarrow>
      r + release_delay inh \<le> answered"
  shows "\<exists>taken ch. worker_take (chans (snd (can_blank inh push asked))) = Some taken \<and>
     worker_answer taken (map (\<lambda>answer. (False, Some answer)) answers) = Some ch \<and>
     fst (can_blank ((snd (can_blank inh push asked))\<lparr>chans := ch\<rparr>) push answered)"
proof -
  let ?n = "next_request (chans inh)" and ?push = "evaluate_push_inhibition push"
  let ?sec = "\<lparr>section_allowed = True, contributions = answers\<rparr>"
  let ?taken = "(chans inh)\<lparr>serving := Some ?n, queue := [], next_request := Suc ?n\<rparr>"
  let ?ch = "?taken\<lparr>serving := None, replies := (replies (chans inh))(?n \<mapsto> Some ?sec)\<rparr>"
  have n: "?n \<notin> cancelled (chans inh)"
    using gate_run_inv [OF run(1) inhibition_new_inv] by (auto simp: gate_inv_def)
  have asked: "chans (snd (can_blank inh push asked)) = (chans inh)\<lparr>queue := [?n], next_request := Suc ?n\<rparr>"
    "pending (snd (can_blank inh push asked)) = Some \<lparr>pending_id = ?n, pending_push = ?push\<rparr>"
    "preference (snd (can_blank inh push asked)) = preference inh"
    "release_delay (snd (can_blank inh push asked)) = release_delay inh"
    using run(2) idle
    by (simp_all add: can_blank_def Let_def pending_outdated_def request_and_record_def start_check_def try_send_def
        record_evaluation_def)
  have "worker_take (chans (snd (can_blank inh push asked))) = Some ?taken"
    using idle(3) by (simp add: asked worker_take_def)
  moreover have "worker_answer ?taken (map (\<lambda>answer. (False, Some answer)) answers) = Some ?ch"
    using n consent(2) by (simp add: worker_answer_def evaluate_pull_inhibition_def collect_pull_answers)
  moreover have "can_blank_now (reconcile pr (Some ?push) (Some ?sec) (release_delay inh) answered c)" for pr c
    using consent(1) released by (intro reconcile_yes) (auto simp: evaluate_push_inhibition_def set_releases)
  then have "fst (can_blank ((snd (can_blank inh push asked))\<lparr>chans := ?ch\<rparr>) push answered)"
    using run(2) by (simp add: can_blank_def [of "_\<lparr>chans := _\<rparr>"] asked Let_def pending_outdated_def unchanged_sources)
  ultimately show ?thesis by blast
qed

theorem gate_opens_witness:
  "\<exists>taken ch. worker_take (chans (snd (can_blank example_idle example_push 10))) = Some taken \<and>
     worker_answer taken (map (\<lambda>answer. (False, Some answer)) example_push) = Some ch \<and>
     fst (can_blank ((snd (can_blank example_idle example_push 10))\<lparr>chans := ch\<rparr>) example_push 11)"
proof -
  have "list_all allowed example_push"
    "\<forall>c \<in> set (example_push @ example_push). \<forall>r. last_release_at (diagnostics_of c) = Some r \<longrightarrow>
      r + release_delay example_idle \<le> 11"
    by (simp_all add: example_gate_defs)
  then show ?thesis
    using gate_opens [OF gate_stop, of example_config 5] example_verdict(1)
    by (simp add: example_idle_def [symmetric]) (simp add: example_idle_def inhibition_new_def idle_channels_def)
qed

end
