(* ===== verification/Runner.thy ===== *)
theory Runner
  imports Activity Inhibition
begin

text \<open>
  The session monitor (\<^verbatim>\<open>session/runner.rs\<close>): the loop that drains the activity mailbox, receives
  messages of the lock, display and gamepad observers, polls the inhibition gate, drives the
  inactivity engine and calls the action executor. The executor is a type parameter in the source
  (trait \<open>SessionActionExecutor\<close>), so it is a record of functions here; of its errors the
  dispatcher only uses the text. What other threads do between two looks of the loop is the input
  of an iteration (\<open>tick\<close>).
\<close>

section \<open>Executor, state and environment\<close>

record ScreenOffResult =
  off_output :: string
  blank_reported :: bool

record 'x executor =
  exec_screen_off :: "RuntimeEvent \<Rightarrow> 'x \<Rightarrow> (string + ScreenOffResult) \<times> 'x"
  exec_timed_power_off :: "RuntimeEvent \<Rightarrow> 'x \<Rightarrow> (string + string) \<times> 'x"
  exec_screen_on :: "RuntimeEvent \<Rightarrow> 'x \<Rightarrow> (string + string) \<times> 'x"
  exec_before_sleep :: "RuntimeEvent \<Rightarrow> 'x \<Rightarrow> (string + string) \<times> 'x"
  exec_after_resume_streaming :: "RuntimeEvent \<Rightarrow> 'x \<Rightarrow> ((string + unit) \<times> string list) \<times> 'x"

datatype SessionRunnerError =
    RunnerIo string
  | RunnerFailed ScreenBackend string
  | RunnerPanic string

text \<open>
  The trail of the session's screen actions: executor calls, and the completions reported to the
  engine. It is not part of the program's state; the statements below are about it.
\<close>

datatype act =
    OffCalled
  | OffReported bool instant
  | TimedOffCalled instant
  | OnCalled
  | BeforeSleepCalled
  | AfterResumeCalled

datatype ActivityStatus = StatusAvailable | StatusUnavailable string

definition is_available :: "ActivityStatus \<Rightarrow> bool" where
  "is_available s \<longleftrightarrow> s = StatusAvailable"

record 'x run =
  exec_state :: 'x
  engine :: InactivityEngine
  gate :: "Inhibition option"
  mailbox :: ActivityContributions
  last_diagnostics :: "(ActivitySource \<times> ActivityStatus) list"
  printed :: "string list"
  trail :: "act list"

text \<open>
  \<open>writes\<close> says whether the log writer takes the next chunk; \<open>power_off_text\<close> is the configured
  power-off delay as the log prints it (a floating-point number of seconds).
\<close>

record 'x host =
  executor_of :: "'x executor"
  writes :: "'x run \<Rightarrow> string option"
  flushes :: "'x run \<Rightarrow> string option"
  clock :: "'x run \<Rightarrow> instant"
  power_off_text :: string

definition put :: "'x host \<Rightarrow> string \<Rightarrow> ('x run, SessionRunnerError, unit) eff" where
  "put host text =
     (\<lambda>r. case writes host r of
        Some e \<Rightarrow> (Inl (RunnerIo e), r)
      | None \<Rightarrow> (Inr (), r\<lparr>printed := printed r @ [text]\<rparr>))"

definition put_line :: "'x host \<Rightarrow> string \<Rightarrow> ('x run, SessionRunnerError, unit) eff" where
  "put_line host line = put host (line @ [CHR 10])"

definition put_flush :: "'x host \<Rightarrow> ('x run, SessionRunnerError, unit) eff" where
  "put_flush host = (\<lambda>r. case flushes host r of Some e \<Rightarrow> (Inl (RunnerIo e), r) | None \<Rightarrow> (Inr (), r))"

definition note_act :: "act \<Rightarrow> ('x run, SessionRunnerError, unit) eff" where
  "note_act a = modifyE (\<lambda>r. r\<lparr>trail := trail r @ [a]\<rparr>)"

text \<open>One call of the executor, noted in the trail.\<close>

definition call_executor :: "act \<Rightarrow> ('x \<Rightarrow> 'a \<times> 'x) \<Rightarrow> ('x run, SessionRunnerError, 'a) eff" where
  "call_executor a f =
     thenE (note_act a) (\<lambda>r. case f (exec_state r) of (result, x) \<Rightarrow> (Inr result, r\<lparr>exec_state := x\<rparr>))"

definition write_command_output :: "'x host \<Rightarrow> string \<Rightarrow> ('x run, SessionRunnerError, unit) eff" where
  "write_command_output host output =
     (if output = [] then returnE ()
      else thenE (put host output)
          (thenE (if last output = CHR 10 then returnE () else put_line host [])
             (put_flush host)))"

section \<open>The dispatcher\<close>

definition msg_idle :: string where
  "msg_idle = ''LG Buddy Monitor: Session became idle.''"
definition msg_locked :: string where
  "msg_locked = ''LG Buddy Monitor: Session locked; requesting screen blank.''"
definition msg_restore_requested :: "SessionEvent \<Rightarrow> string" where
  "msg_restore_requested event =
     ''LG Buddy Monitor: Session event `'' @ session_event_as_str event @ ''` requests screen restore.''"
definition msg_restore_failed :: "string \<Rightarrow> string" where
  "msg_restore_failed err = ''LG Buddy Monitor: screen restore action failed. '' @ err"
definition msg_before_sleep :: string where
  "msg_before_sleep = ''LG Buddy Monitor: Session event `before-sleep` requests pre-sleep handling.''"
definition msg_before_sleep_failed :: "string \<Rightarrow> string" where
  "msg_before_sleep_failed err = ''LG Buddy Monitor: pre-sleep action failed. '' @ err"
definition msg_after_resume :: string where
  "msg_after_resume = ''LG Buddy Monitor: Session event `after-resume` requests wake restore.''"
definition msg_after_resume_failed :: "string \<Rightarrow> string" where
  "msg_after_resume_failed err = ''LG Buddy Monitor: wake restore action failed. '' @ err"
definition msg_unlocked :: string where
  "msg_unlocked = ''LG Buddy Monitor: Session unlocked; no screen restore requested.''"
definition msg_screen_off_failed :: "string \<Rightarrow> string" where
  "msg_screen_off_failed err = ''LG Buddy Monitor: screen-off action failed. '' @ err"
definition msg_timed_off_failed :: "string \<Rightarrow> string" where
  "msg_timed_off_failed err = ''LG Buddy Monitor: timed power-off action failed. '' @ err"

definition dispatch_screen_off ::
    "'x host \<Rightarrow> EventSource \<Rightarrow> SessionEvent \<Rightarrow> ('x run, SessionRunnerError, bool) eff" where
  "dispatch_screen_off host src event =
     bindE (call_executor OffCalled (exec_screen_off (executor_of host) (from_session_event src event)))
       (\<lambda>result. case result of
          Inr res \<Rightarrow> thenE (write_command_output host (off_output res)) (returnE (blank_reported res))
        | Inl err \<Rightarrow> thenE (put_line host (msg_screen_off_failed err)) (returnE False))"

definition report_action :: "'x host \<Rightarrow> (string \<Rightarrow> string) \<Rightarrow> string + string \<Rightarrow> ('x run, SessionRunnerError, unit) eff" where
  "report_action host failed result =
     (case result of
        Inr output \<Rightarrow> write_command_output host output
      | Inl err \<Rightarrow> put_line host (failed err))"

definition stream_after_resume ::
    "'x host \<Rightarrow> (string \<Rightarrow> string) \<Rightarrow> RuntimeEvent \<Rightarrow> ('x run, SessionRunnerError, unit) eff" where
  "stream_after_resume host failed event =
     bindE (call_executor AfterResumeCalled (exec_after_resume_streaming (executor_of host) event))
       (\<lambda>(result, written).
          thenE (modifyE (\<lambda>r. r\<lparr>printed := printed r @ written\<rparr>))
            (case result of Inr _ \<Rightarrow> returnE () | Inl err \<Rightarrow> put_line host (failed err)))"

fun dispatch_event_from_source ::
    "'x host \<Rightarrow> EventSource \<Rightarrow> SessionEvent \<Rightarrow> ('x run, SessionRunnerError, unit) eff" where
  "dispatch_event_from_source host src Idle =
     thenE (put_line host msg_idle) (bindE (dispatch_screen_off host src Idle) (\<lambda>_. returnE ()))"
| "dispatch_event_from_source host src Lock =
     thenE (put_line host msg_locked) (bindE (dispatch_screen_off host src Lock) (\<lambda>_. returnE ()))"
| "dispatch_event_from_source host src BeforeSleep =
     thenE (put_line host msg_before_sleep)
       (bindE (call_executor BeforeSleepCalled
           (exec_before_sleep (executor_of host) (from_session_event src BeforeSleep)))
          (report_action host msg_before_sleep_failed))"
| "dispatch_event_from_source host src AfterResume =
     thenE (put_line host msg_after_resume)
       (thenE (put_flush host)
         (stream_after_resume host msg_after_resume_failed (from_session_event src AfterResume)))"
| "dispatch_event_from_source host src Unlock = put_line host msg_unlocked"
| "dispatch_event_from_source host src event =
     thenE (put_line host (msg_restore_requested event))
       (bindE (call_executor OnCalled (exec_screen_on (executor_of host) (from_session_event src event)))
          (report_action host msg_restore_failed))"

definition dispatch_timed_power_off :: "'x host \<Rightarrow> instant \<Rightarrow> ('x run, SessionRunnerError, unit) eff" where
  "dispatch_timed_power_off host at =
     bindE (call_executor (TimedOffCalled at)
         (exec_timed_power_off (executor_of host) (runtime_event DesktopSession SessionTimedPowerOff)))
       (report_action host msg_timed_off_failed)"

section \<open>From engine decisions to actions\<close>

definition msg_power_off_canceled :: string where
  "msg_power_off_canceled = ''LG Buddy Monitor: Activity canceled the pending timed power-off.''"
definition msg_power_off_due :: string where
  "msg_power_off_due = ''LG Buddy Monitor: Timed power-off deadline reached; rechecking ownership, input, and lifecycle eligibility.''"
definition msg_blank_scheduled :: "string \<Rightarrow> string" where
  "msg_blank_scheduled secs =
     ''LG Buddy Monitor: Screen blank succeeded; timed power-off scheduled in '' @ secs @ ''s.''"
definition msg_not_blanked :: string where
  "msg_not_blanked = ''LG Buddy Monitor: Screen was not blanked; timed power-off was not scheduled.''"
definition msg_system_blanked :: "EventSource \<Rightarrow> string" where
  "msg_system_blanked src =
     ''LG Buddy Monitor: System display blanked ('' @ event_source_label src @ ''); syncing TV blank.''"
definition msg_system_blank_ignored :: string where
  "msg_system_blank_ignored = ''LG Buddy Monitor: System blank observed; screen state unchanged.''"

text \<open>A method of the engine: the new engine is stored, the decision returned.\<close>

definition on_engine :: "(InactivityEngine \<Rightarrow> 'a \<times> InactivityEngine) \<Rightarrow> ('x run, SessionRunnerError, 'a) eff" where
  "on_engine f = (\<lambda>r. case f (engine r) of (a, e) \<Rightarrow> (Inr a, r\<lparr>engine := e\<rparr>))"

fun restore_event :: "InactivityObservation \<Rightarrow> InactivityDecision \<Rightarrow> SessionEvent option" where
  "restore_event ProviderActive RestoreNow = Some ActiveEvent"
| "restore_event WakeRequested RestoreNow = Some WakeRequestedEvent"
| "restore_event DesktopActivityObserved RestoreNow = Some UserActivity"
| "restore_event UserActivityObserved RestoreNow = Some UserActivity"
| "restore_event _ _ = None"

definition handle_inactivity_observation ::
    "'x host \<Rightarrow> EventSource \<Rightarrow> InactivityObservation \<Rightarrow> instant \<Rightarrow> ('x run, SessionRunnerError, unit) eff" where
  "handle_inactivity_observation host src observation observed_at =
     bindE (getsE (\<lambda>r. timed_power_off_pending (engine r))) (\<lambda>canceled_power_off.
     bindE (on_engine (\<lambda>e. observe_activity e observation observed_at)) (\<lambda>decision.
       case restore_event observation decision of
         None \<Rightarrow> returnE ()
       | Some event \<Rightarrow>
           thenE (if canceled_power_off then put_line host msg_power_off_canceled else returnE ())
             (dispatch_event_from_source host src event)))"

definition complete_blank_now :: "'x host \<Rightarrow> bool \<Rightarrow> ('x run, SessionRunnerError, unit) eff" where
  "complete_blank_now host succeeded =
     bindE (getsE (clock host)) (\<lambda>t.
       thenE (note_act (OffReported succeeded t)) (on_engine (\<lambda>e. ((), complete_blank e succeeded t))))"

definition handle_blank_request ::
    "'x host \<Rightarrow> EventSource \<Rightarrow> SessionEvent \<Rightarrow> ('x run, SessionRunnerError, unit) eff" where
  "handle_blank_request host src event =
     thenE (case event of
              Idle \<Rightarrow> put_line host msg_idle
            | Lock \<Rightarrow> put_line host msg_locked
            | _ \<Rightarrow> raiseE (RunnerPanic ''only idle and lock request automatic blanking''))
       (bindE (dispatch_screen_off host src event) (\<lambda>blank_succeeded.
        thenE (complete_blank_now host blank_succeeded)
          (put_line host (if blank_succeeded then msg_blank_scheduled (power_off_text host) else msg_not_blanked))))"

text \<open>
  The closure the timeout handler passes to the engine polls the gate, if there is one.
\<close>

definition poll_gate ::
    "InhibitionEvaluation list \<Rightarrow> instant \<Rightarrow> Inhibition option \<Rightarrow> bool \<times> Inhibition option" where
  "poll_gate push at g =
     (case g of
        None \<Rightarrow> (True, None)
      | Some inh \<Rightarrow> (case can_blank inh push at of (verdict, inh') \<Rightarrow> (verdict, Some inh')))"

definition observe_time_gated ::
    "InhibitionEvaluation list \<Rightarrow> instant \<Rightarrow> ('x run, SessionRunnerError, InactivityDecision) eff" where
  "observe_time_gated push at =
     (\<lambda>r. case observe_time (engine r) at (poll_gate push at) (gate r) of
            (d, e, g) \<Rightarrow> (Inr d, r\<lparr>engine := e, gate := g\<rparr>))"

definition handle_inactivity_timeout ::
    "'x host \<Rightarrow> InhibitionEvaluation list \<Rightarrow> instant \<Rightarrow> ('x run, SessionRunnerError, unit) eff" where
  "handle_inactivity_timeout host push observed_at =
     bindE (observe_time_gated push observed_at) (\<lambda>decision. case decision of
       BlankNow \<Rightarrow> handle_blank_request host DesktopSession Idle
     | TimedPowerOffNow \<Rightarrow>
         thenE (put_line host msg_power_off_due) (dispatch_timed_power_off host observed_at)
     | _ \<Rightarrow> returnE ())"

definition handle_session_lock ::
    "'x host \<Rightarrow> EventSource \<Rightarrow> instant \<Rightarrow> ('x run, SessionRunnerError, unit) eff" where
  "handle_session_lock host src observed_at =
     bindE (on_engine (\<lambda>e. observe_lock e observed_at)) (\<lambda>decision.
       if decision = BlankNow then handle_blank_request host src Lock else returnE ())"

definition handle_system_blank ::
    "'x host \<Rightarrow> EventSource \<Rightarrow> instant \<Rightarrow> ('x run, SessionRunnerError, unit) eff" where
  "handle_system_blank host src observed_at =
     thenE (put_line host (msg_system_blanked src))
       (bindE (on_engine (\<lambda>e. observe_provider_idle e observed_at)) (\<lambda>decision.
          if decision = BlankNow then handle_blank_request host src Idle
          else put_line host msg_system_blank_ignored))"

section \<open>The loop\<close>

datatype RunnerMessage =
    EligibilityChanged
  | SystemBlank EventSource instant
  | SessionEventMessage SessionEvent EventSource instant
  | ActivityObservation EventSource InactivityObservation instant
  | DiagnosticMessage string

fun source_message :: "SessionObservation \<Rightarrow> RunnerMessage" where
  "source_message (EventObserved event src observed_at) = SessionEventMessage event src observed_at"
| "source_message (InactivityObserved observation src observed_at) = ActivityObservation src observation observed_at"

definition cancel_gate :: "('x run, SessionRunnerError, unit) eff" where
  "cancel_gate = modifyE (\<lambda>r. r\<lparr>gate := map_option cancel (gate r)\<rparr>)"

fun cancels_gate :: "RunnerMessage \<Rightarrow> bool" where
  "cancels_gate (ActivityObservation _ _ _) = True"
| "cancels_gate (SessionEventMessage event _ _) = (event \<noteq> Idle)"
| "cancels_gate _ = False"

fun handle_message :: "'x host \<Rightarrow> RunnerMessage \<Rightarrow> ('x run, SessionRunnerError, unit) eff" where
  "handle_message host (ActivityObservation src observation observed_at) =
     handle_inactivity_observation host src observation observed_at"
| "handle_message host (SessionEventMessage Idle src observed_at) = returnE ()"
| "handle_message host (SessionEventMessage ActiveEvent src observed_at) =
     handle_inactivity_observation host src ProviderActive observed_at"
| "handle_message host (SessionEventMessage WakeRequestedEvent src observed_at) =
     handle_inactivity_observation host src WakeRequested observed_at"
| "handle_message host (SessionEventMessage UserActivity src observed_at) =
     handle_inactivity_observation host src UserActivityObserved observed_at"
| "handle_message host (SessionEventMessage Lock src observed_at) = handle_session_lock host src observed_at"
| "handle_message host (SessionEventMessage Unlock src observed_at) =
     thenE (on_engine (\<lambda>e. ((), observe_unlock e))) (dispatch_event_from_source host src Unlock)"
| "handle_message host (SessionEventMessage event src observed_at) = dispatch_event_from_source host src event"
| "handle_message host (SystemBlank src observed_at) = handle_system_blank host src observed_at"
| "handle_message host (DiagnosticMessage message) = put_line host (''LG Buddy Monitor: '' @ message)"
| "handle_message host EligibilityChanged = cancel_gate"

text \<open>
  What happens outside the loop during an iteration: what the adapters publish before each drain,
  what their \<open>status\<close> says, how the wait for a message ends, and for a timeout the instant, the push
  sources' evaluations and the steps of the gate's worker so far.
\<close>

datatype wait_result =
    Received RunnerMessage
  | WaitTimeout "(ActivitySource \<times> SessionObservation) list" "(ActivitySource \<times> ActivityStatus) list"
      "gate_label list" "InhibitionEvaluation list" instant
  | WaitDisconnected

record tick =
  deadline_reached :: bool
  published :: "(ActivitySource \<times> SessionObservation) list"
  adapter_status :: "(ActivitySource \<times> ActivityStatus) list"
  waited :: wait_result

fun worker_progress :: "Inhibition \<Rightarrow> gate_label list \<Rightarrow> Inhibition" where
  "worker_progress inh [] = inh"
| "worker_progress inh (WorkerTake # ls) =
     worker_progress (inh\<lparr>chans := unwrap_or (worker_take (chans inh)) (chans inh)\<rparr>) ls"
| "worker_progress inh (WorkerAnswer answers # ls) =
     worker_progress (inh\<lparr>chans := unwrap_or (worker_answer (chans inh) answers) (chans inh)\<rparr>) ls"
| "worker_progress inh (WorkerLost # ls) = worker_progress (inh\<lparr>chans := worker_lost (chans inh)\<rparr>) ls"
| "worker_progress inh (_ # ls) = worker_progress inh ls"

definition publish_all :: "(ActivitySource \<times> SessionObservation) list \<Rightarrow> ('x run, SessionRunnerError, unit) eff" where
  "publish_all ps = modifyE (\<lambda>r. r\<lparr>mailbox := foldl (\<lambda>m (src, observation). publish m src observation) (mailbox r) ps\<rparr>)"

definition drain_mailbox :: "('x run, SessionRunnerError, (ActivitySource \<times> InactivityObservation \<times> instant) list) eff" where
  "drain_mailbox = (\<lambda>r. case drain (mailbox r) of (batch, m) \<Rightarrow> (Inr batch, r\<lparr>mailbox := m\<rparr>))"

fun handle_batch :: "'x host \<Rightarrow> (ActivitySource \<times> InactivityObservation \<times> instant) list \<Rightarrow>
    ('x run, SessionRunnerError, unit) eff" where
  "handle_batch host [] = returnE ()"
| "handle_batch host ((_, observation, observed_at) # rest) =
     thenE cancel_gate
       (thenE (handle_inactivity_observation host DesktopSession observation observed_at) (handle_batch host rest))"

definition drain_and_handle :: "'x host \<Rightarrow> ('x run, SessionRunnerError, unit) eff" where
  "drain_and_handle host = bindE drain_mailbox (handle_batch host)"

definition show_age :: "instant option \<Rightarrow> instant \<Rightarrow> string" where
  "show_age latest_at at =
     (case latest_at of
        None \<Rightarrow> ''None''
      | Some t \<Rightarrow> ''Some('' @ show_nat (saturating_duration_since at t div from_millis 1) @ '')'')"

definition msg_source_status :: "ActivitySource \<Rightarrow> ActivityStatus \<Rightarrow> string \<Rightarrow> string" where
  "msg_source_status src s age =
     ''LG Buddy Monitor: activity source='' @ activity_source_name src @
     '' available='' @ (if is_available s then ''true'' else ''false'') @
     '' last_activity_age_ms='' @ age @ '' detail='' @
     (case s of StatusAvailable \<Rightarrow> ''ready'' | StatusUnavailable reason \<Rightarrow> reason)"

fun report_statuses :: "'x host \<Rightarrow> (ActivitySource \<times> ActivityStatus) list \<Rightarrow> ('x run, SessionRunnerError, unit) eff" where
  "report_statuses host [] = returnE ()"
| "report_statuses host ((src, s) # rest) =
     bindE (getsE (\<lambda>r. show_age (latest_activity (mailbox r) src) (clock host r))) (\<lambda>age.
       thenE (put_line host (msg_source_status src s age)) (report_statuses host rest))"

definition note_statuses ::
    "'x host \<Rightarrow> (ActivitySource \<times> ActivityStatus) list \<Rightarrow> ('x run, SessionRunnerError, unit) eff" where
  "note_statuses host statuses =
     bindE (getsE last_diagnostics) (\<lambda>previous.
       if statuses = previous then returnE ()
       else thenE cancel_gate
           (thenE (report_statuses host statuses) (modifyE (\<lambda>r. r\<lparr>last_diagnostics := statuses\<rparr>))))"

definition handle_wait_timeout ::
    "'x host \<Rightarrow> (ActivitySource \<times> SessionObservation) list \<Rightarrow> (ActivitySource \<times> ActivityStatus) list \<Rightarrow>
     gate_label list \<Rightarrow> InhibitionEvaluation list \<Rightarrow> instant \<Rightarrow> ('x run, SessionRunnerError, unit) eff" where
  "handle_wait_timeout host ps statuses worker push at =
     thenE (publish_all ps)
    (thenE (drain_and_handle host)
    (bindE (getsE (\<lambda>r. timed_power_off_pending (engine r))) (\<lambda>power_off_pending.
       if list_ex (\<lambda>(_, s). is_available s) statuses \<or> power_off_pending
       then thenE (modifyE (\<lambda>r. r\<lparr>gate := map_option (\<lambda>inh. worker_progress inh worker) (gate r)\<rparr>))
              (handle_inactivity_timeout host push at)
       else cancel_gate)))"

text \<open>One iteration; the result says whether the loop goes on.\<close>

definition monitor_iteration :: "'x host \<Rightarrow> tick \<Rightarrow> ('x run, SessionRunnerError, bool) eff" where
  "monitor_iteration host t =
     (if deadline_reached t then returnE False
      else
        thenE (publish_all (published t))
       (thenE (drain_and_handle host)
       (thenE (note_statuses host (adapter_status t))
       (case waited t of
          WaitTimeout ps statuses worker push at \<Rightarrow>
            thenE (handle_wait_timeout host ps statuses worker push at) (returnE True)
        | WaitDisconnected \<Rightarrow> returnE False
        | Received message \<Rightarrow>
            thenE (if cancels_gate message then cancel_gate else returnE ())
              (thenE (handle_message host message) (returnE True))))))"

fun monitor_loop :: "'x host \<Rightarrow> tick list \<Rightarrow> ('x run, SessionRunnerError, unit) eff" where
  "monitor_loop host [] = returnE ()"
| "monitor_loop host (t # ts) =
     bindE (monitor_iteration host t) (\<lambda>continues. if continues then monitor_loop host ts else returnE ())"

definition start_engine :: "duration \<Rightarrow> duration \<Rightarrow> instant \<Rightarrow> bool \<Rightarrow> InactivityEngine" where
  "start_engine blank_delay power_off_delay started_at marker_present =
     (if marker_present
      then new_with_restore_pending_and_power_off_after blank_delay power_off_delay started_at
      else new_with_power_off_after blank_delay power_off_delay started_at)"

definition start_run :: "'x \<Rightarrow> InactivityEngine \<Rightarrow> Inhibition option \<Rightarrow> 'x run" where
  "start_run x e g =
     \<lparr>exec_state = x, engine = e, gate = g, mailbox = Map.empty, last_diagnostics = [], printed = [], trail = []\<rparr>"

end
