(* ===== verification/Runner_Proofs.thy ===== *)
theory Runner_Proofs
  imports Runner
begin

text \<open>
  The session monitor does what the engine decides. Every handler is related to the sequence of
  engine calls it makes: when it returns, its executor calls are exactly the ones those decisions
  ask for; when a log write fails in between, they are an initial part of them. The engine's
  guarantees then hold of the executor calls of the whole monitor.
\<close>

section \<open>Screen actions\<close>

fun is_screen_act :: "act \<Rightarrow> bool" where
  "is_screen_act BeforeSleepCalled = False"
| "is_screen_act AfterResumeCalled = False"
| "is_screen_act _ = True"

definition screen_acts :: "'x run \<Rightarrow> act list" where
  "screen_acts r = filter is_screen_act (trail r)"

text \<open>The action an engine call asks for.\<close>

fun action_of :: "engine_event \<times> InactivityDecision \<Rightarrow> act option" where
  "action_of (BlankCompleted ok t, _) = Some (OffReported ok t)"
| "action_of (TimeSeen t _, TimedPowerOffNow) = Some (TimedOffCalled t)"
| "action_of (_, BlankNow) = Some OffCalled"
| "action_of (_, RestoreNow) = Some OnCalled"
| "action_of _ = None"

definition actions_of :: "InactivityEngine \<Rightarrow> engine_event list \<Rightarrow> act list" where
  "actions_of e evs = List.map_filter action_of (engine_log e evs)"

lemma map_filter_append [simp]: "List.map_filter f (xs @ ys) = List.map_filter f xs @ List.map_filter f ys"
  by (simp add: List.map_filter_def)

lemma actions_of_simps [simp]:
  "actions_of e [] = []"
  "actions_of e (ev # evs) =
     (case action_of (ev, fst (engine_step e ev)) of Some a \<Rightarrow> [a] | None \<Rightarrow> []) @
     actions_of (snd (engine_step e ev)) evs"
  by (auto simp: actions_of_def List.map_filter_simps split_beta Let_def split: option.splits)

lemma actions_of_append: "actions_of e (xs @ ys) = actions_of e xs @ actions_of (engine_after e xs) ys"
  by (simp add: actions_of_def engine_exec_append)

section \<open>Runs that follow the engine\<close>

definition did :: "act list \<Rightarrow> 'x run \<Rightarrow> 'x run \<Rightarrow> bool" where
  "did acts r r' \<longleftrightarrow> engine r' = engine r \<and> screen_acts r' = screen_acts r @ acts"

definition advances :: "'x run \<Rightarrow> 'x run \<Rightarrow> bool" where
  "advances r r' \<longleftrightarrow> (\<exists>evs. engine r' = engine_after (engine r) evs \<and>
     screen_acts r' = screen_acts r @ actions_of (engine r) evs)"

definition behind :: "'x run \<Rightarrow> 'x run \<Rightarrow> bool" where
  "behind r r' \<longleftrightarrow> (\<exists>evs owed. engine r' = engine_after (engine r) evs \<and>
     screen_acts r' @ owed = screen_acts r @ actions_of (engine r) evs)"

interpretation idle_run: world_preorder "did []"
  by unfold_locales (auto simp: did_def)

interpretation adv: world_preorder advances
proof
  fix w :: "'x run"
  show "advances w w" unfolding advances_def by (intro exI [of _ "[]"]) simp
next
  fix u v w :: "'x run"
  assume "advances u v" "advances v w"
  then obtain xs ys where "engine v = engine_after (engine u) xs" "screen_acts v = screen_acts u @ actions_of (engine u) xs"
    "engine w = engine_after (engine v) ys" "screen_acts w = screen_acts v @ actions_of (engine v) ys"
    unfolding advances_def by blast
  then show "advances u w"
    unfolding advances_def by (intro exI [of _ "xs @ ys"]) (simp add: actions_of_append engine_exec_append)
qed

lemma advances_behind: "advances r r' \<Longrightarrow> behind r r'"
  unfolding advances_def behind_def by (metis append_Nil2)

lemma advances_then_behind:
  assumes "advances u v" "behind v w"
  shows "behind u w"
proof -
  from assms(1) obtain xs where "engine v = engine_after (engine u) xs"
    "screen_acts v = screen_acts u @ actions_of (engine u) xs"
    unfolding advances_def by blast
  moreover from assms(2) obtain ys owed where "engine w = engine_after (engine v) ys"
    "screen_acts w @ owed = screen_acts v @ actions_of (engine v) ys"
    unfolding behind_def by blast
  ultimately show ?thesis
    unfolding behind_def
    by (intro exI [of _ "xs @ ys"] exI [of _ owed]) (simp add: actions_of_append engine_exec_append)
qed

lemma did_advances: "did [] r r' \<Longrightarrow> advances r r'"
  unfolding advances_def did_def by (intro exI [of _ "[]"]) simp

lemma did_trans: "did a u v \<Longrightarrow> did b v w \<Longrightarrow> did (a @ b) u w"
  by (simp add: did_def)

definition follows :: "('x run, SessionRunnerError, 'a) eff \<Rightarrow> bool" where
  "follows m \<longleftrightarrow> (\<forall>r. wp m (\<lambda>_. advances r) (\<lambda>_. behind r) r)"

lemma followsD: "follows m \<Longrightarrow> wp m (\<lambda>_. advances r) (\<lambda>_. behind r) r"
  by (simp add: follows_def)

lemma follows_bind:
  assumes "follows m" "\<And>a. follows (f a)"
  shows "follows (bindE m f)"
  unfolding follows_def
proof
  fix r
  show "wp (bindE m f) (\<lambda>_. advances r) (\<lambda>_. behind r) r"
  proof (rule wp_bindI [OF followsD [OF assms(1)]], goal_cases)
    case (1 a v)
    then show ?case
      by (intro wp_mono [OF followsD [OF assms(2)]]) (auto intro: adv.R_trans advances_then_behind)
  qed
qed

lemma follows_then: "follows m \<Longrightarrow> follows n \<Longrightarrow> follows (thenE m n)"
  using follows_bind [of m "\<lambda>_. n"] by (simp add: thenE_def)

lemma follows_idle: "stays (did []) m \<Longrightarrow> follows m"
  unfolding follows_def
  by (auto intro!: wp_mono [OF stays_wp [of "did []" m]] did_advances advances_behind)

section \<open>The primitives\<close>

lemma did_nil_simps [simp]:
  "did [] r (r\<lparr>printed := x\<rparr>)" "did [] r (r\<lparr>gate := g\<rparr>)" "did [] r (r\<lparr>mailbox := m\<rparr>)"
  "did [] r (r\<lparr>last_diagnostics := d\<rparr>)" "did [] r (r\<lparr>exec_state := s\<rparr>)" "did [] r r"
  by (simp_all add: did_def screen_acts_def)

lemma put_idle: "stays (did []) (put host text)"
  by (simp add: stays_def put_def split: option.splits)

lemma put_flush_idle: "stays (did []) (put_flush host)"
  by (simp add: stays_def put_flush_def split: option.splits)

lemma put_line_idle: "stays (did []) (put_line host line)"
  by (simp add: put_line_def put_idle)

lemma write_command_output_idle: "stays (did []) (write_command_output host output)"
  by (simp add: write_command_output_def put_idle put_line_idle put_flush_idle idle_run.stays_rules)

lemma report_action_idle: "stays (did []) (report_action host failed result)"
  by (simp add: report_action_def write_command_output_idle put_line_idle split: sum.splits)

lemma cancel_gate_idle: "stays (did []) cancel_gate"
  by (simp add: cancel_gate_def idle_run.stays_modifyE)

lemma publish_all_idle: "stays (did []) (publish_all ps)"
  by (simp add: publish_all_def idle_run.stays_modifyE)

lemma drain_mailbox_idle: "stays (did []) drain_mailbox"
  by (simp add: stays_def drain_mailbox_def split: prod.splits)

lemma report_statuses_idle: "stays (did []) (report_statuses host statuses)"
  by (induction host statuses rule: report_statuses.induct) (auto simp: put_line_idle intro!: idle_run.stays_rules)

lemma note_statuses_idle: "stays (did []) (note_statuses host statuses)"
  by (auto simp: note_statuses_def cancel_gate_idle report_statuses_idle
      intro!: idle_run.stays_rules idle_run.stays_modifyE stays_if)

lemmas idle_ops = put_line_idle write_command_output_idle report_action_idle put_flush_idle cancel_gate_idle
  publish_all_idle drain_mailbox_idle note_statuses_idle

lemmas follows_ops = idle_ops [THEN follows_idle] idle_run.stays_returnE [THEN follows_idle]
  idle_run.stays_getsE [THEN follows_idle]

text \<open>An idle computation keeps whatever was done before it.\<close>

lemma did_then_idle:
  "did a u v \<Longrightarrow> stays (did []) m \<Longrightarrow> wp m (\<lambda>_. did a u) (\<lambda>_. did a u) v"
  by (auto intro!: wp_mono [OF stays_wp [of "did []" m]] dest: did_trans)

lemma call_executor_spec:
  assumes "is_screen_act a"
  shows "wp (call_executor a f) (\<lambda>_. did [a] r) (\<lambda>_ _. False) r"
  using assms
  by (simp add: call_executor_def note_act_def wp_rules)
     (simp add: wp_def did_def screen_acts_def split: prod.splits)

lemma dispatch_screen_off_spec:
  "wp (dispatch_screen_off host src event) (\<lambda>_. did [OffCalled] r) (\<lambda>_. did [OffCalled] r) r"
  unfolding dispatch_screen_off_def
proof (rule wp_bindI [OF call_executor_spec], goal_cases)
  case (2 a v)
  then show ?case
    by (intro did_then_idle) (auto simp: idle_ops intro!: idle_run.stays_rules split: sum.splits)
qed auto

definition restores :: "SessionEvent \<Rightarrow> bool" where
  "restores event \<longleftrightarrow> event \<in> {ActiveEvent, WakeRequestedEvent, UserActivity}"

lemma dispatch_restore_spec:
  assumes "restores event"
  shows "wp (dispatch_event_from_source host src event) (\<lambda>_. did [OnCalled] r)
    (\<lambda>_ r'. did [] r r' \<or> did [OnCalled] r r') r"
proof -
  have *: "wp (bindE (call_executor OnCalled (exec_screen_on (executor_of host) (from_session_event src event)))
      (report_action host msg_restore_failed)) (\<lambda>_. did [OnCalled] r) (\<lambda>_ r'. did [] r r' \<or> did [OnCalled] r r') v"
    if "did [] r v" for v
  proof (rule wp_bindI [OF call_executor_spec], goal_cases)
    case (2 a u)
    then have "did [OnCalled] r u" using did_trans [OF that] by fastforce
    then show ?case by (rule wp_mono [OF did_then_idle [OF _ report_action_idle]]) auto
  qed auto
  have "wp (thenE (put_line host (msg_restore_requested event))
      (bindE (call_executor OnCalled (exec_screen_on (executor_of host) (from_session_event src event)))
      (report_action host msg_restore_failed))) (\<lambda>_. did [OnCalled] r) (\<lambda>_ r'. did [] r r' \<or> did [OnCalled] r r') r"
    by (rule wp_thenI [OF stays_wp [OF put_line_idle]]) (auto intro: *)
  then show ?thesis using assms by (auto simp: restores_def)
qed

lemma call_other_idle:
  "\<not> is_screen_act a \<Longrightarrow> stays (did []) (call_executor a f)"
  by (simp add: stays_def call_executor_def note_act_def thenE_def bindE_def modifyE_def did_def screen_acts_def
      split: prod.splits)

lemma dispatch_other_idle:
  "event \<in> {BeforeSleep, AfterResume, Unlock} \<Longrightarrow> stays (did []) (dispatch_event_from_source host src event)"
  by (auto simp: idle_ops stream_after_resume_def call_other_idle
      intro!: idle_run.stays_rules idle_run.stays_modifyE split: prod.splits sum.splits)

section \<open>The handlers\<close>

lemma complete_blank_now_spec:
  "wp (complete_blank_now host ok) (\<lambda>_ r'. \<exists>t. engine r' = complete_blank (engine r) ok t \<and>
     screen_acts r' = screen_acts r @ [OffReported ok t]) (\<lambda>_ _. False) r"
  by (simp add: complete_blank_now_def note_act_def wp_rules on_engine_def)
     (auto simp: wp_def screen_acts_def)

definition blank_done :: "'x run \<Rightarrow> 'x run \<Rightarrow> bool" where
  "blank_done r r' \<longleftrightarrow> (\<exists>ok t. engine r' = complete_blank (engine r) ok t \<and>
     screen_acts r' = screen_acts r @ [OffCalled, OffReported ok t])"

lemma blank_done_idle:
  "blank_done r v \<Longrightarrow> stays (did []) m \<Longrightarrow> wp m (\<lambda>_. blank_done r) (\<lambda>_. blank_done r) v"
  by (auto simp: blank_done_def did_def intro!: wp_mono [OF stays_wp [of "did []" m]])

lemma handle_blank_request_spec:
  assumes "event = Idle \<or> event = Lock"
  shows "wp (handle_blank_request host src event) (\<lambda>_. blank_done r)
    (\<lambda>_ r'. did [] r r' \<or> did [OffCalled] r r' \<or> blank_done r r') r"
proof -
  let ?E = "\<lambda>(_ :: SessionRunnerError) r'. did [] r r' \<or> did [OffCalled] r r' \<or> blank_done r r'"
  have completed: "wp (thenE (complete_blank_now host ok) (put_line host m)) (\<lambda>_. blank_done r) ?E v"
    if "did [OffCalled] r v" for v ok m
  proof (rule wp_thenI [OF complete_blank_now_spec], goal_cases)
    case (1 a u)
    with that have "blank_done r u" by (auto simp: blank_done_def did_def)
    then show ?case by (rule wp_mono [OF blank_done_idle [OF _ put_line_idle]]) auto
  qed auto
  have "wp (bindE (dispatch_screen_off host src event) (\<lambda>ok. thenE (complete_blank_now host ok) (put_line host (m ok))))
      (\<lambda>_. blank_done r) ?E v" if "did [] r v" for v m
  proof (rule wp_bindI [OF dispatch_screen_off_spec], goal_cases)
    case (1 a u)
    then have "did [OffCalled] r u" using did_trans [OF that, of "[OffCalled]"] by simp
    then show ?case by (rule completed)
  next
    case (2 e u)
    then show ?case using did_trans [OF that, of "[OffCalled]"] by simp
  qed
  with assms show ?thesis
    unfolding handle_blank_request_def
    by (auto intro!: wp_thenI [OF stays_wp [OF put_line_idle]])
qed

text \<open>One engine call and what it leads to.\<close>

lemma follows_step:
  assumes step: "engine v = snd (engine_step (engine r) ev)" "screen_acts v = screen_acts r"
    and act: "action_of (ev, fst (engine_step (engine r) ev)) = Some a"
  shows "did [] v r' \<Longrightarrow> behind r r'" "did [a] v r' \<Longrightarrow> advances r r'"
proof -
  show "behind r r'" if "did [] v r'"
    using that step act unfolding did_def behind_def
    by (intro exI [of _ "[ev]"] exI [of _ "[a]"]) (simp add: split_beta)
  show "advances r r'" if "did [a] v r'"
    using that step act unfolding did_def advances_def by (intro exI [of _ "[ev]"]) (simp add: split_beta)
qed

lemma follows_noop:
  assumes "engine v = snd (engine_step (engine r) ev)" "screen_acts v = screen_acts r"
    and "action_of (ev, fst (engine_step (engine r) ev)) = None" "did [] v r'"
  shows "advances r r'"
  using assms unfolding did_def advances_def by (intro exI [of _ "[ev]"]) (simp add: split_beta)

lemma noop_then_idle:
  assumes "engine v = snd (engine_step (engine r) ev)" "screen_acts v = screen_acts r"
    and "action_of (ev, fst (engine_step (engine r) ev)) = None" "stays (did []) m"
  shows "wp m (\<lambda>_. advances r) (\<lambda>_. behind r) v"
  by (rule wp_mono [OF stays_wp [OF assms(4)]]) (auto intro: follows_noop [OF assms(1-3)] advances_behind)

lemma follows_blank:
  assumes step: "engine v = snd (engine_step (engine r) ev)" "screen_acts v = screen_acts r"
    and act: "action_of (ev, fst (engine_step (engine r) ev)) = Some OffCalled"
    and finished: "blank_done v r'"
  shows "advances r r'"
proof -
  from finished obtain ok t where "engine r' = complete_blank (engine v) ok t"
    "screen_acts r' = screen_acts v @ [OffCalled, OffReported ok t]"
    unfolding blank_done_def by blast
  then show ?thesis
    unfolding advances_def using step act
    by (intro exI [of _ "[ev, BlankCompleted ok t]"]) (simp add: split_beta)
qed

lemma blank_request_follows:
  assumes "engine v = snd (engine_step (engine r) ev)" "screen_acts v = screen_acts r"
    and "action_of (ev, fst (engine_step (engine r) ev)) = Some OffCalled" "event = Idle \<or> event = Lock"
  shows "wp (handle_blank_request host src event) (\<lambda>_. advances r) (\<lambda>_. behind r) v"
  by (rule wp_mono [OF handle_blank_request_spec [OF assms(4)]])
     (auto intro: follows_blank [OF assms(1-3)] follows_step [OF assms(1-3)] advances_behind)

lemma wp_on_engine [wp_rules]:
  "wp (on_engine f) Q E r = Q (fst (f (engine r))) (r\<lparr>engine := snd (f (engine r))\<rparr>)"
  by (simp add: wp_def on_engine_def split: prod.splits)

lemma restore_event_cases:
  "restore_event observation d = (if d = RestoreNow then restore_event observation RestoreNow else None)"
  "\<exists>event. restore_event observation RestoreNow = Some event \<and> restores event"
  by (cases observation; cases d; simp add: restores_def)+

lemma screen_acts_engine [simp]: "screen_acts (r\<lparr>engine := e\<rparr>) = screen_acts r"
  by (simp add: screen_acts_def)

lemma observation_decision:
  "fst (observe_activity e observation t) \<in> {NoOp, RestoreNow}"
  "fst (observe_lock e t) \<in> {NoOp, BlankNow}" "fst (observe_provider_idle e t) \<in> {NoOp, BlankNow}"
  by (cases "phase e"; simp add: observe_activity_def observe_lock_def observe_provider_idle_def Let_def)+

lemma handle_inactivity_observation_follows:
  "follows (handle_inactivity_observation host src observation t)"
  unfolding follows_def
proof
  fix r :: "'a run"
  let ?ev = "ActivitySeen observation t" and ?v = "r\<lparr>engine := snd (observe_activity (engine r) observation t)\<rparr>"
  have v: "engine ?v = snd (engine_step (engine r) ?ev)" "screen_acts ?v = screen_acts r" by simp_all
  consider "fst (observe_activity (engine r) observation t) = RestoreNow"
    | "fst (observe_activity (engine r) observation t) = NoOp"
    using observation_decision(1) [of "engine r" observation t] by auto
  then show "wp (handle_inactivity_observation host src observation t) (\<lambda>_. advances r) (\<lambda>_. behind r) r"
  proof cases
    case 1
    then have a: "action_of (?ev, fst (engine_step (engine r) ?ev)) = Some OnCalled" by simp
    obtain event where event: "restore_event observation RestoreNow = Some event" "restores event"
      using restore_event_cases(2) by blast
    have "wp (thenE (if c then put_line host msg_power_off_canceled else returnE ())
        (dispatch_event_from_source host src event)) (\<lambda>_. advances r) (\<lambda>_. behind r) ?v" for c
    proof (rule wp_thenI [OF stays_wp [of "did []"]])
      show "stays (did []) (if c then put_line host msg_power_off_canceled else returnE ())"
        by (auto simp: put_line_idle intro!: stays_if idle_run.stays_rules)
      show "wp (dispatch_event_from_source host src event) (\<lambda>_. advances r) (\<lambda>_. behind r) u" if "did [] ?v u" for u
      proof -
        have u: "engine u = snd (engine_step (engine r) ?ev)" "screen_acts u = screen_acts r"
          using that by (simp_all add: did_def)
        show ?thesis
          by (rule wp_mono [OF dispatch_restore_spec [OF event(2)]])
             (use follows_step [OF u a] advances_behind in blast)+
      qed
      show "behind r u" if "did [] ?v u" for u using that by (rule follows_step(1) [OF v a])
    qed
    with 1 event show ?thesis
      by (simp add: handle_inactivity_observation_def wp_bindE wp_getsE wp_on_engine)
  next
    case 2
    then have a: "action_of (?ev, fst (engine_step (engine r) ?ev)) = None" by simp
    have "advances r ?v" by (rule follows_noop [OF v a]) simp
    with 2 show ?thesis
      by (simp add: handle_inactivity_observation_def wp_rules restore_event_cases(1) [of _ NoOp])
  qed
qed

lemma handle_session_lock_follows: "follows (handle_session_lock host src t)"
  unfolding follows_def
proof
  fix r :: "'a run"
  let ?v = "r\<lparr>engine := snd (observe_lock (engine r) t)\<rparr>"
  have v: "engine ?v = snd (engine_step (engine r) (LockSeen t))" "screen_acts ?v = screen_acts r" by simp_all
  show "wp (handle_session_lock host src t) (\<lambda>_. advances r) (\<lambda>_. behind r) r"
    using observation_decision(2) [of "engine r" t] follows_noop [OF v, of ?v]
      blank_request_follows [OF v, of Lock]
    by (auto simp: handle_session_lock_def wp_rules)
qed

lemma handle_system_blank_follows: "follows (handle_system_blank host src t)"
proof -
  have "follows (bindE (on_engine (\<lambda>e. observe_provider_idle e t)) (\<lambda>decision.
      if decision = BlankNow then handle_blank_request host src Idle else put_line host msg_system_blank_ignored))"
    unfolding follows_def
  proof
    fix r :: "'a run"
    let ?v = "r\<lparr>engine := snd (observe_provider_idle (engine r) t)\<rparr>"
    have v: "engine ?v = snd (engine_step (engine r) (ProviderIdleSeen t))" "screen_acts ?v = screen_acts r" by simp_all
    show "wp (bindE (on_engine (\<lambda>e. observe_provider_idle e t)) (\<lambda>decision.
        if decision = BlankNow then handle_blank_request host src Idle else put_line host msg_system_blank_ignored))
        (\<lambda>_. advances r) (\<lambda>_. behind r) r"
      using observation_decision(3) [of "engine r" t] blank_request_follows [OF v, of Idle]
        noop_then_idle [OF v _ put_line_idle]
      by (auto simp: wp_rules)
  qed
  then show ?thesis
    unfolding handle_system_blank_def by (intro follows_then follows_ops)
qed

lemma observe_time_gate:
  "fst (observe_time e t f g) = fst (engine_step e (TimeSeen t (fst (f g))))"
  "fst (snd (observe_time e t f g)) = snd (engine_step e (TimeSeen t (fst (f g))))"
  by (simp_all add: observe_time_def Let_def split_beta)

lemma timed_spec:
  "wp (thenE (put_line host m) (dispatch_timed_power_off host t)) (\<lambda>_. did [TimedOffCalled t] r)
     (\<lambda>_ r'. did [] r r' \<or> did [TimedOffCalled t] r r') r"
proof (rule wp_thenI [OF stays_wp [OF put_line_idle]])
  fix v assume v: "did [] r v"
  show "wp (dispatch_timed_power_off host t) (\<lambda>_. did [TimedOffCalled t] r)
      (\<lambda>_ r'. did [] r r' \<or> did [TimedOffCalled t] r r') v"
    unfolding dispatch_timed_power_off_def
  proof (rule wp_bindI [OF call_executor_spec], goal_cases)
    case (2 a u)
    then have "did [TimedOffCalled t] r u" using did_trans [OF v] by fastforce
    then show ?case by (rule wp_mono [OF did_then_idle [OF _ report_action_idle]]) auto
  qed auto
qed auto

lemma handle_inactivity_timeout_follows: "follows (handle_inactivity_timeout host push t)"
  unfolding follows_def
proof
  fix r :: "'a run"
  let ?ev = "TimeSeen t (fst (poll_gate push t (gate r)))"
  obtain d e g where o: "observe_time (engine r) t (poll_gate push t) (gate r) = (d, e, g)"
    by (cases "observe_time (engine r) t (poll_gate push t) (gate r)")
  let ?v = "r\<lparr>engine := e, gate := g\<rparr>"
  have step: "fst (engine_step (engine r) ?ev) = d" "snd (engine_step (engine r) ?ev) = e"
    using observe_time_gate [of "engine r" t "poll_gate push t" "gate r"] o by simp_all
  then have v: "engine ?v = snd (engine_step (engine r) ?ev)" "screen_acts ?v = screen_acts r"
    by (simp_all add: screen_acts_def)
  have run: "wp (handle_inactivity_timeout host push t) Q E r =
      wp (case d of BlankNow \<Rightarrow> handle_blank_request host DesktopSession Idle
        | TimedPowerOffNow \<Rightarrow> thenE (put_line host msg_power_off_due) (dispatch_timed_power_off host t)
        | _ \<Rightarrow> returnE ()) Q E ?v" for Q E
    by (simp add: handle_inactivity_timeout_def observe_time_gated_def wp_bindE)
       (simp add: wp_def o)
  have "d \<noteq> RestoreNow"
    using step(1) by (auto simp: observe_time_def Let_def split: if_splits)
  moreover have "wp (thenE (put_line host m) (dispatch_timed_power_off host t)) (\<lambda>_. advances r) (\<lambda>_. behind r) ?v"
    if "d = TimedPowerOffNow" for m
  proof -
    have a: "action_of (?ev, fst (engine_step (engine r) ?ev)) = Some (TimedOffCalled t)"
      using that step(1) by simp
    show ?thesis
      by (rule wp_mono [OF timed_spec]) (use follows_step [OF v a] advances_behind in blast)+
  qed
  ultimately show "wp (handle_inactivity_timeout host push t) (\<lambda>_. advances r) (\<lambda>_. behind r) r"
    unfolding run
    using blank_request_follows [OF v, of Idle] noop_then_idle [OF v _ idle_run.stays_returnE] step(1)
    by (cases d) simp_all
qed

section \<open>The loop\<close>

lemma unlock_follows: "follows (thenE (on_engine (\<lambda>e. ((), observe_unlock e))) (dispatch_event_from_source host src Unlock))"
  unfolding follows_def
proof
  fix r :: "'a run"
  let ?v = "r\<lparr>engine := observe_unlock (engine r)\<rparr>"
  have v: "engine ?v = snd (engine_step (engine r) UnlockSeen)" "screen_acts ?v = screen_acts r" by simp_all
  show "wp (thenE (on_engine (\<lambda>e. ((), observe_unlock e))) (dispatch_event_from_source host src Unlock))
      (\<lambda>_. advances r) (\<lambda>_. behind r) r"
    using noop_then_idle [OF v _ dispatch_other_idle [of Unlock]] by (simp add: wp_thenE wp_on_engine)
qed

lemma handle_message_follows: "follows (handle_message host message)"
proof (cases message)
  case (SessionEventMessage event src t)
  then show ?thesis
    by (cases event)
       (auto simp del: dispatch_event_from_source.simps simp: handle_inactivity_observation_follows
         handle_session_lock_follows unlock_follows intro!: follows_idle dispatch_other_idle idle_run.stays_rules)
qed (auto simp: handle_inactivity_observation_follows handle_system_blank_follows intro!: follows_idle idle_ops)

lemma handle_batch_follows: "follows (handle_batch host batch)"
  by (induction host batch rule: handle_batch.induct)
     (auto intro!: follows_then follows_ops handle_inactivity_observation_follows)

lemma drain_and_handle_follows: "follows (drain_and_handle host)"
  unfolding drain_and_handle_def by (intro follows_bind follows_ops handle_batch_follows)

lemma handle_wait_timeout_follows: "follows (handle_wait_timeout host ps statuses worker push t)"
proof -
  have "follows (modifyE (\<lambda>r. r\<lparr>gate := f (gate r)\<rparr>))" for f
    by (rule follows_idle, rule idle_run.stays_modifyE) simp
  then show ?thesis
    unfolding handle_wait_timeout_def
    by (auto intro!: follows_bind follows_then drain_and_handle_follows handle_inactivity_timeout_follows follows_ops)
qed

lemma monitor_iteration_follows: "follows (monitor_iteration host t)"
  unfolding monitor_iteration_def
  by (auto intro!: follows_then drain_and_handle_follows handle_wait_timeout_follows handle_message_follows
      follows_ops split: wait_result.splits)

lemma monitor_loop_follows: "follows (monitor_loop host ts)"
  by (induction host ts rule: monitor_loop.induct)
     (auto intro!: follows_bind monitor_iteration_follows follows_ops)

section \<open>What the executor is asked to do\<close>

lemma map_filter_split:
  assumes "List.map_filter f xs = pre @ y # post"
  obtains as x bs where "xs = as @ x # bs" "f x = Some y" "List.map_filter f as = pre" "List.map_filter f bs = post"
proof -
  from assms have "\<exists>as x bs. xs = as @ x # bs \<and> f x = Some y \<and> List.map_filter f as = pre \<and> List.map_filter f bs = post"
  proof (induction xs arbitrary: pre)
    case (Cons x xs)
    show ?case
    proof (cases "f x")
      case None
      with Cons.prems have "List.map_filter f xs = pre @ y # post" by (simp add: List.map_filter_simps)
      from Cons.IH [OF this] obtain as x' bs where "xs = as @ x' # bs" "f x' = Some y"
        "List.map_filter f as = pre" "List.map_filter f bs = post" by blast
      with None show ?thesis
        by (intro exI [of _ "x # as"] exI [of _ x'] exI [of _ bs]) (simp add: List.map_filter_simps)
    next
      case (Some z)
      show ?thesis
      proof (cases pre)
        case Nil
        with Some Cons.prems show ?thesis
          by (intro exI [of _ "[]"] exI [of _ x] exI [of _ xs]) (simp add: List.map_filter_simps)
      next
        case (Cons z' pre')
        with Some Cons.prems have "List.map_filter f xs = pre' @ y # post" by (simp add: List.map_filter_simps)
        from Cons.IH [OF this] obtain as x' bs where "xs = as @ x' # bs" "f x' = Some y"
          "List.map_filter f as = pre'" "List.map_filter f bs = post" by blast
        with Some Cons Cons.prems show ?thesis
          by (intro exI [of _ "x # as"] exI [of _ x'] exI [of _ bs]) (auto simp: List.map_filter_simps)
      qed
    qed
  qed (simp add: List.map_filter_simps)
  with that show ?thesis by blast
qed

lemma engine_log_split:
  assumes "engine_log e evs = as @ x # bs"
  obtains xs ev ys where "evs = xs @ ev # ys" "engine_log e xs = as"
    "x = (ev, fst (engine_step (engine_after e xs) ev))"
    "engine_log (snd (engine_step (engine_after e xs) ev)) ys = bs"
proof -
  have l: "length (engine_log e' evs') = length evs'" for e' evs'
    by (induction evs' arbitrary: e') (simp_all add: split_beta Let_def)
  have "length as < length evs" using assms l [of e evs] by simp
  then obtain xs ev ys where evs: "evs = xs @ ev # ys" "length xs = length as"
    using id_take_nth_drop [of "length as" evs] by (metis length_take min.absorb4)
  have "engine_log e evs = engine_log e xs @ (ev, fst (engine_step (engine_after e xs) ev)) #
      engine_log (snd (engine_step (engine_after e xs) ev)) ys"
    by (simp add: evs(1) engine_exec_append split_beta Let_def)
  with assms evs(2) l [of e xs] that [OF evs(1)] show ?thesis by (metis append_eq_append_conv list.inject)
qed

lemma action_of_timed: "action_of (ev, d) = Some (TimedOffCalled t) \<Longrightarrow> \<exists>allowed. ev = TimeSeen t allowed \<and> d = TimedPowerOffNow"
  by (cases "(ev, d)" rule: action_of.cases) auto

lemma action_of_on: "action_of (ev, d) = Some OnCalled \<Longrightarrow> d = RestoreNow"
  by (cases "(ev, d)" rule: action_of.cases) auto

lemma action_of_off: "action_of (ev, d) = Some OffCalled \<Longrightarrow> d = BlankNow"
  by (cases "(ev, d)" rule: action_of.cases) auto

lemma restore_is_on: "snd x = RestoreNow \<Longrightarrow> (\<And>ok t. fst x \<noteq> BlankCompleted ok t) \<Longrightarrow> action_of x = Some OnCalled"
  by (cases x rule: action_of.cases) auto

lemma blank_completed_noop: "(BlankCompleted ok t, d) \<in> set (engine_log e evs) \<Longrightarrow> d = NoOp"
  by (induction evs arbitrary: e) (auto simp: split_beta Let_def)

lemma no_restore_no_on: "\<forall>x \<in> set xs. snd x \<noteq> RestoreNow \<Longrightarrow> OnCalled \<notin> set (List.map_filter action_of xs)"
  using action_of_on by (auto simp: List.map_filter_def)

lemma engine_timed_off_earned:
  assumes "actions_of e evs = pre @ TimedOffCalled t # post" "engine_inv e"
  shows "(\<exists>earlier since_then c. pre = earlier @ OffReported True c # since_then \<and> c + power_off_after e \<le> t \<and>
      OnCalled \<notin> set since_then) \<or>
    (\<exists>d. power_off_at e = Some d \<and> d \<le> t \<and> OnCalled \<notin> set pre)"
proof -
  obtain as x bs where s: "engine_log e evs = as @ x # bs" "action_of x = Some (TimedOffCalled t)"
      "List.map_filter action_of as = pre"
    using assms(1) unfolding actions_of_def by (elim map_filter_split)
  obtain xs ev where x: "engine_log e xs = as" "x = (ev, fst (engine_step (engine_after e xs) ev))"
    using s(1) by (elim engine_log_split)
  then obtain allowed where ev: "ev = TimeSeen t allowed" "fst (engine_step (engine_after e xs) ev) = TimedPowerOffNow"
    using s(2) action_of_timed by blast
  obtain d where d: "power_off_at (engine_after e xs) = Some d" "d \<le> t"
    using engine_step_decision_phase [OF ev(2)] ev(1) by auto
  from armed_since [OF assms(2) d(1)] show ?thesis
  proof
    assume "\<exists>p1 p2 c. engine_log e xs = p1 @ (BlankCompleted True c, NoOp) # p2 \<and>
      d = c + power_off_after e \<and> (\<forall>x \<in> set p2. snd x \<noteq> RestoreNow)"
    then obtain p1 p2 c where "engine_log e xs = p1 @ (BlankCompleted True c, NoOp) # p2"
      "d = c + power_off_after e" "\<forall>x \<in> set p2. snd x \<noteq> RestoreNow" by blast
    with s(3) x(1) d(2) show ?thesis
      by (intro disjI1 exI [of _ "List.map_filter action_of p1"] exI [of _ "List.map_filter action_of p2"] exI [of _ c])
         (auto simp: List.map_filter_simps no_restore_no_on)
  next
    assume "power_off_at e = Some d \<and> (\<forall>x \<in> set (engine_log e xs). snd x \<noteq> RestoreNow)"
    with s(3) x(1) d(2) show ?thesis using no_restore_no_on by blast
  qed
qed

lemma engine_single_blank:
  assumes "actions_of e evs = pre @ OffCalled # between @ OffCalled # post"
  shows "OnCalled \<in> set between"
proof (rule ccontr)
  assume no: "OnCalled \<notin> set between"
  obtain as x bs where s: "engine_log e evs = as @ x # bs" "action_of x = Some OffCalled"
      "List.map_filter action_of bs = between @ OffCalled # post"
    using assms unfolding actions_of_def by (rule map_filter_split) (rule that)
  obtain xs ev ys where x: "x = (ev, fst (engine_step (engine_after e xs) ev))"
      "engine_log (snd (engine_step (engine_after e xs) ev)) ys = bs"
    using s(1) by (elim engine_log_split)
  let ?e = "snd (engine_step (engine_after e xs) ev)"
  have lit: "display_of (phase ?e) \<noteq> Lit"
    using s(2) x(1) action_of_off blank_leaves_lit by blast
  obtain cs y ds where b: "bs = cs @ y # ds" "action_of y = Some OffCalled" "List.map_filter action_of cs = between"
    using s(3) by (elim map_filter_split)
  obtain zs ev' where z: "engine_log ?e zs = cs" "y = (ev', fst (engine_step (engine_after ?e zs) ev'))"
    using b(1) x(2) by (metis engine_log_split)
  have "snd c \<noteq> RestoreNow" if "c \<in> set cs" for c
  proof
    assume "snd c = RestoreNow"
    moreover from this have "fst c \<noteq> BlankCompleted ok t" for ok t
      using that z(1) blank_completed_noop by (metis InactivityDecision.distinct(11) prod.collapse)
    ultimately have "action_of c = Some OnCalled" by (rule restore_is_on)
    with that no b(3) show False by (force simp: List.map_filter_def)
  qed
  moreover have "snd y = BlankNow" using b(2) action_of_off by (metis prod.collapse)
  moreover have "engine_log ?e (zs @ [ev']) = cs @ [y]" using z by (simp add: engine_exec_step)
  ultimately show False
    using no_blank_unless_lit [OF lit, of "zs @ [ev']"] by auto
qed

text \<open>
  C12. The monitor does exactly what the engine decides. For any executor, any log writer and any
  sequence of iterations there is a sequence of engine calls, whose final engine is the monitor's,
  such that the executor's screen calls (and the completions reported back) are the ones those
  decisions ask for, in order; if the monitor stops on a failing log write they are an initial part
  of them, and otherwise all of them.
\<close>

theorem monitor_follows_engine:
  "\<exists>evs owed. engine (snd (monitor_loop host ts r)) = engine_after (engine r) evs \<and>
     screen_acts (snd (monitor_loop host ts r)) @ owed = screen_acts r @ actions_of (engine r) evs \<and>
     (case fst (monitor_loop host ts r) of Inr _ \<Rightarrow> owed = [] | Inl _ \<Rightarrow> True)"
proof -
  obtain res r' where run: "monitor_loop host ts r = (res, r')" by fastforce
  from wp_result [OF followsD [OF monitor_loop_follows] run] run show ?thesis
    by (cases res) (auto simp: advances_def behind_def)
qed

lemma monitor_prefix:
  assumes "monitor_loop host ts (start_run x e g) = (res, r)"
  shows "\<exists>evs owed. screen_acts r @ owed = actions_of e evs \<and> engine r = engine_after e evs"
proof -
  have "screen_acts (start_run x e g) = []" "engine (start_run x e g) = e"
    by (simp_all add: start_run_def screen_acts_def)
  moreover have "behind (start_run x e g) r"
    using wp_result [OF followsD [OF monitor_loop_follows] assms] by (cases res) (auto intro: advances_behind)
  ultimately show ?thesis unfolding behind_def by auto
qed

lemma start_engine_simps [simp]:
  "engine_inv (start_engine b p s marker_present)"
  "power_off_at (start_engine b p s marker_present) = (if marker_present then Some (s + p) else None)"
  "power_off_after (start_engine b p s marker_present) = p"
  using engine_inv_new by (simp_all add: start_engine_def new_with_power_off_after_def
      new_with_restore_pending_and_power_off_after_def)


text \<open>
  The TV is blanked once per idle period: in any run of the monitor, between two screen-off
  calls there is a restore call, whatever mix of idle deadlines, locks and display blanks asked for
  them.
\<close>

theorem monitor_blanks_once:
  assumes "monitor_loop host ts (start_run x e g) = (res, r)"
    and "screen_acts r = pre @ OffCalled # between @ OffCalled # post"
  shows "OnCalled \<in> set between"
proof -
  obtain evs owed where "screen_acts r @ owed = actions_of e evs"
    using monitor_prefix [OF assms(1)] by blast
  then have "actions_of e evs = pre @ OffCalled # between @ OffCalled # (post @ owed)"
    using assms(2) by simp
  then show ?thesis by (rule engine_single_blank)
qed

section \<open>A concrete monitor\<close>

definition obedient :: "unit executor" where
  "obedient =
     \<lparr>exec_screen_off = \<lambda>_ u. (Inr \<lparr>off_output = [], blank_reported = True\<rparr>, u),
      exec_timed_power_off = \<lambda>_ u. (Inr [], u), exec_screen_on = \<lambda>_ u. (Inr [], u),
      exec_before_sleep = \<lambda>_ u. (Inr [], u), exec_after_resume_streaming = \<lambda>_ u. ((Inr (), []), u)\<rparr>"

definition quiet_host :: "unit host" where
  "quiet_host =
     \<lparr>executor_of = obedient, writes = \<lambda>_. None, flushes = \<lambda>_. None, clock = \<lambda>_. 11, power_off_text = ''3''\<rparr>"

definition tick_at :: "instant \<Rightarrow> tick" where
  "tick_at t = \<lparr>deadline_reached = False, published = [], adapter_status = [],
     waited = WaitTimeout [] [(Wayland, StatusAvailable)] [] [] t\<rparr>"

definition key_pressed :: "instant \<Rightarrow> tick" where
  "key_pressed t = \<lparr>deadline_reached = False,
     published = [(Wayland, InactivityObserved DesktopActivityObserved DesktopSession t)], adapter_status = [],
     waited = Received EligibilityChanged\<rparr>"

definition evening :: "tick list" where
  "evening = [tick_at 4, tick_at 10, tick_at 12, tick_at 20, key_pressed 21, tick_at 30]"

lemma example_evening:
  "screen_acts (snd (monitor_loop quiet_host evening (start_run () (start_engine 5 3 0 False) None))) =
     [OffCalled, OffReported True 11, TimedOffCalled 20, OnCalled, OffCalled, OffReported True 11]"
  by code_simp


theorem monitor_blanks_once_witness:
  "OnCalled \<in> set [OffReported True 11, TimedOffCalled 20, OnCalled]"
proof -
  have "monitor_loop quiet_host evening (start_run () (start_engine 5 3 0 False) None) =
      (fst (monitor_loop quiet_host evening (start_run () (start_engine 5 3 0 False) None)),
       snd (monitor_loop quiet_host evening (start_run () (start_engine 5 3 0 False) None)))"
    by simp
  from monitor_blanks_once [OF this, of "[]"] example_evening show ?thesis by force
qed

section \<open>The monitor and the inhibition gate\<close>

lemma gate_run_append: "gate_run b ls' c \<Longrightarrow> gate_run a ls b \<Longrightarrow> gate_run a (ls @ ls') c"
  by (induction rule: gate_run.induct) (auto simp flip: append_assoc intro: gate_run.intros)

text \<open>The moves of the gate that the monitor and the worker make: all its operations but a reconfiguration.\<close>

definition gate_move :: "Inhibition \<Rightarrow> Inhibition \<Rightarrow> bool" where
  "gate_move a b \<longleftrightarrow> (\<exists>l. gate_step a l b \<and> (\<forall>config delay. l \<noteq> Configure config delay))"

definition cancels :: "Inhibition \<Rightarrow> Inhibition \<Rightarrow> bool" where
  "cancels a b \<longleftrightarrow> b = cancel a"

abbreviation gate_moves :: "Inhibition \<Rightarrow> Inhibition \<Rightarrow> bool" where
  "gate_moves \<equiv> gate_move\<^sup>*\<^sup>*"

lemma gate_move_cancels: "cancels \<le> gate_move"
  using cancelling by (fastforce simp: cancels_def gate_move_def)

lemma gate_moves_step:
  "gate_step a l b \<Longrightarrow> (\<And>config delay. l \<noteq> Configure config delay) \<Longrightarrow> gate_moves a b"
  unfolding gate_move_def by blast

lemma can_blank_preference: "preference (snd (can_blank inh push t)) = preference inh"
proof -
  have "preference (snd (request_and_record inh' sec t)) = preference inh'" for inh' sec
    by (simp add: request_and_record_def start_check_def Let_def split: prod.splits option.splits)
  then show ?thesis by (simp add: can_blank_def Let_def split: option.splits)
qed

lemma gate_step_preference:
  "gate_step a l b \<Longrightarrow> (\<And>config delay. l \<noteq> Configure config delay) \<Longrightarrow> preference b = preference a"
  by (induction rule: gate_step.induct) (use can_blank_preference in \<open>auto, metis snd_conv\<close>)

lemma gate_moves_run: "gate_moves a b \<Longrightarrow> (\<exists>ls. gate_run a ls b) \<and> preference b = preference a"
proof (induction rule: rtranclp_induct)
  case (step b c)
  then show ?case using gate_step_preference by (auto simp: gate_move_def intro: gate_next)
qed (use gate_stop in auto)

lemma cancels_pending: "cancels\<^sup>*\<^sup>* a b \<Longrightarrow> pending a = None \<Longrightarrow> pending b = None"
  by (induction rule: rtranclp_induct) (auto simp: cancels_def)

lemma worker_progress_moves: "gate_moves inh (worker_progress inh ls)"
proof (induction inh ls rule: worker_progress.induct)
  case (2 inh ls)
  have "gate_moves inh (inh\<lparr>chans := unwrap_or (worker_take (chans inh)) (chans inh)\<rparr>)"
    by (cases "worker_take (chans inh)") (auto intro: gate_moves_step taking)
  with 2 show ?case by (auto intro: rtranclp_trans)
next
  case (3 inh answers ls)
  have "gate_moves inh (inh\<lparr>chans := unwrap_or (worker_answer (chans inh) answers) (chans inh)\<rparr>)"
    by (cases "worker_answer (chans inh) answers") (auto intro: gate_moves_step answering)
  with 3 show ?case by (auto intro: rtranclp_trans)
next
  case (4 inh ls)
  have "gate_moves inh (inh\<lparr>chans := worker_lost (chans inh)\<rparr>)" by (rule gate_moves_step [OF losing]) simp
  with 4 show ?case by (auto intro: rtranclp_trans)
qed simp_all

lemma worker_progress_pending [simp]: "pending (worker_progress inh ls) = pending inh"
  by (induction inh ls rule: worker_progress.induct) simp_all

text \<open>
  What a part of the monitor may do besides following the engine: the gate only moves by \<open>M\<close>, and
  the screen actions taken are in \<open>A\<close>.
\<close>

definition keeps_gate :: "(Inhibition \<Rightarrow> Inhibition \<Rightarrow> bool) \<Rightarrow> act set \<Rightarrow> 'x run \<Rightarrow> 'x run \<Rightarrow> bool" where
  "keeps_gate M A r r' \<longleftrightarrow> rel_option M\<^sup>*\<^sup>* (gate r) (gate r') \<and>
     (\<exists>new. screen_acts r' = screen_acts r @ new \<and> set new \<subseteq> A)"

lemma rel_option_moves_trans: "rel_option M\<^sup>*\<^sup>* a b \<Longrightarrow> rel_option M\<^sup>*\<^sup>* b c \<Longrightarrow> rel_option M\<^sup>*\<^sup>* a c"
  by (auto elim!: option.rel_cases intro!: option.rel_intros intro: rtranclp_trans)

lemma rel_option_moves_mono: "M \<le> M' \<Longrightarrow> rel_option M\<^sup>*\<^sup>* a b \<Longrightarrow> rel_option M'\<^sup>*\<^sup>* a b"
  using rtranclp_mono [of M M'] by (auto elim!: option.rel_cases intro!: option.rel_intros)

lemma rel_option_moves_refl [simp]: "rel_option M\<^sup>*\<^sup>* g g"
  by (cases g) auto

interpretation kg: world_preorder "keeps_gate M A"
proof
  show "keeps_gate M A w w" for w :: "'x run"
    by (auto simp: keeps_gate_def intro!: exI [of _ "[]"])
next
  fix u v w :: "'x run"
  assume "keeps_gate M A u v" "keeps_gate M A v w"
  then show "keeps_gate M A u w"
    unfolding keeps_gate_def using rel_option_moves_trans by fastforce
qed

lemma keeps_gate_updates [simp]:
  "keeps_gate M A r (r\<lparr>printed := x\<rparr>)" "keeps_gate M A r (r\<lparr>mailbox := m\<rparr>)" "keeps_gate M A r (r\<lparr>last_diagnostics := d\<rparr>)"
  "keeps_gate M A r (r\<lparr>exec_state := s\<rparr>)" "keeps_gate M A r (r\<lparr>engine := e\<rparr>)" "keeps_gate M A r r"
  by (simp_all add: keeps_gate_def screen_acts_def)

lemma keeps_gate_move: "rel_option M\<^sup>*\<^sup>* (gate r) g \<Longrightarrow> keeps_gate M A r (r\<lparr>gate := g\<rparr>)"
  by (simp add: keeps_gate_def screen_acts_def)

lemma cancel_moves: "cancels \<le> M \<Longrightarrow> rel_option M\<^sup>*\<^sup>* g (map_option cancel g)"
  by (cases g) (auto simp: cancels_def)

lemma kg_put_line: "stays (keeps_gate M A) (put_line host line)"
  by (simp add: stays_def put_line_def put_def split: option.splits)

lemma kg_put: "stays (keeps_gate M A) (put host text)"
  by (simp add: stays_def put_def split: option.splits)

lemma kg_put_flush: "stays (keeps_gate M A) (put_flush host)"
  by (simp add: stays_def put_flush_def split: option.splits)

lemma kg_write_command_output: "stays (keeps_gate M A) (write_command_output host output)"
  by (simp add: write_command_output_def kg_put kg_put_line kg_put_flush kg.stays_rules)

lemma kg_report_action: "stays (keeps_gate M A) (report_action host failed result)"
  by (simp add: report_action_def kg_write_command_output kg_put_line split: sum.splits)

lemma kg_call: "is_screen_act a \<longrightarrow> a \<in> A \<Longrightarrow> stays (keeps_gate M A) (call_executor a f)"
  by (auto simp: stays_def call_executor_def note_act_def thenE_def bindE_def modifyE_def keeps_gate_def screen_acts_def
      split: prod.splits)

lemma kg_on_engine: "stays (keeps_gate M A) (on_engine f)"
  by (simp add: stays_def on_engine_def split: prod.splits)

lemma kg_cancel_gate: "cancels \<le> M \<Longrightarrow> stays (keeps_gate M A) cancel_gate"
  by (simp add: cancel_gate_def kg.stays_modifyE keeps_gate_move cancel_moves)

lemma kg_publish_all: "stays (keeps_gate M A) (publish_all ps)"
  by (simp add: publish_all_def kg.stays_modifyE)

lemma kg_drain_mailbox: "stays (keeps_gate M A) drain_mailbox"
  by (simp add: stays_def drain_mailbox_def split: prod.splits)

lemma kg_report_statuses: "stays (keeps_gate M A) (report_statuses host statuses)"
  by (induction host statuses rule: report_statuses.induct) (auto simp: kg_put_line intro!: kg.stays_rules)

lemma kg_note_statuses: "cancels \<le> M \<Longrightarrow> stays (keeps_gate M A) (note_statuses host statuses)"
  by (auto simp: note_statuses_def kg_cancel_gate kg_report_statuses intro!: kg.stays_rules kg.stays_modifyE stays_if)

lemma kg_stream: "stays (keeps_gate M A) (stream_after_resume host failed event)"
  by (auto simp: stream_after_resume_def kg_put_line
      intro!: kg.stays_rules kg.stays_modifyE kg_call split: prod.splits sum.splits)

lemmas kg_ops = kg_put_line kg_write_command_output kg_report_action kg_put_flush kg_cancel_gate kg_publish_all
  kg_drain_mailbox kg_note_statuses kg_on_engine gate_move_cancels kg_stream

lemma kg_screen_off: "OffCalled \<in> A \<Longrightarrow> stays (keeps_gate M A) (dispatch_screen_off host src event)"
  by (auto simp: dispatch_screen_off_def intro!: kg.stays_rules kg_ops kg_call split: sum.splits)

lemma kg_dispatch:
  "event \<in> {Idle, Lock} \<longrightarrow> OffCalled \<in> A \<Longrightarrow> restores event \<longrightarrow> OnCalled \<in> A \<Longrightarrow>
     stays (keeps_gate M A) (dispatch_event_from_source host src event)"
  by (cases event) (auto simp: restores_def intro!: kg.stays_rules kg_ops kg_call kg_screen_off)

lemma restore_event_restores: "restore_event observation d = Some event \<Longrightarrow> restores event"
  by (cases observation; cases d) (auto simp: restores_def)

lemma kg_observation: "OnCalled \<in> A \<Longrightarrow> stays (keeps_gate M A) (handle_inactivity_observation host src observation t)"
proof -
  assume on: "OnCalled \<in> A"
  have "stays (keeps_gate M A) (dispatch_event_from_source host src event)"
    if "restore_event observation d = Some event" for d event
    using restore_event_restores [OF that] on by (intro kg_dispatch) (auto simp: restores_def)
  then show ?thesis
    by (auto simp: handle_inactivity_observation_def intro!: kg.stays_rules kg_ops stays_if split: option.splits)
qed

lemma kg_complete_blank: "(\<And>t. OffReported ok t \<in> A) \<Longrightarrow> stays (keeps_gate M A) (complete_blank_now host ok)"
  by (auto simp: stays_def complete_blank_now_def note_act_def thenE_def bindE_def getsE_def modifyE_def on_engine_def
      keeps_gate_def screen_acts_def)

lemma kg_blank_request:
  "OffCalled \<in> A \<Longrightarrow> (\<And>ok t. OffReported ok t \<in> A) \<Longrightarrow> stays (keeps_gate M A) (handle_blank_request host src event)"
  unfolding handle_blank_request_def
  by (intro kg.stays_rules kg_ops kg_screen_off kg_complete_blank)
     (auto intro!: kg_ops kg.stays_rules split: SessionEvent.splits)

lemma kg_batch: "cancels \<le> M \<Longrightarrow> OnCalled \<in> A \<Longrightarrow> stays (keeps_gate M A) (handle_batch host batch)"
  by (induction host batch rule: handle_batch.induct) (auto intro!: kg.stays_rules kg_ops kg_observation)

lemma kg_drain_and_handle: "cancels \<le> M \<Longrightarrow> OnCalled \<in> A \<Longrightarrow> stays (keeps_gate M A) (drain_and_handle host)"
  unfolding drain_and_handle_def by (intro kg.stays_rules kg_ops kg_batch)

lemma poll_gate_moves: "rel_option gate_moves g (snd (poll_gate push t g))"
  by (cases g) (auto simp: poll_gate_def intro: gate_moves_step poll split: prod.splits)

lemma kg_observe_time: "stays (keeps_gate gate_move A) (observe_time_gated push t)"
proof -
  have "rel_option gate_moves g (snd (snd (observe_time e t (poll_gate push t) g)))" for e g
    using poll_gate_moves [of g push t] by (auto simp: observe_time_def Let_def split: prod.splits)
  then show ?thesis
    by (auto simp: stays_def observe_time_gated_def keeps_gate_def screen_acts_def split: prod.splits)
      (metis snd_conv)
qed

lemma kg_timeout: "stays (keeps_gate gate_move UNIV) (handle_inactivity_timeout host push t)"
  unfolding handle_inactivity_timeout_def dispatch_timed_power_off_def
  by (intro kg.stays_rules kg_observe_time)
     (auto intro!: kg.stays_rules kg_ops kg_blank_request kg_call split: InactivityDecision.splits)

lemma kg_message: "stays (keeps_gate gate_move UNIV) (handle_message host message)"
proof (cases message)
  case (SessionEventMessage event src t)
  then show ?thesis
    by (cases event)
       (auto simp del: dispatch_event_from_source.simps simp: handle_session_lock_def
         intro!: kg.stays_rules kg_ops kg_observation kg_dispatch kg_blank_request)
qed (auto simp: handle_system_blank_def intro!: kg.stays_rules kg_ops kg_observation kg_blank_request)

lemma kg_worker: "stays (keeps_gate gate_move A) (modifyE (\<lambda>r. r\<lparr>gate := map_option (\<lambda>inh. worker_progress inh worker) (gate r)\<rparr>))"
proof (rule kg.stays_modifyE, rule keeps_gate_move)
  show "rel_option gate_moves (gate w) (map_option (\<lambda>inh. worker_progress inh worker) (gate w))" for w :: "'a run"
    by (cases "gate w") (simp_all add: worker_progress_moves)
qed

lemma kg_wait_timeout: "stays (keeps_gate gate_move UNIV) (handle_wait_timeout host ps statuses worker push t)"
  unfolding handle_wait_timeout_def
  by (intro kg.stays_rules kg_ops kg_drain_and_handle kg_timeout kg_worker stays_if) simp

lemma kg_monitor_iteration: "stays (keeps_gate gate_move UNIV) (monitor_iteration host t)"
proof -
  have "stays (keeps_gate gate_move UNIV) (thenE (if cancels_gate message then cancel_gate else returnE ())
      (thenE (handle_message host message) (returnE True)))" for message
    by (intro kg.stays_rules kg_ops kg_message stays_if)
  moreover have "stays (keeps_gate gate_move UNIV) (thenE (handle_wait_timeout host ps statuses worker push at) (returnE True))"
    for ps statuses worker push at
    by (intro kg.stays_rules kg_wait_timeout)
  ultimately show ?thesis
    unfolding monitor_iteration_def
    by (intro stays_if kg.stays_thenE kg.stays_returnE kg_ops kg_drain_and_handle)
       (simp_all add: kg.stays_returnE split: wait_result.splits)
qed

lemma kg_monitor_loop: "stays (keeps_gate gate_move UNIV) (monitor_loop host ts)"
proof (induction ts)
  case (Cons t ts)
  then have "stays (keeps_gate gate_move UNIV) (if continues then monitor_loop host ts else returnE ())" for continues
    by (simp add: kg.stays_returnE)
  then show ?case unfolding monitor_loop.simps by (intro kg.stays_bindE kg_monitor_iteration)
qed (simp add: kg.stays_returnE)

text \<open>A timeout blanks only if the gate, as the worker has left it, says yes.\<close>

lemma timeout_blank_polls:
  "wp (handle_inactivity_timeout host push t)
     (\<lambda>_ r'. fst (poll_gate push t (gate r)) \<or> keeps_gate gate_move {TimedOffCalled t} r r')
     (\<lambda>_ r'. fst (poll_gate push t (gate r)) \<or> keeps_gate gate_move {TimedOffCalled t} r r') r"
proof (cases "fst (poll_gate push t (gate r))")
  case False
  obtain d e g where o: "observe_time (engine r) t (poll_gate push t) (gate r) = (d, e, g)"
    by (cases "observe_time (engine r) t (poll_gate push t) (gate r)")
  have d: "d \<noteq> BlankNow"
    using o False by (auto simp: observe_time_def Let_def split: if_splits prod.splits)
  have "keeps_gate gate_move {TimedOffCalled t} r (r\<lparr>engine := e, gate := g\<rparr>)"
    using kg_observe_time [of "{TimedOffCalled t}" push t] o
    by (auto simp: stays_def observe_time_gated_def dest: spec [of _ r])
  moreover have "stays (keeps_gate gate_move {TimedOffCalled t})
      (thenE (put_line host msg_power_off_due) (dispatch_timed_power_off host t))"
    unfolding dispatch_timed_power_off_def by (intro kg.stays_rules kg_ops kg_call) simp
  ultimately have "wp (case d of BlankNow \<Rightarrow> handle_blank_request host DesktopSession Idle
        | TimedPowerOffNow \<Rightarrow> thenE (put_line host msg_power_off_due) (dispatch_timed_power_off host t)
        | _ \<Rightarrow> returnE ()) (\<lambda>_. keeps_gate gate_move {TimedOffCalled t} r) (\<lambda>_. keeps_gate gate_move {TimedOffCalled t} r)
      (r\<lparr>engine := e, gate := g\<rparr>)"
    using d by (cases d) (auto simp: wp_returnE intro: wp_mono [OF stays_wp] kg.R_trans)
  with False show ?thesis
    by (simp add: handle_inactivity_timeout_def observe_time_gated_def wp_bindE) (simp add: wp_def o)
qed (simp add: wp_def split: prod.splits sum.splits)

text \<open>The activity found when the mailbox is read after \<open>ps\<close> was published, and the mailbox left behind.\<close>

definition activity :: "(ActivitySource \<times> SessionObservation) list \<Rightarrow> ActivityContributions \<Rightarrow>
    (ActivitySource \<times> InactivityObservation \<times> instant) list" where
  "activity ps m = fst (drain (foldl (\<lambda>m (src, observation). publish m src observation) m ps))"

definition mailbox_read :: "(ActivitySource \<times> SessionObservation) list \<Rightarrow> ActivityContributions \<Rightarrow> ActivityContributions" where
  "mailbox_read ps m = snd (drain (foldl (\<lambda>m (src, observation). publish m src observation) m ps))"

definition no_request :: "'x run \<Rightarrow> bool" where
  "no_request r \<longleftrightarrow> (\<forall>inh. gate r = Some inh \<longrightarrow> pending inh = None)"

text \<open>Handling what was published: nothing happens when there was no activity, otherwise no request is open.\<close>

definition drained :: "(ActivitySource \<times> SessionObservation) list \<Rightarrow> 'x run \<Rightarrow> 'x run \<Rightarrow> bool" where
  "drained ps r v \<longleftrightarrow> activity ps (mailbox r) = [] \<and> v = r\<lparr>mailbox := mailbox_read ps (mailbox r)\<rparr> \<or> no_request v"

lemma keeps_no_request: "keeps_gate cancels A r v \<Longrightarrow> no_request r \<Longrightarrow> no_request v"
  by (auto simp: keeps_gate_def no_request_def rel_option_iff dest: cancels_pending split: option.splits)

lemma cancel_no_request: "wp (thenE cancel_gate m) (\<lambda>_. no_request) (\<lambda>_ _. True) r"
  if "stays (keeps_gate cancels A) m" for m :: "('x run, SessionRunnerError, unit) eff"
proof -
  let ?r = "r\<lparr>gate := map_option cancel (gate r)\<rparr>"
  have "no_request ?r" by (cases "gate r") (simp_all add: no_request_def)
  then have "wp m (\<lambda>_. no_request) (\<lambda>_ _. True) ?r"
    by (intro wp_mono [OF stays_wp [OF that]]) (auto intro: keeps_no_request)
  then show ?thesis by (simp add: cancel_gate_def wp_rules)
qed

lemma wp_drain_mailbox:
  "wp drain_mailbox Q E r = Q (fst (drain (mailbox r))) (r\<lparr>mailbox := snd (drain (mailbox r))\<rparr>)"
  by (simp add: wp_def drain_mailbox_def split: prod.splits)

lemma drain_drained:
  "wp (thenE (publish_all ps) (drain_and_handle host)) (\<lambda>_. drained ps r) (\<lambda>_ _. True) r"
proof -
  have "wp (handle_batch host (activity ps (mailbox r))) (\<lambda>_. drained ps r) (\<lambda>_ _. True)
      (r\<lparr>mailbox := mailbox_read ps (mailbox r)\<rparr>)"
  proof (cases "activity ps (mailbox r)")
    case Nil
    then show ?thesis by (simp add: wp_returnE drained_def)
  next
    case (Cons b rest)
    obtain src observation t where b: "b = (src, observation, t)" by (cases b)
    have "stays (keeps_gate cancels {OnCalled})
        (thenE (handle_inactivity_observation host DesktopSession observation t) (handle_batch host rest))"
      by (intro kg.stays_rules kg_observation kg_batch) simp_all
    then show ?thesis
      unfolding Cons b handle_batch.simps by (intro wp_mono [OF cancel_no_request]) (simp_all add: drained_def)
  qed
  then show ?thesis
    by (simp add: drain_and_handle_def publish_all_def wp_thenE wp_modifyE wp_bindE wp_drain_mailbox activity_def mailbox_read_def)
qed

lemma statuses_noted:
  "wp (note_statuses host statuses) (\<lambda>_ v. statuses = last_diagnostics r \<and> v = r \<or> no_request v) (\<lambda>_ _. True) r"
proof (cases "statuses = last_diagnostics r")
  case False
  have "stays (keeps_gate cancels {}) (thenE (report_statuses host statuses) (modifyE (\<lambda>r. r\<lparr>last_diagnostics := statuses\<rparr>)))"
    by (intro kg.stays_rules kg.stays_modifyE kg_report_statuses) simp_all
  from cancel_no_request [OF this] False show ?thesis
    by (simp add: note_statuses_def wp_bindE wp_getsE)
qed (simp add: note_statuses_def wp_rules)

definition permitted_or_no_blank ::
    "(ActivitySource \<times> SessionObservation) list \<Rightarrow> gate_label list \<Rightarrow> InhibitionEvaluation list \<Rightarrow> instant \<Rightarrow>
      'x run \<Rightarrow> 'x run \<Rightarrow> bool" where
  "permitted_or_no_blank ps worker push t r r' \<longleftrightarrow>
     (\<exists>v. keeps_gate gate_move {OnCalled} r v \<and> drained ps r v \<and>
        fst (poll_gate push t (map_option (\<lambda>inh. worker_progress inh worker) (gate v)))) \<or>
     keeps_gate gate_move {OnCalled, TimedOffCalled t} r r'"

lemma keeps_gate_mono: "keeps_gate M A r r' \<Longrightarrow> A \<subseteq> B \<Longrightarrow> keeps_gate M B r r'"
  by (auto simp: keeps_gate_def)

lemma handle_wait_timeout_permitted:
  "wp (handle_wait_timeout host ps statuses worker push t) (\<lambda>_. permitted_or_no_blank ps worker push t r)
     (\<lambda>_. permitted_or_no_blank ps worker push t r) r"
proof -
  let ?A = "{OnCalled, TimedOffCalled t}" and ?P = "permitted_or_no_blank ps worker push t r"
  let ?work = "\<lambda>v. v\<lparr>gate := map_option (\<lambda>inh. worker_progress inh worker) (gate v)\<rparr>"
  have still: "?P v" if "keeps_gate gate_move A r v" "A \<subseteq> ?A" for v A
    using keeps_gate_mono [OF that] by (simp add: permitted_or_no_blank_def)
  have idle: "wp cancel_gate (\<lambda>_. ?P) (\<lambda>_. ?P) v" if "keeps_gate gate_move {OnCalled} r v" for v
    by (rule wp_mono [OF stays_wp [OF kg_cancel_gate [OF gate_move_cancels, of "{OnCalled}"]]])
      (use that kg.R_trans still in blast)+
  have poll: "wp (thenE (modifyE ?work) (handle_inactivity_timeout host push t)) (\<lambda>_. ?P) (\<lambda>_. ?P) v"
    if v: "keeps_gate gate_move {OnCalled} r v" "drained ps r v" for v
  proof -
    have "keeps_gate gate_move ?A v (?work v)"
      using staysD [OF kg_worker [of ?A worker], of v] by (simp add: modifyE_def)
    then have w: "keeps_gate gate_move ?A r (?work v)" using kg.R_trans keeps_gate_mono [OF v(1)] by blast
    have "?P w'" if "fst (poll_gate push t (gate (?work v))) \<or> keeps_gate gate_move {TimedOffCalled t} (?work v) w'" for w'
      using that v kg.R_trans [OF w] keeps_gate_mono [of gate_move "{TimedOffCalled t}" "?work v" w' ?A]
      unfolding permitted_or_no_blank_def by auto
    then show ?thesis
      unfolding wp_thenE wp_modifyE by (intro wp_mono [OF timeout_blank_polls]) blast+
  qed
  have "stays (keeps_gate gate_move {OnCalled}) (thenE (publish_all ps) (drain_and_handle host))"
    by (intro kg.stays_rules kg_publish_all kg_drain_and_handle gate_move_cancels) simp
  from wp_conj [OF stays_wp [OF this] drain_drained]
  have "wp (thenE (thenE (publish_all ps) (drain_and_handle host))
      (bindE (getsE (\<lambda>r. timed_power_off_pending (engine r))) (\<lambda>power_off_pending.
       if list_ex (\<lambda>(_, s). is_available s) statuses \<or> power_off_pending
       then thenE (modifyE ?work) (handle_inactivity_timeout host push t)
       else cancel_gate))) (\<lambda>_. ?P) (\<lambda>_. ?P) r"
    by (rule wp_thenI) (use poll idle still in \<open>auto simp: wp_bindE wp_getsE\<close>)
  then show ?thesis
    unfolding handle_wait_timeout_def wp_thenE .
qed

text \<open>The part of an iteration before the wait.\<close>

definition before_wait :: "'x host \<Rightarrow> tick \<Rightarrow> ('x run, SessionRunnerError, unit) eff" where
  "before_wait host tk =
     thenE (thenE (publish_all (published tk)) (drain_and_handle host)) (note_statuses host (adapter_status tk))"

definition idle_before_wait :: "tick \<Rightarrow> 'x run \<Rightarrow> 'x run \<Rightarrow> bool" where
  "idle_before_wait tk r v \<longleftrightarrow>
     activity (published tk) (mailbox r) = [] \<and> adapter_status tk = last_diagnostics r \<and>
     v = r\<lparr>mailbox := mailbox_read (published tk) (mailbox r)\<rparr>"

lemma then_assoc: "thenE (thenE a b) c = thenE a (thenE b c)"
  by (auto simp: fun_eq_iff thenE_def bindE_def split: prod.splits sum.splits)

lemma iteration_split:
  "waited tk = WaitTimeout ps statuses worker push t \<Longrightarrow>
   monitor_iteration host tk = (if deadline_reached tk then returnE False
     else thenE (before_wait host tk) (thenE (handle_wait_timeout host ps statuses worker push t) (returnE True)))"
  by (simp add: monitor_iteration_def before_wait_def then_assoc)

lemma wp_before_wait:
  "wp (before_wait host tk)
     (\<lambda>_ v. keeps_gate gate_move {OnCalled} r v \<and> (idle_before_wait tk r v \<or> no_request v))
     (\<lambda>_ v. keeps_gate gate_move {OnCalled} r v) r"
proof -
  have keeps: "stays (keeps_gate gate_move {OnCalled}) (before_wait host tk)"
    unfolding before_wait_def
    by (intro kg.stays_rules kg_publish_all kg_drain_and_handle kg_note_statuses gate_move_cancels) simp
  have c: "stays (keeps_gate cancels {OnCalled}) (note_statuses host (adapter_status tk))" by (rule kg_note_statuses) simp
  have "wp (note_statuses host (adapter_status tk)) (\<lambda>_ v'. idle_before_wait tk r v' \<or> no_request v') (\<lambda>_ _. True) v"
    if "drained (published tk) r v" for v
    using that unfolding drained_def
  proof
    assume "no_request v"
    then show ?thesis by (intro wp_mono [OF stays_wp [OF c]]) (auto intro: keeps_no_request)
  next
    assume "activity (published tk) (mailbox r) = [] \<and> v = r\<lparr>mailbox := mailbox_read (published tk) (mailbox r)\<rparr>"
    then show ?thesis by (intro wp_mono [OF statuses_noted]) (auto simp: idle_before_wait_def)
  qed
  then have "wp (before_wait host tk) (\<lambda>_ v. idle_before_wait tk r v \<or> no_request v) (\<lambda>_ _. True) r"
    unfolding before_wait_def by (intro wp_thenI [OF drain_drained]) simp_all
  from wp_conj [OF stays_wp [OF keeps] this] show ?thesis by (rule wp_mono) auto
qed

text \<open>A screen-off in an iteration that timed out: the state at the wait, and at the poll.\<close>

lemma iteration_blanks:
  assumes "monitor_iteration host tk r = (res, r')" and "waited tk = WaitTimeout ps statuses worker push t"
    and "screen_acts r' = screen_acts r @ new" "OffCalled \<in> set new"
  obtains v v' where "keeps_gate gate_move UNIV r v'" "idle_before_wait tk r v \<or> no_request v" "drained ps v v'"
    "fst (poll_gate push t (map_option (\<lambda>inh. worker_progress inh worker) (gate v')))"
proof -
  let ?P = "\<lambda>r'. keeps_gate gate_move {OnCalled, TimedOffCalled t} r r' \<or>
    (\<exists>v. keeps_gate gate_move {OnCalled} r v \<and> (idle_before_wait tk r v \<or> no_request v) \<and> permitted_or_no_blank ps worker push t v r')"
  have mono: "?P u" if "keeps_gate gate_move {OnCalled} r u" for u using keeps_gate_mono [OF that] by blast
  have "wp (thenE (handle_wait_timeout host ps statuses worker push t) (returnE True)) (\<lambda>_. ?P) (\<lambda>_. ?P) v"
    if "keeps_gate gate_move {OnCalled} r v" "idle_before_wait tk r v \<or> no_request v" for v
    by (rule wp_thenI [OF handle_wait_timeout_permitted]) (use that in \<open>auto simp: wp_returnE\<close>)
  then have "wp (thenE (before_wait host tk) (thenE (handle_wait_timeout host ps statuses worker push t) (returnE True)))
      (\<lambda>_. ?P) (\<lambda>_. ?P) r"
    by (intro wp_thenI [OF wp_before_wait]) (use mono in auto)
  then have "wp (monitor_iteration host tk) (\<lambda>_. ?P) (\<lambda>_. ?P) r"
    using mono [OF kg.R_refl] by (simp add: iteration_split [OF assms(2)] wp_returnE)
  from wp_result [OF this assms(1)] have "?P r'" by (cases res) simp_all
  moreover have "\<not> keeps_gate gate_move {OnCalled, TimedOffCalled t} r r'"
    using assms(3,4) by (auto simp: keeps_gate_def)
  ultimately obtain v where v: "keeps_gate gate_move {OnCalled} r v" "idle_before_wait tk r v \<or> no_request v"
      "permitted_or_no_blank ps worker push t v r'" by blast
  moreover have "\<not> keeps_gate gate_move {OnCalled, TimedOffCalled t} v r'"
    using \<open>\<not> keeps_gate gate_move _ r r'\<close> kg.R_trans keeps_gate_mono [OF v(1)] by blast
  ultimately obtain v' where "keeps_gate gate_move {OnCalled} v v'" "drained ps v v'"
      "fst (poll_gate push t (map_option (\<lambda>inh. worker_progress inh worker) (gate v')))"
    by (auto simp: permitted_or_no_blank_def)
  with v that show ?thesis using kg.R_trans [OF v(1)] keeps_gate_mono by blast
qed

text \<open>
  C11. An idle blank respects inhibition, across the loop, the gate and its worker. In any run of the
  monitor with a gate for a configuration that honours inhibitors, if an iteration that timed out
  waiting for messages calls screen-off, then no activity was found in it and no source changed its
  status; the monitor's own gate, with what its worker did so far, was polled and answered yes; all
  push sources allow blanking; and the worker has answered the very request that the gate had open
  when the iteration began, with every pull source allowing it.
\<close>

theorem idle_blank_permitted:
  assumes "monitor_loop host ts (start_run x e (Some (inhibition_new config delay))) = (Inr (), r)"
    and "is_enabled (screen_honor_idle_inhibitors config)"
    and "monitor_iteration host tk r = (res, r')" and "waited tk = WaitTimeout ps statuses worker push t"
    and "screen_acts r' = screen_acts r @ new" "OffCalled \<in> set new"
  shows "\<exists>inh p sec. gate r = Some inh \<and>
     activity (published tk) (mailbox r) = [] \<and> activity ps (mailbox_read (published tk) (mailbox r)) = [] \<and>
     adapter_status tk = last_diagnostics r \<and>
     fst (can_blank (worker_progress inh worker) push t) \<and>
     pending inh = Some p \<and> replies (chans (worker_progress inh worker)) (pending_id p) = Some (Some sec) \<and>
     list_all allowed (push @ contributions sec)"
proof -
  obtain v v' where m: "keeps_gate gate_move UNIV r v'" and d: "idle_before_wait tk r v \<or> no_request v" "drained ps v v'"
    and y: "fst (poll_gate push t (map_option (\<lambda>inh. worker_progress inh worker) (gate v')))"
    using iteration_blanks [OF assms(3-6)] by blast
  have "keeps_gate gate_move UNIV (start_run x e (Some (inhibition_new config delay))) v'"
    using staysD [OF kg_monitor_loop assms(1)] m kg.R_trans by blast
  then obtain inh where inh: "gate v' = Some inh" "gate_moves (inhibition_new config delay) inh"
    by (auto simp: keeps_gate_def start_run_def elim: option.rel_cases)
  let ?inh = "worker_progress inh worker"
  have yes: "fst (can_blank ?inh push t)" using y inh(1) by (simp add: poll_gate_def split: prod.splits)
  have moves: "gate_moves (inhibition_new config delay) ?inh"
    using inh(2) worker_progress_moves rtranclp_trans by metis
  then obtain ls where ls: "gate_run (inhibition_new config delay) ls ?inh" using gate_moves_run by blast
  have "\<not> bypass_inhibition (preference ?inh)"
    using gate_moves_run [OF moves] assms(2) by (simp add: inhibition_new_def evaluate_inhibition_preference_def)
  moreover have "can_blank ?inh push t = (True, snd (can_blank ?inh push t))" using yes by (simp add: prod_eq_iff)
  ultimately obtain p sec where p: "pending inh = Some p" "replies (chans ?inh) (pending_id p) = Some (Some sec)"
      "list_all allowed (push @ contributions sec)"
    using yes_is_unanimous [OF gate_run_inv [OF ls inhibition_new_inv]] by (metis worker_progress_pending)
  have "\<not> no_request v'" using inh(1) p(1) by (simp add: no_request_def)
  then have d': "activity ps (mailbox v) = []" "v' = v\<lparr>mailbox := mailbox_read ps (mailbox v)\<rparr>"
    using d(2) by (simp_all add: drained_def)
  moreover from this have "\<not> no_request v" using inh(1) p(1) by (simp add: no_request_def)
  ultimately show ?thesis using d(1) inh(1) yes p by (auto simp: idle_before_wait_def)
qed

definition gated_start :: "unit run" where
  "gated_start = start_run () (start_engine 5 3 0 False)
     (Some \<lparr>preference = \<lparr>bypass_inhibition = False, honoring = Enabled\<rparr>, release_delay = 5, pending = None,
        retry_at = None, diagnostics = None, completed_diagnostics = None, chans = idle_channels\<rparr>)"

lemma gated_start_example:
  "gated_start = start_run () (start_engine 5 3 0 False) (Some (inhibition_new example_config 5))"
  by (simp add: gated_start_def inhibition_new_def evaluate_inhibition_preference_def is_enabled_def)

definition gated_asked :: "unit run" where
  "gated_asked = snd (monitor_loop quiet_host [tick_at 10] gated_start)"

definition answered_tick :: tick where
  "answered_tick = \<lparr>deadline_reached = False, published = [], adapter_status = [],
     waited = WaitTimeout [] [(Wayland, StatusAvailable)] [WorkerTake, WorkerAnswer example_answers] [] 20\<rparr>"

definition gated_blanked :: "unit run" where
  "gated_blanked = snd (monitor_iteration quiet_host answered_tick gated_asked)"

lemmas monitor_eval = quiet_host_def obedient_def tick_at_def start_run_def start_engine_def
  new_with_power_off_after_def monitor_iteration_def handle_wait_timeout_def drain_and_handle_def drain_mailbox_def
  drain_def activity_sources_def note_statuses_def handle_inactivity_timeout_def observe_time_gated_def observe_time_def
  poll_gate_def handle_blank_request_def dispatch_screen_off_def call_executor_def note_act_def complete_blank_now_def
  complete_blank_def on_engine_def write_command_output_def put_line_def put_def publish_all_def cancel_gate_def
  timed_power_off_pending_def is_available_def screen_acts_def
  thenE_def bindE_def returnE_def getsE_def modifyE_def Let_def

lemmas gate_eval = can_blank_def pending_outdated_def request_and_record_def start_check_def try_send_def
  record_evaluation_def reconcile_def evaluate_push_inhibition_def worker_take_def worker_answer_def
  evaluate_pull_inhibition_def releases_def idle_channels_def example_answers_def state_evaluate_def state_observe_def
  state_new_def List.map_filter_simps

lemma example_asked_run:
  "monitor_loop quiet_host [tick_at 10] gated_start = (Inr (), gated_asked)"
  "screen_acts gated_asked = []"
  by (simp_all add: gated_asked_def gated_start_def monitor_eval gate_eval)

lemma example_blanked_run: "screen_acts gated_blanked = [OffCalled, OffReported True 11]"
  by (simp add: gated_blanked_def gated_asked_def gated_start_def answered_tick_def monitor_eval gate_eval)

theorem idle_blank_permitted_witness:
  "\<exists>inh p sec. gate gated_asked = Some inh \<and> pending inh = Some p \<and>
     replies (chans (worker_progress inh [WorkerTake, WorkerAnswer example_answers])) (pending_id p) = Some (Some sec) \<and>
     list_all allowed (contributions sec)"
proof -
  have run: "monitor_loop quiet_host [tick_at 10] (start_run () (start_engine 5 3 0 False)
      (Some (inhibition_new example_config 5))) = (Inr (), gated_asked)"
    using example_asked_run(1) by (simp add: gated_start_example)
  have on: "is_enabled (screen_honor_idle_inhibitors example_config)" by (simp add: is_enabled_def)
  have it: "monitor_iteration quiet_host answered_tick gated_asked =
      (fst (monitor_iteration quiet_host answered_tick gated_asked), gated_blanked)"
    by (simp add: gated_blanked_def)
  have "waited answered_tick = WaitTimeout [] [(Wayland, StatusAvailable)] [WorkerTake, WorkerAnswer example_answers] [] 20"
    by (simp add: answered_tick_def)
  from idle_blank_permitted [OF run on it this, of "[OffCalled, OffReported True 11]"] example_asked_run(2) example_blanked_run
  show ?thesis by auto
qed

end
