(* ===== verification/Settings.thy ===== *)
theory Settings
  imports LG_Config
begin

text \<open>
  The typed settings of \<open>settings/model.rs\<close>: keys, value types, the operations a setting supports,
  the checks of the registry, and the registry itself with the definitions of \<open>settings/tv.rs\<close>,
  \<open>screen.rs\<close>, \<open>system.rs\<close> and \<open>updates.rs\<close>. The facts shown here are what the store and the
  runtime configuration rest on: the registry passes its own checks, no two settings share a
  storage key, and every value that a setting accepts is printed as a plain word that the same
  setting reads back.
\<close>

section \<open>Values and their types\<close>

datatype SettingValue =
    EnumValue string
  | IntegerValue int
  | Ipv4Value Ipv4Addr
  | MacValue MacAddress

fun as_enum :: "SettingValue \<Rightarrow> string option" where
  "as_enum (EnumValue v) = Some v"
| "as_enum _ = None"

fun as_integer :: "SettingValue \<Rightarrow> int option" where
  "as_integer (IntegerValue v) = Some v"
| "as_integer _ = None"

definition show_int :: "int \<Rightarrow> string" where
  "show_int i = (if i < 0 then CHR ''-'' # show_nat (nat (- i)) else show_nat (nat i))"

fun setting_value_display :: "SettingValue \<Rightarrow> string" where
  "setting_value_display (EnumValue v) = v"
| "setting_value_display (IntegerValue v) = show_int v"
| "setting_value_display (Ipv4Value v) = show_ipv4 v"
| "setting_value_display (MacValue v) = mac_display v"

record SettingAlias =
  alias_from :: string
  alias_to :: string

record EnumSettingType =
  enum_values :: "string list"
  enum_aliases :: "SettingAlias list"

record IntegerSettingType =
  int_min :: int
  int_max :: int

datatype SettingType =
    EnumType EnumSettingType
  | IntegerType IntegerSettingType
  | Ipv4Type
  | MacAddressType

fun setting_type_as_str :: "SettingType \<Rightarrow> string" where
  "setting_type_as_str (EnumType _) = ''enum''"
| "setting_type_as_str (IntegerType _) = ''integer''"
| "setting_type_as_str Ipv4Type = ''ipv4''"
| "setting_type_as_str MacAddressType = ''mac-address''"

datatype SettingMutability = ReadOnly | ReadWrite

fun mutability_as_str :: "SettingMutability \<Rightarrow> string" where
  "mutability_as_str ReadOnly = ''read-only''"
| "mutability_as_str ReadWrite = ''read-write''"

datatype SettingOperation = GetOp | DescribeOp | SetOp | UnsetOp

fun operation_as_str :: "SettingOperation \<Rightarrow> string" where
  "operation_as_str GetOp = ''get''"
| "operation_as_str DescribeOp = ''describe''"
| "operation_as_str SetOp = ''set''"
| "operation_as_str UnsetOp = ''unset''"

datatype ApplyStrategy =
  RestartUserScreenService | ManageUpdateCheckTimer | RuntimePolicyOnly | NoRuntimeApplyRequired

fun apply_strategy_as_str :: "ApplyStrategy \<Rightarrow> string" where
  "apply_strategy_as_str RestartUserScreenService = ''restart-user-screen-service''"
| "apply_strategy_as_str ManageUpdateCheckTimer = ''manage-update-check-timer''"
| "apply_strategy_as_str RuntimePolicyOnly = ''runtime-policy-only''"
| "apply_strategy_as_str NoRuntimeApplyRequired = ''no-runtime-apply-required''"

record SettingDefinition =
  def_key :: string
  def_storage_key :: string
  def_fallback_storage_keys :: "string list"
  def_value_type :: SettingType
  def_default_value :: "SettingValue option"
  def_mutability :: SettingMutability
  def_operations :: "SettingOperation list"
  def_apply_strategy :: ApplyStrategy
  def_description :: string

section \<open>Errors\<close>

datatype DeclarativeSource = Generic | Nix

datatype SettingsError =
    Settings_ConfigPath ConfigPathError
  | Settings_ManagedSetting string string DeclarativeSource
  | Settings_ReadConfig string ErrorKind string
  | Settings_WriteConfig string string
  | Settings_Apply string
  | Settings_Activation string
  | Settings_ActivationCancelled
  | Settings_SetupInProgress
  | Settings_AuthorizationFailed string
  | Settings_PlatformPreflight string string
  | Settings_ApplyAfterPersist string string string
  | Settings_WriteOutput string
  | Settings_InvalidKey string string
  | Settings_UnknownKey string
  | Settings_InvalidValue string string string
  | Settings_MissingRequiredSetting string
  | Settings_UnsupportedOperation string SettingOperation
  | Settings_RegistryInvariant string

fun settings_error_display :: "SettingsError \<Rightarrow> string" where
  "settings_error_display (Settings_ConfigPath err) = config_path_error_display err"
| "settings_error_display (Settings_ManagedSetting key path src) =
     ''setting `'' @ key @ ''` is managed declaratively by '' @ path @
     ''; change the owning declarative configuration and activate it, or remove its declaration before editing it here''"
| "settings_error_display (Settings_ReadConfig path k message) =
     ''could not read settings config `'' @ path @ ''`: '' @ message"
| "settings_error_display (Settings_WriteConfig path message) =
     ''could not write settings config `'' @ path @ ''`: '' @ message"
| "settings_error_display (Settings_Apply message) = message"
| "settings_error_display (Settings_Activation message) = message"
| "settings_error_display Settings_ActivationCancelled = ''authorization was cancelled''"
| "settings_error_display Settings_SetupInProgress =
     ''A setup helper may still be running. Recheck setup before starting another repair; completed work is retained.''"
| "settings_error_display (Settings_AuthorizationFailed message) = message"
| "settings_error_display (Settings_PlatformPreflight key message) =
     ''could not enable platform setting `'' @ key @ ''` because native preflight failed: '' @ message"
| "settings_error_display (Settings_ApplyAfterPersist key path message) =
     ''setting `'' @ key @ ''` was saved to `'' @ path @ ''` but could not be applied: '' @ message @
     ''. Restart LG Buddy or rerun the command after fixing the apply error.''"
| "settings_error_display (Settings_WriteOutput message) = message"
| "settings_error_display (Settings_InvalidKey key reason) =
     ''invalid setting key `'' @ key @ ''`: '' @ reason"
| "settings_error_display (Settings_UnknownKey key) = ''unknown setting `'' @ key @ ''`''"
| "settings_error_display (Settings_InvalidValue key value expected) =
     ''invalid value for setting `'' @ key @ ''`: `'' @ value @ ''`; expected '' @ expected"
| "settings_error_display (Settings_MissingRequiredSetting key) =
     ''required setting `'' @ key @ ''` is not configured''"
| "settings_error_display (Settings_UnsupportedOperation key operation) =
     ''setting `'' @ key @ ''` does not support `'' @ operation_as_str operation @ ''`''"
| "settings_error_display (Settings_RegistryInvariant message) = message"

section \<open>Parsing and checking values\<close>

fun join_with :: "string \<Rightarrow> string list \<Rightarrow> string" where
  "join_with sep [] = []"
| "join_with sep [x] = x"
| "join_with sep (x # y # ys) = x @ sep @ join_with sep (y # ys)"

definition canonicalize :: "EnumSettingType \<Rightarrow> string \<Rightarrow> string option" where
  "canonicalize t value =
     (case find (\<lambda>allowed. allowed = value) (enum_values t) of
        Some canonical \<Rightarrow> Some canonical
      | None \<Rightarrow> map_option alias_to (find (\<lambda>a. alias_from a = value) (enum_aliases t)))"

definition enum_expected :: "EnumSettingType \<Rightarrow> string" where
  "enum_expected t = ''one of '' @ join_with '', '' (enum_values t)"

definition int_contains :: "IntegerSettingType \<Rightarrow> int \<Rightarrow> bool" where
  "int_contains t value \<longleftrightarrow> int_min t \<le> value \<and> value \<le> int_max t"

definition int_accepts :: "IntegerSettingType \<Rightarrow> int \<Rightarrow> bool" where
  "int_accepts t value \<longleftrightarrow> int_min t \<le> value"

definition int_coerce :: "IntegerSettingType \<Rightarrow> int \<Rightarrow> int" where
  "int_coerce t value = (if int_max t < value then int_max t else value)"

definition int_expected :: "IntegerSettingType \<Rightarrow> string" where
  "int_expected t = ''an integer from '' @ show_int (int_min t) @ '' to '' @ show_int (int_max t)"

fun type_expected :: "SettingType \<Rightarrow> string" where
  "type_expected (EnumType t) = enum_expected t"
| "type_expected (IntegerType t) = int_expected t"
| "type_expected Ipv4Type = ''an IPv4 address''"
| "type_expected MacAddressType = ''a MAC address like aa:bb:cc:dd:ee:ff''"

text \<open>\<open>str::parse::<i128>\<close>.\<close>

definition parse_i128 :: "string \<Rightarrow> int option" where
  "parse_i128 s =
     (case s of
        CHR ''-'' # cs \<Rightarrow>
          if cs = [] then None
          else (case parse_digits 10 0 cs of
                  None \<Rightarrow> None
                | Some n \<Rightarrow> if n \<le> 2 ^ 127 then Some (- int n) else None)
      | _ \<Rightarrow> map_option int (parse_unsigned 10 (2 ^ 127) s))"

fun type_parse_value :: "SettingType \<Rightarrow> string \<Rightarrow> string \<Rightarrow> SettingsError + SettingValue" where
  "type_parse_value (EnumType t) key value =
     (case canonicalize t value of
        Some v \<Rightarrow> Inr (EnumValue v)
      | None \<Rightarrow> Inl (Settings_InvalidValue key value (enum_expected t)))"
| "type_parse_value (IntegerType t) key value =
     (case parse_i128 value of
        Some parsed \<Rightarrow>
          if int_accepts t parsed then Inr (IntegerValue (int_coerce t parsed))
          else Inl (Settings_InvalidValue key value (int_expected t))
      | None \<Rightarrow> Inl (Settings_InvalidValue key value (int_expected t)))"
| "type_parse_value Ipv4Type key value =
     (case parse_ipv4 value of
        Some ip \<Rightarrow> Inr (Ipv4Value ip)
      | None \<Rightarrow> Inl (Settings_InvalidValue key value (type_expected Ipv4Type)))"
| "type_parse_value MacAddressType key value =
     (case mac_from_str value of
        Some mac \<Rightarrow> Inr (MacValue mac)
      | None \<Rightarrow> Inl (Settings_InvalidValue key value (type_expected MacAddressType)))"

definition def_parse_value :: "SettingDefinition \<Rightarrow> string \<Rightarrow> SettingsError + SettingValue" where
  "def_parse_value d value = type_parse_value (def_value_type d) (def_key d) value"

fun type_validate_value :: "SettingType \<Rightarrow> string \<Rightarrow> SettingValue \<Rightarrow> SettingsError + unit" where
  "type_validate_value (EnumType t) key (EnumValue v) =
     (if canonicalize t v = Some v then Inr ()
      else Inl (Settings_InvalidValue key v (enum_expected t)))"
| "type_validate_value (IntegerType t) key (IntegerValue v) =
     (if int_contains t v then Inr ()
      else Inl (Settings_InvalidValue key (show_int v) (int_expected t)))"
| "type_validate_value Ipv4Type key (Ipv4Value v) = Inr ()"
| "type_validate_value MacAddressType key (MacValue v) = Inr ()"
| "type_validate_value t key v =
     Inl (Settings_InvalidValue key (setting_value_display v) (type_expected t))"

section \<open>Keys\<close>

fun setting_key_byte :: "char \<Rightarrow> bool" where
  "setting_key_byte c =
     (let n = of_char c :: nat in (97 \<le> n \<and> n \<le> 122) \<or> (48 \<le> n \<and> n \<le> 57) \<or> c = CHR ''_'')"

text \<open>The loop over the bytes, with its two flags.\<close>

fun scan_setting_key :: "bool \<Rightarrow> bool \<Rightarrow> string \<Rightarrow> string + bool \<times> bool" where
  "scan_setting_key last_was_dot has_dot [] = Inr (last_was_dot, has_dot)"
| "scan_setting_key last_was_dot has_dot (c # cs) =
     (if setting_key_byte c then scan_setting_key False has_dot cs
      else if c = CHR ''.'' \<and> \<not> last_was_dot then scan_setting_key True True cs
      else if c = CHR ''.'' then Inl ''must not contain empty segments''
      else Inl ''must contain only ASCII lowercase letters, digits, underscores, and dots'')"

definition validate_setting_key :: "string \<Rightarrow> string + unit" where
  "validate_setting_key value =
     (if value = [] then Inl ''must not be empty''
      else case scan_setting_key True False value of
             Inl reason \<Rightarrow> Inl reason
           | Inr (last_was_dot, has_dot) \<Rightarrow>
               if last_was_dot then Inl ''must not end with a dot''
               else if \<not> has_dot then Inl ''must contain at least one dot''
               else Inr ())"

definition validate_storage_key :: "string \<Rightarrow> string + unit" where
  "validate_storage_key value =
     (if value = [] then Inl ''must not be empty''
      else if list_all setting_key_byte value then Inr ()
      else Inl ''must contain only ASCII lowercase letters, digits, and underscores'')"

definition setting_key_parse :: "string \<Rightarrow> SettingsError + string" where
  "setting_key_parse value =
     (case validate_setting_key value of
        Inl reason \<Rightarrow> Inl (Settings_InvalidKey value reason)
      | Inr _ \<Rightarrow> Inr value)"

section \<open>Checks of the registry\<close>

text \<open>Checks in sequence: the first error is the result.\<close>

fun first_error :: "(SettingsError + unit) list \<Rightarrow> SettingsError + unit" where
  "first_error [] = Inr ()"
| "first_error (Inl e # rs) = Inl e"
| "first_error (Inr _ # rs) = first_error rs"

definition require_ok :: "bool \<Rightarrow> string \<Rightarrow> SettingsError + unit" where
  "require_ok b message = (if b then Inr () else Inl (Settings_RegistryInvariant message))"

fun validate_enum_values :: "string \<Rightarrow> string list \<Rightarrow> string list \<Rightarrow> SettingsError + unit" where
  "validate_enum_values key seen [] = Inr ()"
| "validate_enum_values key seen (v # vs) =
     first_error
       [require_ok (v \<noteq> []) (''`'' @ key @ ''` enum settings must not define empty values''),
        require_ok (v \<notin> set seen) (''`'' @ key @ ''` enum setting has duplicate value `'' @ v @ ''`''),
        validate_enum_values key (v # seen) vs]"

fun validate_enum_aliases :: "string \<Rightarrow> string list \<Rightarrow> string list \<Rightarrow> SettingAlias list \<Rightarrow> SettingsError + unit" where
  "validate_enum_aliases key values seen [] = Inr ()"
| "validate_enum_aliases key values seen (a # as) =
     first_error
       [require_ok (alias_from a \<noteq> [] \<and> alias_to a \<noteq> [])
          (''`'' @ key @ ''` enum settings must not define empty aliases''),
        require_ok (alias_from a \<notin> set values)
          (''`'' @ key @ ''` enum alias `'' @ alias_from a @ ''` duplicates a canonical value''),
        require_ok (alias_to a \<in> set values)
          (''`'' @ key @ ''` enum alias `'' @ alias_from a @ ''` points to unknown value `'' @ alias_to a @ ''`''),
        require_ok (alias_from a \<notin> set seen)
          (''`'' @ key @ ''` enum setting has duplicate alias `'' @ alias_from a @ ''`''),
        validate_enum_aliases key values (alias_from a # seen) as]"

definition validate_enum_type :: "EnumSettingType \<Rightarrow> string \<Rightarrow> SettingsError + unit" where
  "validate_enum_type t key =
     first_error
       [require_ok (enum_values t \<noteq> []) (''`'' @ key @ ''` enum settings must define at least one value''),
        validate_enum_values key [] (enum_values t),
        validate_enum_aliases key (enum_values t) [] (enum_aliases t)]"

definition validate_int_type :: "IntegerSettingType \<Rightarrow> string \<Rightarrow> SettingsError + unit" where
  "validate_int_type t key =
     require_ok (int_min t \<le> int_max t)
       (''`'' @ key @ ''` integer setting has an invalid range '' @ show_int (int_min t) @ ''..'' @ show_int (int_max t))"

fun validate_type_metadata :: "SettingDefinition \<Rightarrow> SettingsError + unit" where
  "validate_type_metadata d =
     (case def_value_type d of
        EnumType t \<Rightarrow> validate_enum_type t (def_key d)
      | IntegerType t \<Rightarrow> validate_int_type t (def_key d)
      | _ \<Rightarrow> Inr ())"

definition validate_default :: "SettingDefinition \<Rightarrow> SettingsError + unit" where
  "validate_default d =
     (case def_default_value d of
        None \<Rightarrow> Inr ()
      | Some v \<Rightarrow>
          (case type_validate_value (def_value_type d) (def_key d) v of
             Inl (Settings_InvalidValue key value expected) \<Rightarrow>
               Inl (Settings_RegistryInvariant
                 (''invalid default value `'' @ value @ ''` for `'' @ key @ ''`: expected '' @ expected))
           | r \<Rightarrow> r))"

definition supports_operation :: "SettingDefinition \<Rightarrow> SettingOperation \<Rightarrow> bool" where
  "supports_operation d operation \<longleftrightarrow> operation \<in> set (def_operations d)"

definition ensure_operation_supported :: "SettingDefinition \<Rightarrow> SettingOperation \<Rightarrow> SettingsError + unit" where
  "ensure_operation_supported d operation =
     (if supports_operation d operation then Inr ()
      else Inl (Settings_UnsupportedOperation (def_key d) operation))"

definition validate_operation_metadata :: "SettingDefinition \<Rightarrow> SettingsError + unit" where
  "validate_operation_metadata d =
     first_error
       ([require_ok (def_operations d \<noteq> []) (''`'' @ def_key d @ ''` must support at least one operation'')] @
        (case def_mutability d of
           ReadWrite \<Rightarrow>
             map (\<lambda>operation. require_ok (supports_operation d operation)
                    (''`'' @ def_key d @ ''` is read-write but does not support `'' @ operation_as_str operation @ ''`''))
               [GetOp, DescribeOp, SetOp]
         | ReadOnly \<Rightarrow>
             map (\<lambda>operation. require_ok (\<not> supports_operation d operation)
                    (''`'' @ def_key d @ ''` is read-only but supports `'' @ operation_as_str operation @ ''`''))
               [SetOp, UnsetOp]) @
        [require_ok (\<not> (def_default_value d = None \<and> supports_operation d UnsetOp))
           (''`'' @ def_key d @ ''` is required but supports `unset`'')])"

definition storage_key_check :: "SettingDefinition \<Rightarrow> string \<Rightarrow> string \<Rightarrow> SettingsError + unit" where
  "storage_key_check d kind_of key =
     (case validate_storage_key key of
        Inl reason \<Rightarrow>
          Inl (Settings_RegistryInvariant
            (''invalid '' @ kind_of @ '' `'' @ key @ ''` for `'' @ def_key d @ ''`: '' @ reason))
      | Inr _ \<Rightarrow> Inr ())"

fun validate_fallback_keys ::
    "SettingDefinition \<Rightarrow> string list \<Rightarrow> string list \<Rightarrow> SettingsError + string list" where
  "validate_fallback_keys d storage_keys [] = Inr storage_keys"
| "validate_fallback_keys d storage_keys (k # ks) =
     (case first_error
         [storage_key_check d ''fallback storage key'' k,
          require_ok (k \<notin> set storage_keys) (''duplicate storage key `'' @ k @ ''`'')] of
        Inl e \<Rightarrow> Inl e
      | Inr _ \<Rightarrow> validate_fallback_keys d (k # storage_keys) ks)"

fun validate_definitions ::
    "string list \<Rightarrow> string list \<Rightarrow> SettingDefinition list \<Rightarrow> SettingsError + unit" where
  "validate_definitions public_keys storage_keys [] = Inr ()"
| "validate_definitions public_keys storage_keys (d # ds) =
     (case first_error
         [(case setting_key_parse (def_key d) of Inl e \<Rightarrow> Inl e | Inr _ \<Rightarrow> Inr ()),
          storage_key_check d ''storage key'' (def_storage_key d),
          require_ok (def_key d \<notin> set public_keys) (''duplicate setting key `'' @ def_key d @ ''`''),
          require_ok (def_storage_key d \<notin> set storage_keys)
            (''duplicate storage key `'' @ def_storage_key d @ ''`'')] of
        Inl e \<Rightarrow> Inl e
      | Inr _ \<Rightarrow>
     (case validate_fallback_keys d (def_storage_key d # storage_keys) (def_fallback_storage_keys d) of
        Inl e \<Rightarrow> Inl e
      | Inr storage_keys' \<Rightarrow>
     (case first_error [validate_type_metadata d, validate_default d, validate_operation_metadata d] of
        Inl e \<Rightarrow> Inl e
      | Inr _ \<Rightarrow> validate_definitions (def_key d # public_keys) storage_keys' ds)))"

definition registry_validate :: "SettingDefinition list \<Rightarrow> SettingsError + unit" where
  "registry_validate definitions = validate_definitions [] [] definitions"

section \<open>The registry\<close>

definition READ_WRITE_OPERATIONS :: "SettingOperation list" where
  "READ_WRITE_OPERATIONS = [GetOp, DescribeOp, SetOp, UnsetOp]"
definition READ_SET_OPERATIONS :: "SettingOperation list" where
  "READ_SET_OPERATIONS = [GetOp, DescribeOp, SetOp]"

definition setting_tv_IP :: SettingDefinition where
  "setting_tv_IP = \<lparr>def_key = ''tv.ip'', def_storage_key = ''tvs_primary_ip'',
     def_fallback_storage_keys = [''tv_ip''], def_value_type = Ipv4Type, def_default_value = None,
     def_mutability = ReadWrite, def_operations = READ_SET_OPERATIONS,
     def_apply_strategy = NoRuntimeApplyRequired,
     def_description = ''IPv4 address of the primary configured TV.''\<rparr>"

definition setting_tv_MAC :: SettingDefinition where
  "setting_tv_MAC = \<lparr>def_key = ''tv.mac'', def_storage_key = ''tvs_primary_mac'',
     def_fallback_storage_keys = [''tv_mac''], def_value_type = MacAddressType, def_default_value = None,
     def_mutability = ReadWrite, def_operations = READ_SET_OPERATIONS,
     def_apply_strategy = NoRuntimeApplyRequired,
     def_description = ''MAC address of the primary configured TV for Wake-on-LAN.''\<rparr>"

definition setting_tv_INPUT :: SettingDefinition where
  "setting_tv_INPUT = \<lparr>def_key = ''tv.input'', def_storage_key = ''tvs_primary_input'',
     def_fallback_storage_keys = [''input''],
     def_value_type = EnumType \<lparr>enum_values = [''HDMI_1'', ''HDMI_2'', ''HDMI_3'', ''HDMI_4''], enum_aliases = []\<rparr>,
     def_default_value = None, def_mutability = ReadWrite, def_operations = READ_SET_OPERATIONS,
     def_apply_strategy = NoRuntimeApplyRequired,
     def_description = ''HDMI input used by the primary configured TV.''\<rparr>"

definition setting_tv_PLATFORM :: SettingDefinition where
  "setting_tv_PLATFORM = \<lparr>def_key = ''tv.platform'', def_storage_key = ''tvs_primary_platform'',
     def_fallback_storage_keys = [],
     def_value_type = EnumType \<lparr>enum_values = [''bscpylgtv'', ''lg_webos''], enum_aliases = []\<rparr>,
     def_default_value = Some (EnumValue ''bscpylgtv''),
     def_mutability = ReadWrite, def_operations = READ_SET_OPERATIONS,
     def_apply_strategy = NoRuntimeApplyRequired,
     def_description = ''Control platform for the primary configured TV. Missing or bscpylgtv values identify configuration that requires v2 migration.''\<rparr>"

definition setting_screen_BACKEND :: SettingDefinition where
  "setting_screen_BACKEND = \<lparr>def_key = ''screen.backend'', def_storage_key = ''screen_backend'',
     def_fallback_storage_keys = [],
     def_value_type = EnumType \<lparr>enum_values = [''auto'', ''gnome'', ''wayland''], enum_aliases = []\<rparr>,
     def_default_value = Some (EnumValue ''auto''),
     def_mutability = ReadWrite, def_operations = READ_WRITE_OPERATIONS,
     def_apply_strategy = RestartUserScreenService,
     def_description = ''Legacy CLI compatibility only. Automatic composes available native integrations. Writes save before applying; an apply failure leaves the saved value in place. Use automatic integration in Settings for a validated transition with rollback.''\<rparr>"

definition setting_screen_IDLE_BLANK :: SettingDefinition where
  "setting_screen_IDLE_BLANK = \<lparr>def_key = ''screen.idle_blank'', def_storage_key = ''screen_idle_blank'',
     def_fallback_storage_keys = [],
     def_value_type = EnumType \<lparr>enum_values = [''enabled'', ''disabled''], enum_aliases = []\<rparr>,
     def_default_value = Some (EnumValue ''enabled''),
     def_mutability = ReadWrite, def_operations = READ_WRITE_OPERATIONS,
     def_apply_strategy = RestartUserScreenService,
     def_description = ''Blank the TV screen when the computer is idle or locked, and restore it when activity resumes.''\<rparr>"

definition setting_screen_HONOR_IDLE_INHIBITORS :: SettingDefinition where
  "setting_screen_HONOR_IDLE_INHIBITORS =
    \<lparr>def_key = ''screen.honor_idle_inhibitors'', def_storage_key = ''screen_honor_idle_inhibitors'',
     def_fallback_storage_keys = [],
     def_value_type = EnumType \<lparr>enum_values = [''enabled'', ''disabled''], enum_aliases = []\<rparr>,
     def_default_value = Some (EnumValue ''disabled''),
     def_mutability = ReadWrite, def_operations = READ_WRITE_OPERATIONS,
     def_apply_strategy = RestartUserScreenService,
     def_description = ''Honor keep-awake requests from video players, presentations, and other apps.''\<rparr>"

definition setting_screen_IDLE_TIMEOUT :: SettingDefinition where
  "setting_screen_IDLE_TIMEOUT = \<lparr>def_key = ''screen.idle_timeout'', def_storage_key = ''screen_idle_timeout'',
     def_fallback_storage_keys = [],
     def_value_type = IntegerType \<lparr>int_min = 1, int_max = int MAX_IDLE_TIMEOUT\<rparr>,
     def_default_value = Some (IntegerValue (int DEFAULT_IDLE_TIMEOUT)),
     def_mutability = ReadWrite, def_operations = READ_WRITE_OPERATIONS,
     def_apply_strategy = RestartUserScreenService,
     def_description = ''Seconds of user inactivity before LG Buddy blanks the configured screen.''\<rparr>"

definition setting_screen_RESTORE_POLICY :: SettingDefinition where
  "setting_screen_RESTORE_POLICY = \<lparr>def_key = ''screen.restore_policy'', def_storage_key = ''screen_restore_policy'',
     def_fallback_storage_keys = [],
     def_value_type = EnumType \<lparr>enum_values = [''conservative'', ''aggressive''],
        enum_aliases = [\<lparr>alias_from = ''marker_only'', alias_to = ''conservative''\<rparr>]\<rparr>,
     def_default_value = Some (EnumValue ''conservative''),
     def_mutability = ReadWrite, def_operations = READ_WRITE_OPERATIONS,
     def_apply_strategy = RestartUserScreenService,
     def_description = ''Conservative restores the TV only after LG Buddy blanked or powered it off. Aggressive also attempts to restore it without a prior LG Buddy action.''\<rparr>"

definition setting_system_SLEEP_WAKE_POLICY :: SettingDefinition where
  "setting_system_SLEEP_WAKE_POLICY =
    \<lparr>def_key = ''system.sleep_wake_policy'', def_storage_key = ''system_sleep_wake_policy'',
     def_fallback_storage_keys = [],
     def_value_type = EnumType \<lparr>enum_values = [''enabled'', ''disabled''], enum_aliases = []\<rparr>,
     def_default_value = Some (EnumValue ''enabled''),
     def_mutability = ReadWrite, def_operations = READ_WRITE_OPERATIONS,
     def_apply_strategy = RuntimePolicyOnly,
     def_description = ''Power off the TV before the computer sleeps and restore it after waking.''\<rparr>"

definition setting_updates_AUTO_CHECK :: SettingDefinition where
  "setting_updates_AUTO_CHECK = \<lparr>def_key = ''updates.auto_check'', def_storage_key = ''updates_auto_check'',
     def_fallback_storage_keys = [],
     def_value_type = EnumType \<lparr>enum_values = [''enabled'', ''disabled''], enum_aliases = []\<rparr>,
     def_default_value = Some (EnumValue ''enabled''),
     def_mutability = ReadWrite, def_operations = READ_WRITE_OPERATIONS,
     def_apply_strategy = ManageUpdateCheckTimer,
     def_description = ''Periodically check for new LG Buddy versions and notify you when an update is available.''\<rparr>"

definition setting_updates_CHANNEL :: SettingDefinition where
  "setting_updates_CHANNEL = \<lparr>def_key = ''updates.channel'', def_storage_key = ''updates_channel'',
     def_fallback_storage_keys = [],
     def_value_type = EnumType \<lparr>enum_values = [''stable'', ''prerelease''], enum_aliases = []\<rparr>,
     def_default_value = Some (EnumValue ''stable''),
     def_mutability = ReadWrite, def_operations = READ_WRITE_OPERATIONS,
     def_apply_strategy = RuntimePolicyOnly,
     def_description = ''Choose stable releases or include prerelease versions in update checks and installation.''\<rparr>"

definition SETTINGS_REGISTRY :: "SettingDefinition list" where
  "SETTINGS_REGISTRY =
     [setting_tv_IP, setting_tv_MAC, setting_tv_INPUT, setting_tv_PLATFORM,
      setting_screen_BACKEND, setting_screen_IDLE_BLANK, setting_screen_HONOR_IDLE_INHIBITORS,
      setting_screen_IDLE_TIMEOUT, setting_screen_RESTORE_POLICY,
      setting_system_SLEEP_WAKE_POLICY, setting_updates_AUTO_CHECK, setting_updates_CHANNEL]"

lemmas registry_defs = SETTINGS_REGISTRY_def setting_tv_IP_def setting_tv_MAC_def setting_tv_INPUT_def
  setting_tv_PLATFORM_def setting_screen_BACKEND_def setting_screen_IDLE_BLANK_def
  setting_screen_HONOR_IDLE_INHIBITORS_def setting_screen_IDLE_TIMEOUT_def
  setting_screen_RESTORE_POLICY_def setting_system_SLEEP_WAKE_POLICY_def
  setting_updates_AUTO_CHECK_def setting_updates_CHANNEL_def READ_WRITE_OPERATIONS_def
  READ_SET_OPERATIONS_def

definition registry_get :: "string \<Rightarrow> SettingsError + SettingDefinition" where
  "registry_get key =
     (case find (\<lambda>d. def_key d = key) SETTINGS_REGISTRY of
        Some d \<Rightarrow> Inr d
      | None \<Rightarrow> Inl (Settings_UnknownKey key))"

definition get_by_name :: "string \<Rightarrow> SettingsError + SettingDefinition" where
  "get_by_name key =
     (case setting_key_parse key of Inl e \<Rightarrow> Inl e | Inr k \<Rightarrow> registry_get k)"

section \<open>What the checks give\<close>

lemma first_error_ok [simp]: "first_error rs = Inr () \<longleftrightarrow> list_all (\<lambda>r. r = Inr ()) rs"
  by (induction rs rule: first_error.induct) auto

lemma then_first_error [simp]:
  "(case first_error rs of Inl e \<Rightarrow> Inl e | Inr u \<Rightarrow> next) = Inr r \<longleftrightarrow>
   list_all (\<lambda>r. r = Inr ()) rs \<and> next = Inr r"
  by (induction rs rule: first_error.induct) auto

lemma key_check_ok [simp]: "(case r of Inl e \<Rightarrow> Inl e | Inr _ \<Rightarrow> Inr ()) = Inr () \<longleftrightarrow> is_ok r"
  by (cases r) auto

lemma then_ok [simp]: "(case r of Inl e \<Rightarrow> Inl e | Inr a \<Rightarrow> f a) = Inr b \<longleftrightarrow> (\<exists>a. r = Inr a \<and> f a = Inr b)"
  by (cases r) auto

declare first_error.simps [simp del]

lemma require_ok_iff [simp]: "require_ok b message = Inr () \<longleftrightarrow> b"
  by (simp add: require_ok_def)

definition all_storage_keys :: "SettingDefinition \<Rightarrow> string list" where
  "all_storage_keys d = def_storage_key d # def_fallback_storage_keys d"

definition storage_key_ok :: "string \<Rightarrow> bool" where
  "storage_key_ok k \<longleftrightarrow> k \<noteq> [] \<and> list_all setting_key_byte k"

lemma storage_key_check_iff [simp]: "storage_key_check d what k = Inr () \<longleftrightarrow> storage_key_ok k"
  by (simp add: storage_key_check_def validate_storage_key_def storage_key_ok_def)

lemma validate_fallback_keysD:
  "validate_fallback_keys d ks fs = Inr ks' \<Longrightarrow>
   set ks' = set ks \<union> set fs \<and> distinct fs \<and> set fs \<inter> set ks = {} \<and> list_all storage_key_ok fs"
  by (induction fs arbitrary: ks) (simp, fastforce)

lemma validate_definitionsD:
  "validate_definitions ps ks ds = Inr () \<Longrightarrow>
   distinct (map def_key ds) \<and> set (map def_key ds) \<inter> set ps = {} \<and>
   distinct (concat (map all_storage_keys ds)) \<and> set (concat (map all_storage_keys ds)) \<inter> set ks = {} \<and>
   list_all (\<lambda>d. list_all storage_key_ok (all_storage_keys d) \<and> validate_type_metadata d = Inr () \<and>
     validate_default d = Inr () \<and> validate_operation_metadata d = Inr ()) ds"
proof (induction ds arbitrary: ps ks)
  case (Cons d ds)
  from Cons.prems obtain ks' where
    ok: "storage_key_ok (def_storage_key d)" "def_key d \<notin> set ps" "def_storage_key d \<notin> set ks"
    and fb: "validate_fallback_keys d (def_storage_key d # ks) (def_fallback_storage_keys d) = Inr ks'"
    and meta: "validate_type_metadata d = Inr ()" "validate_default d = Inr ()" "validate_operation_metadata d = Inr ()"
    and rest: "validate_definitions (def_key d # ps) ks' ds = Inr ()"
    by (auto simp del: validate_type_metadata.simps)
  note f = validate_fallback_keysD [OF fb]
  note r = Cons.IH [OF rest]
  have sub: "set (all_storage_keys d) \<subseteq> set ks'" "set ks \<subseteq> set ks'"
    using f by (auto simp: all_storage_keys_def)
  have "distinct (all_storage_keys d)" "set (all_storage_keys d) \<inter> set ks = {}"
    using f ok(3) by (auto simp: all_storage_keys_def)
  moreover have "set (concat (map all_storage_keys ds)) \<inter> set (all_storage_keys d) = {}"
    "set (concat (map all_storage_keys ds)) \<inter> set ks = {}"
    using r sub by auto
  ultimately show ?case
    using r f ok meta by (auto simp: all_storage_keys_def simp del: validate_type_metadata.simps)
qed simp

lemmas definition_checks = setting_key_parse_def validate_setting_key_def storage_key_ok_def
  validate_enum_type_def validate_int_type_def validate_default_def validate_operation_metadata_def
  supports_operation_def canonicalize_def int_contains_def MAX_IDLE_TIMEOUT_def
  DEFAULT_IDLE_TIMEOUT_def READ_WRITE_OPERATIONS_def READ_SET_OPERATIONS_def

lemma registry_valid: "registry_validate SETTINGS_REGISTRY = Inr ()"
  by (simp add: registry_validate_def registry_defs definition_checks)

lemma registry_storage_keys_distinct: "distinct (concat (map all_storage_keys SETTINGS_REGISTRY))"
  using validate_definitionsD registry_valid by (auto simp: registry_validate_def)

lemma registry_keys_distinct: "distinct (map def_key SETTINGS_REGISTRY)"
  using validate_definitionsD registry_valid by (auto simp: registry_validate_def)

lemma registry_metadata:
  assumes "d \<in> set SETTINGS_REGISTRY"
  shows "list_all storage_key_ok (all_storage_keys d)" and "validate_type_metadata d = Inr ()"
    and "validate_default d = Inr ()" and "validate_operation_metadata d = Inr ()"
  using validate_definitionsD [OF registry_valid [unfolded registry_validate_def]] assms
  by (auto simp: list_all_iff simp del: validate_type_metadata.simps)

lemma registry_get_in: "registry_get k = Inr d \<Longrightarrow> d \<in> set SETTINGS_REGISTRY \<and> def_key d = k"
  by (auto simp: registry_get_def find_Some_iff split: option.splits)

lemma get_by_name_in: "get_by_name k = Inr d \<Longrightarrow> d \<in> set SETTINGS_REGISTRY \<and> def_key d = k"
  by (auto simp: get_by_name_def setting_key_parse_def dest: registry_get_in split: sum.splits)

lemma concat_map_disjoint:
  "distinct (concat (map f xs)) \<Longrightarrow> x \<in> set xs \<Longrightarrow> y \<in> set xs \<Longrightarrow> x \<noteq> y \<Longrightarrow> set (f x) \<inter> set (f y) = {}"
  by (induction xs) (auto simp: disjoint_iff)

lemma registry_disjoint:
  "d \<in> set SETTINGS_REGISTRY \<Longrightarrow> d' \<in> set SETTINGS_REGISTRY \<Longrightarrow> d \<noteq> d' \<Longrightarrow>
   set (all_storage_keys d) \<inter> set (all_storage_keys d') = {}"
  using registry_storage_keys_distinct by (rule concat_map_disjoint)

section \<open>Printed values\<close>

lemma setting_key_byte_plain: "setting_key_byte c \<Longrightarrow> \<not> is_whitespace c \<and> c \<noteq> CHR ''='' \<and> c \<noteq> CHR ''#''"
  by (auto simp: is_whitespace_def Let_def)

lemma storage_key_plain: "storage_key_ok k \<Longrightarrow> plain_key k"
  using setting_key_byte_plain by (auto simp: storage_key_ok_def plain_key_def list_all_iff simp del: setting_key_byte.simps)

lemma digit_char_no_hash: "n < 16 \<Longrightarrow> digit_char n \<noteq> CHR ''#''"
proof -
  have "\<forall>n \<in> set [0..<16]. digit_char n \<noteq> CHR ''#''" by code_simp
  then show "n < 16 \<Longrightarrow> ?thesis" by simp
qed

lemma plain_show_nat: "plain_value (show_nat n)"
  unfolding plain_value_def
proof
  fix c assume "c \<in> set (show_nat n)"
  then obtain d where "d < 10" "c = digit_char d" using show_nat_digits by blast
  then show "\<not> is_whitespace c \<and> c \<noteq> CHR ''#''"
    using digit_char_plain [of d] digit_char_no_hash [of d] by auto
qed

lemma plain_append [simp]: "plain_value (s @ t) \<longleftrightarrow> plain_value s \<and> plain_value t"
  by (auto simp: plain_value_def)

lemma plain_Cons: "plain_value (c # s) \<longleftrightarrow> \<not> is_whitespace c \<and> c \<noteq> CHR ''#'' \<and> plain_value s"
  by (auto simp: plain_value_def)

lemma plain_show_int: "plain_value (show_int i)"
  by (simp add: show_int_def plain_show_nat plain_Cons is_whitespace_def)

lemma plain_hex2: "plain_value (show_hex2 n)"
proof -
  have "n div 16 mod 16 < 16" "n mod 16 < 16" by auto
  then show ?thesis
    using digit_char_plain digit_char_no_hash by (simp add: show_hex2_def plain_value_def)
qed

lemma plain_ipv4: "plain_value (show_ipv4 ip)"
  by (cases ip) (simp add: plain_show_nat plain_Cons is_whitespace_def)

lemma plain_mac: "plain_value (mac_display m)"
  by (cases m) (simp add: plain_hex2 plain_Cons is_whitespace_def)

lemma show_nat_no_minus: "show_nat n = c # cs \<Longrightarrow> c \<noteq> CHR ''-''"
proof -
  assume "show_nat n = c # cs"
  then obtain d where "d < 10" "c = digit_char d" using show_nat_digits [of c n] by auto
  then show ?thesis using digit_char_plain [of d] by simp
qed

lemma parse_i128_show_int:
  assumes "- (2 ^ 127) \<le> i" and "i < 2 ^ 127"
  shows "parse_i128 (show_int i) = Some i"
proof (cases "i < 0")
  case True
  then have "nat (- i) \<le> 2 ^ 127" using assms(1) by (simp add: nat_le_iff)
  with True show ?thesis
    by (simp add: show_int_def parse_i128_def parse_digits_show_nat)
next
  case False
  then have "nat i < 2 ^ 127" using assms(2) by (simp add: nat_less_iff)
  then have p: "parse_unsigned 10 (2 ^ 127) (show_nat (nat i)) = Some (nat i)"
    by (rule parse_unsigned_show_nat)
  obtain c cs where c: "show_nat (nat i) = c # cs" by (cases "show_nat (nat i)") auto
  then have "c \<noteq> CHR ''-''" by (rule show_nat_no_minus)
  then have "parse_i128 (show_nat (nat i)) = map_option int (parse_unsigned 10 (2 ^ 127) (show_nat (nat i)))"
    unfolding c parse_i128_def by (auto split: list.splits char.splits bool.splits)
  with p False show ?thesis by (simp add: show_int_def)
qed

lemma canonicalize_idem:
  assumes "validate_enum_type t key = Inr ()" and "canonicalize t raw = Some v"
  shows "v \<in> set (enum_values t)"
proof -
  have al: "validate_enum_aliases key vs seen as = Inr () \<Longrightarrow> a \<in> set as \<Longrightarrow> alias_to a \<in> set vs" for vs seen as a
    by (induction as arbitrary: seen) auto
  from assms(1) have "validate_enum_aliases key (enum_values t) [] (enum_aliases t) = Inr ()"
    by (simp add: validate_enum_type_def)
  with assms(2) show ?thesis
    by (auto simp: canonicalize_def find_Some_iff split: option.splits dest!: al)
qed

lemma canonicalize_value: "v \<in> set (enum_values t) \<Longrightarrow> canonicalize t v = Some v"
  by (auto simp: canonicalize_def find_None_iff find_Some_iff split: option.splits)

text \<open>The types whose printed values are plain words that are read back.\<close>

fun printable_type :: "SettingType \<Rightarrow> bool" where
  "printable_type (EnumType t) = list_all plain_value (enum_values t)"
| "printable_type (IntegerType t) = (- (2 ^ 63) \<le> int_min t \<and> int_max t < 2 ^ 63)"
| "printable_type _ = True"

lemma type_roundtrip:
  assumes "type_parse_value t key raw = Inr v" and "printable_type t"
    and "case t of EnumType e \<Rightarrow> validate_enum_type e key = Inr () | IntegerType e \<Rightarrow> int_min e \<le> int_max e | _ \<Rightarrow> True"
  shows "type_parse_value t key' (setting_value_display v) = Inr v" and "plain_value (setting_value_display v)"
    and "type_validate_value t key v = Inr ()"
proof -
  have "type_parse_value t key' (setting_value_display v) = Inr v \<and> plain_value (setting_value_display v) \<and>
      type_validate_value t key v = Inr ()"
  proof (cases t)
    case (EnumType e)
    with assms obtain w where w: "canonicalize e raw = Some w" "v = EnumValue w" by (auto split: option.splits)
    then have "w \<in> set (enum_values e)" using assms(3) EnumType by (auto intro: canonicalize_idem)
    with w EnumType assms(2) show ?thesis by (simp add: canonicalize_value list_all_iff)
  next
    case (IntegerType e)
    with assms(1) obtain n where n: "int_accepts e n" "v = IntegerValue (int_coerce e n)"
      by (auto split: option.splits if_splits)
    have b: "- (2 ^ 63) \<le> int_min e" "int_max e < 2 ^ 63" "int_min e \<le> int_max e" using IntegerType assms(2,3) by auto
    have c: "int_contains e (int_coerce e n)" using n(1) b(3) by (auto simp: int_contains_def int_coerce_def int_accepts_def)
    then have "parse_i128 (show_int (int_coerce e n)) = Some (int_coerce e n)"
      using b by (intro parse_i128_show_int) (auto simp: int_contains_def)
    with n IntegerType c show ?thesis
      by (auto simp: plain_show_int int_contains_def int_accepts_def int_coerce_def)
  next
    case Ipv4Type
    with assms(1) show ?thesis by (auto simp: plain_ipv4 ipv4_parse_show split: option.splits)
  next
    case MacAddressType
    with assms(1) show ?thesis by (auto simp: plain_mac mac_parse_show split: option.splits)
  qed
  then show "type_parse_value t key' (setting_value_display v) = Inr v" "plain_value (setting_value_display v)"
    "type_validate_value t key v = Inr ()" by blast+
qed

lemma registry_printable: "list_all (\<lambda>d. printable_type (def_value_type d)) SETTINGS_REGISTRY"
  by (simp add: registry_defs MAX_IDLE_TIMEOUT_def plain_value_def is_whitespace_def)

lemma registry_type_side:
  assumes "d \<in> set SETTINGS_REGISTRY"
  shows "printable_type (def_value_type d)"
    and "case def_value_type d of EnumType e \<Rightarrow> validate_enum_type e (def_key d) = Inr ()
      | IntegerType e \<Rightarrow> int_min e \<le> int_max e | _ \<Rightarrow> True"
  using registry_printable registry_metadata(2) [OF assms] assms
  by (auto simp: list_all_iff validate_int_type_def split: SettingType.splits)

lemma registry_value_roundtrip:
  assumes "d \<in> set SETTINGS_REGISTRY" and "def_parse_value d raw = Inr v"
  shows "def_parse_value d (setting_value_display v) = Inr v" and "plain_value (setting_value_display v)"
    and "type_validate_value (def_value_type d) (def_key d) v = Inr ()"
  using type_roundtrip [OF assms(2) [unfolded def_parse_value_def] registry_type_side [OF assms(1)]]
  by (simp_all add: def_parse_value_def)

end
