(* ===== verification/Config_Editor.thy ===== *)
theory Config_Editor
  imports Settings "HOL-Library.List_Lexorder" "HOL-Library.Char_ord"
begin

text \<open>
  Editing and reading settings in \<open>config.env\<close> (\<open>settings/store.rs\<close>) and the read-only declarations
  that override it (\<open>config/declarative.rs\<close>), as far as they are functions of file contents. The
  editor works on lines and keeps everything it does not change; the store resolves the effective
  value of a setting; declarations are rendered after the saved lines. The theorems relate all
  three to the parser the runtime uses: what the editor writes is what the runtime and the store
  read, and nothing else changes.
\<close>

section \<open>Lines of the configuration file\<close>

definition trim_start :: "string \<Rightarrow> string" where
  "trim_start s = dropWhile is_whitespace s"

definition config_line_key :: "string \<Rightarrow> string option" where
  "config_line_key line =
     (let trimmed = trim_start line
      in if trimmed = [] \<or> hd trimmed = CHR ''#'' then None
         else map_option (\<lambda>(key, _). trim key) (split_once (CHR ''='') trimmed))"

definition config_value_suffix :: "string \<Rightarrow> string" where
  "config_value_suffix value =
     (if CHR ''#'' \<notin> set value then []
      else let before_comment = takeWhile (\<lambda>c. c \<noteq> CHR ''#'') value;
               suffix_start = length (dropWhile is_whitespace (rev before_comment))
           in drop suffix_start value)"

definition replace_config_line_value :: "string \<Rightarrow> string \<Rightarrow> string \<Rightarrow> string" where
  "replace_config_line_value line storage_key value =
     (let indentation = takeWhile is_whitespace line;
          suffix = (case split_once (CHR ''='') line of
                      Some (_, existing_value) \<Rightarrow> config_value_suffix existing_value
                    | None \<Rightarrow> [])
      in indentation @ storage_key @ ''='' @ value @ suffix)"

section \<open>The editor\<close>

record ConfigEnvEditor =
  ed_path :: string
  ed_lines :: "string list"
  ed_original :: "string option"
  ed_allow_missing :: bool

definition editor_parse :: "string \<Rightarrow> string \<Rightarrow> ConfigEnvEditor" where
  "editor_parse path contents =
     \<lparr>ed_path = path, ed_lines = lines contents, ed_original = Some contents, ed_allow_missing = True\<rparr>"

definition editor_empty :: "string \<Rightarrow> ConfigEnvEditor" where
  "editor_empty path = \<lparr>ed_path = path, ed_lines = [], ed_original = None, ed_allow_missing = False\<rparr>"

definition last_key_index :: "string list \<Rightarrow> string \<Rightarrow> nat option" where
  "last_key_index ls storage_key =
     map_option fst
       (find (\<lambda>(_, line). config_line_key line = Some storage_key) (rev (enumerate 0 ls)))"

definition editor_set :: "ConfigEnvEditor \<Rightarrow> string \<Rightarrow> SettingValue \<Rightarrow> bool \<times> ConfigEnvEditor" where
  "editor_set ed storage_key v =
     (let value = setting_value_display v in
      case last_key_index (ed_lines ed) storage_key of
        Some index \<Rightarrow>
          let replacement = replace_config_line_value (ed_lines ed ! index) storage_key value
          in (ed_lines ed ! index \<noteq> replacement, ed\<lparr>ed_lines := (ed_lines ed)[index := replacement]\<rparr>)
      | None \<Rightarrow> (True, ed\<lparr>ed_lines := ed_lines ed @ [storage_key @ ''='' @ value]\<rparr>))"

definition editor_unset :: "ConfigEnvEditor \<Rightarrow> string \<Rightarrow> bool \<times> ConfigEnvEditor" where
  "editor_unset ed storage_key =
     (let kept = filter (\<lambda>line. config_line_key line \<noteq> Some storage_key) (ed_lines ed)
      in (length kept \<noteq> length (ed_lines ed), ed\<lparr>ed_lines := kept\<rparr>))"

definition render_lines :: "string list \<Rightarrow> string" where
  "render_lines ls = (if ls = [] then [] else join_with [CHR 10] ls @ [CHR 10])"

definition editor_render :: "ConfigEnvEditor \<Rightarrow> string" where
  "editor_render ed = render_lines (ed_lines ed)"

section \<open>Declarations\<close>

text \<open>
  A declaration document as the JSON reader hands it over: its settings are the object's entries
  in the order of the text, each with the position the reader is at (the text its errors carry).
  Only the shapes the code tells apart are kept of a JSON value; a number outside the 64-bit
  integers is \<open>JsonOther\<close>.
\<close>

datatype JsonValue = JsonString string | JsonInteger int | JsonBool bool | JsonOther

record Document =
  doc_version :: nat
  doc_source :: DeclarativeSource
  doc_settings :: "(string \<times> JsonValue \<times> string) list"

fun unique_settings :: "(string \<times> JsonValue \<times> string) list \<Rightarrow> (string \<times> JsonValue) list \<Rightarrow>
    string + (string \<times> JsonValue) list" where
  "unique_settings [] values = Inr values"
| "unique_settings ((key, value, position) # rest) values =
     (if map_of values key \<noteq> None then Inl position
      else unique_settings rest (insort_key fst (key, value) values))"

record Declarations =
  decl_path :: string
  decl_source :: DeclarativeSource
  decl_values :: "(string \<times> SettingValue) list"

definition declaration_invalid :: "string \<Rightarrow> string \<Rightarrow> io_error" where
  "declaration_invalid path reason =
     IoError InvalidData (''invalid declarative configuration at '' @ path @ '': '' @ reason)"

definition starts_with :: "string \<Rightarrow> string \<Rightarrow> bool" where
  "starts_with s p \<longleftrightarrow> strip_prefix p s \<noteq> None"

definition declarable :: "string \<Rightarrow> bool" where
  "declarable key \<longleftrightarrow> starts_with key ''screen.'' \<or> starts_with key ''system.'' \<or> starts_with key ''updates.''"

definition declared_raw :: "JsonValue \<Rightarrow> string option" where
  "declared_raw value =
     (case value of
        JsonString s \<Rightarrow> Some s
      | JsonInteger i \<Rightarrow> Some (show_int i)
      | JsonBool b \<Rightarrow> Some (if b then ''enabled'' else ''disabled'')
      | JsonOther \<Rightarrow> None)"

fun declared_values :: "string \<Rightarrow> (string \<times> JsonValue) list \<Rightarrow> io_error + (string \<times> SettingValue) list" where
  "declared_values path [] = Inr []"
| "declared_values path ((key, value) # rest) =
     (case get_by_name key of
        Inl _ \<Rightarrow> Inl (declaration_invalid path ''unknown setting key'')
      | Inr d \<Rightarrow>
          if \<not> declarable key
          then Inl (declaration_invalid path ''only screen, system and update behavior settings may be declared; TV profiles and credentials remain user-owned'')
          else (case declared_raw value of
             None \<Rightarrow> Inl (declaration_invalid path ''expected a scalar setting value'')
           | Some raw \<Rightarrow>
          (case def_parse_value d raw of
             Inl _ \<Rightarrow> Inl (declaration_invalid path (key @ '' requires '' @ type_expected (def_value_type d)))
           | Inr v \<Rightarrow>
          (case declared_values path rest of
             Inl e \<Rightarrow> Inl e
           | Inr vs \<Rightarrow> Inr ((def_key d, v) # vs)))))"

text \<open>A malformed document, duplicates included, is reported with the reader's position only.\<close>

definition declarations_parse :: "string \<Rightarrow> string + Document \<Rightarrow> io_error + Declarations" where
  "declarations_parse path document =
     (case document of
        Inl position \<Rightarrow> Inl (declaration_invalid path (''invalid schema or JSON at '' @ position))
      | Inr doc \<Rightarrow>
     (case unique_settings (doc_settings doc) [] of
        Inl position \<Rightarrow> Inl (declaration_invalid path (''invalid schema or JSON at '' @ position))
      | Inr settings \<Rightarrow>
          if doc_version doc \<noteq> 1 then Inl (declaration_invalid path ''unsupported declaration version'')
          else (case declared_values path settings of
             Inl e \<Rightarrow> Inl e
           | Inr values \<Rightarrow> Inr \<lparr>decl_path = path, decl_source = doc_source doc, decl_values = values\<rparr>)))"

definition declared_value :: "Declarations \<Rightarrow> string \<Rightarrow> SettingValue option" where
  "declared_value d key = map_of (decl_values d) key"

text \<open>
  \<open>effective_contents\<close>. A key of a validated declaration is in the registry, so the lookup
  (\<open>expect\<close> in the source) finds it; the other branch is not reached.
\<close>

definition declaration_line :: "string \<times> SettingValue \<Rightarrow> string" where
  "declaration_line kv =
     (case get_by_name (fst kv) of
        Inr d \<Rightarrow> def_storage_key d @ ''='' @ setting_value_display (snd kv) @ [CHR 10]
      | Inl _ \<Rightarrow> [])"

definition effective_contents :: "Declarations \<Rightarrow> string \<Rightarrow> string" where
  "effective_contents d saved = saved @ [CHR 10] @ concat (map declaration_line (decl_values d))"

definition declaration_reject :: "Declarations \<Rightarrow> string \<Rightarrow> SettingsError" where
  "declaration_reject d key = Settings_ManagedSetting key (decl_path d) (decl_source d)"

text \<open>The check that a change of the file leaves every declared setting alone.\<close>

definition declared_keys_changed ::
    "(string \<rightharpoonup> string) \<Rightarrow> (string \<rightharpoonup> string) \<Rightarrow> string \<Rightarrow> bool" where
  "declared_keys_changed before after key =
     (case get_by_name key of
        Inr d \<Rightarrow> list_ex (\<lambda>k. before k \<noteq> after k) (def_storage_key d # def_fallback_storage_keys d)
      | Inl _ \<Rightarrow> False)"

definition check_declared :: "Declarations \<Rightarrow> string \<Rightarrow> string \<Rightarrow> io_error + unit" where
  "check_declared d before after =
     (if \<not> valid_utf8 before \<or> \<not> valid_utf8 after then Inl (declaration_invalid (decl_path d) ''config must be UTF-8'')
      else case find (declared_keys_changed (parse_config_entries before) (parse_config_entries after))
             (map fst (decl_values d)) of
        Some key \<Rightarrow> Inl (IoError OtherKind (settings_error_display (declaration_reject d key)))
      | None \<Rightarrow> Inr ())"

text \<open>\<open>load_current_config\<close>, given what reading the file and loading the declarations answered.\<close>

definition load_current_config ::
    "io_error + string \<Rightarrow> io_error + Declarations option \<Rightarrow> ConfigLoadError + Config" where
  "load_current_config file declarations =
     (case file of
        Inl err \<Rightarrow> Inl (if io_kind err = NotFound then MissingConfig else Unreadable err)
      | Inr contents \<Rightarrow>
     (case declarations of
        Inl err \<Rightarrow> Inl (Unreadable err)
      | Inr None \<Rightarrow> parse_current_config contents
      | Inr (Some d) \<Rightarrow> parse_current_config (effective_contents d contents)))"

section \<open>The store\<close>

datatype SettingSource =
    SourceDeclarative DeclarativeSource
  | SourceDefault
  | SourceConfigEnv
  | SourceLegacyConfigEnv
  | SourceInvalidConfigEnv
  | SourceInvalidLegacyConfigEnv
  | SourceMissing

fun setting_source_as_str :: "SettingSource \<Rightarrow> string" where
  "setting_source_as_str (SourceDeclarative Nix) = ''declarative (nix)''"
| "setting_source_as_str (SourceDeclarative Generic) = ''declarative''"
| "setting_source_as_str SourceDefault = ''default''"
| "setting_source_as_str SourceConfigEnv = ''config.env''"
| "setting_source_as_str SourceLegacyConfigEnv = ''legacy config.env''"
| "setting_source_as_str SourceInvalidConfigEnv = ''invalid config.env''"
| "setting_source_as_str SourceInvalidLegacyConfigEnv = ''invalid legacy config.env''"
| "setting_source_as_str SourceMissing = ''missing''"

fun source_invalid :: "SettingSource \<Rightarrow> SettingSource" where
  "source_invalid SourceConfigEnv = SourceInvalidConfigEnv"
| "source_invalid SourceLegacyConfigEnv = SourceInvalidLegacyConfigEnv"
| "source_invalid other = other"

record EffectiveSetting =
  eff_definition :: SettingDefinition
  eff_value :: "SettingValue option"
  eff_source :: SettingSource
  eff_invalid_value :: "string option"

record SettingsStore =
  store_path :: string
  store_entries :: "string \<rightharpoonup> string"
  store_declarations :: "Declarations option"

definition store_of :: "string \<Rightarrow> string option \<Rightarrow> Declarations option \<Rightarrow> SettingsStore" where
  "store_of path contents declarations =
     \<lparr>store_path = path,
      store_entries = (case contents of Some c \<Rightarrow> parse_config_entries c | None \<Rightarrow> Map.empty),
      store_declarations = declarations\<rparr>"

definition raw_setting_value :: "(string \<rightharpoonup> string) \<Rightarrow> SettingDefinition \<Rightarrow> (string \<times> SettingSource) option" where
  "raw_setting_value entries d =
     (case entries (def_storage_key d) of
        Some value \<Rightarrow> Some (value, SourceConfigEnv)
      | None \<Rightarrow>
          map_option (\<lambda>value. (value, SourceLegacyConfigEnv)) (find_map entries (def_fallback_storage_keys d)))"

definition effective_saved :: "(string \<rightharpoonup> string) \<Rightarrow> SettingDefinition \<Rightarrow> EffectiveSetting" where
  "effective_saved entries d =
     (case raw_setting_value entries d of
        Some (raw, src) \<Rightarrow>
          (case def_parse_value d raw of
             Inr v \<Rightarrow> \<lparr>eff_definition = d, eff_value = Some v, eff_source = src, eff_invalid_value = None\<rparr>
           | Inl _ \<Rightarrow> \<lparr>eff_definition = d, eff_value = None, eff_source = source_invalid src,
                       eff_invalid_value = Some raw\<rparr>)
      | None \<Rightarrow>
          (case def_default_value d of
             Some v \<Rightarrow> \<lparr>eff_definition = d, eff_value = Some v, eff_source = SourceDefault, eff_invalid_value = None\<rparr>
           | None \<Rightarrow> \<lparr>eff_definition = d, eff_value = None, eff_source = SourceMissing, eff_invalid_value = None\<rparr>))"

definition effective_definition :: "SettingsStore \<Rightarrow> SettingDefinition \<Rightarrow> EffectiveSetting" where
  "effective_definition store d =
     (case Option.bind (store_declarations store)
             (\<lambda>ds. map_option (\<lambda>v. (ds, v)) (declared_value ds (def_key d))) of
        Some (ds, v) \<Rightarrow>
          \<lparr>eff_definition = d, eff_value = Some v, eff_source = SourceDeclarative (decl_source ds),
           eff_invalid_value = None\<rparr>
      | None \<Rightarrow> effective_saved (store_entries store) d)"

definition effective_by_name :: "SettingsStore \<Rightarrow> string \<Rightarrow> SettingsError + EffectiveSetting" where
  "effective_by_name store key =
     (case get_by_name key of Inl e \<Rightarrow> Inl e | Inr d \<Rightarrow> Inr (effective_definition store d))"

definition all_effective :: "SettingsStore \<Rightarrow> EffectiveSetting list" where
  "all_effective store = map (effective_definition store) SETTINGS_REGISTRY"

definition required_value :: "EffectiveSetting \<Rightarrow> SettingsError + SettingValue" where
  "required_value e =
     (case eff_invalid_value e of
        Some value \<Rightarrow>
          Inl (Settings_InvalidValue (def_key (eff_definition e)) value
            (type_expected (def_value_type (eff_definition e))))
      | None \<Rightarrow>
     (case eff_value e of
        Some v \<Rightarrow> Inr v
      | None \<Rightarrow> Inl (Settings_MissingRequiredSetting (def_key (eff_definition e)))))"

fun managed_by :: "SettingSource \<Rightarrow> DeclarativeSource option" where
  "managed_by (SourceDeclarative src) = Some src"
| "managed_by _ = None"

section \<open>Mutations\<close>

datatype SettingsMutationAction = ActionSet | ActionUnset

record SettingsMutation =
  mut_definition :: SettingDefinition
  mut_old_value :: "SettingValue option"
  mut_old_source :: SettingSource
  mut_new_value :: "SettingValue option"
  mut_action :: SettingsMutationAction

text \<open>\<open>binding\<close> is where the declarations of the store's file are, or why that is unknown.\<close>

definition reject_managed ::
    "SettingsError + string \<Rightarrow> string \<Rightarrow> EffectiveSetting \<Rightarrow> SettingsError + unit" where
  "reject_managed binding key old =
     (case managed_by (eff_source old) of
        None \<Rightarrow> Inr ()
      | Some src \<Rightarrow>
          (case binding of Inl e \<Rightarrow> Inl e | Inr path \<Rightarrow> Inl (Settings_ManagedSetting key path src)))"

definition mutation_set ::
    "SettingsError + string \<Rightarrow> SettingsStore \<Rightarrow> string \<Rightarrow> string \<Rightarrow> SettingsError + SettingsMutation" where
  "mutation_set binding store key value =
     (case get_by_name key of
        Inl e \<Rightarrow> Inl e
      | Inr d \<Rightarrow>
     (case ensure_operation_supported d SetOp of
        Inl e \<Rightarrow> Inl e
      | Inr _ \<Rightarrow>
          let old = effective_definition store d in
     (case reject_managed binding key old of
        Inl e \<Rightarrow> Inl e
      | Inr _ \<Rightarrow>
     (case def_parse_value d value of
        Inl e \<Rightarrow> Inl e
      | Inr v \<Rightarrow>
          Inr \<lparr>mut_definition = d, mut_old_value = eff_value old, mut_old_source = eff_source old,
               mut_new_value = Some v, mut_action = ActionSet\<rparr>))))"

definition mutation_unset ::
    "SettingsError + string \<Rightarrow> SettingsStore \<Rightarrow> string \<Rightarrow> SettingsError + SettingsMutation" where
  "mutation_unset binding store key =
     (case get_by_name key of
        Inl e \<Rightarrow> Inl e
      | Inr d \<Rightarrow>
     (case ensure_operation_supported d UnsetOp of
        Inl e \<Rightarrow> Inl e
      | Inr _ \<Rightarrow>
          let old = effective_definition store d in
     (case reject_managed binding key old of
        Inl e \<Rightarrow> Inl e
      | Inr _ \<Rightarrow>
          Inr \<lparr>mut_definition = d, mut_old_value = eff_value old, mut_old_source = eff_source old,
               mut_new_value = def_default_value d, mut_action = ActionUnset\<rparr>)))"

definition new_value :: "SettingsMutation \<Rightarrow> SettingsError + SettingValue" where
  "new_value m =
     (case mut_new_value m of
        Some v \<Rightarrow> Inr v
      | None \<Rightarrow> Inl (Settings_MissingRequiredSetting (def_key (mut_definition m))))"

text \<open>What a mutation does to the lines: the key, then every legacy key of the setting.\<close>

fun unset_all :: "bool \<times> ConfigEnvEditor \<Rightarrow> string list \<Rightarrow> bool \<times> ConfigEnvEditor" where
  "unset_all (changed, ed) [] = (changed, ed)"
| "unset_all (changed, ed) (k # ks) =
     (case editor_unset ed k of (c, ed') \<Rightarrow> unset_all (changed \<or> c, ed') ks)"

definition edit_mutation :: "SettingsMutation \<Rightarrow> ConfigEnvEditor \<Rightarrow> SettingsError + bool \<times> ConfigEnvEditor" where
  "edit_mutation m ed =
     (case mut_action m of
        ActionSet \<Rightarrow>
          (case new_value m of
             Inl e \<Rightarrow> Inl e
           | Inr v \<Rightarrow>
               Inr (unset_all (editor_set ed (def_storage_key (mut_definition m)) v)
                 (def_fallback_storage_keys (mut_definition m))))
      | ActionUnset \<Rightarrow>
          Inr (unset_all (editor_unset ed (def_storage_key (mut_definition m)))
            (def_fallback_storage_keys (mut_definition m))))"

section \<open>Lines and entries\<close>

definition rtrim :: "string \<Rightarrow> string" where
  "rtrim s = rev (dropWhile is_whitespace (rev s))"

lemma trim_eq: "trim s = rtrim (trim_start s)"
  by (simp add: trim_def rtrim_def trim_start_def)

lemma dropWhile_stops: "\<not> P c \<Longrightarrow> dropWhile P (a @ c # b) = dropWhile P a @ c # b"
  by (induction a) auto

lemma rtrim_stops: "\<not> is_whitespace c \<Longrightarrow> rtrim (a @ c # b) = a @ c # rtrim b"
  by (simp add: rtrim_def dropWhile_stops)

lemma rtrim_drops: "is_whitespace c \<Longrightarrow> rtrim (s @ [c]) = rtrim s"
  by (simp add: rtrim_def)

lemma rtrim_subset: "set (rtrim s) \<subseteq> set s"
  by (auto simp: rtrim_def dest: set_dropWhileD)

lemma rtrim_split: "\<exists>t. s = rtrim s @ t \<and> (\<forall>c \<in> set t. is_whitespace c)"
proof -
  have "s = rtrim s @ rev (takeWhile is_whitespace (rev s))"
    unfolding rtrim_def by (metis rev_append rev_rev_ident takeWhile_dropWhile_id)
  moreover have "\<forall>c \<in> set (rev (takeWhile is_whitespace (rev s))). is_whitespace c"
    by (auto dest: set_takeWhileD)
  ultimately show ?thesis by blast
qed

lemma trim_strip_cr: "trim (strip_cr s) = trim s"
proof (cases s rule: rev_cases)
  case (snoc t c)
  have ws: "is_whitespace (CHR 13)" by (simp add: is_whitespace_def)
  show ?thesis
  proof (cases "c = CHR 13")
    case True
    with snoc ws show ?thesis
      by (cases "dropWhile is_whitespace t = []")
        (auto simp: strip_cr_def trim_eq trim_start_def dropWhile_append rtrim_drops rtrim_def
          dest: set_dropWhileD)
  qed (simp add: strip_cr_def snoc)
qed (simp add: strip_cr_def)

lemma split_once_none: "split_once c s = None \<longleftrightarrow> c \<notin> set s"
  by (induction s) auto

text \<open>The assignment a line makes, if any; the parser and the editor look at the same one.\<close>

definition line_entry :: "string \<Rightarrow> (string \<times> string) option" where
  "line_entry line =
     (let trimmed = trim line
      in if trimmed = [] \<or> hd trimmed = CHR ''#'' then None
         else map_option (\<lambda>(k, v). (trim k, sanitize_config_value v)) (split_once (CHR ''='') trimmed))"

lemma parse_config_line_entry:
  "parse_config_line e l = (case line_entry l of None \<Rightarrow> e | Some (k, v) \<Rightarrow> e(k \<mapsto> v))"
  by (auto simp: parse_config_line_def line_entry_def Let_def split: option.splits)

lemma equals_not_ws: "\<not> is_whitespace (CHR ''='')"
  by (simp add: is_whitespace_def)

lemma split_once_rtrim:
  "split_once (CHR ''='') (rtrim s) = map_option (\<lambda>(k, v). (k, rtrim v)) (split_once (CHR ''='') s)"
proof (cases "split_once (CHR ''='') s")
  case None
  then have "CHR ''='' \<notin> set (rtrim s)" using rtrim_subset by (auto simp: split_once_none)
  then have "split_once (CHR ''='') (rtrim s) = None" by (simp add: split_once_none)
  with None show ?thesis by simp
next
  case (Some kv)
  obtain k v where kv: "kv = (k, v)" by (cases kv)
  with Some have "s = k @ CHR ''='' # v" "CHR ''='' \<notin> set k" using split_once_SomeD by blast+
  with Some kv show ?thesis by (simp add: rtrim_stops equals_not_ws split_once_append_sep)
qed

lemma trim_start_head: "trim_start s = c # cs \<Longrightarrow> \<not> is_whitespace c"
  by (metis hd_dropWhile list.sel(1) list.discI trim_start_def)

lemma rtrim_head: "\<not> is_whitespace c \<Longrightarrow> rtrim (c # cs) = c # rtrim cs"
  using rtrim_stops [of c "[]" cs] by simp

lemma config_line_key_entry: "config_line_key l = map_option fst (line_entry l)"
proof (cases "trim_start l")
  case Nil
  then show ?thesis by (simp add: config_line_key_def line_entry_def trim_eq rtrim_def)
next
  case (Cons c cs)
  then have r: "trim l = c # rtrim cs" using trim_start_head rtrim_head by (simp add: trim_eq)
  have "split_once (CHR ''='') (trim l) = map_option (\<lambda>(k, v). (k, rtrim v)) (split_once (CHR ''='') (trim_start l))"
    by (simp add: trim_eq split_once_rtrim)
  with Cons r show ?thesis
    by (auto simp: config_line_key_def line_entry_def option.map_comp comp_def case_prod_unfold)
qed

lemma line_entry_strip_cr: "line_entry (strip_cr l) = line_entry l"
  by (simp add: line_entry_def trim_strip_cr)

definition entries_of :: "string list \<Rightarrow> (string \<rightharpoonup> string)" where
  "entries_of ls = foldl parse_config_line Map.empty ls"

lemma parse_config_entries_lines: "parse_config_entries c = entries_of (lines c)"
  by (simp add: parse_config_entries_def entries_of_def)

lemma entries_of_snoc: "entries_of (ls @ [l]) = parse_config_line (entries_of ls) l"
  by (simp add: entries_of_def)

lemma entries_of_strip_cr: "entries_of (map strip_cr ls) = entries_of ls"
proof (induction ls rule: rev_induct)
  case (snoc l ls)
  then show ?case by (simp add: entries_of_snoc parse_config_line_entry line_entry_strip_cr)
qed simp

definition one_line :: "string \<Rightarrow> bool" where
  "one_line l \<longleftrightarrow> CHR 10 \<notin> set l"

lemma split_on_join:
  "ls \<noteq> [] \<Longrightarrow> list_all one_line ls \<Longrightarrow> split_on (CHR 10) (join_with [CHR 10] ls @ [CHR 10]) = ls @ [[]]"
proof (induction ls)
  case (Cons x ls)
  show ?case
  proof (cases ls)
    case Nil
    with Cons.prems show ?thesis using split_on_append_sep [of "CHR 10" x "[]"] by (simp add: one_line_def)
  next
    case (Cons y ys)
    with Cons.IH Cons.prems show ?thesis
      using split_on_append_sep [of "CHR 10" x "join_with [CHR 10] (y # ys) @ [CHR 10]"]
      by (simp add: one_line_def)
  qed
qed simp

lemma entries_render: "list_all one_line ls \<Longrightarrow> parse_config_entries (render_lines ls) = entries_of ls"
  by (cases "ls = []")
    (simp_all add: parse_config_entries_lines render_lines_def lines_def split_on_join
      butlast_append entries_of_strip_cr)

lemma split_on_sep_free: "l \<in> set (split_on c s) \<Longrightarrow> c \<notin> set l"
proof (induction s arbitrary: l)
  case (Cons x s)
  then show ?case
    by (cases "split_on c s") (auto split: if_splits dest: list.set_sel(2) [rotated])
qed simp

lemma one_line_strip_cr: "one_line l \<Longrightarrow> one_line (strip_cr l)"
  by (auto simp: one_line_def strip_cr_def dest: in_set_butlastD)

lemma lines_one_line: "list_all one_line (lines c)"
proof -
  have "l \<in> set (split_on (CHR 10) c) \<Longrightarrow> one_line l" for l
    using split_on_sep_free by (simp add: one_line_def)
  then show ?thesis
    by (auto simp: lines_def Let_def list_all_iff intro!: one_line_strip_cr dest: in_set_butlastD last_in_set)
qed

section \<open>What the editor changes\<close>

lemma keyless_update:
  "\<forall>l \<in> set ls. config_line_key l \<noteq> Some k \<Longrightarrow>
   foldl parse_config_line (e(k := x)) ls = (foldl parse_config_line e ls)(k := x)"
proof (induction ls arbitrary: e)
  case (Cons l ls)
  have "parse_config_line (e(k := x)) l = (parse_config_line e l)(k := x)"
    using Cons.prems by (auto simp: parse_config_line_entry config_line_key_entry split: option.splits)
  with Cons show ?case by (simp del: fun_upd_apply)
qed simp

lemma entries_of_replace:
  assumes "line_entry r = Some (k, v)" and "config_line_key l = Some k"
    and "\<forall>b \<in> set bs. config_line_key b \<noteq> Some k"
  shows "entries_of (as @ r # bs) = (entries_of (as @ l # bs))(k \<mapsto> v)"
proof -
  obtain v0 where "line_entry l = Some (k, v0)" using assms(2) by (auto simp: config_line_key_entry)
  then show ?thesis
    using assms(1) keyless_update [OF assms(3)]
    by (simp add: entries_of_def parse_config_line_entry)
qed

lemma entries_of_filter:
  "entries_of (filter (\<lambda>l. config_line_key l \<noteq> Some k) ls) = (entries_of ls)(k := None)"
proof (induction ls rule: rev_induct)
  case (snoc l ls)
  then show ?case
    by (auto simp: entries_of_snoc parse_config_line_entry config_line_key_entry fun_eq_iff split: option.splits)
qed (simp add: entries_of_def)

lemma last_key_index_snoc:
  "last_key_index (ls @ [l]) k =
     (if config_line_key l = Some k then Some (length ls) else last_key_index ls k)"
  by (simp add: last_key_index_def enumerate_append_eq)

lemma last_key_index_cases:
  "case last_key_index ls k of
     None \<Rightarrow> \<forall>l \<in> set ls. config_line_key l \<noteq> Some k
   | Some i \<Rightarrow> i < length ls \<and> config_line_key (ls ! i) = Some k \<and>
       (\<forall>b \<in> set (drop (Suc i) ls). config_line_key b \<noteq> Some k)"
proof (induction ls rule: rev_induct)
  case (snoc l ls)
  show ?case
  proof (cases "config_line_key l = Some k")
    case False
    with snoc show ?thesis
      by (cases "last_key_index ls k") (auto simp: last_key_index_snoc nth_append)
  qed (simp add: last_key_index_snoc)
qed (simp add: last_key_index_def)

lemma config_value_suffix_form:
  "config_value_suffix x = [] \<or>
   (\<exists>ws rest. (\<forall>c \<in> set ws. is_whitespace c) \<and> config_value_suffix x = ws @ CHR ''#'' # rest)"
proof (cases "CHR ''#'' \<in> set x")
  case True
  let ?b = "takeWhile (\<lambda>c. c \<noteq> CHR ''#'') x"
  obtain a rest where "x = a @ CHR ''#'' # rest" and "CHR ''#'' \<notin> set a"
    using split_list_first [OF True] by blast
  then have x: "x = ?b @ CHR ''#'' # rest" by (auto simp: takeWhile_append)
  obtain t where t: "?b = rtrim ?b @ t" "\<forall>c \<in> set t. is_whitespace c" using rtrim_split by blast
  define n where "n = rtrim ?b"
  have s: "config_value_suffix x = drop (length n) x"
    using True by (simp add: config_value_suffix_def n_def rtrim_def)
  define b where "b = ?b"
  have "x = b @ CHR ''#'' # rest" "b = n @ t" using x t(1) unfolding n_def b_def .
  then have "x = n @ t @ CHR ''#'' # rest" by simp
  then have "drop (length n) x = t @ CHR ''#'' # rest" by simp
  with s t(2) show ?thesis by auto
qed (simp add: config_value_suffix_def)

lemma rtrim_plain: "\<forall>c \<in> set s. \<not> is_whitespace c \<Longrightarrow> rtrim s = s"
  by (cases s rule: rev_cases) (auto simp: rtrim_def)

lemma sanitize_commented:
  assumes v: "plain_value v" and s: "s = [] \<or> (\<exists>ws rest. (\<forall>c \<in> set ws. is_whitespace c) \<and> s = ws @ CHR ''#'' # rest)"
  shows "sanitize_config_value (rtrim (v @ s)) = v"
proof -
  have nw: "\<forall>c \<in> set v. \<not> is_whitespace c" and nh: "CHR ''#'' \<notin> set v" using v by (auto simp: plain_value_def)
  have tv: "trim v = v" by (rule trim_no_whitespace [OF nw])
  from s show ?thesis
  proof
    assume "s = []"
    then show ?thesis using nw nh tv by (simp add: sanitize_config_value_def rtrim_plain split_on_no_sep)
  next
    assume "\<exists>ws rest. (\<forall>c \<in> set ws. is_whitespace c) \<and> s = ws @ CHR ''#'' # rest"
    then obtain ws rest where ws: "\<forall>c \<in> set ws. is_whitespace c" and s: "s = ws @ CHR ''#'' # rest" by blast
    have "\<not> is_whitespace (CHR ''#'')" by (simp add: is_whitespace_def)
    then have r: "rtrim (v @ s) = (v @ ws) @ CHR ''#'' # rtrim rest"
      using rtrim_stops [of "CHR ''#''" "v @ ws" rest] by (simp add: s)
    have "CHR ''#'' \<notin> set (v @ ws)" using nh ws \<open>\<not> is_whitespace (CHR ''#'')\<close> by auto
    then have "hd (split_on (CHR ''#'') (rtrim (v @ s))) = v @ ws"
      using split_on_append_sep [of "CHR ''#''" "v @ ws" "rtrim rest"] by (simp add: r)
    moreover have "trim (v @ ws) = v"
    proof (cases v)
      case Nil
      with ws show ?thesis by (auto simp: trim_eq trim_start_def rtrim_def dest: set_dropWhileD)
    next
      case (Cons c cs)
      have "dropWhile is_whitespace (rev ws @ rev v) = dropWhile is_whitespace (rev v)"
        using ws by (intro dropWhile_append2) auto
      then have "rtrim (v @ ws) = rtrim v" by (simp add: rtrim_def)
      moreover have "trim_start (v @ ws) = v @ ws" using Cons nw by (simp add: trim_start_def)
      ultimately show ?thesis using nw by (simp add: trim_eq rtrim_plain)
    qed
    ultimately show ?thesis by (simp add: sanitize_config_value_def)
  qed
qed

lemma line_entry_assignment:
  assumes "plain_key k" and "plain_value v" and "\<forall>c \<in> set ind. is_whitespace c"
    and "s = [] \<or> (\<exists>ws rest. (\<forall>c \<in> set ws. is_whitespace c) \<and> s = ws @ CHR ''#'' # rest)"
  shows "line_entry (ind @ k @ ''='' @ v @ s) = Some (k, v)"
proof -
  have k: "k \<noteq> []" "\<forall>c \<in> set k. \<not> is_whitespace c" "CHR ''='' \<notin> set k" "CHR ''#'' \<notin> set k"
    using assms(1) by (auto simp: plain_key_def)
  have "trim_start (ind @ k @ ''='' @ v @ s) = k @ CHR ''='' # v @ s"
    using assms(3) k(1,2) by (cases k) (auto simp: trim_start_def)
  then have t: "trim (ind @ k @ ''='' @ v @ s) = k @ CHR ''='' # rtrim (v @ s)"
    by (simp add: trim_eq rtrim_stops equals_not_ws)
  moreover have "trim k = k" by (rule trim_no_whitespace [OF k(2)])
  ultimately show ?thesis
    using k sanitize_commented [OF assms(2,4)]
    by (cases k) (auto simp: line_entry_def split_once_append_sep)
qed

lemma replace_entry:
  assumes "plain_key k" and "plain_value v"
  shows "line_entry (replace_config_line_value l k v) = Some (k, v)"
proof -
  let ?s = "case split_once (CHR ''='') l of Some (_, x) \<Rightarrow> config_value_suffix x | None \<Rightarrow> []"
  have "?s = [] \<or> (\<exists>ws rest. (\<forall>c \<in> set ws. is_whitespace c) \<and> ?s = ws @ CHR ''#'' # rest)"
    using config_value_suffix_form by (auto split: option.splits)
  moreover have "\<forall>c \<in> set (takeWhile is_whitespace l). is_whitespace c" by (auto dest: set_takeWhileD)
  ultimately show ?thesis
    unfolding replace_config_line_value_def Let_def using assms by (intro line_entry_assignment)
qed

lemma plain_one_line: "plain_key k \<Longrightarrow> one_line k" "plain_value v \<Longrightarrow> one_line v"
  using not_whitespace_not_newline by (auto simp: plain_key_def plain_value_def one_line_def)

lemma replace_one_line:
  assumes "one_line l" and "plain_key k" and "plain_value v"
  shows "one_line (replace_config_line_value l k v)"
proof -
  have "set (config_value_suffix x) \<subseteq> set x" for x
    by (auto simp: config_value_suffix_def Let_def dest: in_set_dropD)
  moreover have "split_once (CHR ''='') l = Some (a, b) \<Longrightarrow> set b \<subseteq> set l" for a b
    using split_once_SomeD by fastforce
  ultimately have "set (case split_once (CHR ''='') l of Some (_, x) \<Rightarrow> config_value_suffix x | None \<Rightarrow> []) \<subseteq> set l"
    by (cases "split_once (CHR ''='') l") (auto, blast)
  with assms plain_one_line [of k] plain_one_line(2) [of v] show ?thesis
    by (auto simp: replace_config_line_value_def Let_def one_line_def dest: set_takeWhileD)
qed

text \<open>Setting a key changes that entry and no other; the lines stay lines.\<close>

lemma editor_set_entries:
  assumes "list_all one_line (ed_lines ed)" and "plain_key k" and "plain_value (setting_value_display v)"
    and "editor_set ed k v = (changed, ed')"
  shows "entries_of (ed_lines ed') = (entries_of (ed_lines ed))(k \<mapsto> setting_value_display v)"
    and "list_all one_line (ed_lines ed')" and "ed_original ed' = ed_original ed" and "ed_path ed' = ed_path ed"
    and "ed_allow_missing ed' = ed_allow_missing ed" and "\<not> changed \<Longrightarrow> ed_lines ed' = ed_lines ed"
proof -
  let ?ls = "ed_lines ed" and ?v = "setting_value_display v"
  have "entries_of (ed_lines ed') = (entries_of ?ls)(k \<mapsto> ?v) \<and> list_all one_line (ed_lines ed') \<and>
    ed_original ed' = ed_original ed \<and> ed_path ed' = ed_path ed \<and> ed_allow_missing ed' = ed_allow_missing ed \<and>
    (\<not> changed \<longrightarrow> ed_lines ed' = ?ls)"
  proof (cases "last_key_index ?ls k")
    case None
    then have ed': "ed' = ed\<lparr>ed_lines := ?ls @ [k @ ''='' @ ?v]\<rparr>" "changed"
      using assms(4) by (auto simp: editor_set_def)
    have "line_entry (k @ ''='' @ ?v) = Some (k, ?v)"
      using line_entry_assignment [OF assms(2,3), of "[]" "[]"] by simp
    moreover have "one_line (k @ ''='' @ ?v)"
      using plain_one_line(1) [OF assms(2)] plain_one_line(2) [OF assms(3)] by (simp add: one_line_def)
    ultimately show ?thesis using ed' assms(1) by (simp add: entries_of_snoc parse_config_line_entry)
  next
    case (Some i)
    let ?r = "replace_config_line_value (?ls ! i) k ?v"
    have i: "i < length ?ls" "config_line_key (?ls ! i) = Some k"
      "\<forall>b \<in> set (drop (Suc i) ?ls). config_line_key b \<noteq> Some k"
      using last_key_index_cases [of ?ls k] Some by auto
    have ed': "ed' = ed\<lparr>ed_lines := ?ls[i := ?r]\<rparr>" "changed = (?ls ! i \<noteq> ?r)"
      using assms(4) Some by (auto simp: editor_set_def Let_def)
    have "entries_of (?ls[i := ?r]) = (entries_of ?ls)(k \<mapsto> ?v)"
      using entries_of_replace [OF replace_entry [OF assms(2,3)] i(2,3), of "take i ?ls"] i(1)
      by (simp add: upd_conv_take_nth_drop id_take_nth_drop [symmetric])
    moreover have "list_all one_line (?ls[i := ?r])"
      using assms(1) i(1) replace_one_line [OF _ assms(2,3)]
      by (auto simp: list_all_length nth_list_update)
    ultimately show ?thesis using ed' by auto
  qed
  then show "entries_of (ed_lines ed') = (entries_of ?ls)(k \<mapsto> ?v)" "list_all one_line (ed_lines ed')"
    "ed_original ed' = ed_original ed" "ed_path ed' = ed_path ed" "ed_allow_missing ed' = ed_allow_missing ed"
    "\<not> changed \<Longrightarrow> ed_lines ed' = ?ls"
    by blast+
qed

lemma filter_length_ident: "length (filter P xs) = length xs \<Longrightarrow> filter P xs = xs"
  by (metis filter_id_conv length_filter_less nless_le)

lemma editor_unset_entries:
  assumes "editor_unset ed k = (changed, ed')"
  shows "entries_of (ed_lines ed') = (entries_of (ed_lines ed))(k := None)"
    and "list_all one_line (ed_lines ed) \<Longrightarrow> list_all one_line (ed_lines ed')"
    and "ed_original ed' = ed_original ed" and "ed_path ed' = ed_path ed"
    and "ed_allow_missing ed' = ed_allow_missing ed" and "\<not> changed \<Longrightarrow> ed_lines ed' = ed_lines ed"
  using assms filter_length_ident
  by (auto simp: editor_unset_def Let_def entries_of_filter list_all_iff)

lemma unset_all_entries:
  assumes "unset_all (c, ed) ks = (changed, ed')"
  shows "entries_of (ed_lines ed') = (\<lambda>x. if x \<in> set ks then None else entries_of (ed_lines ed) x) \<and>
    (list_all one_line (ed_lines ed) \<longrightarrow> list_all one_line (ed_lines ed')) \<and>
    ed_original ed' = ed_original ed \<and> ed_path ed' = ed_path ed \<and> ed_allow_missing ed' = ed_allow_missing ed \<and>
    (\<not> changed \<longrightarrow> \<not> c \<and> ed_lines ed' = ed_lines ed)"
  using assms
proof (induction ks arbitrary: c ed)
  case (Cons k ks)
  obtain b ed1 where u: "editor_unset ed k = (b, ed1)" by fastforce
  with Cons.prems have "unset_all (c \<or> b, ed1) ks = (changed, ed')" by simp
  note ih = Cons.IH [OF this]
  note e = editor_unset_entries [OF u]
  from ih e show ?case by (auto simp: fun_eq_iff)
qed auto

text \<open>A mutation as the constructors make it: of a registered setting, to a value it prints and reads back.\<close>

definition sound_mutation :: "SettingsMutation \<Rightarrow> bool" where
  "sound_mutation m \<longleftrightarrow>
     mut_definition m \<in> set SETTINGS_REGISTRY \<and>
     (\<forall>v. mut_new_value m = Some v \<longrightarrow>
        def_parse_value (mut_definition m) (setting_value_display v) = Inr v \<and>
        plain_value (setting_value_display v)) \<and>
     (mut_action m = ActionUnset \<longrightarrow> mut_new_value m = def_default_value (mut_definition m)) \<and>
     (mut_action m = ActionSet \<longrightarrow> mut_new_value m \<noteq> None)"

lemma registry_defaults:
  "list_all (\<lambda>d. case def_default_value d of None \<Rightarrow> True
      | Some v \<Rightarrow> is_ok (type_validate_value (def_value_type d) (def_key d) v)) SETTINGS_REGISTRY"
  by (simp add: registry_defs canonicalize_def int_contains_def DEFAULT_IDLE_TIMEOUT_def MAX_IDLE_TIMEOUT_def)

lemma registry_default_roundtrip:
  assumes "d \<in> set SETTINGS_REGISTRY" and "def_default_value d = Some v"
  shows "def_parse_value d (setting_value_display v) = Inr v \<and> plain_value (setting_value_display v)"
proof -
  have ok: "is_ok (type_validate_value (def_value_type d) (def_key d) v)"
    using registry_defaults assms by (auto simp: list_all_iff)
  have i: "parse_i128 (show_int n) = Some n" if "def_value_type d = IntegerType e" "int_contains e n" for e n
    using registry_type_side(1) [OF assms(1)] that
    by (intro parse_i128_show_int) (auto simp: int_contains_def)
  have "def_parse_value d (setting_value_display v) = Inr v"
  proof (cases "def_value_type d")
    case (IntegerType e)
    with ok i show ?thesis
      by (cases v) (auto simp: def_parse_value_def int_contains_def int_accepts_def int_coerce_def split: if_splits)
  qed (use ok in \<open>cases v; auto simp: def_parse_value_def ipv4_parse_show mac_parse_show split: if_splits\<close>)+
  then show ?thesis using registry_value_roundtrip(2) [OF assms(1)] by blast
qed

lemma mutation_set_sound:
  assumes "mutation_set binding store key raw = Inr m"
  shows "sound_mutation m \<and> mut_action m = ActionSet \<and> def_key (mut_definition m) = key \<and>
    def_parse_value (mut_definition m) raw = (case mut_new_value m of Some v \<Rightarrow> Inr v | None \<Rightarrow> Inl Settings_SetupInProgress) \<and>
    managed_by (eff_source (effective_definition store (mut_definition m))) = None"
proof -
  from assms obtain d v where d: "get_by_name key = Inr d" and v: "def_parse_value d raw = Inr v"
    and m: "mut_definition m = d" "mut_new_value m = Some v" "mut_action m = ActionSet"
    and r: "reject_managed binding key (effective_definition store d) = Inr ()"
    by (auto simp: mutation_set_def Let_def)
  have "managed_by (eff_source (effective_definition store d)) = None"
    using r by (auto simp: reject_managed_def split: option.splits sum.splits)
  then show ?thesis
    using m v get_by_name_in [OF d] registry_value_roundtrip [of d raw v] by (auto simp: sound_mutation_def)
qed

lemma mutation_unset_sound:
  assumes "mutation_unset binding store key = Inr m"
  shows "sound_mutation m \<and> mut_action m = ActionUnset \<and> def_key (mut_definition m) = key \<and>
    mut_new_value m = def_default_value (mut_definition m) \<and>
    managed_by (eff_source (effective_definition store (mut_definition m))) = None"
proof -
  from assms obtain d where d: "get_by_name key = Inr d"
    and m: "mut_definition m = d" "mut_new_value m = def_default_value d" "mut_action m = ActionUnset"
    and r: "reject_managed binding key (effective_definition store d) = Inr ()"
    by (auto simp: mutation_unset_def Let_def)
  have "managed_by (eff_source (effective_definition store d)) = None"
    using r by (auto simp: reject_managed_def split: option.splits sum.splits)
  then show ?thesis
    using m get_by_name_in [OF d] registry_default_roundtrip [of d] by (auto simp: sound_mutation_def)
qed

definition mutated_entries :: "SettingsMutation \<Rightarrow> (string \<rightharpoonup> string) \<Rightarrow> (string \<rightharpoonup> string)" where
  "mutated_entries m e =
     (\<lambda>k. if k \<in> set (def_fallback_storage_keys (mut_definition m)) then None
          else if k = def_storage_key (mut_definition m)
            then (case mut_action m of
                    ActionSet \<Rightarrow> map_option setting_value_display (mut_new_value m)
                  | ActionUnset \<Rightarrow> None)
          else e k)"

lemma edit_mutation_entries:
  assumes "sound_mutation m" and "list_all one_line (ed_lines ed)" and "edit_mutation m ed = Inr (changed, ed')"
  shows "entries_of (ed_lines ed') = mutated_entries m (entries_of (ed_lines ed))"
    and "list_all one_line (ed_lines ed')" and "ed_original ed' = ed_original ed" and "ed_path ed' = ed_path ed"
    and "ed_allow_missing ed' = ed_allow_missing ed" and "\<not> changed \<Longrightarrow> ed_lines ed' = ed_lines ed"
proof -
  let ?d = "mut_definition m" and ?E = "entries_of (ed_lines ed)"
  have k: "plain_key (def_storage_key ?d)"
    using registry_metadata(1) [of ?d] assms(1) storage_key_plain by (auto simp: sound_mutation_def all_storage_keys_def)
  have "entries_of (ed_lines ed') = mutated_entries m ?E \<and> list_all one_line (ed_lines ed') \<and>
    ed_original ed' = ed_original ed \<and> ed_path ed' = ed_path ed \<and> ed_allow_missing ed' = ed_allow_missing ed \<and>
    (\<not> changed \<longrightarrow> ed_lines ed' = ed_lines ed)"
  proof (cases "mut_action m")
    case ActionSet
    with assms(1,3) obtain v where v: "mut_new_value m = Some v"
      and u: "unset_all (editor_set ed (def_storage_key ?d) v) (def_fallback_storage_keys ?d) = (changed, ed')"
      by (auto simp: edit_mutation_def new_value_def split: option.splits)
    obtain b ed1 where s: "editor_set ed (def_storage_key ?d) v = (b, ed1)" by fastforce
    have pv: "plain_value (setting_value_display v)" using assms(1) v by (auto simp: sound_mutation_def)
    note e = editor_set_entries [OF assms(2) k pv s]
    show ?thesis
      using unset_all_entries [OF u [unfolded s]] e v ActionSet by (auto simp: mutated_entries_def fun_eq_iff)
  next
    case ActionUnset
    with assms(3) have u: "unset_all (editor_unset ed (def_storage_key ?d)) (def_fallback_storage_keys ?d) = (changed, ed')"
      by (simp add: edit_mutation_def)
    obtain b ed1 where s: "editor_unset ed (def_storage_key ?d) = (b, ed1)" by fastforce
    show ?thesis
      using unset_all_entries [OF u [unfolded s]] editor_unset_entries [OF s] assms(2) ActionUnset
      by (auto simp: mutated_entries_def fun_eq_iff)
  qed
  then show "entries_of (ed_lines ed') = mutated_entries m ?E" "list_all one_line (ed_lines ed')"
    "ed_original ed' = ed_original ed" "ed_path ed' = ed_path ed" "ed_allow_missing ed' = ed_allow_missing ed"
    "\<not> changed \<Longrightarrow> ed_lines ed' = ed_lines ed"
    by blast+
qed

section \<open>What the store reads afterwards\<close>

lemma find_map_cong: "\<forall>k \<in> set ks. f k = g k \<Longrightarrow> find_map f ks = find_map g ks"
  by (induction ks) (auto split: option.splits)

lemma effective_saved_cong:
  "\<forall>k \<in> set (all_storage_keys d). e k = e' k \<Longrightarrow> effective_saved e d = effective_saved e' d"
  using find_map_cong [of "def_fallback_storage_keys d" e e']
  unfolding effective_saved_def raw_setting_value_def all_storage_keys_def
  by (simp del: find_map.simps) metis

lemma find_map_none: "\<forall>k \<in> set ks. f k = None \<Longrightarrow> find_map f ks = None"
  by (induction ks) auto

lemma effective_mutated:
  assumes "sound_mutation m" and "d \<in> set SETTINGS_REGISTRY"
  shows "d \<noteq> mut_definition m \<Longrightarrow> effective_saved (mutated_entries m e) d = effective_saved e d"
    and "d = mut_definition m \<Longrightarrow> eff_value (effective_saved (mutated_entries m e) d) = mut_new_value m"
    and "d = mut_definition m \<Longrightarrow> eff_source (effective_saved (mutated_entries m e) d) =
      (case mut_action m of ActionSet \<Rightarrow> SourceConfigEnv
       | ActionUnset \<Rightarrow> if mut_new_value m = None then SourceMissing else SourceDefault)"
proof -
  let ?d = "mut_definition m"
  have r: "?d \<in> set SETTINGS_REGISTRY" using assms(1) by (simp add: sound_mutation_def)
  show "effective_saved (mutated_entries m e) d = effective_saved e d" if "d \<noteq> ?d"
    using registry_disjoint [OF assms(2) r that]
    by (intro effective_saved_cong) (auto simp: mutated_entries_def all_storage_keys_def)
  have sep: "def_storage_key ?d \<notin> set (def_fallback_storage_keys ?d)"
  proof -
    have "distinct (all_storage_keys ?d)"
      using registry_storage_keys_distinct r by (auto simp: distinct_concat_iff)
    then show ?thesis by (simp add: all_storage_keys_def)
  qed
  have main: "eff_value (effective_saved (mutated_entries m e) ?d) = mut_new_value m \<and>
      eff_source (effective_saved (mutated_entries m e) ?d) =
      (case mut_action m of ActionSet \<Rightarrow> SourceConfigEnv
       | ActionUnset \<Rightarrow> if mut_new_value m = None then SourceMissing else SourceDefault)"
  proof (cases "mut_action m")
    case ActionSet
    with assms(1) obtain v where v: "mut_new_value m = Some v" "def_parse_value ?d (setting_value_display v) = Inr v"
      by (auto simp: sound_mutation_def)
    with ActionSet sep show ?thesis
      by (simp add: effective_saved_def raw_setting_value_def mutated_entries_def)
  next
    case ActionUnset
    have "find_map (mutated_entries m e) (def_fallback_storage_keys ?d) = None"
      by (rule find_map_none) (simp add: mutated_entries_def)
    moreover have "mut_new_value m = def_default_value ?d" using assms(1) ActionUnset by (simp add: sound_mutation_def)
    ultimately show ?thesis
      using ActionUnset sep by (auto simp: effective_saved_def raw_setting_value_def mutated_entries_def split: option.splits)
  qed
  then show "eff_value (effective_saved (mutated_entries m e) d) = mut_new_value m" if "d = ?d" using that by simp
  from main show "eff_source (effective_saved (mutated_entries m e) d) =
      (case mut_action m of ActionSet \<Rightarrow> SourceConfigEnv
       | ActionUnset \<Rightarrow> if mut_new_value m = None then SourceMissing else SourceDefault)" if "d = ?d" using that by simp
qed

lemma editor_parse_lines: "list_all one_line (ed_lines (editor_parse path c))"
  by (simp add: editor_parse_def lines_one_line)

lemma unmanaged_effective:
  "managed_by (eff_source (effective_definition (store_of path c ds) d)) = None \<Longrightarrow>
   effective_definition (store_of path c' ds) d = effective_saved (store_entries (store_of path c' ds)) d"
  by (auto simp: effective_definition_def store_of_def split: option.splits)

lemma effective_definition_cong:
  "effective_saved (store_entries (store_of path c ds)) d = effective_saved (store_entries (store_of path c' ds)) d \<Longrightarrow>
   effective_definition (store_of path c ds) d = effective_definition (store_of path c' ds) d"
  by (auto simp: effective_definition_def store_of_def split: option.splits)

lemma mutation_rendered:
  assumes "sound_mutation m" and "edit_mutation m (editor_parse path c) = Inr (changed, ed)"
  shows "parse_config_entries (editor_render ed) = mutated_entries m (parse_config_entries c)"
  using edit_mutation_entries(1,2) [OF assms(1) editor_parse_lines assms(2)]
  unfolding editor_render_def by (simp add: entries_render editor_parse_def)
    (simp add: parse_config_entries_lines)

end
