(* ===== verification/Config_Agreement.thy ===== *)
theory Config_Agreement
  imports Config_Editor
begin

text \<open>
  Three readers look at one configuration: the runtime (\<open>parse_current_config\<close>), the settings store,
  and the editor that writes it. Here: an edit is exactly the edit, the store and the runtime agree on
  every value the store calls valid, and a declaration wins over the saved file without touching the
  TV profile.
\<close>

section \<open>Declared entries\<close>

lemma parse_config_entries_newline: "parse_config_entries (s @ [CHR 10]) = parse_config_entries s"
proof -
  let ?ps = "split_on (CHR 10) s"
  have "split_on (CHR 10) (s @ [CHR 10]) = ?ps @ [[]]"
    using split_on_append [of "CHR 10" s "[]"] by simp
  then have "parse_config_entries (s @ [CHR 10]) = entries_of ?ps"
    by (simp add: parse_config_entries_lines lines_def entries_of_strip_cr)
  also have "\<dots> = entries_of (butlast ?ps @ [last ?ps])" by simp
  also have "\<dots> = parse_config_line (entries_of (map strip_cr (butlast ?ps))) (last ?ps)"
    by (simp only: entries_of_snoc entries_of_strip_cr)
  also have "\<dots> = parse_config_entries s"
    by (simp add: parse_config_entries_lines lines_def Let_def entries_of_snoc parse_config_line_def trim_def)
  finally show ?thesis .
qed

text \<open>Declarations that passed the checks.\<close>

definition declarations_ok :: "Declarations \<Rightarrow> bool" where
  "declarations_ok d \<longleftrightarrow>
     distinct (map fst (decl_values d)) \<and>
     (\<forall>(key, v) \<in> set (decl_values d). declarable key \<and>
        (\<exists>def. get_by_name key = Inr def \<and> def_parse_value def (setting_value_display v) = Inr v \<and>
           plain_value (setting_value_display v)))"

lemma insort_keys: "set (map fst (insort_key fst kv vs)) = insert (fst kv) (set (map fst vs))"
  by (induction vs) auto

lemma insort_distinct:
  "distinct (map fst (insort_key fst kv vs)) \<longleftrightarrow> fst kv \<notin> set (map fst vs) \<and> distinct (map fst vs)"
proof (induction vs)
  case (Cons v vs)
  then show ?case using insort_keys [of kv vs] by auto
qed simp

lemma unique_settings_distinct:
  "unique_settings kvs vs = Inr r \<Longrightarrow> distinct (map fst vs) \<Longrightarrow> distinct (map fst r)"
proof (induction kvs vs rule: unique_settings.induct)
  case (2 key v position rest vs)
  then have "map_of vs key = None" "unique_settings rest (insort_key fst (key, v) vs) = Inr r"
    by (auto split: if_splits) (metis map_of_SomeD not_None_eq)
  moreover have "distinct (map fst (insort_key fst (key, v) vs))"
    using "2.prems" calculation(1) by (simp add: insort_distinct map_of_eq_None_iff)
  ultimately show ?case using "2.IH" "2.prems" by simp
qed simp

lemma declared_values_ok:
  "declared_values path kvs = Inr vs \<Longrightarrow>
   map fst vs = map fst kvs \<and>
   (\<forall>(key, v) \<in> set vs. declarable key \<and>
      (\<exists>def. get_by_name key = Inr def \<and> def_parse_value def (setting_value_display v) = Inr v \<and>
         plain_value (setting_value_display v)))"
proof (induction path kvs arbitrary: vs rule: declared_values.induct [case_names Nil Cons])
  case (Cons path key x rest)
  then obtain def raw v vs' where g: "get_by_name key = Inr def" "declarable key" "declared_raw x = Some raw"
    "def_parse_value def raw = Inr v" "declared_values path rest = Inr vs'" "vs = (def_key def, v) # vs'"
    by (auto split: sum.splits option.splits if_splits)
  then show ?case
    using Cons.IH [OF g(1) _ g(3) g(4) g(5)] get_by_name_in [OF g(1)] registry_value_roundtrip [of "def" raw v] by auto
qed simp

lemma declarations_parse_ok: "declarations_parse path doc = Inr d \<Longrightarrow> declarations_ok d"
proof -
  assume "declarations_parse path doc = Inr d"
  then obtain kvs ss vs where u: "unique_settings kvs [] = Inr ss"
    and v: "declared_values path ss = Inr vs" and d: "decl_values d = vs"
    by (force simp: declarations_parse_def split: if_splits sum.splits)
  then show ?thesis
    using declared_values_ok [OF v] unique_settings_distinct [OF u] by (simp add: declarations_ok_def)
qed

definition storage_assignments :: "Declarations \<Rightarrow> (string \<times> string) list" where
  "storage_assignments d =
     map (\<lambda>(key, v). (case get_by_name key of Inr def \<Rightarrow> def_storage_key def | Inl _ \<Rightarrow> [], setting_value_display v))
       (decl_values d)"

lemma effective_contents_written:
  assumes "declarations_ok d"
  shows "effective_contents d saved = foldl write_config_line (saved @ [CHR 10]) (storage_assignments d)"
proof -
  have w: "\<forall>(key, v) \<in> set vs. \<exists>def. get_by_name key = Inr def \<Longrightarrow>
      c @ concat (map declaration_line vs) =
      foldl write_config_line c
        (map (\<lambda>(key, v). (case get_by_name key of Inr def \<Rightarrow> def_storage_key def | Inl _ \<Rightarrow> [], setting_value_display v)) vs)"
    for vs c
  proof (induction vs arbitrary: c)
    case (Cons kv vs)
    then obtain def where "get_by_name (fst kv) = Inr def" by (cases kv) auto
    then have "c @ declaration_line kv = write_config_line c
        (case get_by_name (fst kv) of Inr def \<Rightarrow> def_storage_key def | Inl _ \<Rightarrow> [], setting_value_display (snd kv))"
      by (simp add: declaration_line_def write_config_line_def)
    moreover have "(c @ declaration_line kv) @ concat (map declaration_line vs) =
        foldl write_config_line (c @ declaration_line kv)
          (map (\<lambda>(key, v). (case get_by_name key of Inr def \<Rightarrow> def_storage_key def | Inl _ \<Rightarrow> [], setting_value_display v)) vs)"
      using Cons by auto
    ultimately show ?case by (cases kv) (metis (no_types, lifting) append.assoc case_prod_conv concat.simps(2) foldl_Cons fst_conv list.map(2) snd_conv)
  qed simp
  have "\<forall>(key, v) \<in> set (decl_values d). \<exists>def. get_by_name key = Inr def"
    using assms by (fastforce simp: declarations_ok_def)
  from w [OF this, of "saved @ [CHR 10]"] show ?thesis
    by (simp add: effective_contents_def storage_assignments_def)
qed

lemma storage_assignments_plain:
  "declarations_ok d \<Longrightarrow> list_all (\<lambda>kv. plain_key (fst kv) \<and> plain_value (snd kv)) (storage_assignments d)"
proof -
  have "plain_key (def_storage_key def)" if "get_by_name key = Inr def" for key def
    using registry_metadata(1) [of def] get_by_name_in [OF that] storage_key_plain by (simp add: all_storage_keys_def)
  then show "declarations_ok d \<Longrightarrow> ?thesis"
    by (fastforce simp: storage_assignments_def declarations_ok_def list_all_iff)
qed

lemma foldl_updates: "foldl (\<lambda>m kv. m(fst kv \<mapsto> snd kv)) e kvs = e ++ map_of (rev kvs)"
  by (induction kvs arbitrary: e) (auto simp: map_add_def fun_eq_iff split: option.splits)

lemma effective_entries:
  assumes "declarations_ok d"
  shows "parse_config_entries (effective_contents d saved) =
    parse_config_entries saved ++ map_of (rev (storage_assignments d))"
  using parse_written_config [OF _ storage_assignments_plain [OF assms], of "saved @ [CHR 10]"]
  by (simp add: effective_contents_written [OF assms] ends_line_def parse_config_entries_newline foldl_updates)

lemma get_by_name_inj: "get_by_name k = Inr d \<Longrightarrow> get_by_name k' = Inr d \<Longrightarrow> k = k'"
  using get_by_name_in by blast

lemma storage_key_inj:
  assumes "get_by_name k = Inr d" and "get_by_name k' = Inr d'" and "x \<in> set (all_storage_keys d)"
    and "x = def_storage_key d'"
  shows "d = d' \<and> k = k'"
proof -
  have "set (all_storage_keys d) \<inter> set (all_storage_keys d') \<noteq> {}" using assms(3,4) by (auto simp: all_storage_keys_def)
  then have "d = d'" using registry_disjoint get_by_name_in [OF assms(1)] get_by_name_in [OF assms(2)] by blast
  then show ?thesis using get_by_name_inj assms(1,2) by blast
qed

lemma declared_entry:
  assumes ok: "declarations_ok d" and def: "get_by_name key = Inr def"
  shows "declared_value d key = Some v \<Longrightarrow>
      parse_config_entries (effective_contents d saved) (def_storage_key def) = Some (setting_value_display v)"
    and "declared_value d key = None \<Longrightarrow> x \<in> set (all_storage_keys def) \<Longrightarrow>
      parse_config_entries (effective_contents d saved) x = parse_config_entries saved x"
proof -
  let ?as = "storage_assignments d"
  have keys: "(k, v) \<in> set (decl_values d) \<Longrightarrow> \<exists>d'. get_by_name k = Inr d'" for k v
    using ok by (fastforce simp: declarations_ok_def)
  show "parse_config_entries (effective_contents d saved) (def_storage_key def) = Some (setting_value_display v)"
    if v: "declared_value d key = Some v"
  proof -
    have in_vs: "(key, v) \<in> set (decl_values d)" using v by (simp add: declared_value_def map_of_SomeD)
    then have mem: "(def_storage_key def, setting_value_display v) \<in> set ?as"
      using def by (force simp: storage_assignments_def)
    moreover have "y = setting_value_display v" if "(def_storage_key def, y) \<in> set ?as" for y
    proof -
      from that obtain k' v' where k': "(k', v') \<in> set (decl_values d)" "y = setting_value_display v'"
        "def_storage_key def = (case get_by_name k' of Inr def \<Rightarrow> def_storage_key def | Inl _ \<Rightarrow> [])"
        by (auto simp: storage_assignments_def)
      then obtain d' where "get_by_name k' = Inr d'" using keys by blast
      then have "k' = key" using storage_key_inj [OF def, of k' d' "def_storage_key def"] k'(3)
        by (simp add: all_storage_keys_def)
      then have "v' = v"
        using k'(1) in_vs ok by (metis declarations_ok_def eq_key_imp_eq_value)
      with k'(2) show ?thesis by simp
    qed
    ultimately have "map_of (rev ?as) (def_storage_key def) = Some (setting_value_display v)"
      by (metis map_of_SomeD map_of_eq_None_iff not_None_eq set_rev image_eqI fst_conv)
    then show ?thesis by (simp add: effective_entries [OF ok])
  qed
  show "parse_config_entries (effective_contents d saved) x = parse_config_entries saved x"
    if none: "declared_value d key = None" and x: "x \<in> set (all_storage_keys def)"
  proof -
    have "x \<notin> fst ` set ?as"
    proof
      assume "x \<in> fst ` set ?as"
      then obtain k' v' where k': "(k', v') \<in> set (decl_values d)"
        "x = (case get_by_name k' of Inr def \<Rightarrow> def_storage_key def | Inl _ \<Rightarrow> [])"
        by (auto simp: storage_assignments_def)
      then obtain d' where d': "get_by_name k' = Inr d'" using keys by blast
      then have "k' = key" using storage_key_inj [OF def d' x] k'(2) by simp
      then show False using none k'(1) by (force simp: declared_value_def map_of_eq_None_iff)
    qed
    then have "map_of (rev ?as) x = None" by (simp add: map_of_eq_None_iff)
    then show ?thesis by (simp add: effective_entries [OF ok] map_add_def)
  qed
qed

text \<open>The store's value of a setting is the value of its declared or saved entry.\<close>

lemma registry_by_name: "d \<in> set SETTINGS_REGISTRY \<Longrightarrow> get_by_name (def_key d) = Inr d"
proof -
  have "list_all (\<lambda>d. is_ok (setting_key_parse (def_key d))) SETTINGS_REGISTRY"
    by (simp add: registry_defs setting_key_parse_def validate_setting_key_def)
  moreover assume d: "d \<in> set SETTINGS_REGISTRY"
  ultimately have k: "setting_key_parse (def_key d) = Inr (def_key d)"
    by (auto simp: list_all_iff setting_key_parse_def split: sum.splits)
  obtain d' where "find (\<lambda>x. def_key x = def_key d) SETTINGS_REGISTRY = Some d'"
    using d by (cases "find (\<lambda>x. def_key x = def_key d) SETTINGS_REGISTRY") (auto simp: find_None_iff)
  moreover then have "d' \<in> set SETTINGS_REGISTRY" "def_key d' = def_key d" by (auto simp: find_Some_iff)
  then have "d' = d" using registry_keys_distinct d by (metis (no_types, lifting) inj_onD distinct_map)
  ultimately show ?thesis using k by (simp add: get_by_name_def registry_get_def)
qed

lemma declared_effective:
  assumes ok: "declarations_ok d" and def: "def \<in> set SETTINGS_REGISTRY"
  shows "eff_value (effective_saved (parse_config_entries (effective_contents d c)) def) =
    eff_value (effective_definition (store_of path (Some c) (Some d)) def)"
proof (cases "declared_value d (def_key def)")
  case None
  then have "effective_saved (parse_config_entries (effective_contents d c)) def =
      effective_saved (parse_config_entries c) def"
    using declared_entry(2) [OF ok registry_by_name [OF def]] by (intro effective_saved_cong) blast
  with None show ?thesis by (simp add: effective_definition_def store_of_def)
next
  case (Some v)
  then have "(def_key def, v) \<in> set (decl_values d)" by (simp add: declared_value_def map_of_SomeD)
  then have "def_parse_value def (setting_value_display v) = Inr v"
    using ok registry_by_name [OF def] by (fastforce simp: declarations_ok_def)
  then show ?thesis
    using Some declared_entry(1) [OF ok registry_by_name [OF def] Some]
    by (simp add: effective_definition_def store_of_def effective_saved_def raw_setting_value_def)
qed

section \<open>The runtime's view\<close>

text \<open>What the runtime uses for each setting it reads, as the settings would print it.\<close>

fun restore_policy_setting :: "ScreenRestorePolicy \<Rightarrow> string" where
  "restore_policy_setting MarkerOnly = ''conservative''"
| "restore_policy_setting Aggressive = ''aggressive''"

definition runtime_values :: "Config \<Rightarrow> (SettingDefinition \<times> SettingValue) list" where
  "runtime_values cfg =
     [(setting_tv_IP, Ipv4Value (tv_ip cfg)),
      (setting_tv_MAC, MacValue (tv_mac cfg)),
      (setting_tv_INPUT, EnumValue (hdmi_as_str (input cfg))),
      (setting_tv_PLATFORM, EnumValue (platform_as_str (tv_platform cfg))),
      (setting_screen_BACKEND, EnumValue (backend_as_str (screen_backend cfg))),
      (setting_screen_IDLE_BLANK, EnumValue (switch_as_str (screen_idle_blank cfg))),
      (setting_screen_HONOR_IDLE_INHIBITORS, EnumValue (switch_as_str (screen_honor_idle_inhibitors cfg))),
      (setting_screen_IDLE_TIMEOUT, IntegerValue (int (screen_idle_timeout cfg))),
      (setting_screen_RESTORE_POLICY, EnumValue (restore_policy_setting (screen_restore_policy cfg))),
      (setting_system_SLEEP_WAKE_POLICY, EnumValue (switch_as_str (system_sleep_wake_policy cfg)))]"

text \<open>A setting with a default, and no legacy key, read by the runtime with the same default.\<close>

lemma optional_agrees:
  assumes "def_fallback_storage_keys d = []" and "def_default_value d = Some (render fallback)"
    and "\<And>raw v. def_parse_value d raw = Inr v \<Longrightarrow> \<exists>x. parse raw = Some x \<and> v = render x"
    and "eff_value (effective_saved e d) = Some v"
  shows "v = render (optional_parsed e (def_storage_key d) parse fallback)"
proof (cases "e (def_storage_key d)")
  case None
  with assms(1,2,4) show ?thesis by (simp add: effective_saved_def raw_setting_value_def optional_parsed_def)
next
  case (Some raw)
  with assms(1,4) have "def_parse_value d raw = Inr v"
    by (auto simp: effective_saved_def raw_setting_value_def split: sum.splits)
  with Some assms(3) show ?thesis by (auto simp: optional_parsed_def dest!: assms(3))
qed

text \<open>A required setting with its legacy key.\<close>

lemma required_agrees:
  assumes "def_default_value d = None"
    and "\<And>raw v. def_parse_value d raw = Inr v \<Longrightarrow> \<exists>x. parse raw = Some x \<and> v = render x"
    and "eff_value (effective_saved e d) = Some v"
    and "required_parsed e (def_storage_key d) (def_fallback_storage_keys d) parse expected = Inr x"
  shows "v = render x"
proof -
  obtain raw src where raw: "raw_setting_value e d = Some (raw, src)" and v: "def_parse_value d raw = Inr v"
    using assms(1,3) by (auto simp: effective_saved_def split: option.splits sum.splits)
  have "required_config_value e (def_storage_key d) (def_fallback_storage_keys d) = Some raw"
    using raw by (auto simp: raw_setting_value_def required_config_value_def split: option.splits)
  then have "parse raw = Some x" using assms(4) by (auto simp: required_parsed_def split: option.splits)
  with assms(2) [OF v] show ?thesis by auto
qed

lemma enum_parse: "def_value_type d = EnumType t \<Longrightarrow> def_parse_value d raw = Inr v \<Longrightarrow>
   \<exists>s. canonicalize t raw = Some s \<and> v = EnumValue s"
  by (auto simp: def_parse_value_def split: option.splits)

lemma idle_timeout_parse:
  assumes "def_parse_value setting_screen_IDLE_TIMEOUT raw = Inr v"
  shows "\<exists>n. parse_idle_timeout_secs raw = Some n \<and> v = IntegerValue (int n)"
proof -
  from assms obtain i where i: "parse_i128 raw = Some i" "1 \<le> i"
    and v: "v = IntegerValue (if int MAX_IDLE_TIMEOUT < i then int MAX_IDLE_TIMEOUT else i)"
    by (auto simp: def_parse_value_def setting_screen_IDLE_TIMEOUT_def int_accepts_def int_coerce_def
        split: option.splits if_splits)
  have "\<exists>n. parse_unsigned 10 (2 ^ 127) raw = Some n \<and> i = int n"
  proof (cases raw)
    case Nil
    then show ?thesis using i by (simp add: parse_i128_def parse_unsigned_def)
  next
    case (Cons c cs)
    show ?thesis
    proof (cases "c = CHR ''-''")
      case True
      with Cons i show ?thesis by (auto simp: parse_i128_def split: if_splits option.splits)
    next
      case False
      with Cons i(1) show ?thesis by (auto simp: parse_i128_def split: char.splits bool.splits)
    qed
  qed
  then obtain n where n: "parse_unsigned 10 (2 ^ 127) raw = Some n" "i = int n" by blast
  then have "n < 2 ^ 127" using parse_unsigned_bound by blast
  then have "n < 2 ^ 128" by simp
  then have "parse_unsigned 10 (2 ^ 128) raw = Some n"
    using n(1) by (auto simp: parse_unsigned_def Let_def split: if_splits option.splits)
  then have "parse_idle_timeout_secs raw = Some (normalize_idle_timeout_secs n)"
    by (simp add: parse_idle_timeout_secs_def)
  moreover have "v = IntegerValue (int (normalize_idle_timeout_secs n))"
    using v n(2) i(2) by (auto simp: normalize_idle_timeout_secs_def)
  ultimately show ?thesis by blast
qed

lemmas setting_parse_simps = def_parse_value_def canonicalize_def

lemma switch_parse:
  "def_value_type d = EnumType \<lparr>enum_values = [''enabled'', ''disabled''], enum_aliases = []\<rparr> \<Longrightarrow>
   def_parse_value d raw = Inr v \<Longrightarrow> \<exists>x. switch_from_str raw = Some x \<and> v = EnumValue (switch_as_str x)"
  by (auto simp: setting_parse_simps switch_from_str_def split: if_splits option.splits)

lemma settings_parse_like_runtime:
  "def_parse_value setting_tv_IP raw = Inr v \<Longrightarrow> \<exists>x. parse_ipv4 raw = Some x \<and> v = Ipv4Value x"
  "def_parse_value setting_tv_MAC raw = Inr v \<Longrightarrow> \<exists>x. mac_from_str raw = Some x \<and> v = MacValue x"
  "def_parse_value setting_tv_INPUT raw = Inr v \<Longrightarrow> \<exists>x. hdmi_from_str raw = Some x \<and> v = EnumValue (hdmi_as_str x)"
  "def_parse_value setting_tv_PLATFORM raw = Inr v \<Longrightarrow>
     \<exists>x. platform_from_str raw = Some x \<and> v = EnumValue (platform_as_str x)"
  "def_parse_value setting_screen_BACKEND raw = Inr v \<Longrightarrow>
     \<exists>x. backend_from_str raw = Some x \<and> v = EnumValue (backend_as_str x)"
  "def_parse_value setting_screen_RESTORE_POLICY raw = Inr v \<Longrightarrow>
     \<exists>x. restore_policy_from_str raw = Some x \<and> v = EnumValue (restore_policy_setting x)"
  by (auto simp: setting_parse_simps registry_defs hdmi_from_str_def platform_from_str_def backend_from_str_def
      restore_policy_from_str_def split: if_splits option.splits)

lemma parse_config_values:
  assumes "parse_config c = Inr cfg" and "e = parse_config_entries c"
  shows "required_parsed e ''tvs_primary_ip'' [''tv_ip''] parse_ipv4 ''an IPv4 address'' = Inr (tv_ip cfg)"
    "required_parsed e ''tvs_primary_mac'' [''tv_mac''] mac_from_str ''a MAC address like aa:bb:cc:dd:ee:ff'' = Inr (tv_mac cfg)"
    "required_parsed e ''tvs_primary_input'' [''input''] hdmi_from_str ''one of HDMI_1, HDMI_2, HDMI_3, HDMI_4'' = Inr (input cfg)"
    "parse_platform_entry e = Inr (tv_platform cfg)"
    "screen_backend cfg = optional_parsed e ''screen_backend'' backend_from_str BackendAuto"
    "screen_idle_timeout cfg = optional_parsed e ''screen_idle_timeout'' parse_idle_timeout_secs DEFAULT_IDLE_TIMEOUT"
    "screen_restore_policy cfg = optional_parsed e ''screen_restore_policy'' restore_policy_from_str MarkerOnly"
    "screen_idle_blank cfg = optional_parsed e ''screen_idle_blank'' switch_from_str Enabled"
    "screen_honor_idle_inhibitors cfg = optional_parsed e ''screen_honor_idle_inhibitors'' switch_from_str Disabled"
    "system_sleep_wake_policy cfg = optional_parsed e ''system_sleep_wake_policy'' switch_from_str Enabled"
  using assms by (auto simp: parse_config_def Let_def split: sum.splits)

lemma required_parsed_cong:
  "\<forall>x \<in> set (k # fs). e x = e' x \<Longrightarrow> required_parsed e k fs p m = required_parsed e' k fs p m"
  using find_map_cong [of fs e e']
  by (simp add: required_parsed_def required_config_value_def split: option.splits)

lemma parse_config_required_cong:
  assumes "parse_config c = Inr cfg" and "parse_config c' = Inr cfg'"
    and "\<forall>d \<in> {setting_tv_IP, setting_tv_MAC, setting_tv_INPUT, setting_tv_PLATFORM}.
      \<forall>k \<in> set (all_storage_keys d). parse_config_entries c k = parse_config_entries c' k"
  shows "tv_ip cfg = tv_ip cfg' \<and> tv_mac cfg = tv_mac cfg' \<and> input cfg = input cfg' \<and> tv_platform cfg = tv_platform cfg'"
proof -
  have k: "\<forall>x \<in> set [''tvs_primary_ip'', ''tv_ip'']. parse_config_entries c x = parse_config_entries c' x"
    "\<forall>x \<in> set [''tvs_primary_mac'', ''tv_mac'']. parse_config_entries c x = parse_config_entries c' x"
    "\<forall>x \<in> set [''tvs_primary_input'', ''input'']. parse_config_entries c x = parse_config_entries c' x"
    and "parse_config_entries c ''tvs_primary_platform'' = parse_config_entries c' ''tvs_primary_platform''"
    using assms(3) by (simp_all add: all_storage_keys_def registry_defs)
  then have "parse_platform_entry (parse_config_entries c) = parse_platform_entry (parse_config_entries c')"
    by (simp add: parse_platform_entry_def)
  then show ?thesis
    using parse_config_values(1-4) [OF assms(1) refl] parse_config_values(1-4) [OF assms(2) refl]
    by (simp add: required_parsed_cong [OF k(1)] required_parsed_cong [OF k(2)] required_parsed_cong [OF k(3)])
qed

lemma runtime_agrees_saved:
  assumes "parse_config c = Inr cfg" and "(d, v) \<in> set (runtime_values cfg)"
    and "eff_value (effective_saved (parse_config_entries c) d) = Some v'"
  shows "v' = v"
proof -
  let ?e = "parse_config_entries c"
  note p = parse_config_values [OF assms(1) refl]
  have sw: "\<And>raw v. def_parse_value d raw = Inr v \<Longrightarrow> \<exists>x. switch_from_str raw = Some x \<and> v = EnumValue (switch_as_str x)"
    if "d = setting_screen_IDLE_BLANK \<or> d = setting_screen_HONOR_IDLE_INHIBITORS \<or> d = setting_system_SLEEP_WAKE_POLICY"
    by (rule switch_parse) (use that in \<open>auto simp: registry_defs\<close>)
  from assms(2) consider
      "d = setting_tv_IP" "v = Ipv4Value (tv_ip cfg)" | "d = setting_tv_MAC" "v = MacValue (tv_mac cfg)"
    | "d = setting_tv_INPUT" "v = EnumValue (hdmi_as_str (input cfg))"
    | "d = setting_tv_PLATFORM" "v = EnumValue (platform_as_str (tv_platform cfg))"
    | "d = setting_screen_BACKEND" "v = EnumValue (backend_as_str (screen_backend cfg))"
    | "d = setting_screen_IDLE_BLANK" "v = EnumValue (switch_as_str (screen_idle_blank cfg))"
    | "d = setting_screen_HONOR_IDLE_INHIBITORS" "v = EnumValue (switch_as_str (screen_honor_idle_inhibitors cfg))"
    | "d = setting_screen_IDLE_TIMEOUT" "v = IntegerValue (int (screen_idle_timeout cfg))"
    | "d = setting_screen_RESTORE_POLICY" "v = EnumValue (restore_policy_setting (screen_restore_policy cfg))"
    | "d = setting_system_SLEEP_WAKE_POLICY" "v = EnumValue (switch_as_str (system_sleep_wake_policy cfg))"
    unfolding runtime_values_def by auto
  then show ?thesis
  proof cases
    case 1
    show ?thesis unfolding 1(2)
      by (rule required_agrees [where d = d and e = ?e and parse = parse_ipv4 and render = Ipv4Value])
        (use assms(3) p(1) settings_parse_like_runtime(1) 1(1) in \<open>auto simp: setting_tv_IP_def\<close>)
  next
    case 2
    show ?thesis unfolding 2(2)
      by (rule required_agrees [where d = d and e = ?e and parse = mac_from_str and render = MacValue])
        (use assms(3) p(2) settings_parse_like_runtime(2) 2(1) in \<open>auto simp: setting_tv_MAC_def\<close>)
  next
    case 3
    show ?thesis unfolding 3(2)
      by (rule required_agrees [where d = d and e = ?e and parse = hdmi_from_str and render = "\<lambda>x. EnumValue (hdmi_as_str x)"])
        (use assms(3) p(3) settings_parse_like_runtime(3) 3(1) in \<open>auto simp: setting_tv_INPUT_def\<close>)
  next
    case 4
    then show ?thesis
      using assms(3) p(4) settings_parse_like_runtime(4)
      by (auto simp: effective_saved_def raw_setting_value_def parse_platform_entry_def platform_DEFAULT_def
          setting_tv_PLATFORM_def split: option.splits sum.splits) (fastforce simp: setting_tv_PLATFORM_def)+
  next
    case 5
    have "v' = EnumValue (backend_as_str (optional_parsed ?e (def_storage_key d) backend_from_str BackendAuto))"
      by (rule optional_agrees [where render = "\<lambda>x. EnumValue (backend_as_str x)"])
        (use assms(3) settings_parse_like_runtime(5) 5(1) in \<open>auto simp: setting_screen_BACKEND_def\<close>)
    with 5 p(5) show ?thesis by (simp add: setting_screen_BACKEND_def)
  next
    case 6
    have "v' = EnumValue (switch_as_str (optional_parsed ?e (def_storage_key d) switch_from_str Enabled))"
      by (rule optional_agrees [where render = "\<lambda>x. EnumValue (switch_as_str x)"])
        (use assms(3) sw 6(1) in \<open>auto simp: setting_screen_IDLE_BLANK_def\<close>)
    with 6 p(8) show ?thesis by (simp add: setting_screen_IDLE_BLANK_def)
  next
    case 7
    have "v' = EnumValue (switch_as_str (optional_parsed ?e (def_storage_key d) switch_from_str Disabled))"
      by (rule optional_agrees [where render = "\<lambda>x. EnumValue (switch_as_str x)"])
        (use assms(3) sw 7(1) in \<open>auto simp: setting_screen_HONOR_IDLE_INHIBITORS_def\<close>)
    with 7 p(9) show ?thesis by (simp add: setting_screen_HONOR_IDLE_INHIBITORS_def)
  next
    case 8
    have "v' = IntegerValue (int (optional_parsed ?e (def_storage_key d) parse_idle_timeout_secs DEFAULT_IDLE_TIMEOUT))"
      by (rule optional_agrees [where render = "\<lambda>x. IntegerValue (int x)"])
        (use assms(3) idle_timeout_parse 8(1) in \<open>auto simp: setting_screen_IDLE_TIMEOUT_def\<close>)
    with 8 p(6) show ?thesis by (simp add: setting_screen_IDLE_TIMEOUT_def)
  next
    case 9
    have "v' = EnumValue (restore_policy_setting (optional_parsed ?e (def_storage_key d) restore_policy_from_str MarkerOnly))"
      by (rule optional_agrees [where render = "\<lambda>x. EnumValue (restore_policy_setting x)"])
        (use assms(3) settings_parse_like_runtime(6) 9(1) in \<open>auto simp: setting_screen_RESTORE_POLICY_def\<close>)
    with 9 p(7) show ?thesis by (simp add: setting_screen_RESTORE_POLICY_def)
  next
    case 10
    have "v' = EnumValue (switch_as_str (optional_parsed ?e (def_storage_key d) switch_from_str Enabled))"
      by (rule optional_agrees [where render = "\<lambda>x. EnumValue (switch_as_str x)"])
        (use assms(3) sw 10(1) in \<open>auto simp: setting_system_SLEEP_WAKE_POLICY_def\<close>)
    with 10 p(10) show ?thesis by (simp add: setting_system_SLEEP_WAKE_POLICY_def)
  qed
qed

section \<open>The properties\<close>

text \<open>
  C24. An edit is exactly the edit. Setting or unsetting a setting and saving the rendered lines changes
  what the store reads for that setting to the new value (the default after an unset), whatever
  comments, indentation, duplicate or legacy lines the file had; every other setting and every other
  entry of the file reads as before.
\<close>

theorem settings_edit_exact:
  assumes "mutation_set binding (store_of path (Some c) ds) key raw = Inr m \<or>
      mutation_unset binding (store_of path (Some c) ds) key = Inr m"
    and "edit_mutation m (editor_parse path c) = Inr (changed, ed)"
  shows "let before = store_of path (Some c) ds; after = store_of path (Some (editor_render ed)) ds in
     eff_value (effective_definition after (mut_definition m)) = mut_new_value m \<and>
     (\<forall>d \<in> set SETTINGS_REGISTRY. d \<noteq> mut_definition m \<longrightarrow> effective_definition after d = effective_definition before d) \<and>
     (\<forall>k. k \<notin> set (all_storage_keys (mut_definition m)) \<longrightarrow> store_entries after k = store_entries before k)"
proof -
  have m: "sound_mutation m" and un: "managed_by (eff_source (effective_definition (store_of path (Some c) ds) (mut_definition m))) = None"
    using assms(1) mutation_set_sound mutation_unset_sound by blast+
  have r: "mut_definition m \<in> set SETTINGS_REGISTRY" using m by (simp add: sound_mutation_def)
  have e: "parse_config_entries (editor_render ed) = mutated_entries m (parse_config_entries c)"
    using m assms(2) by (rule mutation_rendered)
  have "eff_value (effective_definition (store_of path (Some (editor_render ed)) ds) (mut_definition m)) = mut_new_value m"
    using unmanaged_effective [OF un, of "Some (editor_render ed)"] effective_mutated(2) [OF m r refl]
    by (simp add: store_of_def e)
  moreover have "effective_definition (store_of path (Some (editor_render ed)) ds) d =
      effective_definition (store_of path (Some c) ds) d"
    if "d \<in> set SETTINGS_REGISTRY" "d \<noteq> mut_definition m" for d
    using effective_mutated(1) [OF m that] by (intro effective_definition_cong) (simp add: store_of_def e)
  ultimately show ?thesis
    by (auto simp: store_of_def e mutated_entries_def all_storage_keys_def)
qed

definition example_timeout_mutation :: SettingsMutation where
  "example_timeout_mutation =
     \<lparr>mut_definition = setting_screen_IDLE_TIMEOUT, mut_old_value = Some (IntegerValue 600),
      mut_old_source = SourceConfigEnv, mut_new_value = Some (IntegerValue 900), mut_action = ActionSet\<rparr>"

lemma parse_examples: "parse_i128 ''900'' = Some 900" "parse_i128 ''600'' = Some 600"
proof -
  have "show_int 900 = ''900''" "show_int 600 = ''600''"
    by (simp_all add: show_int_def show_nat.simps digit_char_def)
  then show "parse_i128 ''900'' = Some 900" "parse_i128 ''600'' = Some 600"
    using parse_i128_show_int [of 900] parse_i128_show_int [of 600] by simp_all
qed

lemma example_mutation:
  "mutation_set binding (store_of path (Some example_contents) None) ''screen.idle_timeout'' ''900'' =
     Inr example_timeout_mutation"
proof -
  have g: "get_by_name ''screen.idle_timeout'' = Inr setting_screen_IDLE_TIMEOUT"
    using registry_by_name [of setting_screen_IDLE_TIMEOUT]
    by (simp add: SETTINGS_REGISTRY_def) (simp add: setting_screen_IDLE_TIMEOUT_def)
  show ?thesis
    by (simp add: mutation_set_def g ensure_operation_supported_def supports_operation_def effective_definition_def
        effective_saved_def raw_setting_value_def store_of_def example_entries reject_managed_def
        setting_screen_IDLE_TIMEOUT_def READ_WRITE_OPERATIONS_def def_parse_value_def parse_examples int_accepts_def int_coerce_def
        MAX_IDLE_TIMEOUT_def example_timeout_mutation_def)
qed

theorem settings_edit_exact_witness:
  "\<exists>changed ed. edit_mutation example_timeout_mutation (editor_parse ''config.env'' example_contents) = Inr (changed, ed) \<and>
     eff_value (effective_definition (store_of ''config.env'' (Some (editor_render ed)) None) setting_screen_IDLE_TIMEOUT) =
       Some (IntegerValue 900)"
proof -
  obtain changed ed where "edit_mutation example_timeout_mutation (editor_parse ''config.env'' example_contents) = Inr (changed, ed)"
    by (simp add: edit_mutation_def example_timeout_mutation_def new_value_def)
      (metis surj_pair)
  with settings_edit_exact [OF disjI1 [OF example_mutation [of "Inr []" "''config.env''"]] this] show ?thesis
    by (auto simp: Let_def example_timeout_mutation_def)
qed

lemma load_agrees:
  assumes "load_current_config (Inr c) (Inr ds) = Inr cfg"
    and "\<forall>d. ds = Some d \<longrightarrow> declarations_ok d"
    and "(def, v) \<in> set (runtime_values cfg)"
    and "eff_value (effective_definition (store_of path (Some c) ds) def) = Some v'"
  shows "v' = v"
proof -
  have r: "def \<in> set SETTINGS_REGISTRY" using assms(3) by (auto simp: runtime_values_def SETTINGS_REGISTRY_def)
  show ?thesis
  proof (cases ds)
    case None
    then have "parse_config c = Inr cfg"
      using assms(1) by (auto simp: load_current_config_def parse_current_config_def Let_def split: if_splits sum.splits)
    then show ?thesis using assms(3,4) None
      by (auto intro: runtime_agrees_saved simp: effective_definition_def store_of_def)
  next
    case (Some d)
    then have "parse_config (effective_contents d c) = Inr cfg"
      using assms(1) by (auto simp: load_current_config_def parse_current_config_def Let_def split: if_splits sum.splits)
    then show ?thesis using assms(2,3,4) Some declared_effective [OF _ r]
      by (metis runtime_agrees_saved)
  qed
qed

text \<open>
  C7. The settings screen and the runtime never disagree. Whatever the file and its declarations contain, if
  the runtime accepts the configuration and the store reports a valid value for a setting (saved, declared,
  under a legacy key, an alias or a default), then the value the runtime uses is that value; for the idle
  timeout this includes the clamping both sides do on their own with integers of different width.
\<close>

theorem store_matches_runtime:
  assumes "load_current_config (Inr c) (Inr ds) = Inr cfg"
    and "\<forall>d. ds = Some d \<longrightarrow> (\<exists>path doc. declarations_parse path doc = Inr d)"
    and "(def, v) \<in> set (runtime_values cfg)"
    and "eff_value (effective_definition (store_of path (Some c) ds) def) = Some v'"
  shows "v' = v"
  using assms(1) _ assms(3,4)
proof (rule load_agrees)
  show "\<forall>d. ds = Some d \<longrightarrow> declarations_ok d" using assms(2) declarations_parse_ok by blast
qed

theorem store_matches_runtime_witness:
  "\<exists>cfg. load_current_config (Inr example_contents) (Inr None) = Inr cfg \<and>
     IntegerValue 600 = IntegerValue (int (screen_idle_timeout cfg))"
proof -
  obtain cfg where c: "load_current_config (Inr example_contents) (Inr None) = Inr cfg"
    using example_loads by (auto simp: load_current_config_def)
  have "eff_value (effective_definition (store_of [] (Some example_contents) None) setting_screen_IDLE_TIMEOUT) = Some (IntegerValue 600)"
    by (simp add: effective_definition_def effective_saved_def raw_setting_value_def store_of_def example_entries
        setting_screen_IDLE_TIMEOUT_def def_parse_value_def parse_examples int_accepts_def int_coerce_def MAX_IDLE_TIMEOUT_def)
  with store_matches_runtime [OF c _ _ this, of "IntegerValue (int (screen_idle_timeout cfg))"] c show ?thesis
    by (auto simp: runtime_values_def)
qed

lemma undeclared_tv_keys:
  assumes ok: "declarations_ok d"
    and "def \<in> {setting_tv_IP, setting_tv_MAC, setting_tv_INPUT, setting_tv_PLATFORM}" and "x \<in> set (all_storage_keys def)"
  shows "parse_config_entries (effective_contents d c) x = parse_config_entries c x"
proof (rule declared_entry(2) [OF ok _ _ assms(3)])
  show "get_by_name (def_key def) = Inr def"
    using assms(2) by (intro registry_by_name) (auto simp: SETTINGS_REGISTRY_def)
  have "\<not> declarable (def_key def)"
    using assms(2) by (auto simp: declarable_def starts_with_def setting_tv_IP_def setting_tv_MAC_def
        setting_tv_INPUT_def setting_tv_PLATFORM_def)
  then show "declared_value d (def_key def) = None"
    using ok by (fastforce simp: declared_value_def declarations_ok_def map_of_eq_None_iff)
qed

text \<open>A declaration cannot bring back a retired backend, so a loadable file stays loadable.\<close>

lemma declared_backend:
  assumes ok: "declarations_ok d"
  shows "parse_config_entries (effective_contents d c) ''screen_backend'' = Some ''swayidle'' \<Longrightarrow>
    parse_config_entries c ''screen_backend'' = Some ''swayidle''"
proof -
  have r: "setting_screen_BACKEND \<in> set SETTINGS_REGISTRY" by (simp add: SETTINGS_REGISTRY_def)
  note g = registry_by_name [OF r]
  assume s: "parse_config_entries (effective_contents d c) ''screen_backend'' = Some ''swayidle''"
  show ?thesis
  proof (cases "declared_value d (def_key setting_screen_BACKEND)")
    case None
    with s declared_entry(2) [OF ok g None, of "''screen_backend''"] show ?thesis
      by (simp add: all_storage_keys_def) (simp add: setting_screen_BACKEND_def)
  next
    case (Some v)
    then have "setting_value_display v = ''swayidle''"
      using s declared_entry(1) [OF ok g Some, of c] by (simp add: setting_screen_BACKEND_def)
    moreover have "def_parse_value setting_screen_BACKEND (setting_value_display v) = Inr v"
      using Some ok g by (fastforce simp: declared_value_def declarations_ok_def dest!: map_of_SomeD)
    ultimately show ?thesis by (simp add: setting_parse_simps setting_screen_BACKEND_def)
  qed
qed

lemma declared_loads:
  assumes ok: "declarations_ok d" and "parse_current_config c = Inr cfg0"
  shows "\<exists>cfg. parse_current_config (effective_contents d c) = Inr cfg"
proof -
  let ?e = "parse_config_entries c" and ?e' = "parse_config_entries (effective_contents d c)"
  from assms(2) have fresh: "stale_config_reasons c = []" and pc: "parse_config c = Inr cfg0"
    by (auto simp: parse_current_config_def Let_def split: if_splits sum.splits)
  have k: "\<forall>x \<in> set [''tvs_primary_ip'', ''tv_ip'']. ?e' x = ?e x" "\<forall>x \<in> set [''tvs_primary_mac'', ''tv_mac'']. ?e' x = ?e x"
    "\<forall>x \<in> set [''tvs_primary_input'', ''input'']. ?e' x = ?e x" "?e' ''tvs_primary_platform'' = ?e ''tvs_primary_platform''"
    using undeclared_tv_keys [OF ok, of setting_tv_IP] undeclared_tv_keys [OF ok, of setting_tv_MAC]
      undeclared_tv_keys [OF ok, of setting_tv_INPUT] undeclared_tv_keys [OF ok, of setting_tv_PLATFORM]
    by (simp_all add: all_storage_keys_def) (simp_all add: registry_defs)
  have "stale_config_reasons (effective_contents d c) = []"
    using fresh k(4) declared_backend [OF ok, of c]
    by (auto simp: stale_config_reasons_def Let_def split: option.splits if_splits)
  moreover have "\<exists>cfg. parse_config (effective_contents d c) = Inr cfg"
  proof -
    have "parse_platform_entry ?e' = parse_platform_entry ?e" by (simp add: parse_platform_entry_def k(4))
    then show ?thesis
      using parse_config_values(1-4) [OF pc refl]
      by (simp add: parse_config_def Let_def required_parsed_cong [OF k(1)] required_parsed_cong [OF k(2)]
          required_parsed_cong [OF k(3)])
  qed
  ultimately show ?thesis by (auto simp: parse_current_config_def)
qed

text \<open>
  C31. Declared settings win, and only behaviour can be declared. An accepted declaration document never makes
  a loadable configuration unloadable; the runtime uses each declared value whatever the saved file says
  about it; and the TV profile (address, MAC, input and platform) is the one of the saved file.
\<close>

theorem declared_settings_win:
  assumes "declarations_parse path doc = Inr d" and "load_current_config (Inr c) (Inr None) = Inr cfg0"
  shows "\<exists>cfg. load_current_config (Inr c) (Inr (Some d)) = Inr cfg \<and>
    (\<forall>(key, v) \<in> set (decl_values d). \<forall>(def, u) \<in> set (runtime_values cfg). def_key def = key \<longrightarrow> u = v) \<and>
    tv_ip cfg = tv_ip cfg0 \<and> tv_mac cfg = tv_mac cfg0 \<and> input cfg = input cfg0 \<and> tv_platform cfg = tv_platform cfg0"
proof -
  note ok = declarations_parse_ok [OF assms(1)]
  obtain cfg where cfg: "load_current_config (Inr c) (Inr (Some d)) = Inr cfg"
    using assms(2) declared_loads [OF ok] by (auto simp: load_current_config_def)
  have "u = v" if v: "(def_key def, v) \<in> set (decl_values d)" and u: "(def, u) \<in> set (runtime_values cfg)" for "def" u v
  proof -
    have "declared_value d (def_key def) = Some v"
      using v ok by (simp add: declared_value_def declarations_ok_def)
    then have "eff_value (effective_definition (store_of [] (Some c) (Some d)) def) = Some v"
      by (simp add: effective_definition_def store_of_def)
    from load_agrees [OF cfg _ u this] ok show "u = v" by simp
  qed
  moreover have "parse_config (effective_contents d c) = Inr cfg" "parse_config c = Inr cfg0"
    using assms(2) cfg by (auto simp: load_current_config_def parse_current_config_def Let_def split: if_splits sum.splits)
  from parse_config_required_cong [OF this] undeclared_tv_keys [OF ok]
  have "tv_ip cfg = tv_ip cfg0 \<and> tv_mac cfg = tv_mac cfg0 \<and> input cfg = input cfg0 \<and> tv_platform cfg = tv_platform cfg0"
    by blast
  ultimately show ?thesis using cfg by blast
qed

definition example_document :: Document where
  "example_document = \<lparr>doc_version = 1, doc_source = Nix,
     doc_settings = [(''screen.idle_blank'', JsonBool False, ''line 3, column 5'')]\<rparr>"

theorem declared_settings_win_witness:
  "\<exists>d cfg. declarations_parse ''d.json'' (Inr example_document) = Inr d \<and>
     load_current_config (Inr example_contents) (Inr (Some d)) = Inr cfg \<and>
     screen_idle_blank cfg = Disabled"
proof -
  have g: "get_by_name ''screen.idle_blank'' = Inr setting_screen_IDLE_BLANK"
    using registry_by_name [of setting_screen_IDLE_BLANK]
    by (simp add: SETTINGS_REGISTRY_def) (simp add: setting_screen_IDLE_BLANK_def)
  let ?d = "\<lparr>decl_path = ''d.json'', decl_source = Nix, decl_values = [(''screen.idle_blank'', EnumValue ''disabled'')]\<rparr>"
  have d: "declarations_parse ''d.json'' (Inr example_document) = Inr ?d"
    by (simp add: declarations_parse_def example_document_def g declarable_def starts_with_def declared_raw_def
        setting_parse_simps setting_screen_IDLE_BLANK_def)
  obtain cfg0 where "load_current_config (Inr example_contents) (Inr None) = Inr cfg0"
    using example_loads by (auto simp: load_current_config_def)
  from declared_settings_win [OF d this] obtain cfg where
    cfg: "load_current_config (Inr example_contents) (Inr (Some ?d)) = Inr cfg"
    and win: "\<forall>(key, v) \<in> set (decl_values ?d). \<forall>(def, u) \<in> set (runtime_values cfg). def_key def = key \<longrightarrow> u = v"
    by blast
  have "EnumValue (switch_as_str (screen_idle_blank cfg)) = EnumValue ''disabled''"
    using win by (simp add: runtime_values_def setting_screen_IDLE_BLANK_def)
  then have "screen_idle_blank cfg = Disabled" by (cases "screen_idle_blank cfg") simp_all
  with d cfg show ?thesis by blast
qed

end
