(* ===== verification/Settings_Store.thy ===== *)
theory Settings_Store
  imports Config_Agreement State
begin

text \<open>
  Saving settings (\<open>settings/store.rs\<close>): the lock every writer of a configuration takes, the
  compare-and-publish of the editor, the write through a temporary file, and the rollback of a change.
  The answers of the operating system that only steer the code (where a path leads, who owns a file,
  whether declarations exist) are a \<open>config_host\<close>; \<open>meddle\<close> is what programs that do not take the
  lock do to the files at the two points where the code guards against them.
\<close>

section \<open>Operations\<close>

record config_host =
  guard_target :: "path \<Rightarrow> effect list \<Rightarrow> string + path"
  decls_at :: "path \<Rightarrow> effect list \<Rightarrow> io_error + Declarations option"
  decl_binding :: "path \<Rightarrow> effect list \<Rightarrow> io_error + path"
  follow_link :: "path \<Rightarrow> effect list \<Rightarrow> io_error + path"
  owner_fault :: "path \<Rightarrow> effect list \<Rightarrow> string option"
  temp_number :: "effect list \<Rightarrow> nat"
  meddle :: "effect list \<Rightarrow> (path \<rightharpoonup> string) \<Rightarrow> (path \<rightharpoonup> string)"

definition meddleE :: "config_host \<Rightarrow> (world, 'e, unit) eff" where
  "meddleE host = modifyE (\<lambda>w. w\<lparr>files := meddle host (trace w) (files w)\<rparr>)"

text \<open>\<open>PairingLock::for_config\<close>: resolve and check the path, then \<open>flock\<close> the file beside it.\<close>

definition LOCK_FILE_SUFFIX :: string where "LOCK_FILE_SUFFIX = ''.pairing.lock''"

definition guard_path :: "path \<Rightarrow> path" where
  "guard_path target = with_file_name target (''.'' @ file_name target @ LOCK_FILE_SUFFIX)"

definition msg_pairing_in_progress :: "path \<Rightarrow> string" where
  "msg_pairing_in_progress p = ''another TV pairing is already in progress ('' @ p @ '')''"

definition pid_line :: "environment \<Rightarrow> string" where
  "pid_line env = ''pid='' @ show_nat (process_id env) @ [CHR 10]"

definition settings_guard :: "environment \<Rightarrow> config_host \<Rightarrow> path \<Rightarrow> (world, SettingsError, path) eff" where
  "settings_guard env host path =
     (\<lambda>w. case guard_target host path (trace w) of
        Inl message \<Rightarrow> (Inl (Settings_WriteConfig path message), w)
      | Inr target \<Rightarrow>
          let l = guard_path target in
          if locks w l \<noteq> None then (Inl (Settings_WriteConfig path (msg_pairing_in_progress l)), w)
          else (Inr target,
            w\<lparr>locks := (locks w)(l \<mapsto> Ours),
              files := (files w)(l \<mapsto> pid_line env @ drop (length (pid_line env)) (unwrap_or (files w l) []))\<rparr>))"

definition release_guard :: "path \<Rightarrow> world \<Rightarrow> world" where
  "release_guard target w = w\<lparr>locks := (locks w)(guard_path target := None)\<rparr>"

definition read_optional :: "environment \<Rightarrow> path \<Rightarrow> (world, io_error, string option) eff" where
  "read_optional env p =
     bindE (tryE (read_to_string env p)) (\<lambda>r. case r of
       Inr bytes \<Rightarrow> returnE (Some bytes)
     | Inl e \<Rightarrow> if io_kind e = NotFound then returnE None else raiseE e)"

definition editor_load :: "environment \<Rightarrow> path \<Rightarrow> (world, SettingsError, ConfigEnvEditor) eff" where
  "editor_load env p =
     bindE (tryE (read_to_string env p)) (\<lambda>r. case r of
       Inr contents \<Rightarrow> returnE ((editor_parse p contents)\<lparr>ed_allow_missing := False\<rparr>)
     | Inl err \<Rightarrow>
         if io_kind err = NotFound then returnE (editor_empty p)
         else raiseE (Settings_ReadConfig p (io_kind err) (io_message err)))"

definition load_declarations :: "config_host \<Rightarrow> path \<Rightarrow> (world, io_error, Declarations option) eff" where
  "load_declarations host p = (\<lambda>w. (decls_at host p (trace w), w))"

definition decl_settings_error :: "config_host \<Rightarrow> path \<Rightarrow> effect list \<Rightarrow> io_error \<Rightarrow> SettingsError" where
  "decl_settings_error host p tr err =
     Settings_ReadConfig (case decl_binding host p tr of Inr b \<Rightarrow> b | Inl _ \<Rightarrow> p) (io_kind err) (io_message err)"

definition ensure_mutable :: "config_host \<Rightarrow> path \<Rightarrow> string \<Rightarrow> (world, SettingsError, unit) eff" where
  "ensure_mutable host p key =
     bindE (getsE trace) (\<lambda>tr.
     bindE (mapErrE (decl_settings_error host p tr) (load_declarations host p)) (\<lambda>declarations.
       case declarations of
         None \<Rightarrow> returnE ()
       | Some d \<Rightarrow>
           if declared_value d key \<noteq> None then raiseE (declaration_reject d key) else returnE ()))"

definition validate_changes :: "config_host \<Rightarrow> path \<Rightarrow> string \<Rightarrow> string \<Rightarrow> (world, io_error, unit) eff" where
  "validate_changes host p before after =
     bindE (load_declarations host p) (\<lambda>declarations. case declarations of
       None \<Rightarrow> returnE ()
     | Some d \<Rightarrow> liftR (check_declared d before after))"

definition settings_temp_path :: "environment \<Rightarrow> path \<Rightarrow> nat \<Rightarrow> path" where
  "settings_temp_path env p n =
     with_file_name p
       (''.'' @ file_name p @ ''.settings.'' @ show_nat (process_id env) @ ''.'' @ show_nat n @ ''.tmp'')"

text \<open>
  What the closure does with the open temporary file: write, take over owner and permissions of an
  existing configuration, sync, check the declarations against what is in the file now, rename.
\<close>

definition take_over_owner :: "config_host \<Rightarrow> path \<Rightarrow> bool \<Rightarrow> (world, io_error, unit) eff" where
  "take_over_owner host temp existed =
     (\<lambda>w. (if existed
            then (case owner_fault host temp (trace w) of Some e \<Rightarrow> Inl (io_fault e) | None \<Rightarrow> Inr ())
            else Inr (), w))"

definition rename_temp :: "path \<Rightarrow> path \<Rightarrow> (world, io_error, unit) eff" where
  "rename_temp temp p =
     (\<lambda>w. case files w temp of
        None \<Rightarrow> (Inl (IoError NotFound ''No such file or directory''), w)
      | Some bytes \<Rightarrow> (Inr (), emit (FileWritten p bytes) (w\<lparr>files := (files w)(temp := None, p \<mapsto> bytes)\<rparr>)))"

definition publish_temp ::
    "environment \<Rightarrow> config_host \<Rightarrow> path \<Rightarrow> path \<Rightarrow> bool \<Rightarrow> string \<Rightarrow> (world, io_error, unit) eff" where
  "publish_temp env host temp p existed contents =
     thenE (faultE env WriteAll temp)
    (thenE (modifyE (\<lambda>w. w\<lparr>files := (files w)(temp \<mapsto> contents)\<rparr>))
    (thenE (take_over_owner host temp existed)
    (thenE (faultE env SyncAll temp)
    (thenE (meddleE host)
    (bindE (read_optional env p) (\<lambda>current.
     thenE (validate_changes host p (unwrap_or current []) contents)
    (thenE (faultE env RenameFile temp)
       (rename_temp temp p))))))))"

definition publish_or_clean_up ::
    "environment \<Rightarrow> config_host \<Rightarrow> path \<Rightarrow> path \<Rightarrow> bool \<Rightarrow> string \<Rightarrow> (world, io_error, unit) eff" where
  "publish_or_clean_up env host temp p existed contents =
     bindE (tryE (publish_temp env host temp p existed contents)) (\<lambda>result. case result of
       Inl err \<Rightarrow> bindE (tryE (remove_file env temp)) (\<lambda>_. raiseE err)
     | Inr _ \<Rightarrow> returnE ())"

definition atomic_write_config ::
    "environment \<Rightarrow> config_host \<Rightarrow> path \<Rightarrow> string \<Rightarrow> (world, io_error, unit) eff" where
  "atomic_write_config env host path contents =
     bindE (\<lambda>w. (follow_link host path (trace w), w)) (\<lambda>p.
     bindE (getsE (\<lambda>w. files w p \<noteq> None)) (\<lambda>existed.
     thenE (if existed then faultE env OpenFile p else returnE ())
     (if file_name p = [] then raiseE (IoError InvalidInput ''config path has no file name'')
      else
        bindE (getsE (\<lambda>w. settings_temp_path env p (temp_number host (trace w)))) (\<lambda>temp.
        thenE (open_create_new env temp)
          (publish_or_clean_up env host temp p existed contents)))))"

definition msg_config_changed :: string where
  "msg_config_changed = ''configuration changed since it was read; reload and retry''"

definition save_locked ::
    "environment \<Rightarrow> config_host \<Rightarrow> path \<Rightarrow> ConfigEnvEditor \<Rightarrow> (world, SettingsError, unit) eff" where
  "save_locked env host target ed =
     mapErrE (\<lambda>err. Settings_WriteConfig (ed_path ed) (io_message err))
       (thenE (meddleE host)
       (bindE (read_optional env target) (\<lambda>current.
          if current \<noteq> ed_original ed \<and> \<not> (ed_allow_missing ed \<and> current = None)
          then raiseE (IoError OtherKind msg_config_changed)
          else
            thenE (validate_changes host target (unwrap_or current []) (editor_render ed))
              (atomic_write_config env host target (editor_render ed)))))"

definition editor_save :: "environment \<Rightarrow> config_host \<Rightarrow> ConfigEnvEditor \<Rightarrow> (world, SettingsError, unit) eff" where
  "editor_save env host ed =
     bindE (settings_guard env host (ed_path ed)) (\<lambda>target.
       finallyE (save_locked env host target ed) (release_guard target))"

record SettingsChange =
  ch_mutation :: SettingsMutation
  ch_path :: path
  ch_file_changed :: bool
  ch_effective :: EffectiveSetting
  ch_original :: "string option"
  ch_published :: "string option"

definition change_of :: "SettingsMutation \<Rightarrow> bool \<Rightarrow> ConfigEnvEditor \<Rightarrow> SettingsChange" where
  "change_of m file_changed ed =
     \<lparr>ch_mutation = m, ch_path = ed_path ed, ch_file_changed = file_changed,
      ch_effective =
        \<lparr>eff_definition = mut_definition m, eff_value = mut_new_value m,
         eff_source = (case mut_action m of
            ActionSet \<Rightarrow> SourceConfigEnv
          | ActionUnset \<Rightarrow> if mut_new_value m \<noteq> None then SourceDefault else SourceMissing),
         eff_invalid_value = None\<rparr>,
      ch_original = ed_original ed, ch_published = Some (editor_render ed)\<rparr>"

definition persist_locked ::
    "environment \<Rightarrow> config_host \<Rightarrow> path \<Rightarrow> SettingsMutation \<Rightarrow> (world, SettingsError, SettingsChange) eff" where
  "persist_locked env host target m =
     thenE (ensure_mutable host target (def_key (mut_definition m)))
    (bindE (editor_load env target) (\<lambda>ed.
     bindE (liftR (edit_mutation m ed)) (\<lambda>(file_changed, ed').
     thenE (if file_changed then save_locked env host target ed' else returnE ())
       (returnE (change_of m file_changed ed')))))"

definition persist_settings_mutation ::
    "environment \<Rightarrow> config_host \<Rightarrow> path \<Rightarrow> SettingsMutation \<Rightarrow> (world, SettingsError, SettingsChange) eff" where
  "persist_settings_mutation env host path m =
     bindE (settings_guard env host path) (\<lambda>target.
       finallyE (persist_locked env host target m) (release_guard target))"

definition msg_changed_after_activation :: string where
  "msg_changed_after_activation = ''configuration changed after activation; refusing to overwrite it''"

definition rollback_locked ::
    "environment \<Rightarrow> config_host \<Rightarrow> path \<Rightarrow> SettingsChange \<Rightarrow> (world, SettingsError, unit) eff" where
  "rollback_locked env host target change =
     mapErrE (\<lambda>e. Settings_WriteConfig (ch_path change) (io_message e))
       (bindE (read_optional env target) (\<lambda>current.
          if current \<noteq> ch_published change then raiseE (IoError OtherKind msg_changed_after_activation)
          else case ch_original change of
                 Some bytes \<Rightarrow> atomic_write_config env host target bytes
               | None \<Rightarrow> remove_file env target))"

definition rollback_if_unchanged ::
    "environment \<Rightarrow> config_host \<Rightarrow> SettingsChange \<Rightarrow> (world, SettingsError, unit) eff" where
  "rollback_if_unchanged env host change =
     bindE (settings_guard env host (ch_path change)) (\<lambda>target.
       finallyE (rollback_locked env host target change) (release_guard target))"

section \<open>Names of the files beside the configuration\<close>

lemma with_file_name_neq: "file_name p \<noteq> n \<Longrightarrow> CHR ''/'' \<notin> set n \<Longrightarrow> with_file_name p n \<noteq> p"
  by (metis file_name_with_file_name)

lemma file_name_no_slash: "CHR ''/'' \<notin> set (file_name p)"
  by (auto simp: file_name_def dest: set_takeWhileD)

lemma show_nat_no_slash: "CHR ''/'' \<notin> set (show_nat n)"
proof
  assume "CHR ''/'' \<in> set (show_nat n)"
  then obtain d where "d < 10" "CHR ''/'' = digit_char d" using show_nat_digits by blast
  moreover have "\<forall>d \<in> set [0..<10]. digit_char d \<noteq> CHR ''/''" by code_simp
  ultimately show False by auto
qed

lemma temp_not_config [simp]: "settings_temp_path env p n \<noteq> p"
  unfolding settings_temp_path_def
  by (rule with_file_name_neq) (auto simp: file_name_no_slash show_nat_no_slash dest: arg_cong [of _ _ length])

lemma guard_not_config [simp]: "guard_path p \<noteq> p"
  unfolding guard_path_def
  by (rule with_file_name_neq)
    (auto simp: file_name_no_slash LOCK_FILE_SUFFIX_def dest: arg_cong [of _ _ length])

section \<open>All or nothing\<close>

lemma wp_read_optional [wp_rules]:
  "wp (read_optional env p) Q E w =
     (case file_fault env ReadFile p (trace w) of
        Some e \<Rightarrow> E (io_fault e) w
      | None \<Rightarrow> Q (files w p) w)"
  by (auto simp: read_optional_def wp_rules split: option.splits)

lemma wp_editor_load [wp_rules]:
  "wp (editor_load env p) Q E w =
     (case file_fault env ReadFile p (trace w) of
        Some e \<Rightarrow> E (Settings_ReadConfig p OtherKind e) w
      | None \<Rightarrow>
          (case files w p of
             None \<Rightarrow> Q (editor_empty p) w
           | Some c \<Rightarrow> Q ((editor_parse p c)\<lparr>ed_allow_missing := False\<rparr>) w))"
  by (auto simp: editor_load_def wp_rules io_fault_def split: option.splits)

lemma wp_load_declarations [wp_rules]:
  "wp (load_declarations host p) Q E w = (case decls_at host p (trace w) of Inl e \<Rightarrow> E e w | Inr d \<Rightarrow> Q d w)"
  by (simp add: load_declarations_def wp_def split: sum.splits)

lemma wp_meddleE [wp_rules]:
  "wp (meddleE host) Q E w = Q () (w\<lparr>files := meddle host (trace w) (files w)\<rparr>)"
  by (simp add: meddleE_def wp_modifyE)

lemma wp_rename_temp [wp_rules]:
  "wp (rename_temp temp p) Q E w =
     (case files w temp of
        None \<Rightarrow> E (IoError NotFound ''No such file or directory'') w
      | Some bytes \<Rightarrow> Q () (emit (FileWritten p bytes) (w\<lparr>files := (files w)(temp := None, p \<mapsto> bytes)\<rparr>)))"
  by (simp add: wp_def rename_temp_def split: option.splits)

lemma wp_validate_changes [wp_rules]:
  "wp (validate_changes host p before after) Q E w =
     (case decls_at host p (trace w) of
        Inl e \<Rightarrow> E e w
      | Inr None \<Rightarrow> Q () w
      | Inr (Some d) \<Rightarrow> (case check_declared d before after of Inl e \<Rightarrow> E e w | Inr _ \<Rightarrow> Q () w))"
  by (auto simp: validate_changes_def wp_rules split: sum.splits option.splits)

lemma wp_take_over_owner [wp_rules]:
  "wp (take_over_owner host temp existed) Q E w =
     (if existed then (case owner_fault host temp (trace w) of Some e \<Rightarrow> E (io_fault e) w | None \<Rightarrow> Q () w)
      else Q () w)"
  by (simp add: take_over_owner_def wp_def split: option.splits)

lemma wp_return_eta: "wp (returnE a) Q E = Q a"
  by (simp add: fun_eq_iff wp_returnE)

lemma wp_ensure_mutable [wp_rules]:
  "wp (ensure_mutable host p key) Q E w =
     (case decls_at host p (trace w) of
        Inl e \<Rightarrow> E (decl_settings_error host p (trace w) e) w
      | Inr None \<Rightarrow> Q () w
      | Inr (Some d) \<Rightarrow> if declared_value d key \<noteq> None then E (declaration_reject d key) w else Q () w)"
  by (auto simp: ensure_mutable_def wp_rules split: sum.splits option.splits)

text \<open>No program outside the lock acts, and a canonical path is not a link.\<close>

definition undisturbed_config :: "config_host \<Rightarrow> path \<Rightarrow> bool" where
  "undisturbed_config host p \<longleftrightarrow>
     (\<forall>tr f. meddle host tr f = f) \<and> (\<forall>tr. follow_link host p tr = Inr p)"

lemma wp_publish_temp:
  assumes "\<forall>tr f. meddle host tr f = f" and "temp \<noteq> p"
  shows "wp (publish_temp env host temp p existed c)
    (\<lambda>_ w'. files w' = (files w)(temp := None, p \<mapsto> c) \<and> locks w' = locks w)
    (\<lambda>_ w'. files w' p = files w p \<and> locks w' = locks w \<and> (\<forall>q. q \<noteq> temp \<longrightarrow> files w' q = files w q)) w"
  unfolding publish_temp_def using assms
  by (simp add: wp_rules split: option.splits sum.splits)

lemma wp_atomic_write:
  assumes "undisturbed_config host p"
  shows "wp (atomic_write_config env host p c)
    (\<lambda>_ w'. files w' = (files w)(p \<mapsto> c) \<and> locks w' = locks w)
    (\<lambda>_ w'. files w' p = files w p \<and> locks w' = locks w) w"
proof -
  let ?temp = "settings_temp_path env p (temp_number host (trace w))"
  have pub: "wp (publish_or_clean_up env host ?temp p existed c)
      (\<lambda>_ w'. files w' = (files w1)(?temp := None, p \<mapsto> c) \<and> locks w' = locks w1)
      (\<lambda>_ w'. files w' p = files w1 p \<and> locks w' = locks w1) w1" for existed and w1 :: world
    unfolding publish_or_clean_up_def wp_bindE wp_tryE
    by (rule wp_mono [OF wp_publish_temp])
      (use assms temp_not_config [of env p] temp_not_config [of env p, THEN not_sym] in \<open>auto simp: undisturbed_config_def wp_rules split: option.splits\<close>)
  have link: "wp (\<lambda>w. (follow_link host p (trace w), w)) Q E w = Q p w" for Q E and w :: world
    using assms by (simp add: wp_def undisturbed_config_def)
  have "wp (publish_or_clean_up env host ?temp p existed c)
      (\<lambda>_ w'. files w' = (files w)(p \<mapsto> c) \<and> locks w' = locks w)
      (\<lambda>_ w'. files w' p = files w p \<and> locks w' = locks w) (w\<lparr>files := (files w)(?temp \<mapsto> [])\<rparr>)"
    if "files w ?temp = None" for existed
    by (rule wp_mono [OF pub])
      (use that temp_not_config [of env p] temp_not_config [of env p, THEN not_sym] in \<open>auto simp: fun_eq_iff\<close>)
  then show ?thesis
    unfolding atomic_write_config_def wp_bindE link
    by (auto simp: wp_rules split: option.splits)
qed

lemma wp_save_locked:
  assumes "undisturbed_config host p"
  shows "wp (save_locked env host p ed)
    (\<lambda>_ w'. files w' = (files w)(p \<mapsto> editor_render ed) \<and> locks w' = locks w \<and>
        (files w p = ed_original ed \<or> files w p = None))
    (\<lambda>_ w'. files w' p = files w p \<and> locks w' = locks w) w"
proof -
  have m: "w\<lparr>files := meddle host (trace w) (files w)\<rparr> = w" using assms by (simp add: undisturbed_config_def)
  note a = wp_atomic_write [OF assms, of env "editor_render ed" w]
  show ?thesis
    unfolding save_locked_def using a
    by (auto simp: wp_rules m split: option.splits sum.splits elim: wp_mono)
qed

lemma empty_render [simp]: "parse_config_entries [] = Map.empty"
  by (simp add: parse_config_entries_lines lines_def entries_of_def)

lemma edit_loaded:
  fixes content :: "string option"
  assumes "sound_mutation m" and "edit_mutation m ed = Inr (changed, ed')"
    and "ed = (case content of None \<Rightarrow> editor_empty p | Some c \<Rightarrow> (editor_parse p c)\<lparr>ed_allow_missing := False\<rparr>)"
  shows "parse_config_entries (editor_render ed') = mutated_entries m (parse_config_entries (unwrap_or content []))"
    and "ed_original ed' = content" and "ed_path ed' = p" and "\<not> ed_allow_missing ed'"
    and "\<not> changed \<Longrightarrow> parse_config_entries (unwrap_or content []) = mutated_entries m (parse_config_entries (unwrap_or content []))"
proof -
  have l: "list_all one_line (ed_lines ed)"
    using assms(3) by (auto simp: editor_empty_def editor_parse_def lines_one_line split: option.splits)
  note e = edit_mutation_entries [OF assms(1) l assms(2)]
  have en: "entries_of (ed_lines ed) = parse_config_entries (unwrap_or content [])"
    using assms(3) by (cases content) (simp_all add: editor_empty_def editor_parse_def parse_config_entries_lines lines_def)
  show r: "parse_config_entries (editor_render ed') = mutated_entries m (parse_config_entries (unwrap_or content []))"
    using e(1,2) en by (simp add: editor_render_def entries_render)
  show "ed_original ed' = content" "ed_path ed' = p" "\<not> ed_allow_missing ed'"
    using e(3,4,5) assms(3) by (auto simp: editor_empty_def editor_parse_def split: option.splits)
  show "parse_config_entries (unwrap_or content []) = mutated_entries m (parse_config_entries (unwrap_or content []))" if "\<not> changed"
    using e(1) e(6) [OF that] en by simp
qed

text \<open>What a saved mutation promises about the world.\<close>

definition saved :: "path \<Rightarrow> SettingsMutation \<Rightarrow> world \<Rightarrow> SettingsChange \<Rightarrow> world \<Rightarrow> bool" where
  "saved p m w change w' \<longleftrightarrow>
     files w' = (files w)(p := if ch_file_changed change then ch_published change else files w p) \<and>
     ch_mutation change = m \<and> ch_path change = p \<and> ch_original change = files w p \<and> ch_published change \<noteq> None \<and>
     parse_config_entries (unwrap_or (files w' p) []) =
       mutated_entries m (parse_config_entries (unwrap_or (files w p) []))"

lemma wp_persist_locked:
  assumes "undisturbed_config host p" and "sound_mutation m"
  shows "wp (persist_locked env host p m)
    (\<lambda>change w'. saved p m w change w' \<and> locks w' = locks w)
    (\<lambda>_ w'. files w' p = files w p \<and> locks w' = locks w) w"
proof -
  let ?Q = "\<lambda>change w'. saved p m w change w' \<and> locks w' = locks w"
  let ?E = "\<lambda>e w'. files w' p = files w p \<and> locks w' = locks w"
  have edit: "wp (bindE (liftR (edit_mutation m ed)) (\<lambda>(file_changed, ed').
     thenE (if file_changed then save_locked env host p ed' else returnE ())
       (returnE (change_of m file_changed ed')))) ?Q ?E w"
    if ed: "ed = (case files w p of None \<Rightarrow> editor_empty p | Some c \<Rightarrow> (editor_parse p c)\<lparr>ed_allow_missing := False\<rparr>)" for ed
  proof (cases "edit_mutation m ed")
    case (Inr r)
    obtain changed ed' where r: "r = (changed, ed')" by (cases r)
    note e = edit_loaded [OF assms(2) Inr [unfolded r] ed]
    show ?thesis
    proof (cases changed)
      case True
      have "wp (save_locked env host p ed') (\<lambda>_ w'. ?Q (change_of m True ed') w') ?E w"
        by (rule wp_mono [OF wp_save_locked [OF assms(1)]]) (use e in \<open>auto simp: saved_def change_of_def\<close>)
      with True show ?thesis by (simp add: Inr r wp_rules wp_return_eta)
    next
      case False
      with e show ?thesis by (simp add: Inr r wp_rules saved_def change_of_def)
    qed
  qed (simp add: wp_rules)
  show ?thesis
    unfolding persist_locked_def wp_thenE [of "ensure_mutable host p (def_key (mut_definition m))"]
      wp_bindE [of "editor_load env p"] wp_ensure_mutable wp_editor_load
    using edit by (auto split: sum.splits option.splits)
qed

section \<open>Under the lock\<close>

definition guarded :: "environment \<Rightarrow> path \<Rightarrow> world \<Rightarrow> world" where
  "guarded env p w =
     w\<lparr>locks := (locks w)(guard_path p \<mapsto> Ours),
       files := (files w)(guard_path p \<mapsto>
         pid_line env @ drop (length (pid_line env)) (unwrap_or (files w (guard_path p)) []))\<rparr>"

lemma guarded_simps [simp]:
  "trace (guarded env p w) = trace w" "files (guarded env p w) p = files w p"
  "q \<noteq> guard_path p \<Longrightarrow> files (guarded env p w) q = files w q"
  "locks (guarded env p w) = (locks w)(guard_path p \<mapsto> Ours)"
  using guard_not_config [of p, THEN not_sym] by (simp_all add: guarded_def)

lemma release_simps [simp]:
  "files (release_guard p w) = files w" "locks (release_guard p w) = (locks w)(guard_path p := None)"
  by (simp_all add: release_guard_def)

lemma wp_guarded:
  assumes "guard_target host path (trace w) = Inr p"
    and "locks w (guard_path p) = None \<Longrightarrow>
      wp (body p) (\<lambda>a w'. Q a (release_guard p w')) (\<lambda>e w'. E e (release_guard p w')) (guarded env p w)"
    and "\<And>e. locks w (guard_path p) \<noteq> None \<Longrightarrow> E e w"
  shows "wp (bindE (settings_guard env host path) (\<lambda>t. finallyE (body t) (release_guard t))) Q E w"
proof -
  have "wp (settings_guard env host path) Q' E w =
      (if locks w (guard_path p) = None then Q' p (guarded env p w)
       else E (Settings_WriteConfig path (msg_pairing_in_progress (guard_path p))) w)" for Q'
    using assms(1) by (simp add: wp_def settings_guard_def guarded_def Let_def)
  then show ?thesis using assms(2,3) by (simp add: wp_bindE wp_finallyE)
qed

text \<open>The path names one configuration file, directly or through links, and no other program acts.\<close>

definition canonical_config :: "config_host \<Rightarrow> path \<Rightarrow> path \<Rightarrow> bool" where
  "canonical_config host path p \<longleftrightarrow>
     (\<forall>tr. guard_target host path tr = Inr p) \<and> (\<forall>tr. guard_target host p tr = Inr p) \<and> undisturbed_config host p"

definition all_or_nothing ::
    "path \<Rightarrow> SettingsMutation \<Rightarrow> world \<Rightarrow> SettingsError + SettingsChange \<Rightarrow> world \<Rightarrow> bool" where
  "all_or_nothing p m w r w' \<longleftrightarrow>
     locks w' = locks w \<and>
     (case r of
        Inl _ \<Rightarrow> files w' p = files w p
      | Inr change \<Rightarrow>
          parse_config_entries (unwrap_or (files w' p) []) =
            mutated_entries m (parse_config_entries (unwrap_or (files w p) [])) \<and>
          ch_mutation change = m \<and> ch_original change = files w p \<and> ch_path change = p \<and>
          (if ch_file_changed change then files w' p = ch_published change else files w' p = files w p) \<and>
          (\<forall>q. q \<noteq> p \<longrightarrow> q \<noteq> guard_path p \<longrightarrow> files w' q = files w q))"

lemma locks_released: "l k = None \<Longrightarrow> (l(k := v))(k := None) = l"
  by auto

lemma wp_persist:
  assumes "canonical_config host path p" and "sound_mutation m"
  shows "wp (persist_settings_mutation env host path m)
    (\<lambda>change w'. all_or_nothing p m w (Inr change) w') (\<lambda>e w'. all_or_nothing p m w (Inl e) w') w"
proof -
  have u: "undisturbed_config host p" and g: "guard_target host path (trace w) = Inr p"
    using assms(1) by (auto simp: canonical_config_def)
  show ?thesis
    unfolding persist_settings_mutation_def
  proof (rule wp_guarded [where p = p])
    assume l: "locks w (guard_path p) = None"
    show "wp (persist_locked env host p m) (\<lambda>a w'. all_or_nothing p m w (Inr a) (release_guard p w'))
       (\<lambda>e w'. all_or_nothing p m w (Inl e) (release_guard p w')) (guarded env p w)"
      by (rule wp_mono [OF wp_persist_locked [OF u assms(2)]])
        (use l in \<open>auto simp: all_or_nothing_def saved_def locks_released\<close>)
  qed (use g in \<open>simp_all add: all_or_nothing_def\<close>)
qed

lemma wp_rollback:
  assumes "\<forall>tr. guard_target host (ch_path change) tr = Inr p" and "undisturbed_config host p"
  shows "wp (rollback_if_unchanged env host change)
    (\<lambda>_ w'. files w p = ch_published change \<and> files w' p = ch_original change \<and> locks w' = locks w)
    (\<lambda>_ w'. files w' p = files w p \<and> locks w' = locks w) w"
  unfolding rollback_if_unchanged_def
proof (rule wp_guarded [where p = p])
  assume l: "locks w (guard_path p) = None"
  show "wp (rollback_locked env host p change)
     (\<lambda>a w'. files w p = ch_published change \<and> files (release_guard p w') p = ch_original change \<and>
        locks (release_guard p w') = locks w)
     (\<lambda>e w'. files (release_guard p w') p = files w p \<and> locks (release_guard p w') = locks w) (guarded env p w)"
  proof -
    have "wp (atomic_write_config env host p bytes)
       (\<lambda>a w'. files w' p = Some bytes \<and> (locks w')(guard_path p := None) = locks w)
       (\<lambda>e w'. files w' p = files w p \<and> (locks w')(guard_path p := None) = locks w) (guarded env p w)" for bytes
      by (rule wp_mono [OF wp_atomic_write [OF assms(2)]]) (use l in \<open>auto simp: locks_released\<close>)
    with l show ?thesis
      by (auto simp: rollback_locked_def wp_rules locks_released split: option.splits)
  qed
qed (use assms(1) in simp_all)

section \<open>Nothing fails: the change is saved\<close>

text \<open>The host and the file system raise no error and the temporary name is free.\<close>

definition willing :: "environment \<Rightarrow> config_host \<Rightarrow> path \<Rightarrow> world \<Rightarrow> bool" where
  "willing env host p w \<longleftrightarrow>
     (\<forall>op q tr. file_fault env op q tr = None) \<and> (\<forall>q tr. owner_fault host q tr = None) \<and>
     (\<forall>tr. decls_at host p tr = Inr None) \<and> file_name p \<noteq> [] \<and>
     (\<forall>n. files w (settings_temp_path env p n) = None)"

lemma temp_not_guard [simp]: "settings_temp_path env p n \<noteq> guard_path p"
proof -
  have "hd (rev (settings_temp_path env p n)) \<noteq> hd (rev (guard_path p))"
    by (simp add: settings_temp_path_def guard_path_def with_file_name_def LOCK_FILE_SUFFIX_def)
  then show ?thesis by metis
qed

lemma atomic_write_works:
  assumes "willing env host p w" and "undisturbed_config host p"
  shows "wp (atomic_write_config env host p c) (\<lambda>_ _. True) (\<lambda>_ _. False) w"
proof -
  have "wp (publish_or_clean_up env host temp p existed c) (\<lambda>_ _. True) (\<lambda>_ _. False) w1" for temp existed w1
    using assms unfolding publish_or_clean_up_def publish_temp_def willing_def undisturbed_config_def
    by (simp add: wp_rules)
  moreover have "wp (\<lambda>w. (follow_link host p (trace w), w)) Q E w = Q p w" for Q E and w :: world
    using assms(2) by (simp add: wp_def undisturbed_config_def)
  ultimately show ?thesis
    using assms(1) unfolding atomic_write_config_def willing_def by (simp add: wp_rules)
qed

lemma save_works:
  assumes "willing env host p w" and "undisturbed_config host p" and "ed_original ed = files w p"
  shows "wp (save_locked env host p ed) (\<lambda>_ _. True) (\<lambda>_ _. False) w"
  using assms atomic_write_works [OF assms(1,2)]
  by (simp add: save_locked_def wp_rules undisturbed_config_def willing_def)

lemma sound_edit: "sound_mutation m \<Longrightarrow> \<exists>changed ed'. edit_mutation m ed = Inr (changed, ed')"
  by (cases "mut_action m")
    (auto simp: sound_mutation_def edit_mutation_def new_value_def split: option.splits prod.splits)

lemma persist_works:
  assumes "canonical_config host path p" and "sound_mutation m" and "willing env host p w" and "locks w (guard_path p) = None"
  shows "wp (persist_settings_mutation env host path m) (\<lambda>_ _. True) (\<lambda>_ _. False) w"
proof -
  let ?ed = "case files w p of None \<Rightarrow> editor_empty p | Some c \<Rightarrow> (editor_parse p c)\<lparr>ed_allow_missing := False\<rparr>"
  obtain changed ed' where e: "edit_mutation m ?ed = Inr (changed, ed')" using sound_edit [OF assms(2)] by blast
  have u: "undisturbed_config host p" and g: "guard_target host path (trace w) = Inr p"
    using assms(1) by (auto simp: canonical_config_def)
  have w: "willing env host p (guarded env p w)"
    using assms(3) unfolding willing_def by simp
  show ?thesis
    unfolding persist_settings_mutation_def
  proof (rule wp_guarded [where p = p])
    have "wp (if changed then save_locked env host p ed' else returnE ()) (\<lambda>_ _. True) (\<lambda>_ _. False) (guarded env p w)"
      using save_works [OF w u] edit_loaded(2) [OF assms(2) e refl] by (simp add: wp_rules)
    then show "wp (persist_locked env host p m) (\<lambda>_ _. True) (\<lambda>_ _. False) (guarded env p w)"
      using assms(3) e by (auto simp: persist_locked_def willing_def wp_rules wp_return_eta split: option.splits)
  qed (use g assms(4) in simp_all)
qed

lemma rollback_works:
  assumes "\<forall>tr. guard_target host (ch_path change) tr = Inr p" and "undisturbed_config host p"
    and "willing env host p w" and "locks w (guard_path p) = None" and "files w p = ch_published change"
    and "ch_published change \<noteq> None"
  shows "wp (rollback_if_unchanged env host change) (\<lambda>_ _. True) (\<lambda>_ _. False) w"
  unfolding rollback_if_unchanged_def
proof (rule wp_guarded [where p = p])
  have w: "willing env host p (guarded env p w)"
    using assms(3) unfolding willing_def by simp
  show "wp (rollback_locked env host p change) (\<lambda>_ _. True) (\<lambda>_ _. False) (guarded env p w)"
    using assms(3,5,6) atomic_write_works [OF w assms(2)]
    by (auto simp: rollback_locked_def willing_def wp_rules split: option.splits)
qed (use assms(1,4) in simp_all)

section \<open>What saving a setting promises\<close>

text \<open>
  C6. Saving a setting is all or nothing. While no program that ignores the lock writes to the configuration,
  and whatever write, sync or rename fails and whatever the declarations say, the lock is released again; an error leaves the bytes of the configuration as they were; and on
  success the file holds the requested assignment and every other assignment it had, the bytes reported
  as published, and no other file of the directory was touched (the lock file apart).
\<close>

theorem persist_all_or_nothing:
  assumes "canonical_config host path p" and "sound_mutation m"
    and "persist_settings_mutation env host path m w = (r, w')"
  shows "all_or_nothing p m w r w'"
  using wp_result [OF wp_persist [OF assms(1,2)] assms(3)] by (cases r) simp_all

text \<open>
  C30. A change that is taken back is taken back byte for byte. After a saved change, and whatever happened to
  the world since, a rollback that reports success found exactly the bytes the change had published and
  leaves the configuration as it was before the change; one that reports an error leaves the file as it
  found it; in particular an edit by somebody else in between is never overwritten.
\<close>

theorem rollback_restores_bytes:
  assumes "canonical_config host path p" and "sound_mutation m"
    and "persist_settings_mutation env host path m w = (Inr change, w1)" and "ch_file_changed change"
    and "rollback_if_unchanged env host change w2 = (r, w3)"
  shows "(case r of Inr _ \<Rightarrow> files w2 p = files w1 p \<and> files w3 p = files w p | Inl _ \<Rightarrow> files w3 p = files w2 p) \<and>
    locks w3 = locks w2"
proof -
  have c: "ch_path change = p" "ch_original change = files w p" "ch_published change = files w1 p"
    using wp_result [OF wp_persist [OF assms(1,2)] assms(3)] assms(4) by (simp_all add: all_or_nothing_def)
  have g: "\<forall>tr. guard_target host (ch_path change) tr = Inr p" "undisturbed_config host p"
    using assms(1) c(1) by (auto simp: canonical_config_def)
  show ?thesis using wp_result [OF wp_rollback [OF g] assms(5)] c by (auto split: sum.splits)
qed

lemma persist_race:
  assumes "\<forall>tr. guard_target host path tr = Inr p" and "sound_mutation m"
    and "meddle host (trace w) (files (guarded env p w)) p = found"
  shows "wp (persist_settings_mutation env host path m)
    (\<lambda>change w'. (ch_file_changed change \<longrightarrow> found = files w p) \<and> (\<not> ch_file_changed change \<longrightarrow> files w' p = files w p))
    (\<lambda>_ w'. found \<noteq> files w p \<longrightarrow> files w' p = files w p \<or> files w' p = found) w"
  unfolding persist_settings_mutation_def
proof (rule wp_guarded [where p = p])
  let ?w = "guarded env p w"
  let ?Q = "\<lambda>change w'. (ch_file_changed change \<longrightarrow> found = files w p) \<and>
    (\<not> ch_file_changed change \<longrightarrow> files (release_guard p w') p = files w p)"
  let ?E = "\<lambda>e w'. found \<noteq> files w p \<longrightarrow> files (release_guard p w') p = files w p \<or> files (release_guard p w') p = found"
  have save: "wp (save_locked env host p ed) (\<lambda>_ _. found = files w p) ?E ?w"
    if "ed_original ed = files w p" "\<not> ed_allow_missing ed" for ed
  proof (cases "found = files w p")
    case True
    then show ?thesis by (simp add: wp_def split: prod.splits sum.splits)
  next
    case False
    then show ?thesis
      using that by (auto simp: save_locked_def wp_rules assms(3) split: option.splits)
  qed
  have edit: "wp (bindE (liftR (edit_mutation m ed)) (\<lambda>(file_changed, ed').
     thenE (if file_changed then save_locked env host p ed' else returnE ())
       (returnE (change_of m file_changed ed')))) ?Q ?E ?w"
    if ed: "ed = (case files w p of None \<Rightarrow> editor_empty p | Some c \<Rightarrow> (editor_parse p c)\<lparr>ed_allow_missing := False\<rparr>)" for ed
  proof (cases "edit_mutation m ed")
    case (Inr r)
    obtain changed ed' where r: "r = (changed, ed')" by (cases r)
    note e = edit_loaded [OF assms(2) Inr [unfolded r] ed]
    show ?thesis
      by (cases changed) (use save [of ed'] e in \<open>simp_all add: Inr r wp_rules wp_return_eta change_of_def\<close>)
  qed (simp add: wp_rules)
  show "wp (persist_locked env host p m) ?Q ?E ?w"
    unfolding persist_locked_def wp_thenE [of "ensure_mutable host p (def_key (mut_definition m))"]
      wp_bindE [of "editor_load env p"] wp_ensure_mutable wp_editor_load
    using edit by (auto split: sum.splits option.splits)
qed (use assms(1) in simp_all)

text \<open>
  C17. An edit made behind the lock before the save compares is not lost. Programs that do not take the lock
  may do anything to the files while a change is saved. If at the moment of the comparison the
  configuration no longer holds the bytes that were read (it was rewritten or removed), the change is
  refused, and afterwards the file holds the old bytes or what the comparison found; a success that wrote
  the file means that the comparison found exactly the bytes that were read, and a success that wrote
  nothing leaves them. An edit that falls between the comparison and the rename is outside of this.
\<close>

theorem concurrent_edit_survives:
  assumes "\<forall>tr. guard_target host path tr = Inr p" and "sound_mutation m"
    and "persist_settings_mutation env host path m w = (r, w')"
    and "meddle host (trace w) (files (guarded env p w)) p = found"
  shows "(case r of
      Inr change \<Rightarrow> if ch_file_changed change then found = files w p else files w' p = files w p
    | Inl _ \<Rightarrow> found \<noteq> files w p \<longrightarrow> files w' p = files w p \<or> files w' p = found)"
  using wp_result [OF persist_race [OF assms(1,2,4)] assms(3)] by (cases r) simp_all

section \<open>Saving at work\<close>

definition example_config_path :: path where "example_config_path = ''/c/config.env''"

definition example_host :: config_host where
  "example_host =
     \<lparr>guard_target = \<lambda>_ _. Inr example_config_path, decls_at = \<lambda>_ _. Inr None, decl_binding = \<lambda>p _. Inr p,
      follow_link = \<lambda>p _. Inr p, owner_fault = \<lambda>_ _. None, temp_number = \<lambda>_. 0, meddle = \<lambda>_ f. f\<rparr>"

definition example_files :: world where
  "example_files = fresh_world\<lparr>files := [example_config_path \<mapsto> example_contents]\<rparr>"

lemma example_canonical: "canonical_config example_host path example_config_path"
  by (simp add: canonical_config_def undisturbed_config_def example_host_def)

lemma example_willing: "willing calm example_host example_config_path example_files"
  using temp_not_config [of calm example_config_path]
  by (simp add: willing_def example_host_def example_files_def) (simp add: example_config_path_def file_name_def)

lemma example_sound: "sound_mutation example_timeout_mutation"
  using mutation_set_sound [OF example_mutation] by blast

lemma example_mutated:
  "mutated_entries example_timeout_mutation e ''screen_idle_timeout'' = Some ''900''"
  by (simp add: mutated_entries_def example_timeout_mutation_def setting_screen_IDLE_TIMEOUT_def
      show_int_def show_nat.simps digit_char_def)

lemma example_persists:
  "\<exists>change w'. persist_settings_mutation calm example_host ''config.env'' example_timeout_mutation example_files = (Inr change, w')"
proof -
  have "locks example_files (guard_path example_config_path) = None" by (simp add: example_files_def)
  from persist_works [OF example_canonical example_sound example_willing this, of "''config.env''"] show ?thesis
    by (auto simp: wp_def split: prod.splits sum.splits)
qed

lemma example_changes:
  assumes "all_or_nothing example_config_path example_timeout_mutation example_files (Inr change) w'"
  shows "ch_file_changed change"
    and "parse_config_entries (unwrap_or (files w' example_config_path) []) ''screen_idle_timeout'' = Some ''900''"
proof -
  show new: "parse_config_entries (unwrap_or (files w' example_config_path) []) ''screen_idle_timeout'' = Some ''900''"
    using assms example_mutated by (simp add: all_or_nothing_def)
  have "parse_config_entries (unwrap_or (files example_files example_config_path) []) ''screen_idle_timeout'' \<noteq> Some ''900''"
    by (simp add: example_files_def example_entries)
  with new assms show "ch_file_changed change" by (auto simp: all_or_nothing_def split: if_splits)
qed

theorem persist_all_or_nothing_witness:
  "\<exists>change w'. persist_settings_mutation calm example_host ''config.env'' example_timeout_mutation example_files = (Inr change, w') \<and>
     ch_file_changed change \<and>
     parse_config_entries (unwrap_or (files w' example_config_path) []) ''screen_idle_timeout'' = Some ''900'' \<and>
     locks w' = locks example_files"
proof -
  obtain change w' where r: "persist_settings_mutation calm example_host ''config.env'' example_timeout_mutation example_files = (Inr change, w')"
    using example_persists by blast
  note a = persist_all_or_nothing [OF example_canonical example_sound r]
  with r example_changes [OF a] show ?thesis by (auto simp: all_or_nothing_def)
qed

theorem rollback_restores_bytes_witness:
  "\<exists>change w1 w3. persist_settings_mutation calm example_host ''config.env'' example_timeout_mutation example_files = (Inr change, w1) \<and>
     rollback_if_unchanged calm example_host change w1 = (Inr (), w3) \<and>
     files w1 example_config_path \<noteq> files example_files example_config_path \<and>
     files w3 example_config_path = Some example_contents"
proof -
  obtain change w1 where r: "persist_settings_mutation calm example_host ''config.env'' example_timeout_mutation example_files = (Inr change, w1)"
    using example_persists by blast
  have a: "all_or_nothing example_config_path example_timeout_mutation example_files (Inr change) w1"
    using wp_result [OF wp_persist [OF example_canonical example_sound] r] by simp
  note c = example_changes [OF a]
  have "willing calm example_host example_config_path w1"
    using a example_willing unfolding willing_def by (simp add: all_or_nothing_def)
  moreover have "locks w1 (guard_path example_config_path) = None" "files w1 example_config_path = ch_published change"
    using a c(1) by (simp_all add: all_or_nothing_def example_files_def)
  moreover from this c(2) have "ch_published change \<noteq> None"
    by (cases "ch_published change") simp_all
  moreover have "undisturbed_config example_host example_config_path" "\<forall>tr. guard_target example_host (ch_path change) tr = Inr example_config_path"
    using example_canonical by (auto simp: canonical_config_def example_host_def)
  ultimately have "wp (rollback_if_unchanged calm example_host change) (\<lambda>_ _. True) (\<lambda>_ _. False) w1"
    by (intro rollback_works) simp_all
  then obtain w3 where r3: "rollback_if_unchanged calm example_host change w1 = (Inr (), w3)"
    by (auto simp: wp_def split: prod.splits sum.splits)
  have "parse_config_entries (unwrap_or (files example_files example_config_path) []) ''screen_idle_timeout'' \<noteq> Some ''900''"
    by (simp add: example_files_def example_entries)
  with c(2) have "files w1 example_config_path \<noteq> files example_files example_config_path" by metis
  moreover have "files w3 example_config_path = Some example_contents"
    using rollback_restores_bytes [OF example_canonical example_sound r c(1) r3] by (simp add: example_files_def)
  ultimately show ?thesis using r r3 by blast
qed

theorem concurrent_edit_survives_witness:
  "\<exists>r w'. persist_settings_mutation calm (example_host\<lparr>meddle := \<lambda>_ f. f(example_config_path \<mapsto> [])\<rparr>)
      ''config.env'' example_timeout_mutation example_files = (r, w') \<and>
     (case r of Inr change \<Rightarrow> \<not> ch_file_changed change | Inl _ \<Rightarrow> True) \<and>
     files w' example_config_path \<in> {Some example_contents, Some []}"
proof -
  let ?host = "example_host\<lparr>meddle := \<lambda>_ f. f(example_config_path \<mapsto> [])\<rparr>"
  obtain r w' where r: "persist_settings_mutation calm ?host ''config.env'' example_timeout_mutation example_files = (r, w')"
    by fastforce
  have "parse_config_entries example_contents ''screen_idle_timeout'' \<noteq> parse_config_entries [] ''screen_idle_timeout''"
    by (simp add: example_entries)
  then have d: "files example_files example_config_path \<noteq> Some []" by (auto simp: example_files_def)
  have "\<forall>tr. guard_target ?host ''config.env'' tr = Inr example_config_path"
    "meddle ?host (trace example_files) (files (guarded calm example_config_path example_files)) example_config_path = Some []"
    by (simp_all add: example_host_def)
  from concurrent_edit_survives [OF this(1) example_sound r this(2)] r d show ?thesis
    by (auto simp: example_files_def split: sum.splits if_splits)
qed

text \<open>The comparison and the rename are two steps: an edit that falls between them is overwritten.\<close>

definition late_host :: config_host where
  "late_host = example_host\<lparr>meddle := \<lambda>_ f.
     if f (settings_temp_path calm example_config_path 0) = None then f else f(example_config_path \<mapsto> ''theirs'')\<rparr>"

lemma late_edit_overwritten:
  assumes "ed_original ed = Some example_contents"
  shows "wp (save_locked calm late_host example_config_path ed)
      (\<lambda>_ w'. files w' example_config_path = Some (editor_render ed)) (\<lambda>_ _. False) example_files"
    and "meddle late_host tr (f(settings_temp_path calm example_config_path 0 \<mapsto> c)) example_config_path = Some ''theirs''"
proof -
  have n: "settings_temp_path calm example_config_path 0 \<noteq> example_config_path" by (rule temp_not_config)
  have link: "bindE (\<lambda>w. (follow_link late_host p (trace w), w)) g = g p" for p g
    by (simp add: fun_eq_iff bindE_def late_host_def example_host_def)
  have host: "decls_at late_host p tr = Inr None" "owner_fault late_host p tr = None" "temp_number late_host tr = 0"
    "meddle late_host tr = (\<lambda>f. if f (settings_temp_path calm example_config_path 0) = None then f
       else f(example_config_path \<mapsto> ''theirs''))" for p tr
    by (simp_all add: late_host_def example_host_def)
  have name: "file_name example_config_path \<noteq> []" by (simp add: example_config_path_def file_name_def)
  show "wp (save_locked calm late_host example_config_path ed)
      (\<lambda>_ w'. files w' example_config_path = Some (editor_render ed)) (\<lambda>_ _. False) example_files"
    unfolding save_locked_def atomic_write_config_def link publish_or_clean_up_def publish_temp_def
    using assms n n [THEN not_sym] name by (simp add: wp_rules host example_files_def)
  show "meddle late_host tr (f(settings_temp_path calm example_config_path 0 \<mapsto> c)) example_config_path = Some ''theirs''"
    using n [THEN not_sym] by (simp add: late_host_def)
qed

end
