(* ===== verification/Services.thy ===== *)
theory Services
  imports Settings_Store
begin

text \<open>
  Service control (\<open>settings/service.rs\<close>, \<open>setup.rs\<close>, \<open>setup/recovery.rs\<close>, \<open>setup/services.rs\<close> and the
  ownership answers of \<open>upgrade_preflight/package_ownership.rs\<close>). The trait \<open>ServiceController\<close> is the
  record \<open>controller\<close>; the production implementation runs \<open>systemctl\<close>, whose answers are the record
  \<open>systemctl\<close>: status queries, finished commands and unit properties, each a function of the history.
\<close>

section \<open>Who owns the installation\<close>

datatype PackageFamily = Dpkg | Rpm | Pacman

fun package_manager :: "PackageFamily \<Rightarrow> string" where
  "package_manager Dpkg = ''APT''"
| "package_manager Rpm = ''DNF''"
| "package_manager Pacman = ''pacman''"

datatype InstallationOwnership = NixStore | Bundle | Package PackageFamily | UnknownOwner

fun externally_updated :: "InstallationOwnership \<Rightarrow> bool" where
  "externally_updated NixStore = True"
| "externally_updated (Package Pacman) = True"
| "externally_updated _ = False"

definition NIX_GUIDANCE :: string where
  "NIX_GUIDANCE =
     ''This installation is managed by Nix. Update the LG Buddy flake input, then rebuild and activate your NixOS or Home Manager configuration (or update the owning Nix profile). Updating flake.lock alone does not replace the running application. LG Buddy'' @
     [CHR 39] @ ''s update checks and installer are not used for this installation.''"

fun update_install_guidance :: "InstallationOwnership \<Rightarrow> string option" where
  "update_install_guidance NixStore = Some NIX_GUIDANCE"
| "update_install_guidance Bundle = None"
| "update_install_guidance (Package Pacman) =
     Some (''This installation is managed by '' @ package_manager Pacman @
       ''. Use that package manager to install a suitable verified package from your package source or maintainer. LG Buddy cannot install package updates in this version.'')"
| "update_install_guidance (Package _) = None"
| "update_install_guidance UnknownOwner =
     Some ''LG Buddy could not verify how this installation is managed. Automatic installation is unavailable. Check the installation and its package source before updating.''"

text \<open>The \<open>unwrap\<close> in \<open>apply_check_timer\<close> is safe: every externally updated installation has guidance.\<close>

lemma external_has_guidance: "externally_updated own \<Longrightarrow> update_install_guidance own \<noteq> None"
  by (cases own rule: externally_updated.cases) auto

section \<open>Outcomes and the controller\<close>

datatype SettingsApplyOutcome =
    Restarted string
  | EnabledUnit string
  | EnabledStartedUnit string
  | DisabledStopped string
  | NotInstalled string
  | ServiceInactiveDisabled string
  | SkippedApply string
  | NoActionRequired

fun apply_outcome_display :: "SettingsApplyOutcome \<Rightarrow> string" where
  "apply_outcome_display (Restarted service) = ''restarted '' @ service"
| "apply_outcome_display (EnabledUnit unit) = ''enabled '' @ unit"
| "apply_outcome_display (EnabledStartedUnit unit) = ''enabled and started '' @ unit"
| "apply_outcome_display (DisabledStopped unit) = ''disabled and stopped '' @ unit"
| "apply_outcome_display (NotInstalled service) = service @ '' is not installed; change applies when it is installed''"
| "apply_outcome_display (ServiceInactiveDisabled service) =
     service @ '' is inactive and disabled; change applies when it is started''"
| "apply_outcome_display (SkippedApply reason) = reason"
| "apply_outcome_display NoActionRequired = ''no runtime apply action required''"

datatype UserServiceState = MissingService | InactiveDisabled | ActiveOrEnabled

datatype UserUnitEnableOutcome = EnabledOnly | EnabledStarted

type_synonym 'a service = "(world, SettingsError, 'a) eff"

record controller =
  update_ownership :: InstallationOwnership
  systemd_actions_disabled :: bool
  user_service_state :: "string \<Rightarrow> UserServiceState service"
  user_service_config_path :: "string \<Rightarrow> path service"
  user_service_is_active :: "string \<Rightarrow> bool service"
  restart_user_service :: "string \<Rightarrow> unit service"
  try_restart_user_service :: "string \<Rightarrow> unit service"
  stop_user_service :: "string \<Rightarrow> unit service"
  enable_start_user_unit :: "string \<Rightarrow> UserUnitEnableOutcome service"
  disable_stop_user_unit :: "string \<Rightarrow> unit service"
  user_unit_is_enabled :: "string \<Rightarrow> bool service"
  system_unit_is_enabled :: "string \<Rightarrow> bool service"
  reload_user_units :: "unit service"
  system_service_config_path :: "string \<Rightarrow> path service"
  system_lifecycle_is_active :: "bool service"
  start_system_lifecycle :: "unit service"

section \<open>The systemd controller\<close>

text \<open>
  \<open>sc_status\<close> is a bounded status query (timed out?, success of the exit status if there was one),
  \<open>sc_output\<close> a command run to its end, \<open>sc_slow\<close> whether it outlives the 90 seconds a setup flow
  observes it, \<open>sc_properties\<close> the properties \<open>Environment\<close>, \<open>EnvironmentFiles\<close> (their number) and
  \<open>UnsetEnvironment\<close> of a unit of the user's (true) or the system's manager.
\<close>

record systemctl =
  sc_status :: "string list \<Rightarrow> effect list \<Rightarrow> bool \<times> bool option"
  sc_output :: "string list \<Rightarrow> effect list \<Rightarrow> io_error + command_output"
  sc_slow :: "string list \<Rightarrow> effect list \<Rightarrow> bool"
  sc_locked :: bool
  sc_skip :: bool
  sc_owner :: InstallationOwnership
  sc_properties :: "bool \<Rightarrow> string \<Rightarrow> effect list \<Rightarrow> string + (string list \<times> nat \<times> string list)"
  sc_is_file :: "path \<Rightarrow> effect list \<Rightarrow> bool"

definition env_truthy :: "environment \<Rightarrow> string \<Rightarrow> bool" where
  "env_truthy env name =
     (case env_var env name of
        Some value \<Rightarrow> value \<in> set [''1'', ''true'', ''TRUE'', ''True'', ''yes'', ''YES'', ''Yes'']
      | None \<Rightarrow> False)"

definition query_status :: "bool \<times> bool option \<Rightarrow> io_error + bool" where
  "query_status result =
     (if fst result then Inl (IoError OtherKind ''service inspection timed out'')
      else case snd result of
             Some success \<Rightarrow> Inr success
           | None \<Rightarrow> Inl (IoError OtherKind ''service inspection could not run''))"

definition run_status :: "systemctl \<Rightarrow> string list \<Rightarrow> (world, io_error, bool) eff" where
  "run_status sc args = askE (\<lambda>h. query_status (sc_status sc args h)) (StatusQueried args)"

definition user_systemctl_status :: "systemctl \<Rightarrow> string list \<Rightarrow> bool service" where
  "user_systemctl_status sc args =
     mapErrE (\<lambda>e. Settings_Activation
         (''could not inspect user service ('' @ join_with '' '' args @ ''): '' @ io_message e))
       (run_status sc (''--user'' # args))"

definition systemctl_status :: "systemctl \<Rightarrow> string list \<Rightarrow> bool service" where
  "systemctl_status sc args =
     mapErrE (\<lambda>e. Settings_Activation
         (''could not inspect system service ('' @ join_with '' '' args @ ''): '' @ io_message e))
       (run_status sc args)"

definition format_command_failure :: "string \<Rightarrow> command_output \<Rightarrow> string" where
  "format_command_failure command output =
     (let status = (case out_code output of Some code \<Rightarrow> show_int code | None \<Rightarrow> ''signal'');
          stdout = trim (out_stdout output); stderr = trim (out_stderr output)
      in command @ '' exited with status '' @ status @
         (if stdout = [] \<and> stderr = [] then []
          else if stderr = [] then '': '' @ stdout
          else if stdout = [] then '': '' @ stderr
          else '': '' @ stderr @ ''; '' @ stdout))"

text \<open>Without a setup lease the command is waited for; with one only for 90 seconds.\<close>

definition observe_mutation :: "systemctl \<Rightarrow> string list \<Rightarrow> command_output service" where
  "observe_mutation sc args =
     (\<lambda>w. case sc_output sc args (trace w) of
        Inl e \<Rightarrow> (Inl (Settings_Apply (io_message e)), emit (CommandRan args (Inl e)) w)
      | Inr output \<Rightarrow>
          if sc_locked sc \<and> sc_slow sc args (trace w)
          then (Inl Settings_SetupInProgress, emit (CommandRan args (Inr output)) w)
          else (Inr output, emit (CommandRan args (Inr output)) w))"

definition run_user_systemctl :: "systemctl \<Rightarrow> string list \<Rightarrow> unit service" where
  "run_user_systemctl sc args =
     bindE (observe_mutation sc (''--user'' # args)) (\<lambda>output.
       if out_code output = Some 0 then returnE ()
       else raiseE (Settings_Apply (format_command_failure ''systemctl'' output)))"

definition activation_result :: "string \<Rightarrow> command_output \<Rightarrow> SettingsError + unit" where
  "activation_result command output =
     (if out_code output = Some 0 then Inr ()
      else let message = format_command_failure command output in
        if command = ''pkexec'' \<and> out_code output = Some 126 then Inl Settings_ActivationCancelled
        else if command = ''pkexec'' \<and> out_code output = Some 127 then Inl (Settings_AuthorizationFailed message)
        else Inl (Settings_Activation message))"

definition sc_user_service_state :: "systemctl \<Rightarrow> string \<Rightarrow> UserServiceState service" where
  "sc_user_service_state sc service =
     bindE (user_systemctl_status sc [''cat'', service]) (\<lambda>known.
       if \<not> known then returnE MissingService
       else
         bindE (user_systemctl_status sc [''is-active'', ''--quiet'', service]) (\<lambda>active.
         bindE (user_systemctl_status sc [''is-enabled'', ''--quiet'', service]) (\<lambda>enabled.
           returnE (if active \<or> enabled then ActiveOrEnabled else InactiveDisabled))))"

definition sc_enable_start_user_unit :: "systemctl \<Rightarrow> string \<Rightarrow> UserUnitEnableOutcome service" where
  "sc_enable_start_user_unit sc unit =
     bindE (user_systemctl_status sc [''is-active'', ''--quiet'', ''graphical-session.target'']) (\<lambda>session_active.
     thenE (run_user_systemctl sc [''enable'', unit])
     (if session_active then thenE (run_user_systemctl sc [''start'', unit]) (returnE EnabledStarted)
      else returnE EnabledOnly))"

text \<open>
  \<open>configured_service_path\<close>: the last assignment of \<open>LG_BUDDY_CONFIG\<close> decides, unless it is unset again
  by name or by the whole assignment; environment files make the answer unverifiable.
\<close>

definition CONFIG_ASSIGNMENT :: string where "CONFIG_ASSIGNMENT = ''LG_BUDDY_CONFIG=''"

definition config_from_properties :: "string list \<Rightarrow> nat \<Rightarrow> string list \<Rightarrow> string + path" where
  "config_from_properties assignments env_files unset =
     (if env_files \<noteq> 0
      then Inl ''the service uses environment files; its configuration override could not be verified''
      else
        case find (\<lambda>a. starts_with a CONFIG_ASSIGNMENT) (rev assignments) of
          None \<Rightarrow> Inl ''the service does not declare LG_BUDDY_CONFIG''
        | Some assignment \<Rightarrow>
            if list_ex (\<lambda>removed. removed = ''LG_BUDDY_CONFIG'' \<or> removed = assignment) unset
            then Inl ''the service does not declare LG_BUDDY_CONFIG''
            else let p = drop (length CONFIG_ASSIGNMENT) assignment in
              if starts_with p ''/'' then Inr p
              else Inl (''the service'' @ [CHR 39] @ ''s LG_BUDDY_CONFIG is not an absolute path''))"

definition configured_service_path :: "systemctl \<Rightarrow> bool \<Rightarrow> string \<Rightarrow> path service" where
  "configured_service_path sc user_manager service =
     mapErrE (\<lambda>e. Settings_Activation
         (''could not verify '' @ service @ [CHR 39] @ ''s configuration: '' @ e))
       (askE (\<lambda>h. case sc_properties sc user_manager service h of
                Inl e \<Rightarrow> Inl e
              | Inr (assignments, env_files, unset) \<Rightarrow> config_from_properties assignments env_files unset)
         (PathQueried service))"

definition LIFECYCLE_SERVICE :: string where "LIFECYCLE_SERVICE = ''LG_Buddy_lifecycle.service''"

definition sc_start_system_lifecycle :: "systemctl \<Rightarrow> unit service" where
  "sc_start_system_lifecycle sc =
     bindE (getsE (\<lambda>w. find (\<lambda>p. sc_is_file sc p (trace w))
              [''/usr/bin/systemctl'', ''/run/current-system/sw/bin/systemctl''])) (\<lambda>found.
       case found of
         None \<Rightarrow> raiseE (Settings_Activation ''systemctl was not found in a trusted system location'')
       | Some p \<Rightarrow>
           bindE (observe_mutation sc [''pkexec'', ''--disable-internal-agent'', p, ''start'', LIFECYCLE_SERVICE])
             (\<lambda>output. liftR (activation_result ''pkexec'' output)))"

definition systemd_controller :: "systemctl \<Rightarrow> controller" where
  "systemd_controller sc =
     \<lparr>update_ownership = sc_owner sc,
      systemd_actions_disabled = sc_skip sc,
      user_service_state = sc_user_service_state sc,
      user_service_config_path = configured_service_path sc True,
      user_service_is_active = (\<lambda>service. user_systemctl_status sc [''is-active'', ''--quiet'', service]),
      restart_user_service = (\<lambda>service. run_user_systemctl sc [''restart'', service]),
      try_restart_user_service = (\<lambda>service. run_user_systemctl sc [''try-restart'', service]),
      stop_user_service = (\<lambda>service. run_user_systemctl sc [''stop'', service]),
      enable_start_user_unit = sc_enable_start_user_unit sc,
      disable_stop_user_unit = (\<lambda>unit. run_user_systemctl sc [''disable'', ''--now'', unit]),
      user_unit_is_enabled = (\<lambda>unit. user_systemctl_status sc [''is-enabled'', ''--quiet'', unit]),
      system_unit_is_enabled = (\<lambda>unit. systemctl_status sc [''is-enabled'', ''--quiet'', unit]),
      reload_user_units = run_user_systemctl sc [''daemon-reload''],
      system_service_config_path = configured_service_path sc False,
      system_lifecycle_is_active = systemctl_status sc [''is-active'', ''--quiet'', LIFECYCLE_SERVICE],
      start_system_lifecycle = sc_start_system_lifecycle sc\<rparr>"

end
