(* ===== verification/Setup_Steps.thy ===== *)
theory Setup_Steps
  imports Services
begin

text \<open>
  Setup steps (\<open>setup.rs\<close>, \<open>setup/recovery.rs\<close>, \<open>setup/services.rs\<close>, \<open>settings/activation.rs\<close>): the
  responses of a step and what can be done about them, the cancellation boundary of an attempt, and the
  steps that inspect and start the screen service and the lifecycle service. The file-system questions a
  step asks are an \<open>install_host\<close>.
\<close>

section \<open>Responses and recovery\<close>

record UserFacingError =
  ufe_summary :: string
  ufe_detail :: string

datatype RecoveryCause =
    CauseInputRequired | CauseInvalidConfiguration | CauseInvalidEnvironment | CauseMissingIntegration
  | CauseMissingPayload | CauseAuthorizationDenied | CauseVerifierUnavailable | CauseIncompatibleState
  | CauseTemporaryFailure | CauseManagedInstallation | CauseUnsupportedInstallation | CauseBusy
  | CauseUnverified | CauseUnknown

datatype RepairBoundary =
    BoundaryUserInput | BoundaryLocalSetup | BoundarySessionService | BoundaryInstallation
  | BoundarySystemConfiguration | BoundaryUnknown

datatype RecoveryAction =
    ProvideInput | CorrectConfiguration | Repair | Retry | RestartSession | RepairExternally | Recheck
  | WaitAction | UnknownAction

record SetupRecovery =
  recovery_cause :: RecoveryCause
  recovery_boundary :: RepairBoundary
  recovery_action :: RecoveryAction

definition setup_recovery :: "RecoveryCause \<Rightarrow> RepairBoundary \<Rightarrow> RecoveryAction \<Rightarrow> SetupRecovery" where
  "setup_recovery c b a = \<lparr>recovery_cause = c, recovery_boundary = b, recovery_action = a\<rparr>"

definition warrants_notification :: "SetupRecovery \<Rightarrow> bool" where
  "warrants_notification r \<longleftrightarrow>
     recovery_cause r \<in> set [CauseInputRequired, CauseInvalidConfiguration, CauseInvalidEnvironment,
       CauseMissingIntegration, CauseMissingPayload, CauseAuthorizationDenied, CauseIncompatibleState,
       CauseManagedInstallation] \<and>
     recovery_action r \<notin> set [UnknownAction, WaitAction]"

definition can_repair_here :: "SetupRecovery \<Rightarrow> bool" where
  "can_repair_here r \<longleftrightarrow>
     recovery_cause r \<noteq> CauseUnknown \<and>
     recovery_boundary r \<in> set [BoundaryLocalSetup, BoundaryUserInput] \<and>
     recovery_action r \<in> set [Repair, ProvideInput, CorrectConfiguration, Retry]"

definition needs_attention :: "SetupRecovery \<Rightarrow> bool" where
  "needs_attention r \<longleftrightarrow> recovery_cause r \<noteq> CauseBusy"

definition check_label :: "SetupRecovery \<Rightarrow> string" where
  "check_label r = (if recovery_action r = Retry then ''Retry'' else ''Recheck'')"

record StepFailure =
  failure_presentation :: UserFacingError
  failure_diagnostic :: string
  failure_recovery :: SetupRecovery
  failure_retryable :: bool

text \<open>Revisions are digests of 32 bytes; a saved pairing request is the address and MAC it was made for.\<close>

datatype StepInput =
    CorrectTv string string HdmiInput "u8 list"
  | UpdatePreference "u8 list"
  | PairingInput "(Ipv4Addr \<times> MacAddress) option"
  | BuildDependencies string

datatype StepResponse =
    Complete
  | NotApplicable
  | InputRequired StepInput
  | ActionRequired string bool
  | RunningStep string bool
  | CancelledStep
  | BlockedStep StepFailure
  | FailedStep StepFailure

definition authorization_failed :: "string \<Rightarrow> StepResponse" where
  "authorization_failed diagnostic =
     FailedStep
       \<lparr>failure_presentation =
          \<lparr>ufe_summary = ''Administrator permission wasn'' @ [CHR 39] @ ''t granted'',
           ufe_detail = ''Retry to authorize setup, or cancel and complete setup later.''\<rparr>,
        failure_diagnostic = diagnostic,
        failure_recovery = setup_recovery CauseAuthorizationDenied BoundaryLocalSetup Retry,
        failure_retryable = True\<rparr>"

fun recovery :: "StepResponse \<Rightarrow> SetupRecovery option" where
  "recovery Complete = None"
| "recovery NotApplicable = None"
| "recovery (InputRequired (CorrectTv _ _ _ _)) =
     Some (setup_recovery CauseInvalidConfiguration BoundaryUserInput CorrectConfiguration)"
| "recovery (InputRequired (UpdatePreference _)) =
     Some (setup_recovery CauseInvalidConfiguration BoundaryUserInput CorrectConfiguration)"
| "recovery (InputRequired _) = Some (setup_recovery CauseInputRequired BoundaryUserInput ProvideInput)"
| "recovery (ActionRequired _ _) = Some (setup_recovery CauseMissingIntegration BoundaryLocalSetup Repair)"
| "recovery (FailedStep failure) = Some (failure_recovery failure)"
| "recovery (BlockedStep failure) = Some (failure_recovery failure)"
| "recovery (RunningStep _ _) = Some (setup_recovery CauseBusy BoundaryLocalSetup WaitAction)"
| "recovery CancelledStep = Some (setup_recovery CauseUnverified BoundaryLocalSetup Recheck)"

section \<open>The cancellation boundary of an attempt\<close>

datatype StepCancellation = Available | Cancelled | Running | Finished

definition can_cancel :: "StepCancellation \<Rightarrow> bool" where
  "can_cancel c \<longleftrightarrow> c = Available"

text \<open>Each operation answers what the code's compare-and-exchange answers, with the state after it.\<close>

definition step_cancel :: "StepCancellation \<Rightarrow> bool \<times> StepCancellation" where
  "step_cancel c = (if c = Available then (True, Cancelled) else (False, c))"

definition is_cancelled :: "StepCancellation \<Rightarrow> bool" where
  "is_cancelled c \<longleftrightarrow> c = Cancelled"

definition step_begin :: "StepCancellation \<Rightarrow> bool \<times> StepCancellation" where
  "step_begin c = (if c = Available then (True, Running) else (False, c))"

definition step_protect :: "StepCancellation \<Rightarrow> bool \<times> StepCancellation" where
  "step_protect c = (let (ok, c') = step_begin c in (ok \<or> c' = Running, c'))"

definition step_finish :: "StepCancellation \<Rightarrow> StepCancellation" where
  "step_finish c = Finished"

definition finish_and_was_cancelled :: "StepCancellation \<Rightarrow> bool \<times> StepCancellation" where
  "finish_and_was_cancelled c = (c = Cancelled, Finished)"

section \<open>The service steps\<close>

record install_host =
  ih_is_file :: "path \<Rightarrow> effect list \<Rightarrow> bool"
  ih_regular :: "path \<Rightarrow> effect list \<Rightarrow> io_error + bool"
  ih_canonical :: "path \<Rightarrow> effect list \<Rightarrow> io_error + path"
  ih_binding :: "path \<Rightarrow> effect list \<Rightarrow> io_error + path option"

datatype ServiceStep = ScreenStep | LifecycleStep

definition SCREEN_SERVICE :: string where "SCREEN_SERVICE = ''LG_Buddy_screen.service''"
definition INSTALL_CONFIG_POINTER :: string where "INSTALL_CONFIG_POINTER = ''/etc/lg-buddy/config-path''"
definition LIFECYCLE_UNIT :: string where "LIFECYCLE_UNIT = ''/etc/systemd/system/LG_Buddy_lifecycle.service''"
definition NETWORK_MANAGER_HOOK :: string where
  "NETWORK_MANAGER_HOOK = ''/etc/NetworkManager/dispatcher.d/pre-down.d/LG_Buddy_lifecycle''"
definition VENDOR_UNIT :: string where "VENDOR_UNIT = ''/usr/lib/systemd/system/LG_Buddy_lifecycle.service''"
definition VENDOR_HOOK :: string where
  "VENDOR_HOOK = ''/usr/lib/NetworkManager/dispatcher.d/pre-down.d/LG_Buddy_lifecycle''"

definition prefixed_path :: "path option \<Rightarrow> path \<Rightarrow> path" where
  "prefixed_path root p =
     (case root of Some r \<Rightarrow> path_join r (dropWhile (\<lambda>c. c = CHR ''/'') p) | None \<Rightarrow> p)"

definition hostE :: "(effect list \<Rightarrow> io_error + 'a) \<Rightarrow> (string \<Rightarrow> string) \<Rightarrow> 'a service" where
  "hostE ask message = (\<lambda>w. (case ask (trace w) of
     Inl e \<Rightarrow> Inl (Settings_Activation (message (io_message e))) | Inr a \<Rightarrow> Inr a, w))"

definition validate_matching_config :: "install_host \<Rightarrow> path \<Rightarrow> path \<Rightarrow> unit service" where
  "validate_matching_config ih config_path service_config =
     bindE (hostE (ih_canonical ih service_config)
        (\<lambda>e. ''the service'' @ [CHR 39] @ ''s configuration could not be resolved: '' @ e)) (\<lambda>a.
     bindE (hostE (ih_canonical ih config_path)
        (\<lambda>e. ''the active configuration could not be resolved: '' @ e)) (\<lambda>b.
       if a \<noteq> b
       then raiseE (Settings_Activation
         (''the service'' @ [CHR 39] @ ''s configuration does not match the active configuration.''))
       else returnE ()))"

definition require_regular :: "install_host \<Rightarrow> path \<Rightarrow> string \<Rightarrow> unit service" where
  "require_regular ih p label =
     bindE (hostE (ih_regular ih p) (\<lambda>e. label @ '' could not be read: '' @ e)) (\<lambda>regular.
       if \<not> regular then raiseE (Settings_Activation (label @ '' is not a regular file.'')) else returnE ())"

definition validate_sleep_installation :: "install_host \<Rightarrow> path option \<Rightarrow> bool \<Rightarrow> unit service" where
  "validate_sleep_installation ih root vendor =
     (let (unit, hook) = (if vendor then (VENDOR_UNIT, VENDOR_HOOK) else (LIFECYCLE_UNIT, NETWORK_MANAGER_HOOK))
      in thenE (require_regular ih (prefixed_path root unit) ''the installed lifecycle service'')
           (require_regular ih (prefixed_path root hook) ''the installed NetworkManager sleep hook''))"

definition validate_config_pointer :: "install_host \<Rightarrow> path \<Rightarrow> path option \<Rightarrow> unit service" where
  "validate_config_pointer ih config_path root =
     bindE (hostE (ih_binding ih (prefixed_path root INSTALL_CONFIG_POINTER))
        (\<lambda>e. ''the machine configuration binding could not be read: '' @ e)) (\<lambda>bound.
     case bound of
       None \<Rightarrow> raiseE (Settings_Activation ''the machine configuration binding is missing'')
     | Some pointer \<Rightarrow>
         bindE (hostE (ih_canonical ih pointer)
            (\<lambda>e. ''the installed configuration target could not be resolved: '' @ e)) (\<lambda>a.
         bindE (hostE (ih_canonical ih config_path)
            (\<lambda>e. ''the active configuration could not be resolved: '' @ e)) (\<lambda>b.
           if a \<noteq> b
           then raiseE (Settings_Activation
             ''the installed configuration pointer does not match the active configuration.'')
           else returnE ())))"

definition step_failure :: "ServiceStep \<Rightarrow> string \<Rightarrow> string \<Rightarrow> bool \<Rightarrow> SetupRecovery \<Rightarrow> StepFailure" where
  "step_failure step detail diagnostic retryable r =
     \<lparr>failure_presentation =
        \<lparr>ufe_summary = (case step of
            ScreenStep \<Rightarrow> ''Screen service setup incomplete''
          | LifecycleStep \<Rightarrow> ''System service setup incomplete''),
         ufe_detail = detail\<rparr>,
      failure_diagnostic = diagnostic, failure_recovery = r, failure_retryable = retryable\<rparr>"

definition step_failed :: "ServiceStep \<Rightarrow> string \<Rightarrow> string \<Rightarrow> StepResponse" where
  "step_failed step detail diagnostic =
     FailedStep (step_failure step detail diagnostic True
       (setup_recovery CauseTemporaryFailure BoundaryLocalSetup Retry))"

definition step_blocked :: "ServiceStep \<Rightarrow> string \<Rightarrow> string \<Rightarrow> SetupRecovery \<Rightarrow> StepResponse" where
  "step_blocked step detail diagnostic r = BlockedStep (step_failure step detail diagnostic False r)"

definition missing_integration :: SetupRecovery where
  "missing_integration = setup_recovery CauseMissingIntegration BoundaryLocalSetup Repair"

definition not_installed :: StepResponse where
  "not_installed =
     (let m = ''LG Buddy'' @ [CHR 39] @ ''s screen service is not installed.''
      in step_blocked ScreenStep m m missing_integration)"

text \<open>The end of \<open>inspect\<close>: what the activity query answered.\<close>

definition inspect_ready :: "controller \<Rightarrow> ServiceStep \<Rightarrow> SettingsError + bool \<Rightarrow> StepResponse" where
  "inspect_ready services step ready =
     (case ready of
        Inr True \<Rightarrow> Complete
      | Inr False \<Rightarrow>
          if systemd_actions_disabled services
          then step_blocked step ''Service changes are disabled in this environment.''
            ''systemd actions are disabled; the service was not activated''
            (setup_recovery CauseUnsupportedInstallation BoundarySystemConfiguration RepairExternally)
          else ActionRequired
            (case step of
               ScreenStep \<Rightarrow> ''Start LG Buddy'' @ [CHR 39] @ ''s screen monitor.''
             | LifecycleStep \<Rightarrow> ''Start LG Buddy'' @ [CHR 39] @ ''s system service to follow computer sleep and wake.'')
            (step = LifecycleStep)
      | Inl error \<Rightarrow>
          step_failed step (''The service'' @ [CHR 39] @ ''s current state could not be checked.'')
            (settings_error_display error))"

definition inspect_screen :: "install_host \<Rightarrow> controller \<Rightarrow> path \<Rightarrow> (world, unit, StepResponse) eff" where
  "inspect_screen ih services config_path =
     bindE (tryE (bindE (user_service_config_path services SCREEN_SERVICE) (validate_matching_config ih config_path)))
       (\<lambda>config. case config of
          Inl error \<Rightarrow> returnE (step_failed ScreenStep
            (''The screen service'' @ [CHR 39] @ ''s configuration could not be verified.'') (settings_error_display error))
        | Inr _ \<Rightarrow>
     bindE (tryE (user_service_state services SCREEN_SERVICE)) (\<lambda>state. case state of
          Inr MissingService \<Rightarrow> returnE not_installed
        | Inl error \<Rightarrow> returnE (step_failed ScreenStep ''The screen service could not be inspected.''
            (settings_error_display error))
        | Inr _ \<Rightarrow>
     bindE (tryE (user_service_is_active services SCREEN_SERVICE)) (\<lambda>ready.
       returnE (inspect_ready services ScreenStep ready))))"

definition inspect_lifecycle ::
    "install_host \<Rightarrow> controller \<Rightarrow> path \<Rightarrow> path option \<Rightarrow> (world, unit, StepResponse) eff" where
  "inspect_lifecycle ih services config_path root =
     bindE (getsE (\<lambda>w. ih_is_file ih (prefixed_path root VENDOR_UNIT) (trace w))) (\<lambda>vendor.
     bindE (tryE
        (thenE (validate_config_pointer ih config_path root)
        (thenE (if vendor
                then bindE (system_service_config_path services LIFECYCLE_SERVICE) (validate_matching_config ih config_path)
                else returnE ())
          (validate_sleep_installation ih root vendor)))) (\<lambda>binding. case binding of
       Inl error \<Rightarrow> returnE (step_blocked LifecycleStep
         (''LG Buddy'' @ [CHR 39] @ ''s system service installation needs repair.'')
         (settings_error_display error) missing_integration)
     | Inr _ \<Rightarrow>
     bindE (tryE (system_lifecycle_is_active services)) (\<lambda>ready.
       returnE (inspect_ready services LifecycleStep ready))))"

definition inspect ::
    "install_host \<Rightarrow> controller \<Rightarrow> path \<Rightarrow> path option \<Rightarrow> ServiceStep \<Rightarrow> (world, unit, StepResponse) eff" where
  "inspect ih services config_path root step =
     (case step of
        ScreenStep \<Rightarrow> inspect_screen ih services config_path
      | LifecycleStep \<Rightarrow> inspect_lifecycle ih services config_path root)"

definition start_screen :: "controller \<Rightarrow> unit service" where
  "start_screen services =
     thenE (enable_start_user_unit services SCREEN_SERVICE)
    (bindE (user_service_is_active services SCREEN_SERVICE) (\<lambda>active.
       if \<not> active then restart_user_service services SCREEN_SERVICE else returnE ()))"

fun is_action_required :: "StepResponse \<Rightarrow> bool" where
  "is_action_required (ActionRequired _ _) = True"
| "is_action_required _ = False"

fun start_error :: "ServiceStep \<Rightarrow> SettingsError \<Rightarrow> StepResponse" where
  "start_error step Settings_ActivationCancelled = CancelledStep"
| "start_error step (Settings_AuthorizationFailed message) = authorization_failed message"
| "start_error step error =
     step_failed step ''The service could not be started. Try again.'' (settings_error_display error)"

definition verify_started ::
    "install_host \<Rightarrow> controller \<Rightarrow> path \<Rightarrow> path option \<Rightarrow> ServiceStep \<Rightarrow> (world, unit, StepResponse) eff" where
  "verify_started ih services config_path root step =
     bindE (inspect ih services config_path root step) (\<lambda>response.
       returnE (if is_action_required response
                then step_failed step ''The service did not become active. Try again.''
                  ''service start returned successfully but the service is still inactive''
                else response))"

definition execute_inner ::
    "install_host \<Rightarrow> controller \<Rightarrow> path \<Rightarrow> path option \<Rightarrow> ServiceStep \<Rightarrow> (world, unit, StepResponse) eff" where
  "execute_inner ih services config_path root step =
     bindE (inspect ih services config_path root step) (\<lambda>before.
       if \<not> is_action_required before then returnE before
       else
         bindE (tryE (case step of
             ScreenStep \<Rightarrow> start_screen services
           | LifecycleStep \<Rightarrow> start_system_lifecycle services)) (\<lambda>result. case result of
           Inl error \<Rightarrow> returnE (start_error step error)
         | Inr _ \<Rightarrow> verify_started ih services config_path root step))"

definition execute ::
    "install_host \<Rightarrow> controller \<Rightarrow> path \<Rightarrow> path option \<Rightarrow> ServiceStep \<Rightarrow> StepCancellation \<Rightarrow>
      (world, unit, StepResponse \<times> StepCancellation) eff" where
  "execute ih services config_path root step cancellation =
     (case step_begin cancellation of
        (False, c) \<Rightarrow>
          returnE (if is_cancelled c then CancelledStep
                   else step_blocked step ''This setup attempt has already started.''
                     ''service activation attempt cannot be executed twice''
                     (setup_recovery CauseBusy BoundaryLocalSetup WaitAction), c)
      | (True, c) \<Rightarrow>
          thenE (modifyE (emit (Progressed (''Activating LG Buddy services'' @ [CHR 0xE2, CHR 0x80, CHR 0xA6]))))
         (bindE (execute_inner ih services config_path root step) (\<lambda>response.
            returnE (response, step_finish c))))"

section \<open>Activating before a setting is saved\<close>

definition step_of_mutation :: "SettingsMutation \<Rightarrow> ServiceStep option" where
  "step_of_mutation m =
     (if (case new_value m of Inr v \<Rightarrow> as_enum v | Inl _ \<Rightarrow> None) \<noteq> Some ''enabled'' then None
      else if def_key (mut_definition m) = ''screen.idle_blank'' then Some ScreenStep
      else if def_key (mut_definition m) = ''system.sleep_wake_policy'' then Some LifecycleStep
      else None)"

fun activation_answer :: "StepResponse \<Rightarrow> SettingsError + unit" where
  "activation_answer Complete = Inr ()"
| "activation_answer CancelledStep = Inl Settings_ActivationCancelled"
| "activation_answer (BlockedStep failure) = Inl (Settings_Activation (failure_diagnostic failure))"
| "activation_answer (FailedStep failure) = Inl (Settings_Activation (failure_diagnostic failure))"
| "activation_answer _ = Inl (Settings_Activation ''Service setup did not complete.'')"

definition activate_before_persist ::
    "install_host \<Rightarrow> controller \<Rightarrow> path option \<Rightarrow> path \<Rightarrow> SettingsMutation \<Rightarrow> unit service" where
  "activate_before_persist ih services root config_path m =
     (case step_of_mutation m of
        None \<Rightarrow> returnE ()
      | Some step \<Rightarrow>
          bindE (mapErrE (\<lambda>_. Settings_SetupInProgress) (execute ih services config_path root step Available))
            (\<lambda>(response, _). liftR (activation_answer response)))"

section \<open>Steps leave the files alone\<close>

definition same_files :: "world \<Rightarrow> world \<Rightarrow> bool" where
  "same_files w w' \<longleftrightarrow> files w' = files w \<and> locks w' = locks w \<and> (\<exists>h. trace w' = h @ trace w)"

interpretation sf: world_preorder same_files
  by unfold_locales (auto simp: same_files_def)

text \<open>What a step relies on: no operation of the controller touches the program's files or locks.\<close>

locale passive_services =
  fixes services :: controller
  assumes state_passive: "stays same_files (user_service_state services s)"
    and config_path_passive: "stays same_files (user_service_config_path services s)"
    and active_passive: "stays same_files (user_service_is_active services s)"
    and restart_passive: "stays same_files (restart_user_service services s)"
    and enable_passive: "stays same_files (enable_start_user_unit services s)"
    and disable_passive: "stays same_files (disable_stop_user_unit services s)"
    and system_path_passive: "stays same_files (system_service_config_path services s)"
    and lifecycle_active_passive: "stays same_files (system_lifecycle_is_active services)"
    and start_lifecycle_passive: "stays same_files (start_system_lifecycle services)"
begin

lemmas controller_passive = state_passive config_path_passive active_passive restart_passive
  enable_passive disable_passive system_path_passive lifecycle_active_passive start_lifecycle_passive

lemma host_passive: "stays same_files (hostE ask message)"
  by (simp add: stays_def hostE_def sf.R_refl)

lemmas step_passive = controller_passive host_passive sf.stays_rules stays_if

lemma matching_passive: "stays same_files (validate_matching_config ih a b)"
  unfolding validate_matching_config_def by (intro step_passive)

lemma inspect_passive: "stays same_files (inspect ih services config_path root step)"
  unfolding inspect_def inspect_screen_def inspect_lifecycle_def validate_config_pointer_def
    validate_sleep_installation_def require_regular_def
  by (cases step) (auto intro!: step_passive matching_passive split: sum.splits option.splits UserServiceState.splits)

lemma start_passive: "stays same_files (start_screen services)"
  unfolding start_screen_def by (intro step_passive)

lemma execute_passive: "stays same_files (execute ih services config_path root step c)"
proof -
  have "stays same_files (execute_inner ih services config_path root step)"
    unfolding execute_inner_def verify_started_def
    by (auto intro!: step_passive inspect_passive start_passive split: sum.splits ServiceStep.splits)
  moreover have "stays same_files (modifyE (emit (Progressed s)))" for s
    by (rule sf.stays_modifyE) (simp add: same_files_def)
  ultimately show ?thesis
    unfolding execute_def by (auto intro!: step_passive split: prod.splits bool.splits)
qed

lemma activate_passive: "stays same_files (activate_before_persist ih services root config_path m)"
  unfolding activate_before_persist_def
  by (auto intro!: step_passive execute_passive split: option.splits prod.splits)

end

lemma ask_passive: "stays same_files (askE f g)"
  by (rule wp_stays) (simp add: wp_askE same_files_def split: sum.splits)

lemma observe_passive: "stays same_files (observe_mutation sc args)"
  by (auto simp: stays_def observe_mutation_def same_files_def split: sum.splits)

lemmas systemctl_passive = ask_passive observe_passive sf.stays_rules stays_if

interpretation sd: passive_services "systemd_controller sc" for sc
  by unfold_locales
    (auto simp: systemd_controller_def sc_user_service_state_def configured_service_path_def
       user_systemctl_status_def systemctl_status_def run_status_def run_user_systemctl_def
       sc_enable_start_user_unit_def sc_start_system_lifecycle_def
       intro!: systemctl_passive split: option.splits)

section \<open>Complete means verified\<close>

definition active_query :: "ServiceStep \<Rightarrow> string list" where
  "active_query step =
     (case step of
        ScreenStep \<Rightarrow> [''--user'', ''is-active'', ''--quiet'', SCREEN_SERVICE]
      | LifecycleStep \<Rightarrow> [''is-active'', ''--quiet'', LIFECYCLE_SERVICE])"

text \<open>The service was asked for its configuration, and that is the active one.\<close>

definition config_confirmed :: "install_host \<Rightarrow> path \<Rightarrow> effect list \<Rightarrow> bool" where
  "config_confirmed ih config h \<longleftrightarrow>
     (\<exists>p q h'. PathQueried SCREEN_SERVICE (Inr p) \<in> set h \<and> ih_canonical ih p h' = Inr q \<and> ih_canonical ih config h' = Inr q)"

definition verified :: "install_host \<Rightarrow> path \<Rightarrow> ServiceStep \<Rightarrow> world \<Rightarrow> bool" where
  "verified ih config step w \<longleftrightarrow>
     (\<exists>h. trace w = StatusQueried (active_query step) (Inr True) # h) \<and>
     (step = ScreenStep \<longrightarrow> config_confirmed ih config (trace w))"

lemma wp_hostE [wp_rules]:
  "wp (hostE ask message) Q E w =
     (case ask (trace w) of Inl e \<Rightarrow> E (Settings_Activation (message (io_message e))) w | Inr a \<Rightarrow> Q a w)"
  by (simp add: hostE_def wp_def split: sum.splits)

lemma inspect_ready_Complete: "inspect_ready services step ready = Complete \<longleftrightarrow> ready = Inr True"
  by (auto simp: inspect_ready_def step_blocked_def step_failed_def split: sum.splits bool.splits)

lemma wp_any: "wp m (\<lambda>_ _. True) (\<lambda>_ _. True) w"
  by (simp add: wp_def split: prod.splits sum.splits)

lemma active_verified:
  "wp (tryE (user_systemctl_status sc [''is-active'', ''--quiet'', SCREEN_SERVICE]))
     (\<lambda>r w'. r = Inr True \<longrightarrow> trace w' = StatusQueried (active_query ScreenStep) (Inr True) # trace w) E w"
  "wp (tryE (systemctl_status sc [''is-active'', ''--quiet'', LIFECYCLE_SERVICE]))
     (\<lambda>r w'. r = Inr True \<longrightarrow> trace w' = StatusQueried (active_query LifecycleStep) (Inr True) # trace w) E w"
  by (auto simp: user_systemctl_status_def systemctl_status_def run_status_def active_query_def wp_rules split: sum.splits)

lemma matching_confirmed:
  "wp (tryE (bindE (configured_service_path sc True SCREEN_SERVICE) (validate_matching_config ih config)))
     (\<lambda>r w'. r = Inr () \<longrightarrow> config_confirmed ih config (trace w')) E w"
  by (auto simp: configured_service_path_def validate_matching_config_def config_confirmed_def wp_rules
      split: sum.splits if_splits)

lemma confirmed_stays: "config_confirmed ih config (trace w) \<Longrightarrow> same_files w w' \<Longrightarrow> config_confirmed ih config (trace w')"
  by (auto simp: config_confirmed_def same_files_def) blast

lemma inspect_verified:
  "wp (inspect ih (systemd_controller sc) config root step) (\<lambda>r w'. r = Complete \<longrightarrow> verified ih config step w') (\<lambda>_ _. True) w"
proof (cases step)
  case ScreenStep
  let ?sc = "systemd_controller sc" and ?Q = "\<lambda>r w'. r = Complete \<longrightarrow> verified ih config ScreenStep w'"
  have last: "wp (bindE (tryE (user_service_is_active ?sc SCREEN_SERVICE)) (\<lambda>ready. returnE (inspect_ready ?sc ScreenStep ready)))
      ?Q (\<lambda>_ _. True) w2" if c: "config_confirmed ih config (trace w2)" for w2
  proof (rule wp_bindI)
    show "wp (tryE (user_service_is_active ?sc SCREEN_SERVICE))
      (\<lambda>r w'. r = Inr True \<longrightarrow> trace w' = StatusQueried (active_query ScreenStep) (Inr True) # trace w2) (\<lambda>_ _. True) w2"
      using active_verified(1) by (simp add: systemd_controller_def)
  qed (use c in \<open>auto simp: wp_rules inspect_ready_Complete verified_def config_confirmed_def\<close>)
  have mid: "wp (bindE (tryE (user_service_state ?sc SCREEN_SERVICE)) (\<lambda>state. case state of
          Inr MissingService \<Rightarrow> returnE not_installed
        | Inl error \<Rightarrow> returnE (step_failed ScreenStep ''The screen service could not be inspected.'' (settings_error_display error))
        | Inr _ \<Rightarrow>
            bindE (tryE (user_service_is_active ?sc SCREEN_SERVICE)) (\<lambda>ready. returnE (inspect_ready ?sc ScreenStep ready))))
      ?Q (\<lambda>_ _. True) w1" if c: "config_confirmed ih config (trace w1)" for w1
    by (rule wp_bindI [OF wp_mono [OF stays_wp [OF sf.stays_tryE [OF sd.state_passive]]]])
      (auto simp: wp_returnE not_installed_def step_blocked_def step_failed_def Let_def
         intro!: last confirmed_stays [OF c] split: sum.splits UserServiceState.splits)
  have "wp (inspect_screen ih ?sc config) ?Q (\<lambda>_ _. True) w"
    unfolding inspect_screen_def
  proof (rule wp_bindI)
    show "wp (tryE (bindE (user_service_config_path ?sc SCREEN_SERVICE) (validate_matching_config ih config)))
      (\<lambda>r w'. r = Inr () \<longrightarrow> config_confirmed ih config (trace w')) (\<lambda>_ _. True) w"
      using matching_confirmed by (simp add: systemd_controller_def)
  qed (use mid in \<open>auto simp: wp_returnE step_failed_def split: sum.split\<close>)
  then show ?thesis by (simp add: inspect_def ScreenStep)
next
  case LifecycleStep
  let ?sc = "systemd_controller sc"
  have last: "wp (bindE (tryE (system_lifecycle_is_active ?sc)) (\<lambda>ready. returnE (inspect_ready ?sc LifecycleStep ready)))
      (\<lambda>r w'. r = Complete \<longrightarrow> verified ih config LifecycleStep w') (\<lambda>_ _. True) w2" for w2
  proof (rule wp_bindI)
    show "wp (tryE (system_lifecycle_is_active ?sc))
      (\<lambda>r w'. r = Inr True \<longrightarrow> trace w' = StatusQueried (active_query LifecycleStep) (Inr True) # trace w2) (\<lambda>_ _. True) w2"
      using active_verified(2) by (simp add: systemd_controller_def)
  qed (auto simp: wp_rules inspect_ready_Complete verified_def)
  have "wp (inspect_lifecycle ih ?sc config root) (\<lambda>r w'. r = Complete \<longrightarrow> verified ih config LifecycleStep w') (\<lambda>_ _. True) w"
    unfolding inspect_lifecycle_def
    by (rule wp_bindI [OF wp_any], rule wp_bindI [OF wp_any])
      (use last in \<open>auto simp: wp_returnE step_blocked_def split: sum.split\<close>)
  then show ?thesis by (simp add: inspect_def LifecycleStep)
qed

lemma execute_verified:
  "wp (execute ih (systemd_controller sc) config root step c)
     (\<lambda>(r, c') w'. r = Complete \<longrightarrow> c = Available \<and> c' = Finished \<and> verified ih config step w') (\<lambda>_ _. True) w"
proof -
  let ?sc = "systemd_controller sc" and ?Q = "\<lambda>r w'. r = Complete \<longrightarrow> verified ih config step w'"
  have start: "start_error step e \<noteq> Complete" for e
    by (cases "(step, e)" rule: start_error.cases) (auto simp: authorization_failed_def step_failed_def)
  have check: "wp (verify_started ih ?sc config root step) ?Q (\<lambda>_ _. True) w3" for w3
    unfolding verify_started_def by (rule wp_bindI [OF inspect_verified]) (auto simp: wp_returnE step_failed_def)
  have "wp (bindE (tryE m) (\<lambda>result. case result of
           Inl error \<Rightarrow> returnE (start_error step error)
         | Inr _ \<Rightarrow> verify_started ih ?sc config root step)) ?Q (\<lambda>_ _. True) w2" for m :: "unit service" and w2
    by (rule wp_bindI [OF wp_any]) (use start check in \<open>auto simp: wp_returnE split: sum.split\<close>)
  then have "wp (execute_inner ih ?sc config root step) ?Q (\<lambda>_ _. True) w1" for w1
    unfolding execute_inner_def by (intro wp_bindI [OF inspect_verified]) (auto simp: wp_returnE)
  from wp_bindI [OF this, where f = "\<lambda>response. returnE (response, Finished)"] show ?thesis
    by (auto simp: execute_def step_begin_def step_finish_def wp_returnE wp_thenE wp_modifyE step_blocked_def)
qed

text \<open>
  Complete means verified. A service step reports completion only when the last thing it did was to ask
  systemd whether the service is active, and the answer was yes: not after a start command that merely
  succeeded. For the screen service it has then also compared the configuration the service declares with
  the active one. The attempt is finished and cannot be run again, and no file of the program changed.
\<close>

theorem service_step_complete_is_verified:
  assumes "execute ih (systemd_controller sc) config root step c w = (Inr (Complete, c'), w')"
  shows "c = Available \<and> c' = Finished \<and> verified ih config step w' \<and> files w' = files w"
  using wp_result [OF execute_verified assms] staysD [OF sd.execute_passive assms] by (simp add: same_files_def)

definition example_systemctl :: systemctl where
  "example_systemctl =
     \<lparr>sc_status = (\<lambda>args h. (False, Some (''is-active'' \<notin> set args \<or> length h > 8))),
      sc_output = (\<lambda>_ _. Inr \<lparr>out_code = Some 0, out_stdout = [], out_stderr = []\<rparr>), sc_slow = (\<lambda>_ _. False),
      sc_locked = False, sc_skip = False, sc_owner = Bundle,
      sc_properties = (\<lambda>_ _ _. Inr ([''LG_BUDDY_CONFIG=/c/config.env''], 0, [])), sc_is_file = (\<lambda>_ _. True)\<rparr>"

definition example_install :: install_host where
  "example_install =
     \<lparr>ih_is_file = (\<lambda>_ _. False), ih_regular = (\<lambda>_ _. Inr True), ih_canonical = (\<lambda>p _. Inr p),
      ih_binding = (\<lambda>_ _. Inr (Some ''/c/config.env''))\<rparr>"

text \<open>The service is installed but stopped: the step starts it and then finds it active.\<close>

theorem service_step_complete_is_verified_witness:
  "\<exists>w'. execute example_install (systemd_controller example_systemctl) ''/c/config.env'' None ScreenStep Available fresh_world =
      (Inr (Complete, Finished), w') \<and>
    verified example_install ''/c/config.env'' ScreenStep w' \<and> [] \<noteq> filter (\<lambda>e. case e of CommandRan _ _ \<Rightarrow> True | _ \<Rightarrow> False) (trace w')"
proof -
  let ?run = "execute example_install (systemd_controller example_systemctl) ''/c/config.env'' None ScreenStep Available fresh_world"
  have r: "fst ?run = Inr (Complete, Finished)" by code_simp
  have "filter (\<lambda>e. case e of CommandRan _ _ \<Rightarrow> True | _ \<Rightarrow> False) (trace (snd ?run)) \<noteq> []" by code_simp
  moreover have "?run = (Inr (Complete, Finished), snd ?run)" using r by (simp add: prod_eq_iff)
  ultimately show ?thesis using service_step_complete_is_verified by metis
qed

end
