(* ===== verification/Backend.thy ===== *)
theory Backend
  imports Config_Editor
begin

text \<open>
  Which native activity source the session uses (\<open>backend.rs\<close>): the override, the declaration or the saved
  value decides what is asked for; the probe decides what is there. The probe's answers (D-Bus names and
  Wayland globals) are the record \<open>backend_probe\<close>.
\<close>

datatype BackendSelectionError = InvalidOverride string | BackendConfigPath string

fun selection_error_display :: "BackendSelectionError \<Rightarrow> string" where
  "selection_error_display (BackendConfigPath message) = message"
| "selection_error_display (InvalidOverride value) =
     ''invalid LG_BUDDY_SCREEN_BACKEND value `'' @ value @ ''`; expected auto, gnome, or wayland''"

datatype BackendDetectionError =
    NoSupportedBackend string string
  | UnavailableBackend ScreenBackend string

fun detection_error_display :: "BackendDetectionError \<Rightarrow> string" where
  "detection_error_display (NoSupportedBackend gnome_reason wayland_reason) =
     ''no native activity source available; GNOME unavailable: '' @ gnome_reason @
     ''; native Wayland unavailable: '' @ wayland_reason @
     ''. Idle blanking will retry when a native source is available. To use LG Buddy without idle monitoring, set screen.idle_blank to disabled''"
| "detection_error_display (UnavailableBackend b reason) =
     ''backend `'' @ backend_as_str b @ ''` is unavailable: '' @ reason"

record BackendResolution =
  res_backend :: ScreenBackend
  res_fallback_reason :: "string option"

text \<open>The capabilities of a Wayland compositor are the version of its idle notifier and its seats.\<close>

record backend_probe =
  gnome_shell_available :: bool
  gnome_screen_saver_available :: bool
  gnome_idle_monitor_available :: bool
  wayland_capabilities :: "string + (nat \<times> nat)"

definition GNOME_REQUIRED_SERVICES_REASON :: string where
  "GNOME_REQUIRED_SERVICES_REASON =
     ''GNOME Shell, org.gnome.ScreenSaver, and org.gnome.Mutter.IdleMonitor are required''"

definition configured_backend_from_sources ::
    "string option \<Rightarrow> ScreenBackend option \<Rightarrow> BackendSelectionError + ScreenBackend" where
  "configured_backend_from_sources override_value config_backend =
     (case override_value of
        Some value \<Rightarrow>
          (case backend_from_str value of Some b \<Rightarrow> Inr b | None \<Rightarrow> Inl (InvalidOverride value))
      | None \<Rightarrow> Inr (unwrap_or config_backend BackendAuto))"

text \<open>
  \<open>configured_backend_from_path\<close>, given what loading the declarations and reading the file at the path
  answered. \<open>load_config\<close> parses the file with the declarations over it.
\<close>

definition load_config :: "io_error + string \<Rightarrow> io_error + Declarations option \<Rightarrow> ConfigError + Config" where
  "load_config contents declarations =
     (case contents of
        Inl e \<Rightarrow> Inl (ConfigIo e)
      | Inr c \<Rightarrow>
     (case declarations of
        Inl e \<Rightarrow> Inl (ConfigIo e)
      | Inr None \<Rightarrow> parse_config c
      | Inr (Some d) \<Rightarrow> parse_config (effective_contents d c)))"

definition configured_backend_from_path ::
    "string option \<Rightarrow> (io_error + Declarations option) \<times> (io_error + string) \<Rightarrow>
      BackendSelectionError + ScreenBackend" where
  "configured_backend_from_path override_value at =
     (case fst at of
        Inl e \<Rightarrow> Inl (BackendConfigPath (io_message e))
      | Inr declarations \<Rightarrow>
          (case Option.bind (Option.bind declarations (\<lambda>d. declared_value d ''screen.backend'')) as_enum of
             Some value \<Rightarrow> configured_backend_from_sources None (backend_from_str value)
           | None \<Rightarrow>
               configured_backend_from_sources override_value
                 (case load_config (snd at) (fst at) of Inr config \<Rightarrow> Some (screen_backend config) | Inl _ \<Rightarrow> None)))"

definition gnome_core_available :: "backend_probe \<Rightarrow> bool" where
  "gnome_core_available probe \<longleftrightarrow>
     gnome_shell_available probe \<and> gnome_screen_saver_available probe \<and> gnome_idle_monitor_available probe"

definition resolve_backend_with_probe ::
    "backend_probe \<Rightarrow> ScreenBackend \<Rightarrow> BackendDetectionError + BackendResolution" where
  "resolve_backend_with_probe probe configured =
     (case configured of
        BackendAuto \<Rightarrow>
          if gnome_core_available probe
          then Inr \<lparr>res_backend = BackendGnome, res_fallback_reason = None\<rparr>
          else
            let gnome_reason =
                  (if \<not> gnome_shell_available probe then ''GNOME Shell is not available''
                   else GNOME_REQUIRED_SERVICES_REASON)
            in (case wayland_capabilities probe of
                  Inr _ \<Rightarrow> Inr \<lparr>res_backend = BackendWayland,
                                 res_fallback_reason = Some (''GNOME unavailable: '' @ gnome_reason)\<rparr>
                | Inl wayland_reason \<Rightarrow> Inl (NoSupportedBackend gnome_reason wayland_reason))
      | BackendGnome \<Rightarrow>
          if gnome_core_available probe then Inr \<lparr>res_backend = BackendGnome, res_fallback_reason = None\<rparr>
          else Inl (UnavailableBackend BackendGnome GNOME_REQUIRED_SERVICES_REASON)
      | BackendWayland \<Rightarrow>
          (case wayland_capabilities probe of
             Inr _ \<Rightarrow> Inr \<lparr>res_backend = BackendWayland, res_fallback_reason = None\<rparr>
           | Inl reason \<Rightarrow> Inl (UnavailableBackend BackendWayland reason)))"

definition detect_backend_with_probe ::
    "backend_probe \<Rightarrow> ScreenBackend \<Rightarrow> BackendDetectionError + ScreenBackend" where
  "detect_backend_with_probe probe configured =
     (case resolve_backend_with_probe probe configured of Inl e \<Rightarrow> Inl e | Inr r \<Rightarrow> Inr (res_backend r))"

lemma resolved_is_available:
  assumes "resolve_backend_with_probe probe configured = Inr r"
  shows "res_backend r \<noteq> BackendAuto"
    and "res_backend r = BackendGnome \<Longrightarrow> gnome_core_available probe"
    and "res_backend r = BackendWayland \<Longrightarrow> is_ok (wayland_capabilities probe)"
    and "configured \<noteq> BackendAuto \<Longrightarrow> res_backend r = configured \<and> res_fallback_reason r = None"
  using assms
  by (auto simp: resolve_backend_with_probe_def Let_def is_ok_iff split: ScreenBackend.splits if_splits sum.splits)

end
