(* ===== verification/Settings_Apply.thy ===== *)
theory Settings_Apply
  imports Setup_Steps Backend
begin

text \<open>
  Changing a setting end to end (\<open>settings.rs\<close>, \<open>settings/mutation.rs\<close>, \<open>settings/automatic.rs\<close>,
  \<open>settings/command.rs\<close>, \<open>settings/formatter.rs\<close> and the apply actions of \<open>settings/screen.rs\<close> and
  \<open>settings/updates.rs\<close>): the command line, saving, applying to the running services, the GUI path that
  activates first, and the transition to automatic integration, which rolls back when it cannot be applied.
\<close>

section \<open>The command line\<close>

datatype SettingsCommand =
    ListSettings
  | DescribeSetting "string option"
  | GetSetting string
  | SetSetting string string
  | UnsetSetting string

datatype SettingsParseError =
    MissingSubcommand
  | UnknownSubcommand string
  | MissingKey string
  | MissingValue string
  | UnexpectedArguments string "string list"

definition no_extra :: "string \<Rightarrow> string list \<Rightarrow> SettingsCommand \<Rightarrow> SettingsParseError + SettingsCommand" where
  "no_extra subcommand extra command =
     (if extra = [] then Inr command else Inl (UnexpectedArguments subcommand extra))"

definition settings_command_parse :: "string list \<Rightarrow> SettingsParseError + SettingsCommand" where
  "settings_command_parse args =
     (case args of
        [] \<Rightarrow> Inl MissingSubcommand
      | subcommand # rest \<Rightarrow>
          if subcommand = ''list'' then no_extra ''list'' rest ListSettings
          else if subcommand = ''describe'' then
            (case rest of
               [] \<Rightarrow> Inr (DescribeSetting None)
             | key # extra \<Rightarrow> no_extra ''describe'' extra (DescribeSetting (Some key)))
          else if subcommand = ''get'' then
            (case rest of
               [] \<Rightarrow> Inl (MissingKey ''get'')
             | key # extra \<Rightarrow> no_extra ''get'' extra (GetSetting key))
          else if subcommand = ''set'' then
            (case rest of
               [] \<Rightarrow> Inl (MissingKey ''set'')
             | [key] \<Rightarrow> Inl (MissingValue ''set'')
             | key # value # extra \<Rightarrow> no_extra ''set'' extra (SetSetting key value))
          else if subcommand = ''unset'' then
            (case rest of
               [] \<Rightarrow> Inl (MissingKey ''unset'')
             | key # extra \<Rightarrow> no_extra ''unset'' extra (UnsetSetting key))
          else Inl (UnknownSubcommand subcommand))"

fun settings_command_as_str :: "SettingsCommand \<Rightarrow> string" where
  "settings_command_as_str ListSettings = ''list''"
| "settings_command_as_str (DescribeSetting _) = ''describe''"
| "settings_command_as_str (GetSetting _) = ''get''"
| "settings_command_as_str (SetSetting _ _) = ''set''"
| "settings_command_as_str (UnsetSetting _) = ''unset''"

fun is_mutation :: "SettingsCommand \<Rightarrow> bool" where
  "is_mutation (SetSetting _ _) = True"
| "is_mutation (UnsetSetting _) = True"
| "is_mutation _ = False"

definition SETTINGS_SUBCOMMANDS :: "string list" where
  "SETTINGS_SUBCOMMANDS = [''list'', ''describe'', ''get'', ''set'', ''unset'']"

fun settings_parse_error_display :: "SettingsParseError \<Rightarrow> string" where
  "settings_parse_error_display MissingSubcommand =
     ''missing settings command; expected one of '' @ join_with '', '' SETTINGS_SUBCOMMANDS"
| "settings_parse_error_display (UnknownSubcommand subcommand) = ''unknown settings command `'' @ subcommand @ ''`''"
| "settings_parse_error_display (MissingKey subcommand) = ''missing setting key for `settings '' @ subcommand @ ''`''"
| "settings_parse_error_display (MissingValue subcommand) = ''missing setting value for `settings '' @ subcommand @ ''`''"
| "settings_parse_error_display (UnexpectedArguments subcommand arguments) =
     ''unexpected arguments for `settings '' @ subcommand @ ''`: '' @ join_with '' '' arguments"

section \<open>Applying to the running services\<close>

definition SCREEN_SERVICE_NAME :: string where "SCREEN_SERVICE_NAME = ''LG_Buddy_screen.service''"
definition CHECK_TIMER_NAME :: string where "CHECK_TIMER_NAME = ''LG_Buddy_update_check.timer''"
definition SKIPPED_SYSTEMD :: string where
  "SKIPPED_SYSTEMD = ''skipped systemd apply because LG_BUDDY_SKIP_SYSTEMD_ACTIONS=1''"

definition apply_service_restart :: "controller \<Rightarrow> SettingsApplyOutcome service" where
  "apply_service_restart services =
     (if systemd_actions_disabled services then returnE (SkippedApply SKIPPED_SYSTEMD)
      else bindE (user_service_state services SCREEN_SERVICE_NAME) (\<lambda>state. case state of
             MissingService \<Rightarrow> returnE (NotInstalled SCREEN_SERVICE_NAME)
           | InactiveDisabled \<Rightarrow> returnE (ServiceInactiveDisabled SCREEN_SERVICE_NAME)
           | ActiveOrEnabled \<Rightarrow>
               thenE (restart_user_service services SCREEN_SERVICE_NAME) (returnE (Restarted SCREEN_SERVICE_NAME))))"

fun enable_outcome :: "string \<Rightarrow> UserUnitEnableOutcome \<Rightarrow> SettingsApplyOutcome" where
  "enable_outcome unit EnabledOnly = EnabledUnit unit"
| "enable_outcome unit EnabledStarted = EnabledStartedUnit unit"

definition auto_check_enabled :: "SettingsChange \<Rightarrow> SettingsError + bool" where
  "auto_check_enabled change =
     (case new_value (ch_mutation change) of
        Inl e \<Rightarrow> Inl e
      | Inr v \<Rightarrow>
          if as_enum v = Some ''enabled'' then Inr True
          else if as_enum v = Some ''disabled'' then Inr False
          else Inl (Settings_Apply ''updates.auto_check resolved to an invalid value''))"

definition apply_check_timer :: "controller \<Rightarrow> SettingsChange \<Rightarrow> SettingsApplyOutcome service" where
  "apply_check_timer services change =
     (if externally_updated (update_ownership services)
      then returnE (SkippedApply (unwrap_or (update_install_guidance (update_ownership services)) []))
      else if systemd_actions_disabled services then returnE (SkippedApply SKIPPED_SYSTEMD)
      else
        bindE (liftR (auto_check_enabled change)) (\<lambda>enabled.
        bindE (user_service_state services CHECK_TIMER_NAME) (\<lambda>state.
          if state = MissingService then returnE (NotInstalled CHECK_TIMER_NAME)
          else if enabled
            then bindE (enable_start_user_unit services CHECK_TIMER_NAME) (\<lambda>outcome.
                   returnE (enable_outcome CHECK_TIMER_NAME outcome))
            else thenE (disable_stop_user_unit services CHECK_TIMER_NAME)
                   (returnE (DisabledStopped CHECK_TIMER_NAME)))))"

definition apply_setting :: "config_host \<Rightarrow> controller \<Rightarrow> SettingsChange \<Rightarrow> SettingsApplyOutcome service" where
  "apply_setting host services change =
     thenE (ensure_mutable host (ch_path change) (def_key (mut_definition (ch_mutation change))))
       (case def_apply_strategy (mut_definition (ch_mutation change)) of
          RestartUserScreenService \<Rightarrow> apply_service_restart services
        | ManageUpdateCheckTimer \<Rightarrow> apply_check_timer services change
        | RuntimePolicyOnly \<Rightarrow> returnE NoActionRequired
        | NoRuntimeApplyRequired \<Rightarrow> returnE NoActionRequired)"

section \<open>Mutations\<close>

datatype SettingsMutationStage = Validating | Persisting | Persisted | Applying

fun stage_name :: "SettingsMutationStage \<Rightarrow> string" where
  "stage_name Validating = ''Validating''"
| "stage_name Persisting = ''Persisting''"
| "stage_name Persisted = ''Persisted''"
| "stage_name Applying = ''Applying''"

definition progress :: "SettingsMutationStage \<Rightarrow> (world, 'e, unit) eff" where
  "progress stage = modifyE (emit (Progressed (stage_name stage)))"

datatype SettingsMutationFailure =
    ValidationFailure SettingsError
  | PersistenceFailure SettingsError
  | ActivationFailure SettingsError

fun failure_error :: "SettingsMutationFailure \<Rightarrow> SettingsError" where
  "failure_error (ValidationFailure error) = error"
| "failure_error (PersistenceFailure error) = error"
| "failure_error (ActivationFailure error) = error"

record SettingsMutationOutcome =
  out_change :: SettingsChange
  out_apply :: "SettingsError + SettingsApplyOutcome"

definition apply_change :: "config_host \<Rightarrow> controller \<Rightarrow> SettingsChange \<Rightarrow> (world, 'e, SettingsMutationOutcome) eff" where
  "apply_change host services change =
     thenE (progress Applying)
    (bindE (tryE (mapErrE
        (\<lambda>error. Settings_ApplyAfterPersist (def_key (mut_definition (ch_mutation change))) (ch_path change)
           (settings_error_display error))
        (apply_setting host services change))) (\<lambda>r.
       returnE \<lparr>out_change = change, out_apply = r\<rparr>))"

definition execute_settings_mutation ::
    "environment \<Rightarrow> config_host \<Rightarrow> controller \<Rightarrow> path \<Rightarrow> SettingsMutation \<Rightarrow>
      (world, SettingsMutationFailure, SettingsMutationOutcome) eff" where
  "execute_settings_mutation env host services path m =
     thenE (progress Persisting)
    (bindE (mapErrE PersistenceFailure (persist_settings_mutation env host path m)) (\<lambda>change.
     thenE (progress Persisted)
       (apply_change host services change)))"

definition change_for_apply ::
    "SettingsError + path \<Rightarrow> SettingsStore \<Rightarrow> string \<Rightarrow> SettingsError + SettingsChange" where
  "change_for_apply binding store key =
     (case effective_by_name store key of
        Inl e \<Rightarrow> Inl e
      | Inr effective \<Rightarrow>
     (case required_value effective of
        Inl e \<Rightarrow> Inl e
      | Inr v \<Rightarrow>
     (case mutation_set binding store key (setting_value_display v) of
        Inl e \<Rightarrow> Inl e
      | Inr m \<Rightarrow>
          Inr \<lparr>ch_mutation = m, ch_path = store_path store, ch_file_changed = False, ch_effective = effective,
               ch_original = None, ch_published = None\<rparr>)))"

text \<open>The path a rejected mutation names: where the declarations of this configuration are bound.\<close>

definition binding_of :: "config_host \<Rightarrow> path \<Rightarrow> effect list \<Rightarrow> SettingsError + path" where
  "binding_of host p h =
     (case decl_binding host p h of Inr b \<Rightarrow> Inr b | Inl e \<Rightarrow> Inl (decl_settings_error host p h e))"

definition retry_settings_apply ::
    "config_host \<Rightarrow> controller \<Rightarrow> SettingsStore \<Rightarrow> string \<Rightarrow> (world, SettingsMutationFailure, SettingsMutationOutcome) eff" where
  "retry_settings_apply host services store key =
     thenE (progress Validating)
    (bindE (getsE (\<lambda>w. binding_of host (store_path store) (trace w))) (\<lambda>binding.
     bindE (mapErrE ValidationFailure (liftR (change_for_apply binding store key))) (\<lambda>change.
       apply_change host services change)))"

section \<open>The transition to automatic integration\<close>

definition activation_failure :: "string \<Rightarrow> SettingsMutationFailure" where
  "activation_failure message = ActivationFailure (Settings_Activation message)"

definition store_load :: "environment \<Rightarrow> config_host \<Rightarrow> path \<Rightarrow> SettingsStore service" where
  "store_load env host path =
     bindE (tryE (read_to_string env path)) (\<lambda>r.
     bindE (case r of
              Inr contents \<Rightarrow> returnE (Some contents)
            | Inl err \<Rightarrow>
                if io_kind err = NotFound then returnE None
                else raiseE (Settings_ReadConfig path (io_kind err) (io_message err))) (\<lambda>contents.
     bindE (getsE trace) (\<lambda>tr.
     bindE (mapErrE (decl_settings_error host path tr) (load_declarations host path)) (\<lambda>declarations.
       returnE (store_of path contents declarations)))))"

definition enum_of :: "EffectiveSetting \<Rightarrow> string option" where
  "enum_of effective = Option.bind (eff_value effective) as_enum"

text \<open>The two messages about a rollback.\<close>

definition msg_not_restored :: "SettingsError \<Rightarrow> SettingsError \<Rightarrow> string" where
  "msg_not_restored error rollback =
     ''Automatic integration could not be applied ('' @ settings_error_display error @
     '') and the previous configuration could not be restored ('' @ settings_error_display rollback @
     ''). Check the saved desktop integration before retrying.''"

definition msg_restored :: "SettingsError \<Rightarrow> SettingsError + SettingsApplyOutcome \<Rightarrow> string" where
  "msg_restored error recovered =
     ''Automatic integration could not be applied: '' @ settings_error_display error @
     ''. Your previous settings were restored.'' @
     (case recovered of
        Inl e \<Rightarrow> '' The service also needs attention: '' @ settings_error_display e @ ''.''
      | Inr _ \<Rightarrow> [])"

definition undo_transition ::
    "environment \<Rightarrow> config_host \<Rightarrow> controller \<Rightarrow> SettingsChange \<Rightarrow> SettingsError \<Rightarrow>
      (world, SettingsMutationFailure, SettingsMutationOutcome) eff" where
  "undo_transition env host services change error =
     thenE (mapErrE (\<lambda>rb. activation_failure (msg_not_restored error rb)) (rollback_if_unchanged env host change))
    (bindE (tryE (apply_setting host services change)) (\<lambda>recovered.
       raiseE (activation_failure (msg_restored error recovered))))"

definition transition_with_probe ::
    "environment \<Rightarrow> config_host \<Rightarrow> controller \<Rightarrow> backend_probe \<Rightarrow> path \<Rightarrow> SettingsMutation \<Rightarrow>
      (world, SettingsMutationFailure, SettingsMutationOutcome) eff" where
  "transition_with_probe env host services probe path m =
     bindE (mapErrE ValidationFailure (store_load env host path)) (\<lambda>store.
     bindE (mapErrE ValidationFailure (liftR (effective_by_name store ''screen.backend''))) (\<lambda>backend.
       if enum_of backend = Some ''auto'' then execute_settings_mutation env host services path m
       else
         bindE (mapErrE ValidationFailure (liftR (effective_by_name store ''screen.idle_blank''))) (\<lambda>idle_blank.
         thenE (if enum_of idle_blank \<noteq> Some ''disabled''
                then mapErrE (\<lambda>e. activation_failure (''Automatic integration was not enabled: '' @
                         detection_error_display e @ ''. Your previous settings are unchanged.''))
                       (liftR (resolve_backend_with_probe probe BackendAuto))
                else returnE \<lparr>res_backend = BackendAuto, res_fallback_reason = None\<rparr>)
        (bindE (execute_settings_mutation env host services path m) (\<lambda>outcome.
           case out_apply outcome of
             Inl error \<Rightarrow> undo_transition env host services (out_change outcome) error
           | Inr _ \<Rightarrow> returnE outcome)))))"

definition MSG_OVERRIDE_SET :: string where
  "MSG_OVERRIDE_SET = ''Remove the LG_BUDDY_SCREEN_BACKEND environment override before switching to automatic integration.''"

definition transition_to_automatic ::
    "environment \<Rightarrow> config_host \<Rightarrow> controller \<Rightarrow> backend_probe \<Rightarrow> path \<Rightarrow> SettingsMutation \<Rightarrow>
      (world, SettingsMutationFailure, SettingsMutationOutcome) eff" where
  "transition_to_automatic env host services probe path m =
     (case env_var env ''LG_BUDDY_SCREEN_BACKEND'' of
        Some value \<Rightarrow>
          if value \<noteq> ''auto'' then raiseE (activation_failure MSG_OVERRIDE_SET)
          else transition_with_probe env host services probe path m
      | None \<Rightarrow> transition_with_probe env host services probe path m)"

definition execute_gui_settings_mutation ::
    "environment \<Rightarrow> config_host \<Rightarrow> install_host \<Rightarrow> controller \<Rightarrow> backend_probe \<Rightarrow> path \<Rightarrow> SettingsMutation \<Rightarrow>
      (world, SettingsMutationFailure, SettingsMutationOutcome) eff" where
  "execute_gui_settings_mutation env host ih services probe path m =
     thenE (progress Validating)
    (thenE (mapErrE ValidationFailure (ensure_mutable host path (def_key (mut_definition m))))
       (if def_key (mut_definition m) = ''screen.backend'' \<and>
           (case new_value m of Inr v \<Rightarrow> as_enum v | Inl _ \<Rightarrow> None) = Some ''auto''
        then transition_to_automatic env host services probe path m
        else
          thenE (mapErrE ActivationFailure
              (activate_before_persist ih services (env_var env ''LG_BUDDY_INSTALL_ROOT'') path m))
            (execute_settings_mutation env host services path m)))"

section \<open>Printing\<close>

definition out_line :: "environment \<Rightarrow> string \<Rightarrow> unit service" where
  "out_line env s = mapErrE (\<lambda>e. Settings_WriteOutput (io_message e)) (writelnE env s)"

definition out_lines :: "environment \<Rightarrow> string list \<Rightarrow> unit service" where
  "out_lines env ls = eachE (out_line env) ls"

definition format_effective_value :: "EffectiveSetting \<Rightarrow> string" where
  "format_effective_value s =
     (case eff_invalid_value s of
        Some v \<Rightarrow> ''<invalid: '' @ v @ ''>''
      | None \<Rightarrow> (case eff_value s of Some v \<Rightarrow> setting_value_display v | None \<Rightarrow> ''<missing>''))"

definition format_operations :: "SettingOperation list \<Rightarrow> string \<Rightarrow> string" where
  "format_operations operations separator = join_with separator (map operation_as_str operations)"

definition effective_mutability :: "EffectiveSetting \<Rightarrow> string" where
  "effective_mutability s =
     (if managed_by (eff_source s) \<noteq> None then ''read-only''
      else mutability_as_str (def_mutability (eff_definition s)))"

definition effective_operations :: "EffectiveSetting \<Rightarrow> string \<Rightarrow> string" where
  "effective_operations s separator =
     (if managed_by (eff_source s) \<noteq> None then format_operations [GetOp, DescribeOp] separator
      else format_operations (def_operations (eff_definition s)) separator)"

definition format_aliases :: "SettingAlias list \<Rightarrow> string" where
  "format_aliases aliases = join_with '', '' (map (\<lambda>a. alias_from a @ '' -> '' @ alias_to a) aliases)"

definition list_line :: "EffectiveSetting \<Rightarrow> string" where
  "list_line s =
     def_key (eff_definition s) @ ''='' @ format_effective_value s @ '' ('' @ setting_source_as_str (eff_source s) @
     '', '' @ effective_mutability s @ '', ops: '' @ effective_operations s '','' @ '')''"

definition write_list :: "environment \<Rightarrow> EffectiveSetting list \<Rightarrow> unit service" where
  "write_list env settings = out_lines env (map list_line settings)"

definition write_get :: "environment \<Rightarrow> EffectiveSetting \<Rightarrow> unit service" where
  "write_get env s =
     bindE (liftR (required_value s)) (\<lambda>v. out_line env (setting_value_display v))"

datatype BackendPresentation = RawBackend | ResolvedBackend "string + BackendResolution"

definition presentation_for_command ::
    "backend_probe \<Rightarrow> SettingsCommand \<Rightarrow> string option \<Rightarrow> BackendPresentation" where
  "presentation_for_command probe command configured =
     (case Option.bind configured backend_from_str of
        None \<Rightarrow> RawBackend
      | Some b \<Rightarrow>
          if command \<noteq> DescribeSetting (Some ''screen.backend'') then RawBackend
          else ResolvedBackend (case resolve_backend_with_probe probe b of
                 Inl e \<Rightarrow> Inl (detection_error_display e) | Inr r \<Rightarrow> Inr r))"

definition resolution_details :: "string \<Rightarrow> BackendPresentation \<Rightarrow> (string \<times> string) option" where
  "resolution_details configured presentation =
     (case presentation of
        RawBackend \<Rightarrow> None
      | ResolvedBackend (Inr r) \<Rightarrow>
          Some (backend_as_str (res_backend r),
            unwrap_or (res_fallback_reason r)
              (if configured = backend_as_str BackendAuto then ''none; preferred backend is available''
               else ''none; explicit selection does not fall back''))
      | ResolvedBackend (Inl reason) \<Rightarrow> Some (''unavailable'', reason))"

definition backend_lines :: "EffectiveSetting \<Rightarrow> BackendPresentation \<Rightarrow> string list" where
  "backend_lines s presentation =
     (let configured = format_effective_value s in
      [''  compatibility: legacy CLI only; omitted from settings list and unqualified describe''] @
      (case resolution_details configured presentation of
         Some (resolved, fallback) \<Rightarrow> [''  resolved backend: '' @ resolved, ''  fallback reason: '' @ fallback]
       | None \<Rightarrow> []) @
      (if configured \<in> set [''gnome'', ''wayland'']
       then [''  legacy override: '' @ configured @
             ''; activity discovery is restricted. Use automatic integration in Settings for a recoverable transition.'']
       else []))"

fun type_lines :: "SettingType \<Rightarrow> string list" where
  "type_lines (EnumType t) =
     (''  allowed values: '' @ join_with '', '' (enum_values t)) #
     (if enum_aliases t = [] then [] else [''  aliases: '' @ format_aliases (enum_aliases t)])"
| "type_lines (IntegerType t) = [''  range: '' @ show_int (int_min t) @ ''..='' @ show_int (int_max t)]"
| "type_lines _ = []"

definition default_value_label :: "SettingDefinition \<Rightarrow> string" where
  "default_value_label d =
     (case def_default_value d of Some v \<Rightarrow> setting_value_display v | None \<Rightarrow> ''required'')"

definition description_lines :: "BackendPresentation \<Rightarrow> EffectiveSetting \<Rightarrow> string list" where
  "description_lines presentation s =
     (let d = eff_definition s in
      [def_key d,
       ''  storage key: '' @ def_storage_key d,
       ''  type: '' @ setting_type_as_str (def_value_type d),
       ''  current: '' @ format_effective_value s] @
      (if def_key d = ''screen.backend'' then backend_lines s presentation else []) @
      [''  source: '' @ setting_source_as_str (eff_source s),
       ''  default: '' @ default_value_label d,
       ''  mutability: '' @ effective_mutability s,
       ''  supported operations: '' @ effective_operations s '', ''] @
      type_lines (def_value_type d) @
      [''  apply: '' @ apply_strategy_as_str (def_apply_strategy d),
       ''  description: '' @ def_description d])"

fun describe_lines :: "BackendPresentation \<Rightarrow> EffectiveSetting list \<Rightarrow> string list" where
  "describe_lines presentation [] = []"
| "describe_lines presentation [s] = description_lines presentation s"
| "describe_lines presentation (s # ss) = description_lines presentation s @ [[]] @ describe_lines presentation ss"

definition write_describe :: "environment \<Rightarrow> BackendPresentation \<Rightarrow> EffectiveSetting list \<Rightarrow> unit service" where
  "write_describe env presentation settings = out_lines env (describe_lines presentation settings)"

definition change_line :: "SettingsChange \<Rightarrow> SettingsError + string" where
  "change_line change =
     (let m = ch_mutation change; key = def_key (mut_definition m) in
      case mut_action m of
        ActionSet \<Rightarrow>
          (case new_value m of
             Inl e \<Rightarrow> Inl e
           | Inr v \<Rightarrow>
               Inr (if ch_file_changed change
                    then key @ ''='' @ setting_value_display v @ '' (saved to '' @ ch_path change @ '')''
                    else key @ '' already set to '' @ setting_value_display v @ '' ('' @ ch_path change @ '')''))
      | ActionUnset \<Rightarrow>
          Inr (if ch_file_changed change then key @ '' unset (saved to '' @ ch_path change @ '')''
               else key @ '' already unset ('' @ ch_path change @ '')''))"

definition write_change :: "environment \<Rightarrow> SettingsChange \<Rightarrow> SettingsApplyOutcome \<Rightarrow> unit service" where
  "write_change env change applied =
     bindE (liftR (change_line change)) (\<lambda>line.
     thenE (out_line env line)
    (thenE (if \<not> ch_file_changed change then out_line env ''config: unchanged'' else returnE ())
       (out_line env (''apply: '' @ apply_outcome_display applied))))"

definition write_mutation_outcome :: "environment \<Rightarrow> SettingsMutationOutcome \<Rightarrow> unit service" where
  "write_mutation_outcome env outcome =
     bindE (liftR (out_apply outcome)) (write_change env (out_change outcome))"

section \<open>The command runner\<close>

definition public_settings :: "SettingsStore \<Rightarrow> EffectiveSetting list" where
  "public_settings store = filter (\<lambda>s. def_key (eff_definition s) \<noteq> ''screen.backend'') (all_effective store)"

text \<open>The preflight (an authenticated connection to the TV) is a parameter; the rules when it runs are not.\<close>

type_synonym preflight = "path \<Rightarrow> Ipv4Addr \<Rightarrow> (world, string, unit) eff"

definition preflight_if_required :: "preflight \<Rightarrow> SettingsStore \<Rightarrow> SettingsMutation \<Rightarrow> unit service" where
  "preflight_if_required pre store m =
     (if mut_action m \<noteq> ActionSet \<or> def_key (mut_definition m) \<noteq> ''tv.platform'' then returnE ()
      else
        bindE (liftR (new_value m)) (\<lambda>v.
          if as_enum v = Some (platform_as_str Bscpylgtv)
          then raiseE (Settings_InvalidValue ''tv.platform'' (platform_as_str Bscpylgtv)
                 ''lg_webos; bscpylgtv requires migration'')
          else if as_enum v \<noteq> Some (platform_as_str LgWebOs) then returnE ()
          else
            bindE (liftR (effective_by_name store ''tv.ip'')) (\<lambda>effective.
            bindE (liftR (required_value effective)) (\<lambda>ip. case ip of
                Ipv4Value ip \<Rightarrow>
                  mapErrE (Settings_PlatformPreflight (def_key (mut_definition m))) (pre (store_path store) ip)
              | _ \<Rightarrow> raiseE (Settings_MissingRequiredSetting ''tv.ip'')))))"

definition run_mutation ::
    "environment \<Rightarrow> config_host \<Rightarrow> controller \<Rightarrow> SettingsStore \<Rightarrow> SettingsMutation \<Rightarrow> unit service" where
  "run_mutation env host services store m =
     bindE (mapErrE failure_error (execute_settings_mutation env host services (store_path store) m))
       (write_mutation_outcome env)"

definition runner_run ::
    "environment \<Rightarrow> config_host \<Rightarrow> controller \<Rightarrow> preflight \<Rightarrow> BackendPresentation \<Rightarrow> SettingsStore \<Rightarrow>
      SettingsCommand \<Rightarrow> unit service" where
  "runner_run env host services pre presentation store command =
     (case command of
        ListSettings \<Rightarrow> write_list env (public_settings store)
      | DescribeSetting (Some key) \<Rightarrow>
          bindE (liftR (effective_by_name store key)) (\<lambda>s. write_describe env presentation [s])
      | DescribeSetting None \<Rightarrow> write_describe env presentation (public_settings store)
      | GetSetting key \<Rightarrow> bindE (liftR (effective_by_name store key)) (write_get env)
      | SetSetting key v \<Rightarrow>
          bindE (getsE (\<lambda>w. binding_of host (store_path store) (trace w))) (\<lambda>binding.
          bindE (liftR (mutation_set binding store key v)) (\<lambda>m.
          thenE (preflight_if_required pre store m) (run_mutation env host services store m)))
      | UnsetSetting key \<Rightarrow>
          bindE (getsE (\<lambda>w. binding_of host (store_path store) (trace w))) (\<lambda>binding.
          bindE (liftR (mutation_unset binding store key)) (run_mutation env host services store)))"

definition run_settings_command ::
    "environment \<Rightarrow> config_host \<Rightarrow> controller \<Rightarrow> preflight \<Rightarrow> backend_probe \<Rightarrow> ConfigPathError + path \<Rightarrow>
      (world, unit, unit) eff \<Rightarrow> SettingsCommand \<Rightarrow> unit service" where
  "run_settings_command env host services pre probe config_path request_assessment command =
     bindE (mapErrE Settings_ConfigPath (liftR config_path)) (\<lambda>path.
     bindE (store_load env host path) (\<lambda>store.
       let configured = (case effective_by_name store ''screen.backend'' of
                           Inr s \<Rightarrow> map_option setting_value_display (eff_value s) | Inl _ \<Rightarrow> None)
       in bindE (tryE (runner_run env host services pre
                   (presentation_for_command probe command configured) store command)) (\<lambda>result.
          bindE (if is_mutation command then bindE (tryE request_assessment) (\<lambda>_. returnE ()) else returnE ()) (\<lambda>_.
            liftR result))))"

section \<open>Applying keeps the files\<close>

lemma wp_store_load:
  "wp (mapErrE f (store_load env host path)) (\<lambda>_ w'. w' = w) (\<lambda>_ w'. w' = w) w"
  unfolding store_load_def by (auto simp: wp_rules split: option.splits sum.splits)

lemma ensure_mutable_passive: "stays same_files (ensure_mutable host p key)"
  unfolding ensure_mutable_def load_declarations_def
  by (rule wp_stays) (auto simp: wp_rules wp_def [of "\<lambda>w. (decls_at host p (trace w), w)"] sf.R_refl split: sum.splits option.splits)

lemma progress_passive: "stays same_files (progress stage)"
  unfolding progress_def by (rule sf.stays_modifyE) (simp add: same_files_def)

text \<open>A transition that cannot be applied is undone, or says that it could not be.\<close>

definition taken_back :: "path \<Rightarrow> world \<Rightarrow> SettingsMutationFailure \<Rightarrow> world \<Rightarrow> bool" where
  "taken_back p w f w' \<longleftrightarrow>
     locks w' = locks w \<and>
     (files w' p = files w p \<or> (\<exists>error rb. f = activation_failure (msg_not_restored error rb)))"

context passive_services
begin

lemma apply_passive: "stays same_files (apply_setting host services change)"
  unfolding apply_setting_def apply_service_restart_def apply_check_timer_def
  by (auto intro!: step_passive ensure_mutable_passive split: ApplyStrategy.splits UserServiceState.splits)

lemma apply_change_passive: "stays same_files (apply_change host services change)"
  unfolding apply_change_def by (intro step_passive apply_passive progress_passive)

text \<open>Saving and applying: the file is decided by saving alone.\<close>

lemma wp_apply_change:
  "wp (apply_change host services change)
     (\<lambda>outcome w'. out_change outcome = change \<and> same_files w w' \<and>
        (\<forall>e. out_apply outcome = Inl e \<longrightarrow>
           (\<exists>message. e = Settings_ApplyAfterPersist (def_key (mut_definition (ch_mutation change))) (ch_path change) message)))
     (\<lambda>_ _. False) w"
  unfolding apply_change_def progress_def wp_thenE wp_modifyE wp_bindE wp_tryE wp_mapErrE wp_return_eta
  by (rule wp_mono [OF stays_wp [OF apply_passive]]) (auto simp: same_files_def)

lemma wp_execute_settings_mutation:
  assumes "canonical_config host path p" and "sound_mutation m"
  shows "wp (execute_settings_mutation env host services path m)
    (\<lambda>outcome w'. all_or_nothing p m w (Inr (out_change outcome)) w' \<and>
       (\<forall>e. out_apply outcome = Inl e \<longrightarrow> (\<exists>message. e = Settings_ApplyAfterPersist (def_key (mut_definition m)) p message)))
    (\<lambda>f w'. \<exists>e. f = PersistenceFailure e \<and> all_or_nothing p m w (Inl e) w') w"
proof -
  let ?w = "emit (Progressed (stage_name Persisting)) w"
  have w: "all_or_nothing p m ?w r w' = all_or_nothing p m w r w'" for r w'
    by (cases r) (simp_all add: all_or_nothing_def)
  have after: "wp (thenE (progress Persisted) (apply_change host services change))
      (\<lambda>outcome w'. all_or_nothing p m w (Inr (out_change outcome)) w' \<and>
         (\<forall>e. out_apply outcome = Inl e \<longrightarrow> (\<exists>message. e = Settings_ApplyAfterPersist (def_key (mut_definition m)) p message)))
      E w1" if "all_or_nothing p m w (Inr change) w1" for change E w1
    unfolding progress_def wp_thenE wp_modifyE
    by (rule wp_mono [OF wp_apply_change])
      (use that in \<open>auto simp: all_or_nothing_def same_files_def split: if_splits\<close>)
  show ?thesis
    unfolding execute_settings_mutation_def progress_def [of Persisting] wp_thenE [of "modifyE _"] wp_modifyE
      wp_bindE [of "mapErrE _ _"] wp_mapErrE
    by (rule wp_mono [OF wp_persist [OF assms]]) (use after w in blast)+
qed

lemma wp_undo:
  assumes c: "canonical_config host path p" and a: "all_or_nothing p m w (Inr change) w1"
  shows "wp (undo_transition env host services change error) Q (taken_back p w) w1"
proof -
  have g: "\<forall>tr. guard_target host (ch_path change) tr = Inr p" "undisturbed_config host p"
    using c a by (auto simp: canonical_config_def all_or_nothing_def)
  have recover: "wp (bindE (tryE (apply_setting host services change)) (\<lambda>recovered.
      raiseE (activation_failure (msg_restored error recovered)))) Q (taken_back p w) w2"
    if "files w2 p = files w p" "locks w2 = locks w" for w2
    unfolding wp_bindE
    by (rule wp_mono [OF stays_wp [OF sf.stays_tryE [OF apply_passive]]])
      (use that in \<open>auto simp: wp_raiseE taken_back_def same_files_def\<close>)
  show ?thesis
    unfolding undo_transition_def wp_thenE wp_mapErrE
    by (rule wp_mono [OF wp_rollback [OF g]])
      (use a recover in \<open>auto simp: all_or_nothing_def taken_back_def\<close>)
qed

lemma wp_transition:
  assumes c: "canonical_config host path p" and m: "sound_mutation m"
  shows "wp (transition_with_probe env host services probe path m)
    (\<lambda>outcome w'. all_or_nothing p m w (Inr (out_change outcome)) w') (taken_back p w) w"
proof -
  let ?Q = "\<lambda>outcome w'. all_or_nothing p m w (Inr (out_change outcome)) w'"
  have kept: "all_or_nothing p m w (Inl e) w' \<Longrightarrow> taken_back p w f w'" for e f w'
    by (simp add: all_or_nothing_def taken_back_def)
  have exec: "wp (execute_settings_mutation env host services path m) ?Q (taken_back p w) w"
    by (rule wp_mono [OF wp_execute_settings_mutation [OF assms]]) (use kept in blast)+
  have exec_undo: "wp (bindE (execute_settings_mutation env host services path m) (\<lambda>outcome.
        case out_apply outcome of
          Inl error \<Rightarrow> undo_transition env host services (out_change outcome) error
        | Inr _ \<Rightarrow> returnE outcome)) ?Q (taken_back p w) w"
    by (rule wp_bindI [OF exec]) (auto simp: wp_returnE intro: wp_undo [OF c] split: sum.split)
  have "taken_back p w f w" for f by (simp add: taken_back_def)
  then show ?thesis
    unfolding transition_with_probe_def
    by (intro wp_bindI [OF wp_store_load])
      (auto simp: wp_bindE [of "mapErrE _ _"] wp_thenE wp_mapErrE wp_liftR wp_return_eta
         intro: exec exec_undo split: sum.split)
qed

end

section \<open>What changing a setting promises\<close>

text \<open>
  C8. The persist-then-apply contract. A change reported as failed was not saved: the bytes of the configuration
  are as before. A change reported as done is saved, whether or not the running services could be told; when
  they could not, the reported error is the one that says the value is saved but not applied. Either way the
  configuration lock is free again.
\<close>

theorem settings_mutation_contract:
  assumes "canonical_config host path p" and "sound_mutation m"
    and "execute_settings_mutation env host (systemd_controller sc) path m w = (r, w')"
  shows "(case r of
      Inl f \<Rightarrow> (\<exists>e. f = PersistenceFailure e) \<and> files w' p = files w p
    | Inr outcome \<Rightarrow>
        parse_config_entries (unwrap_or (files w' p) []) =
          mutated_entries m (parse_config_entries (unwrap_or (files w p) [])) \<and>
        (\<forall>e. out_apply outcome = Inl e \<longrightarrow> (\<exists>message. e = Settings_ApplyAfterPersist (def_key (mut_definition m)) p message))) \<and>
    locks w' = locks w"
  using wp_result [OF sd.wp_execute_settings_mutation [OF assms(1,2)] assms(3)]
  by (cases r) (auto simp: all_or_nothing_def)

text \<open>
  C18. Switching to automatic integration keeps its word. When the switch fails, because no native source is
  there, because saving failed or because the restarted service did not come up, the configuration has the
  bytes it had before, unless the failure itself says that the previous configuration could not be
  restored. When it succeeds, exactly the backend assignment was changed.
\<close>

theorem automatic_transition_restores:
  assumes "canonical_config host path p" and "sound_mutation m"
    and "transition_to_automatic env host (systemd_controller sc) probe path m w = (r, w')"
  shows "(case r of
      Inl f \<Rightarrow> files w' p = files w p \<or> (\<exists>error rb. f = activation_failure (msg_not_restored error rb))
    | Inr outcome \<Rightarrow>
        parse_config_entries (unwrap_or (files w' p) []) =
          mutated_entries m (parse_config_entries (unwrap_or (files w p) []))) \<and>
    locks w' = locks w"
proof -
  have "wp (transition_to_automatic env host (systemd_controller sc) probe path m)
     (\<lambda>outcome w'. all_or_nothing p m w (Inr (out_change outcome)) w') (taken_back p w) w"
    using sd.wp_transition [OF assms(1,2)]
    by (auto simp: transition_to_automatic_def wp_raiseE taken_back_def split: option.split)
  from wp_result [OF this assms(3)] show ?thesis
    by (cases r) (auto simp: all_or_nothing_def taken_back_def)
qed

lemma wp_activate:
  "wp (mapErrE ActivationFailure (activate_before_persist ih (systemd_controller sc) root path m))
     (\<lambda>_ w'. same_files w w' \<and> (\<forall>step. step_of_mutation m = Some step \<longrightarrow> verified ih path step w'))
     (\<lambda>f w'. same_files w w') w"
proof -
  have ok: "activation_answer r = Inr u \<Longrightarrow> r = Complete" for r u
    by (cases r) auto
  have "wp (activate_before_persist ih (systemd_controller sc) root path m)
     (\<lambda>_ w'. \<forall>step. step_of_mutation m = Some step \<longrightarrow> verified ih path step w') (\<lambda>_ _. True) w"
  proof (cases "step_of_mutation m")
    case (Some step)
    show ?thesis
      unfolding activate_before_persist_def Some option.case wp_bindE wp_mapErrE
      by (rule wp_mono [OF execute_verified]) (auto simp: wp_liftR dest: ok split: sum.split)
  qed (simp add: activate_before_persist_def wp_returnE)
  from wp_conj [OF stays_wp [OF sd.activate_passive] this] show ?thesis
    unfolding wp_mapErrE by (rule wp_mono) auto
qed

text \<open>
  C25. In the GUI a behaviour is only switched on when the service that provides it runs. If enabling idle
  blanking or the sleep policy is reported as saved, then before anything was written the service's
  activity had been verified; if it could not be verified, the configuration is unchanged.
\<close>

theorem gui_enables_only_running_services:
  assumes "canonical_config host path p" and "sound_mutation m" and "step_of_mutation m = Some step"
    and "execute_gui_settings_mutation env host ih (systemd_controller sc) probe path m w = (r, w')"
  shows "(case r of
      Inl f \<Rightarrow> files w' p = files w p
    | Inr outcome \<Rightarrow>
        (\<exists>w1. files w1 = files w \<and> verified ih path step w1 \<and>
           execute_settings_mutation env host (systemd_controller sc) path m w1 = (Inr outcome, w')))"
proof -
  let ?sc = "systemd_controller sc"
  let ?Q = "\<lambda>outcome w'. \<exists>w1. files w1 = files w \<and> verified ih path step w1 \<and>
    execute_settings_mutation env host ?sc path m w1 = (Inr outcome, w')"
  have exec: "wp (execute_settings_mutation env host ?sc path m) ?Q (\<lambda>_ w'. files w' p = files w p) w1"
    if "same_files w w1" "verified ih path step w1" for w1
  proof -
    obtain r1 w2 where r: "execute_settings_mutation env host ?sc path m w1 = (r1, w2)" by fastforce
    from wp_result [OF sd.wp_execute_settings_mutation [OF assms(1,2)] r] that r show ?thesis
      by (auto simp: wp_def same_files_def all_or_nothing_def split: sum.splits)
  qed
  have key: "def_key (mut_definition m) \<noteq> ''screen.backend''"
    using assms(3) by (auto simp: step_of_mutation_def split: if_splits)
  have act: "wp (thenE (mapErrE ActivationFailure (activate_before_persist ih ?sc (env_var env ''LG_BUDDY_INSTALL_ROOT'') path m))
      (execute_settings_mutation env host ?sc path m)) ?Q (\<lambda>_ w'. files w' p = files w p) w2" if s: "same_files w w2" for w2
  proof (rule wp_thenI [OF wp_activate])
    show "files w' p = files w p" if "same_files w2 w'" for w'
      using s that by (simp add: same_files_def)
  qed (use assms(3) sf.R_trans [OF s] exec in blast)
  have "wp (execute_gui_settings_mutation env host ih ?sc probe path m) ?Q (\<lambda>_ w'. files w' p = files w p) w"
    unfolding execute_gui_settings_mutation_def
    by (rule wp_thenI [OF stays_wp [OF progress_passive]],
        rule wp_thenI [OF stays_wp [OF sf.stays_mapErrE [OF ensure_mutable_passive]]])
      (use key in \<open>auto intro!: act elim: sf.R_trans simp: same_files_def\<close>)
  from wp_result [OF this assms(4)] show ?thesis by (cases r) auto
qed

section \<open>Changing settings at work\<close>

lemma example_execute:
  "\<exists>outcome w'. execute_settings_mutation calm example_host services ''config.env'' example_timeout_mutation example_files = (Inr outcome, w')"
proof -
  let ?w = "emit (Progressed (stage_name Persisting)) example_files"
  have saves: "wp (persist_settings_mutation calm example_host ''config.env'' example_timeout_mutation) (\<lambda>_ _. True) (\<lambda>_ _. False) ?w"
    by (rule persist_works [OF example_canonical example_sound])
      (use example_willing in \<open>simp_all add: willing_def example_files_def\<close>)
  have applies: "wp (thenE (progress Persisted) (apply_change host services change)) (\<lambda>_ _. True) (\<lambda>_ _. False) w" for host change w
    by (auto simp: apply_change_def progress_def wp_thenE wp_modifyE wp_bindE wp_tryE wp_mapErrE wp_return_eta wp_any)
  have "wp (execute_settings_mutation calm example_host services ''config.env'' example_timeout_mutation) (\<lambda>_ _. True) (\<lambda>_ _. False) example_files"
    unfolding execute_settings_mutation_def progress_def [of Persisting] wp_thenE [of "modifyE _"] wp_modifyE
      wp_bindE [of "mapErrE _ _"] wp_mapErrE by (rule wp_mono [OF saves]) (simp_all add: applies)
  then show ?thesis by (auto simp: wp_def split: prod.splits sum.splits)
qed

theorem settings_mutation_contract_witness:
  "\<exists>outcome w'. execute_settings_mutation calm example_host (systemd_controller example_systemctl) ''config.env''
      example_timeout_mutation example_files = (Inr outcome, w') \<and>
     parse_config_entries (unwrap_or (files w' example_config_path) []) ''screen_idle_timeout'' = Some ''900'' \<and>
     locks w' = locks example_files"
proof -
  obtain outcome w' where r: "execute_settings_mutation calm example_host (systemd_controller example_systemctl) ''config.env''
      example_timeout_mutation example_files = (Inr outcome, w')" using example_execute by blast
  from settings_mutation_contract [OF example_canonical example_sound r] r example_mutated show ?thesis by auto
qed

definition example_legacy :: string where
  "example_legacy = ''screen_backend=gnome'' @ [CHR 10]"

definition example_backend_mutation :: SettingsMutation where
  "example_backend_mutation =
     \<lparr>mut_definition = setting_screen_BACKEND, mut_old_value = Some (EnumValue ''gnome''),
      mut_old_source = SourceConfigEnv, mut_new_value = Some (EnumValue ''auto''), mut_action = ActionSet\<rparr>"

definition example_probe :: backend_probe where
  "example_probe =
     \<lparr>gnome_shell_available = False, gnome_screen_saver_available = False, gnome_idle_monitor_available = False,
      wayland_capabilities = Inl ''no Wayland compositor is available''\<rparr>"

definition example_legacy_world :: world where
  "example_legacy_world = fresh_world\<lparr>files := [example_config_path \<mapsto> example_legacy]\<rparr>"

lemma legacy_entries: "parse_config_entries example_legacy = [''screen_backend'' \<mapsto> ''gnome'']"
proof -
  have "example_legacy = foldl write_config_line [] [(''screen_backend'', ''gnome'')]"
    by (simp add: example_legacy_def write_config_line_def)
  moreover have "list_all (\<lambda>kv. plain_key (fst kv) \<and> plain_value (snd kv)) [(''screen_backend'', ''gnome'')]" by code_simp
  ultimately show ?thesis using parse_written_config [of "[]" "[(''screen_backend'', ''gnome'')]"]
    by (simp add: ends_line_def)
qed

lemma legacy_sound: "sound_mutation example_backend_mutation"
proof -
  have g: "get_by_name ''screen.backend'' = Inr setting_screen_BACKEND"
    using registry_by_name [of setting_screen_BACKEND] by (simp add: SETTINGS_REGISTRY_def) (simp add: setting_screen_BACKEND_def)
  have "mutation_set (Inr []) (store_of [] (Some example_legacy) None) ''screen.backend'' ''auto'' = Inr example_backend_mutation"
    by (simp add: mutation_set_def g ensure_operation_supported_def supports_operation_def effective_definition_def
        effective_saved_def raw_setting_value_def store_of_def legacy_entries reject_managed_def
        setting_screen_BACKEND_def READ_WRITE_OPERATIONS_def setting_parse_simps example_backend_mutation_def)
  then show ?thesis using mutation_set_sound by blast
qed

lemma legacy_effective:
  "\<exists>s. effective_by_name (store_of path (Some example_legacy) None) ''screen.backend'' = Inr s \<and> enum_of s = Some ''gnome''"
  "\<exists>s. effective_by_name (store_of path (Some example_legacy) None) ''screen.idle_blank'' = Inr s \<and> enum_of s = Some ''enabled''"
proof -
  have g: "get_by_name ''screen.backend'' = Inr setting_screen_BACKEND"
    "get_by_name ''screen.idle_blank'' = Inr setting_screen_IDLE_BLANK"
    using registry_by_name [of setting_screen_BACKEND] registry_by_name [of setting_screen_IDLE_BLANK]
    by (simp_all add: SETTINGS_REGISTRY_def) (simp_all add: setting_screen_BACKEND_def setting_screen_IDLE_BLANK_def)
  show "\<exists>s. effective_by_name (store_of path (Some example_legacy) None) ''screen.backend'' = Inr s \<and> enum_of s = Some ''gnome''"
    "\<exists>s. effective_by_name (store_of path (Some example_legacy) None) ''screen.idle_blank'' = Inr s \<and> enum_of s = Some ''enabled''"
    by (simp_all add: effective_by_name_def g effective_definition_def effective_saved_def raw_setting_value_def
        store_of_def legacy_entries setting_screen_BACKEND_def setting_screen_IDLE_BLANK_def setting_parse_simps enum_of_def)
qed

lemma legacy_refused:
  "\<exists>message w'. transition_to_automatic calm example_host services example_probe example_config_path example_backend_mutation
     example_legacy_world = (Inl (activation_failure (''Automatic integration was not enabled: '' @ message)), w')"
proof -
  obtain s1 s2 where
    s: "effective_by_name (store_of example_config_path (Some example_legacy) None) ''screen.backend'' = Inr s1" "enum_of s1 = Some ''gnome''"
      "effective_by_name (store_of example_config_path (Some example_legacy) None) ''screen.idle_blank'' = Inr s2" "enum_of s2 = Some ''enabled''"
    using legacy_effective by blast
  have "wp (transition_to_automatic calm example_host services example_probe example_config_path example_backend_mutation)
     (\<lambda>_ _. False) (\<lambda>f _. \<exists>message. f = activation_failure (''Automatic integration was not enabled: '' @ message)) example_legacy_world"
    using s by (simp add: transition_to_automatic_def transition_with_probe_def store_load_def wp_rules example_legacy_world_def
        example_host_def example_probe_def resolve_backend_with_probe_def gnome_core_available_def activation_failure_def)
  then show ?thesis by (auto simp: wp_def split: prod.splits sum.splits)
qed

text \<open>No native source is available: the switch is refused and the legacy configuration stays.\<close>

theorem automatic_transition_restores_witness:
  "\<exists>f w'. transition_to_automatic calm example_host (systemd_controller example_systemctl) example_probe example_config_path
      example_backend_mutation example_legacy_world = (Inl f, w') \<and> files w' example_config_path = Some example_legacy"
proof -
  obtain message w' where r: "transition_to_automatic calm example_host (systemd_controller example_systemctl) example_probe
      example_config_path example_backend_mutation example_legacy_world =
      (Inl (activation_failure (''Automatic integration was not enabled: '' @ message)), w')" using legacy_refused by blast
  have "activation_failure (''Automatic integration was not enabled: '' @ message) \<noteq> activation_failure (msg_not_restored error rb)" for error rb
    by (simp add: activation_failure_def msg_not_restored_def)
  with automatic_transition_restores [OF example_canonical legacy_sound r] r show ?thesis
    by (auto simp: example_legacy_world_def)
qed

definition example_enable_mutation :: SettingsMutation where
  "example_enable_mutation =
     \<lparr>mut_definition = setting_screen_IDLE_BLANK, mut_old_value = Some (EnumValue ''enabled''),
      mut_old_source = SourceDefault, mut_new_value = Some (EnumValue ''enabled''), mut_action = ActionSet\<rparr>"

lemma enable_sound: "sound_mutation example_enable_mutation"
proof -
  have g: "get_by_name ''screen.idle_blank'' = Inr setting_screen_IDLE_BLANK"
    using registry_by_name [of setting_screen_IDLE_BLANK] by (simp add: SETTINGS_REGISTRY_def) (simp add: setting_screen_IDLE_BLANK_def)
  have "mutation_set (Inr []) (store_of [] (Some example_legacy) None) ''screen.idle_blank'' ''enabled'' = Inr example_enable_mutation"
    by (simp add: mutation_set_def g ensure_operation_supported_def supports_operation_def effective_definition_def
        effective_saved_def raw_setting_value_def store_of_def legacy_entries reject_managed_def
        setting_screen_IDLE_BLANK_def READ_WRITE_OPERATIONS_def setting_parse_simps example_enable_mutation_def)
  then show ?thesis using mutation_set_sound by blast
qed

theorem gui_enables_only_running_services_witness:
  "\<exists>r w'. execute_gui_settings_mutation calm example_host example_install (systemd_controller example_systemctl) example_probe
      example_config_path example_enable_mutation example_legacy_world = (r, w') \<and>
    (case r of Inl f \<Rightarrow> files w' example_config_path = Some example_legacy
     | Inr outcome \<Rightarrow> \<exists>w1. verified example_install example_config_path ScreenStep w1)"
proof -
  obtain r w' where r: "execute_gui_settings_mutation calm example_host example_install (systemd_controller example_systemctl) example_probe
      example_config_path example_enable_mutation example_legacy_world = (r, w')" by fastforce
  have "step_of_mutation example_enable_mutation = Some ScreenStep"
    by (simp add: step_of_mutation_def example_enable_mutation_def new_value_def setting_screen_IDLE_BLANK_def)
  from gui_enables_only_running_services [OF example_canonical enable_sound this r] r show ?thesis
    by (cases r) (auto simp: example_legacy_world_def)
qed

end
