(* ===== verification/Actions.thy ===== *)
theory Actions
  imports Screen Lifecycle Runner Settings_Store
begin

text \<open>
  The runtime action executor (\<open>session/actions.rs\<close> and its \<open>SessionActionExecutor\<close> implementation in
  \<open>session/runner.rs\<close>): every action loads the current configuration, finds the markers and a TV client and
  runs the screen or lifecycle handler. The client is retained between actions, but only for the same target
  and options. The TV's answers depend on which client asks.
\<close>

section \<open>The executor and what it reaches\<close>

record tv_answers =
  ans_current_input :: "effect list \<Rightarrow> TvError + CurrentInput"
  ans_set_input :: "HdmiInput \<Rightarrow> effect list \<Rightarrow> TvError + unit"
  ans_power_off :: "effect list \<Rightarrow> TvError + unit"
  ans_blank :: "effect list \<Rightarrow> TvError + unit"
  ans_unblank :: "effect list \<Rightarrow> TvError + unit"

record runtime =
  rt_env :: environment
  rt_tv :: "WebOsTvClient \<Rightarrow> tv_answers"
  rt_config_path :: "effect list \<Rightarrow> ConfigPathError + path"
  rt_declarations :: "path \<Rightarrow> effect list \<Rightarrow> io_error + Declarations option"
  rt_uid :: "nat option"
  rt_owner_of :: "path \<Rightarrow> string + nat"
  rt_store_for :: "path \<Rightarrow> nat \<Rightarrow> string + string"
  rt_has_token :: "WebOsTvClient \<Rightarrow> effect list \<Rightarrow> string + bool"

definition client_env :: "runtime \<Rightarrow> environment \<Rightarrow> WebOsTvClient \<Rightarrow> environment" where
  "client_env rt env c =
     env\<lparr>tv_current_input := ans_current_input (rt_tv rt c), tv_set_input := ans_set_input (rt_tv rt c),
         tv_power_off := ans_power_off (rt_tv rt c), tv_blank_screen := ans_blank (rt_tv rt c),
         tv_unblank_screen := ans_unblank (rt_tv rt c)\<rparr>"

record TvClientBinding =
  bound_path :: path
  bound_ip :: Ipv4Addr
  bound_mac :: MacAddress
  bound_platform :: TvPlatform
  bound_options :: TvClientBuildOptions

record executor_state =
  ex_world :: world
  ex_client :: "(TvClientBinding \<times> WebOsTvClient) option"

type_synonym 'a action = "(executor_state, RunError, 'a) eff"

definition on_world :: "(world, 'e, 'a) eff \<Rightarrow> (executor_state, 'e, 'a) eff" where
  "on_world m = (\<lambda>x. case m (ex_world x) of (r, w) \<Rightarrow> (r, x\<lparr>ex_world := w\<rparr>))"

section \<open>Configuration, client and markers\<close>

definition read_current :: "runtime \<Rightarrow> (world, RunError, path \<times> Config) eff" where
  "read_current rt =
     bindE (getsE (\<lambda>w. rt_config_path rt (trace w))) (\<lambda>p. case p of
       Inl e \<Rightarrow> raiseE (Run_ConfigPath e)
     | Inr path \<Rightarrow>
         bindE (tryE (read_to_string (rt_env rt) path)) (\<lambda>contents.
         bindE (getsE (\<lambda>w. rt_declarations rt path (trace w))) (\<lambda>declarations.
           case load_current_config contents declarations of
             Inl e \<Rightarrow> raiseE (run_error_from_load e)
           | Inr config \<Rightarrow> returnE (path, config))))"

text \<open>\<open>load_config\<close>: without a valid current configuration no client is kept.\<close>

definition load_config_action :: "runtime \<Rightarrow> (path \<times> Config) action" where
  "load_config_action rt =
     (\<lambda>x. case on_world (read_current rt) x of
        (Inl e, x') \<Rightarrow> (Inl e, x'\<lparr>ex_client := None\<rparr>)
      | (Inr r, x') \<Rightarrow> (Inr r, x'))"

definition binding_for :: "path \<Rightarrow> Config \<Rightarrow> TvClientBuildOptions \<Rightarrow> TvClientBinding" where
  "binding_for path config options =
     \<lparr>bound_path = path, bound_ip = tv_ip config, bound_mac = tv_mac config,
      bound_platform = tv_platform config, bound_options = options\<rparr>"

definition rebuild_client :: "runtime \<Rightarrow> path \<Rightarrow> Config \<Rightarrow> TvClientBuildOptions \<Rightarrow> WebOsTvClient action" where
  "rebuild_client rt path config options =
     (\<lambda>x. case build_tv_client (rt_owner_of rt) (rt_store_for rt) path (tv_ip config) (tv_platform config) options of
        Inl e \<Rightarrow> (Inl (Run_TvClientBuild e), x\<lparr>ex_client := None\<rparr>)
      | Inr c \<Rightarrow> (Inr c, x\<lparr>ex_client := Some (binding_for path config options, c)\<rparr>))"

definition tv_client :: "runtime \<Rightarrow> path \<Rightarrow> Config \<Rightarrow> TvClientBuildOptions \<Rightarrow> WebOsTvClient action" where
  "tv_client rt path config options =
     (\<lambda>x. case ex_client x of
        Some (current, client) \<Rightarrow>
          if tv_platform config \<noteq> Bscpylgtv \<and> current = binding_for path config options then (Inr client, x)
          else rebuild_client rt path config options x
      | None \<Rightarrow> rebuild_client rt path config options x)"

definition state_dir :: "runtime \<Rightarrow> StateScope \<Rightarrow> RunError + path" where
  "state_dir rt scope =
     (case resolve_state_dir_from_env (rt_env rt) (rt_uid rt) scope of
        Inl e \<Rightarrow> Inl (Run_StateDir e) | Inr d \<Rightarrow> Inr d)"

definition marker_from_env :: "runtime \<Rightarrow> StateScope \<Rightarrow> RunError + ScreenOwnershipMarker" where
  "marker_from_env rt scope = (case state_dir rt scope of Inl e \<Rightarrow> Inl e | Inr d \<Rightarrow> Inr (marker_new d))"

definition cycle_from_env :: "runtime \<Rightarrow> StateScope \<Rightarrow> RunError + SystemSleepCycleState" where
  "cycle_from_env rt scope = (case state_dir rt scope of Inl e \<Rightarrow> Inl e | Inr d \<Rightarrow> Inr (cycle_state_new d))"

section \<open>The actions\<close>

definition SYSTEM_PRE_SLEEP_TV_COMMAND_TIMEOUT :: duration where
  "SYSTEM_PRE_SLEEP_TV_COMMAND_TIMEOUT = from_secs 3"

definition run_screen_off :: "runtime \<Rightarrow> environment \<Rightarrow> RuntimeEvent \<Rightarrow> bool action" where
  "run_screen_off rt env event =
     bindE (load_config_action rt) (\<lambda>(path, config).
     bindE (liftR (marker_from_env rt Session)) (\<lambda>marker.
     bindE (tv_client rt path config production) (\<lambda>client.
     bindE (liftR (marker_from_env rt System)) (\<lambda>system_marker.
     bindE (on_world (run_screen_off_with_result_for_event (client_env rt env client) config marker system_marker event))
       (\<lambda>result. returnE (blank_succeeded result))))))"

definition run_timed_power_off :: "runtime \<Rightarrow> environment \<Rightarrow> RuntimeEvent \<Rightarrow> unit action" where
  "run_timed_power_off rt env event =
     bindE (load_config_action rt) (\<lambda>(path, config).
     bindE (liftR (marker_from_env rt Session)) (\<lambda>marker.
       if \<not> is_enabled (screen_idle_blank config) then on_world (say env msg_timed_disabled)
       else
         bindE (getsE (\<lambda>x. marker_exists marker (ex_world x))) (\<lambda>owned.
           if \<not> owned then on_world (say env msg_timed_no_marker)
           else
             bindE (tv_client rt path config production) (\<lambda>client.
             bindE (liftR (marker_from_env rt System)) (\<lambda>system_marker.
             thenE (on_world (run_timed_power_off_with_event (client_env rt env client) config marker system_marker event))
               (returnE ()))))))"

definition run_screen_on :: "runtime \<Rightarrow> environment \<Rightarrow> RuntimeEvent \<Rightarrow> unit action" where
  "run_screen_on rt env event =
     bindE (load_config_action rt) (\<lambda>(path, config).
     bindE (liftR (marker_from_env rt Session)) (\<lambda>marker.
     bindE (tv_client rt path config production) (\<lambda>client.
     bindE (liftR (marker_from_env rt System)) (\<lambda>system_marker.
       on_world (run_screen_on_with_event (client_env rt env client) config marker system_marker event)))))"

definition run_sleep_pre :: "runtime \<Rightarrow> environment \<Rightarrow> RuntimeEvent \<Rightarrow> unit action" where
  "run_sleep_pre rt env event =
     bindE (load_config_action rt) (\<lambda>(path, config).
     bindE (liftR (marker_from_env rt System)) (\<lambda>marker.
     bindE (liftR (cycle_from_env rt System)) (\<lambda>cycle_state.
     bindE (tv_client rt path config
         (with_command_timeout SYSTEM_PRE_SLEEP_TV_COMMAND_TIMEOUT (stored_token_only production))) (\<lambda>client.
     thenE (on_world (handle_system_suspend_with_outcome (client_env rt env client) config marker cycle_state event))
       (returnE ())))))"

definition msg_resume_no_token :: string where
  "msg_resume_no_token =
     ''LG Buddy System Resume: No stored native TV credential; skipping unattended TV control.''"
definition msg_resume_attempt_kept :: "io_error \<Rightarrow> string" where
  "msg_resume_attempt_kept err =
     ''LG Buddy System Resume: could not clear system sleep attempt marker after resume. '' @ io_message err"
definition msg_resume_outcome_kept :: "io_error \<Rightarrow> string" where
  "msg_resume_outcome_kept err =
     ''LG Buddy System Resume: could not clear system sleep cycle state after resume. '' @ io_message err"

text \<open>The restoring closure and the cleanup after it, on the world.\<close>

definition resume_restore ::
    "runtime \<Rightarrow> environment \<Rightarrow> WebOsTvClient \<Rightarrow> Config \<Rightarrow> ScreenOwnershipMarker \<Rightarrow> (world, RunError, unit) eff" where
  "resume_restore rt env client config marker =
     bindE (getsE (\<lambda>w. rt_has_token rt client (trace w))) (\<lambda>has_token. case has_token of
       Inr True \<Rightarrow>
         thenE (restore_after_system_sleep_with_outcome (client_env rt env client) config marker) (returnE ())
     | Inr False \<Rightarrow> thenE (ioE (marker_clear env marker)) (say env msg_resume_no_token)
     | Inl err \<Rightarrow> thenE (ioE (marker_clear env marker)) (raiseE (Run_TvClientBuild (TokenStore err))))"

definition resume_cleanup ::
    "environment \<Rightarrow> SystemSleepCycleState \<Rightarrow> (world, RunError, io_error option) eff" where
  "resume_cleanup env attempt_state =
     bindE (tryE (attempt_clear env attempt_state)) (\<lambda>r1.
     bindE (case r1 of Inl err \<Rightarrow> thenE (say env (msg_resume_attempt_kept err)) (returnE (Some err))
                     | Inr _ \<Rightarrow> returnE None) (\<lambda>first.
     bindE (tryE (clear_outcome env attempt_state)) (\<lambda>r2.
       case r2 of
         Inl err \<Rightarrow> thenE (say env (msg_resume_outcome_kept err)) (returnE (Some (unwrap_or first err)))
       | Inr _ \<Rightarrow> returnE first)))"

definition resume_and_clean_up ::
    "runtime \<Rightarrow> environment \<Rightarrow> WebOsTvClient \<Rightarrow> Config \<Rightarrow> ScreenOwnershipMarker \<Rightarrow> SystemSleepCycleState \<Rightarrow>
      (world, RunError, unit) eff" where
  "resume_and_clean_up rt env client config marker attempt_state =
     bindE (tryE (resume_restore rt env client config marker)) (\<lambda>result.
     bindE (resume_cleanup env attempt_state) (\<lambda>cleanup_error.
       case result of
         Inr _ \<Rightarrow> (case cleanup_error of Some err \<Rightarrow> raiseE (Run_Io err) | None \<Rightarrow> returnE ())
       | Inl err \<Rightarrow> raiseE err))"

definition run_system_resume :: "runtime \<Rightarrow> environment \<Rightarrow> unit action" where
  "run_system_resume rt env =
     bindE (load_config_action rt) (\<lambda>(path, config).
     bindE (liftR (marker_from_env rt System)) (\<lambda>marker.
     bindE (liftR (cycle_from_env rt System)) (\<lambda>attempt_state.
     bindE (tv_client rt path config (stored_token_only production)) (\<lambda>client.
       on_world (resume_and_clean_up rt env client config marker attempt_state)))))"

section \<open>The session's executor\<close>

text \<open>Actions write into a buffer, which takes everything; its text is the action's output.\<close>

definition buffered :: "environment \<Rightarrow> environment" where
  "buffered env = env\<lparr>writer_fault := \<lambda>_. None, flush_fault := \<lambda>_. None\<rparr>"

fun written_line :: "effect \<Rightarrow> string list" where
  "written_line (Wrote s) = [s @ [CHR 10]]"
| "written_line _ = []"

definition written_since :: "world \<Rightarrow> world \<Rightarrow> string list" where
  "written_since w w' = concat (map written_line (rev (take (length (trace w') - length (trace w)) (trace w'))))"

definition run_action :: "unit action \<Rightarrow> executor_state \<Rightarrow> (string + string) \<times> executor_state" where
  "run_action act x =
     (case act x of
        (Inl e, x') \<Rightarrow> (Inl (run_error_display e), x')
      | (Inr _, x') \<Rightarrow> (Inr (concat (written_since (ex_world x) (ex_world x'))), x'))"

definition screen_off_action ::
    "runtime \<Rightarrow> RuntimeEvent \<Rightarrow> executor_state \<Rightarrow> (string + ScreenOffResult) \<times> executor_state" where
  "screen_off_action rt event x =
     (case run_screen_off rt (buffered (rt_env rt)) event x of
        (Inl e, x') \<Rightarrow> (Inl (run_error_display e), x')
      | (Inr ok, x') \<Rightarrow>
          (Inr \<lparr>off_output = concat (written_since (ex_world x) (ex_world x')), blank_reported = ok\<rparr>, x'))"

definition resume_streaming ::
    "runtime \<Rightarrow> RuntimeEvent \<Rightarrow> executor_state \<Rightarrow> ((string + unit) \<times> string list) \<times> executor_state" where
  "resume_streaming rt event x =
     (case run_system_resume rt (rt_env rt) x of
        (r, x') \<Rightarrow>
          ((case r of Inl e \<Rightarrow> Inl (run_error_display e) | Inr _ \<Rightarrow> Inr (),
            written_since (ex_world x) (ex_world x')), x'))"

definition runtime_executor :: "runtime \<Rightarrow> executor_state executor" where
  "runtime_executor rt =
     \<lparr>exec_screen_off = screen_off_action rt,
      exec_timed_power_off = (\<lambda>event. run_action (run_timed_power_off rt (buffered (rt_env rt)) event)),
      exec_screen_on = (\<lambda>event. run_action (run_screen_on rt (buffered (rt_env rt)) event)),
      exec_before_sleep = (\<lambda>event. run_action (run_sleep_pre rt (buffered (rt_env rt)) event)),
      exec_after_resume_streaming = resume_streaming rt\<rparr>"

section \<open>The retained client belongs to its binding\<close>

text \<open>What a client built for these options for this configuration is.\<close>

definition client_for :: "Ipv4Addr \<Rightarrow> TvClientBuildOptions \<Rightarrow> WebOsTvClient \<Rightarrow> bool" where
  "client_for ip options c \<longleftrightarrow>
     endpoint_ip c = ip \<and> pairing_policy c = webos_pairing_policy options \<and>
     (\<forall>d. command_timeout options = Some d \<longrightarrow> response_timeout c = d)"

definition client_ok :: "executor_state \<Rightarrow> bool" where
  "client_ok x \<longleftrightarrow>
     (case ex_client x of None \<Rightarrow> True | Some (b, c) \<Rightarrow> client_for (bound_ip b) (bound_options b) c)"

definition keeps_client :: "executor_state \<Rightarrow> executor_state \<Rightarrow> bool" where
  "keeps_client x x' \<longleftrightarrow> (client_ok x \<longrightarrow> client_ok x')"

interpretation kc: world_preorder keeps_client
  by unfold_locales (auto simp: keeps_client_def)

lemma keeps_on_world: "stays keeps_client (on_world m)"
  by (simp add: stays_def on_world_def keeps_client_def client_ok_def split: prod.splits)

lemma keeps_load: "stays keeps_client (load_config_action rt)"
  by (auto simp: stays_def load_config_action_def on_world_def keeps_client_def client_ok_def split: prod.splits sum.splits)

lemma tv_client_bound:
  assumes "client_ok x" and "tv_client rt path config options x = (r, x')"
  shows "client_ok x'" and "r = Inr c \<Longrightarrow> client_for (tv_ip config) options c"
proof -
  have "client_ok x' \<and> (\<forall>c. r = Inr c \<longrightarrow> client_for (tv_ip config) options c)"
  proof (cases "\<exists>client. ex_client x = Some (binding_for path config options, client) \<and> tv_platform config \<noteq> Bscpylgtv")
    case True
    with assms show ?thesis by (auto simp: tv_client_def client_ok_def binding_for_def)
  next
    case False
    then have "tv_client rt path config options x = rebuild_client rt path config options x"
      by (auto simp: tv_client_def split: option.splits)
    with assms(2) show ?thesis
      using build_tv_client_ok [of "rt_owner_of rt" "rt_store_for rt" path "tv_ip config" "tv_platform config" options]
      by (auto simp: rebuild_client_def client_ok_def client_for_def binding_for_def split: sum.splits)
  qed
  then show "client_ok x'" and "r = Inr c \<Longrightarrow> client_for (tv_ip config) options c" by auto
qed

lemma keeps_tv_client: "stays keeps_client (tv_client rt path config options)"
  unfolding stays_def keeps_client_def using tv_client_bound(1) by (metis prod.collapse)

lemmas keeps_rules = keeps_on_world keeps_load keeps_tv_client kc.stays_rules stays_if

lemma keeps_actions:
  "stays keeps_client (run_screen_off rt env event)" "stays keeps_client (run_timed_power_off rt env event)"
  "stays keeps_client (run_screen_on rt env event)" "stays keeps_client (run_sleep_pre rt env event)"
  "stays keeps_client (run_system_resume rt env)"
  unfolding run_screen_off_def run_timed_power_off_def run_screen_on_def run_sleep_pre_def run_system_resume_def
  by (auto intro!: keeps_rules)

section \<open>What the loop does to the executor\<close>

text \<open>
  The contract between the session monitor and its executor: a relation that is reflexive and transitive
  and that each operation of the executor keeps is kept by the whole loop, because the loop touches the
  executor's state through these operations only.
\<close>

definition exec_related :: "('x \<Rightarrow> 'x \<Rightarrow> bool) \<Rightarrow> 'x run \<Rightarrow> 'x run \<Rightarrow> bool" where
  "exec_related R r r' \<longleftrightarrow> R (exec_state r) (exec_state r')"

locale executor_contract = world_preorder R for R :: "'x \<Rightarrow> 'x \<Rightarrow> bool" +
  fixes E :: "'x executor"
  assumes off_keeps: "R x (snd (exec_screen_off E ev x))"
    and timed_keeps: "R x (snd (exec_timed_power_off E ev x))"
    and on_keeps: "R x (snd (exec_screen_on E ev x))"
    and sleep_keeps: "R x (snd (exec_before_sleep E ev x))"
    and resume_keeps: "R x (snd (exec_after_resume_streaming E ev x))"
begin

abbreviation "runs \<equiv> exec_related R"

lemma host_keeps:
  assumes "executor_of host = E"
  shows "R x (snd (exec_screen_off (executor_of host) ev x))" "R x (snd (exec_timed_power_off (executor_of host) ev x))"
    "R x (snd (exec_screen_on (executor_of host) ev x))" "R x (snd (exec_before_sleep (executor_of host) ev x))"
    "R x (snd (exec_after_resume_streaming (executor_of host) ev x))"
  using assms off_keeps timed_keeps on_keeps sleep_keeps resume_keeps by simp_all

lemmas runs_def = exec_related_def

lemma runs_preorder: "world_preorder runs"
  by unfold_locales (auto simp: runs_def R_refl intro: R_trans)

lemmas runs_rules = world_preorder.stays_rules [OF runs_preorder] stays_if

lemma runs_same: "(\<And>r. exec_state (snd (m r)) = exec_state r) \<Longrightarrow> stays runs m"
  by (simp add: stays_def runs_def R_refl)

lemma runs_put: "stays runs (put host text)" "stays runs (put_flush host)"
  by (rule runs_same, simp add: put_def put_flush_def split: option.splits)+

lemma runs_small:
  "stays runs cancel_gate" "stays runs (publish_all ps)" "stays runs drain_mailbox" "stays runs (note_act a)"
  "stays runs (on_engine f)" "stays runs (observe_time_gated push t)"
  by (rule runs_same, simp add: cancel_gate_def publish_all_def drain_mailbox_def note_act_def on_engine_def
      observe_time_gated_def modifyE_def split: prod.splits)+

lemma runs_modify: "(\<And>r. exec_state (f r) = exec_state r) \<Longrightarrow> stays runs (modifyE f)"
  by (rule runs_same) (simp add: modifyE_def)

lemma runs_call: "(\<And>x. R x (snd (f x))) \<Longrightarrow> stays runs (call_executor a f)"
  unfolding call_executor_def
proof (intro runs_rules runs_small)
  assume "\<And>x. R x (snd (f x))"
  then show "stays runs (\<lambda>r. case f (exec_state r) of (result, x) \<Rightarrow> (Inr result, r\<lparr>exec_state := x\<rparr>))"
    by (simp add: stays_def runs_def split_beta)
qed

lemma runs_line: "stays runs (put_line host line)"
  unfolding put_line_def by (rule runs_put)

lemma runs_output: "stays runs (write_command_output host output)"
  unfolding write_command_output_def by (intro runs_rules runs_put runs_line)

lemma runs_report: "stays runs (report_action host msg result)"
  unfolding report_action_def by (auto intro!: runs_line runs_output split: sum.splits)

lemma runs_statuses: "stays runs (report_statuses host statuses)"
  by (induction statuses) (auto intro!: runs_rules runs_line)

lemma runs_note_statuses: "stays runs (note_statuses host statuses)"
  unfolding note_statuses_def by (intro runs_rules runs_small runs_statuses runs_modify) simp

lemma runs_off: "executor_of host = E \<Longrightarrow> stays runs (dispatch_screen_off host src event)"
  unfolding dispatch_screen_off_def
  by (auto intro!: runs_rules runs_call runs_output runs_line host_keeps split: sum.splits)

lemma runs_timed: "executor_of host = E \<Longrightarrow> stays runs (dispatch_timed_power_off host t)"
  unfolding dispatch_timed_power_off_def by (auto intro!: runs_rules runs_call runs_report host_keeps)

lemma runs_resume: "executor_of host = E \<Longrightarrow> stays runs (stream_after_resume host msg event)"
  unfolding stream_after_resume_def
  by (auto intro!: runs_rules runs_call runs_line runs_modify host_keeps split: sum.splits prod.splits)

lemma runs_dispatch: "executor_of host = E \<Longrightarrow> stays runs (dispatch_event_from_source host src event)"
  by (cases event)
    (auto intro!: runs_rules runs_call runs_line runs_put runs_report runs_off runs_resume host_keeps)

lemma runs_observation: "executor_of host = E \<Longrightarrow> stays runs (handle_inactivity_observation host src observation t)"
  unfolding handle_inactivity_observation_def
  by (auto intro!: runs_rules runs_small runs_line runs_dispatch split: option.splits)

lemma runs_blank: "executor_of host = E \<Longrightarrow> stays runs (handle_blank_request host src event)"
  unfolding handle_blank_request_def complete_blank_now_def
  by (auto intro!: runs_rules runs_small runs_line runs_off split: SessionEvent.splits)

lemma runs_timeout: "executor_of host = E \<Longrightarrow> stays runs (handle_inactivity_timeout host push t)"
  unfolding handle_inactivity_timeout_def
  by (auto intro!: runs_rules runs_small runs_line runs_blank runs_timed split: InactivityDecision.splits)

lemma runs_lock: "executor_of host = E \<Longrightarrow> stays runs (handle_session_lock host src t)"
  unfolding handle_session_lock_def by (auto intro!: runs_rules runs_small runs_blank)

lemma runs_system_blank: "executor_of host = E \<Longrightarrow> stays runs (handle_system_blank host src t)"
  unfolding handle_system_blank_def by (auto intro!: runs_rules runs_small runs_line runs_blank)

lemma runs_message: "executor_of host = E \<Longrightarrow> stays runs (handle_message host message)"
  by (cases "(host, message)" rule: handle_message.cases)
    (auto intro!: runs_rules runs_small runs_line runs_observation runs_lock runs_system_blank runs_dispatch
       simp del: dispatch_event_from_source.simps)

lemma runs_batch: "executor_of host = E \<Longrightarrow> stays runs (handle_batch host batch)"
  by (induction host batch rule: handle_batch.induct) (auto intro!: runs_rules runs_small runs_observation)

lemma runs_wait_timeout: "executor_of host = E \<Longrightarrow> stays runs (handle_wait_timeout host ps statuses worker push t)"
  unfolding handle_wait_timeout_def drain_and_handle_def
  by (auto intro!: runs_rules runs_small runs_batch runs_timeout runs_modify)

lemma runs_iteration: "executor_of host = E \<Longrightarrow> stays runs (monitor_iteration host t)"
  unfolding monitor_iteration_def drain_and_handle_def
  by (auto intro!: runs_rules runs_small runs_batch runs_note_statuses runs_wait_timeout runs_message split: wait_result.splits)

theorem loop_keeps: "executor_of host = E \<Longrightarrow> stays runs (monitor_loop host ts)"
  by (induction ts) (auto intro!: runs_rules runs_iteration)

end

interpretation rx: executor_contract keeps_client "runtime_executor rt" for rt
proof unfold_locales
  have act: "keeps_client x (snd (run_action a x))" if "stays keeps_client a" for a x
    using staysD [OF that] by (auto simp: run_action_def split: prod.splits sum.splits)
  fix ev x
  show "keeps_client x (snd (exec_screen_off (runtime_executor rt) ev x))"
    using staysD [OF keeps_actions(1)] by (auto simp: runtime_executor_def screen_off_action_def split: prod.splits sum.splits)
  show "keeps_client x (snd (exec_after_resume_streaming (runtime_executor rt) ev x))"
    using staysD [OF keeps_actions(5)] by (auto simp: runtime_executor_def resume_streaming_def split: prod.splits sum.splits)
  show "keeps_client x (snd (exec_timed_power_off (runtime_executor rt) ev x))"
    "keeps_client x (snd (exec_screen_on (runtime_executor rt) ev x))"
    "keeps_client x (snd (exec_before_sleep (runtime_executor rt) ev x))"
    by (simp_all add: runtime_executor_def act keeps_actions)
qed

end
