(* ===== verification/Actions_Proofs.thy ===== *)
theory Actions_Proofs
  imports Actions Lifecycle_Proofs Runner_Proofs Config_Agreement
begin

text \<open>
  What the executor adds to the handlers: actions taken while nobody is at the screen never use a client
  that could prompt or wait long, and a resume leaves no trace of the sleep cycle behind.
\<close>

section \<open>Unattended actions\<close>

definition unattended :: "WebOsTvClient \<Rightarrow> bool" where
  "unattended c \<longleftrightarrow> pairing_policy c = StoredTokenOnly"

definition quick :: "WebOsTvClient \<Rightarrow> bool" where
  "quick c \<longleftrightarrow> response_timeout c = SYSTEM_PRE_SLEEP_TV_COMMAND_TIMEOUT"

definition sleep_options :: TvClientBuildOptions where
  "sleep_options = with_command_timeout SYSTEM_PRE_SLEEP_TV_COMMAND_TIMEOUT (stored_token_only production)"

lemma sleep_client: "client_for ip sleep_options c \<Longrightarrow> unattended c \<and> quick c"
  by (simp add: client_for_def sleep_options_def with_command_timeout_def stored_token_only_def unattended_def quick_def)

lemma resume_client: "client_for ip (stored_token_only production) c \<Longrightarrow> unattended c"
  by (simp add: client_for_def stored_token_only_def unattended_def)

text \<open>The same runtime, except that the TV answers every client differently.\<close>

abbreviation other_tv :: "runtime \<Rightarrow> (WebOsTvClient \<Rightarrow> tv_answers) \<Rightarrow> runtime" where
  "other_tv rt answers \<equiv> rt\<lparr>rt_tv := answers\<rparr>"

lemma other_tv_rebuild [simp]: "rebuild_client (other_tv rt answers) = rebuild_client rt"
  by (simp add: fun_eq_iff rebuild_client_def)

lemma other_tv_fields:
  "rt_env (other_tv rt answers) = rt_env rt" "rt_config_path (other_tv rt answers) = rt_config_path rt"
  "rt_declarations (other_tv rt answers) = rt_declarations rt"
  "rt_has_token (other_tv rt answers) = rt_has_token rt"
  by simp_all

lemma other_tv_read [simp]: "read_current (other_tv rt answers) = read_current rt"
  unfolding read_current_def other_tv_fields ..

lemma other_tv_state [simp]: "state_dir (other_tv rt answers) = state_dir rt"
  by (simp add: fun_eq_iff state_dir_def)

lemma other_tv_parts [simp]:
  "load_config_action (other_tv rt answers) = load_config_action rt"
  "marker_from_env (other_tv rt answers) = marker_from_env rt"
  "cycle_from_env (other_tv rt answers) = cycle_from_env rt"
  "tv_client (other_tv rt answers) = tv_client rt"
  unfolding load_config_action_def marker_from_env_def cycle_from_env_def tv_client_def
    other_tv_read other_tv_state other_tv_rebuild
  by (rule refl)+

lemma other_tv_env: "answers c = rt_tv rt c \<Longrightarrow> client_env (other_tv rt answers) env c = client_env rt env c"
  by (simp add: client_env_def)

text \<open>Two actions that continue alike after the client has been chosen.\<close>

lemma with_client_cong:
  assumes "client_ok x" and "\<And>c. client_for (tv_ip config) options c \<Longrightarrow> f c = g c"
  shows "bindE (tv_client rt path config options) f x = bindE (tv_client rt path config options) g x"
proof -
  obtain r x' where r: "tv_client rt path config options x = (r, x')" by fastforce
  with tv_client_bound(2) [OF assms(1) r] assms(2) show ?thesis
    by (cases r) (auto simp: bindE_def)
qed

lemma bindE_cong:
  "(\<And>a x'. m x = (Inr a, x') \<Longrightarrow> f a x' = g a x') \<Longrightarrow> bindE m f x = bindE m g x"
  by (simp add: bindE_def split: prod.splits sum.splits)

lemma load_ok: "client_ok x \<Longrightarrow> load_config_action rt x = (r, x') \<Longrightarrow> client_ok x'"
  using staysD [OF keeps_load] by (auto simp: keeps_client_def)

lemma liftR_same: "liftR r x = (Inr a, x') \<Longrightarrow> x' = x"
  by (auto simp: liftR_def split: sum.splits)

lemma loaded_cong:
  assumes "client_ok x" and "\<And>path config x'. client_ok x' \<Longrightarrow> f (path, config) x' = g (path, config) x'"
  shows "bindE (load_config_action rt) f x = bindE (load_config_action rt) g x"
  by (rule bindE_cong) (metis assms load_ok surj_pair)

lemma lifted_cong: "(\<And>a. f a x = g a x) \<Longrightarrow> bindE (liftR r) f x = bindE (liftR r) g x"
  by (auto intro: bindE_cong dest: liftR_same)

lemma sleep_pre_cong:
  assumes "client_ok x" and same: "\<And>c. unattended c \<Longrightarrow> quick c \<Longrightarrow> answers c = rt_tv rt c"
  shows "run_sleep_pre (other_tv rt answers) env event x = run_sleep_pre rt env event x"
  unfolding run_sleep_pre_def other_tv_parts sleep_options_def [symmetric]
proof (rule loaded_cong [OF assms(1)], unfold prod.case, intro lifted_cong with_client_cong)
  fix config :: Config and c
  assume "client_for (tv_ip config) sleep_options c"
  then have "answers c = rt_tv rt c" using sleep_client same by blast
  then show "thenE (on_world (handle_system_suspend_with_outcome (client_env (other_tv rt answers) env c) config m s event)) k =
      thenE (on_world (handle_system_suspend_with_outcome (client_env rt env c) config m s event)) k" for m s k
    by (simp add: other_tv_env)
qed

lemma resume_cong:
  assumes "client_ok x" and same: "\<And>c. unattended c \<Longrightarrow> answers c = rt_tv rt c"
  shows "run_system_resume (other_tv rt answers) env x = run_system_resume rt env x"
  unfolding run_system_resume_def other_tv_parts
proof (rule loaded_cong [OF assms(1)], unfold prod.case, intro lifted_cong with_client_cong)
  fix config :: Config and c
  assume "client_for (tv_ip config) (stored_token_only production) c"
  then have "answers c = rt_tv rt c" using resume_client same by blast
  then have e: "client_env (other_tv rt answers) env c = client_env rt env c" by (rule other_tv_env)
  show "on_world (resume_and_clean_up (other_tv rt answers) env c config m s) =
      on_world (resume_and_clean_up rt env c config m s)" for m s
    unfolding resume_and_clean_up_def resume_restore_def e other_tv_fields ..
qed

lemma monitor_client_ok:
  assumes "executor_of host = runtime_executor rt" and "ex_client x0 = None"
    and "monitor_loop host ts (start_run x0 e g) = (res, r)"
  shows "client_ok (exec_state r)"
proof -
  have "client_ok x0" using assms(2) by (simp add: client_ok_def)
  with staysD [OF rx.loop_keeps [OF assms(1)] assms(3)] show ?thesis
    by (simp add: exec_related_def keeps_client_def start_run_def)
qed

definition agree_on :: "(WebOsTvClient \<Rightarrow> bool) \<Rightarrow> runtime \<Rightarrow> (WebOsTvClient \<Rightarrow> tv_answers) \<Rightarrow> bool" where
  "agree_on P rt answers \<longleftrightarrow> (\<forall>c. P c \<longrightarrow> answers c = rt_tv rt c)"

section \<open>Resume leaves nothing behind\<close>

definition sleep_traces_gone :: "path \<Rightarrow> world \<Rightarrow> bool" where
  "sleep_traces_gone d w \<longleftrightarrow>
     \<not> marker_exists (marker_new d) w \<and> \<not> attempt_exists (cycle_state_new d) w \<and>
     files w (cycle_path (cycle_state_new d)) = None"

lemma restore_or_clear: "wp (resume_restore rt env client config m) (\<lambda>_ v. \<not> marker_exists m v) (\<lambda>_ _. True) w"
proof -
  have clear: "wp (ioE (marker_clear env m)) (\<lambda>_ v. \<not> marker_exists m v) (\<lambda>_ _. True) w"
    by (auto simp: ioE_def marker_clear_def marker_exists_def wp_rules split: option.splits)
  have tell: "wp (say env msg) (\<lambda>_ v. \<not> marker_exists m v) (\<lambda>_ _. True) v" if "\<not> marker_exists m v" for msg v
    by (rule wp_mono [OF wp_say]) (use that in \<open>auto simp: marker_exists_def\<close>)
  show ?thesis
    unfolding resume_restore_def wp_bindE wp_getsE
    by (auto split: sum.splits bool.splits
        intro!: wp_thenI [OF resume_clears] wp_thenI [OF clear] tell simp: wp_returnE wp_raiseE)
qed

lemma cleanup_step:
  "wp (bindE (tryE (clear_file env q)) (\<lambda>r. case r of
        Inl e \<Rightarrow> thenE (say env (msg e)) (returnE (Some (kept e))) | Inr _ \<Rightarrow> returnE first))
     (\<lambda>err v. (err = None \<longrightarrow> first = None \<and> files v q = None) \<and> (\<forall>p. files w p = None \<longrightarrow> files v p = None))
     (\<lambda>_ _. True) w"
proof -
  have tell: "wp (thenE (say env m) (returnE (Some e))) (\<lambda>err v. err \<noteq> None \<and> files v = files w) (\<lambda>_ _. True) w" for m e
    by (rule wp_thenI [OF wp_say]) (auto simp: wp_returnE)
  show ?thesis
    unfolding wp_bindE wp_tryE wp_clear_file
    by (auto split: option.splits simp: wp_returnE intro: wp_mono [OF tell])
qed

lemma cleanup_clears:
  "wp (resume_cleanup env s)
     (\<lambda>err v. (err = None \<longrightarrow> files v (attempt_path s) = None \<and> files v (cycle_path s) = None) \<and>
        (\<forall>p. files w p = None \<longrightarrow> files v p = None)) (\<lambda>_ _. True) w"
proof -
  have "resume_cleanup env s =
      bindE (bindE (tryE (clear_file env (attempt_path s))) (\<lambda>r. case r of
          Inl err \<Rightarrow> thenE (say env (msg_resume_attempt_kept err)) (returnE (Some err)) | Inr _ \<Rightarrow> returnE None))
        (\<lambda>first. bindE (tryE (clear_file env (cycle_path s))) (\<lambda>r. case r of
          Inl err \<Rightarrow> thenE (say env (msg_resume_outcome_kept err)) (returnE (Some (unwrap_or first err)))
        | Inr _ \<Rightarrow> returnE first))"
    by (simp add: resume_cleanup_def attempt_clear_def clear_outcome_def bindE_def fun_eq_iff split: prod.splits sum.splits)
  then show ?thesis
    by (simp only:) (rule wp_bindI [OF cleanup_step], rule wp_mono [OF cleanup_step], auto)
qed

lemma resume_clean:
  "wp (resume_and_clean_up rt env client config (marker_new d) (cycle_state_new d))
     (\<lambda>_ v. sleep_traces_gone d v) (\<lambda>_ _. True) w"
  unfolding resume_and_clean_up_def wp_bindE wp_tryE
proof (rule wp_mono [OF restore_or_clear [of rt env client config "marker_new d" w]])
  fix a v
  assume "\<not> marker_exists (marker_new d) v"
  then show "wp (resume_cleanup env (cycle_state_new d))
      (\<lambda>e. wp (case Inr a of Inl err \<Rightarrow> raiseE err | Inr _ \<Rightarrow> (case e of None \<Rightarrow> returnE () | Some err \<Rightarrow> raiseE (Run_Io err)))
        (\<lambda>_ v. sleep_traces_gone d v) (\<lambda>_ _. True)) (\<lambda>_ _. True) v"
    by (intro wp_mono [OF cleanup_clears])
      (auto simp: sleep_traces_gone_def marker_exists_def attempt_exists_def wp_rules split: option.splits)
qed (auto simp: wp_raiseE intro: wp_mono [OF cleanup_clears])

lemma wp_on_world: "wp (on_world m) Q E x = wp m (\<lambda>a w. Q a (x\<lparr>ex_world := w\<rparr>)) (\<lambda>e w. E e (x\<lparr>ex_world := w\<rparr>)) (ex_world x)"
  by (simp add: wp_def on_world_def split: prod.splits sum.splits)

lemma wp_whatever: "(\<And>a v. wp (f a) Q (\<lambda>_ _. True) v) \<Longrightarrow> wp (bindE m f) Q (\<lambda>_ _. True) u"
  unfolding wp_bindE by (auto simp: wp_def split: prod.splits sum.splits)

lemma resume_gone:
  assumes "state_dir rt System = Inr d"
  shows "wp (run_system_resume rt env) (\<lambda>_ v. sleep_traces_gone d (ex_world v)) (\<lambda>_ _. True) x"
  unfolding run_system_resume_def marker_from_env_def cycle_from_env_def assms sum.case
proof (rule wp_whatever, clarify, unfold wp_bindE [of "liftR _"] wp_liftR sum.case, rule wp_whatever)
  show "wp (on_world (resume_and_clean_up rt env client config (marker_new d) (cycle_state_new d)))
      (\<lambda>_ v. sleep_traces_gone d (ex_world v)) (\<lambda>_ _. True) v" for client config v
    unfolding wp_on_world by (rule wp_mono [OF resume_clean]) simp_all
qed

lemma wp_tv_new:
  "ex_client x = None \<Longrightarrow> wp (tv_client rt path config options) Q E x =
     (case build_tv_client (rt_owner_of rt) (rt_store_for rt) path (tv_ip config) (tv_platform config) options of
        Inl e \<Rightarrow> E (Run_TvClientBuild e) (x\<lparr>ex_client := None\<rparr>)
      | Inr c \<Rightarrow> Q c (x\<lparr>ex_client := Some (binding_for path config options, c)\<rparr>))"
  by (simp add: wp_def tv_client_def rebuild_client_def split: sum.splits)

section \<open>The theorems\<close>

text \<open>
  Suspend and resume never ask anyone: after any run of the session monitor on the real executor, whatever
  client it retained, the action before sleep only listens to clients that use the stored credential and the
  three-second pre-sleep limit (if the TV answered all other clients differently, nothing would change), and
  the resume action only to clients that use the stored credential.
\<close>

theorem suspend_never_prompts:
  assumes "executor_of host = runtime_executor rt" and "ex_client x0 = None"
    and "monitor_loop host ts (start_run x0 e g) = (res, r)"
  shows "(agree_on (\<lambda>c. unattended c \<and> quick c) rt answers \<longrightarrow>
       run_sleep_pre (other_tv rt answers) env event (exec_state r) = run_sleep_pre rt env event (exec_state r)) \<and>
     (agree_on unattended rt answers \<longrightarrow>
       run_system_resume (other_tv rt answers) env (exec_state r) = run_system_resume rt env (exec_state r))"
  using sleep_pre_cong resume_cong monitor_client_ok [OF assms] unfolding agree_on_def by blast

text \<open>
  C26. A resume that succeeds leaves no trace of the sleep: neither the system marker that silences the session,
  nor the attempt marker, nor the recorded outcome of the cycle, whether or not a credential was stored and
  whatever the TV answered.
\<close>

theorem resume_cleans_up:
  assumes "run_system_resume rt env x = (Inr u, x')" and "state_dir rt System = Inr d"
  shows "sleep_traces_gone d (ex_world x')"
  using wp_result [OF resume_gone [OF assms(2)] assms(1)] by simp

section \<open>A concrete executor\<close>

definition obliging :: tv_answers where
  "obliging = \<lparr>ans_current_input = \<lambda>_. Inr (Hdmi Hdmi1), ans_set_input = \<lambda>_ _. Inr (), ans_power_off = \<lambda>_. Inr (),
     ans_blank = \<lambda>_. Inr (), ans_unblank = \<lambda>_. Inr ()\<rparr>"

definition silent :: tv_answers where
  "silent = obliging\<lparr>ans_power_off := \<lambda>_. Inl (TvError PowerOffOp Transport ''timed out'')\<rparr>"

definition example_runtime :: runtime where
  "example_runtime =
     \<lparr>rt_env = calm, rt_tv = \<lambda>_. obliging, rt_config_path = \<lambda>_. Inr ''/c/config.env'',
      rt_declarations = \<lambda>_ _. Inr None, rt_uid = Some 1000, rt_owner_of = \<lambda>_. Inr 1000,
      rt_store_for = \<lambda>_ _. Inr ''/c/tokens'', rt_has_token = \<lambda>_ _. Inr False\<rparr>"

definition example_asleep :: executor_state where
  "example_asleep =
     \<lparr>ex_world = fresh_world\<lparr>files := [''/c/config.env'' \<mapsto> example_contents,
        marker_path (marker_new ''/run/lg_buddy'') \<mapsto> []]\<rparr>, ex_client = None\<rparr>"

definition runtime_host :: "executor_state host" where
  "runtime_host =
     \<lparr>executor_of = runtime_executor example_runtime, writes = \<lambda>_. None, flushes = \<lambda>_. None, clock = \<lambda>_. 11,
      power_off_text = ''3''\<rparr>"

theorem suspend_never_prompts_witness:
  "let r = snd (monitor_loop runtime_host evening (start_run example_asleep (start_engine 5 3 0 False) None));
       other = other_tv example_runtime (\<lambda>c. if unattended c \<and> quick c then obliging else silent)
   in run_sleep_pre other calm preparing_event (exec_state r) =
      run_sleep_pre example_runtime calm preparing_event (exec_state r)"
proof -
  let ?run = "monitor_loop runtime_host evening (start_run example_asleep (start_engine 5 3 0 False) None)"
  have "agree_on (\<lambda>c. unattended c \<and> quick c) example_runtime (\<lambda>c. if unattended c \<and> quick c then obliging else silent)"
    by (simp add: agree_on_def example_runtime_def)
  moreover have "executor_of runtime_host = runtime_executor example_runtime" "ex_client example_asleep = None"
    "?run = (fst ?run, snd ?run)"
    by (simp_all add: runtime_host_def example_asleep_def)
  ultimately show ?thesis using suspend_never_prompts unfolding Let_def by blast
qed

lemma example_resumes:
  "wp (run_system_resume example_runtime calm) (\<lambda>_ _. True) (\<lambda>_ _. False) example_asleep"
proof -
  obtain config where c: "load_current_config (Inr example_contents) (Inr None) = Inr config"
    using example_loads by (auto simp: load_current_config_def)
  then have p: "tv_platform config = LgWebOs"
    by (simp add: load_current_config_def current_config_webos)
  have "''/c/config.env'' \<noteq> marker_path (marker_new ''/run/lg_buddy'')"
    by (simp add: marker_new_def path_join_def SCREEN_OFF_BY_US_MARKER_def)
  then have "wp (load_config_action example_runtime) (\<lambda>(path, cfg) x. cfg = config \<and> ex_client x = None) (\<lambda>_ _. False) example_asleep"
    by (simp add: wp_def load_config_action_def on_world_def read_current_def example_runtime_def example_asleep_def
        bindE_def getsE_def tryE_def read_to_string_def thenE_def faultE_def c returnE_def)
  then show ?thesis
    unfolding run_system_resume_def
    by (rule wp_bindI)
      (auto simp: wp_rules example_runtime_def marker_from_env_def cycle_from_env_def state_dir_def
        resolve_state_dir_from_env_def resolve_state_dir_def wp_tv_new build_tv_client_def p wp_on_world resume_and_clean_up_def
        resume_restore_def resume_cleanup_def attempt_clear_def clear_outcome_def ioE_def marker_clear_def say_def)
qed

theorem resume_cleans_up_witness:
  "\<not> sleep_traces_gone ''/run/lg_buddy'' (ex_world example_asleep) \<and>
   sleep_traces_gone ''/run/lg_buddy'' (ex_world (snd (run_system_resume example_runtime calm example_asleep)))"
proof
  show "\<not> sleep_traces_gone ''/run/lg_buddy'' (ex_world example_asleep)"
    by (simp add: sleep_traces_gone_def example_asleep_def marker_exists_def)
  have "state_dir example_runtime System = Inr ''/run/lg_buddy''"
    by (simp add: state_dir_def example_runtime_def resolve_state_dir_from_env_def resolve_state_dir_def path_join_def
       STATE_DIR_NAME_def)
  moreover obtain x' where "run_system_resume example_runtime calm example_asleep = (Inr (), x')"
    using example_resumes by (auto simp: wp_def split: prod.splits sum.splits)
  ultimately show "sleep_traces_gone ''/run/lg_buddy''
      (ex_world (snd (run_system_resume example_runtime calm example_asleep)))"
    using resume_cleans_up by simp
qed

end
