(* ===== verification/Session_Bus.thy ===== *)
theory Session_Bus
  imports World
begin

text \<open>
  D-Bus as the program uses it (\<^verbatim>\<open>session_bus.rs\<close>): values, replies, signals, match rules, the
  conversion of received messages and the selection of the next signal. The connection itself is the
  record \<open>bus\<close>: what it answers may depend on everything asked before.
\<close>

section \<open>Values and errors\<close>

datatype SessionBusError =
    BusTransport string
  | BusTimeout string duration
  | UnexpectedReplyShape string string
  | UnsupportedMessageBody string string

text \<open>A duration prints as \<open>Debug\<close> does; the text is an argument because it is printed only.\<close>

fun session_bus_error_display :: "(duration \<Rightarrow> string) \<Rightarrow> SessionBusError \<Rightarrow> string" where
  "session_bus_error_display show_duration (BusTransport message) = message"
| "session_bus_error_display show_duration (BusTimeout name timeout) =
     ''timed out waiting for bus name `'' @ name @ ''` after '' @ show_duration timeout"
| "session_bus_error_display show_duration (UnexpectedReplyShape expected actual) =
     ''unexpected bus reply shape: expected '' @ expected @ '', got '' @ actual"
| "session_bus_error_display show_duration (UnsupportedMessageBody body_context body_kind) =
     ''unsupported D-Bus '' @ body_context @ '': '' @ body_kind"

datatype BusValue =
    BusBool bool
  | UnixFd int
  | U32 "32 word"
  | U64 "64 word"
  | BusString string
  | ObjectPath string
  | BusArray "BusValue list"
  | BusStruct "BusValue list"
  | BusDict "(BusValue \<times> BusValue) list"
  | Variant BusValue

fun bus_value_kind :: "BusValue \<Rightarrow> string" where
  "bus_value_kind (BusBool _) = ''bool''"
| "bus_value_kind (UnixFd _) = ''fd''"
| "bus_value_kind (U32 _) = ''u32''"
| "bus_value_kind (U64 _) = ''u64''"
| "bus_value_kind (BusString _) = ''string''"
| "bus_value_kind (ObjectPath _) = ''object path''"
| "bus_value_kind (BusArray _) = ''array''"
| "bus_value_kind (BusStruct _) = ''struct''"
| "bus_value_kind (BusDict _) = ''dict''"
| "bus_value_kind (Variant _) = ''variant''"

datatype BusReply = BusReply (reply_body: "BusValue list")

definition wrong_shape :: "string \<Rightarrow> BusValue list \<Rightarrow> SessionBusError" where
  "wrong_shape expected body =
     UnexpectedReplyShape expected (case body of [v] \<Rightarrow> bus_value_kind v | _ \<Rightarrow> ''multiple values'')"

fun single_bool :: "BusReply \<Rightarrow> SessionBusError + bool" where
  "single_bool (BusReply [BusBool b]) = Inr b"
| "single_bool (BusReply [Variant (BusBool b)]) = Inr b"
| "single_bool (BusReply [Variant v]) = Inl (UnexpectedReplyShape ''single bool'' (bus_value_kind v))"
| "single_bool (BusReply body) = Inl (wrong_shape ''single bool'' body)"

fun single_u64 :: "BusReply \<Rightarrow> SessionBusError + 64 word" where
  "single_u64 (BusReply [U64 v]) = Inr v"
| "single_u64 (BusReply body) = Inl (wrong_shape ''single u64'' body)"

fun single_u32 :: "BusReply \<Rightarrow> SessionBusError + 32 word" where
  "single_u32 (BusReply [U32 v]) = Inr v"
| "single_u32 (BusReply body) = Inl (wrong_shape ''single u32'' body)"

fun single_unix_fd :: "BusReply \<Rightarrow> SessionBusError + int" where
  "single_unix_fd (BusReply [UnixFd fd]) = Inr fd"
| "single_unix_fd (BusReply body) = Inl (wrong_shape ''single fd'' body)"

fun single_string :: "BusReply \<Rightarrow> SessionBusError + string" where
  "single_string (BusReply [BusString s]) = Inr s"
| "single_string (BusReply body) = Inl (wrong_shape ''single string'' body)"

fun single_object_path :: "BusReply \<Rightarrow> SessionBusError + string" where
  "single_object_path (BusReply [ObjectPath p]) = Inr p"
| "single_object_path (BusReply body) = Inl (wrong_shape ''single object path'' body)"

section \<open>Calls, signals and match rules\<close>

record BusMethodCall =
  call_destination :: string
  call_path :: string
  call_interface :: string
  call_member :: string
  call_body :: "BusValue list"

definition method_call :: "string \<Rightarrow> string \<Rightarrow> string \<Rightarrow> string \<Rightarrow> BusValue list \<Rightarrow> BusMethodCall" where
  "method_call destination path iface member body =
     \<lparr>call_destination = destination, call_path = path, call_interface = iface, call_member = member, call_body = body\<rparr>"

record BusSignalMatch =
  match_sender :: "string option"
  match_path :: "string option"
  match_interface :: "string option"
  match_member :: "string option"

record BusSignal =
  sig_sender :: "string option"
  sig_path :: string
  sig_interface :: string
  sig_member :: string
  sig_body :: "BusValue list"

definition rule_matches :: "BusSignalMatch \<Rightarrow> BusSignal \<Rightarrow> bool" where
  "rule_matches rule signal \<longleftrightarrow>
     is_none_or (match_sender rule) (\<lambda>s. sig_sender signal = Some s) \<and>
     is_none_or (match_path rule) (\<lambda>p. sig_path signal = p) \<and>
     is_none_or (match_interface rule) (\<lambda>i. sig_interface signal = i) \<and>
     is_none_or (match_member rule) (\<lambda>m. sig_member signal = m)"

section \<open>Received messages\<close>

text \<open>The items of a message as the D-Bus library delivers them.\<close>

datatype DbusMessageItem =
    ItemArray "DbusMessageItem list"
  | ItemStruct "DbusMessageItem list"
  | ItemVariant DbusMessageItem
  | ItemDict "(DbusMessageItem \<times> DbusMessageItem) list"
  | ItemObjectPath string
  | ItemSignature string
  | ItemStr string
  | ItemBool bool
  | ItemByte "8 word"
  | ItemInt16 "16 word"
  | ItemInt32 "32 word"
  | ItemInt64 "64 word"
  | ItemUInt16 "16 word"
  | ItemUInt32 "32 word"
  | ItemUInt64 "64 word"
  | ItemDouble string
  | ItemUnixFd int

fun dbus_message_item_kind :: "DbusMessageItem \<Rightarrow> string" where
  "dbus_message_item_kind (ItemBool _) = ''bool''"
| "dbus_message_item_kind (ItemUInt64 _) = ''u64''"
| "dbus_message_item_kind (ItemStr _) = ''string''"
| "dbus_message_item_kind (ItemArray _) = ''array''"
| "dbus_message_item_kind (ItemStruct _) = ''struct''"
| "dbus_message_item_kind (ItemVariant _) = ''variant''"
| "dbus_message_item_kind (ItemDict _) = ''dict''"
| "dbus_message_item_kind (ItemObjectPath _) = ''object path''"
| "dbus_message_item_kind (ItemSignature _) = ''signature''"
| "dbus_message_item_kind (ItemByte _) = ''byte''"
| "dbus_message_item_kind (ItemInt16 _) = ''i16''"
| "dbus_message_item_kind (ItemInt32 _) = ''i32''"
| "dbus_message_item_kind (ItemInt64 _) = ''i64''"
| "dbus_message_item_kind (ItemUInt16 _) = ''u16''"
| "dbus_message_item_kind (ItemUInt32 _) = ''u32''"
| "dbus_message_item_kind (ItemDouble _) = ''f64''"
| "dbus_message_item_kind (ItemUnixFd _) = ''fd''"

definition and_then :: "'e + 'a \<Rightarrow> ('a \<Rightarrow> 'e + 'b) \<Rightarrow> 'e + 'b" where
  "and_then r f = (case r of Inl e \<Rightarrow> Inl e | Inr a \<Rightarrow> f a)"

lemma and_then_simps [simp]: "and_then (Inl e) f = Inl e" "and_then (Inr a) f = f a"
  by (simp_all add: and_then_def)

lemma and_then_cong [fundef_cong]: "r = r' \<Longrightarrow> (\<And>a. r' = Inr a \<Longrightarrow> f a = f' a) \<Longrightarrow> and_then r f = and_then r' f'"
  by (cases r') simp_all

lemma and_then_Inr [simp]: "and_then r f = Inr b \<longleftrightarrow> (\<exists>a. r = Inr a \<and> f a = Inr b)"
  by (cases r) simp_all

function (sequential) bus_value_from_dbus_message_item :: "DbusMessageItem \<Rightarrow> SessionBusError + BusValue"
  and bus_values_from_items :: "DbusMessageItem list \<Rightarrow> SessionBusError + BusValue list"
  and bus_pairs_from_items :: "(DbusMessageItem \<times> DbusMessageItem) list \<Rightarrow> SessionBusError + (BusValue \<times> BusValue) list"
where
  "bus_value_from_dbus_message_item (ItemBool b) = Inr (BusBool b)"
| "bus_value_from_dbus_message_item (ItemUnixFd fd) = Inr (UnixFd fd)"
| "bus_value_from_dbus_message_item (ItemUInt32 v) = Inr (U32 v)"
| "bus_value_from_dbus_message_item (ItemUInt64 v) = Inr (U64 v)"
| "bus_value_from_dbus_message_item (ItemStr s) = Inr (BusString s)"
| "bus_value_from_dbus_message_item (ItemObjectPath p) = Inr (ObjectPath p)"
| "bus_value_from_dbus_message_item (ItemArray items) = and_then (bus_values_from_items items) (\<lambda>vs. Inr (BusArray vs))"
| "bus_value_from_dbus_message_item (ItemStruct items) = and_then (bus_values_from_items items) (\<lambda>vs. Inr (BusStruct vs))"
| "bus_value_from_dbus_message_item (ItemDict pairs) = and_then (bus_pairs_from_items pairs) (\<lambda>vs. Inr (BusDict vs))"
| "bus_value_from_dbus_message_item (ItemVariant item) =
     and_then (bus_value_from_dbus_message_item item) (\<lambda>v. Inr (Variant v))"
| "bus_value_from_dbus_message_item other =
     Inl (UnexpectedReplyShape ''bool/u32/u64/string/object-path/array/struct/dict/fd/variant'' (dbus_message_item_kind other))"
| "bus_values_from_items [] = Inr []"
| "bus_values_from_items (item # items) =
     and_then (bus_value_from_dbus_message_item item) (\<lambda>v.
     and_then (bus_values_from_items items) (\<lambda>vs. Inr (v # vs)))"
| "bus_pairs_from_items [] = Inr []"
| "bus_pairs_from_items ((key, item) # pairs) =
     and_then (bus_value_from_dbus_message_item key) (\<lambda>k.
     and_then (bus_value_from_dbus_message_item item) (\<lambda>v.
     and_then (bus_pairs_from_items pairs) (\<lambda>vs. Inr ((k, v) # vs))))"
  by pat_completeness auto

termination
  by (relation "measure (case_sum size (case_sum (size_list size) (size_list (size_prod size size))))") auto

record dbus_message =
  msg_is_signal :: bool
  msg_sender :: "string option"
  msg_path :: "string option"
  msg_interface :: "string option"
  msg_member :: "string option"
  msg_items :: "DbusMessageItem list"

definition present :: "string \<Rightarrow> string option \<Rightarrow> SessionBusError + string" where
  "present missing field = (case field of None \<Rightarrow> Inl (BusTransport missing) | Some s \<Rightarrow> Inr s)"

definition bus_signal_from_dbus_message :: "dbus_message \<Rightarrow> SessionBusError + BusSignal" where
  "bus_signal_from_dbus_message message =
     and_then (present ''signal missing object path'' (msg_path message)) (\<lambda>path.
     and_then (present ''signal missing interface'' (msg_interface message)) (\<lambda>iface.
     and_then (present ''signal missing member'' (msg_member message)) (\<lambda>member.
     and_then (bus_values_from_items (msg_items message)) (\<lambda>body.
       Inr \<lparr>sig_sender = msg_sender message, sig_path = path, sig_interface = iface, sig_member = member, sig_body = body\<rparr>))))"

text \<open>\<open>process\<close> on the messages that arrive before its timeout, in order.\<close>

fun process_messages :: "BusSignalMatch list \<Rightarrow> dbus_message list \<Rightarrow> SessionBusError + BusSignal option" where
  "process_messages rules [] = Inr None"
| "process_messages rules (message # rest) =
     (if \<not> msg_is_signal message then process_messages rules rest
      else
        and_then (bus_signal_from_dbus_message message) (\<lambda>signal.
          if rules = [] \<or> list_ex (\<lambda>rule. rule_matches rule signal) rules then Inr (Some signal)
          else process_messages rules rest))"

lemma processed_signal_matches:
  "process_messages rules messages = Inr (Some signal) \<Longrightarrow>
     (rules = [] \<or> (\<exists>rule \<in> set rules. rule_matches rule signal)) \<and>
     (\<exists>message \<in> set messages. msg_is_signal message \<and> bus_signal_from_dbus_message message = Inr signal)"
  by (induction rules messages rule: process_messages.induct) (auto simp: list_ex_iff split: if_splits)

section \<open>The connection\<close>

datatype bus_step =
    BusCalled BusMethodCall "SessionBusError + BusReply"
  | MatchAdded BusSignalMatch "SessionBusError + unit"
  | BusPolled duration "SessionBusError + BusSignal option"

record bus =
  bus_call :: "BusMethodCall \<Rightarrow> bus_step list \<Rightarrow> SessionBusError + BusReply"
  bus_add_match :: "BusSignalMatch \<Rightarrow> bus_step list \<Rightarrow> SessionBusError + unit"
  bus_process :: "duration \<Rightarrow> bus_step list \<Rightarrow> SessionBusError + BusSignal option"

type_synonym 'a bus_eff = "(bus_step list, SessionBusError, 'a) eff"

definition call_method :: "bus \<Rightarrow> BusMethodCall \<Rightarrow> BusReply bus_eff" where
  "call_method b call = (\<lambda>h. let r = bus_call b call h in (r, h @ [BusCalled call r]))"

definition add_signal_match :: "bus \<Rightarrow> BusSignalMatch \<Rightarrow> unit bus_eff" where
  "add_signal_match b rule = (\<lambda>h. let r = bus_add_match b rule h in (r, h @ [MatchAdded rule r]))"

definition process_bus :: "bus \<Rightarrow> duration \<Rightarrow> BusSignal option bus_eff" where
  "process_bus b timeout = (\<lambda>h. let r = bus_process b timeout h in (r, h @ [BusPolled timeout r]))"

definition DBUS_SERVICE_NAME :: string where "DBUS_SERVICE_NAME = ''org.freedesktop.DBus''"
definition DBUS_OBJECT_PATH :: string where "DBUS_OBJECT_PATH = ''/org/freedesktop/DBus''"
definition DBUS_INTERFACE :: string where "DBUS_INTERFACE = ''org.freedesktop.DBus''"

definition name_has_owner :: "bus \<Rightarrow> string \<Rightarrow> bool bus_eff" where
  "name_has_owner b name =
     bindE (call_method b (method_call DBUS_SERVICE_NAME DBUS_OBJECT_PATH DBUS_INTERFACE ''NameHasOwner'' [BusString name]))
       (\<lambda>reply. liftR (single_bool reply))"

definition get_name_owner :: "bus \<Rightarrow> string \<Rightarrow> string bus_eff" where
  "get_name_owner b name =
     bindE (call_method b (method_call DBUS_SERVICE_NAME DBUS_OBJECT_PATH DBUS_INTERFACE ''GetNameOwner'' [BusString name]))
       (\<lambda>reply. liftR (single_string reply))"

definition normalize_dbus_owner :: "string \<Rightarrow> string option" where
  "normalize_dbus_owner owner = (if owner = [] then None else Some owner)"

record NameOwnerChanged =
  changed_name :: string
  old_owner :: "string option"
  new_owner :: "string option"

definition parse_name_owner_changed_signal :: "BusSignal \<Rightarrow> NameOwnerChanged option" where
  "parse_name_owner_changed_signal signal =
     (if sig_path signal \<noteq> DBUS_OBJECT_PATH \<or> sig_interface signal \<noteq> DBUS_INTERFACE \<or>
         sig_member signal \<noteq> ''NameOwnerChanged''
      then None
      else case sig_body signal of
        [BusString name, BusString old, BusString new] \<Rightarrow>
          Some \<lparr>changed_name = name, old_owner = normalize_dbus_owner old, new_owner = normalize_dbus_owner new\<rparr>
      | _ \<Rightarrow> None)"

end
