(* ===== verification/Logind.thy ===== *)
theory Logind
  imports Session_Bus Activity
begin

text \<open>
  The logind source (\<^verbatim>\<open>sources/linux/logind.rs\<close>) and the phase provider on top of it
  (\<^verbatim>\<open>runtime_phase.rs\<close>): sleep signals, the sleep delay inhibitor, which login session is ours, and the
  observer thread that turns the session's \<open>LockedHint\<close> into lock and unlock events.
\<close>

section \<open>Names\<close>

definition LOGIND_SERVICE_NAME :: string where "LOGIND_SERVICE_NAME = ''org.freedesktop.login1''"
definition LOGIND_MANAGER_PATH :: string where "LOGIND_MANAGER_PATH = ''/org/freedesktop/login1''"
definition LOGIND_MANAGER_INTERFACE :: string where "LOGIND_MANAGER_INTERFACE = ''org.freedesktop.login1.Manager''"
definition LOGIND_SESSION_INTERFACE :: string where "LOGIND_SESSION_INTERFACE = ''org.freedesktop.login1.Session''"
definition LOGIND_INHIBIT_WHO :: string where "LOGIND_INHIBIT_WHO = ''LG Buddy''"
definition LOGIND_INHIBIT_WHY :: string where "LOGIND_INHIBIT_WHY = ''Handle LG TV power state around system sleep''"
definition DBUS_PROPERTIES_INTERFACE :: string where "DBUS_PROPERTIES_INTERFACE = ''org.freedesktop.DBus.Properties''"
definition GRAPHICAL_SESSION_TYPES :: "string list" where "GRAPHICAL_SESSION_TYPES = [''wayland'', ''x11'']"
definition USER_SESSION_CLASSES :: "string list" where "USER_SESSION_CLASSES = [''user'', ''user-early'', ''user-light'']"
definition LOGIND_LOCK_PROCESS_INTERVAL :: duration where "LOGIND_LOCK_PROCESS_INTERVAL = from_millis 100"

record LogindSession =
  session_id :: string
  session_path :: string

datatype LogindSessionError =
    SessionBus SessionBusError
  | MalformedReply string
  | NoCurrentGraphicalSession
  | AmbiguousGraphicalSessions "string list"

fun join_with :: "string \<Rightarrow> string list \<Rightarrow> string" where
  "join_with sep [] = []"
| "join_with sep [x] = x"
| "join_with sep (x # xs) = x @ sep @ join_with sep xs"

fun logind_session_error_display :: "(duration \<Rightarrow> string) \<Rightarrow> LogindSessionError \<Rightarrow> string" where
  "logind_session_error_display show_duration (SessionBus err) = session_bus_error_display show_duration err"
| "logind_session_error_display show_duration (MalformedReply expected) =
     ''malformed logind reply: expected '' @ expected"
| "logind_session_error_display show_duration NoCurrentGraphicalSession =
     ''no active local graphical logind session belongs to this user''"
| "logind_session_error_display show_duration (AmbiguousGraphicalSessions ids) =
     ''multiple active local graphical logind sessions belong to this user: '' @ join_with '', '' ids"

section \<open>Sleep signals and the delay inhibitor\<close>

definition logind_signal_match :: BusSignalMatch where
  "logind_signal_match =
     \<lparr>match_sender = None, match_path = Some LOGIND_MANAGER_PATH, match_interface = Some LOGIND_MANAGER_INTERFACE,
      match_member = Some ''PrepareForSleep''\<rparr>"

definition add_logind_signal_match :: "bus \<Rightarrow> unit bus_eff" where
  "add_logind_signal_match b = add_signal_match b logind_signal_match"

definition map_prepare_for_sleep_signal :: "BusSignal \<Rightarrow> RuntimeEvent option" where
  "map_prepare_for_sleep_signal signal =
     (if sig_path signal \<noteq> LOGIND_MANAGER_PATH \<or> sig_interface signal \<noteq> LOGIND_MANAGER_INTERFACE \<or>
         sig_member signal \<noteq> ''PrepareForSleep''
      then None
      else case sig_body signal of
        [BusBool preparing] \<Rightarrow> Some (from_logind_prepare_for_sleep preparing)
      | _ \<Rightarrow> None)"

definition acquire_sleep_delay_inhibitor :: "bus \<Rightarrow> int bus_eff" where
  "acquire_sleep_delay_inhibitor b =
     bindE (call_method b (method_call LOGIND_SERVICE_NAME LOGIND_MANAGER_PATH LOGIND_MANAGER_INTERFACE ''Inhibit''
         [BusString ''sleep'', BusString LOGIND_INHIBIT_WHO, BusString LOGIND_INHIBIT_WHY, BusString ''delay'']))
       (\<lambda>reply. liftR (single_unix_fd reply))"

definition preparing_for_sleep :: "bus \<Rightarrow> bool bus_eff" where
  "preparing_for_sleep b =
     bindE (call_method b (method_call LOGIND_SERVICE_NAME LOGIND_MANAGER_PATH DBUS_PROPERTIES_INTERFACE ''Get''
         [BusString LOGIND_MANAGER_INTERFACE, BusString ''PreparingForSleep'']))
       (\<lambda>reply. liftR (single_bool reply))"

text \<open>The provider of \<^verbatim>\<open>runtime_phase.rs\<close>: an open bus, or the reason why there is none.\<close>

datatype LogindRuntimePhaseProvider = ProviderReady bus | ProviderUnavailable string

definition from_system_bus :: "(duration \<Rightarrow> string) \<Rightarrow> SessionBusError + bus \<Rightarrow> LogindRuntimePhaseProvider" where
  "from_system_bus show_duration connected =
     (case connected of
        Inr b \<Rightarrow> ProviderReady b
      | Inl err \<Rightarrow> ProviderUnavailable (session_bus_error_display show_duration err))"

fun logind_machine_sleep_pending ::
    "(duration \<Rightarrow> string) \<Rightarrow> LogindRuntimePhaseProvider \<Rightarrow> bus_step list \<Rightarrow> RuntimePhaseRead \<times> bus_step list" where
  "logind_machine_sleep_pending show_duration (ProviderReady b) h =
     (case preparing_for_sleep b h of
        (Inr True, h') \<Rightarrow> (Pending, h')
      | (Inr False, h') \<Rightarrow> (NotPending, h')
      | (Inl err, h') \<Rightarrow> (UnknownPhase (session_bus_error_display show_duration err), h'))"
| "logind_machine_sleep_pending show_duration (ProviderUnavailable detail) h = (UnknownPhase detail, h)"

section \<open>Our session\<close>

record LogindSessionProperties =
  prop_uid :: "32 word"
  prop_remote :: bool
  prop_type :: string
  prop_class :: string
  prop_active :: bool

definition is_eligible_for_uid :: "LogindSessionProperties \<Rightarrow> 32 word \<Rightarrow> bool" where
  "is_eligible_for_uid p uid \<longleftrightarrow>
     prop_uid p = uid \<and> \<not> prop_remote p \<and> prop_active p \<and> prop_type p \<in> set GRAPHICAL_SESSION_TYPES \<and>
     prop_class p \<in> set USER_SESSION_CLASSES"

fun property :: "(BusValue \<times> BusValue) list \<Rightarrow> string \<Rightarrow> LogindSessionError + BusValue" where
  "property [] name = Inl (MalformedReply name)"
| "property ((key, v) # rest) name = (if key = BusString name then Inr v else property rest name)"

fun unwrap_variant :: "BusValue \<Rightarrow> BusValue" where
  "unwrap_variant (Variant v) = v"
| "unwrap_variant v = v"

definition property_bool :: "(BusValue \<times> BusValue) list \<Rightarrow> string \<Rightarrow> LogindSessionError + bool" where
  "property_bool properties name =
     and_then (property properties name) (\<lambda>v. case unwrap_variant v of
       BusBool b \<Rightarrow> Inr b | _ \<Rightarrow> Inl (MalformedReply name))"

definition property_string :: "(BusValue \<times> BusValue) list \<Rightarrow> string \<Rightarrow> LogindSessionError + string" where
  "property_string properties name =
     and_then (property properties name) (\<lambda>v. case unwrap_variant v of
       BusString s \<Rightarrow> Inr s | _ \<Rightarrow> Inl (MalformedReply name))"

definition property_uid :: "(BusValue \<times> BusValue) list \<Rightarrow> LogindSessionError + 32 word" where
  "property_uid properties =
     and_then (property properties ''User'') (\<lambda>user. case unwrap_variant user of
       BusStruct [U32 uid, ObjectPath _] \<Rightarrow> Inr uid
     | BusStruct _ \<Rightarrow> Inl (MalformedReply ''User (uid, object path)'')
     | _ \<Rightarrow> Inl (MalformedReply ''User struct''))"

text \<open>The reply of \<open>GetAll\<close>, read in the order of the source.\<close>

definition parse_session_properties :: "BusReply \<Rightarrow> LogindSessionError + LogindSessionProperties" where
  "parse_session_properties reply =
     (case reply_body reply of
        [BusDict properties] \<Rightarrow>
          and_then (property_uid properties) (\<lambda>uid.
          and_then (property_bool properties ''Remote'') (\<lambda>remote.
          and_then (property_string properties ''Type'') (\<lambda>session_type.
          and_then (property_string properties ''Class'') (\<lambda>session_class.
          and_then (property_bool properties ''Active'') (\<lambda>active.
            Inr \<lparr>prop_uid = uid, prop_remote = remote, prop_type = session_type, prop_class = session_class,
                 prop_active = active\<rparr>)))))
      | _ \<Rightarrow> Inl (MalformedReply ''one session property dictionary''))"

definition properties_call :: "LogindSession \<Rightarrow> BusMethodCall" where
  "properties_call session =
     method_call LOGIND_SERVICE_NAME (session_path session) DBUS_PROPERTIES_INTERFACE ''GetAll''
       [BusString LOGIND_SESSION_INTERFACE]"

type_synonym 'a logind_eff = "(bus_step list, LogindSessionError, 'a) eff"

definition session_properties :: "bus \<Rightarrow> LogindSession \<Rightarrow> LogindSessionProperties logind_eff" where
  "session_properties b session =
     bindE (mapErrE SessionBus (call_method b (properties_call session))) (\<lambda>reply. liftR (parse_session_properties reply))"

text \<open>Matching on one field of a record.\<close>

fun as_string :: "BusValue \<Rightarrow> string option" where
  "as_string (BusString s) = Some s"
| "as_string _ = None"

fun as_u32 :: "BusValue \<Rightarrow> 32 word option" where
  "as_u32 (U32 v) = Some v"
| "as_u32 _ = None"

fun as_object_path :: "BusValue \<Rightarrow> string option" where
  "as_object_path (ObjectPath p) = Some p"
| "as_object_path _ = None"

lemma as_Some [simp]:
  "as_string v = Some s \<longleftrightarrow> v = BusString s" "as_u32 v = Some w \<longleftrightarrow> v = U32 w" "as_object_path v = Some s \<longleftrightarrow> v = ObjectPath s"
  by (cases v; auto)+

text \<open>One record of \<open>ListSessions\<close>: the session and its user.\<close>

definition session_fields :: "BusValue list \<Rightarrow> (LogindSession \<times> 32 word) option" where
  "session_fields parts =
     (case parts of
        [f1, f2, f3, f4, f5] \<Rightarrow>
          (case (as_string f1, as_u32 f2, as_string f3, as_string f4, as_object_path f5) of
             (Some i, Some uid, Some _, Some _, Some p) \<Rightarrow> Some (\<lparr>session_id = i, session_path = p\<rparr>, uid)
           | _ \<Rightarrow> None)
      | _ \<Rightarrow> None)"

fun session_record :: "BusValue \<Rightarrow> LogindSessionError + LogindSession \<times> 32 word" where
  "session_record (BusStruct parts) =
     (case session_fields parts of
        Some found \<Rightarrow> Inr found
      | None \<Rightarrow> Inl (MalformedReply ''session record (id, uid, user, seat, object path)''))"
| "session_record _ = Inl (MalformedReply ''session record struct'')"

fun matching_sessions :: "bus \<Rightarrow> 32 word \<Rightarrow> BusValue list \<Rightarrow> LogindSession list logind_eff" where
  "matching_sessions b current_uid [] = returnE []"
| "matching_sessions b current_uid (entry # entries) =
     bindE (liftR (session_record entry)) (\<lambda>(session, uid).
       if uid \<noteq> current_uid then matching_sessions b current_uid entries
       else
         bindE (session_properties b session) (\<lambda>p.
         bindE (matching_sessions b current_uid entries) (\<lambda>rest.
           returnE (if is_eligible_for_uid p current_uid then session # rest else rest))))"

definition only_session :: "LogindSession list \<Rightarrow> LogindSessionError + LogindSession" where
  "only_session sessions =
     (case sessions of
        [] \<Rightarrow> Inl NoCurrentGraphicalSession
      | [session] \<Rightarrow> Inr session
      | _ \<Rightarrow> Inl (AmbiguousGraphicalSessions (map session_id sessions)))"

definition get_session_call :: "string \<Rightarrow> BusMethodCall" where
  "get_session_call i = method_call LOGIND_SERVICE_NAME LOGIND_MANAGER_PATH LOGIND_MANAGER_INTERFACE ''GetSession'' [BusString i]"

definition list_sessions_call :: BusMethodCall where
  "list_sessions_call = method_call LOGIND_SERVICE_NAME LOGIND_MANAGER_PATH LOGIND_MANAGER_INTERFACE ''ListSessions'' []"

definition resolve_explicit_session :: "bus \<Rightarrow> string \<Rightarrow> 32 word \<Rightarrow> LogindSession logind_eff" where
  "resolve_explicit_session b i current_uid =
     bindE (mapErrE SessionBus (bindE (call_method b (get_session_call i)) (\<lambda>reply. liftR (single_object_path reply)))) (\<lambda>path.
     (let session = \<lparr>session_id = i, session_path = path\<rparr> in
      bindE (session_properties b session) (\<lambda>p.
        if is_eligible_for_uid p current_uid then returnE session else raiseE NoCurrentGraphicalSession)))"

definition resolve_current_graphical_session :: "bus \<Rightarrow> string option \<Rightarrow> 32 word \<Rightarrow> LogindSession logind_eff" where
  "resolve_current_graphical_session b explicit_session_id current_uid =
     (if is_some_and explicit_session_id (\<lambda>i. i \<noteq> [])
      then resolve_explicit_session b (the explicit_session_id) current_uid
      else
        bindE (mapErrE SessionBus (call_method b list_sessions_call)) (\<lambda>reply. case reply_body reply of
          [BusArray entries] \<Rightarrow>
            bindE (matching_sessions b current_uid entries) (\<lambda>sessions. liftR (only_session sessions))
        | _ \<Rightarrow> raiseE (MalformedReply ''one array of session records'')))"

definition resolve_logind_owner :: "bus \<Rightarrow> string bus_eff" where
  "resolve_logind_owner b = get_name_owner b LOGIND_SERVICE_NAME"

definition logind_owner_signal_match :: BusSignalMatch where
  "logind_owner_signal_match =
     \<lparr>match_sender = Some DBUS_SERVICE_NAME, match_path = Some DBUS_OBJECT_PATH, match_interface = Some DBUS_INTERFACE,
      match_member = Some ''NameOwnerChanged''\<rparr>"

definition add_logind_owner_signal_match :: "bus \<Rightarrow> unit bus_eff" where
  "add_logind_owner_signal_match b = add_signal_match b logind_owner_signal_match"

definition logind_owner_changed :: "BusSignal \<Rightarrow> string option option" where
  "logind_owner_changed signal =
     (if sig_sender signal \<noteq> Some DBUS_SERVICE_NAME then None
      else case parse_name_owner_changed_signal signal of
        None \<Rightarrow> None
      | Some c \<Rightarrow> if changed_name c \<noteq> LOGIND_SERVICE_NAME then None else Some (new_owner c))"

section \<open>The locked hint\<close>

datatype LockedHintChange = HintChanged bool | HintInvalidated

definition locked_hint_signal_match :: "string \<Rightarrow> string \<Rightarrow> BusSignalMatch" where
  "locked_hint_signal_match path logind_owner =
     \<lparr>match_sender = Some logind_owner, match_path = Some path, match_interface = Some DBUS_PROPERTIES_INTERFACE,
      match_member = Some ''PropertiesChanged''\<rparr>"

definition add_locked_hint_signal_match :: "bus \<Rightarrow> LogindSession \<Rightarrow> string \<Rightarrow> unit bus_eff" where
  "add_locked_hint_signal_match b session logind_owner =
     add_signal_match b (locked_hint_signal_match (session_path session) logind_owner)"

definition locked_hint_call :: "LogindSession \<Rightarrow> BusMethodCall" where
  "locked_hint_call session =
     method_call LOGIND_SERVICE_NAME (session_path session) DBUS_PROPERTIES_INTERFACE ''Get''
       [BusString LOGIND_SESSION_INTERFACE, BusString ''LockedHint'']"

definition locked_hint :: "bus \<Rightarrow> LogindSession \<Rightarrow> bool bus_eff" where
  "locked_hint b session = bindE (call_method b (locked_hint_call session)) (\<lambda>reply. liftR (single_bool reply))"

fun hint_value :: "BusValue \<Rightarrow> LockedHintChange option" where
  "hint_value (Variant (BusBool locked)) = Some (HintChanged locked)"
| "hint_value (BusBool locked) = Some (HintChanged locked)"
| "hint_value _ = None"

text \<open>The first \<open>LockedHint\<close> among the changed properties decides; otherwise it may be invalidated.\<close>

fun hint_in :: "(BusValue \<times> BusValue) list \<Rightarrow> BusValue list \<Rightarrow> LockedHintChange option" where
  "hint_in [] invalidated = (if BusString ''LockedHint'' \<in> set invalidated then Some HintInvalidated else None)"
| "hint_in ((key, v) # changed) invalidated =
     (if key = BusString ''LockedHint'' then hint_value v else hint_in changed invalidated)"

definition map_locked_hint_change :: "BusSignal \<Rightarrow> LogindSession \<Rightarrow> string \<Rightarrow> LockedHintChange option" where
  "map_locked_hint_change signal session logind_owner =
     (if sig_sender signal \<noteq> Some logind_owner \<or> sig_path signal \<noteq> session_path session \<or>
         sig_interface signal \<noteq> DBUS_PROPERTIES_INTERFACE \<or> sig_member signal \<noteq> ''PropertiesChanged''
      then None
      else case sig_body signal of
        [BusString iface, BusDict changed, BusArray invalidated] \<Rightarrow>
          if iface \<noteq> LOGIND_SESSION_INTERFACE then None else hint_in changed invalidated
      | _ \<Rightarrow> None)"

text \<open>\<open>LockedHintTracker::observe\<close> on the remembered hint.\<close>

definition tracker_observe :: "bool option \<Rightarrow> bool \<Rightarrow> SessionEvent option \<times> bool option" where
  "tracker_observe remembered locked =
     (if remembered = Some locked then (None, remembered)
      else
        (case (remembered, locked) of
           (None, True) \<Rightarrow> Some Lock
         | (Some False, True) \<Rightarrow> Some Lock
         | (Some True, False) \<Rightarrow> Some Unlock
         | _ \<Rightarrow> None,
         Some locked))"

section \<open>The observer thread\<close>

text \<open>
  \<open>hints\<close> collects the values the tracker was shown and \<open>published_locks\<close> the observations that were
  offered to the session monitor; the properties are about them. Whether the monitor still listens, the
  stop flag and the clock are answers of the host.
\<close>

record lock_state =
  lock_bus :: "bus_step list"
  lock_tracker :: "bool option"
  hints :: "bool list"
  published_locks :: "SessionObservation list"
  lifecycle_notices :: nat

record lock_host =
  observer_bus :: bus
  stop_requested :: "lock_state \<Rightarrow> bool"
  monitor_listens :: "lock_state \<Rightarrow> bool"
  lifecycle_listens :: "lock_state \<Rightarrow> bool"
  observer_clock :: "lock_state \<Rightarrow> instant"

type_synonym 'a lock_eff = "(lock_state, LogindSessionError, 'a) eff"

definition on_bus :: "'a logind_eff \<Rightarrow> 'a lock_eff" where
  "on_bus m = (\<lambda>s. case m (lock_bus s) of (r, h) \<Rightarrow> (r, s\<lparr>lock_bus := h\<rparr>))"

definition on_session_bus :: "'a bus_eff \<Rightarrow> 'a lock_eff" where
  "on_session_bus m = on_bus (mapErrE SessionBus m)"

definition publish_locked_hint :: "lock_host \<Rightarrow> bool \<Rightarrow> bool lock_eff" where
  "publish_locked_hint host locked =
     (\<lambda>s. case tracker_observe (lock_tracker s) locked of
        (event, t) \<Rightarrow>
          let s1 = s\<lparr>lock_tracker := t, hints := hints s @ [locked]\<rparr> in
          case event of
            None \<Rightarrow> (Inr True, s1)
          | Some e \<Rightarrow>
              let s2 = s1\<lparr>published_locks := published_locks s1 @ [EventObserved e LinuxLogind (observer_clock host s1)]\<rparr>
              in (Inr (monitor_listens host s2), s2))"

definition lifecycle_changed :: "lock_host \<Rightarrow> bool lock_eff" where
  "lifecycle_changed host =
     (\<lambda>s. let s' = s\<lparr>lifecycle_notices := lifecycle_notices s + 1\<rparr> in (Inr (lifecycle_listens host s'), s'))"

definition bind_lock_target :: "bus \<Rightarrow> string option \<Rightarrow> 32 word \<Rightarrow> (LogindSession \<times> string \<times> bool) lock_eff" where
  "bind_lock_target b explicit_session_id current_uid =
     bindE (on_bus (resolve_current_graphical_session b explicit_session_id current_uid)) (\<lambda>session.
     bindE (on_session_bus (resolve_logind_owner b)) (\<lambda>owner.
     thenE (on_session_bus (add_locked_hint_signal_match b session owner))
    (bindE (on_session_bus (locked_hint b session)) (\<lambda>locked. returnE (session, owner, locked)))))"

text \<open>One iteration on the bound session and owner; \<open>None\<close> is the return from the observer.\<close>

definition observer_rebind ::
    "lock_host \<Rightarrow> string option \<Rightarrow> 32 word \<Rightarrow> LogindSession \<Rightarrow> string option \<Rightarrow> (LogindSession \<times> string option) option lock_eff" where
  "observer_rebind host explicit_session_id current_uid session changed_to =
     bindE (lifecycle_changed host) (\<lambda>listens.
       if \<not> listens then returnE None
       else if changed_to = None then returnE (Some (session, None))
       else
         bindE (bind_lock_target (observer_bus host) explicit_session_id current_uid) (\<lambda>(session', owner, locked).
         bindE (publish_locked_hint host locked) (\<lambda>go_on.
           returnE (if go_on then Some (session', Some owner) else None))))"

definition observer_hint ::
    "lock_host \<Rightarrow> BusSignal \<Rightarrow> LogindSession \<Rightarrow> string \<Rightarrow> (LogindSession \<times> string option) option lock_eff" where
  "observer_hint host signal session owner =
     (case map_locked_hint_change signal session owner of
        None \<Rightarrow> returnE (Some (session, Some owner))
      | Some change \<Rightarrow>
          bindE (case change of
                   HintChanged locked \<Rightarrow> returnE locked
                 | HintInvalidated \<Rightarrow> on_session_bus (locked_hint (observer_bus host) session)) (\<lambda>locked.
          bindE (publish_locked_hint host locked) (\<lambda>go_on.
            returnE (if go_on then Some (session, Some owner) else None))))"

definition observer_iteration ::
    "lock_host \<Rightarrow> string option \<Rightarrow> 32 word \<Rightarrow> LogindSession \<times> string option \<Rightarrow> (LogindSession \<times> string option) option lock_eff" where
  "observer_iteration host explicit_session_id current_uid target =
     bindE (on_session_bus (process_bus (observer_bus host) LOGIND_LOCK_PROCESS_INTERVAL)) (\<lambda>received.
       case received of
         None \<Rightarrow> returnE (Some target)
       | Some signal \<Rightarrow>
           (case logind_owner_changed signal of
              Some changed_to \<Rightarrow> observer_rebind host explicit_session_id current_uid (fst target) changed_to
            | None \<Rightarrow>
                (case snd target of
                   None \<Rightarrow> returnE (Some target)
                 | Some owner \<Rightarrow>
                     bindE (if sig_sender signal = Some owner \<and> map_prepare_for_sleep_signal signal \<noteq> None
                            then lifecycle_changed host else returnE True) (\<lambda>listens.
                       if \<not> listens then returnE None
                       else observer_hint host signal (fst target) owner))))"

text \<open>The loop for at most \<open>n\<close> iterations; the result says whether the observer has returned.\<close>

fun observer_loop ::
    "nat \<Rightarrow> lock_host \<Rightarrow> string option \<Rightarrow> 32 word \<Rightarrow> LogindSession \<times> string option \<Rightarrow> bool lock_eff" where
  "observer_loop 0 host explicit_session_id current_uid target = returnE False"
| "observer_loop (Suc n) host explicit_session_id current_uid target =
     bindE (getsE (stop_requested host)) (\<lambda>stop.
       if stop then returnE True
       else
         bindE (observer_iteration host explicit_session_id current_uid target) (\<lambda>step. case step of
           None \<Rightarrow> returnE True
         | Some target' \<Rightarrow> observer_loop n host explicit_session_id current_uid target'))"

definition run_lock_observer_for_session :: "nat \<Rightarrow> lock_host \<Rightarrow> string option \<Rightarrow> 32 word \<Rightarrow> bool lock_eff" where
  "run_lock_observer_for_session n host explicit_session_id current_uid =
     thenE (on_session_bus (add_logind_owner_signal_match (observer_bus host)))
    (thenE (on_session_bus (add_logind_signal_match (observer_bus host)))
    (bindE (bind_lock_target (observer_bus host) explicit_session_id current_uid) (\<lambda>(session, owner, initial_locked).
     bindE (publish_locked_hint host initial_locked) (\<lambda>go_on.
       if go_on then observer_loop n host explicit_session_id current_uid (session, Some owner) else returnE True))))"

definition start_observer :: lock_state where
  "start_observer = \<lparr>lock_bus = [], lock_tracker = None, hints = [], published_locks = [], lifecycle_notices = 0\<rparr>"

end
