(* ===== verification/Lifecycle_Monitor.thy ===== *)
theory Lifecycle_Monitor
  imports Actions_Proofs Logind
begin

text \<open>
  The system service's loop (\<open>run_lifecycle_monitor_with_bus\<close> in \<^verbatim>\<open>session/runner.rs\<close>): it holds a
  logind delay inhibitor while the machine is awake, powers the TV off when logind announces sleep, only
  then lets go of the inhibitor, and restores on resume. The dispatcher writes and calls the executor as in
  \<open>Runner\<close>; the bus is the one of \<open>Session_Bus\<close>.
\<close>

section \<open>Dispatching lifecycle events\<close>

definition msg_resumed :: string where
  "msg_resumed = ''LG Buddy Lifecycle: System resumed from sleep.''"
definition msg_resume_requested :: string where
  "msg_resume_requested = ''LG Buddy Monitor: Session event `after-resume` requests wake restore.''"
definition msg_resume_failed :: "string \<Rightarrow> string" where
  "msg_resume_failed err = ''LG Buddy Lifecycle: wake restore action failed. '' @ err"
definition msg_preparing :: string where
  "msg_preparing = ''LG Buddy Lifecycle: System is preparing for sleep.''"
definition msg_pre_sleep_requested :: string where
  "msg_pre_sleep_requested = ''LG Buddy Lifecycle: logind pre-sleep requests TV power-off before suspend.''"
definition msg_pre_sleep_failed :: "string \<Rightarrow> string" where
  "msg_pre_sleep_failed err = ''LG Buddy Lifecycle: pre-sleep action failed. '' @ err"

definition dispatch_lifecycle_event :: "'x host \<Rightarrow> RuntimeEvent \<Rightarrow> ('x run, SessionRunnerError, unit) eff" where
  "dispatch_lifecycle_event host event =
     (case from_runtime_event event of
        Some LifecycleResumed \<Rightarrow>
          thenE (put_line host msg_resumed)
         (thenE (put_line host msg_resume_requested)
         (thenE (put_flush host) (stream_after_resume host msg_resume_failed event)))
      | Some LifecyclePreparingForSleep \<Rightarrow>
          thenE (put_line host msg_preparing)
         (thenE (put_line host msg_pre_sleep_requested)
         (thenE (put_flush host)
         (bindE (call_executor BeforeSleepCalled (exec_before_sleep (executor_of host) event))
            (report_action host msg_pre_sleep_failed))))
      | _ \<Rightarrow> returnE ())"

section \<open>State\<close>

text \<open>
  \<open>monitor_log\<close> is the record the properties are about: policy reads, the inhibitor's life, the waits for
  a signal, the sleep signals and the calls of the executor, in order.
\<close>

datatype lifecycle_act =
    PolicyRead bool
  | InhibitorAcquired
  | InhibitorReleased
  | SignalWaited
  | SleepSignal bool
  | Executed act

record 'x lifecycle_run =
  dispatcher :: "'x run"
  monitor_bus :: "bus_step list"
  sleep_inhibitor :: "int option"
  waiting_for_resume :: bool
  lifecycle_events_seen :: nat
  monitor_log :: "lifecycle_act list"

record 'x lifecycle_host =
  dispatch_host :: "'x host"
  system_bus :: bus
  config_answers :: "'x lifecycle_run \<Rightarrow> (io_error + string) \<times> (io_error + Declarations option)"
  elapsed :: "'x lifecycle_run \<Rightarrow> duration"
  test_timeout :: "duration option"
  test_event_limit :: "nat option"
  duration_text :: "duration \<Rightarrow> string"

type_synonym ('x, 'a) monitor_eff = "('x lifecycle_run, SessionRunnerError, 'a) eff"

definition on_dispatcher :: "('x run, SessionRunnerError, 'a) eff \<Rightarrow> ('x, 'a) monitor_eff" where
  "on_dispatcher m =
     (\<lambda>r. case m (dispatcher r) of
        (res, d) \<Rightarrow>
          (res, r\<lparr>dispatcher := d,
                  monitor_log := monitor_log r @ map Executed (drop (length (trail (dispatcher r))) (trail d))\<rparr>))"

definition on_system_bus :: "'x lifecycle_host \<Rightarrow> string \<Rightarrow> 'a bus_eff \<Rightarrow> ('x, 'a) monitor_eff" where
  "on_system_bus host what m =
     (\<lambda>r. case m (monitor_bus r) of
        (Inl err, h) \<Rightarrow>
          (Inl (RunnerFailed BackendAuto (what @ session_bus_error_display (duration_text host) err)), r\<lparr>monitor_bus := h\<rparr>)
      | (Inr a, h) \<Rightarrow> (Inr a, r\<lparr>monitor_bus := h\<rparr>))"

definition log_act :: "lifecycle_act \<Rightarrow> ('x, unit) monitor_eff" where
  "log_act a = modifyE (\<lambda>r. r\<lparr>monitor_log := monitor_log r @ [a]\<rparr>)"

definition log_line :: "'x lifecycle_host \<Rightarrow> string \<Rightarrow> ('x, unit) monitor_eff" where
  "log_line host text = on_dispatcher (put_line (dispatch_host host) text)"

section \<open>The inhibitor\<close>

definition lifecycle_policy_enabled_from_config :: "'x lifecycle_host \<Rightarrow> ('x, bool) monitor_eff" where
  "lifecycle_policy_enabled_from_config host =
     bindE (getsE (config_answers host)) (\<lambda>(contents, declarations).
       case load_current_config contents declarations of
         Inl err \<Rightarrow>
           raiseE (RunnerFailed BackendAuto (''failed to load lifecycle config: '' @ config_load_error_display err))
       | Inr config \<Rightarrow>
           (let enabled = is_enabled (system_sleep_wake_policy config) in
            thenE (log_act (PolicyRead enabled)) (returnE enabled)))"

definition msg_released :: string where
  "msg_released = ''LG Buddy Lifecycle: Released logind sleep delay inhibitor.''"
definition msg_acquired :: string where
  "msg_acquired = ''LG Buddy Lifecycle: Acquired logind sleep delay inhibitor.''"

definition release_lifecycle_sleep_delay_inhibitor :: "'x lifecycle_host \<Rightarrow> ('x, unit) monitor_eff" where
  "release_lifecycle_sleep_delay_inhibitor host =
     bindE (getsE sleep_inhibitor) (\<lambda>held. case held of
       None \<Rightarrow> returnE ()
     | Some _ \<Rightarrow>
         thenE (modifyE (\<lambda>r. r\<lparr>sleep_inhibitor := None, monitor_log := monitor_log r @ [InhibitorReleased]\<rparr>))
           (log_line host msg_released))"

definition acquire_lifecycle_inhibitor :: "'x lifecycle_host \<Rightarrow> ('x, unit) monitor_eff" where
  "acquire_lifecycle_inhibitor host =
     bindE (on_system_bus host ''failed to acquire logind sleep delay inhibitor: ''
         (acquire_sleep_delay_inhibitor (system_bus host))) (\<lambda>inhibitor.
     thenE (modifyE (\<lambda>r. r\<lparr>sleep_inhibitor := Some inhibitor, monitor_log := monitor_log r @ [InhibitorAcquired]\<rparr>))
       (log_line host msg_acquired))"

definition sync_lifecycle_sleep_delay_inhibitor_if_idle :: "'x lifecycle_host \<Rightarrow> ('x, unit) monitor_eff" where
  "sync_lifecycle_sleep_delay_inhibitor_if_idle host =
     bindE (lifecycle_policy_enabled_from_config host) (\<lambda>enabled.
       if \<not> enabled then release_lifecycle_sleep_delay_inhibitor host
       else
         bindE (getsE (\<lambda>r. waiting_for_resume r \<or> sleep_inhibitor r \<noteq> None)) (\<lambda>nothing_to_do.
           if nothing_to_do then returnE () else acquire_lifecycle_inhibitor host))"

section \<open>The loop\<close>

definition LOGIND_LIFECYCLE_PROCESS_INTERVAL :: duration where
  "LOGIND_LIFECYCLE_PROCESS_INTERVAL = from_secs 5"
definition LOGIND_LIFECYCLE_TEST_PROCESS_INTERVAL :: duration where
  "LOGIND_LIFECYCLE_TEST_PROCESS_INTERVAL = from_millis 50"

definition process_timeout :: "'x lifecycle_host \<Rightarrow> 'x lifecycle_run \<Rightarrow> duration" where
  "process_timeout host r =
     (case test_timeout host of
        None \<Rightarrow> LOGIND_LIFECYCLE_PROCESS_INTERVAL
      | Some timeout \<Rightarrow>
          min (min LOGIND_LIFECYCLE_PROCESS_INTERVAL LOGIND_LIFECYCLE_TEST_PROCESS_INTERVAL) (timeout - elapsed host r))"

text \<open>Counting an event; the result says whether the loop goes on.\<close>

definition event_seen :: "'x lifecycle_host \<Rightarrow> ('x, bool) monitor_eff" where
  "event_seen host =
     thenE (modifyE (\<lambda>r. r\<lparr>lifecycle_events_seen := lifecycle_events_seen r + 1\<rparr>))
       (getsE (\<lambda>r. \<not> is_some_and (test_event_limit host) (\<lambda>limit. limit \<le> lifecycle_events_seen r)))"

definition msg_lifecycle_disabled :: string where
  "msg_lifecycle_disabled =
     ''LG Buddy Lifecycle: system sleep/wake handling is disabled by config; skipping lifecycle event.''"

definition note_sleep_signal :: "LifecycleEvent option \<Rightarrow> ('x, unit) monitor_eff" where
  "note_sleep_signal event_kind =
     (case event_kind of
        Some LifecyclePreparingForSleep \<Rightarrow>
          modifyE (\<lambda>r. r\<lparr>waiting_for_resume := True, monitor_log := monitor_log r @ [SleepSignal True]\<rparr>)
      | Some LifecycleResumed \<Rightarrow>
          modifyE (\<lambda>r. r\<lparr>waiting_for_resume := False, monitor_log := monitor_log r @ [SleepSignal False]\<rparr>)
      | _ \<Rightarrow> returnE ())"

definition dispatch_and_release :: "'x lifecycle_host \<Rightarrow> RuntimeEvent \<Rightarrow> ('x, unit) monitor_eff" where
  "dispatch_and_release host event =
     bindE (tryE (on_dispatcher (dispatch_lifecycle_event (dispatch_host host) event))) (\<lambda>dispatch_result.
     bindE (tryE (release_lifecycle_sleep_delay_inhibitor host)) (\<lambda>release_result.
       thenE (liftR dispatch_result) (liftR release_result)))"

definition handle_lifecycle_event :: "'x lifecycle_host \<Rightarrow> RuntimeEvent \<Rightarrow> ('x, bool) monitor_eff" where
  "handle_lifecycle_event host event =
     (let event_kind = from_runtime_event event in
      thenE (note_sleep_signal event_kind)
     (bindE (lifecycle_policy_enabled_from_config host) (\<lambda>enabled.
        if \<not> enabled
        then thenE (release_lifecycle_sleep_delay_inhibitor host)
            (thenE (log_line host msg_lifecycle_disabled) (event_seen host))
        else
          thenE (case event_kind of
                   Some LifecycleResumed \<Rightarrow>
                     thenE (on_dispatcher (dispatch_lifecycle_event (dispatch_host host) event))
                       (sync_lifecycle_sleep_delay_inhibitor_if_idle host)
                 | Some LifecyclePreparingForSleep \<Rightarrow> dispatch_and_release host event
                 | Some _ \<Rightarrow> on_dispatcher (dispatch_lifecycle_event (dispatch_host host) event)
                 | None \<Rightarrow> returnE ())
            (event_seen host))))"

definition lifecycle_iteration :: "'x lifecycle_host \<Rightarrow> ('x, bool) monitor_eff" where
  "lifecycle_iteration host =
     bindE (getsE (\<lambda>r. is_some_and (test_timeout host) (\<lambda>timeout. timeout \<le> elapsed host r))) (\<lambda>timed_out.
       if timed_out then returnE False
       else
         bindE (getsE (process_timeout host)) (\<lambda>timeout.
         thenE (sync_lifecycle_sleep_delay_inhibitor_if_idle host)
        (thenE (log_act SignalWaited)
        (bindE (on_system_bus host ''logind lifecycle bus processing failed: '' (process_bus (system_bus host) timeout)) (\<lambda>received.
           case received of
             None \<Rightarrow> returnE True
           | Some signal \<Rightarrow>
               (case map_prepare_for_sleep_signal signal of
                  None \<Rightarrow> returnE True
                | Some event \<Rightarrow> handle_lifecycle_event host event))))))"

text \<open>At most \<open>n\<close> iterations; the result says whether the loop has returned.\<close>

fun lifecycle_loop :: "nat \<Rightarrow> 'x lifecycle_host \<Rightarrow> ('x, bool) monitor_eff" where
  "lifecycle_loop 0 host = returnE False"
| "lifecycle_loop (Suc n) host =
     bindE (lifecycle_iteration host) (\<lambda>continues. if continues then lifecycle_loop n host else returnE True)"

definition msg_logind_source :: string where
  "msg_logind_source = ''LG Buddy Lifecycle: Using logind system lifecycle source.''"

definition run_lifecycle_monitor_with_bus :: "nat \<Rightarrow> 'x lifecycle_host \<Rightarrow> ('x, bool) monitor_eff" where
  "run_lifecycle_monitor_with_bus n host =
     thenE (on_system_bus host ''failed to subscribe to logind lifecycle signals: ''
         (add_logind_signal_match (system_bus host)))
    (thenE (log_line host msg_logind_source)
    (thenE (sync_lifecycle_sleep_delay_inhibitor_if_idle host) (lifecycle_loop n host)))"

definition start_lifecycle :: "'x run \<Rightarrow> 'x lifecycle_run" where
  "start_lifecycle d =
     \<lparr>dispatcher = d, monitor_bus = [], sleep_inhibitor = None, waiting_for_resume = False, lifecycle_events_seen = 0,
      monitor_log = []\<rparr>"

end
