(* ===== verification/Lifecycle_Monitor_Proofs.thy ===== *)
theory Lifecycle_Monitor_Proofs
  imports Lifecycle_Monitor
begin

text \<open>
  The monitor refines a small protocol between logind, the inhibitor and the TV: what may happen is decided
  by what has been logged so far (\<open>watch\<close>), and every log the loop can produce is accepted.
\<close>

section \<open>The protocol\<close>

record watch =
  w_enabled :: bool
  w_asleep :: bool
  w_held :: bool
  w_told :: bool

definition unwatched :: watch where
  "unwatched = \<lparr>w_enabled = False, w_asleep = False, w_held = False, w_told = False\<rparr>"

fun watch_step :: "watch \<Rightarrow> lifecycle_act \<Rightarrow> watch" where
  "watch_step w (PolicyRead b) = w\<lparr>w_enabled := b\<rparr>"
| "watch_step w (SleepSignal b) = w\<lparr>w_asleep := b, w_told := False\<rparr>"
| "watch_step w InhibitorAcquired = w\<lparr>w_held := True\<rparr>"
| "watch_step w InhibitorReleased = w\<lparr>w_held := False\<rparr>"
| "watch_step w (Executed BeforeSleepCalled) = w\<lparr>w_told := True\<rparr>"
| "watch_step w _ = w"

text \<open>
  While waiting for logind the inhibitor is held exactly if the policy is on and the machine is awake; with
  the policy on it is let go only after the TV was told of the pending sleep; the TV is told of a sleep
  only while that sleep is pending, and restored only when it is over.
\<close>

fun allowed :: "watch \<Rightarrow> lifecycle_act \<Rightarrow> bool" where
  "allowed w SignalWaited = (w_held w \<longleftrightarrow> w_enabled w \<and> \<not> w_asleep w)"
| "allowed w InhibitorAcquired = (\<not> w_held w \<and> w_enabled w \<and> \<not> w_asleep w)"
| "allowed w InhibitorReleased = (w_held w \<and> (w_enabled w \<longrightarrow> w_asleep w \<and> w_told w))"
| "allowed w (Executed a) =
     (w_enabled w \<and> (a = BeforeSleepCalled \<and> w_asleep w \<and> \<not> w_told w \<or> a = AfterResumeCalled \<and> \<not> w_asleep w))"
| "allowed w _ = True"

fun accepts :: "watch \<Rightarrow> lifecycle_act list \<Rightarrow> bool" where
  "accepts w [] = True"
| "accepts w (a # as) = (allowed w a \<and> accepts (watch_step w a) as)"

lemma accepts_append [simp]: "accepts w (xs @ ys) \<longleftrightarrow> accepts w xs \<and> accepts (foldl watch_step w xs) ys"
  by (induction xs arbitrary: w) auto

abbreviation watched :: "'x lifecycle_run \<Rightarrow> watch" where
  "watched r \<equiv> foldl watch_step unwatched (monitor_log r)"

text \<open>The only other way a run may end: it failed, and the inhibitor was dropped on the way out.\<close>

definition given_up :: "lifecycle_act list \<Rightarrow> bool" where
  "given_up log \<longleftrightarrow> accepts unwatched log \<or> (\<exists>pre. log = pre @ [InhibitorReleased] \<and> accepts unwatched pre)"

definition tracks :: "'x lifecycle_run \<Rightarrow> bool" where
  "tracks r \<longleftrightarrow> accepts unwatched (monitor_log r) \<and> w_held (watched r) = (sleep_inhibitor r \<noteq> None) \<and>
     w_asleep (watched r) = waiting_for_resume r"

definition settled :: "'x lifecycle_run \<Rightarrow> bool" where
  "settled r \<longleftrightarrow> tracks r \<and> (waiting_for_resume r \<longrightarrow> sleep_inhibitor r = None)"

lemma tracks_given_up: "tracks r \<Longrightarrow> given_up (monitor_log r)" "settled r \<Longrightarrow> given_up (monitor_log r)"
  by (simp_all add: tracks_def given_up_def settled_def)

section \<open>The steps\<close>

definition same_trail :: "'x run \<Rightarrow> 'x run \<Rightarrow> bool" where
  "same_trail d d' \<longleftrightarrow> trail d' = trail d"

interpretation st: world_preorder same_trail
  by unfold_locales (auto simp: same_trail_def)

lemma same_trail_put: "stays same_trail (put host text)" "stays same_trail (put_flush host)"
  by (simp_all add: stays_def same_trail_def put_def put_flush_def split: option.splits)

lemma same_trail_line: "stays same_trail (put_line host line)"
  unfolding put_line_def by (rule same_trail_put)

lemma same_trail_report: "stays same_trail (report_action host msg result)"
  unfolding report_action_def write_command_output_def
  by (auto intro!: st.stays_rules stays_if same_trail_put same_trail_line split: sum.splits)

definition acts_of :: "RuntimeEvent \<Rightarrow> act list" where
  "acts_of event = (case from_runtime_event event of
     Some LifecycleResumed \<Rightarrow> [AfterResumeCalled] | Some LifecyclePreparingForSleep \<Rightarrow> [BeforeSleepCalled] | _ \<Rightarrow> [])"

lemma wp_line_then:
  assumes "stays same_trail m" and "\<And>d'. trail d' = trail d \<Longrightarrow> wp n Q E d'" and "\<And>e d'. trail d' = trail d \<Longrightarrow> E e d'"
  shows "wp (thenE m n) Q E d"
  unfolding wp_thenE by (rule wp_mono [OF stays_wp [OF assms(1)]]) (use assms(2,3) in \<open>auto simp: same_trail_def\<close>)

lemma wp_trail_call: "wp (call_executor a f) (\<lambda>_ d'. trail d' = trail d @ [a]) (\<lambda>_ _. False) d"
  by (simp add: wp_def call_executor_def thenE_def bindE_def note_act_def modifyE_def split: prod.splits)

lemma wp_dispatch_lifecycle:
  "wp (dispatch_lifecycle_event host event) (\<lambda>_ d'. trail d' = trail d @ acts_of event)
     (\<lambda>_ d'. trail d' = trail d \<or> trail d' = trail d @ acts_of event) d"
proof -
  have rest: "stays same_trail (case rw of (result, written) \<Rightarrow> thenE (modifyE (\<lambda>r. r\<lparr>printed := printed r @ written\<rparr>))
      (case result of Inr _ \<Rightarrow> returnE () | Inl err \<Rightarrow> put_line host (msg err)))" for rw msg
    by (auto split: prod.splits sum.splits intro!: st.stays_rules same_trail_line)
      (simp_all add: stays_def modifyE_def same_trail_def)
  have resume: "wp (stream_after_resume host msg event) (\<lambda>_ d'. trail d' = trail d0 @ [AfterResumeCalled])
      (\<lambda>_ d'. trail d' = trail d0 @ [AfterResumeCalled]) d0" for msg d0
    unfolding stream_after_resume_def
    by (rule wp_bindI [OF wp_trail_call], rule wp_mono [OF stays_wp [OF rest]]) (auto simp: same_trail_def)
  have sleep: "wp (bindE (call_executor BeforeSleepCalled f) (report_action host msg)) (\<lambda>_ d'. trail d' = trail d0 @ [BeforeSleepCalled])
      (\<lambda>_ d'. trail d' = trail d0 @ [BeforeSleepCalled]) d0" for f msg d0
    by (rule wp_bindI [OF wp_trail_call], rule wp_mono [OF stays_wp [OF same_trail_report]]) (auto simp: same_trail_def)
  show ?thesis
    unfolding dispatch_lifecycle_event_def acts_of_def
    by (auto simp: wp_returnE split: option.splits LifecycleEvent.splits
        intro!: wp_line_then [OF same_trail_line] wp_line_then [OF same_trail_put(2)] wp_mono [OF resume] wp_mono [OF sleep])
qed

text \<open>The parts of the state the protocol depends on.\<close>

definition unmoved :: "'x lifecycle_run \<Rightarrow> 'x lifecycle_run \<Rightarrow> bool" where
  "unmoved r r' \<longleftrightarrow> monitor_log r' = monitor_log r \<and> sleep_inhibitor r' = sleep_inhibitor r \<and>
     waiting_for_resume r' = waiting_for_resume r"

interpretation um: world_preorder unmoved
  by unfold_locales (auto simp: unmoved_def)

lemma unmoved_holds: "unmoved r r' \<Longrightarrow> tracks r' = tracks r" "unmoved r r' \<Longrightarrow> settled r' = settled r"
  by (simp_all add: unmoved_def tracks_def settled_def)

lemma unmoved_line: "stays unmoved (log_line host text)"
  using staysD [OF same_trail_line] by (fastforce simp: stays_def log_line_def on_dispatcher_def unmoved_def same_trail_def split: prod.splits)

lemma unmoved_bus: "stays unmoved (on_system_bus host what m)"
  by (auto simp: stays_def on_system_bus_def unmoved_def split: prod.splits sum.splits)

lemma unmoved_seen: "stays unmoved (event_seen host)"
  by (simp add: stays_def event_seen_def thenE_def bindE_def modifyE_def getsE_def unmoved_def)

lemma wp_policy_enabled:
  "wp (lifecycle_policy_enabled_from_config host) (\<lambda>e r'. r' = r\<lparr>monitor_log := monitor_log r @ [PolicyRead e]\<rparr>) (\<lambda>_ r'. r' = r) r"
  by (auto simp: lifecycle_policy_enabled_from_config_def log_act_def wp_rules Let_def split: prod.splits sum.splits)

definition released :: "'x lifecycle_run \<Rightarrow> 'x lifecycle_run \<Rightarrow> bool" where
  "released r r' \<longleftrightarrow> waiting_for_resume r' = waiting_for_resume r \<and> sleep_inhibitor r' = None \<and>
     monitor_log r' = monitor_log r @ (if sleep_inhibitor r = None then [] else [InhibitorReleased])"

lemma wp_release: "wp (release_lifecycle_sleep_delay_inhibitor host) (\<lambda>_. released r) (\<lambda>_. released r) r"
proof (cases "sleep_inhibitor r")
  case None
  then show ?thesis by (simp add: release_lifecycle_sleep_delay_inhibitor_def wp_rules released_def)
next
  case (Some fd)
  then show ?thesis
    by (simp add: release_lifecycle_sleep_delay_inhibitor_def wp_rules)
      (rule wp_mono [OF stays_wp [OF unmoved_line]], auto simp: released_def unmoved_def)
qed

lemma released_tracks:
  assumes "tracks r" and "released r r'" and "w_enabled (watched r) \<longrightarrow> w_asleep (watched r) \<and> w_told (watched r)"
  shows "settled r'"
  using assms by (auto simp: tracks_def settled_def released_def split: if_splits)

lemma wp_acquire:
  "wp (acquire_lifecycle_inhibitor host)
     (\<lambda>_ r'. waiting_for_resume r' = waiting_for_resume r \<and> sleep_inhibitor r' \<noteq> None \<and>
        monitor_log r' = monitor_log r @ [InhibitorAcquired])
     (\<lambda>_ r'. monitor_log r' = monitor_log r \<or> monitor_log r' = monitor_log r @ [InhibitorAcquired]) r"
  unfolding acquire_lifecycle_inhibitor_def
proof (rule wp_bindI [OF stays_wp [OF unmoved_bus]])
  fix fd r1
  assume "unmoved r r1"
  then show "wp (thenE (modifyE (\<lambda>r. r\<lparr>sleep_inhibitor := Some fd, monitor_log := monitor_log r @ [InhibitorAcquired]\<rparr>))
      (log_line host msg_acquired))
     (\<lambda>_ r'. waiting_for_resume r' = waiting_for_resume r \<and> sleep_inhibitor r' \<noteq> None \<and>
        monitor_log r' = monitor_log r @ [InhibitorAcquired])
     (\<lambda>_ r'. monitor_log r' = monitor_log r \<or> monitor_log r' = monitor_log r @ [InhibitorAcquired]) r1"
    by (simp add: wp_thenE wp_modifyE) (rule wp_mono [OF stays_wp [OF unmoved_line]], auto simp: unmoved_def)
qed (simp add: unmoved_def)

lemma wp_on_dispatcher:
  assumes "wp m (\<lambda>a d'. trail d' = trail (dispatcher r) @ new) (\<lambda>_ d'. trail d' = trail (dispatcher r) \<or> trail d' = trail (dispatcher r) @ new)
     (dispatcher r)"
  shows "wp (on_dispatcher m)
     (\<lambda>_ r'. unmoved (r\<lparr>monitor_log := monitor_log r @ map Executed new\<rparr>) r')
     (\<lambda>_ r'. unmoved r r' \<or> unmoved (r\<lparr>monitor_log := monitor_log r @ map Executed new\<rparr>) r') r"
  using assms by (auto simp: wp_def on_dispatcher_def unmoved_def split: prod.splits sum.splits)

text \<open>Every iteration starts by bringing the inhibitor in line.\<close>

definition in_line :: "'x lifecycle_run \<Rightarrow> bool" where
  "in_line r \<longleftrightarrow> settled r \<and> (w_held (watched r) \<longleftrightarrow> w_enabled (watched r) \<and> \<not> w_asleep (watched r))"

lemma wp_sync:
  assumes "settled r"
  shows "wp (sync_lifecycle_sleep_delay_inhibitor_if_idle host) (\<lambda>_. in_line) (\<lambda>_ r'. given_up (monitor_log r')) r"
  unfolding sync_lifecycle_sleep_delay_inhibitor_if_idle_def
proof (rule wp_bindI [OF wp_policy_enabled])
  fix enabled r1
  assume r1: "r1 = r\<lparr>monitor_log := monitor_log r @ [PolicyRead enabled]\<rparr>"
  then have s1: "settled r1" and e1: "w_enabled (watched r1) = enabled"
    using assms by (simp_all add: settled_def tracks_def)
  show "wp (if \<not> enabled then release_lifecycle_sleep_delay_inhibitor host
      else bindE (getsE (\<lambda>r. waiting_for_resume r \<or> sleep_inhibitor r \<noteq> None)) (\<lambda>nothing_to_do.
        if nothing_to_do then returnE () else acquire_lifecycle_inhibitor host))
      (\<lambda>_. in_line) (\<lambda>_ r'. given_up (monitor_log r')) r1"
  proof (cases enabled)
    case False
    have "released r1 r' \<Longrightarrow> in_line r'" for r'
      using s1 e1 False released_tracks [of r1 r'] by (auto simp: in_line_def released_def settled_def tracks_def split: if_splits)
    with False show ?thesis
      by (auto intro!: wp_mono [OF wp_release] tracks_given_up simp: in_line_def)
  next
    case True
    show ?thesis
    proof (cases "waiting_for_resume r1 \<or> sleep_inhibitor r1 \<noteq> None")
      case True
      with \<open>enabled\<close> s1 e1 show ?thesis
        by (auto simp: wp_rules in_line_def settled_def tracks_def)
    next
      case False
      with \<open>enabled\<close> s1 e1 show ?thesis
        by (auto simp: wp_rules in_line_def settled_def tracks_def given_up_def intro!: wp_mono [OF wp_acquire])
    qed
  qed
qed (use assms tracks_given_up in auto)

lemma wp_dispatch_and_release:
  assumes "tracks r" and "w_enabled (watched r)" and "w_asleep (watched r)" and "\<not> w_told (watched r)"
    and "from_runtime_event event = Some LifecyclePreparingForSleep"
  shows "wp (dispatch_and_release host event) (\<lambda>_. settled) (\<lambda>_ r'. given_up (monitor_log r')) r"
proof -
  have acts: "acts_of event = [BeforeSleepCalled]" using assms(5) by (simp add: acts_of_def)
  let ?told = "r\<lparr>monitor_log := monitor_log r @ [Executed BeforeSleepCalled]\<rparr>"
  have told: "tracks ?told" "w_told (watched ?told)" "w_asleep (watched ?told)"
    using assms by (simp_all add: tracks_def)
  have good: "settled r2" if "unmoved ?told r1" "released r1 r2" for r1 r2
    using that told unmoved_holds(1) [OF that(1)] released_tracks [OF _ that(2)] by (auto simp: unmoved_def)
  have bad: "given_up (monitor_log r2)" if "unmoved r r1" "released r1 r2" for r1 r2
    using that assms(1) by (auto simp: unmoved_def released_def given_up_def tracks_def)
  have release: "wp (bindE (tryE (release_lifecycle_sleep_delay_inhibitor host)) (\<lambda>q. thenE (liftR d) (liftR q)))
      (\<lambda>_. settled) (\<lambda>_ r'. given_up (monitor_log r')) r1"
    if "unmoved ?told r1 \<or> unmoved r r1 \<and> (\<exists>e. d = Inl e)" for d r1
  proof -
    have ends: "given_up (monitor_log r2) \<and> ((\<forall>e. d \<noteq> Inl e) \<longrightarrow> settled r2)" if "released r1 r2" for r2
      using \<open>unmoved ?told r1 \<or> unmoved r r1 \<and> (\<exists>e. d = Inl e)\<close> that good bad tracks_given_up(2) by metis
    show ?thesis
      unfolding wp_bindE wp_tryE
      by (rule wp_mono [OF wp_release]) (use ends in \<open>auto simp: wp_rules split: sum.splits\<close>)
  qed
  show ?thesis
    unfolding dispatch_and_release_def wp_bindE [of "tryE (on_dispatcher _)"] wp_tryE
    by (rule wp_mono [OF wp_on_dispatcher [OF wp_dispatch_lifecycle]]) (auto simp: acts intro!: release)
qed

lemma wp_unmoved_settled:
  assumes "stays unmoved m" and "settled r"
  shows "wp m (\<lambda>_. settled) (\<lambda>_ r'. given_up (monitor_log r')) r"
  by (rule wp_mono [OF stays_wp [OF assms(1)]]) (use assms(2) unmoved_holds(2) tracks_given_up(2) in blast)+

lemma wp_enabled_event:
  assumes "tracks r" and "w_enabled (watched r)"
    and "from_runtime_event event = Some LifecyclePreparingForSleep \<Longrightarrow> w_asleep (watched r) \<and> \<not> w_told (watched r)"
    and "from_runtime_event event \<noteq> Some LifecyclePreparingForSleep \<Longrightarrow> settled r"
    and "from_runtime_event event = Some LifecycleResumed \<Longrightarrow> \<not> w_asleep (watched r)"
  shows "wp (case from_runtime_event event of
         Some LifecycleResumed \<Rightarrow>
           thenE (on_dispatcher (dispatch_lifecycle_event (dispatch_host host) event))
             (sync_lifecycle_sleep_delay_inhibitor_if_idle host)
       | Some LifecyclePreparingForSleep \<Rightarrow> dispatch_and_release host event
       | Some _ \<Rightarrow> on_dispatcher (dispatch_lifecycle_event (dispatch_host host) event)
       | None \<Rightarrow> returnE ()) (\<lambda>_. settled) (\<lambda>_ r'. given_up (monitor_log r')) r"
proof -
  consider (resumed) "from_runtime_event event = Some LifecycleResumed" | (sleep) "from_runtime_event event = Some LifecyclePreparingForSleep"
    | (none) "from_runtime_event event = None"
    | (other) k where "from_runtime_event event = Some k" "k \<noteq> LifecycleResumed" "k \<noteq> LifecyclePreparingForSleep"
    by (cases "from_runtime_event event") auto
  then show ?thesis
  proof cases
    case resumed
    let ?done = "r\<lparr>monitor_log := monitor_log r @ map Executed (acts_of event)\<rparr>"
    have "settled ?done" using resumed assms by (auto simp: acts_of_def settled_def tracks_def)
    then have "unmoved ?done r' \<or> unmoved r r' \<Longrightarrow> settled r'" for r'
      using unmoved_holds(2) assms(4) resumed by force
    then show ?thesis
      by (auto simp: resumed intro!: wp_thenI [OF wp_on_dispatcher [OF wp_dispatch_lifecycle]]
          intro: wp_mono [OF wp_sync] tracks_given_up(2) simp: in_line_def)
  next
    case sleep
    then show ?thesis using assms(3) wp_dispatch_and_release [OF assms(1,2)] by simp
  next
    case none
    then show ?thesis using assms by (simp add: wp_returnE)
  next
    case other
    then have "acts_of event = []" by (auto simp: acts_of_def split: LifecycleEvent.splits)
    then have "wp (on_dispatcher (dispatch_lifecycle_event (dispatch_host host) event)) (\<lambda>_. unmoved r) (\<lambda>_. unmoved r) r"
      using wp_on_dispatcher [OF wp_dispatch_lifecycle, of "dispatch_host host" event r] by simp
    then have "wp (on_dispatcher (dispatch_lifecycle_event (dispatch_host host) event)) (\<lambda>_. settled)
        (\<lambda>_ r'. given_up (monitor_log r')) r"
      by (rule wp_mono) (use other assms(4) unmoved_holds(2) tracks_given_up(2) in auto)
    with other show ?thesis by (auto split: LifecycleEvent.splits)
  qed
qed

lemma wp_handle_lifecycle_event:
  assumes "settled r"
  shows "wp (handle_lifecycle_event host event) (\<lambda>_. settled) (\<lambda>_ r'. given_up (monitor_log r')) r"
proof -
  have finish: "wp (thenE m (event_seen host)) (\<lambda>_. settled) (\<lambda>_ r'. given_up (monitor_log r')) r'"
    if "wp m (\<lambda>_. settled) (\<lambda>_ r'. given_up (monitor_log r')) r'" for m :: "('a, unit) monitor_eff" and r'
    by (rule wp_thenI [OF that]) (auto intro: wp_unmoved_settled [OF unmoved_seen])
  have off: "wp (thenE (release_lifecycle_sleep_delay_inhibitor host)
      (thenE (log_line host msg_lifecycle_disabled) (event_seen host))) (\<lambda>_. settled) (\<lambda>_ r'. given_up (monitor_log r')) r2"
    if "tracks r2" "\<not> w_enabled (watched r2)" for r2
    by (rule wp_thenI [OF wp_release], rule finish, rule wp_unmoved_settled [OF unmoved_line])
      (use that released_tracks tracks_given_up(2) in blast)+
  have noted: "wp (note_sleep_signal (from_runtime_event event))
      (\<lambda>_ r1. tracks r1 \<and>
         (from_runtime_event event = Some LifecyclePreparingForSleep \<longrightarrow> w_asleep (watched r1) \<and> \<not> w_told (watched r1)) \<and>
         (from_runtime_event event \<noteq> Some LifecyclePreparingForSleep \<longrightarrow> settled r1) \<and>
         (from_runtime_event event = Some LifecycleResumed \<longrightarrow> \<not> w_asleep (watched r1))) (\<lambda>_ _. False) r"
    using assms by (auto simp: note_sleep_signal_def wp_rules settled_def tracks_def split: option.splits LifecycleEvent.splits)
  show ?thesis
    unfolding handle_lifecycle_event_def Let_def
  proof (rule wp_thenI [OF noted], rule wp_bindI [OF wp_policy_enabled])
    fix r1 :: "'a lifecycle_run" and enabled r2
    assume r1: "tracks r1 \<and>
         (from_runtime_event event = Some LifecyclePreparingForSleep \<longrightarrow> w_asleep (watched r1) \<and> \<not> w_told (watched r1)) \<and>
         (from_runtime_event event \<noteq> Some LifecyclePreparingForSleep \<longrightarrow> settled r1) \<and>
         (from_runtime_event event = Some LifecycleResumed \<longrightarrow> \<not> w_asleep (watched r1))"
      and r2: "r2 = r1\<lparr>monitor_log := monitor_log r1 @ [PolicyRead enabled]\<rparr>"
    show "wp (if \<not> enabled
        then thenE (release_lifecycle_sleep_delay_inhibitor host) (thenE (log_line host msg_lifecycle_disabled) (event_seen host))
        else thenE (case from_runtime_event event of
                   Some LifecycleResumed \<Rightarrow>
                     thenE (on_dispatcher (dispatch_lifecycle_event (dispatch_host host) event))
                       (sync_lifecycle_sleep_delay_inhibitor_if_idle host)
                 | Some LifecyclePreparingForSleep \<Rightarrow> dispatch_and_release host event
                 | Some _ \<Rightarrow> on_dispatcher (dispatch_lifecycle_event (dispatch_host host) event)
                 | None \<Rightarrow> returnE ()) (event_seen host)) (\<lambda>_. settled) (\<lambda>_ r'. given_up (monitor_log r')) r2"
    proof (cases enabled)
      case True
      have "tracks r2" "w_enabled (watched r2)" using r1 r2 True by (simp_all add: tracks_def)
      then have "wp (case from_runtime_event event of
                   Some LifecycleResumed \<Rightarrow>
                     thenE (on_dispatcher (dispatch_lifecycle_event (dispatch_host host) event))
                       (sync_lifecycle_sleep_delay_inhibitor_if_idle host)
                 | Some LifecyclePreparingForSleep \<Rightarrow> dispatch_and_release host event
                 | Some _ \<Rightarrow> on_dispatcher (dispatch_lifecycle_event (dispatch_host host) event)
                 | None \<Rightarrow> returnE ()) (\<lambda>_. settled) (\<lambda>_ r'. given_up (monitor_log r')) r2"
        by (rule wp_enabled_event) (use r1 r2 in \<open>auto simp: settled_def tracks_def\<close>)
      from finish [OF this] show ?thesis unfolding if_not_P [OF not_not [THEN iffD2, OF True]] .
    next
      case False
      have "tracks r2" "\<not> w_enabled (watched r2)" using r1 r2 False by (simp_all add: tracks_def)
      from off [OF this] show ?thesis unfolding if_P [OF False] .
    qed
  qed (auto intro: tracks_given_up)
qed

lemma wp_lifecycle_iteration:
  assumes "settled r"
  shows "wp (lifecycle_iteration host) (\<lambda>_. settled) (\<lambda>_ r'. given_up (monitor_log r')) r"
proof -
  have received: "wp (case received of None \<Rightarrow> returnE True
      | Some signal \<Rightarrow> (case map_prepare_for_sleep_signal signal of None \<Rightarrow> returnE True | Some event \<Rightarrow> handle_lifecycle_event host event))
      (\<lambda>_. settled) (\<lambda>_ r'. given_up (monitor_log r')) r'" if "settled r'" for received r'
    using that by (auto simp: wp_returnE intro!: wp_handle_lifecycle_event split: option.splits)
  have waited: "settled (r'\<lparr>monitor_log := monitor_log r' @ [SignalWaited]\<rparr>)" if "in_line r'" for r' :: "'a lifecycle_run"
    using that by (auto simp: in_line_def settled_def tracks_def)
  have go: "wp (thenE (sync_lifecycle_sleep_delay_inhibitor_if_idle host)
        (thenE (log_act SignalWaited)
        (bindE (on_system_bus host ''logind lifecycle bus processing failed: '' (process_bus (system_bus host) timeout)) (\<lambda>received.
           case received of
             None \<Rightarrow> returnE True
           | Some signal \<Rightarrow> (case map_prepare_for_sleep_signal signal of None \<Rightarrow> returnE True | Some event \<Rightarrow> handle_lifecycle_event host event)))))
      (\<lambda>_. settled) (\<lambda>_ r'. given_up (monitor_log r')) r" for timeout
    by (rule wp_thenI [OF wp_sync [OF assms]], simp only: log_act_def wp_thenE [of "modifyE _"] wp_modifyE,
        rule wp_bindI [OF wp_unmoved_settled [OF unmoved_bus waited] received])
  show ?thesis
    unfolding lifecycle_iteration_def wp_bindE [of "getsE _"] wp_getsE if_split [of "\<lambda>m. wp m _ _ _"]
    using assms go by (auto simp: wp_returnE wp_bindE [of "getsE _"] wp_getsE)
qed

lemma wp_lifecycle_loop:
  "settled r \<Longrightarrow> wp (lifecycle_loop n host) (\<lambda>_. settled) (\<lambda>_ r'. given_up (monitor_log r')) r"
proof (induction n arbitrary: r)
  case 0
  then show ?case by (simp add: wp_returnE)
next
  case (Suc n)
  show ?case
    unfolding lifecycle_loop.simps
    by (rule wp_bindI [OF wp_lifecycle_iteration [OF Suc.prems]]) (auto simp: wp_returnE intro: Suc.IH)
qed

lemma wp_run_lifecycle_monitor:
  "settled r \<Longrightarrow> wp (run_lifecycle_monitor_with_bus n host) (\<lambda>_. settled) (\<lambda>_ r'. given_up (monitor_log r')) r"
  unfolding run_lifecycle_monitor_with_bus_def
  by (rule wp_thenI [OF wp_unmoved_settled [OF unmoved_bus]], assumption,
      rule wp_thenI [OF wp_unmoved_settled [OF unmoved_line]], assumption, rule wp_thenI [OF wp_sync], assumption,
      rule wp_lifecycle_loop) (auto simp: in_line_def)

section \<open>The executor under the monitor\<close>

text \<open>The contract of \<open>Actions\<close>, now for this loop: it too reaches the executor through its operations only.\<close>

context executor_contract begin

abbreviation "moves \<equiv> (\<lambda>r r'. runs (dispatcher r) (dispatcher r'))"

lemma moves_preorder: "world_preorder moves"
  by unfold_locales (auto simp: runs_def R_refl intro: R_trans)

lemmas moves_rules = world_preorder.stays_rules [OF moves_preorder] stays_if

lemma moves_same: "(\<And>r. dispatcher (snd (m r)) = dispatcher r) \<Longrightarrow> stays moves m"
  by (simp add: stays_def runs_def R_refl)

lemma moves_dispatcher: "stays runs m \<Longrightarrow> stays moves (on_dispatcher m)"
  by (auto simp: stays_def on_dispatcher_def split: prod.splits) (metis snd_conv)

lemma moves_bus: "stays moves (on_system_bus host what m)"
  by (rule moves_same) (simp add: on_system_bus_def split: prod.splits sum.splits)

lemma moves_modify: "(\<And>r. dispatcher (f r) = dispatcher r) \<Longrightarrow> stays moves (modifyE f)"
  by (rule moves_same) (simp add: modifyE_def)

lemma moves_line: "stays moves (log_line host text)"
  unfolding log_line_def by (intro moves_dispatcher runs_line)

lemma moves_policy: "stays moves (lifecycle_policy_enabled_from_config host)"
  unfolding lifecycle_policy_enabled_from_config_def log_act_def Let_def
  by (auto intro!: moves_rules moves_modify split: sum.splits prod.splits)

lemma moves_release: "stays moves (release_lifecycle_sleep_delay_inhibitor host)"
  unfolding release_lifecycle_sleep_delay_inhibitor_def
  by (auto intro!: moves_rules moves_modify moves_line split: option.splits)

lemma moves_sync: "stays moves (sync_lifecycle_sleep_delay_inhibitor_if_idle host)"
  unfolding sync_lifecycle_sleep_delay_inhibitor_if_idle_def acquire_lifecycle_inhibitor_def
  by (auto intro!: moves_rules moves_policy moves_release moves_bus moves_modify moves_line)

lemma runs_lifecycle_event: "executor_of host = E \<Longrightarrow> stays runs (dispatch_lifecycle_event host event)"
  unfolding dispatch_lifecycle_event_def
  by (auto intro!: runs_rules runs_line runs_put runs_call runs_resume runs_report host_keeps split: option.splits LifecycleEvent.splits)

lemma moves_event: "executor_of (dispatch_host host) = E \<Longrightarrow> stays moves (handle_lifecycle_event host event)"
  unfolding handle_lifecycle_event_def note_sleep_signal_def dispatch_and_release_def event_seen_def Let_def
  by (auto intro!: moves_rules moves_policy moves_release moves_line moves_modify moves_sync moves_dispatcher runs_lifecycle_event
      split: option.splits LifecycleEvent.splits)

lemma moves_iteration: "executor_of (dispatch_host host) = E \<Longrightarrow> stays moves (lifecycle_iteration host)"
  unfolding lifecycle_iteration_def log_act_def
  by (auto intro!: moves_rules moves_sync moves_modify moves_bus moves_event split: option.splits)

lemma moves_loop: "executor_of (dispatch_host host) = E \<Longrightarrow> stays moves (lifecycle_loop n host)"
  by (induction n) (auto intro!: moves_rules moves_iteration)

lemma lifecycle_keeps: "executor_of (dispatch_host host) = E \<Longrightarrow> stays moves (run_lifecycle_monitor_with_bus n host)"
  unfolding run_lifecycle_monitor_with_bus_def by (auto intro!: moves_rules moves_bus moves_line moves_sync moves_loop)

end

section \<open>The theorems\<close>

text \<open>
  C4. Sleep waits for the TV. Whatever logind, the configuration and the executor do, the monitor keeps the
  protocol: whenever it waits for logind it holds the delay inhibitor exactly if the policy is enabled and
  the machine is awake; with the policy enabled it lets go of the inhibitor only after the pre-sleep action
  for the pending sleep has run; that action runs once per sleep signal, and the restore only after the
  resume. A run that fails has kept the protocol up to, at most, dropping the inhibitor on its way out.
\<close>

theorem sleep_waits_for_tv:
  assumes "run_lifecycle_monitor_with_bus n host (start_lifecycle d) = (res, r)"
  shows "case res of Inr _ \<Rightarrow> accepts unwatched (monitor_log r) | Inl _ \<Rightarrow> given_up (monitor_log r)"
proof -
  have "settled (start_lifecycle d)"
    by (simp add: settled_def tracks_def start_lifecycle_def unwatched_def)
  from wp_result [OF wp_run_lifecycle_monitor [OF this] assms] show ?thesis
    by (auto simp: settled_def tracks_def split: sum.splits)
qed

text \<open>
  C19. Suspend and resume never ask anyone. After any run of the lifecycle monitor on the real executor,
  whatever client it retained, the action before sleep only listens to clients that use the stored credential
  and the three-second pre-sleep limit (if the TV answered all other clients differently, nothing would
  change), and the resume action only to clients that use the stored credential.
\<close>

theorem lifecycle_never_prompts:
  assumes "executor_of (dispatch_host host) = runtime_executor rt" and "ex_client (exec_state d) = None"
    and "run_lifecycle_monitor_with_bus n host (start_lifecycle d) = (res, r)"
  shows "(agree_on (\<lambda>c. unattended c \<and> quick c) rt answers \<longrightarrow>
       run_sleep_pre (other_tv rt answers) env event (exec_state (dispatcher r)) = run_sleep_pre rt env event (exec_state (dispatcher r))) \<and>
     (agree_on unattended rt answers \<longrightarrow>
       run_system_resume (other_tv rt answers) env (exec_state (dispatcher r)) = run_system_resume rt env (exec_state (dispatcher r)))"
proof -
  have "client_ok (exec_state d)" using assms(2) by (simp add: client_ok_def)
  with staysD [OF rx.lifecycle_keeps [OF assms(1)] assms(3)] have "client_ok (exec_state (dispatcher r))"
    by (simp add: exec_related_def keeps_client_def start_lifecycle_def)
  then show ?thesis using sleep_pre_cong resume_cong unfolding agree_on_def by blast
qed

section \<open>A night\<close>

definition sleep_signal :: "bool \<Rightarrow> BusSignal" where
  "sleep_signal preparing =
     \<lparr>sig_sender = Some '':1.7'', sig_path = LOGIND_MANAGER_PATH, sig_interface = LOGIND_MANAGER_INTERFACE,
      sig_member = ''PrepareForSleep'', sig_body = [BusBool preparing]\<rparr>"

fun polls :: "bus_step list \<Rightarrow> nat" where
  "polls [] = 0"
| "polls (BusPolled _ _ # h) = Suc (polls h)"
| "polls (_ # h) = polls h"

lemma polls_append [simp]: "polls (h @ h') = polls h + polls h'"
  by (induction h rule: polls.induct) auto

definition night_bus :: bus where
  "night_bus = \<lparr>bus_call = \<lambda>_ _. Inr (BusReply [UnixFd 9]), bus_add_match = \<lambda>_ _. Inr (),
     bus_process = \<lambda>_ h. Inr (if polls h = 0 then Some (sleep_signal True) else if polls h = 1 then Some (sleep_signal False) else None)\<rparr>"

definition night_host :: "unit lifecycle_host" where
  "night_host = \<lparr>dispatch_host = quiet_host, system_bus = night_bus, config_answers = \<lambda>_. (Inr example_contents, Inr None),
     elapsed = \<lambda>_. 0, test_timeout = None, test_event_limit = None, duration_text = \<lambda>_. []\<rparr>"

lemma example_policy:
  "lifecycle_policy_enabled_from_config night_host r = (Inr True, r\<lparr>monitor_log := monitor_log r @ [PolicyRead True]\<rparr>)"
proof -
  obtain cfg where c: "load_current_config (Inr example_contents) (Inr None) = Inr cfg"
    using example_loads by (auto simp: load_current_config_def)
  have "eff_value (effective_definition (store_of [] (Some example_contents) None) setting_system_SLEEP_WAKE_POLICY) = Some (EnumValue ''enabled'')"
    by (simp add: effective_definition_def effective_saved_def raw_setting_value_def store_of_def example_entries
        setting_system_SLEEP_WAKE_POLICY_def setting_parse_simps)
  then have "EnumValue ''enabled'' = EnumValue (switch_as_str (system_sleep_wake_policy cfg))"
    using load_agrees [OF c, of setting_system_SLEEP_WAKE_POLICY] by (auto simp: runtime_values_def)
  then have "is_enabled (system_sleep_wake_policy cfg)"
    by (cases "system_sleep_wake_policy cfg") (simp_all add: is_enabled_def)
  then show ?thesis
    by (simp add: lifecycle_policy_enabled_from_config_def night_host_def c bindE_def getsE_def thenE_def log_act_def modifyE_def returnE_def)
qed

lemma night_fields [simp]:
  "dispatch_host night_host = quiet_host" "system_bus night_host = night_bus" "test_timeout night_host = None"
  "test_event_limit night_host = None"
  by (simp_all add: night_host_def)

definition night_log :: "lifecycle_act list" where
  "night_log =
     [PolicyRead True, InhibitorAcquired, PolicyRead True, SignalWaited, SleepSignal True, PolicyRead True,
      Executed BeforeSleepCalled, InhibitorReleased, PolicyRead True, SignalWaited, SleepSignal False, PolicyRead True,
      Executed AfterResumeCalled, PolicyRead True, InhibitorAcquired]"

lemma quiet_effects:
  "put quiet_host text = modifyE (\<lambda>r. r\<lparr>printed := printed r @ [text]\<rparr>)" "put_flush quiet_host = returnE ()"
  "exec_before_sleep (executor_of quiet_host) event x = (Inr [], x)"
  "exec_after_resume_streaming (executor_of quiet_host) event x = ((Inr (), []), x)"
  by (simp_all add: put_def put_flush_def quiet_host_def obedient_def modifyE_def returnE_def)

lemmas night_defs = run_lifecycle_monitor_with_bus_def lifecycle_iteration_def sync_lifecycle_sleep_delay_inhibitor_if_idle_def
  acquire_lifecycle_inhibitor_def release_lifecycle_sleep_delay_inhibitor_def handle_lifecycle_event_def note_sleep_signal_def
  dispatch_and_release_def event_seen_def log_act_def log_line_def on_dispatcher_def on_system_bus_def
  dispatch_lifecycle_event_def put_line_def quiet_effects call_executor_def note_act_def report_action_def
  write_command_output_def stream_after_resume_def bindE_def thenE_def getsE_def modifyE_def returnE_def liftR_def tryE_def
  acquire_sleep_delay_inhibitor_def add_logind_signal_match_def add_signal_match_def call_method_def process_bus_def
  map_prepare_for_sleep_signal_def sleep_signal_def from_logind_prepare_for_sleep_def from_runtime_event_def runtime_event_def
  night_bus_def Let_def start_lifecycle_def

lemma night_runs:
  "monitor_log (snd (run_lifecycle_monitor_with_bus 2 night_host (start_lifecycle (start_run () e g)))) = night_log \<and>
   fst (run_lifecycle_monitor_with_bus 2 night_host (start_lifecycle (start_run () e g))) = Inr False"
  by (simp add: night_defs example_policy numeral_2_eq_2 start_run_def night_log_def)

text \<open>A night with the policy enabled: the TV is told before the inhibitor goes, and restored after the resume.\<close>

theorem sleep_waits_for_tv_witness:
  "accepts unwatched night_log \<and> \<not> accepts unwatched (filter (\<lambda>a. a \<noteq> Executed BeforeSleepCalled) night_log)"
proof
  let ?run = "run_lifecycle_monitor_with_bus 2 night_host (start_lifecycle (start_run () (start_engine 5 3 0 False) None))"
  have "?run = (Inr False, snd ?run)" using night_runs by (simp add: prod_eq_iff)
  from sleep_waits_for_tv [OF this] show "accepts unwatched night_log" using night_runs by simp
  show "\<not> accepts unwatched (filter (\<lambda>a. a \<noteq> Executed BeforeSleepCalled) night_log)"
    by (simp add: night_log_def unwatched_def)
qed

theorem lifecycle_never_prompts_witness:
  "let host = \<lparr>dispatch_host = runtime_host, system_bus = night_bus, config_answers = \<lambda>_. (Inr example_contents, Inr None),
         elapsed = \<lambda>_. 0, test_timeout = None, test_event_limit = None, duration_text = \<lambda>_. []\<rparr>;
       r = snd (run_lifecycle_monitor_with_bus 2 host (start_lifecycle (start_run example_asleep (start_engine 5 3 0 False) None)));
       other = other_tv example_runtime (\<lambda>c. if unattended c \<and> quick c then obliging else silent)
   in run_sleep_pre other calm preparing_event (exec_state (dispatcher r)) =
      run_sleep_pre example_runtime calm preparing_event (exec_state (dispatcher r))"
proof -
  let ?host = "\<lparr>dispatch_host = runtime_host, system_bus = night_bus, config_answers = \<lambda>_. (Inr example_contents, Inr None),
         elapsed = \<lambda>_. 0, test_timeout = None, test_event_limit = None, duration_text = \<lambda>_. []\<rparr>"
  let ?d = "start_run example_asleep (start_engine 5 3 0 False) None"
  let ?run = "run_lifecycle_monitor_with_bus 2 ?host (start_lifecycle ?d)"
  have "agree_on (\<lambda>c. unattended c \<and> quick c) example_runtime (\<lambda>c. if unattended c \<and> quick c then obliging else silent)"
    by (simp add: agree_on_def example_runtime_def)
  moreover have "executor_of (dispatch_host ?host) = runtime_executor example_runtime" "ex_client (exec_state ?d) = None"
    by (simp_all add: runtime_host_def example_asleep_def start_run_def)
  ultimately show ?thesis
    using lifecycle_never_prompts [of ?host example_runtime ?d 2 "fst ?run" "snd ?run"] unfolding Let_def by simp
qed

end
