(* ===== verification/Logind_Proofs.thy ===== *)
theory Logind_Proofs
  imports Logind
begin

text \<open>
  The observer publishes exactly the edges of what logind says about a session that logind says is ours,
  and session discovery picks the only eligible session of the user or none.
\<close>

section \<open>Everything asked stays on record\<close>

definition grows :: "bus_step list \<Rightarrow> bus_step list \<Rightarrow> bool" where
  "grows h h' \<longleftrightarrow> (\<exists>new. h' = h @ new)"

interpretation bg: world_preorder grows
  by unfold_locales (auto simp: grows_def)

lemma grows_set: "grows h h' \<Longrightarrow> set h \<subseteq> set h'"
  by (auto simp: grows_def)

lemma grows_append [simp]: "grows h (h @ new)"
  by (simp add: grows_def)

lemma wp_call_method: "wp (call_method b call) Q E h =
    (case bus_call b call h of
       Inl e \<Rightarrow> E e (h @ [BusCalled call (Inl e)]) | Inr reply \<Rightarrow> Q reply (h @ [BusCalled call (Inr reply)]))"
  by (simp add: wp_def call_method_def Let_def split: sum.splits)

lemma wp_add_signal_match: "wp (add_signal_match b rule) Q E h =
    (case bus_add_match b rule h of
       Inl e \<Rightarrow> E e (h @ [MatchAdded rule (Inl e)]) | Inr u \<Rightarrow> Q u (h @ [MatchAdded rule (Inr u)]))"
  by (simp add: wp_def add_signal_match_def Let_def split: sum.splits)

lemma wp_process_bus: "wp (process_bus b t) Q E h =
    (case bus_process b t h of
       Inl e \<Rightarrow> E e (h @ [BusPolled t (Inl e)]) | Inr r \<Rightarrow> Q r (h @ [BusPolled t (Inr r)]))"
  by (simp add: wp_def process_bus_def Let_def split: sum.splits)

lemmas wp_bus = wp_call_method wp_add_signal_match wp_process_bus

lemma asked_grows: "stays grows (call_method b call)" "stays grows (add_signal_match b rule)" "stays grows (process_bus b t)"
  by (simp_all add: stays_def call_method_def add_signal_match_def process_bus_def Let_def)

section \<open>Which session is ours\<close>

text \<open>The questions to logind and to the bus daemon, written out.\<close>

definition ask_login1 :: "string \<Rightarrow> string \<Rightarrow> string \<Rightarrow> BusValue list \<Rightarrow> BusMethodCall" where
  "ask_login1 path iface member body =
     \<lparr>call_destination = ''org.freedesktop.login1'', call_path = path, call_interface = iface, call_member = member,
      call_body = body\<rparr>"

definition ask_properties :: "LogindSession \<Rightarrow> BusMethodCall" where
  "ask_properties session = ask_login1 (session_path session) ''org.freedesktop.DBus.Properties'' ''GetAll''
     [BusString ''org.freedesktop.login1.Session'']"

definition ask_hint :: "LogindSession \<Rightarrow> BusMethodCall" where
  "ask_hint session = ask_login1 (session_path session) ''org.freedesktop.DBus.Properties'' ''Get''
     [BusString ''org.freedesktop.login1.Session'', BusString ''LockedHint'']"

definition ask_session :: "string \<Rightarrow> BusMethodCall" where
  "ask_session i = ask_login1 ''/org/freedesktop/login1'' ''org.freedesktop.login1.Manager'' ''GetSession'' [BusString i]"

definition ask_sessions :: BusMethodCall where
  "ask_sessions = ask_login1 ''/org/freedesktop/login1'' ''org.freedesktop.login1.Manager'' ''ListSessions'' []"

definition ask_owner :: BusMethodCall where
  "ask_owner = \<lparr>call_destination = ''org.freedesktop.DBus'', call_path = ''/org/freedesktop/DBus'',
     call_interface = ''org.freedesktop.DBus'', call_member = ''GetNameOwner'', call_body = [BusString ''org.freedesktop.login1'']\<rparr>"

lemma questions:
  "properties_call session = ask_properties session" "locked_hint_call session = ask_hint session"
  "get_session_call i = ask_session i" "list_sessions_call = ask_sessions"
  by (simp_all add: properties_call_def locked_hint_call_def get_session_call_def list_sessions_call_def method_call_def
      ask_properties_def ask_hint_def ask_session_def ask_sessions_def ask_login1_def LOGIND_SERVICE_NAME_def
      LOGIND_MANAGER_PATH_def LOGIND_MANAGER_INTERFACE_def LOGIND_SESSION_INTERFACE_def DBUS_PROPERTIES_INTERFACE_def)

text \<open>What logind's dictionary of a session's properties says, and when that makes it a session of ours.\<close>

fun plain :: "BusValue \<Rightarrow> BusValue" where
  "plain (Variant v) = v"
| "plain v = v"

definition attribute :: "(BusValue \<times> BusValue) list \<Rightarrow> string \<Rightarrow> BusValue option" where
  "attribute d name = map_option plain (map_of d (BusString name))"

definition our_graphical :: "32 word \<Rightarrow> (BusValue \<times> BusValue) list \<Rightarrow> bool" where
  "our_graphical uid d \<longleftrightarrow>
     (\<exists>p. attribute d ''User'' = Some (BusStruct [U32 uid, ObjectPath p])) \<and>
     attribute d ''Remote'' = Some (BusBool False) \<and> attribute d ''Active'' = Some (BusBool True) \<and>
     (\<exists>kind \<in> {''wayland'', ''x11''}. attribute d ''Type'' = Some (BusString kind)) \<and>
     (\<exists>class \<in> {''user'', ''user-early'', ''user-light''}. attribute d ''Class'' = Some (BusString class))"

lemma unwrap_plain: "unwrap_variant v = plain v"
  by (cases v) simp_all

lemma property_map_of:
  "property d name = (case map_of d (BusString name) of None \<Rightarrow> Inl (MalformedReply name) | Some v \<Rightarrow> Inr v)"
  by (induction d name rule: property.induct) auto

lemma property_value:
  "property_bool d name = Inr b \<longleftrightarrow> attribute d name = Some (BusBool b)"
  "property_string d name = Inr s \<longleftrightarrow> attribute d name = Some (BusString s)"
  "property_uid d = Inr u \<longleftrightarrow> (\<exists>p. attribute d ''User'' = Some (BusStruct [U32 u, ObjectPath p]))"
  by (auto simp: property_bool_def property_string_def property_uid_def and_then_def attribute_def unwrap_plain property_map_of
      split: option.splits BusValue.splits list.splits)

lemma parse_session_properties_says:
  assumes "parse_session_properties reply = Inr p"
  obtains d where "reply = BusReply [BusDict d]" "is_eligible_for_uid p uid \<longleftrightarrow> our_graphical uid d"
proof -
  obtain d where d: "reply = BusReply [BusDict d]" and parts: "property_uid d = Inr (prop_uid p)"
      "property_bool d ''Remote'' = Inr (prop_remote p)" "property_string d ''Type'' = Inr (prop_type p)"
      "property_string d ''Class'' = Inr (prop_class p)" "property_bool d ''Active'' = Inr (prop_active p)"
    using assms by (cases reply) (auto simp: parse_session_properties_def and_then_def split: list.splits BusValue.splits sum.splits)
  have "is_eligible_for_uid p uid \<longleftrightarrow> our_graphical uid d"
    using parts unfolding property_value
    by (auto simp: is_eligible_for_uid_def our_graphical_def GRAPHICAL_SESSION_TYPES_def USER_SESSION_CLASSES_def)
  with d that show ?thesis by blast
qed

definition said_of_session :: "bus_step list \<Rightarrow> LogindSession \<Rightarrow> (BusValue \<times> BusValue) list \<Rightarrow> bool" where
  "said_of_session h session d \<longleftrightarrow> BusCalled (ask_properties session) (Inr (BusReply [BusDict d])) \<in> set h"

definition said_eligible :: "bus_step list \<Rightarrow> 32 word \<Rightarrow> LogindSession \<Rightarrow> bool" where
  "said_eligible h uid session \<longleftrightarrow> (\<exists>d. said_of_session h session d \<and> our_graphical uid d)"

definition said_ineligible :: "bus_step list \<Rightarrow> 32 word \<Rightarrow> LogindSession \<Rightarrow> bool" where
  "said_ineligible h uid session \<longleftrightarrow> (\<exists>d. said_of_session h session d \<and> \<not> our_graphical uid d)"

lemma said_grows:
  assumes "grows h h'"
  shows "said_of_session h s d \<Longrightarrow> said_of_session h' s d" "said_eligible h uid s \<Longrightarrow> said_eligible h' uid s"
    "said_ineligible h uid s \<Longrightarrow> said_ineligible h' uid s"
  using grows_set [OF assms] by (auto simp: said_of_session_def said_eligible_def said_ineligible_def)

lemma wp_session_properties:
  "wp (session_properties b session)
     (\<lambda>p h'. grows h h' \<and> (if is_eligible_for_uid p uid then said_eligible h' uid session else said_ineligible h' uid session))
     (\<lambda>_. grows h) h"
  by (auto simp: session_properties_def wp_rules wp_bus questions said_eligible_def said_ineligible_def said_of_session_def
      split: sum.splits elim!: parse_session_properties_says [where uid = uid])

text \<open>Every record of the user was looked at, and the matches are the eligible ones.\<close>

definition listed :: "BusValue \<Rightarrow> LogindSession \<Rightarrow> 32 word \<Rightarrow> bool" where
  "listed entry session uid \<longleftrightarrow>
     (\<exists>user seat. entry = BusStruct [BusString (session_id session), U32 uid, BusString user, BusString seat,
        ObjectPath (session_path session)])"

definition looked_at :: "bus_step list \<Rightarrow> 32 word \<Rightarrow> LogindSession list \<Rightarrow> BusValue \<Rightarrow> bool" where
  "looked_at h uid found entry \<longleftrightarrow>
     (\<exists>session u. listed entry session u \<and> (u = uid \<longrightarrow> session \<in> set found \<or> said_ineligible h uid session))"

lemma session_record_exact: "session_record entry = Inr (session, uid) \<longleftrightarrow> listed entry session uid"
  by (cases entry) (auto simp: session_fields_def listed_def split: list.splits option.splits)

lemma looked_at_mono: "looked_at h uid found entry \<Longrightarrow> set found \<subseteq> set found' \<Longrightarrow> looked_at h uid found' entry"
  unfolding looked_at_def by blast

lemma looked_at_record:
  "session_record entry = Inr (session, u) \<Longrightarrow>
     looked_at h uid found entry \<longleftrightarrow> (u = uid \<longrightarrow> session \<in> set found \<or> said_ineligible h uid session)"
  by (simp add: looked_at_def flip: session_record_exact)

lemma wp_matching_sessions:
  "wp (matching_sessions b uid entries)
     (\<lambda>found h'. grows h h' \<and>
        list_all (looked_at h' uid found) entries \<and>
        list_all (\<lambda>session. said_eligible h' uid session \<and> (\<exists>entry \<in> set entries. listed entry session uid)) found)
     (\<lambda>_. grows h) h"
proof (induction entries arbitrary: h)
  case Nil
  then show ?case by (simp add: wp_returnE bg.R_refl)
next
  case (Cons entry entries)
  show ?case
  proof (cases "session_record entry")
    case (Inl e)
    then show ?thesis by (simp add: wp_rules bg.R_refl)
  next
    case (Inr found_record)
    obtain session u where r: "session_record entry = Inr (session, u)" using Inr by (cases found_record) simp
    show ?thesis
    proof (cases "u = uid")
      case False
      with r show ?thesis
        by (simp add: wp_rules) (rule wp_mono [OF Cons.IH], auto simp: list_all_iff looked_at_record [OF r])
    next
      case True
      show ?thesis
        unfolding matching_sessions.simps r
        by (simp add: wp_bindE [of "liftR _"] wp_liftR True)
          (rule wp_bindI [OF wp_session_properties [where uid = uid]], rule wp_bindI [OF Cons.IH],
           auto simp: wp_returnE list_all_iff looked_at_record [OF r] session_record_exact [symmetric] r True split: if_splits
             intro: bg.R_trans looked_at_mono dest: said_grows(2,3))
    qed
  qed
qed

definition named :: "bus_step list \<Rightarrow> LogindSession \<Rightarrow> bool" where
  "named h session \<longleftrightarrow>
     BusCalled (ask_session (session_id session)) (Inr (BusReply [ObjectPath (session_path session)])) \<in> set h"

lemma named_grows: "named h session \<Longrightarrow> grows h h' \<Longrightarrow> named h' session"
  using grows_set [of h h'] by (auto simp: named_def)

lemma single_path: "single_object_path reply = Inr p \<longleftrightarrow> reply = BusReply [ObjectPath p]"
  by (cases reply rule: single_object_path.cases) auto

lemma wp_resolve_explicit:
  "wp (resolve_explicit_session b i uid)
     (\<lambda>session h'. grows h h' \<and> said_eligible h' uid session \<and> session_id session = i \<and> named h' session) (\<lambda>_. grows h) h"
proof -
  have "wp (session_properties b \<lparr>session_id = i, session_path = p\<rparr>)
      (\<lambda>q. wp (if is_eligible_for_uid q uid then returnE \<lparr>session_id = i, session_path = p\<rparr> else raiseE NoCurrentGraphicalSession)
         (\<lambda>session h'. grows h h' \<and> said_eligible h' uid session \<and> session_id session = i \<and> named h' session) (\<lambda>_. grows h))
      (\<lambda>_. grows h) (h @ [BusCalled (ask_session i) (Inr (BusReply [ObjectPath p]))])" (is "wp _ _ _ ?h") for p
    by (rule wp_mono [OF wp_session_properties [where uid = uid]])
      (use named_grows [of ?h "\<lparr>session_id = i, session_path = p\<rparr>"] in
        \<open>auto simp: wp_rules named_def intro: bg.R_trans [OF grows_append]\<close>)
  then show ?thesis
    by (auto simp: resolve_explicit_session_def Let_def wp_rules wp_bus questions single_path split: sum.splits)
qed

text \<open>What a successful discovery has established.\<close>

definition ours :: "bus_step list \<Rightarrow> string option \<Rightarrow> 32 word \<Rightarrow> LogindSession \<Rightarrow> bool" where
  "ours h explicit_session_id uid session \<longleftrightarrow>
     said_eligible h uid session \<and>
     (if is_some_and explicit_session_id (\<lambda>i. i \<noteq> []) then explicit_session_id = Some (session_id session) \<and> named h session
      else \<exists>entries. BusCalled ask_sessions (Inr (BusReply [BusArray entries])) \<in> set h \<and>
        list_all (looked_at h uid [session]) entries \<and>
        (\<exists>entry \<in> set entries. listed entry session uid))"

lemma only_session_Inr [simp]: "only_session found = Inr session \<longleftrightarrow> found = [session]"
  by (simp add: only_session_def split: list.splits)

lemma wp_resolve:
  "wp (resolve_current_graphical_session b explicit_session_id uid)
     (\<lambda>session h'. grows h h' \<and> ours h' explicit_session_id uid session) (\<lambda>_. grows h) h"
proof (cases "is_some_and explicit_session_id (\<lambda>i. i \<noteq> [])")
  case True
  then show ?thesis
    by (auto simp: resolve_current_graphical_session_def is_some_and_iff ours_def intro!: wp_mono [OF wp_resolve_explicit])
next
  case False
  have found: "wp (matching_sessions b uid entries)
      (\<lambda>found. wp (liftR (only_session found)) (\<lambda>session h'. grows h h' \<and> ours h' explicit_session_id uid session) (\<lambda>_. grows h))
      (\<lambda>_. grows h) (h @ [BusCalled ask_sessions (Inr (BusReply [BusArray entries]))])" for entries
  proof (rule wp_mono [OF wp_matching_sessions])
    fix found h'
    let ?h = "h @ [BusCalled ask_sessions (Inr (BusReply [BusArray entries]))]"
    assume a: "grows ?h h' \<and>
        list_all (looked_at h' uid found) entries \<and>
        list_all (\<lambda>session. said_eligible h' uid session \<and> (\<exists>entry \<in> set entries. listed entry session uid)) found"
    then have "grows h h'" "BusCalled ask_sessions (Inr (BusReply [BusArray entries])) \<in> set h'"
      using grows_set [of ?h h'] bg.R_trans [OF grows_append] by auto
    with a False show "wp (liftR (only_session found)) (\<lambda>session h'. grows h h' \<and> ours h' explicit_session_id uid session)
        (\<lambda>_. grows h) h'"
      by (auto simp: wp_liftR ours_def split: sum.splits)
  qed (auto intro: bg.R_trans [OF grows_append])
  have "wp (case reply_body reply of
        [BusArray entries] \<Rightarrow> bindE (matching_sessions b uid entries) (\<lambda>sessions. liftR (only_session sessions))
      | _ \<Rightarrow> raiseE (MalformedReply ''one array of session records''))
      (\<lambda>session h'. grows h h' \<and> ours h' explicit_session_id uid session) (\<lambda>_. grows h)
      (h @ [BusCalled ask_sessions (Inr reply)])" for reply
    using found by (cases reply) (auto simp: wp_rules split: list.splits BusValue.splits)
  then show ?thesis
    using False by (auto simp: resolve_current_graphical_session_def wp_rules wp_bus questions split: sum.splits)
qed

section \<open>The observer\<close>

text \<open>The events of a sequence of hints: a lock when it becomes true, an unlock when it becomes false.\<close>

fun edges :: "bool \<Rightarrow> bool list \<Rightarrow> SessionEvent list" where
  "edges before [] = []"
| "edges before (b # bs) = (if b = before then edges b bs else (if b then Lock else Unlock) # edges b bs)"

lemma edges_snoc: "edges before (bs @ [b]) = edges before bs @ edges (last (before # bs)) [b]"
  by (induction bs arbitrary: before) auto

text \<open>
  The changes of a session were subscribed to, at the bus name that the bus daemon had just named as
  the owner of logind; \<open>after\<close> is what happened on the bus since then.
\<close>

definition subscribed :: "bus_step list \<Rightarrow> LogindSession \<Rightarrow> string \<Rightarrow> bus_step list \<Rightarrow> bool" where
  "subscribed h session owner after \<longleftrightarrow>
     (\<exists>before. h = before @
        [BusCalled ask_owner (Inr (BusReply [BusString owner])),
         MatchAdded \<lparr>match_sender = Some owner, match_path = Some (session_path session),
           match_interface = Some ''org.freedesktop.DBus.Properties'', match_member = Some ''PropertiesChanged''\<rparr> (Inr ())] @
        after)"

definition hint_signal :: "BusSignal \<Rightarrow> LogindSession \<Rightarrow> string \<Rightarrow> bool \<Rightarrow> bool" where
  "hint_signal signal session owner locked \<longleftrightarrow>
     sig_sender signal = Some owner \<and> sig_path signal = session_path session \<and>
     sig_interface signal = ''org.freedesktop.DBus.Properties'' \<and> sig_member signal = ''PropertiesChanged'' \<and>
     (\<exists>changed invalidated.
        sig_body signal = [BusString ''org.freedesktop.login1.Session'', BusDict changed, BusArray invalidated] \<and>
        attribute changed ''LockedHint'' = Some (BusBool locked))"

text \<open>Where a hint came from: logind's answer about our session, or a signal logind sent for it.\<close>

definition told :: "bus_step list \<Rightarrow> 32 word \<Rightarrow> bool \<Rightarrow> bool" where
  "told h uid locked \<longleftrightarrow>
     (\<exists>session. said_eligible h uid session \<and>
        ((\<exists>v. BusCalled (ask_hint session) (Inr (BusReply [v])) \<in> set h \<and> plain v = BusBool locked) \<or>
         (\<exists>owner after t signal. subscribed h session owner after \<and>
            BusPolled t (Inr (Some signal)) \<in> set after \<and> hint_signal signal session owner locked)))"

lemma told_by_answer:
  "said_eligible h uid session \<Longrightarrow> BusCalled (ask_hint session) (Inr (BusReply [v])) \<in> set h \<Longrightarrow>
    plain v = BusBool locked \<Longrightarrow> told h uid locked"
  unfolding told_def by blast

lemma told_by_signal:
  "said_eligible h uid session \<Longrightarrow> subscribed h session owner after \<Longrightarrow>
    BusPolled t (Inr (Some signal)) \<in> set after \<Longrightarrow> hint_signal signal session owner locked \<Longrightarrow> told h uid locked"
  unfolding told_def by blast

lemma subscribed_grows: "subscribed h session owner after \<Longrightarrow> subscribed (h @ new) session owner (after @ new)"
  by (auto simp: subscribed_def)

lemma told_grows:
  assumes "told h uid locked" and "grows h h'"
  shows "told h' uid locked"
proof -
  obtain new where h': "h' = h @ new" using assms(2) by (auto simp: grows_def)
  show ?thesis
    using assms(1) said_grows(2) [OF assms(2)] subscribed_grows [of h _ _ _ new]
    unfolding told_def h' by (metis Un_iff set_append)
qed

lemma hint_value_iff: "hint_value v = Some (HintChanged locked) \<longleftrightarrow> plain v = BusBool locked"
  by (cases v rule: hint_value.cases) auto

lemma hint_in_changed:
  "hint_in changed invalidated = Some (HintChanged locked) \<longleftrightarrow> attribute changed ''LockedHint'' = Some (BusBool locked)"
  by (induction changed invalidated rule: hint_in.induct) (auto simp: attribute_def hint_value_iff)

lemma hint_change_signal:
  "map_locked_hint_change signal session owner = Some (HintChanged locked) \<Longrightarrow> hint_signal signal session owner locked"
  by (auto simp: map_locked_hint_change_def hint_signal_def hint_in_changed DBUS_PROPERTIES_INTERFACE_def
      LOGIND_SESSION_INTERFACE_def split: if_splits list.splits BusValue.splits)

lemma single_bool_plain: "single_bool reply = Inr b \<Longrightarrow> \<exists>v. reply = BusReply [v] \<and> plain v = BusBool b"
  by (cases reply rule: single_bool.cases) auto

lemma single_string_iff: "single_string reply = Inr s \<longleftrightarrow> reply = BusReply [BusString s]"
  by (cases reply rule: single_string.cases) auto

fun lock_event :: "SessionObservation \<Rightarrow> (SessionEvent \<times> EventSource) option" where
  "lock_event (EventObserved e src _) = Some (e, src)"
| "lock_event (InactivityObserved _ _ _) = None"

definition lock_inv :: "32 word \<Rightarrow> lock_state \<Rightarrow> bool" where
  "lock_inv uid s \<longleftrightarrow>
     map lock_event (published_locks s) = map (\<lambda>e. Some (e, LinuxLogind)) (edges False (hints s)) \<and>
     lock_tracker s = (if hints s = [] then None else Some (last (hints s))) \<and>
     list_all (told (lock_bus s) uid) (hints s)"

lemma wp_on_bus: "wp (on_bus m) Q E s =
    wp m (\<lambda>a h. Q a (s\<lparr>lock_bus := h\<rparr>)) (\<lambda>e h. E e (s\<lparr>lock_bus := h\<rparr>)) (lock_bus s)"
  by (simp add: wp_def on_bus_def split: prod.splits sum.splits)

lemma lock_inv_grows: "lock_inv uid s \<Longrightarrow> grows (lock_bus s) h \<Longrightarrow> lock_inv uid (s\<lparr>lock_bus := h\<rparr>)"
  by (auto simp: lock_inv_def list_all_iff intro: told_grows)

lemma lock_inv_notice [simp]: "lock_inv uid (s\<lparr>lifecycle_notices := n\<rparr>) = lock_inv uid s"
  by (simp add: lock_inv_def)

lemma wp_publish_hint:
  assumes "lock_inv uid s" and "told (lock_bus s) uid locked"
  shows "wp (publish_locked_hint host locked) (\<lambda>_ s'. lock_inv uid s' \<and> lock_bus s' = lock_bus s) (\<lambda>_ _. False) s"
proof (cases "hints s = []")
  case True
  with assms show ?thesis
    by (cases locked) (simp_all add: wp_def publish_locked_hint_def tracker_observe_def lock_inv_def Let_def)
next
  case False
  with assms show ?thesis
    by (cases "last (hints s)"; cases locked)
      (simp_all add: wp_def publish_locked_hint_def tracker_observe_def lock_inv_def Let_def edges_snoc)
qed

text \<open>The target of an iteration: a session of ours whose changes were subscribed to at the owner.\<close>

definition bound_to :: "32 word \<Rightarrow> lock_state \<Rightarrow> LogindSession \<times> string option \<Rightarrow> bool" where
  "bound_to uid s target \<longleftrightarrow>
     said_eligible (lock_bus s) uid (fst target) \<and>
     (\<forall>owner. snd target = Some owner \<longrightarrow> (\<exists>after. subscribed (lock_bus s) (fst target) owner after))"

lemma bound_grows:
  assumes "bound_to uid s target" and "grows (lock_bus s) h"
  shows "bound_to uid (s\<lparr>lock_bus := h\<rparr>) target"
proof -
  obtain new where h: "h = lock_bus s @ new" using assms(2) by (auto simp: grows_def)
  show ?thesis
    using assms(1) said_grows(2) [OF assms(2)] subscribed_grows [of "lock_bus s" _ _ _ new]
    unfolding bound_to_def h by auto blast
qed

definition watching :: "32 word \<Rightarrow> (LogindSession \<times> string option) option \<Rightarrow> lock_state \<Rightarrow> bool" where
  "watching uid step s \<longleftrightarrow> lock_inv uid s \<and> (\<forall>target. step = Some target \<longrightarrow> bound_to uid s target)"

definition answered :: "bus_step list \<Rightarrow> LogindSession \<Rightarrow> bool \<Rightarrow> bool" where
  "answered h session locked \<longleftrightarrow> (\<exists>v. BusCalled (ask_hint session) (Inr (BusReply [v])) \<in> set h \<and> plain v = BusBool locked)"

lemma wp_locked_hint:
  "wp (locked_hint b session) (\<lambda>locked h'. grows h h' \<and> answered h' session locked) (\<lambda>_. grows h) h"
  by (auto simp: locked_hint_def wp_rules wp_bus questions answered_def dest: single_bool_plain split: sum.splits)

lemma wp_owner_subscribe:
  "wp (mapErrE SessionBus (resolve_logind_owner b)) (\<lambda>owner.
       wp (mapErrE SessionBus (add_locked_hint_signal_match b session owner))
         (\<lambda>_ h'. grows h h' \<and> subscribed h' session owner []) (\<lambda>_. grows h)) (\<lambda>_. grows h) h"
  by (auto simp: resolve_logind_owner_def get_name_owner_def add_locked_hint_signal_match_def locked_hint_signal_match_def
      wp_rules wp_bus subscribed_def single_string_iff method_call_def ask_owner_def DBUS_SERVICE_NAME_def DBUS_OBJECT_PATH_def
      DBUS_INTERFACE_def LOGIND_SERVICE_NAME_def DBUS_PROPERTIES_INTERFACE_def split: sum.splits)

lemma on_bus_bind: "bindE (on_bus m) (\<lambda>a. on_bus (f a)) = on_bus (bindE m f)"
  by (auto simp: bindE_def on_bus_def fun_eq_iff split: prod.splits sum.splits)

lemma on_bus_return: "returnE a = on_bus (returnE a)"
  by (simp add: on_bus_def returnE_def)

lemma bind_lock_target_bus:
  "bind_lock_target b explicit_session_id uid =
     on_bus (bindE (resolve_current_graphical_session b explicit_session_id uid) (\<lambda>session.
       bindE (mapErrE SessionBus (resolve_logind_owner b)) (\<lambda>owner.
       bindE (mapErrE SessionBus (add_locked_hint_signal_match b session owner)) (\<lambda>_.
       bindE (mapErrE SessionBus (locked_hint b session)) (\<lambda>locked. returnE (session, owner, locked))))))"
  unfolding bind_lock_target_def on_session_bus_def thenE_def on_bus_return [of "(_, _, _)"] on_bus_bind ..

lemma wp_bind_lock_target:
  assumes "lock_inv uid s"
  shows "wp (bind_lock_target b explicit_session_id uid)
     (\<lambda>(session, owner, locked) s'. lock_inv uid s' \<and> bound_to uid s' (session, Some owner) \<and> told (lock_bus s') uid locked)
     (\<lambda>_. lock_inv uid) s"
proof -
  let ?Q = "\<lambda>(session, owner, locked) h'. grows (lock_bus s) h' \<and> said_eligible h' uid session \<and>
     (\<exists>after. subscribed h' session owner after) \<and> answered h' session locked"
  let ?E = "\<lambda>_. grows (lock_bus s)"
  have hint: "wp (bindE (mapErrE SessionBus (locked_hint b session)) (\<lambda>locked. returnE (session, owner, locked))) ?Q ?E h"
    if "grows (lock_bus s) h" "said_eligible h uid session" "subscribed h session owner []" for session owner h
    unfolding wp_bindE wp_mapErrE
  proof (rule wp_mono [OF wp_locked_hint])
    fix locked h'
    assume "grows h h' \<and> answered h' session locked"
    with that show "wp (returnE (session, owner, locked)) ?Q ?E h'"
      using subscribed_grows [OF that(3)] said_grows(2) [of h h'] bg.R_trans [OF that(1)]
      by (auto simp: wp_returnE) (auto simp: grows_def)
  qed (use that bg.R_trans in blast)
  have bound: "wp (bindE (mapErrE SessionBus (resolve_logind_owner b)) (\<lambda>owner.
       bindE (mapErrE SessionBus (add_locked_hint_signal_match b session owner)) (\<lambda>_.
       bindE (mapErrE SessionBus (locked_hint b session)) (\<lambda>locked. returnE (session, owner, locked))))) ?Q ?E h"
    if "grows (lock_bus s) h" "said_eligible h uid session" for session h
    unfolding wp_bindE [of "mapErrE _ (resolve_logind_owner _)"]
  proof (rule wp_mono [OF wp_owner_subscribe])
    fix owner h1
    assume "wp (mapErrE SessionBus (add_locked_hint_signal_match b session owner))
         (\<lambda>_ h'. grows h h' \<and> subscribed h' session owner []) (\<lambda>_. grows h) h1"
    then show "wp (bindE (mapErrE SessionBus (add_locked_hint_signal_match b session owner)) (\<lambda>_.
       bindE (mapErrE SessionBus (locked_hint b session)) (\<lambda>locked. returnE (session, owner, locked)))) ?Q ?E h1"
      by (rule wp_bindI) (use that in \<open>auto intro: bg.R_trans said_grows(2) intro!: hint\<close>)
  qed (use that bg.R_trans in blast)
  have "wp (bindE (resolve_current_graphical_session b explicit_session_id uid) (\<lambda>session.
       bindE (mapErrE SessionBus (resolve_logind_owner b)) (\<lambda>owner.
       bindE (mapErrE SessionBus (add_locked_hint_signal_match b session owner)) (\<lambda>_.
       bindE (mapErrE SessionBus (locked_hint b session)) (\<lambda>locked. returnE (session, owner, locked)))))) ?Q ?E (lock_bus s)"
    by (rule wp_bindI [OF wp_resolve]) (auto simp: ours_def intro!: bound)
  then show ?thesis
    unfolding bind_lock_target_bus wp_on_bus
    by (rule wp_mono) (use assms in \<open>auto simp: bound_to_def answered_def intro: lock_inv_grows told_by_answer\<close>)
qed

lemma wp_lifecycle_changed: "wp (lifecycle_changed host) (\<lambda>_ s'. \<exists>n. s' = s\<lparr>lifecycle_notices := n\<rparr>) E s"
  by (auto simp: wp_def lifecycle_changed_def Let_def)

lemma wp_publish_then:
  assumes "lock_inv uid s" "told (lock_bus s) uid locked" "bound_to uid s target"
  shows "wp (bindE (publish_locked_hint host locked) (\<lambda>go_on. returnE (if go_on then Some target else None)))
     (watching uid) (\<lambda>_. lock_inv uid) s"
proof (rule wp_bindI [OF wp_publish_hint [OF assms(1,2)]])
  fix go_on s'
  assume "lock_inv uid s' \<and> lock_bus s' = lock_bus s"
  then show "wp (returnE (if go_on then Some target else None)) (watching uid) (\<lambda>_. lock_inv uid) s'"
    using assms(3) by (auto simp: wp_returnE watching_def bound_to_def)
qed simp

lemma wp_observer_rebind:
  assumes "lock_inv uid s" and "said_eligible (lock_bus s) uid session"
  shows "wp (observer_rebind host explicit_session_id uid session changed_to) (watching uid) (\<lambda>_. lock_inv uid) s"
  unfolding observer_rebind_def
proof (rule wp_bindI [OF wp_lifecycle_changed])
  fix listens s'
  assume "\<exists>n. s' = s\<lparr>lifecycle_notices := n\<rparr>"
  then have inv: "lock_inv uid s'" and session: "said_eligible (lock_bus s') uid session" using assms by auto
  have rebound: "wp (bindE (bind_lock_target (observer_bus host) explicit_session_id uid) (\<lambda>(session', owner, locked).
      bindE (publish_locked_hint host locked) (\<lambda>go_on. returnE (if go_on then Some (session', Some owner) else None))))
      (watching uid) (\<lambda>_. lock_inv uid) s'"
    by (rule wp_bindI [OF wp_bind_lock_target [OF inv]]) (auto intro!: wp_publish_then)
  then show "wp (if \<not> listens then returnE None else if changed_to = None then returnE (Some (session, None))
      else bindE (bind_lock_target (observer_bus host) explicit_session_id uid) (\<lambda>(session', owner, locked).
        bindE (publish_locked_hint host locked) (\<lambda>go_on. returnE (if go_on then Some (session', Some owner) else None))))
      (watching uid) (\<lambda>_. lock_inv uid) s'"
    using inv session by (simp add: wp_returnE watching_def bound_to_def)
qed simp

lemma wp_observer_hint:
  assumes "lock_inv uid s" and "bound_to uid s (session, Some owner)"
    and "subscribed (lock_bus s) session owner after" and "BusPolled t (Inr (Some signal)) \<in> set after"
  shows "wp (observer_hint host signal session owner) (watching uid) (\<lambda>_. lock_inv uid) s"
proof (cases "map_locked_hint_change signal session owner")
  case None
  with assms show ?thesis by (simp add: observer_hint_def wp_returnE watching_def)
next
  case (Some change)
  show ?thesis
  proof (cases change)
    case (HintChanged locked)
    then have "told (lock_bus s) uid locked"
      using Some assms told_by_signal hint_change_signal by (auto simp: bound_to_def)
    with Some HintChanged assms show ?thesis
      by (simp add: observer_hint_def wp_bindE [of "returnE _"] wp_returnE wp_publish_then)
  next
    case HintInvalidated
    have "wp (bindE (on_session_bus (locked_hint (observer_bus host) session)) (\<lambda>locked.
        bindE (publish_locked_hint host locked) (\<lambda>go_on. returnE (if go_on then Some (session, Some owner) else None))))
        (watching uid) (\<lambda>_. lock_inv uid) s"
      unfolding on_session_bus_def wp_bindE [of "on_bus _"] wp_on_bus wp_mapErrE
    proof (rule wp_mono [OF wp_locked_hint])
      fix locked h
      assume h: "grows (lock_bus s) h \<and> answered h session locked"
      then have "bound_to uid (s\<lparr>lock_bus := h\<rparr>) (session, Some owner)" using bound_grows assms(2) by blast
      with h assms show "wp (bindE (publish_locked_hint host locked)
          (\<lambda>go_on. returnE (if go_on then Some (session, Some owner) else None))) (watching uid) (\<lambda>_. lock_inv uid) (s\<lparr>lock_bus := h\<rparr>)"
        by (intro wp_publish_then) (auto simp: lock_inv_grows bound_to_def answered_def intro: told_by_answer)
    qed (use assms lock_inv_grows in auto)
    with Some HintInvalidated show ?thesis by (simp add: observer_hint_def)
  qed
qed

lemma wp_observer_iteration:
  assumes "watching uid (Some target) s"
  shows "wp (observer_iteration host explicit_session_id uid target) (watching uid) (\<lambda>_. lock_inv uid) s"
proof -
  obtain session own where target: "target = (session, own)" by fastforce
  have inv: "lock_inv uid (s\<lparr>lock_bus := lock_bus s @ new\<rparr>)"
    and bound: "bound_to uid (s\<lparr>lock_bus := lock_bus s @ new\<rparr>) target" for new
    using assms lock_inv_grows bound_grows by (auto simp: watching_def)
  have rest: "wp (case logind_owner_changed signal of
        Some changed_to \<Rightarrow> observer_rebind host explicit_session_id uid (fst target) changed_to
      | None \<Rightarrow> (case snd target of
           None \<Rightarrow> returnE (Some target)
         | Some owner \<Rightarrow>
             bindE (if sig_sender signal = Some owner \<and> map_prepare_for_sleep_signal signal \<noteq> None
                    then lifecycle_changed host else returnE True) (\<lambda>listens.
               if \<not> listens then returnE None else observer_hint host signal (fst target) owner)))
      (watching uid) (\<lambda>_. lock_inv uid) (s\<lparr>lock_bus := lock_bus s @ [BusPolled t (Inr (Some signal))]\<rparr>)" for t signal
  proof (cases "logind_owner_changed signal")
    case (Some changed_to)
    then show ?thesis
      using inv [of "[BusPolled t (Inr (Some signal))]"] bound [of "[BusPolled t (Inr (Some signal))]"]
      by (auto simp: bound_to_def intro!: wp_observer_rebind)
  next
    case None
    let ?s = "s\<lparr>lock_bus := lock_bus s @ [BusPolled t (Inr (Some signal))]\<rparr>"
    have hint: "wp (observer_hint host signal session owner) (watching uid) (\<lambda>_. lock_inv uid) (?s\<lparr>lifecycle_notices := n\<rparr>)"
      "wp (observer_hint host signal session owner) (watching uid) (\<lambda>_. lock_inv uid) ?s"
      if own: "own = Some owner" for owner n
    proof -
      obtain after where "subscribed (lock_bus s) session owner after"
        using assms own target by (fastforce simp: watching_def bound_to_def)
      then have "subscribed (lock_bus ?s) session owner (after @ [BusPolled t (Inr (Some signal))])"
        using subscribed_grows by simp
      with own target inv [of "[BusPolled t (Inr (Some signal))]"] bound [of "[BusPolled t (Inr (Some signal))]"]
      show "wp (observer_hint host signal session owner) (watching uid) (\<lambda>_. lock_inv uid) (?s\<lparr>lifecycle_notices := n\<rparr>)"
        "wp (observer_hint host signal session owner) (watching uid) (\<lambda>_. lock_inv uid) ?s"
        by (auto simp: bound_to_def
            intro!: wp_observer_hint [where after = "after @ [BusPolled t (Inr (Some signal))]" and t = t])
    qed
    have notice: "wp (lifecycle_changed host) (\<lambda>_ s'. \<exists>n. s' = ?s\<lparr>lifecycle_notices := n\<rparr>) (\<lambda>_ _. False) ?s"
      by (rule wp_lifecycle_changed)
    show ?thesis
      using None target inv [of "[BusPolled t (Inr (Some signal))]"] bound [of "[BusPolled t (Inr (Some signal))]"]
      by (auto simp: wp_returnE watching_def hint wp_bindE split: option.splits
          intro!: wp_mono [OF notice])
  qed
  show ?thesis
    unfolding observer_iteration_def on_session_bus_def wp_bindE wp_on_bus wp_mapErrE wp_process_bus
    using inv bound rest by (auto simp: wp_returnE watching_def split: sum.splits option.splits)
qed

lemma wp_observer_loop:
  "watching uid (Some target) s \<Longrightarrow>
     wp (observer_loop n host explicit_session_id uid target) (\<lambda>_. lock_inv uid) (\<lambda>_. lock_inv uid) s"
proof (induction n arbitrary: target s)
  case 0
  then show ?case by (simp add: wp_returnE watching_def)
next
  case (Suc n)
  have again: "wp (case step of None \<Rightarrow> returnE True | Some target' \<Rightarrow> observer_loop n host explicit_session_id uid target')
      (\<lambda>_. lock_inv uid) (\<lambda>_. lock_inv uid) s'" if "watching uid step s'" for step s'
    using that Suc.IH by (cases step) (auto simp: wp_returnE watching_def)
  have "wp (bindE (observer_iteration host explicit_session_id uid target) (\<lambda>step. case step of
        None \<Rightarrow> returnE True | Some target' \<Rightarrow> observer_loop n host explicit_session_id uid target'))
      (\<lambda>_. lock_inv uid) (\<lambda>_. lock_inv uid) s"
    by (rule wp_bindI [OF wp_observer_iteration [OF Suc.prems] again]) simp_all
  with Suc.prems show ?case
    by (simp add: wp_bindE [of "getsE _"] wp_getsE wp_returnE watching_def)
qed

lemma wp_run_lock_observer:
  assumes "lock_inv uid s"
  shows "wp (run_lock_observer_for_session n host explicit_session_id uid) (\<lambda>_. lock_inv uid) (\<lambda>_. lock_inv uid) s"
proof -
  have sub: "wp (on_session_bus (add_signal_match b rule)) (\<lambda>_. lock_inv uid) (\<lambda>_. lock_inv uid) s'"
    if "lock_inv uid s'" for b rule s'
    using that lock_inv_grows by (auto simp: on_session_bus_def wp_on_bus wp_mapErrE wp_bus split: sum.splits)
  have go: "wp (if go_on then observer_loop n host explicit_session_id uid (session, Some owner) else returnE True)
      (\<lambda>_. lock_inv uid) (\<lambda>_. lock_inv uid) s'"
    if "lock_inv uid s'" "bound_to uid s' (session, Some owner)" for go_on session owner s'
    using that by (auto simp: wp_returnE watching_def intro!: wp_observer_loop)
  have publish: "wp (bindE (publish_locked_hint host locked) (\<lambda>go_on.
        if go_on then observer_loop n host explicit_session_id uid (session, Some owner) else returnE True))
      (\<lambda>_. lock_inv uid) (\<lambda>_. lock_inv uid) s'"
    if "lock_inv uid s'" "bound_to uid s' (session, Some owner)" "told (lock_bus s') uid locked" for session owner locked s'
  proof (rule wp_bindI [OF wp_publish_hint [OF that(1,3)]])
    fix go_on s2
    assume "lock_inv uid s2 \<and> lock_bus s2 = lock_bus s'"
    then show "wp (if go_on then observer_loop n host explicit_session_id uid (session, Some owner) else returnE True)
        (\<lambda>_. lock_inv uid) (\<lambda>_. lock_inv uid) s2"
      using that(2) by (intro go) (auto simp: bound_to_def)
  qed simp
  show ?thesis
    unfolding run_lock_observer_for_session_def add_logind_owner_signal_match_def add_logind_signal_match_def
    by (rule wp_thenI [OF sub [OF assms]], rule wp_thenI [OF sub], assumption, rule wp_bindI [OF wp_bind_lock_target])
      (auto intro!: publish)
qed

section \<open>The theorems\<close>

text \<open>
  C20. Lock events are the truth about our session. However logind restarts, signals arrive, or answers fail,
  the events offered to the session monitor are exactly the edges of the locked hints seen (a first lock,
  then unlock and lock in turn, none repeated), and every such hint is either logind's answer about a
  session it declared to be an active local graphical session of this user, or a change of that session
  signalled, after it was subscribed to, by the bus name that the bus daemon had named as logind's owner
  in the question directly before that subscription.
\<close>

theorem lock_events_follow_logind:
  assumes "run_lock_observer_for_session n host explicit_session_id uid start_observer = (r, s)"
  shows "map lock_event (published_locks s) = map (\<lambda>e. Some (e, LinuxLogind)) (edges False (hints s)) \<and>
     list_all (told (lock_bus s) uid) (hints s)"
proof -
  have "lock_inv uid start_observer" by (simp add: lock_inv_def start_observer_def)
  from wp_result [OF wp_run_lock_observer [OF this] assms] show ?thesis
    by (auto simp: lock_inv_def split: sum.splits)
qed

text \<open>
  C21. The login session is ours or none. When discovery succeeds, logind has declared the session active,
  local, graphical and of this user. When a name was given, the session is the object that logind returned
  when asked for exactly that name; otherwise it is on logind's list, and every other session of the user
  on that list was looked at and is not eligible.
\<close>

theorem session_is_ours:
  assumes "resolve_current_graphical_session b explicit_session_id uid [] = (Inr session, h)"
  shows "ours h explicit_session_id uid session"
  using wp_result [OF wp_resolve assms] by simp

section \<open>A concrete bus\<close>

text \<open>logind with one session of user 1000, which is locked at first and unlocked by a signal.\<close>

definition example_entry :: BusValue where
  "example_entry = BusStruct [BusString ''2'', U32 1000, BusString ''me'', BusString ''seat0'', ObjectPath ''/s/2'']"

definition example_properties :: "(BusValue \<times> BusValue) list" where
  "example_properties =
     [(BusString ''User'', Variant (BusStruct [U32 1000, ObjectPath ''/u/1000''])), (BusString ''Remote'', Variant (BusBool False)),
      (BusString ''Type'', Variant (BusString ''wayland'')), (BusString ''Class'', Variant (BusString ''user'')),
      (BusString ''Active'', Variant (BusBool True))]"

definition unlocked_signal :: BusSignal where
  "unlocked_signal = \<lparr>sig_sender = Some '':1.7'', sig_path = ''/s/2'', sig_interface = DBUS_PROPERTIES_INTERFACE,
     sig_member = ''PropertiesChanged'',
     sig_body = [BusString LOGIND_SESSION_INTERFACE, BusDict [(BusString ''LockedHint'', Variant (BusBool False))], BusArray []]\<rparr>"

definition example_bus :: bus where
  "example_bus =
     \<lparr>bus_call = (\<lambda>call _.
        if call = list_sessions_call then Inr (BusReply [BusArray [example_entry]])
        else if call_member call = ''GetAll'' then Inr (BusReply [BusDict example_properties])
        else if call_member call = ''GetNameOwner'' then Inr (BusReply [BusString '':1.7''])
        else Inr (BusReply [Variant (BusBool True)])),
      bus_add_match = (\<lambda>_ _. Inr ()), bus_process = (\<lambda>_ _. Inr (Some unlocked_signal))\<rparr>"

definition example_observer :: lock_host where
  "example_observer = \<lparr>observer_bus = example_bus, stop_requested = \<lambda>_. False, monitor_listens = \<lambda>_. True,
     lifecycle_listens = \<lambda>_. True, observer_clock = \<lambda>s. length (lock_bus s)\<rparr>"

lemma example_bus_answers:
  "bus_call example_bus call h =
     (if call = list_sessions_call then Inr (BusReply [BusArray [example_entry]])
      else if call_member call = ''GetAll'' then Inr (BusReply [BusDict example_properties])
      else if call_member call = ''GetNameOwner'' then Inr (BusReply [BusString '':1.7''])
      else Inr (BusReply [Variant (BusBool True)]))"
  "bus_add_match example_bus rule h = Inr ()" "bus_process example_bus t h = Inr (Some unlocked_signal)"
  by (simp_all add: example_bus_def)

lemma example_resolves:
  "resolve_current_graphical_session example_bus None 1000 h =
     (Inr \<lparr>session_id = ''2'', session_path = ''/s/2''\<rparr>,
      h @ [BusCalled list_sessions_call (Inr (BusReply [BusArray [example_entry]])),
           BusCalled (properties_call \<lparr>session_id = ''2'', session_path = ''/s/2''\<rparr>) (Inr (BusReply [BusDict example_properties]))])"
  by (simp add: resolve_current_graphical_session_def bindE_def mapErrE_def call_method_def Let_def liftR_def returnE_def
      example_bus_answers example_entry_def session_fields_def session_properties_def properties_call_def
      list_sessions_call_def method_call_def only_session_def example_properties_def parse_session_properties_def property_uid_def
      property_bool_def property_string_def is_eligible_for_uid_def GRAPHICAL_SESSION_TYPES_def USER_SESSION_CLASSES_def)

lemmas run_defs = run_lock_observer_for_session_def thenE_def bindE_def on_session_bus_def on_bus_def mapErrE_def
  add_logind_owner_signal_match_def add_logind_signal_match_def add_signal_match_def example_observer_def start_observer_def
  bind_lock_target_def resolve_logind_owner_def get_name_owner_def call_method_def liftR_def returnE_def Let_def
  add_locked_hint_signal_match_def locked_hint_def publish_locked_hint_def tracker_observe_def getsE_def
  observer_iteration_def process_bus_def logind_owner_changed_def unlocked_signal_def observer_hint_def
  map_locked_hint_change_def map_prepare_for_sleep_signal_def example_bus_answers method_call_def locked_hint_call_def
  list_sessions_call_def LOGIND_MANAGER_PATH_def DBUS_SERVICE_NAME_def

theorem lock_events_follow_logind_witness:
  "map lock_event (published_locks (snd (run_lock_observer_for_session 3 example_observer None 1000 start_observer))) =
     [Some (Lock, LinuxLogind), Some (Unlock, LinuxLogind)]"
proof -
  let ?run = "run_lock_observer_for_session 3 example_observer None 1000 start_observer"
  have "hints (snd ?run) = [True, False, False, False]"
    by (simp add: run_defs example_resolves numeral_3_eq_3)
  with lock_events_follow_logind [of 3 example_observer None 1000 "fst ?run" "snd ?run"] show ?thesis by simp
qed

theorem session_is_ours_witness:
  "ours (snd (resolve_current_graphical_session example_bus None 1000 [])) None 1000 \<lparr>session_id = ''2'', session_path = ''/s/2''\<rparr>"
proof -
  let ?run = "resolve_current_graphical_session example_bus None 1000 []"
  have "fst ?run = Inr \<lparr>session_id = ''2'', session_path = ''/s/2''\<rparr>" by code_simp
  then have "?run = (Inr \<lparr>session_id = ''2'', session_path = ''/s/2''\<rparr>, snd ?run)" by (simp add: prod_eq_iff)
  then show ?thesis by (rule session_is_ours)
qed

end
