(* ===== verification/Releases.thy ===== *)
theory Releases
  imports Settings_Apply
begin

text \<open>
  Versions, releases and what the update check remembers of them (\<open>version.rs\<close>, \<open>updates.rs\<close>,
  \<open>updates/command.rs\<close>, \<open>updates/notification.rs\<close>): the data, the command line, the cache entries per
  channel, and the policy that decides about a notification. The \<open>semver\<close> crate is the record \<open>semver\<close>
  over a type of versions: parsing (with the text of its error), printing and the order.
\<close>

record 'v semver =
  sv_parse :: "string \<Rightarrow> string + 'v"
  sv_show :: "'v \<Rightarrow> string"
  sv_less :: "'v \<Rightarrow> 'v \<Rightarrow> bool"

text \<open>What \<open>semver\<close> documents: a printed version parses back to itself.\<close>

definition semver_prints :: "'v semver \<Rightarrow> bool" where
  "semver_prints sv \<longleftrightarrow> (\<forall>v. sv_parse sv (sv_show sv v) = Inr v)"

section \<open>The running version\<close>

datatype ReleaseChannel = Dev | PrereleaseBuild | StableBuild

fun release_channel_as_str :: "ReleaseChannel \<Rightarrow> string" where
  "release_channel_as_str Dev = ''dev''"
| "release_channel_as_str PrereleaseBuild = ''prerelease''"
| "release_channel_as_str StableBuild = ''stable''"

record VersionInfo =
  vi_version :: string
  vi_channel :: ReleaseChannel
  vi_commit :: "string option"

definition non_empty :: "string option \<Rightarrow> string option" where
  "non_empty value =
     (case value of None \<Rightarrow> None | Some v \<Rightarrow> let v = trim v in if v = [] then None else Some v)"

definition is_prerelease_version :: "string \<Rightarrow> bool" where
  "is_prerelease_version version \<longleftrightarrow> CHR ''-'' \<in> set version"

fun from_release_version :: "string option \<Rightarrow> ReleaseChannel" where
  "from_release_version None = Dev"
| "from_release_version (Some version) =
     (if is_prerelease_version version then PrereleaseBuild else StableBuild)"

text \<open>The build metadata (\<open>option_env!\<close> and the package version) are arguments.\<close>

definition version_current :: "string option \<Rightarrow> string \<Rightarrow> string option \<Rightarrow> VersionInfo" where
  "version_current release_env package_version commit_env =
     (let release_version = non_empty release_env in
      \<lparr>vi_version = unwrap_or release_version package_version,
       vi_channel = from_release_version release_version, vi_commit = commit_env\<rparr>)"

definition version_commit :: "VersionInfo \<Rightarrow> string option" where
  "version_commit v = non_empty (vi_commit v)"

definition is_release_build :: "VersionInfo \<Rightarrow> bool" where
  "is_release_build v \<longleftrightarrow> vi_channel v \<noteq> Dev"

abbreviation newline :: string where "newline \<equiv> [CHR 10]"

definition version_render :: "VersionInfo \<Rightarrow> string" where
  "version_render v =
     ''lg-buddy '' @ vi_version v @ newline @ ''version: '' @ vi_version v @ newline @
     ''channel: '' @ release_channel_as_str (vi_channel v) @ newline @
     ''commit: '' @ unwrap_or (version_commit v) ''unknown'' @ newline"

section \<open>Releases\<close>

datatype UpdateChannel = Stable | Prerelease

fun update_channel_as_str :: "UpdateChannel \<Rightarrow> string" where
  "update_channel_as_str Stable = ''stable''"
| "update_channel_as_str Prerelease = ''prerelease''"

record ReleaseAsset =
  asset_id :: "64 word"
  asset_name :: string
  asset_state :: string
  asset_size :: "64 word"
  asset_digest :: "string option"
  asset_api_url :: string
  asset_download_url :: string

record 'v ReleaseInfo =
  rel_version :: 'v
  rel_channel :: UpdateChannel
  rel_url :: string
  rel_tag_name :: string
  rel_assets :: "ReleaseAsset list"

record CachedReleaseInfo =
  cr_version :: string
  cr_channel :: UpdateChannel
  cr_url :: string
  cr_tag_name :: "string option"
  cr_assets :: "ReleaseAsset list"

definition to_cached :: "'v semver \<Rightarrow> 'v ReleaseInfo \<Rightarrow> CachedReleaseInfo" where
  "to_cached sv r =
     \<lparr>cr_version = sv_show sv (rel_version r), cr_channel = rel_channel r, cr_url = rel_url r,
      cr_tag_name = Some (rel_tag_name r), cr_assets = rel_assets r\<rparr>"

definition from_cached :: "'v semver \<Rightarrow> CachedReleaseInfo \<Rightarrow> 'v ReleaseInfo option" where
  "from_cached sv c =
     (case sv_parse sv (cr_version c) of
        Inl _ \<Rightarrow> None
      | Inr version \<Rightarrow>
          Some \<lparr>rel_version = version, rel_channel = cr_channel c, rel_url = cr_url c,
                rel_tag_name = unwrap_or (cr_tag_name c) (CHR ''v'' # sv_show sv version),
                rel_assets = cr_assets c\<rparr>)"

definition cached_matches_release :: "'v semver \<Rightarrow> CachedReleaseInfo \<Rightarrow> 'v ReleaseInfo \<Rightarrow> bool" where
  "cached_matches_release sv c release \<longleftrightarrow>
     cr_version c = sv_show sv (rel_version release) \<and> cr_channel c = rel_channel release \<and>
     cr_url c = rel_url release"

lemma from_cached_to_cached: "semver_prints sv \<Longrightarrow> from_cached sv (to_cached sv r) = Some r"
  by (simp add: semver_prints_def from_cached_def to_cached_def)

section \<open>The cache\<close>

record CachedUpdateNotification =
  shown_at :: "64 word"
  shown_release :: CachedReleaseInfo

definition matches_release :: "'v semver \<Rightarrow> CachedUpdateNotification \<Rightarrow> 'v ReleaseInfo \<Rightarrow> bool" where
  "matches_release sv n release = cached_matches_release sv (shown_release n) release"

record CachedUpdateCheck =
  entry_etag :: "string option"
  entry_checked_at :: "64 word"
  entry_latest :: CachedReleaseInfo
  entry_notification :: "CachedUpdateNotification option"

record UpdateCheckCache =
  cache_stable :: "CachedUpdateCheck option"
  cache_prerelease :: "CachedUpdateCheck option"

definition cache_default :: UpdateCheckCache where
  "cache_default = \<lparr>cache_stable = None, cache_prerelease = None\<rparr>"

fun entry :: "UpdateCheckCache \<Rightarrow> UpdateChannel \<Rightarrow> CachedUpdateCheck option" where
  "entry cache Stable = cache_stable cache"
| "entry cache Prerelease = cache_prerelease cache"

fun set_entry :: "UpdateCheckCache \<Rightarrow> UpdateChannel \<Rightarrow> CachedUpdateCheck \<Rightarrow> UpdateCheckCache" where
  "set_entry cache Stable e = cache\<lparr>cache_stable := Some e\<rparr>"
| "set_entry cache Prerelease e = cache\<lparr>cache_prerelease := Some e\<rparr>"

definition record_notification ::
    "'v semver \<Rightarrow> UpdateCheckCache \<Rightarrow> UpdateChannel \<Rightarrow> 'v ReleaseInfo \<Rightarrow> 64 word \<Rightarrow> UpdateCheckCache" where
  "record_notification sv cache channel release at =
     (case entry cache channel of
        None \<Rightarrow> cache
      | Some e \<Rightarrow> set_entry cache channel
          (e\<lparr>entry_notification := Some \<lparr>shown_at = at, shown_release = to_cached sv release\<rparr>\<rparr>))"

lemma entry_set_entry [simp]:
  "entry (set_entry cache channel e) c = (if c = channel then Some e else entry cache c)"
  by (cases channel; cases c) simp_all

section \<open>Whether to notify\<close>

datatype UpdateNotificationReason = NewRelease

fun notification_reason_as_str :: "UpdateNotificationReason \<Rightarrow> string" where
  "notification_reason_as_str NewRelease = ''new release''"

datatype UpdateNotificationSkipReason = NotRequested | NoUpdateAvailable | AlreadyShownForRelease

datatype UpdateNotificationDecision =
    NotifyUpdate UpdateNotificationReason
  | SkipNotification UpdateNotificationSkipReason

definition evaluate_update_notification_policy ::
    "'v semver \<Rightarrow> bool \<Rightarrow> bool \<Rightarrow> 'v ReleaseInfo \<Rightarrow> CachedUpdateNotification option \<Rightarrow> UpdateNotificationDecision" where
  "evaluate_update_notification_policy sv notify_requested update_available latest last_notification =
     (if \<not> notify_requested then SkipNotification NotRequested
      else if \<not> update_available then SkipNotification NoUpdateAvailable
      else if is_some_and last_notification (\<lambda>n. matches_release sv n latest)
        then SkipNotification AlreadyShownForRelease
      else NotifyUpdate NewRelease)"

definition render_update_notification_sent :: "UpdateNotificationReason \<Rightarrow> string" where
  "render_update_notification_sent reason =
     ''notification: sent ('' @ notification_reason_as_str reason @ '')'' @ newline"

definition render_update_notification_failure :: "UpdateNotificationReason \<Rightarrow> string" where
  "render_update_notification_failure reason =
     ''notification: failed ('' @ notification_reason_as_str reason @ '')'' @ newline"

definition render_update_notification_skip ::
    "'v semver \<Rightarrow> UpdateNotificationSkipReason \<Rightarrow> 'v ReleaseInfo \<Rightarrow> string" where
  "render_update_notification_skip sv reason latest =
     ''notification: skipped ('' @
     (case reason of
        NotRequested \<Rightarrow> ''not requested''
      | NoUpdateAvailable \<Rightarrow> ''no update available''
      | AlreadyShownForRelease \<Rightarrow> ''already shown for '' @ sv_show sv (rel_version latest)) @
     '')'' @ newline"

section \<open>The command line\<close>

datatype UpdatesCommand = CheckUpdates bool | InstallUpdate | BackgroundCheck

datatype UpdatesParseError =
    MissingUpdatesSubcommand
  | UnknownUpdatesSubcommand string
  | DuplicateNotify
  | UnexpectedUpdatesArguments string "string list"

fun updates_command_as_str :: "UpdatesCommand \<Rightarrow> string" where
  "updates_command_as_str (CheckUpdates _) = ''check''"
| "updates_command_as_str InstallUpdate = ''install''"
| "updates_command_as_str BackgroundCheck = ''background-check''"

fun command_notify :: "UpdatesCommand \<Rightarrow> bool" where
  "command_notify (CheckUpdates notify) = notify"
| "command_notify InstallUpdate = False"
| "command_notify BackgroundCheck = True"

definition parse_no_args ::
    "string \<Rightarrow> UpdatesCommand \<Rightarrow> string list \<Rightarrow> UpdatesParseError + UpdatesCommand" where
  "parse_no_args subcommand command arguments =
     (if arguments = [] then Inr command else Inl (UnexpectedUpdatesArguments subcommand arguments))"

definition parse_background_check_args :: "string list \<Rightarrow> UpdatesParseError + UpdatesCommand" where
  "parse_background_check_args extra_args =
     (if extra_args = [] then Inr BackgroundCheck
      else Inl (UnexpectedUpdatesArguments ''background-check'' extra_args))"

fun parse_check_args :: "bool \<Rightarrow> string list \<Rightarrow> UpdatesParseError + UpdatesCommand" where
  "parse_check_args notify [] = Inr (CheckUpdates notify)"
| "parse_check_args notify (arg # args) =
     (if arg = ''--notify''
      then if notify then Inl DuplicateNotify else parse_check_args True args
      else Inl (UnexpectedUpdatesArguments ''check'' (arg # args)))"

definition updates_command_parse :: "string list \<Rightarrow> UpdatesParseError + UpdatesCommand" where
  "updates_command_parse args =
     (case args of
        [] \<Rightarrow> Inl MissingUpdatesSubcommand
      | subcommand # rest \<Rightarrow>
          if subcommand = ''check'' then parse_check_args False rest
          else if subcommand = ''install'' then parse_no_args ''install'' InstallUpdate rest
          else if subcommand = ''background-check'' then parse_background_check_args rest
          else Inl (UnknownUpdatesSubcommand subcommand))"

fun updates_parse_error_display :: "UpdatesParseError \<Rightarrow> string" where
  "updates_parse_error_display MissingUpdatesSubcommand =
     ''missing updates command; expected `updates check [--notify]` or `updates install`''"
| "updates_parse_error_display (UnknownUpdatesSubcommand subcommand) =
     ''unknown updates command `'' @ subcommand @ ''`''"
| "updates_parse_error_display DuplicateNotify = ''duplicate `--notify` option''"
| "updates_parse_error_display (UnexpectedUpdatesArguments subcommand arguments) =
     ''unexpected arguments for `updates '' @ subcommand @ ''`: '' @ join_with '' '' arguments"

end
