(* ===== verification/Update_Notices.thy ===== *)
theory Update_Notices
  imports Releases Session_Bus
begin

text \<open>
  Update notifications (\<open>session_notifications.rs\<close>, \<open>notifications.rs\<close>): the request and its form on
  the bus, the dispatcher of the session service with its pending and recently closed notifications,
  and the handler of the desktop's signals with its check of the sender. Parameters, in the record
  \<open>desktop\<close>: the notification server, the bus daemon's answers about names and processes, \<open>/proc\<close> and
  \<open>xdg-open\<close>; saving the setting behind \<open>Never Notify Again\<close> is the settings command of
  \<open>Settings_Apply\<close>. A poisoned lock needs a panic in a handler and is left out.
\<close>

section \<open>Desktop notifications\<close>

definition NOTIFICATION_SERVICE :: string where "NOTIFICATION_SERVICE = ''org.freedesktop.Notifications''"
definition NOTIFICATION_PATH :: string where "NOTIFICATION_PATH = ''/org/freedesktop/Notifications''"
definition NOTIFICATION_INTERFACE :: string where "NOTIFICATION_INTERFACE = ''org.freedesktop.Notifications''"
definition DEFAULT_APP_NAME :: string where "DEFAULT_APP_NAME = ''LG Buddy''"
definition DEFAULT_EXPIRE_TIMEOUT_MS :: int where "DEFAULT_EXPIRE_TIMEOUT_MS = - 1"

type_synonym NotificationId = "32 word"

record NotificationAction =
  action_key :: string
  action_label :: string

record Notification =
  notif_app_name :: string
  notif_summary :: string
  notif_body :: string
  notif_actions :: "NotificationAction list"
  notif_expire_timeout_ms :: int

definition notification_new :: "string \<Rightarrow> string \<Rightarrow> Notification" where
  "notification_new summary body =
     \<lparr>notif_app_name = DEFAULT_APP_NAME, notif_summary = summary, notif_body = body, notif_actions = [],
      notif_expire_timeout_ms = DEFAULT_EXPIRE_TIMEOUT_MS\<rparr>"

datatype NotificationCapabilities = NotificationCapabilities (supports_actions: bool)

definition from_capability_names :: "string list \<Rightarrow> NotificationCapabilities" where
  "from_capability_names names = NotificationCapabilities (list_ex (\<lambda>name. name = ''actions'') names)"

datatype NotificationCloseReason =
  Expired | Dismissed | ClosedByCall | UndefinedReason | OtherReason "32 word"

definition close_reason_from_raw :: "32 word \<Rightarrow> NotificationCloseReason" where
  "close_reason_from_raw value =
     (if value = 1 then Expired else if value = 2 then Dismissed
      else if value = 3 then ClosedByCall else if value = 4 then UndefinedReason
      else OtherReason value)"

datatype NotificationSignal =
    ActivationToken NotificationId string
  | ActionInvoked NotificationId string
  | NotificationClosed NotificationId NotificationCloseReason

fun as_text :: "BusValue \<Rightarrow> string option" where
  "as_text (BusString s) = Some s"
| "as_text _ = None"

fun as_id :: "BusValue \<Rightarrow> 32 word option" where
  "as_id (U32 n) = Some n"
| "as_id _ = None"

definition pair_body :: "(BusValue \<Rightarrow> 'a option) \<Rightarrow> (BusValue \<Rightarrow> 'b option) \<Rightarrow> BusValue list \<Rightarrow> ('a \<times> 'b) option" where
  "pair_body f g body =
     (case body of
        [x, y] \<Rightarrow> (case (f x, g y) of (Some a, Some b) \<Rightarrow> Some (a, b) | _ \<Rightarrow> None)
      | _ \<Rightarrow> None)"

definition parse_notification_signal :: "BusSignal \<Rightarrow> NotificationSignal option" where
  "parse_notification_signal signal =
     (if sig_path signal \<noteq> NOTIFICATION_PATH \<or> sig_interface signal \<noteq> NOTIFICATION_INTERFACE then None
      else if sig_member signal = ''ActivationToken'' then
        map_option (\<lambda>(nid, token). ActivationToken nid token) (pair_body as_id as_text (sig_body signal))
      else if sig_member signal = ''ActionInvoked'' then
        map_option (\<lambda>(nid, key). ActionInvoked nid key) (pair_body as_id as_text (sig_body signal))
      else if sig_member signal = ''NotificationClosed'' then
        map_option (\<lambda>(nid, reason). NotificationClosed nid (close_reason_from_raw reason))
          (pair_body as_id as_id (sig_body signal))
      else None)"

datatype NotificationError = NotificationTransport string

fun notification_error_display :: "NotificationError \<Rightarrow> string" where
  "notification_error_display (NotificationTransport message) =
     ''desktop notification service error: '' @ message"

record NotificationRequest =
  nreq_app_name :: string
  nreq_replaces_id :: "32 word"
  nreq_app_icon :: string
  nreq_summary :: string
  nreq_body :: string
  nreq_actions :: "string list"
  nreq_expire_timeout_ms :: int

definition from_notification :: "Notification \<Rightarrow> NotificationRequest" where
  "from_notification n =
     \<lparr>nreq_app_name = notif_app_name n, nreq_replaces_id = 0, nreq_app_icon = [],
      nreq_summary = notif_summary n, nreq_body = notif_body n,
      nreq_actions = concat (map (\<lambda>a. [action_key a, action_label a]) (notif_actions n)),
      nreq_expire_timeout_ms = notif_expire_timeout_ms n\<rparr>"

section \<open>The request\<close>

definition SESSION_BUS_NAME :: string where "SESSION_BUS_NAME = ''io.github.Staphylococcus.LGBuddy''"
definition SESSION_OBJECT_PATH :: string where
  "SESSION_OBJECT_PATH = ''/io/github/Staphylococcus/LGBuddy/Session''"
definition SESSION_INTERFACE :: string where
  "SESSION_INTERFACE = ''io.github.Staphylococcus.LGBuddy.Session1''"
definition SHOW_UPDATE_NOTIFICATION_METHOD :: string where
  "SHOW_UPDATE_NOTIFICATION_METHOD = ''ShowUpdateNotification''"
definition VIEW_RELEASE_ACTION_KEY :: string where "VIEW_RELEASE_ACTION_KEY = ''view-release''"
definition DISABLE_UPDATE_CHECKS_ACTION_KEY :: string where
  "DISABLE_UPDATE_CHECKS_ACTION_KEY = ''disable-update-checks''"
definition RECENTLY_CLOSED_NOTIFICATION_LIMIT :: nat where "RECENTLY_CLOSED_NOTIFICATION_LIMIT = 16"
definition GNOME_SHELL_BUS_NAME :: string where "GNOME_SHELL_BUS_NAME = ''org.gnome.Shell''"
definition GNOME_SHELL_PROCESS_NAME :: string where "GNOME_SHELL_PROCESS_NAME = ''gnome-shell''"

datatype SessionServiceError =
    ServiceTransport string
  | NameUnavailable string string
  | StartupTimeout
  | Poisoned

fun session_service_error_display :: "SessionServiceError \<Rightarrow> string" where
  "session_service_error_display (ServiceTransport message) =
     ''LG Buddy session D-Bus service error: '' @ message"
| "session_service_error_display (NameUnavailable name reply) =
     ''could not own LG Buddy session D-Bus name `'' @ name @ ''`: '' @ reply"
| "session_service_error_display StartupTimeout = ''timed out starting LG Buddy session D-Bus service''"
| "session_service_error_display Poisoned = ''LG Buddy session notification state lock was poisoned''"

datatype UpdateNotificationError =
    InvalidRequest string
  | HandoffTransport string
  | DesktopError NotificationError
  | SessionError SessionServiceError
  | PreferenceError SettingsError
  | OpenReleaseError string string

fun update_notification_error_display :: "UpdateNotificationError \<Rightarrow> string" where
  "update_notification_error_display (InvalidRequest message) =
     ''invalid update notification request: '' @ message"
| "update_notification_error_display (HandoffTransport message) =
     ''could not request update notification from LG Buddy session service: '' @ message"
| "update_notification_error_display (DesktopError err) = notification_error_display err"
| "update_notification_error_display (SessionError err) = session_service_error_display err"
| "update_notification_error_display (PreferenceError err) =
     ''could not disable automatic update checks: '' @ settings_error_display err"
| "update_notification_error_display (OpenReleaseError url message) =
     ''could not open release URL `'' @ url @ ''`: '' @ message"

record 'v UpdateNotificationRequest =
  req_check_channel :: UpdateChannel
  req_current_version :: 'v
  req_current_channel :: ReleaseChannel
  req_latest_version :: 'v
  req_latest_channel :: UpdateChannel
  req_release_url :: string

definition valid_release_url :: "string \<Rightarrow> bool" where
  "valid_release_url value \<longleftrightarrow>
     (let trimmed = trim value in
      trimmed \<noteq> [] \<and> (starts_with trimmed ''https://'' \<or> starts_with trimmed ''http://''))"

definition request_new ::
    "UpdateChannel \<Rightarrow> 'v \<Rightarrow> ReleaseChannel \<Rightarrow> 'v \<Rightarrow> UpdateChannel \<Rightarrow> string \<Rightarrow>
      UpdateNotificationError + 'v UpdateNotificationRequest" where
  "request_new check_channel current_version current_channel latest_version latest_channel release_url =
     (if \<not> valid_release_url release_url
      then Inl (InvalidRequest (''invalid release URL `'' @ release_url @ ''`''))
      else Inr \<lparr>req_check_channel = check_channel, req_current_version = current_version,
                req_current_channel = current_channel, req_latest_version = latest_version,
                req_latest_channel = latest_channel, req_release_url = release_url\<rparr>)"

definition parse_update_channel :: "string \<Rightarrow> UpdateNotificationError + UpdateChannel" where
  "parse_update_channel value =
     (if value = ''stable'' then Inr Stable
      else if value = ''prerelease'' then Inr Prerelease
      else Inl (InvalidRequest (''invalid update channel `'' @ value @ ''`'')))"

definition parse_release_channel :: "string \<Rightarrow> UpdateNotificationError + ReleaseChannel" where
  "parse_release_channel value =
     (if value = ''dev'' then Inr Dev
      else if value = ''prerelease'' then Inr PrereleaseBuild
      else if value = ''stable'' then Inr StableBuild
      else Inl (InvalidRequest (''invalid release channel `'' @ value @ ''`'')))"

definition parse_version :: "'v semver \<Rightarrow> string \<Rightarrow> string \<Rightarrow> UpdateNotificationError + 'v" where
  "parse_version sv label value =
     (case sv_parse sv value of
        Inl err \<Rightarrow> Inl (InvalidRequest (''invalid '' @ label @ '' `'' @ value @ ''`: '' @ err))
      | Inr v \<Rightarrow> Inr v)"

definition from_dbus_fields ::
    "'v semver \<Rightarrow> string \<Rightarrow> string \<Rightarrow> string \<Rightarrow> string \<Rightarrow> string \<Rightarrow> string \<Rightarrow>
      UpdateNotificationError + 'v UpdateNotificationRequest" where
  "from_dbus_fields sv check_channel current_version current_channel latest_version latest_channel release_url =
     and_then (parse_update_channel check_channel) (\<lambda>cc.
     and_then (parse_version sv ''current version'' current_version) (\<lambda>cv.
     and_then (parse_release_channel current_channel) (\<lambda>cr.
     and_then (parse_version sv ''latest version'' latest_version) (\<lambda>lv.
     and_then (parse_update_channel latest_channel) (\<lambda>lc.
       request_new cc cv cr lv lc release_url)))))"

definition to_dbus_fields :: "'v semver \<Rightarrow> 'v UpdateNotificationRequest \<Rightarrow> string list" where
  "to_dbus_fields sv r =
     [update_channel_as_str (req_check_channel r), sv_show sv (req_current_version r),
      release_channel_as_str (req_current_channel r), sv_show sv (req_latest_version r),
      update_channel_as_str (req_latest_channel r), req_release_url r]"

definition to_bus_body :: "'v semver \<Rightarrow> 'v UpdateNotificationRequest \<Rightarrow> BusValue list" where
  "to_bus_body sv r = map BusString (to_dbus_fields sv r)"

definition from_bus_body :: "'v semver \<Rightarrow> BusValue list \<Rightarrow> UpdateNotificationError + 'v UpdateNotificationRequest" where
  "from_bus_body sv body =
     (case those (map as_text body) of
        Some [check_channel, current_version, current_channel, latest_version, latest_channel, release_url] \<Rightarrow>
          from_dbus_fields sv check_channel current_version current_channel latest_version latest_channel release_url
      | _ \<Rightarrow> Inl (InvalidRequest ''expected D-Bus update notification body with 6 string fields''))"

definition update_notification :: "'v semver \<Rightarrow> 'v UpdateNotificationRequest \<Rightarrow> bool \<Rightarrow> Notification" where
  "update_notification sv r actions_supported =
     (let n = notification_new ''LG Buddy update available''
        (''LG Buddy '' @ sv_show sv (req_latest_version r) @ '' ('' @ update_channel_as_str (req_latest_channel r) @
         '') is available.'' @ newline @ ''Current: '' @ sv_show sv (req_current_version r) @ '' ('' @
         release_channel_as_str (req_current_channel r) @ '')'' @ newline @
         ''Install: lg-buddy updates install'' @ newline @ req_release_url r)
      in if actions_supported
         then n\<lparr>notif_actions :=
           [\<lparr>action_key = DISABLE_UPDATE_CHECKS_ACTION_KEY, action_label = ''Never Notify Again''\<rparr>,
            \<lparr>action_key = VIEW_RELEASE_ACTION_KEY, action_label = ''View Release''\<rparr>]\<rparr>
         else n)"

datatype UpdateNotificationOutcome = Sent

fun notification_outcome_as_str :: "UpdateNotificationOutcome \<Rightarrow> string" where
  "notification_outcome_as_str Sent = ''sent''"

definition notification_outcome_parse :: "string \<Rightarrow> UpdateNotificationError + UpdateNotificationOutcome" where
  "notification_outcome_parse value =
     (if value = ''sent'' then Inr Sent
      else Inl (HandoffTransport
        (''LG Buddy session service returned unknown update notification outcome `'' @ value @ ''`'')))"

section \<open>The session service\<close>

datatype desktop_event =
    CapabilitiesAsked "NotificationError + string list"
  | NotifyCalled NotificationRequest "NotificationError + NotificationId"
  | OpenerRan string "string + bool \<times> string \<times> string"
  | ChecksDisabled "SettingsError + unit"
  | OwnerAsked string "string + string"
  | ProcessAsked string "string + 32 word"
  | Printed string

record desktop =
  get_capabilities :: "desktop_event list \<Rightarrow> NotificationError + string list"
  notify_call :: "NotificationRequest \<Rightarrow> desktop_event list \<Rightarrow> NotificationError + NotificationId"
  xdg_open :: "string \<Rightarrow> desktop_event list \<Rightarrow> string + bool \<times> string \<times> string"
  name_owner_of :: "string \<Rightarrow> desktop_event list \<Rightarrow> string + string"
  process_id_of :: "string \<Rightarrow> desktop_event list \<Rightarrow> string + 32 word"
  proc_comm :: "32 word \<Rightarrow> string option"
  proc_exe :: "32 word \<Rightarrow> path option"
  show_duration :: "duration \<Rightarrow> string"

record 'v session_service =
  pending :: "NotificationId \<rightharpoonup> 'v UpdateNotificationRequest"
  recently_closed :: "(NotificationId \<times> 'v UpdateNotificationRequest) list"
  desktop_log :: "desktop_event list"
  host_world :: world

type_synonym ('v, 'e, 'a) notice = "('v session_service, 'e, 'a) eff"

definition dispatcher_new :: "world \<Rightarrow> 'v session_service" where
  "dispatcher_new w = \<lparr>pending = Map.empty, recently_closed = [], desktop_log = [], host_world = w\<rparr>"

definition desktopE ::
    "(desktop_event list \<Rightarrow> 'e + 'a) \<Rightarrow> ('e + 'a \<Rightarrow> desktop_event) \<Rightarrow> ('v, 'e, 'a) notice" where
  "desktopE answer event =
     (\<lambda>s. let r = answer (desktop_log s) in (r, s\<lparr>desktop_log := event r # desktop_log s\<rparr>))"

definition printE :: "string \<Rightarrow> ('v, 'e, unit) notice" where
  "printE line = modifyE (\<lambda>s. s\<lparr>desktop_log := Printed line # desktop_log s\<rparr>)"

definition show_update_notification ::
    "desktop \<Rightarrow> 'v semver \<Rightarrow> 'v UpdateNotificationRequest \<Rightarrow>
      ('v, UpdateNotificationError, UpdateNotificationOutcome) notice" where
  "show_update_notification dk sv request =
     bindE (mapErrE DesktopError (desktopE (get_capabilities dk) CapabilitiesAsked)) (\<lambda>names.
       let capabilities = from_capability_names names;
           notification = update_notification sv request (supports_actions capabilities);
           nreq = from_notification notification
       in
       bindE (mapErrE DesktopError (desktopE (notify_call dk nreq) (NotifyCalled nreq))) (\<lambda>notification_id.
         thenE (if supports_actions capabilities
                then modifyE (\<lambda>s. s\<lparr>pending := (pending s)(notification_id \<mapsto> request)\<rparr>)
                else returnE ())
           (returnE Sent)))"

text \<open>\<open>take_action_request\<close> and \<open>remember_recently_closed\<close> on the dispatcher's two collections.\<close>

fun remove_first ::
    "NotificationId \<Rightarrow> (NotificationId \<times> 'r) list \<Rightarrow> ('r \<times> (NotificationId \<times> 'r) list) option" where
  "remove_first nid [] = None"
| "remove_first nid ((closed_id, request) # rest) =
     (if closed_id = nid then Some (request, rest)
      else map_option (\<lambda>(r, rest'). (r, (closed_id, request) # rest')) (remove_first nid rest))"

definition take_action_request ::
    "NotificationId \<Rightarrow> ('v, 'e, 'v UpdateNotificationRequest option) notice" where
  "take_action_request nid =
     (\<lambda>s. case pending s nid of
        Some request \<Rightarrow> (Inr (Some request), s\<lparr>pending := (pending s)(nid := None)\<rparr>)
      | None \<Rightarrow>
          (case remove_first nid (recently_closed s) of
             None \<Rightarrow> (Inr None, s)
           | Some (request, rest) \<Rightarrow> (Inr (Some request), s\<lparr>recently_closed := rest\<rparr>)))"

definition remember_recently_closed ::
    "NotificationId \<Rightarrow> 'v UpdateNotificationRequest \<Rightarrow> 'v session_service \<Rightarrow> 'v session_service" where
  "remember_recently_closed nid request s =
     (let kept = (if length (recently_closed s) = RECENTLY_CLOSED_NOTIFICATION_LIMIT
                  then tl (recently_closed s) else recently_closed s)
      in s\<lparr>recently_closed := kept @ [(nid, request)]\<rparr>)"

text \<open>\<open>xdg-open\<close> answers with success, what it wrote to stderr and its status as printed.\<close>

definition open_release :: "desktop \<Rightarrow> string \<Rightarrow> ('v, UpdateNotificationError, unit) notice" where
  "open_release dk url =
     bindE (mapErrE (OpenReleaseError url) (desktopE (xdg_open dk url) (OpenerRan url))) (\<lambda>(success, err_text, status).
       if success then returnE ()
       else
         let err_text = trim err_text in
         raiseE (OpenReleaseError url
           (if err_text = [] then ''opener exited with status '' @ status else err_text)))"

text \<open>The runner of the settings command \<open>set updates.auto_check disabled\<close>, with a buffer as its writer.\<close>

record preferences =
  pref_env :: environment
  pref_host :: config_host
  pref_services :: controller
  pref_preflight :: preflight
  pref_presentation :: BackendPresentation
  pref_probe :: backend_probe
  pref_config_path :: "ConfigPathError + path"
  pref_assess :: "(world, unit, unit) eff"

definition buffer_env :: "environment \<Rightarrow> environment" where
  "buffer_env env = env\<lparr>writer_fault := \<lambda>_. None\<rparr>"

definition disable_checks_command :: SettingsCommand where
  "disable_checks_command = SetSetting ''updates.auto_check'' ''disabled''"

definition run_disable_checks :: "preferences \<Rightarrow> path option \<Rightarrow> unit service" where
  "run_disable_checks prefs config_path =
     (let env = buffer_env (pref_env prefs) in
      case config_path of
        Some path \<Rightarrow>
          bindE (store_load env (pref_host prefs) path) (\<lambda>store.
            runner_run env (pref_host prefs) (pref_services prefs) (pref_preflight prefs)
              (pref_presentation prefs) store disable_checks_command)
      | None \<Rightarrow>
          run_settings_command env (pref_host prefs) (pref_services prefs) (pref_preflight prefs)
            (pref_probe prefs) (pref_config_path prefs) (pref_assess prefs) disable_checks_command)"

definition disable_automatic_update_checks ::
    "preferences \<Rightarrow> path option \<Rightarrow> ('v, UpdateNotificationError, unit) notice" where
  "disable_automatic_update_checks prefs config_path =
     (\<lambda>s. case run_disable_checks prefs config_path (host_world s) of
        (r, w) \<Rightarrow> (map_sum PreferenceError id r,
                   s\<lparr>host_world := w, desktop_log := ChecksDisabled r # desktop_log s\<rparr>))"

datatype SessionNotificationEvent = ReleaseOpened | UpdateChecksDisabled | ClosedEvent | UnknownAction

fun as_log_message :: "SessionNotificationEvent \<Rightarrow> string" where
  "as_log_message ReleaseOpened = ''release URL opened from notification action''"
| "as_log_message UpdateChecksDisabled = ''automatic update checks disabled from notification action''"
| "as_log_message ClosedEvent = ''update notification closed''"
| "as_log_message UnknownAction = ''unknown notification action ignored''"

definition handle_notification_signal ::
    "desktop \<Rightarrow> preferences \<Rightarrow> path option \<Rightarrow> NotificationSignal \<Rightarrow>
      ('v, UpdateNotificationError, SessionNotificationEvent option) notice" where
  "handle_notification_signal dk prefs config_path signal =
     (case signal of
        ActivationToken _ _ \<Rightarrow> returnE None
      | ActionInvoked nid key \<Rightarrow>
          bindE (take_action_request nid) (\<lambda>taken. case taken of
            None \<Rightarrow> returnE None
          | Some request \<Rightarrow>
              if key = VIEW_RELEASE_ACTION_KEY then
                thenE (open_release dk (req_release_url request)) (returnE (Some ReleaseOpened))
              else if key = DISABLE_UPDATE_CHECKS_ACTION_KEY then
                thenE (disable_automatic_update_checks prefs config_path) (returnE (Some UpdateChecksDisabled))
              else returnE (Some UnknownAction))
      | NotificationClosed nid _ \<Rightarrow>
          (\<lambda>s. case pending s nid of
             None \<Rightarrow> (Inr None, s)
           | Some request \<Rightarrow>
               (Inr (Some ClosedEvent),
                remember_recently_closed nid request (s\<lparr>pending := (pending s)(nid := None)\<rparr>))))"

section \<open>Who may send a signal\<close>

record BusProcessIdentity =
  ident_comm :: "string option"
  ident_exe_name :: "string option"

definition read_bus_process_identity :: "desktop \<Rightarrow> 32 word \<Rightarrow> BusProcessIdentity" where
  "read_bus_process_identity dk pid =
     \<lparr>ident_comm = Option.bind (proc_comm dk pid) (\<lambda>v. let v = trim v in if v = [] then None else Some v),
      ident_exe_name = Option.bind (proc_exe dk pid) (\<lambda>p. if file_name p = [] then None else Some (file_name p))\<rparr>"

definition process_identity_is_gnome_shell :: "BusProcessIdentity \<Rightarrow> bool" where
  "process_identity_is_gnome_shell identity \<longleftrightarrow>
     ident_comm identity = Some GNOME_SHELL_PROCESS_NAME \<and>
     ident_exe_name identity = Some GNOME_SHELL_PROCESS_NAME"

definition trusted_notification_signal_senders_from_candidates ::
    "string \<Rightarrow> (string \<times> BusProcessIdentity) option \<Rightarrow> string list" where
  "trusted_notification_signal_senders_from_candidates notification_owner gnome_shell_owner =
     (case gnome_shell_owner of
        None \<Rightarrow> [notification_owner]
      | Some (owner, identity) \<Rightarrow>
          if owner \<noteq> notification_owner \<and> process_identity_is_gnome_shell identity
          then [notification_owner, owner] else [notification_owner])"

definition current_bus_name_owner :: "desktop \<Rightarrow> string \<Rightarrow> ('v, SessionServiceError, string) notice" where
  "current_bus_name_owner dk name =
     mapErrE (\<lambda>err. ServiceTransport (''could not resolve `'' @ name @ ''` owner: '' @ err))
       (desktopE (name_owner_of dk name) (OwnerAsked name))"

definition current_bus_name_owner_process_identity ::
    "desktop \<Rightarrow> string \<Rightarrow> ('v, SessionServiceError, BusProcessIdentity) notice" where
  "current_bus_name_owner_process_identity dk owner =
     bindE (mapErrE (\<lambda>err. ServiceTransport (''could not resolve `'' @ owner @ ''` process id: '' @ err))
              (desktopE (process_id_of dk owner) (ProcessAsked owner)))
       (\<lambda>pid. returnE (read_bus_process_identity dk pid))"

definition trusted_notification_signal_senders :: "desktop \<Rightarrow> ('v, SessionServiceError, string list) notice" where
  "trusted_notification_signal_senders dk =
     bindE (current_bus_name_owner dk NOTIFICATION_SERVICE) (\<lambda>notification_owner.
     bindE (tryE (current_bus_name_owner dk GNOME_SHELL_BUS_NAME)) (\<lambda>shell.
     bindE (case shell of
              Inl _ \<Rightarrow> returnE None
            | Inr owner \<Rightarrow>
                bindE (tryE (current_bus_name_owner_process_identity dk owner)) (\<lambda>identity. case identity of
                  Inr identity \<Rightarrow> returnE (Some (owner, identity))
                | Inl err \<Rightarrow>
                    thenE (printE (''LG Buddy Session: could not verify `'' @ GNOME_SHELL_BUS_NAME @
                             ''` owner as gnome-shell: '' @ session_service_error_display err))
                      (returnE None))) (\<lambda>gnome_shell_owner.
       returnE (trusted_notification_signal_senders_from_candidates notification_owner gnome_shell_owner))))"

definition notification_signal_sender_is_trusted :: "BusSignal \<Rightarrow> string list \<Rightarrow> bool" where
  "notification_signal_sender_is_trusted signal trusted_senders =
     is_some_and (sig_sender signal) (\<lambda>sender. sender \<in> set trusted_senders)"

fun close_reason_debug :: "NotificationCloseReason \<Rightarrow> string" where
  "close_reason_debug Expired = ''Expired''"
| "close_reason_debug Dismissed = ''Dismissed''"
| "close_reason_debug ClosedByCall = ''ClosedByCall''"
| "close_reason_debug UndefinedReason = ''Undefined''"
| "close_reason_debug (OtherReason n) = ''Other('' @ show_nat (unat n) @ '')''"

fun describe_notification_signal :: "NotificationSignal \<Rightarrow> string" where
  "describe_notification_signal (ActivationToken nid _) =
     ''notification activation token for notification '' @ show_nat (unat nid)"
| "describe_notification_signal (ActionInvoked nid key) =
     ''notification action `'' @ key @ ''` for notification '' @ show_nat (unat nid)"
| "describe_notification_signal (NotificationClosed nid reason) =
     ''notification close for notification '' @ show_nat (unat nid) @ '' ('' @ close_reason_debug reason @ '')''"

definition PREFIX_session :: string where "PREFIX_session = ''LG Buddy Session: ''"

definition sender_text :: "BusSignal \<Rightarrow> string" where
  "sender_text signal = unwrap_or (sig_sender signal) ''<missing sender>''"

definition dispatch_signal ::
    "desktop \<Rightarrow> preferences \<Rightarrow> path option \<Rightarrow> NotificationSignal \<Rightarrow> ('v, unit, unit) notice" where
  "dispatch_signal dk prefs config_path signal =
     bindE (tryE (handle_notification_signal dk prefs config_path signal)) (\<lambda>result. case result of
       Inr (Some event) \<Rightarrow>
         printE (PREFIX_session @ ''handled '' @ describe_notification_signal signal @ '': '' @ as_log_message event)
     | Inr None \<Rightarrow>
         printE (PREFIX_session @ ''ignored '' @ describe_notification_signal signal @
           '': no pending update notification'')
     | Inl err \<Rightarrow>
         printE (PREFIX_session @ ''update notification action failed: '' @ update_notification_error_display err))"

definition receive_signal ::
    "desktop \<Rightarrow> preferences \<Rightarrow> path option \<Rightarrow> dbus_message \<Rightarrow> ('v, unit, unit) notice" where
  "receive_signal dk prefs config_path message =
     (case bus_signal_from_dbus_message message of
        Inl err \<Rightarrow>
          printE (PREFIX_session @ ''notification signal parse failed: '' @
            session_bus_error_display (show_duration dk) err)
      | Inr bus_signal \<Rightarrow>
          (case parse_notification_signal bus_signal of
             None \<Rightarrow>
               printE (PREFIX_session @ ''ignored unsupported notification signal `'' @ sig_member bus_signal @
                 ''` from `'' @ sender_text bus_signal @ ''`'')
           | Some signal \<Rightarrow>
               bindE (tryE (trusted_notification_signal_senders dk)) (\<lambda>trusted. case trusted of
                 Inl err \<Rightarrow>
                   printE (PREFIX_session @ ''notification signal owner check failed: '' @
                     session_service_error_display err)
               | Inr owners \<Rightarrow>
                   if \<not> notification_signal_sender_is_trusted bus_signal owners then
                     printE (PREFIX_session @ ''ignored '' @ describe_notification_signal signal @
                       '' from untrusted sender `'' @ sender_text bus_signal @ ''`; trusted senders: '' @
                       join_with '', '' owners)
                   else dispatch_signal dk prefs config_path signal)))"

text \<open>The method \<open>ShowUpdateNotification\<close> as served, and as the update check calls it.\<close>

definition serve_show_update_notification ::
    "desktop \<Rightarrow> 'v semver \<Rightarrow> BusValue list \<Rightarrow> ('v, string, BusReply) notice" where
  "serve_show_update_notification dk sv body =
     bindE (mapErrE update_notification_error_display (liftR (from_bus_body sv body))) (\<lambda>request.
     bindE (mapErrE update_notification_error_display (show_update_notification dk sv request)) (\<lambda>outcome.
       returnE (BusReply [BusString (notification_outcome_as_str outcome)])))"

definition show_update_notification_over_session_bus ::
    "(SessionBusError \<Rightarrow> string) \<Rightarrow> 'v semver \<Rightarrow> (BusMethodCall \<Rightarrow> ('w, SessionBusError, BusReply) eff) \<Rightarrow>
      'v UpdateNotificationRequest \<Rightarrow> ('w, UpdateNotificationError, UpdateNotificationOutcome) eff" where
  "show_update_notification_over_session_bus err_text sv call request =
     bindE (mapErrE (\<lambda>err. HandoffTransport (err_text err))
              (call (method_call SESSION_BUS_NAME SESSION_OBJECT_PATH SESSION_INTERFACE
                       SHOW_UPDATE_NOTIFICATION_METHOD (to_bus_body sv request)))) (\<lambda>reply.
     bindE (mapErrE (\<lambda>err. HandoffTransport (err_text err)) (liftR (single_string reply))) (\<lambda>outcome.
       liftR (notification_outcome_parse outcome)))"

end
