(* ===== verification/Updates.thy ===== *)
theory Updates
  imports Update_Notices
begin

text \<open>
  The update check (\<open>updates.rs\<close>, \<open>updates/github.rs\<close>, \<open>updates/cache.rs\<close>, \<open>updates/check_engine.rs\<close>):
  asking GitHub for the latest release of a channel, the cache file, and the two entry points that
  check, report and notify. Parameters, in the record \<open>update_host\<close>: the HTTP agent (what a request
  is answered may depend on everything before), the JSON codecs of \<open>serde\<close>, and the text of an
  invalid-UTF-8 error. Strings are byte strings; \<open>from_utf8\<close> is the validity check below. Creating
  the cache directory is a file operation that succeeds or faults.
\<close>

section \<open>Errors\<close>

datatype UpdateCachePathError = CachePathNotConfigured

fun update_cache_path_error_display :: "UpdateCachePathError \<Rightarrow> string" where
  "update_cache_path_error_display CachePathNotConfigured =
     ''could not resolve an update cache path from XDG_CACHE_HOME or HOME''"

datatype UpdatesError =
    ExternallyManaged InstallationOwnership
  | Updates_Http string string
  | ApiStatus string nat string
  | ApiShape string string
  | ResponseTooLarge string nat
  | InvalidLocalVersion string string
  | NoMatchingRelease UpdateChannel
  | NotModifiedWithoutCache UpdateChannel
  | CachePath UpdateCachePathError
  | CacheDecode path string
  | CacheEncode string
  | UpdateSettingsError SettingsError
  | SettingsInvariant string
  | CommandInvariant string
  | DeferredFailures "UpdatesDeferredFailure list"
  | UpdatesNotification UpdateNotificationError
  | Updates_Io io_error
and UpdatesDeferredFailure =
    CacheFailure UpdatesError
  | NotificationFailure UpdateNotificationError

fun updates_error_display :: "UpdatesError \<Rightarrow> string"
  and deferred_failure_display :: "UpdatesDeferredFailure \<Rightarrow> string" where
  "updates_error_display (ExternallyManaged ownership) = unwrap_or (update_install_guidance ownership) []"
| "updates_error_display (Updates_Http url message) =
     ''could not query GitHub releases API `'' @ url @ ''`: '' @ message"
| "updates_error_display (ApiStatus url status body) =
     ''GitHub releases API `'' @ url @ ''` returned HTTP status '' @ show_nat status @
     (if trim body = [] then [] else '': '' @ trim body)"
| "updates_error_display (ApiShape endpoint err_text) =
     ''could not parse GitHub releases API `'' @ endpoint @ ''` response: '' @ err_text"
| "updates_error_display (ResponseTooLarge url max_bytes) =
     ''GitHub releases API `'' @ url @ ''` exceeded the '' @ show_nat max_bytes @ ''-byte response limit''"
| "updates_error_display (InvalidLocalVersion version err_text) =
     ''invalid local LG Buddy version `'' @ version @ ''`: '' @ err_text"
| "updates_error_display (NoMatchingRelease channel) =
     ''GitHub releases API returned no matching release for '' @ update_channel_as_str channel @ '' channel''"
| "updates_error_display (NotModifiedWithoutCache channel) =
     ''GitHub releases API reported no changes for '' @ update_channel_as_str channel @
     '' channel, but the local update cache has no usable release metadata''"
| "updates_error_display (CachePath err) = update_cache_path_error_display err"
| "updates_error_display (CacheDecode path err_text) =
     ''could not parse update check cache `'' @ path @ ''`: '' @ err_text"
| "updates_error_display (CacheEncode err) = ''could not encode update check cache: '' @ err"
| "updates_error_display (UpdateSettingsError err) =
     ''could not read update settings: '' @ settings_error_display err"
| "updates_error_display (SettingsInvariant message) = ''invalid update settings metadata: '' @ message"
| "updates_error_display (CommandInvariant message) = ''invalid update command: '' @ message"
| "updates_error_display (DeferredFailures failures) =
     ''update check completed with deferred failure'' @ (if length failures \<noteq> 1 then ''s'' else []) @ '': '' @
     join_with ''; '' (map deferred_failure_display failures)"
| "updates_error_display (UpdatesNotification err) =
     ''could not request update notification: '' @ update_notification_error_display err"
| "updates_error_display (Updates_Io err) = io_message err"
| "deferred_failure_display (CacheFailure err) = ''update cache failed: '' @ updates_error_display err"
| "deferred_failure_display (NotificationFailure err) =
     ''update notification handoff failed: '' @ update_notification_error_display err"

section \<open>The world of an update check\<close>

datatype ReleaseEndpoint = LatestStable | LatestPublished

record http_request =
  http_url :: string
  http_headers :: "(string \<times> string) list"

text \<open>The body of an answer: the bytes that arrive, and the error that ends them, if one does.\<close>

record http_body =
  body_bytes :: string
  body_error :: "string option"

datatype http_answer =
    HttpResponse nat "string option" http_body
  | HttpStatusError nat http_body
  | HttpTransport string

datatype 'v update_event =
    RequestSent http_request
  | NoticeHandedOver "'v UpdateNotificationRequest" "UpdateNotificationError + UpdateNotificationOutcome"

record GitHubReleaseAsset =
  gh_id :: "64 word"
  gh_name :: string
  gh_state :: string
  gh_size :: "64 word"
  gh_digest :: "string option"
  gh_url :: string
  gh_browser_download_url :: string

record GitHubRelease =
  gh_tag_name :: string
  gh_html_url :: string
  gh_draft :: bool
  gh_prerelease :: bool
  gh_assets :: "GitHubReleaseAsset list"

record 'v update_world =
  events :: "'v update_event list"
  machine :: world

record 'v update_host =
  versions :: "'v semver"
  http_call :: "http_request \<Rightarrow> 'v update_event list \<Rightarrow> http_answer"
  utf8_message :: "string \<Rightarrow> string"
  decode_release :: "string \<Rightarrow> string + GitHubRelease"
  decode_releases :: "string \<Rightarrow> string + GitHubRelease list"
  decode_cache :: "string \<Rightarrow> string + UpdateCheckCache"
  encode_cache :: "UpdateCheckCache \<Rightarrow> string + string"

type_synonym ('v, 'a) update = "('v update_world, UpdatesError, 'a) eff"

definition on_machine :: "('e \<Rightarrow> UpdatesError) \<Rightarrow> (world, 'e, 'a) eff \<Rightarrow> ('v, 'a) update" where
  "on_machine f m =
     (\<lambda>u. case m (machine u) of (r, w) \<Rightarrow> (map_sum f id r, u\<lparr>machine := w\<rparr>))"

section \<open>GitHub\<close>

definition GITHUB_RELEASES_API_BASE :: string where
  "GITHUB_RELEASES_API_BASE = ''https://api.github.com/repos/Staphylococcus/LG_Buddy/releases''"
definition GITHUB_API_VERSION :: string where "GITHUB_API_VERSION = ''2026-03-10''"
definition GITHUB_ACCEPT :: string where "GITHUB_ACCEPT = ''application/vnd.github+json''"
definition MAX_GITHUB_RESPONSE_BYTES :: nat where "MAX_GITHUB_RESPONSE_BYTES = 2 * 1024 * 1024"
definition MAX_GITHUB_ERROR_BYTES :: nat where "MAX_GITHUB_ERROR_BYTES = 16 * 1024"

datatype GitHubReleaseResponse = ReleaseBody string "string option" | NotModified

fun endpoint_url :: "ReleaseEndpoint \<Rightarrow> string \<Rightarrow> string" where
  "endpoint_url LatestStable base = base @ ''/latest''"
| "endpoint_url LatestPublished base = base @ ''?per_page=1''"

fun endpoint_label :: "ReleaseEndpoint \<Rightarrow> string" where
  "endpoint_label LatestStable = ''latest''"
| "endpoint_label LatestPublished = ''releases''"

text \<open>The reader stops one byte past the limit, so an error behind that is never met.\<close>

definition read_ureq_response_body ::
    "'v update_host \<Rightarrow> http_body \<Rightarrow> string \<Rightarrow> nat \<Rightarrow> UpdatesError + string" where
  "read_ureq_response_body uh response url max_bytes =
     (if length (body_bytes response) > max_bytes then Inl (ResponseTooLarge url max_bytes)
      else case body_error response of
        Some err \<Rightarrow> Inl (Updates_Http url err)
      | None \<Rightarrow>
          if valid_utf8 (body_bytes response) then Inr (body_bytes response)
          else Inl (Updates_Http url (''response was not valid UTF-8: '' @ utf8_message uh (body_bytes response))))"

definition github_request :: "ReleaseEndpoint \<Rightarrow> string \<Rightarrow> string option \<Rightarrow> http_request" where
  "github_request endpoint user_agent if_none_match =
     \<lparr>http_url = endpoint_url endpoint GITHUB_RELEASES_API_BASE,
      http_headers =
        [(''Accept'', GITHUB_ACCEPT), (''User-Agent'', user_agent), (''X-GitHub-Api-Version'', GITHUB_API_VERSION)] @
        (case if_none_match of None \<Rightarrow> [] | Some etag \<Rightarrow> [(''If-None-Match'', etag)])\<rparr>"

definition github_answer :: "'v update_host \<Rightarrow> string \<Rightarrow> http_answer \<Rightarrow> UpdatesError + GitHubReleaseResponse" where
  "github_answer uh url answer =
     (case answer of
        HttpResponse status etag body \<Rightarrow>
          if status = 200 then
            map_sum id (\<lambda>text. ReleaseBody text etag) (read_ureq_response_body uh body url MAX_GITHUB_RESPONSE_BYTES)
          else if status = 304 then Inr NotModified
          else and_then (read_ureq_response_body uh body url MAX_GITHUB_ERROR_BYTES)
                 (\<lambda>text. Inl (ApiStatus url status text))
      | HttpStatusError status body \<Rightarrow>
          if status = 304 then Inr NotModified
          else and_then (read_ureq_response_body uh body url MAX_GITHUB_ERROR_BYTES)
                 (\<lambda>text. Inl (ApiStatus url status text))
      | HttpTransport err \<Rightarrow> Inl (Updates_Http url err))"

definition github_get ::
    "'v update_host \<Rightarrow> ReleaseEndpoint \<Rightarrow> string \<Rightarrow> string option \<Rightarrow> ('v, GitHubReleaseResponse) update" where
  "github_get uh endpoint user_agent if_none_match =
     (\<lambda>u. let request = github_request endpoint user_agent if_none_match in
          (github_answer uh (http_url request) (http_call uh request (events u)),
           u\<lparr>events := RequestSent request # events u\<rparr>))"

definition parse_release_version :: "'v semver \<Rightarrow> string \<Rightarrow> 'v option" where
  "parse_release_version sv tag_name =
     (case sv_parse sv (unwrap_or (strip_prefix ''v'' tag_name) tag_name) of Inl _ \<Rightarrow> None | Inr v \<Rightarrow> Some v)"

definition asset_from_github :: "GitHubReleaseAsset \<Rightarrow> ReleaseAsset" where
  "asset_from_github a =
     \<lparr>asset_id = gh_id a, asset_name = gh_name a, asset_state = gh_state a, asset_size = gh_size a,
      asset_digest = gh_digest a, asset_api_url = gh_url a, asset_download_url = gh_browser_download_url a\<rparr>"

definition release_info_from_api_release ::
    "'v semver \<Rightarrow> GitHubRelease \<Rightarrow> UpdateChannel \<Rightarrow> 'v ReleaseInfo option" where
  "release_info_from_api_release sv release channel =
     (if gh_draft release then None
      else if channel = Stable \<and> gh_prerelease release then None
      else
        let release_channel = (if gh_prerelease release then Prerelease else Stable) in
        map_option (\<lambda>version.
            \<lparr>rel_version = version, rel_channel = release_channel, rel_url = gh_html_url release,
             rel_tag_name = gh_tag_name release, rel_assets = map asset_from_github (gh_assets release)\<rparr>)
          (parse_release_version sv (gh_tag_name release)))"

definition parse_latest :: "'v update_host \<Rightarrow> UpdateChannel \<Rightarrow> string \<Rightarrow> UpdatesError + 'v ReleaseInfo" where
  "parse_latest uh channel body =
     (let found = (\<lambda>r. case r of None \<Rightarrow> Inl (NoMatchingRelease channel) | Some info \<Rightarrow> Inr info) in
      case channel of
        Stable \<Rightarrow>
          (case decode_release uh body of
             Inl err \<Rightarrow> Inl (ApiShape (endpoint_label LatestStable) err)
           | Inr release \<Rightarrow> found (release_info_from_api_release (versions uh) release channel))
      | Prerelease \<Rightarrow>
          (case decode_releases uh body of
             Inl err \<Rightarrow> Inl (ApiShape (endpoint_label LatestPublished) err)
           | Inr [] \<Rightarrow> found None
           | Inr (release # _) \<Rightarrow> found (release_info_from_api_release (versions uh) release channel)))"

definition latest_from_response ::
    "'v update_host \<Rightarrow> UpdateChannel \<Rightarrow> GitHubReleaseResponse \<Rightarrow> UpdateCheckCache \<Rightarrow> 64 word \<Rightarrow>
      UpdatesError + 'v ReleaseInfo \<times> UpdateCheckCache" where
  "latest_from_response uh channel response cache now_unix_seconds =
     (case response of
        ReleaseBody body etag \<Rightarrow>
          and_then (parse_latest uh channel body) (\<lambda>latest.
            Inr (latest, set_entry cache channel
              \<lparr>entry_etag = etag, entry_checked_at = now_unix_seconds, entry_latest = to_cached (versions uh) latest,
               entry_notification = Option.bind (entry cache channel) entry_notification\<rparr>))
      | NotModified \<Rightarrow>
          (case entry cache channel of
             None \<Rightarrow> Inl (NotModifiedWithoutCache channel)
           | Some e \<Rightarrow>
               (case from_cached (versions uh) (entry_latest e) of
                  None \<Rightarrow> Inl (NotModifiedWithoutCache channel)
                | Some latest \<Rightarrow> Inr (latest, set_entry cache channel (e\<lparr>entry_checked_at := now_unix_seconds\<rparr>)))))"

fun endpoint_of :: "UpdateChannel \<Rightarrow> ReleaseEndpoint" where
  "endpoint_of Stable = LatestStable"
| "endpoint_of Prerelease = LatestPublished"

definition fetch_latest_release ::
    "'v update_host \<Rightarrow> UpdateChannel \<Rightarrow> VersionInfo \<Rightarrow> UpdateCheckCache \<Rightarrow> 64 word \<Rightarrow>
      ('v, 'v ReleaseInfo \<times> UpdateCheckCache) update" where
  "fetch_latest_release uh channel current cache now_unix_seconds =
     bindE (github_get uh (endpoint_of channel) (''lg-buddy/'' @ vi_version current)
              (Option.bind (entry cache channel) entry_etag)) (\<lambda>response.
       liftR (latest_from_response uh channel response cache now_unix_seconds))"

section \<open>The cache file\<close>

definition CACHE_DIR_NAME :: string where "CACHE_DIR_NAME = ''lg-buddy''"
definition UPDATE_CHECK_CACHE_FILE_NAME :: string where "UPDATE_CHECK_CACHE_FILE_NAME = ''update-check.json''"

definition resolve_update_cache_path ::
    "path option \<Rightarrow> path option \<Rightarrow> UpdateCachePathError + path" where
  "resolve_update_cache_path xdg_cache_home home_dir =
     (case xdg_cache_home of
        Some p \<Rightarrow> Inr (path_join (path_join p CACHE_DIR_NAME) UPDATE_CHECK_CACHE_FILE_NAME)
      | None \<Rightarrow>
          (case home_dir of
             Some p \<Rightarrow> Inr (path_join (path_join (path_join p ''.cache'') CACHE_DIR_NAME) UPDATE_CHECK_CACHE_FILE_NAME)
           | None \<Rightarrow> Inl CachePathNotConfigured))"

definition non_empty_env_path :: "environment \<Rightarrow> string \<Rightarrow> path option" where
  "non_empty_env_path env name = (case env_var env name of Some p \<Rightarrow> if p = [] then None else Some p | None \<Rightarrow> None)"

definition resolve_update_cache_path_from_env :: "environment \<Rightarrow> UpdateCachePathError + path" where
  "resolve_update_cache_path_from_env env =
     resolve_update_cache_path (non_empty_env_path env ''XDG_CACHE_HOME'') (non_empty_env_path env ''HOME'')"

definition atomic_temp_path :: "environment \<Rightarrow> path \<Rightarrow> nat \<Rightarrow> path" where
  "atomic_temp_path env p attempt =
     (let name = (if file_name p = [] then UPDATE_CHECK_CACHE_FILE_NAME else file_name p) in
      with_file_name p
        (''.'' @ name @ ''.'' @ show_nat (process_id env) @ ''.'' @ show_nat attempt @ ''.tmp''))"

fun atomic_write_attempts ::
    "environment \<Rightarrow> path \<Rightarrow> string \<Rightarrow> io_error option \<Rightarrow> nat list \<Rightarrow> (world, io_error, unit) eff" where
  "atomic_write_attempts env p contents last_error [] =
     raiseE (unwrap_or last_error
       (IoError AlreadyExists ''could not create unique update cache temporary file''))"
| "atomic_write_attempts env p contents last_error (attempt # rest) =
     (let temp_path = atomic_temp_path env p attempt in
      bindE (tryE (open_create_new env temp_path)) (\<lambda>opened. case opened of
        Inl err \<Rightarrow>
          if io_kind err = AlreadyExists
          then atomic_write_attempts env p contents (Some err) rest
          else raiseE err
      | Inr _ \<Rightarrow>
          bindE (tryE (write_and_rename env temp_path p contents)) (\<lambda>result. case result of
            Inl err \<Rightarrow> bindE (tryE (remove_file env temp_path)) (\<lambda>_. raiseE err)
          | Inr _ \<Rightarrow> returnE ())))"

definition atomic_write_file :: "environment \<Rightarrow> path \<Rightarrow> string \<Rightarrow> (world, io_error, unit) eff" where
  "atomic_write_file env p contents =
     thenE (if CHR ''/'' \<in> set p then faultE env CreateDirAll p else returnE ())
       (atomic_write_attempts env p contents None [0..<100])"

datatype DefaultUpdateCacheStore = FileStore path | UnavailableStore UpdateCachePathError

definition cache_store_from_env :: "environment \<Rightarrow> DefaultUpdateCacheStore" where
  "cache_store_from_env env =
     (case resolve_update_cache_path_from_env env of Inr p \<Rightarrow> FileStore p | Inl err \<Rightarrow> UnavailableStore err)"

definition file_store_load :: "'v update_host \<Rightarrow> environment \<Rightarrow> path \<Rightarrow> ('v, UpdateCheckCache) update" where
  "file_store_load uh env p =
     bindE (tryE (on_machine Updates_Io (read_to_string env p))) (\<lambda>r. case r of
       Inr contents \<Rightarrow>
         (case decode_cache uh contents of
            Inr cache \<Rightarrow> returnE cache
          | Inl err \<Rightarrow> raiseE (CacheDecode p err))
     | Inl err \<Rightarrow>
         (case err of
            Updates_Io io \<Rightarrow> if io_kind io = NotFound then returnE cache_default else raiseE (Updates_Io io)
          | _ \<Rightarrow> raiseE err))"

definition file_store_save :: "'v update_host \<Rightarrow> environment \<Rightarrow> path \<Rightarrow> UpdateCheckCache \<Rightarrow> ('v, unit) update" where
  "file_store_save uh env p cache =
     bindE (mapErrE CacheEncode (liftR (encode_cache uh cache))) (\<lambda>contents.
       on_machine Updates_Io (atomic_write_file env p contents))"

fun store_load_cache :: "'v update_host \<Rightarrow> environment \<Rightarrow> DefaultUpdateCacheStore \<Rightarrow> ('v, UpdateCheckCache) update" where
  "store_load_cache uh env (FileStore p) = file_store_load uh env p"
| "store_load_cache uh env (UnavailableStore _) = returnE cache_default"

fun store_save_cache ::
    "'v update_host \<Rightarrow> environment \<Rightarrow> DefaultUpdateCacheStore \<Rightarrow> UpdateCheckCache \<Rightarrow> ('v, unit) update" where
  "store_save_cache uh env (FileStore p) cache = file_store_save uh env p cache"
| "store_save_cache uh env (UnavailableStore err) cache = raiseE (CachePath err)"

section \<open>The update settings\<close>

definition required_enum_setting :: "SettingsStore \<Rightarrow> string \<Rightarrow> UpdatesError + string" where
  "required_enum_setting store key =
     and_then (map_sum UpdateSettingsError id (and_then (effective_by_name store key) required_value)) (\<lambda>v.
       case as_enum v of
         Some value \<Rightarrow> Inr value
       | None \<Rightarrow> Inl (SettingsInvariant (key @ '' resolved to a non-enum value'')))"

definition automatic_checks_enabled :: "SettingsStore \<Rightarrow> UpdatesError + bool" where
  "automatic_checks_enabled store =
     and_then (required_enum_setting store ''updates.auto_check'') (\<lambda>value.
       if value = ''disabled'' then Inr False
       else if value = ''enabled'' then Inr True
       else Inl (SettingsInvariant ''updates.auto_check resolved to an unsupported value''))"

definition settings_channel :: "SettingsStore \<Rightarrow> UpdatesError + UpdateChannel" where
  "settings_channel store =
     and_then (required_enum_setting store ''updates.channel'') (\<lambda>value.
       if value = ''stable'' then Inr Stable
       else if value = ''prerelease'' then Inr Prerelease
       else Inl (SettingsInvariant ''updates.channel resolved to an unsupported value''))"

section \<open>The check\<close>

record 'v UpdateCheckResult =
  res_check_channel :: UpdateChannel
  res_current_version :: 'v
  res_current_channel :: ReleaseChannel
  res_latest :: "'v ReleaseInfo"

definition result_update_available :: "'v semver \<Rightarrow> 'v UpdateCheckResult \<Rightarrow> bool" where
  "result_update_available sv r \<longleftrightarrow> sv_less sv (res_current_version r) (rel_version (res_latest r))"

definition result_render :: "'v semver \<Rightarrow> 'v UpdateCheckResult \<Rightarrow> string" where
  "result_render sv r =
     ''status: '' @ (if result_update_available sv r then ''update available'' else ''up to date'') @ newline @
     ''current: '' @ sv_show sv (res_current_version r) @ '' ('' @ release_channel_as_str (res_current_channel r) @ '')'' @ newline @
     ''latest: '' @ sv_show sv (rel_version (res_latest r)) @ '' ('' @ update_channel_as_str (rel_channel (res_latest r)) @ '')'' @ newline @
     ''url: '' @ rel_url (res_latest r) @ newline @
     (if result_update_available sv r then ''install: lg-buddy updates install'' @ newline else [])"

definition notification_request ::
    "'v UpdateCheckResult \<Rightarrow> UpdateNotificationError + 'v UpdateNotificationRequest" where
  "notification_request r =
     request_new (res_check_channel r) (res_current_version r) (res_current_channel r)
       (rel_version (res_latest r)) (rel_channel (res_latest r)) (rel_url (res_latest r))"

definition check_updates_with_cache ::
    "'v update_host \<Rightarrow> UpdateChannel \<Rightarrow> VersionInfo \<Rightarrow> UpdateCheckCache \<Rightarrow> 64 word \<Rightarrow>
      ('v, 'v UpdateCheckResult \<times> UpdateCheckCache) update" where
  "check_updates_with_cache uh channel current cache now_unix_seconds =
     bindE (liftR (case sv_parse (versions uh) (vi_version current) of
                     Inl err \<Rightarrow> Inl (InvalidLocalVersion (vi_version current) err)
                   | Inr v \<Rightarrow> Inr v)) (\<lambda>current_version.
     bindE (fetch_latest_release uh channel current cache now_unix_seconds) (\<lambda>(latest, cache).
       returnE (\<lparr>res_check_channel = channel, res_current_version = current_version,
                 res_current_channel = vi_channel current, res_latest = latest\<rparr>, cache)))"

definition check_updates ::
    "'v update_host \<Rightarrow> UpdateChannel \<Rightarrow> VersionInfo \<Rightarrow> 64 word \<Rightarrow> ('v, 'v UpdateCheckResult) update" where
  "check_updates uh channel current now_unix_seconds =
     bindE (check_updates_with_cache uh channel current cache_default now_unix_seconds) (\<lambda>(result, _). returnE result)"

definition discover_install_candidate_for_channel ::
    "'v update_host \<Rightarrow> VersionInfo \<Rightarrow> UpdateChannel \<Rightarrow> 64 word \<Rightarrow> ('v, 'v ReleaseInfo) update" where
  "discover_install_candidate_for_channel uh current channel now_unix_seconds =
     bindE (check_updates uh channel current now_unix_seconds) (\<lambda>result. returnE (res_latest result))"

text \<open>The seams of the engine: the cache store, the notifier, the settings and the clock.\<close>

record 'v UpdatesRunContext =
  ctx_version :: VersionInfo
  ctx_load :: "('v, UpdateCheckCache) update"
  ctx_save :: "UpdateCheckCache \<Rightarrow> ('v, unit) update"
  ctx_notifier :: "'v UpdateNotificationRequest \<Rightarrow>
    ('v update_world, UpdateNotificationError, UpdateNotificationOutcome) eff"
  ctx_settings :: SettingsStore
  ctx_now_unix_seconds :: "64 word"

record 'v PreparedUpdateCheck =
  prep_result :: "'v UpdateCheckResult"
  prep_cache :: UpdateCheckCache
  prep_deferred_failures :: "UpdatesDeferredFailure list"

definition prepare_update_check ::
    "'v update_host \<Rightarrow> 'v UpdatesRunContext \<Rightarrow> ('v, 'v PreparedUpdateCheck) update" where
  "prepare_update_check uh ctx =
     bindE (liftR (settings_channel (ctx_settings ctx))) (\<lambda>channel.
     bindE (tryE (ctx_load ctx)) (\<lambda>loaded.
       let cache = (case loaded of Inr cache \<Rightarrow> cache | Inl _ \<Rightarrow> cache_default);
           deferred = (case loaded of Inr _ \<Rightarrow> [] | Inl err \<Rightarrow> [CacheFailure err])
       in
       bindE (check_updates_with_cache uh channel (ctx_version ctx) cache (ctx_now_unix_seconds ctx))
         (\<lambda>(result, cache).
           returnE \<lparr>prep_result = result, prep_cache = cache, prep_deferred_failures = deferred\<rparr>)))"

definition save_deferred ::
    "'v UpdatesRunContext \<Rightarrow> UpdateCheckCache \<Rightarrow> UpdatesDeferredFailure list \<Rightarrow>
      ('v, UpdatesDeferredFailure list) update" where
  "save_deferred ctx cache deferred =
     bindE (tryE (ctx_save ctx cache)) (\<lambda>saved.
       returnE (case saved of Inr _ \<Rightarrow> deferred | Inl err \<Rightarrow> deferred @ [CacheFailure err]))"

definition run_update_check ::
    "'v update_host \<Rightarrow> 'v UpdatesRunContext \<Rightarrow> ('v, 'v UpdateCheckResult \<times> UpdatesDeferredFailure list) update" where
  "run_update_check uh ctx =
     bindE (prepare_update_check uh ctx) (\<lambda>prepared.
     bindE (save_deferred ctx (prep_cache prepared) (prep_deferred_failures prepared)) (\<lambda>warnings.
       returnE (prep_result prepared, warnings)))"

definition write_all :: "environment \<Rightarrow> string \<Rightarrow> ('v, unit) update" where
  "write_all env text = on_machine Updates_Io (writelnE env text)"

definition show_notification ::
    "'v UpdatesRunContext \<Rightarrow> 'v UpdateCheckResult \<Rightarrow> ('v update_world, UpdateNotificationError, UpdateNotificationOutcome) eff" where
  "show_notification ctx result = bindE (liftR (notification_request result)) (ctx_notifier ctx)"

text \<open>The notification part of a run: what it leaves of the cache and of the deferred failures.\<close>

definition notify_step ::
    "'v update_host \<Rightarrow> environment \<Rightarrow> 'v UpdatesRunContext \<Rightarrow> bool \<Rightarrow> 'v PreparedUpdateCheck \<Rightarrow>
      ('v, UpdateCheckCache \<times> UpdatesDeferredFailure list) update" where
  "notify_step uh env ctx notify prepared =
     (let result = prep_result prepared; cache = prep_cache prepared; sv = versions uh in
      case evaluate_update_notification_policy sv notify (result_update_available sv result) (res_latest result)
             (Option.bind (entry cache (res_check_channel result)) entry_notification) of
        NotifyUpdate reason \<Rightarrow>
          bindE (tryE (show_notification ctx result)) (\<lambda>shown. case shown of
            Inr _ \<Rightarrow>
              thenE (write_all env (render_update_notification_sent reason))
                (returnE (record_notification sv cache (res_check_channel result) (res_latest result)
                            (ctx_now_unix_seconds ctx), prep_deferred_failures prepared))
          | Inl err \<Rightarrow>
              thenE (write_all env (render_update_notification_failure reason))
                (returnE (cache, prep_deferred_failures prepared @ [NotificationFailure err])))
      | SkipNotification reason \<Rightarrow>
          thenE (if notify then write_all env (render_update_notification_skip sv reason (res_latest result))
                 else returnE ())
            (returnE (cache, prep_deferred_failures prepared)))"

definition run_updates_command_with_update_settings ::
    "'v update_host \<Rightarrow> environment \<Rightarrow> 'v UpdatesRunContext \<Rightarrow> UpdatesCommand \<Rightarrow> ('v, unit) update" where
  "run_updates_command_with_update_settings uh env ctx command =
     bindE (if command = BackgroundCheck
            then bindE (liftR (automatic_checks_enabled (ctx_settings ctx))) (\<lambda>enabled. returnE (\<not> enabled))
            else returnE False) (\<lambda>skipped.
       if skipped then write_all env (''background: skipped (automatic update checks disabled)'' @ newline)
       else
         bindE (prepare_update_check uh ctx) (\<lambda>prepared.
         thenE (write_all env (result_render (versions uh) (prep_result prepared)))
         (bindE (notify_step uh env ctx (command_notify command) prepared) (\<lambda>(cache, deferred).
          bindE (save_deferred ctx cache deferred) (\<lambda>deferred.
            if deferred \<noteq> [] then raiseE (DeferredFailures deferred) else returnE ())))))"

text \<open>The notifier the program uses: a call to the session service over a freshly opened bus.\<close>

record 'v session_link =
  link_connect :: "'v update_event list \<Rightarrow> SessionBusError + unit"
  link_call :: "BusMethodCall \<Rightarrow> 'v update_event list \<Rightarrow> SessionBusError + BusReply"
  link_error_text :: "SessionBusError \<Rightarrow> string"

definition session_bus_handoff ::
    "'v semver \<Rightarrow> 'v session_link \<Rightarrow> 'v UpdateNotificationRequest \<Rightarrow>
      ('v update_world, UpdateNotificationError, UpdateNotificationOutcome) eff" where
  "session_bus_handoff sv link request =
     (\<lambda>u. let r = fst (bindE (mapErrE (\<lambda>err. HandoffTransport (link_error_text link err)) (\<lambda>h. (link_connect link h, h)))
                (\<lambda>_. show_update_notification_over_session_bus (link_error_text link) sv
                       (\<lambda>call h. (link_call link call h, h)) request) (events u))
          in (r, u\<lparr>events := NoticeHandedOver request r # events u\<rparr>))"

text \<open>The program's own context, and the entry points of the command line and of the GUI.\<close>

record 'v update_setup =
  set_host :: "'v update_host"
  set_env :: environment
  set_config_host :: config_host
  set_config_path :: "ConfigPathError + path"
  set_link :: "'v session_link"
  set_version :: VersionInfo
  set_ownership :: InstallationOwnership

definition settings_from_env :: "'v update_setup \<Rightarrow> ('v, SettingsStore) update" where
  "settings_from_env su =
     on_machine UpdateSettingsError
       (bindE (mapErrE Settings_ConfigPath (liftR (set_config_path su))) (store_load (set_env su) (set_config_host su)))"

definition context_from_env :: "'v update_setup \<Rightarrow> SettingsStore \<Rightarrow> 64 word \<Rightarrow> 'v UpdatesRunContext" where
  "context_from_env su settings at =
     (let store = cache_store_from_env (set_env su) in
      \<lparr>ctx_version = set_version su,
       ctx_load = store_load_cache (set_host su) (set_env su) store,
       ctx_save = store_save_cache (set_host su) (set_env su) store,
       ctx_notifier = session_bus_handoff (versions (set_host su)) (set_link su),
       ctx_settings = settings, ctx_now_unix_seconds = at\<rparr>)"

definition run_updates_command :: "'v update_setup \<Rightarrow> 64 word \<Rightarrow> UpdatesCommand \<Rightarrow> ('v, unit) update" where
  "run_updates_command su at command =
     (if command = InstallUpdate
      then raiseE (CommandInvariant ''updates install must use the install orchestrator'')
      else if externally_updated (set_ownership su) then
        thenE (write_all (set_env su) (''updates: managed externally'' @ newline))
          (write_all (set_env su) (unwrap_or (update_install_guidance (set_ownership su)) [] @ newline))
      else
        bindE (settings_from_env su) (\<lambda>settings.
          run_updates_command_with_update_settings (set_host su) (set_env su)
            (context_from_env su settings at) command))"

definition check_for_updates ::
    "'v update_setup \<Rightarrow> 64 word \<Rightarrow> ('v, 'v UpdateCheckResult \<times> UpdatesDeferredFailure list) update" where
  "check_for_updates su at =
     (if externally_updated (set_ownership su) then raiseE (ExternallyManaged (set_ownership su))
      else
        bindE (settings_from_env su) (\<lambda>settings.
          run_update_check (set_host su) (context_from_env su settings at)))"

definition saved_update_channel :: "'v update_setup \<Rightarrow> ('v, UpdateChannel) update" where
  "saved_update_channel su = bindE (settings_from_env su) (\<lambda>settings. liftR (settings_channel settings))"

end
