(* ===== verification/Cache_Codec.thy ===== *)
theory Cache_Codec
  imports Updates
begin

text \<open>
  A reference codec for the update cache: every field written with its length, so that it reads back
  from any position. It stands in for \<open>serde\<close> where a concrete host is needed, and shows that what
  the properties ask of the codec can hold.
\<close>

type_synonym 'a decoder = "string \<Rightarrow> ('a \<times> string) option"

definition reads_back :: "('a \<Rightarrow> string) \<Rightarrow> 'a decoder \<Rightarrow> bool" where
  "reads_back enc dec \<longleftrightarrow> (\<forall>x rest. dec (enc x @ rest) = Some (x, rest))"

definition enc_nat :: "nat \<Rightarrow> string" where
  "enc_nat n = replicate n CHR ''1'' @ ''0''"

fun dec_nat :: "nat decoder" where
  "dec_nat [] = None"
| "dec_nat (c # rest) =
     (if c = CHR ''1'' then map_option (apfst Suc) (dec_nat rest) else Some (0, rest))"

definition enc_char :: "char \<Rightarrow> string" where "enc_char c = [c]"

fun dec_char :: "char decoder" where
  "dec_char [] = None"
| "dec_char (c # rest) = Some (c, rest)"

definition enc_pair :: "('a \<Rightarrow> string) \<Rightarrow> ('b \<Rightarrow> string) \<Rightarrow> 'a \<times> 'b \<Rightarrow> string" where
  "enc_pair f g = (\<lambda>(a, b). f a @ g b)"

definition dec_pair :: "'a decoder \<Rightarrow> 'b decoder \<Rightarrow> ('a \<times> 'b) decoder" where
  "dec_pair f g t =
     (case f t of None \<Rightarrow> None | Some (a, rest) \<Rightarrow> map_option (\<lambda>(b, rest). ((a, b), rest)) (g rest))"

fun dec_times :: "nat \<Rightarrow> 'a decoder \<Rightarrow> 'a list decoder" where
  "dec_times 0 f t = Some ([], t)"
| "dec_times (Suc n) f t =
     (case f t of None \<Rightarrow> None | Some (x, rest) \<Rightarrow> map_option (apfst (Cons x)) (dec_times n f rest))"

definition enc_list :: "('a \<Rightarrow> string) \<Rightarrow> 'a list \<Rightarrow> string" where
  "enc_list f xs = enc_nat (length xs) @ concat (map f xs)"

definition dec_list :: "'a decoder \<Rightarrow> 'a list decoder" where
  "dec_list f t = (case dec_nat t of None \<Rightarrow> None | Some (n, rest) \<Rightarrow> dec_times n f rest)"

definition enc_via :: "('b \<Rightarrow> 'a) \<Rightarrow> ('a \<Rightarrow> string) \<Rightarrow> 'b \<Rightarrow> string" where
  "enc_via f enc x = enc (f x)"

definition dec_via :: "('a \<Rightarrow> 'b) \<Rightarrow> 'a decoder \<Rightarrow> 'b decoder" where
  "dec_via g dec t = map_option (apfst g) (dec t)"

named_theorems codecs \<open>codecs that read back\<close>

lemma reads_back_nat [codecs]: "reads_back enc_nat dec_nat"
proof -
  have "dec_nat (replicate n CHR ''1'' @ CHR ''0'' # rest) = Some (n, rest)" for n rest
    by (induction n) simp_all
  then show ?thesis by (simp add: reads_back_def enc_nat_def)
qed

lemma reads_back_char [codecs]: "reads_back enc_char dec_char"
  by (simp add: reads_back_def enc_char_def)

lemma reads_back_pair [codecs]:
  "reads_back f f' \<Longrightarrow> reads_back g g' \<Longrightarrow> reads_back (enc_pair f g) (dec_pair f' g')"
  by (simp add: reads_back_def enc_pair_def dec_pair_def)

lemma reads_back_list [codecs]:
  assumes "reads_back f f'"
  shows "reads_back (enc_list f) (dec_list f')"
proof -
  have "dec_times (length xs) f' (concat (map f xs) @ rest) = Some (xs, rest)" for xs rest
    using assms by (induction xs) (simp_all add: reads_back_def)
  then show ?thesis
    using reads_back_nat by (simp add: reads_back_def enc_list_def dec_list_def)
qed

lemma reads_back_via: "reads_back enc dec \<Longrightarrow> (\<And>x. g (f x) = x) \<Longrightarrow> reads_back (enc_via f enc) (dec_via g dec)"
  by (simp add: reads_back_def enc_via_def dec_via_def)

text \<open>The types of the cache, field by field.\<close>

fun list_option :: "'a list \<Rightarrow> 'a option" where
  "list_option [] = None"
| "list_option (x # _) = Some x"

definition option_list :: "'a option \<Rightarrow> 'a list" where
  "option_list x = (case x of None \<Rightarrow> [] | Some a \<Rightarrow> [a])"

lemma reads_back_option [codecs]:
  "reads_back f f' \<Longrightarrow> reads_back (enc_via option_list (enc_list f)) (dec_via list_option (dec_list f'))"
  by (rule reads_back_via [OF reads_back_list]) (auto simp: option_list_def split: option.splits)

abbreviation "enc_text \<equiv> enc_list enc_char"
abbreviation "dec_text \<equiv> dec_list dec_char"
abbreviation "enc_opt f \<equiv> enc_via option_list (enc_list f)"
abbreviation "dec_opt f \<equiv> dec_via list_option (dec_list f)"
abbreviation enc_word :: "64 word \<Rightarrow> string" where "enc_word \<equiv> enc_via unat enc_nat"
abbreviation dec_word :: "64 word decoder" where "dec_word \<equiv> dec_via of_nat dec_nat"
abbreviation "enc_channel \<equiv> enc_via (\<lambda>c. if c = Stable then 0 else 1) enc_nat"
abbreviation "dec_channel \<equiv> dec_via (\<lambda>n. if n = 0 then Stable else Prerelease) dec_nat"

lemma reads_back_word [codecs]: "reads_back enc_word dec_word"
  by (rule reads_back_via [OF reads_back_nat]) simp

lemma reads_back_channel [codecs]: "reads_back enc_channel dec_channel"
proof (rule reads_back_via [OF reads_back_nat])
  show "(if (if c = Stable then 0 else 1 :: nat) = 0 then Stable else Prerelease) = c" for c
    by (cases c) simp_all
qed

definition enc_asset :: "ReleaseAsset \<Rightarrow> string" where
  "enc_asset = enc_via (\<lambda>a. (asset_id a, asset_name a, asset_state a, asset_size a, asset_digest a, asset_api_url a, asset_download_url a))
     (enc_pair enc_word (enc_pair enc_text (enc_pair enc_text (enc_pair enc_word (enc_pair (enc_opt enc_text) (enc_pair enc_text enc_text))))))"

definition dec_asset :: "ReleaseAsset decoder" where
  "dec_asset = dec_via (\<lambda>(i, n, s, z, d, a, l). \<lparr>asset_id = i, asset_name = n, asset_state = s, asset_size = z, asset_digest = d,
       asset_api_url = a, asset_download_url = l\<rparr>)
     (dec_pair dec_word (dec_pair dec_text (dec_pair dec_text (dec_pair dec_word (dec_pair (dec_opt dec_text) (dec_pair dec_text dec_text))))))"

definition enc_release :: "CachedReleaseInfo \<Rightarrow> string" where
  "enc_release = enc_via (\<lambda>r. (cr_version r, cr_channel r, cr_url r, cr_tag_name r, cr_assets r))
     (enc_pair enc_text (enc_pair enc_channel (enc_pair enc_text (enc_pair (enc_opt enc_text) (enc_list enc_asset)))))"

definition dec_release :: "CachedReleaseInfo decoder" where
  "dec_release = dec_via (\<lambda>(v, c, u, t, a). \<lparr>cr_version = v, cr_channel = c, cr_url = u, cr_tag_name = t, cr_assets = a\<rparr>)
     (dec_pair dec_text (dec_pair dec_channel (dec_pair dec_text (dec_pair (dec_opt dec_text) (dec_list dec_asset)))))"

definition enc_notice :: "CachedUpdateNotification \<Rightarrow> string" where
  "enc_notice = enc_via (\<lambda>n. (shown_at n, shown_release n)) (enc_pair enc_word enc_release)"

definition dec_notice :: "CachedUpdateNotification decoder" where
  "dec_notice = dec_via (\<lambda>(t, r). \<lparr>shown_at = t, shown_release = r\<rparr>) (dec_pair dec_word dec_release)"

definition enc_check :: "CachedUpdateCheck \<Rightarrow> string" where
  "enc_check = enc_via (\<lambda>e. (entry_etag e, entry_checked_at e, entry_latest e, entry_notification e))
     (enc_pair (enc_opt enc_text) (enc_pair enc_word (enc_pair enc_release (enc_opt enc_notice))))"

definition dec_check :: "CachedUpdateCheck decoder" where
  "dec_check = dec_via (\<lambda>(t, a, l, n). \<lparr>entry_etag = t, entry_checked_at = a, entry_latest = l, entry_notification = n\<rparr>)
     (dec_pair (dec_opt dec_text) (dec_pair dec_word (dec_pair dec_release (dec_opt dec_notice))))"

definition enc_cache :: "UpdateCheckCache \<Rightarrow> string" where
  "enc_cache = enc_via (\<lambda>c. (cache_stable c, cache_prerelease c)) (enc_pair (enc_opt enc_check) (enc_opt enc_check))"

definition dec_cache :: "UpdateCheckCache decoder" where
  "dec_cache = dec_via (\<lambda>(s, p). \<lparr>cache_stable = s, cache_prerelease = p\<rparr>) (dec_pair (dec_opt dec_check) (dec_opt dec_check))"

lemma reads_back_asset [codecs]: "reads_back enc_asset dec_asset"
  unfolding enc_asset_def dec_asset_def by (rule reads_back_via) (intro codecs, simp)

lemma reads_back_release [codecs]: "reads_back enc_release dec_release"
  unfolding enc_release_def dec_release_def by (rule reads_back_via) (intro codecs, simp)

lemma reads_back_notice [codecs]: "reads_back enc_notice dec_notice"
  unfolding enc_notice_def dec_notice_def by (rule reads_back_via) (intro codecs, simp)

lemma reads_back_check [codecs]: "reads_back enc_check dec_check"
  unfolding enc_check_def dec_check_def by (rule reads_back_via) (intro codecs, simp)

lemma reads_back_cache: "reads_back enc_cache dec_cache"
  unfolding enc_cache_def dec_cache_def by (rule reads_back_via) (intro codecs, simp)

definition decode_whole :: "string \<Rightarrow> string + UpdateCheckCache" where
  "decode_whole t = (case dec_cache t of Some (c, []) \<Rightarrow> Inr c | _ \<Rightarrow> Inl ''invalid cache'')"

lemma decode_whole_enc [simp]: "decode_whole (enc_cache c) = Inr c"
  using reads_back_cache [unfolded reads_back_def, rule_format, of c "[]"] by (simp add: decode_whole_def)

end
