(* ===== verification/Updates_Proofs.thy ===== *)
theory Updates_Proofs
  imports Updates Cache_Codec
begin

text \<open>
  Properties of the update check. The cache store and the notifier are the two interfaces of the
  engine: their contracts are the locales \<open>update_store\<close> and \<open>update_notifier\<close>, interpreted on the
  cache file and on the session bus, and what a run keeps is proved once inside. Sessions are
  sequences of runs, of the command line and of the GUI, with other programs acting in between.
\<close>

section \<open>Calls\<close>

lemma wp_on_machine [wp_rules]:
  "wp (on_machine f m) Q E u =
     wp m (\<lambda>a w. Q a (u\<lparr>machine := w\<rparr>)) (\<lambda>e w. E (f e) (u\<lparr>machine := w\<rparr>)) (machine u)"
  by (auto simp: wp_def on_machine_def split: prod.splits sum.splits)

lemma wp_github_get [wp_rules]:
  "wp (github_get uh endpoint ua etag) Q E u =
     (let request = github_request endpoint ua etag; u' = u\<lparr>events := RequestSent request # events u\<rparr> in
      case github_answer uh (http_url request) (http_call uh request (events u)) of
        Inl e \<Rightarrow> E e u' | Inr r \<Rightarrow> Q r u')"
  by (simp add: wp_def github_get_def Let_def split: sum.splits)

lemma atomic_temp_path_neq: "atomic_temp_path env p n \<noteq> p"
proof (cases "file_name p = []")
  case True
  then have "rev (dropWhile (\<lambda>c. c \<noteq> CHR ''/'') (rev p)) = p"
    by (metis append_Nil2 file_name_def rev_append rev_rev_ident takeWhile_dropWhile_id self_append_conv2)
  then show ?thesis by (simp add: atomic_temp_path_def with_file_name_def True Let_def)
next
  case False
  then have "atomic_temp_path env p n = state_temp_path env p n"
    by (simp add: atomic_temp_path_def state_temp_path_def Let_def)
  then show ?thesis using state_temp_path_neq [of env p n] by simp
qed

text \<open>Writing the cache: the new bytes or the old ones, whatever fails.\<close>

lemma wp_atomic_write_attempts:
  "wp (atomic_write_attempts env p contents le ns)
     (\<lambda>_ w'. files w' p = Some contents) (\<lambda>_ w'. files w' p = files w p) w"
proof (induction ns arbitrary: le)
  case Nil
  then show ?case by (simp add: wp_rules)
next
  case (Cons n ns)
  have "atomic_temp_path env p n \<noteq> p" by (rule atomic_temp_path_neq)
  with Cons.IH show ?case
    by (auto simp: Let_def wp_rules write_and_rename_def split: option.splits)
qed

lemma wp_atomic_write_file:
  "wp (atomic_write_file env p contents)
     (\<lambda>_ w'. files w' p = Some contents) (\<lambda>_ w'. files w' p = files w p) w"
  using wp_atomic_write_attempts
  by (auto simp: atomic_write_file_def wp_rules split: option.splits)

section \<open>The cache store\<close>

text \<open>
  The contract of \<open>UpdateCacheStore\<close>. \<open>stored\<close> is the cache the store holds (\<open>None\<close>: not readable as
  one), \<open>reread c\<close> what is read back once \<open>c\<close> has been saved. Loading changes nothing; a save that
  fails leaves what was stored; and only the files matter.
\<close>

locale update_store =
  fixes load :: "('v, UpdateCheckCache) update"
    and save :: "UpdateCheckCache \<Rightarrow> ('v, unit) update"
    and stored :: "world \<Rightarrow> UpdateCheckCache option"
    and reread :: "UpdateCheckCache \<Rightarrow> UpdateCheckCache option"
  assumes load_spec: "wp load (\<lambda>c u'. u' = u \<and> stored (machine u) = Some c) (\<lambda>_ u'. u' = u) u"
    and save_spec: "wp (save c)
      (\<lambda>_ u'. events u' = events u \<and> stored (machine u') = reread c)
      (\<lambda>_ u'. events u' = events u \<and> stored (machine u') = stored (machine u)) u"
    and stored_files: "files w = files w' \<Longrightarrow> stored w = stored w'"

definition decoded :: "'v update_host \<Rightarrow> string \<Rightarrow> UpdateCheckCache option" where
  "decoded uh t = (case decode_cache uh t of Inr c \<Rightarrow> Some c | Inl _ \<Rightarrow> None)"

fun stored_cache :: "'v update_host \<Rightarrow> DefaultUpdateCacheStore \<Rightarrow> world \<Rightarrow> UpdateCheckCache option" where
  "stored_cache uh (FileStore p) w = (case files w p of None \<Rightarrow> Some cache_default | Some t \<Rightarrow> decoded uh t)"
| "stored_cache uh (UnavailableStore _) w = Some cache_default"

definition reread_cache :: "'v update_host \<Rightarrow> UpdateCheckCache \<Rightarrow> UpdateCheckCache option" where
  "reread_cache uh c = (case encode_cache uh c of Inr t \<Rightarrow> decoded uh t | Inl _ \<Rightarrow> None)"

interpretation fs: update_store "store_load_cache uh env st" "store_save_cache uh env st" "stored_cache uh st" "reread_cache uh"
proof
  show "wp (store_load_cache uh env st) (\<lambda>c u'. u' = u \<and> stored_cache uh st (machine u) = Some c) (\<lambda>_ u'. u' = u) u" for u
    by (cases st) (auto simp: file_store_load_def wp_rules decoded_def split: option.splits sum.splits)
  show "wp (store_save_cache uh env st c)
      (\<lambda>_ u'. events u' = events u \<and> stored_cache uh st (machine u') = reread_cache uh c)
      (\<lambda>_ u'. events u' = events u \<and> stored_cache uh st (machine u') = stored_cache uh st (machine u)) u" for c u
  proof (cases st)
    case (FileStore p)
    then show ?thesis
      by (auto simp: file_store_save_def wp_rules reread_cache_def split: sum.splits
          intro!: wp_mono [OF wp_atomic_write_file])
  qed (simp add: wp_rules)
  show "files w = files w' \<Longrightarrow> stored_cache uh st w = stored_cache uh st w'" for w w'
    by (cases st) simp_all
qed

section \<open>The notifier\<close>

text \<open>A handoff is recorded with its answer and touches nothing of the machine.\<close>

locale update_notifier =
  fixes notifier :: "'v UpdateNotificationRequest \<Rightarrow>
    ('v update_world, UpdateNotificationError, UpdateNotificationOutcome) eff"
  assumes notifier_spec: "wp (notifier r)
      (\<lambda>out u'. u' = u\<lparr>events := NoticeHandedOver r (Inr out) # events u\<rparr>)
      (\<lambda>e u'. u' = u\<lparr>events := NoticeHandedOver r (Inl e) # events u\<rparr>) u"

interpretation sb: update_notifier "session_bus_handoff sv link"
  by unfold_locales (auto simp: wp_def session_bus_handoff_def Let_def split: sum.splits)

section \<open>What a run keeps\<close>

text \<open>The requests handed over, and those of them that were acknowledged, newest first.\<close>

fun asked :: "'v update_event list \<Rightarrow> 'v UpdateNotificationRequest list" where
  "asked [] = []"
| "asked (NoticeHandedOver r _ # es) = r # asked es"
| "asked (RequestSent _ # es) = asked es"

fun acked :: "'v update_event list \<Rightarrow> 'v UpdateNotificationRequest list" where
  "acked [] = []"
| "acked (NoticeHandedOver r (Inr _) # es) = r # acked es"
| "acked (_ # es) = acked es"

text \<open>What identifies a release to the policy: in a request, and as remembered per channel.\<close>

definition notice_key :: "'v semver \<Rightarrow> 'v UpdateNotificationRequest \<Rightarrow> string \<times> UpdateChannel \<times> string" where
  "notice_key sv r = (sv_show sv (req_latest_version r), req_latest_channel r, req_release_url r)"

definition noted :: "CachedUpdateNotification \<Rightarrow> string \<times> UpdateChannel \<times> string" where
  "noted n = (cr_version (shown_release n), cr_channel (shown_release n), cr_url (shown_release n))"

definition last_noted :: "UpdateCheckCache \<Rightarrow> UpdateChannel \<Rightarrow> (string \<times> UpdateChannel \<times> string) option" where
  "last_noted cache c = map_option noted (Option.bind (entry cache c) entry_notification)"

text \<open>A cache whose stable entry holds a stable release.\<close>

definition clean_cache :: "UpdateCheckCache \<Rightarrow> bool" where
  "clean_cache cache \<longleftrightarrow> (\<forall>e. cache_stable cache = Some e \<longrightarrow> cr_channel (entry_latest e) = Stable)"

definition news :: "'v semver \<Rightarrow> 'v UpdateNotificationRequest \<Rightarrow> bool" where
  "news sv r \<longleftrightarrow> sv_less sv (req_current_version r) (req_latest_version r) \<and>
     valid_release_url (req_release_url r) \<and>
     (req_check_channel r = Stable \<longrightarrow> req_latest_channel r = Stable)"

lemma clean_default [simp]: "clean_cache cache_default"
  by (simp add: clean_cache_def cache_default_def)

lemma clean_set_entry:
  "clean_cache cache \<Longrightarrow> (c = Stable \<Longrightarrow> cr_channel (entry_latest e) = Stable) \<Longrightarrow> clean_cache (set_entry cache c e)"
  by (cases c) (auto simp: clean_cache_def)

lemma clean_entry: "clean_cache cache \<Longrightarrow> entry cache Stable = Some e \<Longrightarrow> cr_channel (entry_latest e) = Stable"
  by (simp add: clean_cache_def)

lemma parse_latest_channel: "parse_latest uh Stable body = Inr latest \<Longrightarrow> rel_channel latest = Stable"
  by (auto simp: parse_latest_def release_info_from_api_release_def Let_def split: sum.splits option.splits if_splits)

lemma latest_from_response_keeps:
  assumes "latest_from_response uh channel response cache t = Inr (latest, cache')"
  shows "last_noted cache' c = last_noted cache c" and "entry cache' channel \<noteq> None"
    and "clean_cache cache \<Longrightarrow> clean_cache cache' \<and> (channel = Stable \<longrightarrow> rel_channel latest = Stable)"
proof -
  show "last_noted cache' c = last_noted cache c" and "entry cache' channel \<noteq> None"
    using assms
    by (auto simp: latest_from_response_def last_noted_def and_then_def
        split: GitHubReleaseResponse.splits sum.splits option.splits)
  show "clean_cache cache' \<and> (channel = Stable \<longrightarrow> rel_channel latest = Stable)" if "clean_cache cache"
    using assms that parse_latest_channel [of uh] clean_entry [OF that]
    by (auto simp: latest_from_response_def and_then_def to_cached_def from_cached_def intro!: clean_set_entry
        split: GitHubReleaseResponse.splits sum.splits option.splits)
qed

lemma record_notification_keeps:
  assumes "entry cache channel \<noteq> None"
  shows "last_noted (record_notification sv cache channel release at) c =
      (if c = channel then Some (sv_show sv (rel_version release), rel_channel release, rel_url release)
       else last_noted cache c)"
    and "clean_cache cache \<Longrightarrow> clean_cache (record_notification sv cache channel release at)"
proof -
  obtain e where e: "entry cache channel = Some e" using assms by auto
  show "last_noted (record_notification sv cache channel release at) c =
      (if c = channel then Some (sv_show sv (rel_version release), rel_channel release, rel_url release)
       else last_noted cache c)"
    using e by (simp add: record_notification_def last_noted_def noted_def to_cached_def)
  show "clean_cache cache \<Longrightarrow> clean_cache (record_notification sv cache channel release at)"
    using e clean_entry [of cache] by (auto simp: record_notification_def intro!: clean_set_entry)
qed

lemma policy_notifies:
  assumes "evaluate_update_notification_policy sv notify available latest
      (Option.bind (entry cache c) entry_notification) = NotifyUpdate reason"
  shows "available" and "last_noted cache c \<noteq> Some (sv_show sv (rel_version latest), rel_channel latest, rel_url latest)"
  using assms
  by (auto simp: evaluate_update_notification_policy_def last_noted_def noted_def matches_release_def
      cached_matches_release_def split: if_splits option.splits bind_splits)

definition is_cache_failure :: "UpdatesDeferredFailure \<Rightarrow> bool" where
  "is_cache_failure f = (case f of CacheFailure _ \<Rightarrow> True | _ \<Rightarrow> False)"

text \<open>A run reports trouble with the cache, or could not write its output.\<close>

fun cache_trouble :: "UpdatesError \<Rightarrow> bool" where
  "cache_trouble (DeferredFailures failures) = list_ex is_cache_failure failures"
| "cache_trouble (Updates_Io _) = True"
| "cache_trouble _ = False"

text \<open>No notification is handed over and the machine is left alone; requests to GitHub are allowed.\<close>

definition no_notice :: "'v update_world \<Rightarrow> 'v update_world \<Rightarrow> bool" where
  "no_notice u u' \<longleftrightarrow>
     machine u' = machine u \<and> asked (events u') = asked (events u) \<and> acked (events u') = acked (events u)"

text \<open>The result a check prepares, and the cache that goes with it.\<close>

definition prepared_from ::
    "UpdateCheckCache option \<Rightarrow> 'v PreparedUpdateCheck \<Rightarrow> bool" where
  "prepared_from before p \<longleftrightarrow>
     entry (prep_cache p) (res_check_channel (prep_result p)) \<noteq> None \<and>
     (prep_deferred_failures p = [] \<longrightarrow>
        (\<exists>cache. before = Some cache \<and> last_noted (prep_cache p) = last_noted cache)) \<and>
     (prep_deferred_failures p \<noteq> [] \<longrightarrow> list_ex is_cache_failure (prep_deferred_failures p)) \<and>
     ((\<forall>cache. before = Some cache \<longrightarrow> clean_cache cache) \<longrightarrow>
        clean_cache (prep_cache p) \<and>
        (res_check_channel (prep_result p) = Stable \<longrightarrow> rel_channel (res_latest (prep_result p)) = Stable))"

lemma wp_check_updates_with_cache:
  "wp (check_updates_with_cache uh channel current cache t)
     (\<lambda>(result, cache') u'. no_notice u u' \<and>
        res_check_channel result = channel \<and> last_noted cache' = last_noted cache \<and> entry cache' channel \<noteq> None \<and>
        (clean_cache cache \<longrightarrow> clean_cache cache' \<and> (channel = Stable \<longrightarrow> rel_channel (res_latest result) = Stable)))
     (\<lambda>e u'. no_notice u u') u"
  unfolding check_updates_with_cache_def fetch_latest_release_def
  by (auto simp: wp_rules Let_def no_notice_def fun_eq_iff latest_from_response_keeps(1) dest: latest_from_response_keeps(2,3)
      split: sum.splits)

locale update_engine =
  update_store "ctx_load ctx" "ctx_save ctx" stored reread + update_notifier "ctx_notifier ctx"
  for ctx :: "'v UpdatesRunContext" and stored reread
begin

lemma wp_prepare:
  "wp (prepare_update_check uh ctx)
     (\<lambda>p u'. no_notice u u' \<and>
        prepared_from (stored (machine u)) p)
     (\<lambda>e u'. no_notice u u') u"
proof -
  have checked: "wp (bindE (check_updates_with_cache uh channel (ctx_version ctx) cache (ctx_now_unix_seconds ctx))
         (\<lambda>(result, cache). returnE \<lparr>prep_result = result, prep_cache = cache, prep_deferred_failures = d\<rparr>))
       (\<lambda>p u'. no_notice u u' \<and> prepared_from before p) (\<lambda>e u'. no_notice u u') u"
    if "d = [] \<and> before = Some cache \<or> (\<exists>e. d = [CacheFailure e]) \<and> cache = cache_default"
    for channel cache d before
    by (rule wp_bindI [OF wp_check_updates_with_cache])
      (use that in \<open>auto simp: wp_rules prepared_from_def is_cache_failure_def\<close>)
  have loaded: "wp (bindE (tryE (ctx_load ctx)) (\<lambda>loaded.
       let cache = (case loaded of Inr cache \<Rightarrow> cache | Inl _ \<Rightarrow> cache_default);
           deferred = (case loaded of Inr _ \<Rightarrow> [] | Inl err \<Rightarrow> [CacheFailure err])
       in
       bindE (check_updates_with_cache uh channel (ctx_version ctx) cache (ctx_now_unix_seconds ctx))
         (\<lambda>(result, cache).
           returnE \<lparr>prep_result = result, prep_cache = cache, prep_deferred_failures = deferred\<rparr>)))
      (\<lambda>p u'. no_notice u u' \<and> prepared_from (stored (machine u)) p) (\<lambda>e u'. no_notice u u') u" for channel
    unfolding wp_bindE [of "tryE _"] wp_tryE Let_def
    by (rule wp_mono [OF load_spec]) (auto intro!: checked)
  show ?thesis
    unfolding prepare_update_check_def wp_bindE [of "liftR _"] wp_liftR
    using loaded by (auto simp: no_notice_def [of u u] split: sum.splits)
qed

text \<open>Saving: either the store holds the cache, or the failure is reported.\<close>

lemma wp_save_deferred:
  "wp (save_deferred ctx cache deferred)
     (\<lambda>d u'. events u' = events u \<and>
        (d = deferred \<and> stored (machine u') = reread cache \<or>
         list_ex is_cache_failure d \<and> stored (machine u') = stored (machine u))) (\<lambda>_ _. False) u"
  unfolding save_deferred_def wp_bindE wp_tryE wp_returnE
  by (rule wp_mono [OF save_spec]) (auto simp: is_cache_failure_def)

end

text \<open>What the notification step may add: at most one handoff, of news not yet noted.\<close>

definition notified_from ::
    "'v semver \<Rightarrow> 'v PreparedUpdateCheck \<Rightarrow> 'v update_world \<Rightarrow> UpdateCheckCache \<Rightarrow> UpdatesDeferredFailure list \<Rightarrow>
      'v update_world \<Rightarrow> bool" where
  "notified_from sv p u cache d u' \<longleftrightarrow>
     files (machine u') = files (machine u) \<and>
     (list_ex is_cache_failure d \<longleftrightarrow> list_ex is_cache_failure (prep_deferred_failures p)) \<and>
     (prep_deferred_failures p \<noteq> [] \<longrightarrow> d \<noteq> []) \<and>
     (clean_cache (prep_cache p) \<longrightarrow> clean_cache cache) \<and>
     (let c = res_check_channel (prep_result p) in
       acked (events u') = acked (events u) \<and> last_noted cache = last_noted (prep_cache p) \<or>
       (\<exists>r. acked (events u') = r # acked (events u) \<and> req_check_channel r = c \<and>
          last_noted (prep_cache p) c \<noteq> Some (notice_key sv r) \<and>
          last_noted cache = (last_noted (prep_cache p))(c \<mapsto> notice_key sv r)))"

definition asks_news :: "'v semver \<Rightarrow> 'v PreparedUpdateCheck \<Rightarrow> 'v update_world \<Rightarrow> 'v update_world \<Rightarrow> bool" where
  "asks_news sv p u u' \<longleftrightarrow>
     files (machine u') = files (machine u) \<and>
     (asked (events u') = asked (events u) \<or>
      (\<exists>r. asked (events u') = r # asked (events u) \<and>
         ((res_check_channel (prep_result p) = Stable \<longrightarrow> rel_channel (res_latest (prep_result p)) = Stable) \<longrightarrow> news sv r)))"

lemma notification_request_fields:
  "notification_request result = Inr r \<longleftrightarrow>
     valid_release_url (rel_url (res_latest result)) \<and>
     r = \<lparr>req_check_channel = res_check_channel result, req_current_version = res_current_version result,
          req_current_channel = res_current_channel result, req_latest_version = rel_version (res_latest result),
          req_latest_channel = rel_channel (res_latest result), req_release_url = rel_url (res_latest result)\<rparr>"
  by (auto simp: notification_request_def request_new_def)

lemma wp_write_all [wp_rules]:
  "wp (write_all env text) Q E u =
     (case writer_fault env (trace (machine u)) of
        Some e \<Rightarrow> E (Updates_Io (IoError OtherKind e)) u
      | None \<Rightarrow> Q () (u\<lparr>machine := emit (Wrote text) (machine u)\<rparr>))"
  by (simp add: write_all_def wp_rules split: option.splits)

context update_engine
begin

lemma wp_show_notification:
  "wp (show_notification ctx result)
     (\<lambda>_ u'. \<exists>r out. notification_request result = Inr r \<and> u' = u\<lparr>events := NoticeHandedOver r (Inr out) # events u\<rparr>)
     (\<lambda>_ u'. u' = u \<or> (\<exists>r e. notification_request result = Inr r \<and> u' = u\<lparr>events := NoticeHandedOver r (Inl e) # events u\<rparr>)) u"
  unfolding show_notification_def wp_bindE wp_liftR
  by (auto split: sum.splits intro!: wp_mono [OF notifier_spec])

lemma wp_notify_step:
  assumes "entry (prep_cache p) (res_check_channel (prep_result p)) \<noteq> None"
  shows "wp (notify_step uh env ctx notify p)
     (\<lambda>(cache, d) u'. notified_from (versions uh) p u cache d u' \<and> asks_news (versions uh) p u u')
     (\<lambda>e u'. (\<exists>io. e = Updates_Io io) \<and> asks_news (versions uh) p u u') u"
proof (cases "evaluate_update_notification_policy (versions uh) notify
    (result_update_available (versions uh) (prep_result p)) (res_latest (prep_result p))
    (Option.bind (entry (prep_cache p) (res_check_channel (prep_result p))) entry_notification)")
  case (SkipNotification reason)
  then show ?thesis
    by (auto simp: notify_step_def wp_rules notified_from_def asks_news_def split: option.splits)
next
  case (NotifyUpdate reason)
  note policy = policy_notifies [OF NotifyUpdate]
  note kept = record_notification_keeps [OF assms]
  show ?thesis
    unfolding notify_step_def Let_def NotifyUpdate UpdateNotificationDecision.case wp_bindE wp_tryE
    by (rule wp_mono [OF wp_show_notification])
      (use policy in \<open>auto simp: wp_rules kept(1) intro: kept(2) simp: notified_from_def asks_news_def news_def notification_request_fields
         notice_key_def result_update_available_def is_cache_failure_def fun_eq_iff Let_def split: option.splits\<close>)
qed

end

section \<open>Runs and sessions\<close>

text \<open>
  What is kept from run to run: the cache remembers, for each channel, the last acknowledged
  notification, and consecutive ones are of different releases; and every notification asked for
  is news, with a clean cache to answer from when GitHub says that nothing changed.
\<close>

definition of_channel :: "UpdateChannel \<Rightarrow> 'v update_event list \<Rightarrow> 'v UpdateNotificationRequest list" where
  "of_channel c es = filter (\<lambda>r. req_check_channel r = c) (acked es)"

definition remembered ::
    "'v semver \<Rightarrow> UpdateCheckCache option \<Rightarrow> 'v update_event list \<Rightarrow> bool" where
  "remembered sv before es \<longleftrightarrow>
     (\<forall>c. distinct_adj (map (notice_key sv) (of_channel c es)) \<and>
        (\<forall>r rest. of_channel c es = r # rest \<longrightarrow>
           (\<exists>cache. before = Some cache \<and> last_noted cache c = Some (notice_key sv r))))"

definition all_news :: "'v semver \<Rightarrow> UpdateCheckCache option \<Rightarrow> 'v update_event list \<Rightarrow> bool" where
  "all_news sv before es \<longleftrightarrow>
     (\<forall>cache. before = Some cache \<longrightarrow> clean_cache cache) \<and> (\<forall>r\<in>set (asked es). news sv r)"

lemma remembered_same: "acked es' = acked es \<Longrightarrow> remembered sv before es' = remembered sv before es"
  by (simp add: remembered_def of_channel_def)

lemma remembered_step:
  assumes "remembered sv (Some cache) es" and "last_noted (prep_cache p) = last_noted cache"
    and "acked es' = acked es \<and> last_noted cache' = last_noted (prep_cache p) \<or>
      (\<exists>r. acked es' = r # acked es \<and> req_check_channel r = c \<and>
         last_noted (prep_cache p) c \<noteq> Some (notice_key sv r) \<and>
         last_noted cache' = (last_noted (prep_cache p))(c \<mapsto> notice_key sv r))"
  shows "remembered sv (Some cache') es'"
  using assms(3)
proof (elim disjE exE conjE)
  assume "acked es' = acked es" "last_noted cache' = last_noted (prep_cache p)"
  then show ?thesis using assms(1,2) by (simp add: remembered_def of_channel_def)
next
  fix r
  assume r: "acked es' = r # acked es" "req_check_channel r = c"
    and new: "last_noted (prep_cache p) c \<noteq> Some (notice_key sv r)"
    and upd: "last_noted cache' = (last_noted (prep_cache p))(c \<mapsto> notice_key sv r)"
  have same: "of_channel d es' = (if d = c then r # of_channel c es else of_channel d es)" for d
    using r by (simp add: of_channel_def)
  have "distinct_adj (map (notice_key sv) (r # of_channel c es))"
  proof (cases "of_channel c es")
    case (Cons r0 rest)
    then have "last_noted cache c = Some (notice_key sv r0)" "distinct_adj (map (notice_key sv) (r0 # rest))"
      using assms(1) [unfolded remembered_def, THEN spec, of c] by auto
    then show ?thesis using Cons new assms(2) by auto
  qed simp
  then show ?thesis using assms(1,2) upd same by (auto simp: remembered_def)
qed

text \<open>
  The hypothesis on \<open>serde\<close>: what it writes of a cache, it reads back as that cache. (Strings are byte
  strings here; a Rust string holds only valid UTF-8.)
\<close>

definition codec_faithful :: "'v update_host \<Rightarrow> bool" where
  "codec_faithful uh \<longleftrightarrow> (\<forall>c. \<exists>t. encode_cache uh c = Inr t \<and> decode_cache uh t = Inr c)"

lemma reread_faithful: "codec_faithful uh \<Longrightarrow> reread_cache uh c = Some c"
  unfolding codec_faithful_def reread_cache_def decoded_def
  by (metis (no_types, lifting) old.sum.simps(6))

definition run_keeps ::
    "'v semver \<Rightarrow> (world \<Rightarrow> UpdateCheckCache option) \<Rightarrow> 'v update_world \<Rightarrow> bool \<Rightarrow> 'v update_world \<Rightarrow> bool" where
  "run_keeps sv stored u ok u' \<longleftrightarrow>
     (ok \<and> remembered sv (stored (machine u)) (events u) \<longrightarrow> remembered sv (stored (machine u')) (events u')) \<and>
     (all_news sv (stored (machine u)) (events u) \<longrightarrow> all_news sv (stored (machine u')) (events u'))"

context update_engine
begin

lemma prepared_remembered:
  assumes "prepared_from (stored (machine u)) p" and "notified_from sv p u cache d u'"
    and "remembered sv (stored (machine u)) (events u)" and "\<not> list_ex is_cache_failure d"
  shows "remembered sv (Some cache) (events u')"
proof -
  have "prep_deferred_failures p = []"
    using assms(1,2,4) by (auto simp: prepared_from_def notified_from_def)
  then obtain c0 where c0: "stored (machine u) = Some c0" "last_noted (prep_cache p) = last_noted c0"
    using assms(1) by (auto simp: prepared_from_def)
  show ?thesis
    by (rule remembered_step [where p = p and c = "res_check_channel (prep_result p)" and cache = c0])
      (use assms(2,3) c0 in \<open>auto simp: notified_from_def Let_def\<close>)
qed

lemma keeps_no_notice:
  assumes "no_notice u u1" and "run_keeps sv stored u1 ok u'"
  shows "run_keeps sv stored u ok u'"
proof -
  have "remembered sv b (events u1) = remembered sv b (events u)"
    "all_news sv b (events u1) = all_news sv b (events u)" "machine u1 = machine u" for b
    using assms(1) by (simp_all add: no_notice_def all_news_def remembered_same [of "events u1" "events u"])
  then show ?thesis using assms(2) by (simp add: run_keeps_def)
qed

lemma keeps_written:
  "events u' = events u \<Longrightarrow> files (machine u') = files (machine u) \<Longrightarrow> run_keeps sv stored u ok u'"
  using stored_files [of "machine u'" "machine u"] by (simp add: run_keeps_def)

lemma keeps_asked:
  assumes "prepared_from (stored (machine u)) p" and "asks_news sv p u u'"
    and "stored (machine u'') = stored (machine u') \<or> (\<exists>cache. stored (machine u'') = Some cache \<and> (clean_cache (prep_cache p) \<longrightarrow> clean_cache cache))"
    and "events u'' = events u'"
    and "ok \<Longrightarrow> remembered sv (stored (machine u)) (events u) \<Longrightarrow> remembered sv (stored (machine u'')) (events u'')"
  shows "run_keeps sv stored u ok u''"
proof -
  have "stored (machine u') = stored (machine u)"
    using assms(2) by (intro stored_files) (simp add: asks_news_def)
  then have "all_news sv (stored (machine u'')) (events u'')" if "all_news sv (stored (machine u)) (events u)"
    using assms(1-4) that by (auto simp: all_news_def prepared_from_def asks_news_def)
  then show ?thesis using assms(5) by (simp add: run_keeps_def)
qed

lemma wp_notify_and_save:
  assumes reread: "\<And>c. reread c = Some c" and p: "prepared_from (stored (machine u)) p"
  shows "wp (bindE (notify_step uh env ctx notify p) (\<lambda>(cache, deferred).
          bindE (save_deferred ctx cache deferred) (\<lambda>deferred.
            if deferred \<noteq> [] then raiseE (DeferredFailures deferred) else returnE ())))
     (\<lambda>_ u'. run_keeps (versions uh) stored u True u')
     (\<lambda>e u'. run_keeps (versions uh) stored u (\<not> cache_trouble e) u') u"
proof (rule wp_bindI [OF wp_notify_step])
  show "entry (prep_cache p) (res_check_channel (prep_result p)) \<noteq> None" using p by (simp add: prepared_from_def)
next
  fix e u' assume "(\<exists>io. e = Updates_Io io) \<and> asks_news (versions uh) p u u'"
  then show "run_keeps (versions uh) stored u (\<not> cache_trouble e) u'"
    by (intro keeps_asked [OF p, of _ u']) auto
next
  fix cd u1 assume n: "(case cd of (cache, d) \<Rightarrow> \<lambda>u'. notified_from (versions uh) p u cache d u' \<and> asks_news (versions uh) p u u') u1"
  obtain cache d where cd: "cd = (cache, d)" by (cases cd)
  have kept: "run_keeps (versions uh) stored u (\<not> list_ex is_cache_failure d') u2"
    if "events u2 = events u1 \<and> (d' = d \<and> stored (machine u2) = reread cache \<or>
         list_ex is_cache_failure d' \<and> stored (machine u2) = stored (machine u1))" for d' u2
    by (rule keeps_asked [OF p, of _ u1])
      (use that n cd reread prepared_remembered [OF p, of "versions uh" cache d u1]
        in \<open>auto simp: notified_from_def\<close>)
  have saved: "wp (if d' \<noteq> [] then raiseE (DeferredFailures d') else returnE ())
     (\<lambda>_ u'. run_keeps (versions uh) stored u True u')
     (\<lambda>e u'. run_keeps (versions uh) stored u (\<not> cache_trouble e) u') u2"
    if "events u2 = events u1 \<and> (d' = d \<and> stored (machine u2) = reread cache \<or>
         list_ex is_cache_failure d' \<and> stored (machine u2) = stored (machine u1))" for d' u2
    using kept [OF that] by (cases "d' = []") (simp_all add: wp_rules)
  show "wp (case cd of (cache, deferred) \<Rightarrow> bindE (save_deferred ctx cache deferred) (\<lambda>deferred.
            if deferred \<noteq> [] then raiseE (DeferredFailures deferred) else returnE ()))
     (\<lambda>_ u'. run_keeps (versions uh) stored u True u')
     (\<lambda>e u'. run_keeps (versions uh) stored u (\<not> cache_trouble e) u') u1"
    unfolding cd prod.case by (rule wp_bindI [OF wp_save_deferred]) (use saved in blast)+
qed

lemma wp_run:
  assumes "\<And>c. reread c = Some c"
  shows "wp (run_updates_command_with_update_settings uh env ctx command)
     (\<lambda>_ u'. run_keeps (versions uh) stored u True u')
     (\<lambda>e u'. run_keeps (versions uh) stored u (\<not> cache_trouble e) u') u"
proof -
  let ?Q = "\<lambda>_ u'. run_keeps (versions uh) stored u True u'"
  let ?E = "\<lambda>e u'. run_keeps (versions uh) stored u (\<not> cache_trouble e) u'"
  have checked: "wp (bindE (prepare_update_check uh ctx) (\<lambda>prepared.
         thenE (write_all env (result_render (versions uh) (prep_result prepared)))
         (bindE (notify_step uh env ctx (command_notify command) prepared) (\<lambda>(cache, deferred).
          bindE (save_deferred ctx cache deferred) (\<lambda>deferred.
            if deferred \<noteq> [] then raiseE (DeferredFailures deferred) else returnE ()))))) ?Q ?E u"
  proof (rule wp_bindI [OF wp_prepare])
    fix p :: "'v PreparedUpdateCheck" and u1 assume "no_notice u u1 \<and> prepared_from (stored (machine u)) p"
    then have n: "no_notice u u1" and p: "prepared_from (stored (machine u1)) p" by (simp_all add: no_notice_def)
    let ?u = "u1\<lparr>machine := emit (Wrote (result_render (versions uh) (prep_result p))) (machine u1)\<rparr>"
    have w: "no_notice u u1'" if "events u1' = events u1" "machine u1' = machine u1" for u1'
      using n that by (simp add: no_notice_def)
    have s: "stored (machine ?u) = stored (machine u1)" by (rule stored_files) simp
    have k: "run_keeps (versions uh) stored u ok u'" if "run_keeps (versions uh) stored ?u ok u'" for ok u'
      by (rule keeps_no_notice [OF n]) (use that s in \<open>simp add: run_keeps_def\<close>)
    have "wp (bindE (notify_step uh env ctx (command_notify command) p) (\<lambda>(cache, deferred).
          bindE (save_deferred ctx cache deferred) (\<lambda>deferred.
            if deferred \<noteq> [] then raiseE (DeferredFailures deferred) else returnE ()))) ?Q ?E ?u"
      by (rule wp_mono [OF wp_notify_and_save [OF assms, of ?u p]]) (use p s k in simp_all)
    then show "wp (thenE (write_all env (result_render (versions uh) (prep_result p)))
         (bindE (notify_step uh env ctx (command_notify command) p) (\<lambda>(cache, deferred).
          bindE (save_deferred ctx cache deferred) (\<lambda>deferred.
            if deferred \<noteq> [] then raiseE (DeferredFailures deferred) else returnE ())))) ?Q ?E u1"
      unfolding wp_thenE wp_write_all
      using keeps_no_notice [OF n keeps_written [of u1 u1]] by (simp split: option.splits)
  qed (rule keeps_no_notice, assumption, rule keeps_written, simp_all)
  show ?thesis
    unfolding run_updates_command_with_update_settings_def wp_bindE [of "if _ then _ else _"]
    using checked keeps_written by (auto simp: wp_rules split: sum.splits option.splits)
qed

text \<open>A check of the GUI never notifies; what it reports as a warning is what the command line fails with.\<close>

lemma wp_gui_check:
  assumes "\<And>c. reread c = Some c"
  shows "wp (run_update_check uh ctx)
     (\<lambda>(_, warnings) u'. run_keeps (versions uh) stored u (\<not> list_ex is_cache_failure warnings) u')
     (\<lambda>e u'. run_keeps (versions uh) stored u True u') u"
  unfolding run_update_check_def
proof (rule wp_bindI [OF wp_prepare])
  fix p :: "'v PreparedUpdateCheck" and u1 assume "no_notice u u1 \<and> prepared_from (stored (machine u)) p"
  then have n: "no_notice u u1" and p: "prepared_from (stored (machine u1)) p" by (simp_all add: no_notice_def)
  have kept: "run_keeps (versions uh) stored u (\<not> list_ex is_cache_failure d) u2"
    if "events u2 = events u1 \<and> (d = prep_deferred_failures p \<and> stored (machine u2) = reread (prep_cache p) \<or>
         list_ex is_cache_failure d \<and> stored (machine u2) = stored (machine u1))" for d u2
  proof (rule keeps_no_notice [OF n], rule keeps_asked [OF p, of _ u1])
    show "asks_news (versions uh) p u1 u1" by (simp add: asks_news_def)
    show "remembered (versions uh) (stored (machine u2)) (events u2)"
      if "\<not> list_ex is_cache_failure d" "remembered (versions uh) (stored (machine u1)) (events u1)"
      using that \<open>events u2 = events u1 \<and> _\<close> prepared_remembered [OF p, of "versions uh" "prep_cache p" d u1] assms
      by (auto simp: notified_from_def prepared_from_def)
  qed (use that assms in auto)
  show "wp (bindE (save_deferred ctx (prep_cache p) (prep_deferred_failures p))
      (\<lambda>warnings. returnE (prep_result p, warnings)))
     (\<lambda>(_, warnings) u'. run_keeps (versions uh) stored u (\<not> list_ex is_cache_failure warnings) u')
     (\<lambda>e u'. run_keeps (versions uh) stored u True u') u1"
    by (rule wp_bindI [OF wp_save_deferred]) (use kept in \<open>auto simp: wp_returnE\<close>)
qed (rule keeps_no_notice, assumption, rule keeps_written, simp_all)

end

lemma context_parts:
  "ctx_load (context_from_env su settings at) = store_load_cache (set_host su) (set_env su) (cache_store_from_env (set_env su))"
  "ctx_save (context_from_env su settings at) = store_save_cache (set_host su) (set_env su) (cache_store_from_env (set_env su))"
  "ctx_notifier (context_from_env su settings at) = session_bus_handoff (versions (set_host su)) (set_link su)"
  by (simp_all add: context_from_env_def Let_def)

interpretation prog: update_engine "context_from_env su settings at"
    "stored_cache (set_host su) (cache_store_from_env (set_env su))" "reread_cache (set_host su)"
  unfolding update_engine_def context_parts
  by (intro conjI fs.update_store_axioms sb.update_notifier_axioms)

lemma wp_settings_from_env:
  "wp (settings_from_env su) (\<lambda>_ u'. u' = u) (\<lambda>e u'. u' = u) u"
  unfolding settings_from_env_def store_load_def
  by (auto simp: wp_rules split: option.splits sum.splits)

text \<open>What a finished run reports; the GUI turns deferred failures into warnings.\<close>

fun troubled :: "UpdatesError + unit \<Rightarrow> bool" where
  "troubled (Inl e) = cache_trouble e"
| "troubled (Inr _) = False"

fun gui_report :: "UpdatesError + 'v UpdateCheckResult \<times> UpdatesDeferredFailure list \<Rightarrow> UpdatesError + unit" where
  "gui_report (Inl e) = Inl e"
| "gui_report (Inr (_, warnings)) = (if warnings = [] then Inr () else Inl (DeferredFailures warnings))"

abbreviation program_cache :: "'v update_setup \<Rightarrow> world \<Rightarrow> UpdateCheckCache option" where
  "program_cache su \<equiv> stored_cache (set_host su) (cache_store_from_env (set_env su))"

lemma wp_run_updates_command:
  assumes "codec_faithful (set_host su)"
  shows "wp (run_updates_command su at command)
     (\<lambda>_ u'. run_keeps (versions (set_host su)) (program_cache su) u True u')
     (\<lambda>e u'. run_keeps (versions (set_host su)) (program_cache su) u (\<not> cache_trouble e) u') u"
proof -
  note written = prog.keeps_written [where u = u and su = su]
  have run: "wp (bindE (settings_from_env su) (\<lambda>settings.
          run_updates_command_with_update_settings (set_host su) (set_env su) (context_from_env su settings at) command))
     (\<lambda>_ u'. run_keeps (versions (set_host su)) (program_cache su) u True u')
     (\<lambda>e u'. run_keeps (versions (set_host su)) (program_cache su) u (\<not> cache_trouble e) u') u"
    by (rule wp_bindI [OF wp_settings_from_env]) (auto intro!: prog.wp_run reread_faithful assms written)
  show ?thesis
    unfolding run_updates_command_def
    using run by (auto simp: wp_rules written split: option.splits)
qed

lemma wp_check_for_updates:
  assumes "codec_faithful (set_host su)"
  shows "wp (check_for_updates su at)
     (\<lambda>(_, warnings) u'. run_keeps (versions (set_host su)) (program_cache su) u (\<not> list_ex is_cache_failure warnings) u')
     (\<lambda>e u'. run_keeps (versions (set_host su)) (program_cache su) u True u') u"
proof -
  note written = prog.keeps_written [where u = u and su = su]
  have run: "wp (bindE (settings_from_env su) (\<lambda>settings. run_update_check (set_host su) (context_from_env su settings at)))
     (\<lambda>(_, warnings) u'. run_keeps (versions (set_host su)) (program_cache su) u (\<not> list_ex is_cache_failure warnings) u')
     (\<lambda>e u'. run_keeps (versions (set_host su)) (program_cache su) u True u') u"
    by (rule wp_bindI [OF wp_settings_from_env]) (auto intro!: prog.wp_gui_check reread_faithful assms written)
  then show ?thesis
    unfolding check_for_updates_def by (simp add: wp_rules written)
qed

text \<open>
  A session: runs of the command line and checks of the GUI one after the other in any order, each with
  the settings, the version and the answers of its moment, while other programs do what they like except
  to the cache file. Checks that overlap are not covered: the code takes no lock between load and save. The list holds what the runs reported, newest first.
\<close>

inductive update_session ::
    "'v update_host \<Rightarrow> DefaultUpdateCacheStore \<Rightarrow> 'v update_world \<Rightarrow> (UpdatesError + unit) list \<Rightarrow> 'v update_world \<Rightarrow> bool"
  for uh st u where
  session_start: "update_session uh st u [] u"
| session_command:
    "update_session uh st u rs v \<Longrightarrow> set_host su = uh \<Longrightarrow> cache_store_from_env (set_env su) = st \<Longrightarrow>
     run_updates_command su at command v = (r, v') \<Longrightarrow> update_session uh st u (r # rs) v'"
| session_gui:
    "update_session uh st u rs v \<Longrightarrow> set_host su = uh \<Longrightarrow> cache_store_from_env (set_env su) = st \<Longrightarrow>
     check_for_updates su at v = (r, v') \<Longrightarrow> update_session uh st u (gui_report r # rs) v'"
| session_others:
    "update_session uh st u rs v \<Longrightarrow> (\<forall>p. st = FileStore p \<longrightarrow> files w p = files (machine v) p) \<Longrightarrow>
     update_session uh st u rs (v\<lparr>machine := w\<rparr>)"

lemma session_keeps:
  assumes "update_session uh st u rs v" and "codec_faithful uh" and "events u = []"
  shows "((\<forall>r\<in>set rs. \<not> troubled r) \<longrightarrow> remembered (versions uh) (stored_cache uh st (machine v)) (events v)) \<and>
    ((\<forall>cache. stored_cache uh st (machine u) = Some cache \<longrightarrow> clean_cache cache) \<longrightarrow>
       all_news (versions uh) (stored_cache uh st (machine v)) (events v))"
  using assms(1)
proof induction
  case session_start
  then show ?case using assms(3) by (simp add: remembered_def of_channel_def all_news_def)
next
  case (session_command rs v su at command r v')
  have "run_keeps (versions uh) (stored_cache uh st) v (\<not> troubled r) v'"
    using wp_result [OF wp_run_updates_command session_command.hyps(4)] assms(2) session_command.hyps
    by (cases r) auto
  then show ?case using session_command.IH by (auto simp: run_keeps_def)
next
  case (session_gui rs v su at r v')
  have "run_keeps (versions uh) (stored_cache uh st) v (\<not> troubled (gui_report r)) v'"
    using wp_result [OF wp_check_for_updates session_gui.hyps(4)] assms(2) session_gui.hyps
    by (cases r rule: gui_report.cases) (auto simp: run_keeps_def split: if_splits)
  then show ?case using session_gui.IH by (auto simp: run_keeps_def)
next
  case (session_others rs v w)
  then have "stored_cache uh st w = stored_cache uh st (machine v)" by (cases st) auto
  then show ?case using session_others.IH by simp
qed

text \<open>
  C14. A release is announced once. In any session of runs one after the other, in which nobody else
  changes the cache file and no run reports trouble with the cache or with its output, two notifications for the same channel that follow each other, and that the
  session service acknowledged, are for different releases (version, channel or page), whatever
  GitHub answers and however manual checks, background checks and GUI checks mix. So a timer that
  finds the same release every day shows it once.
\<close>

theorem release_announced_once:
  assumes "update_session uh st u rs v" and "codec_faithful uh" and "events u = []"
    and "\<forall>r\<in>set rs. \<not> troubled r"
  shows "distinct_adj (map (notice_key (versions uh)) (of_channel c (events v)))"
  using session_keeps [OF assms(1-3)] assms(4) by (simp add: remembered_def)

section \<open>Whose news\<close>

text \<open>The request a run hands over is about the version that runs and the channel its settings say.\<close>

definition asked_by :: "'v UpdateCheckResult \<Rightarrow> 'v update_world \<Rightarrow> 'v update_world \<Rightarrow> bool" where
  "asked_by result u u' \<longleftrightarrow>
     asked (events u') = asked (events u) \<or>
     (\<exists>r. asked (events u') = r # asked (events u) \<and>
        req_current_version r = res_current_version result \<and> req_check_channel r = res_check_channel result)"

definition result_for :: "'v update_host \<Rightarrow> 'v UpdatesRunContext \<Rightarrow> 'v UpdateCheckResult \<Rightarrow> bool" where
  "result_for uh ctx result \<longleftrightarrow>
     sv_parse (versions uh) (vi_version (ctx_version ctx)) = Inr (res_current_version result) \<and>
     settings_channel (ctx_settings ctx) = Inr (res_check_channel result)"

lemma wp_check_for:
  "wp (check_updates_with_cache uh channel current cache t)
     (\<lambda>(result, _) u'. asked (events u') = asked (events u) \<and>
        sv_parse (versions uh) (vi_version current) = Inr (res_current_version result) \<and> res_check_channel result = channel)
     (\<lambda>_ u'. asked (events u') = asked (events u)) u"
  unfolding check_updates_with_cache_def fetch_latest_release_def
  by (auto simp: wp_rules Let_def split: sum.splits)

context update_engine
begin

lemma wp_prepare_for:
  "wp (prepare_update_check uh ctx)
     (\<lambda>p u'. asked (events u') = asked (events u) \<and> result_for uh ctx (prep_result p))
     (\<lambda>_ u'. asked (events u') = asked (events u)) u"
proof -
  have checked: "wp (bindE (check_updates_with_cache uh channel (ctx_version ctx) cache (ctx_now_unix_seconds ctx))
         (\<lambda>(result, cache). returnE \<lparr>prep_result = result, prep_cache = cache, prep_deferred_failures = d\<rparr>))
       (\<lambda>p u'. asked (events u') = asked (events u) \<and> result_for uh ctx (prep_result p))
       (\<lambda>_ u'. asked (events u') = asked (events u)) u"
    if "settings_channel (ctx_settings ctx) = Inr channel" for channel cache d
    by (rule wp_bindI [OF wp_check_for]) (use that in \<open>auto simp: wp_rules result_for_def\<close>)
  show ?thesis
    unfolding prepare_update_check_def wp_bindE [of "liftR _"] wp_liftR
  proof (cases "settings_channel (ctx_settings ctx)")
    case (Inr channel)
    then show "case settings_channel (ctx_settings ctx) of Inl e \<Rightarrow> asked (events u) = asked (events u)
      | Inr channel \<Rightarrow> wp (bindE (tryE (ctx_load ctx)) (\<lambda>loaded.
       let cache = (case loaded of Inr cache \<Rightarrow> cache | Inl _ \<Rightarrow> cache_default);
           deferred = (case loaded of Inr _ \<Rightarrow> [] | Inl err \<Rightarrow> [CacheFailure err])
       in
       bindE (check_updates_with_cache uh channel (ctx_version ctx) cache (ctx_now_unix_seconds ctx))
         (\<lambda>(result, cache).
           returnE \<lparr>prep_result = result, prep_cache = cache, prep_deferred_failures = deferred\<rparr>)))
       (\<lambda>p u'. asked (events u') = asked (events u) \<and> result_for uh ctx (prep_result p))
       (\<lambda>_ u'. asked (events u') = asked (events u)) u"
      unfolding Inr sum.case wp_bindE [of "tryE _"] wp_tryE Let_def
      by (intro wp_mono [OF load_spec]) (auto intro!: checked Inr)
  qed simp
qed

lemma wp_notify_for:
  "wp (notify_step uh env ctx notify p) (\<lambda>_. asked_by (prep_result p) u) (\<lambda>_. asked_by (prep_result p) u) u"
proof (cases "evaluate_update_notification_policy (versions uh) notify
    (result_update_available (versions uh) (prep_result p)) (res_latest (prep_result p))
    (Option.bind (entry (prep_cache p) (res_check_channel (prep_result p))) entry_notification)")
  case (SkipNotification reason)
  then show ?thesis by (auto simp: notify_step_def wp_rules asked_by_def split: option.splits)
next
  case (NotifyUpdate reason)
  show ?thesis
    unfolding notify_step_def Let_def NotifyUpdate UpdateNotificationDecision.case wp_bindE wp_tryE
    by (rule wp_mono [OF wp_show_notification])
      (auto simp: wp_rules asked_by_def notification_request_fields split: option.splits)
qed

lemma wp_run_for:
  "wp (run_updates_command_with_update_settings uh env ctx command)
     (\<lambda>_ u'. \<exists>result. asked_by result u u' \<and> (asked (events u') \<noteq> asked (events u) \<longrightarrow> result_for uh ctx result))
     (\<lambda>_ u'. \<exists>result. asked_by result u u' \<and> (asked (events u') \<noteq> asked (events u) \<longrightarrow> result_for uh ctx result)) u"
proof -
  let ?Q = "\<lambda>_ u'. \<exists>result. asked_by result u u' \<and> (asked (events u') \<noteq> asked (events u) \<longrightarrow> result_for uh ctx result)"
  have none: "?Q x u'" if "asked (events u') = asked (events u)" for x u' using that by (simp add: asked_by_def)
  have none': "\<exists>result. asked_by result u u'" if "asked (events u') = asked (events u)" for u' using that by (simp add: asked_by_def)
  have saved: "wp (bindE (save_deferred ctx cache deferred) (\<lambda>deferred.
            if deferred \<noteq> [] then raiseE (DeferredFailures deferred) else returnE ())) ?Q ?Q u2"
    if "asked_by (prep_result p) u u2" "result_for uh ctx (prep_result p)" for p cache deferred u2
    by (rule wp_bindI [OF wp_save_deferred]) (use that in \<open>auto simp: wp_rules asked_by_def\<close>)
  have notified: "wp (bindE (notify_step uh env ctx (command_notify command) p) (\<lambda>(cache, deferred).
          bindE (save_deferred ctx cache deferred) (\<lambda>deferred.
            if deferred \<noteq> [] then raiseE (DeferredFailures deferred) else returnE ()))) ?Q ?Q u1"
    if "asked (events u1) = asked (events u)" "result_for uh ctx (prep_result p)" for p u1
    by (rule wp_bindI [OF wp_notify_for]) (use that saved in \<open>auto simp: asked_by_def [of _ u1] asked_by_def [of _ u]\<close>)
  have "wp (bindE (prepare_update_check uh ctx) (\<lambda>prepared.
         thenE (write_all env (result_render (versions uh) (prep_result prepared)))
         (bindE (notify_step uh env ctx (command_notify command) prepared) (\<lambda>(cache, deferred).
          bindE (save_deferred ctx cache deferred) (\<lambda>deferred.
            if deferred \<noteq> [] then raiseE (DeferredFailures deferred) else returnE ()))))) ?Q ?Q u"
    by (rule wp_bindI [OF wp_prepare_for]) (auto simp: wp_thenE wp_write_all none' intro!: notified split: option.splits)
  then show ?thesis
    unfolding run_updates_command_with_update_settings_def wp_bindE [of "if _ then _ else _"]
    by (auto simp: wp_rules none' split: sum.splits option.splits)
qed

end

lemma update_settings_registered:
  "get_by_name ''updates.auto_check'' = Inr setting_updates_AUTO_CHECK"
  "get_by_name ''updates.channel'' = Inr setting_updates_CHANNEL"
  using registry_by_name [of setting_updates_AUTO_CHECK] registry_by_name [of setting_updates_CHANNEL]
  by (simp_all add: SETTINGS_REGISTRY_def) (simp_all add: setting_updates_AUTO_CHECK_def setting_updates_CHANNEL_def)

lemma as_enum_Some: "as_enum v = Some s \<longleftrightarrow> v = EnumValue s"
  by (cases v) auto

lemma settings_channel_value:
  assumes "settings_channel store = Inr c"
  shows "eff_value (effective_definition store setting_updates_CHANNEL) = Some (EnumValue (update_channel_as_str c))"
  using assms
  by (auto simp: settings_channel_def required_enum_setting_def and_then_def effective_by_name_def update_settings_registered
      required_value_def as_enum_Some split: sum.splits option.splits if_splits)

definition announced :: "'v update_setup \<Rightarrow> 'v update_world \<Rightarrow> 'v update_world \<Rightarrow> bool" where
  "announced su u u' \<longleftrightarrow> asked (events u') = asked (events u) \<or>
     (\<exists>r store. asked (events u') = r # asked (events u) \<and>
        sv_parse (versions (set_host su)) (vi_version (set_version su)) = Inr (req_current_version r) \<and>
        settings_from_env su u = (Inr store, u) \<and> settings_channel store = Inr (req_check_channel r))"

lemma wp_run_command_for:
  "wp (run_updates_command su at command) (\<lambda>_. announced su u) (\<lambda>_. announced su u) u"
proof -
  have settings: "wp (settings_from_env su) (\<lambda>store u'. u' = u \<and> settings_from_env su u = (Inr store, u)) (\<lambda>_ u'. u' = u) u"
    using wp_settings_from_env [of su u] by (auto simp: wp_def split: prod.splits sum.splits)
  have run: "wp (run_updates_command_with_update_settings (set_host su) (set_env su) (context_from_env su store at) command)
      (\<lambda>_. announced su u) (\<lambda>_. announced su u) u" if "settings_from_env su u = (Inr store, u)" for store
    by (rule wp_mono [OF prog.wp_run_for])
      (use that in \<open>auto simp: announced_def asked_by_def result_for_def context_from_env_def Let_def\<close>)
  have "wp (bindE (settings_from_env su) (\<lambda>settings.
          run_updates_command_with_update_settings (set_host su) (set_env su) (context_from_env su settings at) command))
      (\<lambda>_. announced su u) (\<lambda>_. announced su u) u"
    by (rule wp_bindI [OF settings]) (use run in \<open>auto simp: announced_def\<close>)
  then show ?thesis
    unfolding run_updates_command_def by (auto simp: wp_rules announced_def split: option.splits)
qed

text \<open>
  C16. Every notification is news. After any session, and whatever fails on the way, a run of the command
  hands over at most one notification, and that is for a version newer than the one that is running,
  found on the channel that the settings say at that moment; it carries an http or https address, and on
  the stable channel it is for a stable release: also when GitHub answers that nothing changed and
  the release comes from the cache, provided the cache the session found was not polluted.
\<close>

theorem notifications_are_news:
  assumes "update_session uh st u rs v" and "codec_faithful uh" and "events u = []"
    and "\<forall>cache. stored_cache uh st (machine u) = Some cache \<longrightarrow> clean_cache cache"
    and "set_host su = uh" and "cache_store_from_env (set_env su) = st"
    and "run_updates_command su at command v = (x, v')" and "asked (events v') \<noteq> asked (events v)"
  shows "\<exists>r version store. asked (events v') = r # asked (events v) \<and>
    sv_parse (versions uh) (vi_version (set_version su)) = Inr version \<and>
    sv_less (versions uh) version (req_latest_version r) \<and>
    settings_from_env su v = (Inr store, v) \<and>
    eff_value (effective_definition store setting_updates_CHANNEL) = Some (EnumValue (update_channel_as_str (req_check_channel r))) \<and>
    valid_release_url (req_release_url r) \<and>
    (req_check_channel r = Stable \<longrightarrow> req_latest_channel r = Stable)"
proof -
  have "announced su v v'"
    using wp_result [OF wp_run_command_for assms(7)] by (cases x) simp_all
  then obtain r store where r: "asked (events v') = r # asked (events v)"
      "sv_parse (versions uh) (vi_version (set_version su)) = Inr (req_current_version r)"
      "settings_from_env su v = (Inr store, v)" "settings_channel store = Inr (req_check_channel r)"
    using assms(5,8) by (auto simp: announced_def)
  have "update_session uh st u (x # rs) v'" by (rule session_command [OF assms(1,5,6,7)])
  from session_keeps [OF this assms(2,3)] assms(4)
  have "all_news (versions uh) (stored_cache uh st (machine v')) (events v')" by blast
  then have "news (versions uh) r" using r(1) by (simp add: all_news_def)
  with r settings_channel_value [OF r(4)] show ?thesis by (auto simp: news_def)
qed

section \<open>A concrete session\<close>

definition example_semver :: "nat semver" where
  "example_semver = \<lparr>sv_parse = (\<lambda>s. case parse_unsigned 10 1000 s of Some n \<Rightarrow> Inr n | None \<Rightarrow> Inl ''invalid''),
     sv_show = show_nat, sv_less = (<)\<rparr>"

definition example_release :: GitHubRelease where
  "example_release = \<lparr>gh_tag_name = ''v3'', gh_html_url = ''https://r/3'', gh_draft = False, gh_prerelease = False, gh_assets = []\<rparr>"

definition example_update_host :: "nat update_host" where
  "example_update_host =
     \<lparr>versions = example_semver,
      http_call = (\<lambda>_ _. HttpResponse 200 (Some ''e'') \<lparr>body_bytes = ''r'', body_error = None\<rparr>),
      utf8_message = (\<lambda>_. ''invalid''), decode_release = (\<lambda>_. Inr example_release),
      decode_releases = (\<lambda>_. Inr [example_release]), decode_cache = decode_whole, encode_cache = (\<lambda>c. Inr (enc_cache c))\<rparr>"

definition example_update_env :: environment where
  "example_update_env = calm\<lparr>env_var := (\<lambda>name. if name = ''HOME'' then Some ''/h'' else None)\<rparr>"

definition example_setup :: "nat update_setup" where
  "example_setup =
     \<lparr>set_host = example_update_host, set_env = example_update_env, set_config_host = example_host,
      set_config_path = Inr ''/c/config.env'',
      set_link = \<lparr>link_connect = (\<lambda>_. Inr ()), link_call = (\<lambda>_ _. Inr (BusReply [BusString ''sent''])),
                  link_error_text = (\<lambda>_. [])\<rparr>,
      set_version = \<lparr>vi_version = ''2'', vi_channel = StableBuild, vi_commit = None\<rparr>,
      set_ownership = Bundle\<rparr>"

definition example_update_world :: "nat update_world" where
  "example_update_world = \<lparr>events = [], machine = fresh_world\<rparr>"

lemma example_codec: "codec_faithful example_update_host"
  by (simp add: codec_faithful_def example_update_host_def)

definition example_request :: "nat UpdateNotificationRequest" where
  "example_request = \<lparr>req_check_channel = Stable, req_current_version = 2, req_current_channel = StableBuild,
     req_latest_version = 3, req_latest_channel = Stable, req_release_url = ''https://r/3''\<rparr>"

lemmas update_setting_simps = required_enum_setting_def effective_by_name_def update_settings_registered
  effective_definition_def effective_saved_def raw_setting_value_def store_of_def required_value_def and_then_def

lemma example_settings:
  "automatic_checks_enabled (store_of p None None) = Inr True"
  "settings_channel (store_of p None None) = Inr Stable"
  by (simp_all add: automatic_checks_enabled_def settings_channel_def update_setting_simps
      setting_updates_AUTO_CHECK_def setting_updates_CHANNEL_def)

lemma example_github:
  "github_answer example_update_host url (http_call example_update_host request h) = Inr (ReleaseBody ''r'' (Some ''e''))"
  by (simp add: github_answer_def example_update_host_def read_ureq_response_body_def valid_utf8_def MAX_GITHUB_RESPONSE_BYTES_def)

lemma example_latest:
  "parse_latest example_update_host Stable body =
     Inr \<lparr>rel_version = 3, rel_channel = Stable, rel_url = ''https://r/3'', rel_tag_name = ''v3'', rel_assets = []\<rparr>"
  "sv_parse (versions example_update_host) ''2'' = Inr 2"
  by (simp_all add: parse_latest_def example_update_host_def release_info_from_api_release_def example_release_def
      parse_release_version_def example_semver_def parse_unsigned_def digit_value_def)

lemma example_path: "cache_store_from_env example_update_env = FileStore ''/h/.cache/lg-buddy/update-check.json''"
  by (simp add: cache_store_from_env_def resolve_update_cache_path_from_env_def resolve_update_cache_path_def
      non_empty_env_path_def example_update_env_def path_join_def CACHE_DIR_NAME_def UPDATE_CHECK_CACHE_FILE_NAME_def)

abbreviation example_latest_release :: "nat ReleaseInfo" where
  "example_latest_release \<equiv>
     \<lparr>rel_version = 3, rel_channel = Stable, rel_url = ''https://r/3'', rel_tag_name = ''v3'', rel_assets = []\<rparr>"

lemma example_hosts [simp]:
  "set_host example_setup = example_update_host" "set_env example_setup = example_update_env"
  "set_config_host example_setup = example_host" "set_config_path example_setup = Inr ''/c/config.env''"
  "vi_version (set_version example_setup) = ''2''" "vi_channel (set_version example_setup) = StableBuild"
  "externally_updated (set_ownership example_setup) = False"
  "versions example_update_host = example_semver"
  "sv_less example_semver = (<)"
  "writer_fault example_update_env h = None" "file_fault example_update_env op p h = None"
  by (simp_all add: example_setup_def example_update_host_def example_update_env_def example_semver_def)

lemma example_handoff:
  "session_bus_handoff example_semver (set_link example_setup) r u =
     (Inr Sent, u\<lparr>events := NoticeHandedOver r (Inr Sent) # events u\<rparr>)"
  by (simp add: session_bus_handoff_def example_setup_def show_update_notification_over_session_bus_def bindE_def mapErrE_def liftR_def
      notification_outcome_parse_def Let_def)

lemma wp_example_handoff:
  "wp (session_bus_handoff example_semver (set_link example_setup) r) Q E u =
     Q Sent (u\<lparr>events := NoticeHandedOver r (Inr Sent) # events u\<rparr>)"
  by (simp add: wp_def example_handoff)

lemma example_request_new:
  "request_new Stable 2 StableBuild 3 Stable ''https://r/3'' = Inr example_request"
proof -
  have "valid_release_url ''https://r/3''" by code_simp
  then show ?thesis by (simp add: request_new_def example_request_def)
qed

lemma example_cache_loads:
  assumes "stored_cache example_update_host (FileStore p) (machine u) = Some c"
  shows "file_store_load example_update_host example_update_env p u = (Inr c, u)"
  by (rule wp_eqI) (use assms in \<open>auto simp: file_store_load_def wp_rules decoded_def split: option.splits sum.splits\<close>)

definition EXAMPLE_CACHE :: path where "EXAMPLE_CACHE = ''/h/.cache/lg-buddy/update-check.json''"

lemma example_saves:
  assumes "files (machine u) (atomic_temp_path example_update_env EXAMPLE_CACHE 0) = None"
  shows "wp (file_store_save example_update_host example_update_env EXAMPLE_CACHE c)
    (\<lambda>_ u'. events u' = events u) (\<lambda>_ _. False) u"
proof -
  have e: "encode_cache example_update_host c = Inr (enc_cache c)" by (simp add: example_update_host_def)
  show ?thesis
    using assms
    by (simp add: file_store_save_def e wp_rules atomic_write_file_def upt_conv_Cons write_and_rename_def Let_def)
qed

lemma example_context:
  "ctx_version (context_from_env example_setup s t) = set_version example_setup"
  "ctx_settings (context_from_env example_setup s t) = s"
  "ctx_load (context_from_env example_setup s t) = file_store_load example_update_host example_update_env EXAMPLE_CACHE"
  "ctx_save (context_from_env example_setup s t) = file_store_save example_update_host example_update_env EXAMPLE_CACHE"
  "ctx_notifier (context_from_env example_setup s t) = session_bus_handoff example_semver (set_link example_setup)"
  by (simp_all add: context_from_env_def example_path EXAMPLE_CACHE_def Let_def fun_eq_iff)

lemma example_settings_load:
  assumes "files (machine u) ''/c/config.env'' = None"
  shows "settings_from_env example_setup u = (Inr (store_of ''/c/config.env'' None None), u)"
  by (rule wp_eqI)
    (use assms in \<open>simp add: settings_from_env_def store_load_def wp_rules example_host_def load_declarations_def
      wp_def [of "\<lambda>w. (Inr None, w)"]\<close>)

lemma example_check:
  "\<exists>cache u'. check_updates_with_cache example_update_host Stable (set_version example_setup) cache_default t u =
     (Inr (\<lparr>res_check_channel = Stable, res_current_version = 2, res_current_channel = StableBuild,
            res_latest = example_latest_release\<rparr>, cache), u') \<and>
     machine u' = machine u \<and> asked (events u') = asked (events u) \<and> acked (events u') = acked (events u) \<and>
     entry cache Stable \<noteq> None \<and> last_noted cache = last_noted cache_default"
proof -
  have "wp (check_updates_with_cache example_update_host Stable (set_version example_setup) cache_default t)
     (\<lambda>(r, cache) u'. r = \<lparr>res_check_channel = Stable, res_current_version = 2, res_current_channel = StableBuild,
            res_latest = example_latest_release\<rparr>) (\<lambda>_ _. False) u"
    by (simp add: check_updates_with_cache_def fetch_latest_release_def wp_rules Let_def example_github
        latest_from_response_def example_latest [unfolded example_hosts] and_then_def)
  from wp_conj [OF this wp_check_updates_with_cache [of example_update_host Stable "set_version example_setup" cache_default t u]]
  show ?thesis
    by (cases "check_updates_with_cache example_update_host Stable (set_version example_setup) cache_default t u")
      (auto simp: wp_def no_notice_def split: sum.splits)
qed

lemma example_prepared:
  assumes "files (machine u) EXAMPLE_CACHE = None"
  shows "\<exists>p u'. prepare_update_check example_update_host (context_from_env example_setup (store_of path None None) t) u = (Inr p, u') \<and>
     prep_result p = \<lparr>res_check_channel = Stable, res_current_version = 2, res_current_channel = StableBuild,
            res_latest = example_latest_release\<rparr> \<and> prep_deferred_failures p = [] \<and>
     machine u' = machine u \<and> asked (events u') = asked (events u) \<and> acked (events u') = acked (events u) \<and>
     last_noted (prep_cache p) = last_noted cache_default"
proof -
  obtain cache u' where c: "check_updates_with_cache example_update_host Stable (set_version example_setup) cache_default
      (ctx_now_unix_seconds (context_from_env example_setup (store_of path None None) t)) u =
     (Inr (\<lparr>res_check_channel = Stable, res_current_version = 2, res_current_channel = StableBuild,
            res_latest = example_latest_release\<rparr>, cache), u')" "machine u' = machine u"
     "asked (events u') = asked (events u)" "acked (events u') = acked (events u)" "last_noted cache = last_noted cache_default"
    using example_check by blast
  show ?thesis
    using c example_cache_loads [of EXAMPLE_CACHE u cache_default] assms
    by (simp add: prepare_update_check_def example_context example_settings bindE_def liftR_def tryE_def Let_def returnE_def)
qed

lemma example_run:
  "wp (run_updates_command example_setup t BackgroundCheck)
     (\<lambda>_ u'. asked (events u') = [example_request] \<and> acked (events u') = [example_request]) (\<lambda>_ _. False) example_update_world"
proof -
  let ?s = "store_of ''/c/config.env'' None None"
  obtain p u where p: "prepare_update_check example_update_host (context_from_env example_setup ?s t) example_update_world = (Inr p, u)"
    "prep_result p = \<lparr>res_check_channel = Stable, res_current_version = 2, res_current_channel = StableBuild,
            res_latest = example_latest_release\<rparr>" "prep_deferred_failures p = []"
    and u: "machine u = fresh_world" "asked (events u) = []" "acked (events u) = []"
    and n: "last_noted (prep_cache p) = last_noted cache_default"
    using example_prepared [of example_update_world "''/c/config.env''" t] by (auto simp: example_update_world_def)
  have policy: "evaluate_update_notification_policy example_semver True True example_latest_release
      (Option.bind (entry (prep_cache p) Stable) entry_notification) = NotifyUpdate NewRelease"
    using n [THEN fun_cong, of Stable]
    by (simp add: evaluate_update_notification_policy_def last_noted_def cache_default_def)
  have prep: "wp (prepare_update_check example_update_host (context_from_env example_setup ?s t)) Q E example_update_world = Q p u" for Q E
    using p(1) by (simp add: wp_def)
  have run: "wp (run_updates_command_with_update_settings example_update_host example_update_env
        (context_from_env example_setup ?s t) BackgroundCheck)
     (\<lambda>_ u'. asked (events u') = [example_request] \<and> acked (events u') = [example_request]) (\<lambda>_ _. False) example_update_world"
    unfolding run_updates_command_with_update_settings_def
    by (simp add: example_context example_settings wp_rules prep u notify_step_def p(2,3) policy [unfolded entry.simps]
       result_update_available_def Let_def show_notification_def notification_request_def example_request_new
       save_deferred_def wp_example_handoff)
      (rule wp_mono [OF example_saves], simp_all add: u wp_rules)
  show ?thesis
    unfolding run_updates_command_def
    using run example_settings_load [of example_update_world]
    by (simp add: wp_def bindE_def example_update_world_def)
qed

lemma example_session:
  obtains v where "update_session example_update_host (FileStore EXAMPLE_CACHE) example_update_world [Inr ()] v"
    and "asked (events v) = [example_request]" and "acked (events v) = [example_request]"
proof -
  obtain r v where r: "run_updates_command example_setup 7 BackgroundCheck example_update_world = (r, v)" by fastforce
  have "r = Inr ()" "asked (events v) = [example_request]" "acked (events v) = [example_request]"
    using wp_result [OF example_run r] by (auto split: sum.splits)
  moreover have "update_session example_update_host (FileStore EXAMPLE_CACHE) example_update_world [r] v"
    by (rule session_command [OF session_start _ _ r]) (simp_all add: example_path EXAMPLE_CACHE_def)
  ultimately show ?thesis using that by simp
qed

theorem release_announced_once_witness:
  "\<exists>v. update_session example_update_host (FileStore EXAMPLE_CACHE) example_update_world [Inr ()] v \<and>
     of_channel Stable (events v) = [example_request] \<and>
     distinct_adj (map (notice_key (versions example_update_host)) (of_channel Stable (events v)))"
proof -
  obtain v where v: "update_session example_update_host (FileStore EXAMPLE_CACHE) example_update_world [Inr ()] v"
    "acked (events v) = [example_request]" using example_session by metis
  have "distinct_adj (map (notice_key (versions example_update_host)) (of_channel Stable (events v)))"
    by (rule release_announced_once [OF v(1) example_codec]) (simp_all add: example_update_world_def)
  then show ?thesis using v by (auto simp: of_channel_def example_request_def)
qed

theorem notifications_are_news_witness:
  "\<exists>x v. run_updates_command example_setup 7 BackgroundCheck example_update_world = (x, v) \<and>
     asked (events v) = [example_request] \<and> req_current_version example_request < req_latest_version example_request"
proof -
  obtain x v where r: "run_updates_command example_setup 7 BackgroundCheck example_update_world = (x, v)" by fastforce
  then have a: "asked (events v) = [example_request]" using wp_result [OF example_run r] by (auto split: sum.splits)
  obtain n where "n < req_latest_version example_request" "sv_parse example_semver ''2'' = Inr n"
    using notifications_are_news [OF session_start example_codec _ _ _ _ r, of "FileStore EXAMPLE_CACHE"] a
    by (auto simp: example_update_world_def example_path EXAMPLE_CACHE_def)
  then show ?thesis using r a example_latest(2) by (auto simp: example_request_def)
qed

end
