(* ===== verification/Notices_Proofs.thy ===== *)
theory Notices_Proofs
  imports Update_Notices
begin

text \<open>
  Properties of the update notifications: a request survives the bus, and what the buttons of a
  notification do is earned, by a notification this service showed and by a sender the bus vouches
  for.
\<close>

section \<open>The request on the bus\<close>

lemma from_to_bus_body:
  assumes "semver_prints sv" and "valid_release_url (req_release_url r)"
  shows "from_bus_body sv (to_bus_body sv r) = Inr r"
proof -
  have channels: "parse_update_channel (update_channel_as_str c) = Inr c"
    "parse_release_channel (release_channel_as_str b) = Inr b" for b c
    by (cases c; simp add: parse_update_channel_def) (cases b; simp add: parse_release_channel_def)
  have versions: "parse_version sv label (sv_show sv v) = Inr v" for label v
    using assms(1) by (simp add: parse_version_def semver_prints_def)
  show ?thesis
    using assms(2)
    by (simp add: from_bus_body_def to_bus_body_def to_dbus_fields_def from_dbus_fields_def channels versions
        and_then_def request_new_def)
qed

section \<open>The dispatcher\<close>

lemma wp_desktopE [wp_rules]:
  "wp (desktopE answer event) Q E s =
     (let r = answer (desktop_log s); s' = s\<lparr>desktop_log := event r # desktop_log s\<rparr> in
      case r of Inl e \<Rightarrow> E e s' | Inr a \<Rightarrow> Q a s')"
  by (simp add: wp_def desktopE_def Let_def split: sum.splits)

lemma wp_printE [wp_rules]: "wp (printE line) Q E s = Q () (s\<lparr>desktop_log := Printed line # desktop_log s\<rparr>)"
  by (simp add: printE_def wp_rules)

text \<open>The events that act on the user's behalf, and how many of them a log holds.\<close>

fun acts :: "desktop_event \<Rightarrow> bool" where
  "acts (OpenerRan _ _) = True"
| "acts (ChecksDisabled _) = True"
| "acts _ = False"

definition actions_in :: "desktop_event list \<Rightarrow> nat" where
  "actions_in es = length (filter acts es)"

definition held :: "'v session_service \<Rightarrow> 'v UpdateNotificationRequest set" where
  "held s = ran (pending s) \<union> snd ` set (recently_closed s)"

definition holding :: "'v session_service \<Rightarrow> nat" where
  "holding s = card (dom (pending s)) + length (recently_closed s)"

definition tidy :: "'v session_service \<Rightarrow> bool" where
  "tidy s \<longleftrightarrow> finite (dom (pending s)) \<and> length (recently_closed s) \<le> RECENTLY_CLOSED_NOTIFICATION_LIMIT"

lemma collections_log [simp]:
  "tidy (s\<lparr>desktop_log := l\<rparr>) = tidy s" "tidy (s\<lparr>host_world := w\<rparr>) = tidy s"
  "held (s\<lparr>desktop_log := l\<rparr>) = held s" "held (s\<lparr>host_world := w\<rparr>) = held s"
  "holding (s\<lparr>desktop_log := l\<rparr>) = holding s" "holding (s\<lparr>host_world := w\<rparr>) = holding s"
  by (simp_all add: tidy_def held_def holding_def)

lemma remove_first_some:
  "remove_first n xs = Some (r, rest) \<Longrightarrow> r \<in> snd ` set xs \<and> set rest \<subseteq> set xs \<and> length rest < length xs"
  by (induction n xs arbitrary: r rest rule: remove_first.induct) (fastforce split: if_splits)+

lemma dom_forget: "m n = Some r \<Longrightarrow> finite (dom m) \<Longrightarrow> card (dom (m(n := None))) < card (dom m)"
  using card_Diff1_less [of "dom m" n] by (simp add: domI)

lemma ran_forget: "ran (m(n := None)) \<subseteq> ran m"
  by (auto simp: ran_def split: if_splits)

text \<open>Taking the request of an action: one that is held, and no longer held afterwards.\<close>

lemma wp_take_action_request:
  assumes "tidy s"
  shows "wp (take_action_request n)
    (\<lambda>taken s'. desktop_log s' = desktop_log s \<and> host_world s' = host_world s \<and> tidy s' \<and> held s' \<subseteq> held s \<and>
       (case taken of None \<Rightarrow> s' = s | Some r \<Rightarrow> r \<in> held s \<and> holding s' < holding s)) E s"
proof (cases "pending s n")
  case (Some r)
  then have "r \<in> ran (pending s)" by (auto simp: ran_def)
  then show ?thesis
    using assms Some dom_forget [of "pending s" n r] ran_forget [of "pending s" n]
    by (auto simp: wp_def take_action_request_def tidy_def held_def holding_def)
next
  case None
  show ?thesis
  proof (cases "remove_first n (recently_closed s)")
    case (Some x)
    obtain r rest where x: "x = (r, rest)" by (cases x)
    show ?thesis
      using assms None Some remove_first_some [of n "recently_closed s" r rest]
      by (auto simp: wp_def take_action_request_def tidy_def held_def holding_def x)
  qed (use assms None in \<open>simp add: wp_def take_action_request_def\<close>)
qed

lemma remember_keeps:
  assumes "tidy s" and "pending s n = Some r"
  defines "s' \<equiv> remember_recently_closed n r (s\<lparr>pending := (pending s)(n := None)\<rparr>)"
  shows "tidy s' \<and> held s' \<subseteq> held s \<and> holding s' \<le> holding s \<and> desktop_log s' = desktop_log s"
proof -
  have "r \<in> ran (pending s)" using assms(2) by (auto simp: ran_def)
  moreover have "set (tl (recently_closed s)) \<subseteq> set (recently_closed s)"
    by (cases "recently_closed s") auto
  ultimately show ?thesis
    using assms(1,2) dom_forget [of "pending s" n r] ran_forget [of "pending s" n]
    by (auto simp: s'_def remember_recently_closed_def Let_def tidy_def held_def holding_def
        RECENTLY_CLOSED_NOTIFICATION_LIMIT_def)
qed

text \<open>What handling a signal may do: at most one action, paid for with a held request.\<close>

definition handled :: "NotificationSignal \<Rightarrow> 'v session_service \<Rightarrow> 'v session_service \<Rightarrow> bool" where
  "handled signal s s' \<longleftrightarrow> tidy s' \<and> held s' \<subseteq> held s \<and>
     (desktop_log s' = desktop_log s \<and> holding s' \<le> holding s \<or>
      (\<exists>e n key r. desktop_log s' = e # desktop_log s \<and> acts e \<and> signal = ActionInvoked n key \<and> r \<in> held s \<and>
         holding s' < holding s \<and> (\<forall>url x. e = OpenerRan url x \<longrightarrow> url = req_release_url r)))"

lemma wp_handle_notification_signal:
  assumes "tidy s"
  shows "wp (handle_notification_signal dk prefs cp signal) (\<lambda>_. handled signal s) (\<lambda>_. handled signal s) s"
proof (cases signal)
  case (ActivationToken n token)
  then show ?thesis using assms by (simp add: handle_notification_signal_def wp_rules handled_def)
next
  case (NotificationClosed n reason)
  show ?thesis
    using remember_keeps [OF assms, of n] assms
    by (auto simp: handle_notification_signal_def NotificationClosed wp_def handled_def split: option.splits)
next
  case (ActionInvoked n key)
  show ?thesis
    unfolding handle_notification_signal_def ActionInvoked NotificationSignal.case
  proof (rule wp_bindI [OF wp_take_action_request [OF assms]])
    fix taken s1
    assume s1: "desktop_log s1 = desktop_log s \<and> host_world s1 = host_world s \<and> tidy s1 \<and> held s1 \<subseteq> held s \<and>
       (case taken of None \<Rightarrow> s1 = s | Some r \<Rightarrow> r \<in> held s \<and> holding s1 < holding s)"
    have disable: "wp (disable_automatic_update_checks prefs cp) (\<lambda>_. handled (ActionInvoked n key) s) (\<lambda>_. handled (ActionInvoked n key) s) s1"
      if "taken = Some r" for r
      using s1 that
      by (auto simp: disable_automatic_update_checks_def wp_def handled_def split: prod.splits sum.splits)
    have opened: "wp (open_release dk (req_release_url r)) (\<lambda>_. handled (ActionInvoked n key) s) (\<lambda>_. handled (ActionInvoked n key) s) s1"
      if "taken = Some r" for r
      using s1 that
      by (auto simp: open_release_def wp_rules Let_def handled_def split: sum.splits)
    show "wp (case taken of None \<Rightarrow> returnE None | Some request \<Rightarrow>
              if key = VIEW_RELEASE_ACTION_KEY then
                thenE (open_release dk (req_release_url request)) (returnE (Some ReleaseOpened))
              else if key = DISABLE_UPDATE_CHECKS_ACTION_KEY then
                thenE (disable_automatic_update_checks prefs cp) (returnE (Some UpdateChecksDisabled))
              else returnE (Some UnknownAction)) (\<lambda>_. handled (ActionInvoked n key) s) (\<lambda>_. handled (ActionInvoked n key) s) s1"
      using s1 disable opened by (auto simp: wp_thenE wp_return_eta wp_returnE handled_def [of _ s s1] split: option.splits)
  qed simp
qed

section \<open>Who vouches for a sender\<close>

text \<open>
  Among what the bus daemon said: the sender owns the notification service's name, or it owns the
  shell's name and its process is gnome-shell, by its command name and by its executable.
\<close>

definition vouched :: "desktop \<Rightarrow> desktop_event list \<Rightarrow> string \<Rightarrow> bool" where
  "vouched dk es sender \<longleftrightarrow>
     OwnerAsked NOTIFICATION_SERVICE (Inr sender) \<in> set es \<or>
     OwnerAsked GNOME_SHELL_BUS_NAME (Inr sender) \<in> set es \<and>
       (\<exists>pid. ProcessAsked sender (Inr pid) \<in> set es \<and>
          process_identity_is_gnome_shell (read_bus_process_identity dk pid))"

definition only_logged :: "'v session_service \<Rightarrow> desktop_event list \<Rightarrow> 'v session_service \<Rightarrow> bool" where
  "only_logged s new s' \<longleftrightarrow> s' = s\<lparr>desktop_log := new @ desktop_log s\<rparr> \<and> \<not> list_ex acts new"

lemma logged_intros:
  "\<not> acts a \<Longrightarrow> P [a] \<Longrightarrow> \<exists>new. only_logged s new (s\<lparr>desktop_log := a # desktop_log s\<rparr>) \<and> P new"
  "\<not> acts a \<Longrightarrow> \<not> acts b \<Longrightarrow> P [b, a] \<Longrightarrow> \<exists>new. only_logged s new (s\<lparr>desktop_log := b # a # desktop_log s\<rparr>) \<and> P new"
  "\<not> acts a \<Longrightarrow> \<not> acts b \<Longrightarrow> \<not> acts c \<Longrightarrow> P [c, b, a] \<Longrightarrow>
   \<exists>new. only_logged s new (s\<lparr>desktop_log := c # b # a # desktop_log s\<rparr>) \<and> P new"
  "\<not> acts a \<Longrightarrow> \<not> acts b \<Longrightarrow> \<not> acts c \<Longrightarrow> \<not> acts d \<Longrightarrow> P [d, c, b, a] \<Longrightarrow>
   \<exists>new. only_logged s new (s\<lparr>desktop_log := d # c # b # a # desktop_log s\<rparr>) \<and> P new"
  unfolding only_logged_def by (intro exI conjI; (assumption | simp))+

lemma wp_trusted_senders:
  "wp (trusted_notification_signal_senders dk)
     (\<lambda>owners s'. \<exists>new. only_logged s new s' \<and> (\<forall>sender\<in>set owners. vouched dk new sender))
     (\<lambda>_ s'. \<exists>new. only_logged s new s') s"
  unfolding trusted_notification_signal_senders_def current_bus_name_owner_def
    current_bus_name_owner_process_identity_def
  by (auto simp: wp_rules Let_def vouched_def trusted_notification_signal_senders_from_candidates_def
      split: sum.splits intro!: logged_intros logged_intros(1) [where P = "\<lambda>_. True", simplified])

text \<open>Receiving a signal: nothing but log lines, or one dispatched action of a vouched sender.\<close>

definition received :: "desktop \<Rightarrow> dbus_message \<Rightarrow> 'v session_service \<Rightarrow> 'v session_service \<Rightarrow> bool" where
  "received dk message s s' \<longleftrightarrow> tidy s' \<and> held s' \<subseteq> held s \<and>
     (\<exists>new. desktop_log s' = new @ desktop_log s \<and>
        (\<not> list_ex acts new \<and> holding s' \<le> holding s \<or>
         (\<exists>e bus_signal sender n key r.
            filter acts new = [e] \<and> bus_signal_from_dbus_message message = Inr bus_signal \<and>
            sig_sender bus_signal = Some sender \<and> vouched dk new sender \<and>
            parse_notification_signal bus_signal = Some (ActionInvoked n key) \<and>
            r \<in> held s \<and> holding s' < holding s \<and>
            (\<forall>url x. e = OpenerRan url x \<longrightarrow> url = req_release_url r))))"

lemma wp_dispatch_signal:
  assumes "tidy s1" and "only_logged s new s1" and "bus_signal_from_dbus_message message = Inr bus_signal"
    and "parse_notification_signal bus_signal = Some signal" and "sig_sender bus_signal = Some sender"
    and "vouched dk new sender"
  shows "wp (dispatch_signal dk prefs cp signal) (\<lambda>_. received dk message s) (\<lambda>_. received dk message s) s1"
proof -
  have s: "held s1 = held s" "holding s1 = holding s" "desktop_log s1 = new @ desktop_log s" "filter acts new = []" "\<not> list_ex acts new"
    using assms(2) by (auto simp: only_logged_def filter_empty_conv list_ex_iff)
  have "received dk message s (s2\<lparr>desktop_log := Printed line # desktop_log s2\<rparr>)" if h: "handled signal s1 s2" for s2 line
    using h unfolding handled_def
  proof (elim conjE disjE exE)
    assume "tidy s2" "held s2 \<subseteq> held s1" "desktop_log s2 = desktop_log s1" "holding s2 \<le> holding s1"
    then show ?thesis
      using s by (auto simp: received_def intro!: exI [of _ "Printed line # new"])
  next
    fix e n key r
    assume "tidy s2" "held s2 \<subseteq> held s1" "desktop_log s2 = e # desktop_log s1" "acts e" "signal = ActionInvoked n key"
      "r \<in> held s1" "holding s2 < holding s1" "\<forall>url x. e = OpenerRan url x \<longrightarrow> url = req_release_url r"
    moreover have "vouched dk (Printed line # e # new) sender" using assms(6) by (auto simp: vouched_def)
    ultimately show ?thesis
      using s assms(3-5) unfolding received_def by (intro conjI exI [of _ "Printed line # e # new"] disjI2) auto
  qed
  then show ?thesis
    unfolding dispatch_signal_def wp_bindE wp_tryE
    by (intro wp_mono [OF wp_handle_notification_signal [OF assms(1)]]) (auto simp: wp_rules split: option.splits)
qed

lemma wp_receive_signal:
  assumes "tidy s"
  shows "wp (receive_signal dk prefs cp message) (\<lambda>_. received dk message s) (\<lambda>_. received dk message s) s"
proof -
  have logged: "received dk message s (s1\<lparr>desktop_log := Printed line # desktop_log s1\<rparr>)" if "only_logged s new s1" for new s1 line
    using that assms by (auto simp: received_def only_logged_def intro!: exI [of _ "Printed line # new"])
  have plain: "only_logged s [] s" by (simp add: only_logged_def)
  show ?thesis
  proof (cases "bus_signal_from_dbus_message message")
    case (Inl e)
    then show ?thesis using logged [OF plain] by (simp add: receive_signal_def wp_rules)
  next
    case bus: (Inr bus_signal)
    show ?thesis
    proof (cases "parse_notification_signal bus_signal")
      case None
      then show ?thesis using bus logged [OF plain] by (simp add: receive_signal_def wp_rules)
    next
      case signal: (Some signal)
      have step: "wp (if \<not> notification_signal_sender_is_trusted bus_signal owners then printE line
          else dispatch_signal dk prefs cp signal) (\<lambda>_. received dk message s) (\<lambda>_. received dk message s) s1"
        if "only_logged s new s1" and "\<forall>sender\<in>set owners. vouched dk new sender" for owners new s1 line
      proof -
        have "tidy s1" using that(1) assms by (auto simp: only_logged_def)
        then show ?thesis
          using that logged [OF that(1)] bus signal wp_dispatch_signal [of s1 s new message bus_signal signal]
          by (cases "sig_sender bus_signal") (auto simp: wp_rules notification_signal_sender_is_trusted_def)
      qed
      show ?thesis
        unfolding receive_signal_def bus signal sum.case option.case wp_bindE wp_tryE
        by (rule wp_mono [OF wp_trusted_senders], elim exE conjE, rule step, assumption+)
          (auto simp: wp_rules logged)
    qed
  qed
qed

section \<open>The service over time\<close>

text \<open>
  A run of the service: calls of its method and signals from the bus, in any order. The list holds
  the requests whose notification the desktop accepted, newest first.
\<close>

fun shown_now :: "'v semver \<Rightarrow> BusValue list \<Rightarrow> string + BusReply \<Rightarrow> 'v UpdateNotificationRequest list" where
  "shown_now sv body (Inr _) = (case from_bus_body sv body of Inr r \<Rightarrow> [r] | Inl _ \<Rightarrow> [])"
| "shown_now sv body (Inl _) = []"

inductive service_run ::
    "desktop \<Rightarrow> preferences \<Rightarrow> path option \<Rightarrow> 'v semver \<Rightarrow> 'v session_service \<Rightarrow>
      'v UpdateNotificationRequest list \<Rightarrow> 'v session_service \<Rightarrow> bool"
  for dk prefs cp sv s0 where
  service_start: "service_run dk prefs cp sv s0 [] s0"
| service_show:
    "service_run dk prefs cp sv s0 shown s \<Longrightarrow> serve_show_update_notification dk sv body s = (r, s') \<Longrightarrow>
     service_run dk prefs cp sv s0 (shown_now sv body r @ shown) s'"
| service_signal:
    "service_run dk prefs cp sv s0 shown s \<Longrightarrow> receive_signal dk prefs cp message s = (r, s') \<Longrightarrow>
     service_run dk prefs cp sv s0 shown s'"

definition accounted :: "'v UpdateNotificationRequest list \<Rightarrow> 'v session_service \<Rightarrow> bool" where
  "accounted shown s \<longleftrightarrow> tidy s \<and> held s \<subseteq> set shown \<and>
     actions_in (desktop_log s) + holding s \<le> length shown \<and> (\<forall>r\<in>set shown. valid_release_url (req_release_url r))"

lemma from_bus_body_valid: "from_bus_body sv body = Inr r \<Longrightarrow> valid_release_url (req_release_url r)"
  by (auto simp: from_bus_body_def from_dbus_fields_def and_then_def request_new_def
      split: option.splits list.splits sum.splits if_splits)

lemma ran_insert: "ran (m(n \<mapsto> r)) \<subseteq> insert r (ran m)"
  by (auto simp: ran_def)

lemma holding_insert:
  "finite (dom m) \<Longrightarrow> card (dom (m(n \<mapsto> r))) \<le> Suc (card (dom m))"
  by (simp add: card_insert_if)

lemma accounted_log:
  "actions_in l = actions_in (desktop_log s) \<Longrightarrow> accounted shown (s\<lparr>desktop_log := l\<rparr>) = accounted shown s"
  by (simp add: accounted_def)

lemma accounted_more:
  "accounted shown s \<Longrightarrow> valid_release_url (req_release_url r) \<Longrightarrow> accounted (r # shown) s"
  by (auto simp: accounted_def)

lemma accounted_insert:
  assumes "accounted shown s" and "valid_release_url (req_release_url r)"
  shows "accounted (r # shown) (s\<lparr>pending := (pending s)(n \<mapsto> r)\<rparr>)"
proof -
  have "finite (dom (pending s))" using assms by (simp add: accounted_def tidy_def)
  then have "card (dom ((pending s)(n \<mapsto> r))) \<le> Suc (card (dom (pending s)))" by (rule holding_insert)
  then show ?thesis
    using assms ran_insert [of "pending s" n r] by (auto simp: accounted_def tidy_def held_def holding_def)
qed

lemma wp_serve_show:
  assumes "accounted shown s"
  shows "wp (serve_show_update_notification dk sv body)
    (\<lambda>reply. accounted (shown_now sv body (Inr reply) @ shown)) (\<lambda>_. accounted shown) s"
proof (cases "from_bus_body sv body")
  case (Inl e)
  then show ?thesis using assms by (simp add: serve_show_update_notification_def wp_rules)
next
  case (Inr r)
  note valid = from_bus_body_valid [OF Inr]
  have l: "accounted shown (s\<lparr>desktop_log := b # a # desktop_log s\<rparr>)" if "\<not> acts a" "\<not> acts b" for a b
    using assms that by (simp add: accounted_log actions_in_def)
  show ?thesis
    using Inr assms valid accounted_insert [OF l valid] accounted_more [OF assms valid] l
    by (simp add: serve_show_update_notification_def show_update_notification_def wp_rules Let_def
        accounted_log actions_in_def split: sum.splits)
qed

lemma service_accounted:
  "service_run dk prefs cp sv (dispatcher_new w) shown s \<Longrightarrow> accounted shown s"
proof (induction rule: service_run.induct)
  case service_start
  then show ?case by (simp add: accounted_def dispatcher_new_def tidy_def held_def holding_def actions_in_def)
next
  case (service_show shown s body r s')
  then show ?case using wp_result [OF wp_serve_show service_show.hyps(2), of shown] by (cases r) auto
next
  case (service_signal shown s message r s')
  then have "received dk message s s'"
    using wp_result [OF wp_receive_signal service_signal.hyps(2)] by (cases r) (auto simp: accounted_def)
  then show ?case
    using service_signal.IH by (auto simp: received_def accounted_def actions_in_def filter_empty_conv list_ex_iff)
qed

text \<open>
  C15. What a notification's buttons do is earned. Whenever the session service opens a page or
  switches update checks off, the signal came from a sender that the bus daemon named, in this very
  call, as the owner of the notification service, or as the shell's owner whose process is
  gnome-shell; it was an action signal; the page is that of a release this service has shown, and an
  http or https address; and in the whole run there are never more actions than notifications shown.
  At most sixteen closed notifications are remembered.
\<close>

theorem notice_actions_earned:
  assumes "service_run dk prefs cp sv (dispatcher_new w) shown s"
    and "receive_signal dk prefs cp message s = (x, s')"
    and "desktop_log s' = new @ desktop_log s" and "e \<in> set new" and "acts e"
  shows "\<exists>bus_signal sender n key r.
    bus_signal_from_dbus_message message = Inr bus_signal \<and> sig_sender bus_signal = Some sender \<and>
    vouched dk new sender \<and> parse_notification_signal bus_signal = Some (ActionInvoked n key) \<and>
    r \<in> set shown \<and> (\<forall>url y. e = OpenerRan url y \<longrightarrow> url = req_release_url r \<and> valid_release_url url) \<and>
    actions_in (desktop_log s') \<le> length shown \<and> length (recently_closed s') \<le> 16"
proof -
  have a: "accounted shown s" by (rule service_accounted [OF assms(1)])
  have after: "accounted shown s'" by (rule service_accounted [OF service_signal [OF assms(1,2)]])
  have "received dk message s s'"
    using wp_result [OF wp_receive_signal assms(2)] a by (cases x) (auto simp: accounted_def)
  moreover have "list_ex acts new" using assms(4,5) by (auto simp: list_ex_iff)
  ultimately obtain e' bus_signal sender n key r where f: "filter acts new = [e']"
    "bus_signal_from_dbus_message message = Inr bus_signal" "sig_sender bus_signal = Some sender" "vouched dk new sender"
    "parse_notification_signal bus_signal = Some (ActionInvoked n key)" "r \<in> held s"
    "\<forall>url x. e' = OpenerRan url x \<longrightarrow> url = req_release_url r"
    using assms(3) by (auto simp: received_def)
  have "e \<in> set (filter acts new)" using assms(4,5) by simp
  then have "e' = e" by (simp add: f(1))
  moreover have "r \<in> set shown" "valid_release_url (req_release_url r)" using a f(6) by (auto simp: accounted_def)
  ultimately show ?thesis
    using f after by (auto simp: accounted_def tidy_def RECENTLY_CLOSED_NOTIFICATION_LIMIT_def)
qed

section \<open>A notification and its button\<close>

definition example_texts :: "string semver" where
  "example_texts = \<lparr>sv_parse = Inr, sv_show = (\<lambda>v. v), sv_less = (\<noteq>)\<rparr>"

definition example_desktop :: desktop where
  "example_desktop =
     \<lparr>get_capabilities = (\<lambda>_. Inr [''actions'']), notify_call = (\<lambda>_ _. Inr 7),
      xdg_open = (\<lambda>_ _. Inr (True, [], ''exit status: 0'')), name_owner_of = (\<lambda>_ _. Inr '':1.5''),
      process_id_of = (\<lambda>_ _. Inr 42), proc_comm = (\<lambda>_. None), proc_exe = (\<lambda>_. None), show_duration = (\<lambda>_. [])\<rparr>"

definition example_preferences :: preferences where
  "example_preferences =
     \<lparr>pref_env = calm, pref_host = example_host, pref_services = systemd_controller example_systemctl,
      pref_preflight = (\<lambda>_ _. returnE ()), pref_presentation = RawBackend, pref_probe = example_probe,
      pref_config_path = Inr example_config_path, pref_assess = returnE ()\<rparr>"

definition example_notice :: "string UpdateNotificationRequest" where
  "example_notice = \<lparr>req_check_channel = Stable, req_current_version = ''1.0.0'', req_current_channel = StableBuild,
     req_latest_version = ''1.1.0'', req_latest_channel = Stable, req_release_url = ''https://r/1.1.0''\<rparr>"

definition example_action :: "string \<Rightarrow> dbus_message" where
  "example_action key = \<lparr>msg_is_signal = True, msg_sender = Some '':1.5'', msg_path = Some NOTIFICATION_PATH,
     msg_interface = Some NOTIFICATION_INTERFACE, msg_member = Some ''ActionInvoked'', msg_items = [ItemUInt32 7, ItemStr key]\<rparr>"

definition example_shown :: "string session_service" where
  "example_shown =
     \<lparr>pending = [7 \<mapsto> example_notice], recently_closed = [],
      desktop_log = [NotifyCalled (from_notification (update_notification example_texts example_notice True)) (Inr 7),
        CapabilitiesAsked (Inr [''actions''])],
      host_world = fresh_world\<rparr>"

lemma example_show:
  "serve_show_update_notification example_desktop example_texts (to_bus_body example_texts example_notice)
     (dispatcher_new fresh_world) = (Inr (BusReply [BusString ''sent'']), example_shown)"
  "from_bus_body example_texts (to_bus_body example_texts example_notice) = Inr example_notice"
proof -
  have "valid_release_url (req_release_url example_notice)"
    by (simp add: example_notice_def valid_release_url_def trim_def is_whitespace_def starts_with_def)
  then show b: "from_bus_body example_texts (to_bus_body example_texts example_notice) = Inr example_notice"
    by (intro from_to_bus_body) (simp_all add: semver_prints_def example_texts_def)
  show "serve_show_update_notification example_desktop example_texts (to_bus_body example_texts example_notice)
     (dispatcher_new fresh_world) = (Inr (BusReply [BusString ''sent'']), example_shown)"
    by (simp add: serve_show_update_notification_def show_update_notification_def b bindE_def mapErrE_def liftR_def thenE_def
        desktopE_def example_desktop_def from_capability_names_def dispatcher_new_def modifyE_def returnE_def example_shown_def Let_def)
qed

lemma example_signal:
  "bus_signal_from_dbus_message (example_action key) =
     Inr \<lparr>sig_sender = Some '':1.5'', sig_path = NOTIFICATION_PATH, sig_interface = NOTIFICATION_INTERFACE,
          sig_member = ''ActionInvoked'', sig_body = [U32 7, BusString key]\<rparr>"
  "parse_notification_signal \<lparr>sig_sender = Some '':1.5'', sig_path = NOTIFICATION_PATH, sig_interface = NOTIFICATION_INTERFACE,
          sig_member = ''ActionInvoked'', sig_body = [U32 7, BusString key]\<rparr> = Some (ActionInvoked 7 key)"
  by (simp_all add: bus_signal_from_dbus_message_def example_action_def present_def parse_notification_signal_def pair_body_def)

lemma example_click:
  "\<exists>line. receive_signal example_desktop example_preferences None (example_action VIEW_RELEASE_ACTION_KEY) example_shown =
     (Inr (), example_shown\<lparr>pending := Map.empty, desktop_log :=
        [Printed line, OpenerRan ''https://r/1.1.0'' (Inr (True, [], ''exit status: 0'')), ProcessAsked '':1.5'' (Inr 42),
         OwnerAsked GNOME_SHELL_BUS_NAME (Inr '':1.5''), OwnerAsked NOTIFICATION_SERVICE (Inr '':1.5'')] @
        desktop_log example_shown\<rparr>)"
  by (simp add: receive_signal_def example_signal trusted_notification_signal_senders_def current_bus_name_owner_def
      current_bus_name_owner_process_identity_def example_desktop_def bindE_def tryE_def mapErrE_def desktopE_def Let_def returnE_def
      trusted_notification_signal_senders_from_candidates_def notification_signal_sender_is_trusted_def dispatch_signal_def
      handle_notification_signal_def take_action_request_def example_shown_def open_release_def thenE_def printE_def modifyE_def
      example_notice_def)

theorem notice_actions_earned_witness:
  "\<exists>line. vouched example_desktop
     [Printed line, OpenerRan ''https://r/1.1.0'' (Inr (True, [], ''exit status: 0'')), ProcessAsked '':1.5'' (Inr 42),
      OwnerAsked GNOME_SHELL_BUS_NAME (Inr '':1.5''), OwnerAsked NOTIFICATION_SERVICE (Inr '':1.5'')] '':1.5'' \<and>
    valid_release_url ''https://r/1.1.0''"
proof -
  have run: "service_run example_desktop example_preferences None example_texts (dispatcher_new fresh_world) [example_notice] example_shown"
    using service_show [OF service_start example_show(1), of example_preferences None] by (simp add: example_show(2))
  obtain line where c: "receive_signal example_desktop example_preferences None (example_action VIEW_RELEASE_ACTION_KEY) example_shown =
     (Inr (), example_shown\<lparr>pending := Map.empty, desktop_log :=
        [Printed line, OpenerRan ''https://r/1.1.0'' (Inr (True, [], ''exit status: 0'')), ProcessAsked '':1.5'' (Inr 42),
         OwnerAsked GNOME_SHELL_BUS_NAME (Inr '':1.5''), OwnerAsked NOTIFICATION_SERVICE (Inr '':1.5'')] @
        desktop_log example_shown\<rparr>)" using example_click by blast
  let ?e = "OpenerRan ''https://r/1.1.0'' (Inr (True, [], ''exit status: 0''))"
  let ?new = "[Printed line, ?e, ProcessAsked '':1.5'' (Inr 42), OwnerAsked GNOME_SHELL_BUS_NAME (Inr '':1.5''),
      OwnerAsked NOTIFICATION_SERVICE (Inr '':1.5'')]"
  note earned = notice_actions_earned [OF run c, where new = ?new and e = ?e]
  have "vouched example_desktop ?new '':1.5'' \<and> valid_release_url ''https://r/1.1.0''"
    using earned by (auto simp: example_signal)
  then show ?thesis by blast
qed

end
