(* ===== verification/Update_Consent.thy ===== *)
theory Update_Consent
  imports Updates_Proofs Notices_Proofs
begin

text \<open>
  The composition of the session service, the settings and the update check: what \<open>Never Notify
  Again\<close> promises is kept by the next background check.
\<close>

section \<open>Switching the checks off\<close>

lemma disabled_value:
  assumes "mutation_set binding store ''updates.auto_check'' ''disabled'' = Inr m"
  shows "mut_definition m = setting_updates_AUTO_CHECK" and "mut_new_value m = Some (EnumValue ''disabled'')"
  using assms
  by (auto simp: mutation_set_def update_settings_registered Let_def setting_parse_simps setting_updates_AUTO_CHECK_def
      split: sum.splits if_splits)

lemma checks_disabled_after:
  assumes "mutation_set binding (store_of path c ds) ''updates.auto_check'' ''disabled'' = Inr m"
    and "parse_config_entries (unwrap_or c' []) = mutated_entries m e"
  shows "automatic_checks_enabled (store_of path c' ds) = Inr False"
proof -
  note sound = mutation_set_sound [OF assms(1)] and d = disabled_value [OF assms(1)]
  let ?d = setting_updates_AUTO_CHECK
  have entries: "store_entries (store_of path c' ds) = mutated_entries m e"
    using assms(2) by (cases c') (simp_all add: store_of_def parse_config_entries_def lines_def)
  have r: "?d \<in> set SETTINGS_REGISTRY" by (simp add: SETTINGS_REGISTRY_def)
  have "effective_definition (store_of path c' ds) ?d = effective_saved (mutated_entries m e) ?d"
    using unmanaged_effective [of path c ds ?d c'] sound d(1) entries by simp
  moreover have "eff_value (effective_saved (mutated_entries m e) ?d) = Some (EnumValue ''disabled'')"
    using effective_mutated(2) [of m ?d e] sound d r by simp
  moreover have "eff_invalid_value (effective_saved (mutated_entries m e) ?d) = None"
    using calculation(2) by (auto simp: effective_saved_def split: option.splits sum.splits)
  ultimately show ?thesis
    by (simp add: automatic_checks_enabled_def required_enum_setting_def effective_by_name_def update_settings_registered
        required_value_def)
qed

lemma wp_run_disable_checks:
  assumes "canonical_config (pref_host prefs) path path" and "\<forall>tr. decls_at (pref_host prefs) path tr = Inr ds"
    and "pref_services prefs = systemd_controller sc"
  shows "wp (run_disable_checks prefs (Some path))
    (\<lambda>_ w'. automatic_checks_enabled (store_of path (files w' path) ds) = Inr False) (\<lambda>_ _. True) w"
proof -
  let ?env = "buffer_env (pref_env prefs)" and ?host = "pref_host prefs"
  let ?off = "\<lambda>w'. automatic_checks_enabled (store_of path (files w' path) ds) = Inr False"
  have load: "wp (store_load ?env ?host path) (\<lambda>store w'. w' = w \<and> store = store_of path (files w path) ds) (\<lambda>_ _. True) w"
    using assms(2) unfolding store_load_def
    by (auto simp: wp_rules split: option.splits)
  have wrote: "wp (write_mutation_outcome env outcome) (\<lambda>_ w'. files w' = files w1) (\<lambda>_ _. True) w1" for env outcome w1
    unfolding write_mutation_outcome_def write_change_def out_line_def
    by (auto simp: wp_rules split: sum.splits option.splits)
  have run: "wp (run_mutation ?env ?host (systemd_controller sc) (store_of path (files w path) ds) m) (\<lambda>_. ?off) (\<lambda>_ _. True) w"
    if m: "mutation_set binding (store_of path (files w path) ds) ''updates.auto_check'' ''disabled'' = Inr m" for binding m
  proof -
    have "sound_mutation m" using mutation_set_sound [OF m] by simp
    have sp: "store_path (store_of path (files w path) ds) = path" by (simp add: store_of_def)
    have "wp (write_mutation_outcome ?env outcome) (\<lambda>_. ?off) (\<lambda>_ _. True) w1"
      if "all_or_nothing path m w (Inr (out_change outcome)) w1" for outcome w1
      by (rule wp_mono [OF wrote])
        (use that checks_disabled_after [OF m] in \<open>auto simp: all_or_nothing_def\<close>)
    then show ?thesis
      unfolding run_mutation_def wp_bindE wp_mapErrE sp
      by (intro wp_mono [OF sd.wp_execute_settings_mutation [OF assms(1) \<open>sound_mutation m\<close>]]) auto
  qed
  have "wp (runner_run ?env ?host (systemd_controller sc) pre presentation (store_of path (files w path) ds) disable_checks_command)
      (\<lambda>_. ?off) (\<lambda>_ _. True) w" for pre presentation
    using run disabled_value
    by (auto simp: runner_run_def disable_checks_command_def wp_rules preflight_if_required_def
        setting_updates_AUTO_CHECK_def split: sum.splits)
  then show ?thesis
    unfolding run_disable_checks_def Let_def option.case assms(3)
    by (intro wp_bindI [OF load]) auto
qed

lemma map_sum_ok: "map_sum f id x = Inr a \<longleftrightarrow> x = Inr a"
  by (cases x) simp_all

section \<open>The background check\<close>

text \<open>What such a check prints: that checks are disabled, or who manages updates if LG Buddy does not.\<close>

definition skip_lines :: "'v update_setup \<Rightarrow> string list" where
  "skip_lines su =
     (if externally_updated (set_ownership su)
      then [''updates: managed externally'' @ newline, unwrap_or (update_install_guidance (set_ownership su)) [] @ newline]
      else [''background: skipped (automatic update checks disabled)'' @ newline])"

definition prints :: "string list \<Rightarrow> world \<Rightarrow> world" where
  "prints ls w = foldl (\<lambda>w l. emit (Wrote l) w) w ls"

lemma prints_files: "files (prints ls w) = files w"
  by (induction ls arbitrary: w) (simp_all add: prints_def)

definition skips :: "'v update_setup \<Rightarrow> 'v update_world \<Rightarrow> UpdatesError + unit \<Rightarrow> 'v update_world \<Rightarrow> bool" where
  "skips su u x u' \<longleftrightarrow>
     (\<exists>n. u' = u\<lparr>machine := prints (take n (skip_lines su)) (machine u)\<rparr> \<and>
        (case x of
           Inr _ \<Rightarrow> n = length (skip_lines su)
         | Inl e \<Rightarrow> n < length (skip_lines su) \<and> ((\<exists>io. e = Updates_Io io) \<or> n = 0 \<and> (\<exists>err. e = UpdateSettingsError err))))"

lemma wp_background_disabled:
  assumes "set_config_path su = Inr path" and "\<forall>tr. decls_at (set_config_host su) path tr = Inr ds"
    and "automatic_checks_enabled (store_of path (files (machine u) path) ds) = Inr False"
  shows "wp (run_updates_command su at BackgroundCheck) (\<lambda>x. skips su u (Inr x)) (\<lambda>e. skips su u (Inl e)) u"
proof -
  have load: "wp (settings_from_env su) (\<lambda>store u'. u' = u \<and> store = store_of path (files (machine u) path) ds)
      (\<lambda>e u'. u' = u \<and> (\<exists>err. e = UpdateSettingsError err)) u"
    using assms(1,2) unfolding settings_from_env_def store_load_def
    by (auto simp: wp_rules split: option.splits)
  show ?thesis
  proof (cases "externally_updated (set_ownership su)")
    case True
    then have lines: "skip_lines su = [''updates: managed externally'' @ newline,
        unwrap_or (update_install_guidance (set_ownership su)) [] @ newline]" by (simp add: skip_lines_def)
    show ?thesis
      using True
      by (auto simp: run_updates_command_def wp_rules skips_def lines prints_def split: option.splits
          intro: exI [of _ 0] exI [of _ 1] exI [of _ 2])
  next
    case False
    then have lines: "skip_lines su = [''background: skipped (automatic update checks disabled)'' @ newline]"
      by (simp add: skip_lines_def)
    have "wp (run_updates_command_with_update_settings (set_host su) (set_env su)
        (context_from_env su (store_of path (files (machine u) path) ds) at) BackgroundCheck)
        (\<lambda>x. skips su u (Inr x)) (\<lambda>e. skips su u (Inl e)) u"
      using assms(3)
      by (auto simp: run_updates_command_with_update_settings_def context_from_env_def Let_def wp_rules skips_def lines prints_def
          split: option.splits intro: exI [of _ 0] exI [of _ 1])
    then show ?thesis
      unfolding run_updates_command_def using False
      by (auto intro!: wp_bindI [OF load] simp: skips_def lines prints_def intro: exI [of _ 0])
  qed
qed

text \<open>
  C13. \<open>Never Notify Again\<close> means it. Once the session service has handled that button with success, a
  background check that reads the same configuration asks GitHub nothing, hands over no notification
  and touches no file, however often it runs and whatever declarations, other assignments or comments
  the configuration has. If it returns normally it has printed exactly that automatic checks are
  disabled (or, for an installation managed by somebody else, who manages its updates); otherwise
  it failed to read the settings or to print.
\<close>

theorem never_notify_again:
  assumes "handle_notification_signal dk prefs (Some path) signal s = (Inr (Some UpdateChecksDisabled), s')"
    and "canonical_config (pref_host prefs) path path" and "\<forall>tr. decls_at (pref_host prefs) path tr = Inr ds"
    and "pref_services prefs = systemd_controller sc"
    and "set_config_path su = Inr path" and "set_config_host su = pref_host prefs"
    and "files (machine u) path = files (host_world s') path"
    and "run_updates_command su at BackgroundCheck u = (x, u')"
  shows "events u' = events u \<and> files (machine u') = files (machine u) \<and>
    (case x of
       Inr _ \<Rightarrow> machine u' =
         (if externally_updated (set_ownership su)
          then emit (Wrote (unwrap_or (update_install_guidance (set_ownership su)) [] @ newline))
                 (emit (Wrote (''updates: managed externally'' @ newline)) (machine u))
          else emit (Wrote (''background: skipped (automatic update checks disabled)'' @ newline)) (machine u))
     | Inl e \<Rightarrow> (\<exists>io. e = Updates_Io io) \<or> (\<exists>err. e = UpdateSettingsError err))"
proof -
  obtain w where "run_disable_checks prefs (Some path) w = (Inr (), host_world s')"
    using assms(1)
    by (auto simp: handle_notification_signal_def disable_automatic_update_checks_def bindE_def thenE_def returnE_def
        map_sum_ok split: NotificationSignal.splits option.splits if_splits prod.splits sum.splits)
  from wp_result [OF wp_run_disable_checks [OF assms(2-4)] this]
  have "automatic_checks_enabled (store_of path (files (machine u) path) ds) = Inr False"
    using assms(7) by simp
  from wp_result [OF wp_background_disabled [OF assms(5) _ this, of at] assms(8)] assms(3,6)
  have "skips su u x u'" by (auto split: sum.splits)
  then show ?thesis
    by (auto simp: skips_def prints_files skip_lines_def split: sum.splits) (simp_all add: prints_def)
qed

section \<open>At work\<close>

definition consent_preferences :: preferences where
  "consent_preferences = example_preferences\<lparr>pref_services := systemd_controller (example_systemctl\<lparr>sc_skip := True\<rparr>)\<rparr>"

definition consent_setup :: "nat update_setup" where
  "consent_setup = example_setup\<lparr>set_config_path := Inr example_config_path\<rparr>"

lemma consent_mutation:
  "\<exists>m. mutation_set binding (store_of path (Some example_legacy) None) ''updates.auto_check'' ''disabled'' = Inr m"
  by (simp add: mutation_set_def update_settings_registered ensure_operation_supported_def supports_operation_def
      effective_definition_def effective_saved_def raw_setting_value_def store_of_def legacy_entries reject_managed_def
      setting_updates_AUTO_CHECK_def READ_WRITE_OPERATIONS_def setting_parse_simps)

lemma consent_applies:
  assumes "mut_definition (ch_mutation change) = setting_updates_AUTO_CHECK"
    and "mut_new_value (ch_mutation change) = Some v" and "mut_action (ch_mutation change) = ActionSet"
    and "writer_fault env = (\<lambda>_. None)"
  shows "wp (apply_change example_host (systemd_controller (example_systemctl\<lparr>sc_skip := True\<rparr>)) change)
    (\<lambda>outcome. wp (write_mutation_outcome env outcome) (\<lambda>_ _. True) (\<lambda>_ _. False)) (\<lambda>_ _. False) w"
  using assms
  by (simp add: apply_change_def apply_setting_def apply_check_timer_def progress_def wp_rules ensure_mutable_def example_host_def
      setting_updates_AUTO_CHECK_def systemd_controller_def example_systemctl_def write_mutation_outcome_def write_change_def
      change_line_def new_value_def out_line_def Let_def split: option.splits)

lemma consent_runs:
  "wp (run_disable_checks consent_preferences (Some example_config_path)) (\<lambda>_ _. True) (\<lambda>_ _. False) example_legacy_world"
proof -
  let ?env = "buffer_env calm" and ?store = "store_of example_config_path (Some example_legacy) None"
  let ?sc = "systemd_controller (example_systemctl\<lparr>sc_skip := True\<rparr>)"
  have env: "writer_fault ?env = (\<lambda>_. None)" by (simp add: buffer_env_def)
  have load: "store_load ?env example_host example_config_path example_legacy_world = (Inr ?store, example_legacy_world)"
    by (rule wp_eqI) (simp add: store_load_def wp_rules example_host_def example_legacy_world_def buffer_env_def)
  obtain m where m: "mutation_set (binding_of example_host example_config_path (trace example_legacy_world)) ?store
      ''updates.auto_check'' ''disabled'' = Inr m" using consent_mutation by blast
  note sound = mutation_set_sound [OF m] and d = disabled_value [OF m]
  have w: "willing ?env example_host example_config_path (emit (Progressed (stage_name Persisting)) example_legacy_world)"
    using temp_not_config [of ?env example_config_path] example_willing
    by (simp add: willing_def example_host_def example_legacy_world_def) (simp add: buffer_env_def)
  have "wp (persist_settings_mutation ?env example_host example_config_path m)
      (\<lambda>change w. ch_mutation change = m) (\<lambda>_ _. False) (emit (Progressed (stage_name Persisting)) example_legacy_world)"
    by (rule wp_mono [OF wp_conj [OF persist_works [OF example_canonical _ w] wp_persist [OF example_canonical]]])
      (use sound in \<open>auto simp: example_legacy_world_def all_or_nothing_def\<close>)
  then have "wp (run_mutation ?env example_host ?sc ?store m) (\<lambda>_ _. True) (\<lambda>_ _. False) example_legacy_world"
    unfolding run_mutation_def execute_settings_mutation_def progress_def wp_bindE wp_mapErrE wp_thenE wp_modifyE store_of_def
    by (simp, elim wp_mono) (use sound d env in \<open>auto intro!: consent_applies\<close>)
  then show ?thesis
    using load d m
    by (simp add: run_disable_checks_def consent_preferences_def example_preferences_def Let_def wp_bindE wp_def [of "store_load _ _ _"]
        runner_run_def disable_checks_command_def wp_getsE wp_liftR wp_thenE preflight_if_required_def
        setting_updates_AUTO_CHECK_def wp_returnE) (simp add: store_of_def wp_rules)
qed

lemma consent_check_runs:
  assumes "automatic_checks_enabled (store_of example_config_path (files (machine u) example_config_path) None) = Inr False"
  shows "wp (run_updates_command consent_setup at BackgroundCheck) (\<lambda>_ _. True) (\<lambda>_ _. False) u"
proof -
  have "wp (settings_from_env consent_setup)
      (\<lambda>store u'. u' = u \<and> store = store_of example_config_path (files (machine u) example_config_path) None) (\<lambda>_ _. False) u"
    unfolding settings_from_env_def store_load_def
    by (auto simp: consent_setup_def example_setup_def wp_rules example_update_env_def split: option.splits)
      (simp_all add: example_host_def wp_rules)
  moreover have "wp (run_updates_command_with_update_settings (set_host consent_setup) (set_env consent_setup)
      (context_from_env consent_setup (store_of example_config_path (files (machine u) example_config_path) None) at) BackgroundCheck)
      (\<lambda>_ _. True) (\<lambda>_ _. False) u"
    using assms
    by (simp add: run_updates_command_with_update_settings_def context_from_env_def Let_def wp_rules consent_setup_def)
  ultimately show ?thesis
    unfolding run_updates_command_def by (auto simp: consent_setup_def elim!: wp_bindI)
qed

definition consent_service :: "string session_service" where
  "consent_service = example_shown\<lparr>host_world := example_legacy_world\<rparr>"

theorem never_notify_again_witness:
  "\<exists>s' u'. handle_notification_signal example_desktop consent_preferences (Some example_config_path)
      (ActionInvoked 7 DISABLE_UPDATE_CHECKS_ACTION_KEY) consent_service = (Inr (Some UpdateChecksDisabled), s') \<and>
    run_updates_command consent_setup 9 BackgroundCheck \<lparr>events = [], machine = host_world s'\<rparr> = (Inr (), u') \<and> events u' = [] \<and>
    machine u' = emit (Wrote (''background: skipped (automatic update checks disabled)'' @ newline)) (host_world s')"
proof -
  obtain x w where x: "run_disable_checks consent_preferences (Some example_config_path) example_legacy_world = (x, w)" by fastforce
  then have "x = Inr ()" using wp_result [OF consent_runs x] by (auto split: sum.splits)
  with x obtain s' where s': "handle_notification_signal example_desktop consent_preferences (Some example_config_path)
      (ActionInvoked 7 DISABLE_UPDATE_CHECKS_ACTION_KEY) consent_service = (Inr (Some UpdateChecksDisabled), s')"
    by (simp add: handle_notification_signal_def take_action_request_def consent_service_def example_shown_def bindE_def thenE_def
        returnE_def disable_automatic_update_checks_def VIEW_RELEASE_ACTION_KEY_def DISABLE_UPDATE_CHECKS_ACTION_KEY_def)
  have c: "pref_services consent_preferences = systemd_controller (example_systemctl\<lparr>sc_skip := True\<rparr>)"
    "canonical_config (pref_host consent_preferences) example_config_path example_config_path"
    "\<forall>tr. decls_at (pref_host consent_preferences) example_config_path tr = Inr None"
    "set_config_path consent_setup = Inr example_config_path" "set_config_host consent_setup = pref_host consent_preferences"
    "\<not> externally_updated (set_ownership consent_setup)"
    using example_canonical
    by (simp_all add: consent_preferences_def example_preferences_def consent_setup_def) (simp_all add: example_host_def)
  have w: "host_world s' = w"
    using s' x by (auto simp: handle_notification_signal_def take_action_request_def consent_service_def example_shown_def
        bindE_def thenE_def returnE_def disable_automatic_update_checks_def VIEW_RELEASE_ACTION_KEY_def DISABLE_UPDATE_CHECKS_ACTION_KEY_def
        split: sum.splits)
  from wp_result [OF wp_run_disable_checks [OF c(2,3,1)] x] \<open>x = Inr ()\<close>
  have "wp (run_updates_command consent_setup 9 BackgroundCheck) (\<lambda>_ _. True) (\<lambda>_ _. False) \<lparr>events = [], machine = w\<rparr>"
    using c by (auto intro!: consent_check_runs)
  then obtain u' where r: "run_updates_command consent_setup 9 BackgroundCheck \<lparr>events = [], machine = host_world s'\<rparr> = (Inr (), u')"
    by (auto simp: w wp_def split: prod.splits sum.splits)
  show ?thesis using never_notify_again [OF s' c(2,3,1,4,5) _ r] c(6) s' r by auto
qed

end
