(* ===== verification/Spec2Isabelle.thy ===== *)
theory Spec2Isabelle
  imports Screen_Proofs Lifecycle_Proofs Runner_Proofs Settings_Apply Lifecycle_Monitor_Proofs Logind_Proofs Update_Consent
begin

text \<open>
  Verification of LG Buddy (\<^verbatim>\<open>src/crates/lg-buddy/src\<close>), a service that turns an LG TV used as
  a desktop monitor off and on together with the desktop session and the machine.

  \<^bold>\<open>The program's parts and how they interact.\<close> A user-session process watches the desktop
  (idle, activity, lock, gamepad) and drives the TV's screen: it blanks when the user is idle,
  powers the TV off after a longer idle time, and restores on activity. A system service handles
  suspend, resume, startup and shutdown, and a NetworkManager hook holds network teardown back until
  the TV has been told to switch off. The two share the TV and a few small files: an ownership
  marker each (\<^verbatim>\<open>screen_off_by_us\<close> in the session's and in the system's runtime directory), and
  for one suspend cycle an attempt marker, an outcome file and a lock file, by which the logind
  handler and the NetworkManager hook decide who acts.

  \<^bold>\<open>Theories.\<close>
  \<^item> \<open>Prelude\<close>: time, results, the effect monad \<open>eff\<close> (state, error or value), weakest
    preconditions \<open>wp\<close>, the invariant calculus \<open>stays\<close> with the locale \<open>world_preorder\<close>.
  \<^item> \<open>Rust_Std\<close>: the parts of the standard library the source uses (integer and text parsing,
    \<open>lines\<close>, \<open>trim\<close>, \<open>Debug\<close> of strings and durations, path operations, \<open>io::Error\<close>).
  \<^item> \<open>LG_Config\<close> (\<^verbatim>\<open>config.rs\<close>): config values, file parsing, staleness, path resolution.
  \<^item> \<open>Tv\<close> (\<^verbatim>\<open>tv.rs\<close>, \<^verbatim>\<open>audio.rs\<close>): errors, inputs, levels, audio operations.
  \<^item> \<open>Events\<close> (\<^verbatim>\<open>events.rs\<close>, \<^verbatim>\<open>session.rs\<close>, the command type of \<^verbatim>\<open>lib.rs\<close>) and
    \<open>Policy\<close> (\<^verbatim>\<open>policy.rs\<close>): what happened, and the trail of decisions, transitions and
    diagnostics that every handler returns.
  \<^item> \<open>Wol\<close> (\<^verbatim>\<open>wol.rs\<close>): magic packet, subnet broadcast, targets, sending.
  \<^item> \<open>World\<close>: the environment of the handlers. What is outside the program (the TV, logind,
    NetworkManager, the clock, the file system's faults, other processes) is the record
    \<open>environment\<close> of functions of the trace so far; \<open>world\<close> holds the files, the lock holders
    and the trace of effects.
  \<^item> \<open>State\<close> (\<^verbatim>\<open>state.rs\<close>): state directories, markers, the outcome file with its atomic
    replacement, the lock. The locale \<open>marker_store\<close> is the contract of a marker; it is
    interpreted for the ownership marker and for the attempt marker.
  \<^item> \<open>Screen\<close>, \<open>Screen_Proofs\<close> (\<^verbatim>\<open>screen.rs\<close>): the session's handlers.
  \<^item> \<open>Lifecycle_Policy\<close>, \<open>Lifecycle\<close>, \<open>Lifecycle_Proofs\<close> (\<^verbatim>\<open>lifecycle.rs\<close>): the pure
    decisions and the handlers of the system service.
  \<^item> \<open>Inactivity\<close> (\<^verbatim>\<open>session/inactivity.rs\<close>): the engine that turns observations into blank,
    power-off and restore decisions.
  \<^item> \<open>Activity\<close> (\<^verbatim>\<open>session/activity.rs\<close>): the mailbox between activity adapters and the loop.
  \<^item> \<open>Inhibition\<close> (\<^verbatim>\<open>inhibition.rs\<close>): the gate that asks the desktop whether blanking is allowed,
    with its worker thread and channels as interleaved steps.
  \<^item> \<open>Runner\<close>, \<open>Runner_Proofs\<close> (\<^verbatim>\<open>session/runner.rs\<close>): dispatcher, handlers and loop of the
    session monitor, for any action executor.
  \<^item> \<open>Session_Bus\<close> (\<^verbatim>\<open>session_bus.rs\<close>): D-Bus values, replies, signals, match rules and the
    conversion of messages; the connection is the record \<open>bus\<close>, whose answers may depend on all that was
    asked before.
  \<^item> \<open>Logind\<close>, \<open>Logind_Proofs\<close> (\<^verbatim>\<open>sources/linux/logind.rs\<close>, \<^verbatim>\<open>runtime_phase.rs\<close>): sleep
    signals, the delay inhibitor, which login session is ours, the observer of the locked hint.
  \<^item> \<open>Actions\<close>, \<open>Actions_Proofs\<close> (\<^verbatim>\<open>session/actions.rs\<close>): the real executor of both monitors. It
    loads the configuration, keeps or rebuilds the TV client and runs the screen and lifecycle handlers.
    The locale \<open>executor_contract\<close> is what a monitor may rely on; it is interpreted (\<open>rx\<close>) on this executor.
  \<^item> \<open>Lifecycle_Monitor\<close>, \<open>Lifecycle_Monitor_Proofs\<close> (\<^verbatim>\<open>session/runner.rs\<close>): the loop of the system
    service around the executor, with the delay inhibitor.
  \<^item> \<open>Settings\<close>, \<open>Config_Editor\<close>, \<open>Config_Agreement\<close> (\<^verbatim>\<open>settings/\<close>,
    \<^verbatim>\<open>config/declarative.rs\<close>): the registry of settings and its checks, typed values, the line editor of the
    configuration, declarations that override it, effective values; what is edited, shown and used agrees.
  \<^item> \<open>Settings_Store\<close> (\<^verbatim>\<open>settings/store.rs\<close>): saving a change under the configuration lock by atomic
    replacement, and taking it back if nobody changed the file since.
  \<^item> \<open>Services\<close>, \<open>Setup_Steps\<close> (\<^verbatim>\<open>settings/service.rs\<close>, \<^verbatim>\<open>setup/\<close>): systemd units and the
    steps that inspect and start them. The locale \<open>passive_services\<close> is what a client relies on (asking
    about services changes no file); it is interpreted (\<open>sd\<close>) on the systemd controller.
  \<^item> \<open>Backend\<close> (\<^verbatim>\<open>backend.rs\<close>): which desktop interface is used.
  \<^item> \<open>Settings_Apply\<close> (\<^verbatim>\<open>settings.rs\<close> and its commands): parsing a command, saving, applying, switching to
    automatic integration, and the printed output.
  \<^item> \<open>Releases\<close>, \<open>Updates\<close>, \<open>Updates_Proofs\<close> (\<^verbatim>\<open>version.rs\<close>, \<^verbatim>\<open>updates.rs\<close>, \<^verbatim>\<open>updates/\<close>): versions and
    releases, the request to GitHub, the cache file, the notification policy and the entry points of the command
    line and the GUI. The locales \<open>update_store\<close> and \<open>update_notifier\<close> are the contracts of the cache and of the
    notifier (interpretations \<open>fs\<close> and \<open>sb\<close>); \<open>update_engine\<close> extends both and is interpreted (\<open>prog\<close>) on the
    program's own context. \<open>Cache_Codec\<close> is one codec that satisfies what is asked of the JSON library.
  \<^item> \<open>Update_Notices\<close>, \<open>Notices_Proofs\<close> (\<^verbatim>\<open>session_notifications.rs\<close>, \<^verbatim>\<open>notifications.rs\<close>): the request on
    the bus, the service that shows notifications and acts on their buttons, and whose signals it trusts.
  \<^item> \<open>Update_Consent\<close>: the session service, the settings and the background check together.

  \<^bold>\<open>What the theorems show.\<close> Each handler is a function from a world to a result and a world, with
  every early return and every failing write as a branch, so a statement about it covers all its
  ways out. The lemmas show when a TV command may be sent, that markers appear only after the TV
  accepted to go dark and disappear only after it is visible or not ours, that the trail tells the
  truth, that the suspend lock is never leaked, that retries and waits are bounded, and that the
  files are replaced atomically. The engine is shown to refine a five-state display protocol and
  never to blank or power off early; the lifecycle monitor is shown to refine a protocol between logind,
  the inhibitor and the TV. The settings lemmas show that an edit changes exactly its setting, that a
  change is saved wholly or not at all, and that an edit somebody else made before the save compared is not
  lost (one between the comparison and the rename is: \<open>late_edit_overwritten\<close>). The update lemmas show that a
  release is announced once, that only newer releases of the chosen channel are announced, that a button acts
  only for a trusted sender and a notification that was shown, and that switching the checks off is obeyed.

  \<^bold>\<open>Bounds and fuel.\<close> The retry loops recurse over the remaining attempts exactly as the source
  counts them. The wait for another owner's outcome (\<open>wait_for_cycle\<close>) recurses on the time left
  until its deadline; the source reads a monotonic clock, the model advances time by what is slept.
  Durations are natural numbers of nanoseconds and instants are points on the same scale with the
  64-bit limit of \<open>checked_add\<close> written out. The endless loops (session monitor, lifecycle monitor, lock
  observer) run for a given list or number of iterations; what is proved holds for every such number, so for
  every prefix of a run that never ends.

  \<^bold>\<open>Interference.\<close> Other processes may change files and locks only while a handler sleeps; every
  other step of a handler is atomic with respect to them. Where a property needs that nobody
  touches a marker meanwhile, it says so (\<open>undisturbed\<close>). While the configuration is saved, other programs
  may change files at the two points where the code guards against them (\<open>meddle\<close>). Checks for updates that
  overlap in time are not covered.

  \<^bold>\<open>Parameters.\<close> What the modelled code asks of the outside is an argument: \<open>environment\<close> for the
  handlers, \<open>bus\<close> for D-Bus, \<open>host\<close> and \<open>tick\<close> for the session loop, \<open>config_host\<close> for canonical
  paths and file ownership, \<open>systemctl\<close> and \<open>install_host\<close> for services, \<open>backend_probe\<close> for the desktop,
  \<open>runtime\<close> for the executor (per client, what the TV answers and whether a credential is stored),
  \<open>update_host\<close> for the HTTP agent and the JSON codecs, \<open>semver\<close> for versions, \<open>desktop\<close> for the notification
  server, the bus daemon, \<^verbatim>\<open>/proc\<close> and \<^verbatim>\<open>xdg-open\<close>, and \<open>session_link\<close> for the update check's own bus connection.
  Two hypotheses state what the libraries document: \<open>codec_faithful\<close> (what is encoded decodes to the same
  cache) and \<open>semver_prints\<close> (a printed version parses back).

  That a file is not valid UTF-8 where it is read as text is one of the read faults of \<open>environment\<close>.

  \<^bold>\<open>Not modelled.\<close> The webOS transport (websocket, TLS, pairing handshake), the GNOME, Wayland and gamepad
  sources, the GTK interface, credential files, migrations, release bundles and the installation of an update are
  I/O or presentation; where the modelled code calls them they are among the parameters above. Privileged
  repair of services, the other steps of the setup flow and the views are left out. Starting threads and
  the choice of the session monitor's sources are outside its loop, as are the start of the notification
  service and its setup and diagnostics methods. Locks poisoned by a panic are left out.
\<close>

section \<open>Handing the TV over between the session and the system service\<close>

lemma rail_leaves_marker:
  assumes "handle_system_suspend_with_outcome env config (marker_new d) (cycle_state_new d') event w =
      (Inr (out, OwnerCompleted), w')"
    and "selects TvSystemSleepPowerOff out"
  shows "marker_exists (marker_new d) w'"
  using wp_result [OF suspend_spec [OF apart_same_dir] assms(1)] assms(2) by (simp add: rail_done_def)

text \<open>
  C3. The TV changes hands cleanly over a suspend cycle. Once the suspend rail has completed a
  power-off the system marker stands, and at every moment at which it stands, each of the session's
  screen actions (blanking, restoring, the timed power-off) is silent, whatever logind says of its
  phase; and once a resume has returned normally, the session is blocked again only if logind
  itself is preparing for sleep.
\<close>

theorem suspend_cycle_hands_over:
  assumes session: "is_session_screen_source (source event)" "is_enabled (system_sleep_wake_policy config)"
    and slept: "handle_system_suspend_with_outcome env config (marker_new d) (cycle_state_new d') sleep_event w =
      (Inr (out, OwnerCompleted), w1)" "selects TvSystemSleepPowerOff out"
    and resumed: "restore_after_system_sleep_with_outcome env config (marker_new d) w2 = (Inr out', w3)"
  shows "marker_exists (marker_new d) w1 \<and>
     (\<forall>w. marker_exists (marker_new d) w \<longrightarrow>
        quiet w (snd (run_screen_off_with_result_for_event env' config m (marker_new d) event w)) \<and>
        quiet w (snd (run_screen_on_with_outcome_for_event env' config m (marker_new d) event w)) \<and>
        quiet w (snd (run_timed_power_off_with_event env' config m (marker_new d) event w))) \<and>
     (lifecycle_owns env' config event (marker_new d) w3 \<longleftrightarrow> phase_provider env' (trace w3) = Pending)"
proof -
  have "lifecycle_owns env' config event (marker_new d) w" if "marker_exists (marker_new d) w" for w
    using session that by (simp add: lifecycle_owns_def)
  moreover have "\<not> marker_exists (marker_new d) w3"
    using wp_result [OF resume_clears resumed] by simp
  ultimately show ?thesis
    using session rail_leaves_marker [OF slept] by (simp add: off_silenced on_silenced timed_silenced lifecycle_owns_def)
qed

theorem suspend_cycle_hands_over_witness:
  "\<exists>out w1 out' w3.
     handle_system_suspend_with_outcome calm example_config (marker_new ''/run/lg_buddy'')
       (cycle_state_new ''/run/lg_buddy'') preparing_event fresh_world = (Inr (out, OwnerCompleted), w1) \<and>
     restore_after_system_sleep_with_outcome calm example_config (marker_new ''/run/lg_buddy'') w1 = (Inr out', w3) \<and>
     quiet w1 (snd (run_timed_power_off_with_event calm example_config example_marker
       (marker_new ''/run/lg_buddy'') (runtime_event DesktopSession SessionIdle) w1))"
proof -
  let ?m = "marker_new ''/run/lg_buddy''" and ?s = "cycle_state_new ''/run/lg_buddy''"
  have nn: "\<not> \<not> is_suspend_event (from_runtime_event preparing_event)" by simp
  have paths: "marker_path ?m = ''/run/lg_buddy/screen_off_by_us''"
    "cycle_path ?s = ''/run/lg_buddy/system_sleep_cycle''" "lock_path ?s = ''/run/lg_buddy/system_sleep_attempt.lock''"
    "attempt_path ?s = ''/run/lg_buddy/system_sleep_attempted''"
    "state_temp_path calm ''/run/lg_buddy/system_sleep_cycle'' 0 = ''/run/lg_buddy/.system_sleep_cycle.7.0.tmp''"
    by (simp_all add: marker_new_def cycle_state_new_def path_join_def SCREEN_OFF_BY_US_MARKER_def
        SYSTEM_SLEEP_ATTEMPTED_MARKER_def SYSTEM_SLEEP_ATTEMPT_LOCK_def SYSTEM_SLEEP_CYCLE_STATE_def
        state_temp_path_def with_file_name_def file_name_def digit_char_def show_nat.simps [of 7] show_nat.simps [of 0])
  have "wp (handle_system_suspend_with_outcome calm example_config ?m ?s preparing_event)
      (\<lambda>res _. snd res = OwnerCompleted \<and> selects TvSystemSleepPowerOff (fst res)) (\<lambda>_ _. False) fresh_world"
    unfolding handle_system_suspend_with_outcome_def if_not_P [OF nn]
    by (simp add: ioE_def handle_system_suspend_owner_with_outcome_def suspend_owner_body_def 
        write_outcome_def write_state_file_def write_and_rename_def upt_conv_Cons wp_rules Let_def
        apply_system_sleep_attempt_transitions_def decide_system_sleep_attempt_start_def
        attempt_system_sleep_power_off_with_outcome_def finish_system_sleep_power_off_def
        render_system_sleep_power_off_result_def apply_system_simps say_def tv_calls
        SYSTEM_PRE_SLEEP_GET_INPUT_RETRIES_def clear_attempt_or_log_def attempt_clear_def marker_exists_def
        decide_system_sleep_cycle_outcome_def unlock_def lock_world_def touch_def system_reasons decides paths)
  then obtain out w1 where s: "handle_system_suspend_with_outcome calm example_config ?m ?s preparing_event
      fresh_world = (Inr (out, OwnerCompleted), w1)" "selects TvSystemSleepPowerOff out"
    by (auto simp: wp_def split: prod.splits sum.splits)
  have "wp (restore_after_system_sleep_with_outcome calm example_config ?m) (\<lambda>_ _. True) (\<lambda>_ _. False) w1"
    using rail_leaves_marker [OF s]
    by (simp add: restore_after_system_sleep_with_outcome_def render_restore_after_system_sleep_start_def
        wait_for_tv_network_def say_flush_def restore_is_allowed_def lifecycle_send_wake_packet_def os_calls
        STARTUP_WAKE_ATTEMPTS_def upt_conv_Cons apply_system_simps say_defs tv_calls Let_def system_reasons)
  then obtain out' w3 where r: "restore_after_system_sleep_with_outcome calm example_config ?m w1 = (Inr out', w3)"
    by (auto simp: wp_def split: prod.splits sum.splits)
  have e: "is_session_screen_source (source (runtime_event DesktopSession SessionIdle))"
    "is_enabled (system_sleep_wake_policy example_config)"
    by (simp_all add: is_session_screen_source_def runtime_event_def is_enabled_def)
  show ?thesis using s r suspend_cycle_hands_over [OF e s r] by blast
qed

end
